(* ===== verification/Mindline_Prelude.thy ===== *)
theory Mindline_Prelude
  imports Main "HOL-Library.List_Lexorder" "HOL-Library.Char_ord" "HOL-Library.AList"
    "HOL-Library.Multiset"
begin

text \<open>
  Shared vocabulary of the development: Go's 64-bit signed integers with their
  wrap-around, the string operations the modelled packages use
  (\<open>strings.TrimSpace\<close>, \<open>strings.HasPrefix\<close>), results with an error side, and the
  generic list, sorting and association-list lemmas that the component theories rely on.

  A Go string is a list of bytes (\<open>string\<close>), ordered bytewise as Go's \<open><\<close> orders
  strings. A Go \<open>map\<close> that is ranged over, counted or marshalled is an association list
  with distinct keys; the order in which Go ranges over it is unspecified, and no result
  below depends on it.
\<close>

section \<open>Collections of facts\<close>

named_theorems wf_intros \<open>well-formedness of the states the operations produce\<close>
named_theorems go_defs \<open>definitions of small helpers, unfolded together\<close>
named_theorems frame_simps \<open>fields an operation leaves as they were\<close>

section \<open>64-bit signed integers\<close>

definition wrap64 :: "int \<Rightarrow> int" where
  "wrap64 x = (x + 2 ^ 63) mod 2 ^ 64 - 2 ^ 63"

definition in64 :: "int \<Rightarrow> bool" where
  "in64 x \<longleftrightarrow> - (2 ^ 63) \<le> x \<and> x < 2 ^ 63"

definition i64_add :: "int \<Rightarrow> int \<Rightarrow> int" where
  "i64_add a b = wrap64 (a + b)"

definition i64_sub :: "int \<Rightarrow> int \<Rightarrow> int" where
  "i64_sub a b = wrap64 (a - b)"

lemma wrap64_in64 [simp]: "in64 (wrap64 x)"
  by (simp add: wrap64_def in64_def)

lemma wrap64_id [simp]: "in64 x \<Longrightarrow> wrap64 x = x"
  by (simp add: wrap64_def in64_def)

lemma i64_add_exact: "in64 (a + b) \<Longrightarrow> i64_add a b = a + b"
  by (simp add: i64_add_def)

lemma i64_sub_exact: "in64 (a - b) \<Longrightarrow> i64_sub a b = a - b"
  by (simp add: i64_sub_def)

lemma i64_sub_nonneg: "0 \<le> b \<Longrightarrow> b \<le> a \<Longrightarrow> in64 a \<Longrightarrow> i64_sub a b = a - b"
  by (rule i64_sub_exact) (simp add: in64_def)

lemma i64_add_in64 [simp]: "in64 (i64_add a b)"
  by (simp add: i64_add_def)

lemma i64_sub_in64 [simp]: "in64 (i64_sub a b)"
  by (simp add: i64_sub_def)

lemma in64_0 [simp]: "in64 0" and in64_1 [simp]: "in64 1"
  by (simp_all add: in64_def)

text \<open>
  The sum of two non-negative 64-bit integers either is exact or comes out negative: this is
  what lets a later sign check catch an overflow.
\<close>

lemma i64_add_nonneg_cases:
  assumes "0 \<le> a" "in64 a" "0 \<le> b" "in64 b"
  shows "i64_add a b = a + b \<or> i64_add a b < 0"
proof (cases "a + b < 2 ^ 63")
  case True
  with assms have "in64 (a + b)" by (simp add: in64_def)
  then show ?thesis by (simp add: i64_add_exact)
next
  case False
  have "(a + b + 2 ^ 63) mod 2 ^ 64 = ((a + b - 2 ^ 63) + 2 ^ 64) mod 2 ^ 64"
    by (simp add: add.commute)
  also have "\<dots> = (a + b - 2 ^ 63) mod 2 ^ 64" by (rule mod_add_self2)
  also from assms False have "\<dots> = a + b - 2 ^ 63"
    by (intro mod_pos_pos_trivial) (auto simp: in64_def)
  finally show ?thesis using assms by (simp add: i64_add_def wrap64_def in64_def)
qed

section \<open>Strings\<close>

text \<open>
  \<open>unicode.IsSpace\<close>, as UTF-8 byte sequences: tab, LF, VT, FF, CR, space, U+0085, U+00A0,
  U+1680, U+2000 to U+200A, U+2028, U+2029, U+202F, U+205F and U+3000.
\<close>

definition space_seqs :: "string list" where
  "space_seqs =
     [[CHR 0x09], [CHR 0x0A], [CHR 0x0B], [CHR 0x0C], [CHR 0x0D], [CHR 0x20],
      [CHR 0xC2, CHR 0x85], [CHR 0xC2, CHR 0xA0], [CHR 0xE1, CHR 0x9A, CHR 0x80],
      [CHR 0xE2, CHR 0x80, CHR 0x80], [CHR 0xE2, CHR 0x80, CHR 0x81],
      [CHR 0xE2, CHR 0x80, CHR 0x82], [CHR 0xE2, CHR 0x80, CHR 0x83],
      [CHR 0xE2, CHR 0x80, CHR 0x84], [CHR 0xE2, CHR 0x80, CHR 0x85],
      [CHR 0xE2, CHR 0x80, CHR 0x86], [CHR 0xE2, CHR 0x80, CHR 0x87],
      [CHR 0xE2, CHR 0x80, CHR 0x88], [CHR 0xE2, CHR 0x80, CHR 0x89],
      [CHR 0xE2, CHR 0x80, CHR 0x8A], [CHR 0xE2, CHR 0x80, CHR 0xA8],
      [CHR 0xE2, CHR 0x80, CHR 0xA9], [CHR 0xE2, CHR 0x80, CHR 0xAF],
      [CHR 0xE2, CHR 0x81, CHR 0x9F], [CHR 0xE3, CHR 0x80, CHR 0x80]]"

definition starts_with :: "string \<Rightarrow> string \<Rightarrow> bool" where
  "starts_with p s \<longleftrightarrow> take (length p) s = p"

function trim_seqs :: "string list \<Rightarrow> string \<Rightarrow> string" where
  "trim_seqs seqs s =
     (case List.find (\<lambda>p. p \<noteq> [] \<and> starts_with p s) seqs of
        None \<Rightarrow> s
      | Some p \<Rightarrow> trim_seqs seqs (drop (length p) s))"
  by pat_completeness auto
termination
proof (relation "measure (\<lambda>(seqs, s). length s)", goal_cases)
  case 1
  then show ?case by simp
next
  case (2 seqs s p)
  then have "p \<noteq> []" and "take (length p) s = p"
    by (auto simp: find_Some_iff starts_with_def)
  then show ?case by (cases s) auto
qed

declare trim_seqs.simps [simp del]

definition trim_left :: "string \<Rightarrow> string" where
  "trim_left s = trim_seqs space_seqs s"

definition trim_right :: "string \<Rightarrow> string" where
  "trim_right s = rev (trim_seqs (map rev space_seqs) (rev s))"

definition trim_space :: "string \<Rightarrow> string" where
  "trim_space s = trim_right (trim_left s)"

definition blank :: "string \<Rightarrow> bool" where
  "blank s \<longleftrightarrow> trim_space s = ''''"

lemma trim_seqs_Nil [simp]: "trim_seqs seqs [] = []"
  by (subst trim_seqs.simps) (auto simp: starts_with_def find_Some_iff split: option.splits)

lemma trim_space_Nil [simp]: "trim_space [] = []"
  by (simp add: trim_space_def trim_left_def trim_right_def)

lemma blank_Nil [simp]: "blank []"
  by (simp add: blank_def)

lemma not_blank_nonempty: "\<not> blank s \<Longrightarrow> s \<noteq> []"
  by auto

text \<open>What is left after trimming starts with no space sequence.\<close>

lemma trim_seqs_stop: "p \<in> set seqs \<Longrightarrow> p \<noteq> [] \<Longrightarrow> \<not> starts_with p (trim_seqs seqs s)"
proof (induction seqs s rule: trim_seqs.induct)
  case (1 seqs s)
  then show ?case
    by (subst trim_seqs.simps) (auto split: option.splits simp: find_None_iff)
qed

lemma trim_seqs_idem [simp]: "trim_seqs seqs (trim_seqs seqs s) = trim_seqs seqs s"
proof -
  have "List.find (\<lambda>p. p \<noteq> [] \<and> starts_with p (trim_seqs seqs s)) seqs = None"
    using trim_seqs_stop by (auto simp: find_None_iff)
  then show ?thesis by (subst trim_seqs.simps) simp
qed

text \<open>
  \<open>utf8.ValidString\<close> and the number of runes of a valid string: \<open>None\<close> for an encoding error.
\<close>

definition continuation :: "nat \<Rightarrow> bool" where
  "continuation b \<longleftrightarrow> 0x80 \<le> b \<and> b \<le> 0xBF"

fun utf8_count :: "nat list \<Rightarrow> nat option" where
  "utf8_count [] = Some 0"
| "utf8_count (a # bs) =
     (if a < 0x80 then map_option Suc (utf8_count bs)
      else case bs of
        [] \<Rightarrow> None
      | b # cs \<Rightarrow>
          if 0xC2 \<le> a \<and> a \<le> 0xDF then
            (if continuation b then map_option Suc (utf8_count cs) else None)
          else (case cs of
            [] \<Rightarrow> None
          | c # ds \<Rightarrow>
              if 0xE0 \<le> a \<and> a \<le> 0xEF then
                (if continuation b \<and> continuation c \<and> (a = 0xE0 \<longrightarrow> 0xA0 \<le> b) \<and> (a = 0xED \<longrightarrow> b \<le> 0x9F)
                 then map_option Suc (utf8_count ds) else None)
              else (case ds of
                [] \<Rightarrow> None
              | d # es \<Rightarrow>
                  if 0xF0 \<le> a \<and> a \<le> 0xF4 \<and> continuation b \<and> continuation c \<and> continuation d \<and>
                     (a = 0xF0 \<longrightarrow> 0x90 \<le> b) \<and> (a = 0xF4 \<longrightarrow> b \<le> 0x8F)
                  then map_option Suc (utf8_count es) else None)))"

definition utf8_runes :: "string \<Rightarrow> nat option" where
  "utf8_runes s = utf8_count (map of_char s)"

section \<open>Results\<close>

type_synonym ('e, 'a) result = "'e + 'a"

definition guard_err :: "bool \<Rightarrow> 'e \<Rightarrow> ('e, 'a) result \<Rightarrow> ('e, 'a) result" where
  "guard_err bad e k = (if bad then Inl e else k)"

definition rbind :: "('e, 'a) result \<Rightarrow> ('a \<Rightarrow> ('e, 'b) result) \<Rightarrow> ('e, 'b) result" where
  "rbind m k = (case m of Inl e \<Rightarrow> Inl e | Inr x \<Rightarrow> k x)"

definition is_ok :: "('e, 'a) result \<Rightarrow> bool" where
  "is_ok r \<longleftrightarrow> (case r of Inl _ \<Rightarrow> False | Inr _ \<Rightarrow> True)"

lemma rbind_simps [simp]: "rbind (Inl e) k = Inl e" "rbind (Inr x) k = k x"
  by (simp_all add: rbind_def)

lemma rbind_Inr_iff: "rbind m k = Inr y \<longleftrightarrow> (\<exists>x. m = Inr x \<and> k x = Inr y)"
  by (cases m) auto

lemma guard_err_Inr_iff [simp]: "guard_err b e k = Inr y \<longleftrightarrow> \<not> b \<and> k = Inr y"
  by (simp add: guard_err_def)

lemma is_ok_simps [simp]: "\<not> is_ok (Inl e)" "is_ok (Inr x)"
  by (simp_all add: is_ok_def)

lemma is_ok_iff: "is_ok r \<longleftrightarrow> (\<exists>x. r = Inr x)"
  by (cases r) auto

section \<open>Lists\<close>

text \<open>\<open>seen\<close>-map loops: every element is checked against the ones before it.\<close>

fun has_dup :: "'a list \<Rightarrow> bool" where
  "has_dup [] = False"
| "has_dup (x # xs) = (x \<in> set xs \<or> has_dup xs)"

lemma has_dup_distinct [simp]: "has_dup xs \<longleftrightarrow> \<not> distinct xs"
  by (induction xs) auto

lemma sum_list_map_remove:
  fixes f :: "'a \<Rightarrow> int"
  shows "sum_list (map f (xs @ x # ys)) = f x + sum_list (map f (xs @ ys))"
  by simp

lemma sum_list_nonneg_int: "(\<And>x. x \<in> set xs \<Longrightarrow> 0 \<le> f x) \<Longrightarrow> 0 \<le> sum_list (map f xs)"
  for f :: "'a \<Rightarrow> int"
  by (induction xs) auto

lemma member_le_sum_list_int:
  fixes f :: "'a \<Rightarrow> int"
  assumes "x \<in> set xs" and "\<And>y. y \<in> set xs \<Longrightarrow> 0 \<le> f y"
  shows "f x \<le> sum_list (map f xs)"
  using assms
proof (induction xs)
  case Nil
  then show ?case by simp
next
  case (Cons a xs)
  have a: "0 \<le> f a" and s: "0 \<le> sum_list (map f xs)"
    using Cons.prems(2) by (auto intro: sum_list_nonneg_int)
  show ?case
  proof (cases "x = a")
    case True
    with s show ?thesis by simp
  next
    case False
    with Cons have "f x \<le> sum_list (map f xs)" by auto
    with a show ?thesis by simp
  qed
qed

lemma sum_list_sort_key [simp]: "sum_list (map f (sort_key k xs)) = sum_list (map f xs)"
  for f :: "'a \<Rightarrow> int"
proof -
  have "sum_mset (image_mset f (mset (sort_key k xs))) = sum_mset (image_mset f (mset xs))"
    by simp
  then show ?thesis by (simp only: mset_map [symmetric] sum_mset_sum_list)
qed

lemma distinct_map_sort_key [simp]: "distinct (map f (sort_key k xs)) = distinct (map f xs)"
proof -
  have "mset (map f (sort_key k xs)) = mset (map f xs)" by simp
  then show ?thesis by (rule mset_eq_imp_distinct_iff)
qed

lemma sort_key_idem [simp]: "sort_key k (sort_key k xs) = sort_key k xs"
  by (rule sort_key_id_if_sorted) simp

text \<open>
  Go loops that find the first element with a property and change it in place.
\<close>

fun update_first :: "('a \<Rightarrow> bool) \<Rightarrow> ('a \<Rightarrow> 'a) \<Rightarrow> 'a list \<Rightarrow> 'a list" where
  "update_first P f [] = []"
| "update_first P f (x # xs) = (if P x then f x # xs else x # update_first P f xs)"

lemma find_simps_split [simp]:
  "List.find P xs = None \<Longrightarrow> update_first P f xs = xs"
  by (induction xs) (auto split: if_splits)

lemma map_update_first_key:
  "(\<And>x. P x \<Longrightarrow> k (f x) = k x) \<Longrightarrow> map k (update_first P f xs) = map k xs"
  by (induction xs) auto

lemma set_update_first:
  "y \<in> set (update_first P f xs) \<Longrightarrow>
    y \<in> set xs \<or> (\<exists>x. List.find P xs = Some x \<and> y = f x)"
  by (induction xs) (auto split: if_splits)

lemma sum_list_update_first:
  fixes g :: "'a \<Rightarrow> int"
  assumes "List.find P xs = Some x"
  shows "sum_list (map g (update_first P f xs)) = sum_list (map g xs) - g x + g (f x)"
  using assms by (induction xs) (auto split: if_splits)

lemma find_Some_sat: "List.find P xs = Some x \<Longrightarrow> x \<in> set xs \<and> P x"
  by (induction xs) (auto split: if_splits)

lemma update_first_here: "List.find P xs = Some x \<Longrightarrow> f x \<in> set (update_first P f xs)"
  by (induction xs) (auto split: if_splits)

lemma length_update_first [simp]: "length (update_first P f xs) = length xs"
  by (induction xs) auto

lemma sort_key_mset_unique:
  "mset xs = mset ys \<Longrightarrow> distinct (map k xs) \<Longrightarrow> sort_key k xs = sort_key k ys"
  by (rule sort_key_inj_key_eq) (auto simp: distinct_map)

text \<open>Elements grouped by the keys that occur are all the elements.\<close>

lemma mset_concat_filter:
  assumes "distinct ks" "f ` set xs \<subseteq> set ks"
  shows "mset (concat (map (\<lambda>k. filter (\<lambda>x. f x = k) xs) ks)) = mset xs"
  using assms(2)
proof (induction xs)
  case Nil
  then show ?case by (induction ks) simp_all
next
  case (Cons x xs)
  have "mset (concat (map (\<lambda>k. filter (\<lambda>y. f y = k) (x # xs)) ls)) =
      (if f x \<in> set ls then {#x#} else {#}) + mset (concat (map (\<lambda>k. filter (\<lambda>y. f y = k) xs) ls))"
    if "distinct ls" for ls
    using that by (induction ls) auto
  from this [OF assms(1)] Cons show ?case by simp
qed

end
