(* ===== verification/Go_Json.thy ===== *)
theory Go_Json
  imports Mindline_Prelude
begin

text \<open>
  The part of Go's \<open>encoding/json\<close> that the modelled packages use when they fingerprint or
  persist a document: \<open>json.Marshal\<close> of booleans, integers, strings, slices and structs.
  Struct fields are emitted in declaration order, \<open>omitempty\<close> fields are left out when they
  hold the zero value, and maps are emitted with sorted keys. Strings are escaped as the
  encoder does it with HTML escaping on; bytes above 0x7F are copied (the encoder does the
  same for valid UTF-8 other than U+2028 and U+2029).

  The section on injectivity shows that the encoding loses nothing: equal encodings come
  from equal values. That is what makes a fingerprint of the encoding a fingerprint of the
  document.
\<close>

section \<open>Values and their encoding\<close>

datatype json =
    JNull
  | JBool bool
  | JInt int
  | JStr string
  | JArr "json list"
  | JObj "(string \<times> json) list"

definition digit_char :: "nat \<Rightarrow> char" where
  "digit_char n = char_of (48 + n)"

fun nat_text :: "nat \<Rightarrow> string" where
  "nat_text n = (if n < 10 then [digit_char n] else nat_text (n div 10) @ [digit_char (n mod 10)])"

declare nat_text.simps [simp del]

definition int_text :: "int \<Rightarrow> string" where
  "int_text i = (if i < 0 then CHR ''-'' # nat_text (nat (- i)) else nat_text (nat i))"

definition hex_char :: "nat \<Rightarrow> char" where
  "hex_char n = (if n < 10 then char_of (48 + n) else char_of (87 + n))"

abbreviation quote_char :: char where "quote_char \<equiv> CHR 0x22"
abbreviation backslash_char :: char where "backslash_char \<equiv> CHR 0x5C"

text \<open>The two-character escapes: quote, backslash, \<open>\b\<close>, \<open>\f\<close>, \<open>\n\<close>, \<open>\r\<close>, \<open>\t\<close>.\<close>

definition short_escape :: "char \<Rightarrow> char option" where
  "short_escape c =
     (if c = quote_char then Some quote_char
      else if c = backslash_char then Some backslash_char
      else if c = CHR 0x08 then Some CHR ''b''
      else if c = CHR 0x0C then Some CHR ''f''
      else if c = CHR 0x0A then Some CHR ''n''
      else if c = CHR 0x0D then Some CHR ''r''
      else if c = CHR 0x09 then Some CHR ''t''
      else None)"

definition esc_char :: "char \<Rightarrow> string" where
  "esc_char c =
     (case short_escape c of
        Some d \<Rightarrow> [backslash_char, d]
      | None \<Rightarrow>
          if (of_char c :: nat) < 32 \<or> c = CHR ''<'' \<or> c = CHR ''>'' \<or> c = CHR ''&''
          then [backslash_char, CHR ''u'', CHR ''0'', CHR ''0'',
                hex_char (of_char c div 16), hex_char (of_char c mod 16)]
          else [c])"

definition str_text :: "string \<Rightarrow> string" where
  "str_text s = quote_char # concat (map esc_char s) @ [quote_char]"

fun join_comma :: "string list \<Rightarrow> string" where
  "join_comma [] = ''''"
| "join_comma [x] = x"
| "join_comma (x # xs) = x @ '','' @ join_comma xs"

fun encode :: "json \<Rightarrow> string" where
  "encode JNull = ''null''"
| "encode (JBool b) = (if b then ''true'' else ''false'')"
| "encode (JInt i) = int_text i"
| "encode (JStr s) = str_text s"
| "encode (JArr xs) = ''['' @ join_comma (map encode xs) @ '']''"
| "encode (JObj fs) =
     CHR 0x7B # join_comma (map (\<lambda>(k, v). str_text k @ '':'' @ encode v) fs) @ [CHR 0x7D]"

text \<open>\<open>omitempty\<close>: a field that is emitted only when it is not the zero value.\<close>

definition opt_field :: "bool \<Rightarrow> string \<Rightarrow> json \<Rightarrow> (string \<times> json) list" where
  "opt_field present k v = (if present then [(k, v)] else [])"

text \<open>A Go map of strings, marshalled with its keys in order.\<close>

definition json_of_string_map :: "(string \<times> string) list \<Rightarrow> json" where
  "json_of_string_map m = JObj (map (\<lambda>(k, v). (k, JStr v)) (sort_key fst m))"

definition json_of_strings :: "string list \<Rightarrow> json" where
  "json_of_strings xs = JArr (map JStr xs)"

text \<open>
  The fingerprint functions of the repository hash an encoding with SHA-256 and print the
  digest in hexadecimal. The hash is a parameter \<open>sha\<close> of the model; results that need it
  not to collide say so for the two documents they compare.
\<close>

definition fingerprint_of :: "(string \<Rightarrow> string) \<Rightarrow> json \<Rightarrow> string" where
  "fingerprint_of sha j = sha (encode j)"

definition prefixed_fingerprint :: "(string \<Rightarrow> string) \<Rightarrow> json \<Rightarrow> string" where
  "prefixed_fingerprint sha j = ''sha256:'' @ sha (encode j)"

text \<open>No collision between two given byte strings.\<close>

definition no_collision :: "(string \<Rightarrow> string) \<Rightarrow> string \<Rightarrow> string \<Rightarrow> bool" where
  "no_collision sha x y \<longleftrightarrow> (sha x = sha y \<longrightarrow> x = y)"

section \<open>The encoding is injective\<close>

subsection \<open>Numbers\<close>

fun nat_of_digits :: "nat \<Rightarrow> string \<Rightarrow> nat" where
  "nat_of_digits acc [] = acc"
| "nat_of_digits acc (c # cs) = nat_of_digits (10 * acc + (of_char c - 48)) cs"

definition number_char :: "char \<Rightarrow> bool" where
  "number_char c \<longleftrightarrow> c = CHR ''-'' \<or> (48 \<le> (of_char c :: nat) \<and> (of_char c :: nat) \<le> 57)"

lemma of_digit_char: "n < 10 \<Longrightarrow> (of_char (digit_char n) :: nat) = 48 + n"
  by (simp add: digit_char_def)

lemma nat_of_digits_append: "nat_of_digits acc (xs @ ys) = nat_of_digits (nat_of_digits acc xs) ys"
  by (induction xs arbitrary: acc) simp_all

lemma nat_of_nat_text [simp]: "nat_of_digits 0 (nat_text n) = n"
proof (induction n rule: nat_text.induct)
  case (1 n)
  show ?case
  proof (cases "n < 10")
    case True
    then show ?thesis by (simp add: nat_text.simps [of n] of_digit_char)
  next
    case False
    with 1 show ?thesis
      by (simp add: nat_text.simps [of n] nat_of_digits_append of_digit_char)
  qed
qed

lemma nat_text_digits: "c \<in> set (nat_text n) \<Longrightarrow> 48 \<le> (of_char c :: nat) \<and> (of_char c :: nat) \<le> 57"
proof (induction n rule: nat_text.induct)
  case (1 n)
  then show ?case
    by (cases "n < 10") (auto simp: nat_text.simps [of n] of_digit_char)
qed

lemma nat_text_nonempty: "nat_text n \<noteq> []"
  by (simp add: nat_text.simps [of n])

lemma nat_text_inj: "nat_text m = nat_text n \<Longrightarrow> m = n"
  by (metis nat_of_nat_text)

lemma minus_not_digit: "CHR ''-'' \<notin> set (nat_text n)"
  using nat_text_digits [of "CHR ''-''" n] by auto

lemma hd_nat_text: "nat_text n = c # cs \<Longrightarrow> c \<noteq> CHR ''-''"
  using minus_not_digit [of n] by auto

lemma int_text_inj: "int_text i = int_text j \<Longrightarrow> i = j"
proof -
  assume eq: "int_text i = int_text j"
  have "(i < 0) = (j < 0)"
    using eq by (cases "i < 0"; cases "j < 0") (auto simp: int_text_def dest: hd_nat_text hd_nat_text [OF sym])
  with eq show ?thesis by (auto simp: int_text_def dest!: nat_text_inj split: if_splits)
qed

lemma int_text_chars: "c \<in> set (int_text i) \<Longrightarrow> number_char c"
  using nat_text_digits by (fastforce simp: int_text_def number_char_def split: if_splits)

lemma int_text_nonempty: "int_text i \<noteq> []"
  by (simp add: int_text_def nat_text_nonempty)

text \<open>What may follow a value inside a document: nothing, a comma or a closing bracket.\<close>

definition stops :: "string \<Rightarrow> bool" where
  "stops r \<longleftrightarrow> (case r of [] \<Rightarrow> True | c # _ \<Rightarrow> c = CHR '','' \<or> c = CHR '']'' \<or> c = CHR 0x7D)"

lemma stops_simps [simp]: "stops []" "stops (CHR '','' # r)" "stops (CHR '']'' # r)"
  "stops (CHR 0x7D # r)"
  by (simp_all add: stops_def)

lemma stops_takeWhile: "stops r \<Longrightarrow> takeWhile number_char r = []"
  by (auto simp: stops_def number_char_def split: list.splits)

lemma int_text_prefix:
  assumes "int_text i @ r = int_text j @ s" "stops r" "stops s"
  shows "i = j \<and> r = s"
proof -
  have "takeWhile number_char (int_text k @ t) = int_text k" if "stops t" for k t
    using that int_text_chars by (simp add: stops_takeWhile takeWhile_append2)
  with assms have "int_text i = int_text j" by metis
  with assms show ?thesis by (simp add: int_text_inj)
qed

subsection \<open>Strings\<close>

lemma hex_char_inj:
  assumes "m < 16" "n < 16" "hex_char m = hex_char n"
  shows "m = n"
proof -
  have "(of_char (hex_char k) :: nat) = (if k < 10 then 48 + k else 87 + k)" if "k < 16" for k
    using that by (simp add: hex_char_def)
  then have "(if m < 10 then 48 + m else 87 + m) = (if n < 10 then 48 + n else 87 + n)"
    using assms by metis
  then show ?thesis by (auto split: if_splits)
qed

lemma hex_pair_inj:
  assumes "hex_char (of_char c div 16) = hex_char (of_char d div 16)"
    and "hex_char (of_char c mod 16) = hex_char (of_char d mod 16)"
  shows "c = d"
proof -
  have b: "(of_char x :: nat) < 256" for x :: char
    using range_nat_of_char by (metis atLeastLessThan_iff rangeI)
  have "(of_char c :: nat) div 16 = of_char d div 16"
    using b assms(1) by (intro hex_char_inj less_mult_imp_div_less) auto
  moreover have "(of_char c :: nat) mod 16 = of_char d mod 16"
    using assms(2) by (intro hex_char_inj) auto
  ultimately have "(of_char c :: nat) = of_char d" by (metis div_mult_mod_eq)
  then show ?thesis by simp
qed

lemma short_escape_inj: "short_escape c = Some e \<Longrightarrow> short_escape d = Some e \<Longrightarrow> c = d"
  by (auto simp: short_escape_def split: if_splits)

lemma short_escape_not_u: "short_escape c \<noteq> Some (CHR ''u'')"
  by (auto simp: short_escape_def split: if_splits)

lemma short_escape_None:
  "short_escape c = None \<Longrightarrow> c \<noteq> quote_char \<and> c \<noteq> backslash_char"
  by (auto simp: short_escape_def split: if_splits)

lemma esc_char_prefix:
  assumes "esc_char c @ x = esc_char d @ y"
  shows "c = d \<and> x = y"
  using assms short_escape_inj [of c _ d] short_escape_not_u [of c] short_escape_not_u [of d]
    short_escape_None [of c] short_escape_None [of d] hex_pair_inj [of c d]
  by (auto simp: esc_char_def split: option.splits if_splits)

lemma esc_char_Cons: "\<exists>e es. esc_char c = e # es \<and> e \<noteq> quote_char"
  using short_escape_None [of c] by (auto simp: esc_char_def split: option.splits if_splits)

lemma str_body_prefix:
  "concat (map esc_char s) @ quote_char # x = concat (map esc_char t) @ quote_char # y
    \<Longrightarrow> s = t \<and> x = y"
proof (induction s arbitrary: t)
  case Nil
  show ?case
  proof (cases t)
    case Nil
    with Nil.prems show ?thesis by simp
  next
    case (Cons d t')
    obtain e es where "esc_char d = e # es" "e \<noteq> quote_char" using esc_char_Cons by blast
    with Nil.prems Cons show ?thesis by simp
  qed
next
  case (Cons c s)
  show ?case
  proof (cases t)
    case Nil
    with Cons.prems show ?thesis using esc_char_Cons [of c] by auto
  next
    case (Cons d t')
    with Cons.prems Cons.IH [of t'] show ?thesis by (auto dest!: esc_char_prefix)
  qed
qed

lemma str_text_prefix: "str_text s @ x = str_text t @ y \<Longrightarrow> s = t \<and> x = y"
  using str_body_prefix [of s x t y] by (simp add: str_text_def)

subsection \<open>Documents\<close>

text \<open>
  A printer is self-delimiting on a set of values when its output, followed by something that
  may follow a value, determines both the value and the rest.
\<close>

definition self_delimiting :: "('a \<Rightarrow> string) \<Rightarrow> 'a set \<Rightarrow> bool" where
  "self_delimiting f A \<longleftrightarrow>
     (\<forall>a\<in>A. \<forall>b r s. stops r \<longrightarrow> stops s \<longrightarrow> f a @ r = f b @ s \<longrightarrow> a = b \<and> r = s)"

lemma self_delimitingD:
  assumes "self_delimiting f A" "a \<in> A" "f a @ r = f b @ s" "stops r" "stops s"
  shows "a = b \<and> r = s"
  using assms unfolding self_delimiting_def by blast

lemma join_comma_Cons:
  "join_comma (x # xs) = x @ (case xs of [] \<Rightarrow> [] | _ \<Rightarrow> CHR '','' # join_comma xs)"
  by (cases xs) simp_all

lemma join_comma_prefix:
  assumes "self_delimiting f (set xs)"
    and nz: "\<And>y. \<exists>c cs. f y = c # cs \<and> \<not> stops [c]"
    and c: "c = CHR '']'' \<or> c = CHR 0x7D"
  shows "join_comma (map f xs) @ c # r = join_comma (map f ys) @ c # s \<Longrightarrow> xs = ys \<and> r = s"
  using assms(1)
proof (induction xs arbitrary: ys)
  case Nil
  show ?case
  proof (cases ys)
    case Nil
    with Nil.prems show ?thesis by simp
  next
    case (Cons y ys')
    obtain d ds where "f y = d # ds" "\<not> stops [d]" using nz by blast
    with Nil.prems Cons c show ?thesis by (auto simp: join_comma_Cons stops_def)
  qed
next
  case (Cons x xs)
  have sd: "self_delimiting f (set xs)" using Cons.prems(2) by (auto simp: self_delimiting_def)
  show ?case
  proof (cases ys)
    case Nil
    with Cons.prems(1) show ?thesis using nz [of x] c by (auto simp: join_comma_Cons stops_def)
  next
    case ys: (Cons y ys')
    let ?tail = "\<lambda>zs r. (case map f zs of [] \<Rightarrow> [] | _ \<Rightarrow> CHR '','' # join_comma (map f zs)) @ c # r"
    have st: "stops (?tail zs q)" for zs q
      using c by (cases zs) (auto simp: stops_def)
    have "f x @ ?tail xs r = f y @ ?tail ys' s"
      using Cons.prems(1) ys by (simp only: list.map join_comma_Cons append.assoc)
    from self_delimitingD [OF Cons.prems(2) _ this st st]
    have xy: "x = y" and tl: "?tail xs r = ?tail ys' s" by simp_all
    show ?thesis
    proof (cases "xs = [] \<or> ys' = []")
      case True
      with tl c have "xs = [] \<and> ys' = [] \<and> r = s" by (cases xs; cases ys') auto
      with xy ys show ?thesis by simp
    next
      case False
      with tl have "join_comma (map f xs) @ c # r = join_comma (map f ys') @ c # s"
        by (cases xs; cases ys') auto
      with Cons.IH [OF _ sd] xy ys show ?thesis by auto
    qed
  qed
qed

lemma int_text_hd: "\<exists>c cs. int_text i = c # cs \<and> number_char c"
proof (cases "int_text i")
  case Nil
  with int_text_nonempty show ?thesis by simp
next
  case (Cons c cs)
  then have "number_char c" by (intro int_text_chars [of c i]) simp
  with Cons show ?thesis by blast
qed

lemma encode_hd: "\<exists>c cs. encode v = c # cs \<and> \<not> stops [c]"
  using int_text_hd by (cases v) (fastforce simp: str_text_def stops_def number_char_def)+

lemma field_prefix:
  assumes "self_delimiting encode (snd ` A)"
  shows "self_delimiting (\<lambda>(k, v). str_text k @ '':'' @ encode v) A"
  using assms by (fastforce simp: self_delimiting_def dest!: str_text_prefix)

lemma encode_self_delimiting: "self_delimiting encode {v}"
proof (induction v)
  case (JInt i)
  have "JInt i = b \<and> r = s" if "stops r" "stops s" "int_text i @ r = encode b @ s" for b r s
    using that int_text_hd [of i] int_text_prefix [of i r _ s]
    by (cases b) (auto simp: str_text_def number_char_def split: if_splits)
  then show ?case by (simp add: self_delimiting_def)
next
  case (JStr t)
  have "JStr t = b \<and> r = s" if "str_text t @ r = encode b @ s" for b r s
  proof (cases b)
    case (JInt i)
    with that int_text_hd [of i] show ?thesis by (auto simp: str_text_def number_char_def)
  next
    case (JStr u)
    with that show ?thesis by (auto dest: str_text_prefix)
  qed (use that in \<open>auto simp: str_text_def split: if_splits\<close>)
  then show ?case by (simp add: self_delimiting_def)
next
  case (JArr xs)
  then have sd: "self_delimiting encode (set xs)" by (auto simp: self_delimiting_def)
  have "JArr xs = b \<and> r = s" if "encode (JArr xs) @ r = encode b @ s" for b r s
  proof (cases b)
    case (JInt i)
    with that int_text_hd [of i] show ?thesis by (auto simp: number_char_def)
  next
    case (JArr ys)
    with that join_comma_prefix [OF sd encode_hd, of "CHR '']''" r ys s] show ?thesis by simp
  qed (use that in \<open>auto simp: str_text_def split: if_splits\<close>)
  then show ?case unfolding self_delimiting_def by blast
next
  case (JObj fs)
  then have "self_delimiting encode (snd ` set fs)"
    by (force simp: self_delimiting_def snds.simps)
  from field_prefix [OF this]
  have sd: "self_delimiting (\<lambda>(k, v). str_text k @ '':'' @ encode v) (set fs)" .
  have hd: "\<exists>c cs. (\<lambda>(k, v). str_text k @ '':'' @ encode v) kv = c # cs \<and> \<not> stops [c]" for kv
    by (auto simp: str_text_def stops_def split: prod.splits)
  have "JObj fs = b \<and> r = s" if "encode (JObj fs) @ r = encode b @ s" for b r s
  proof (cases b)
    case (JInt i)
    with that int_text_hd [of i] show ?thesis by (auto simp: number_char_def)
  next
    case (JObj gs)
    with that join_comma_prefix [OF sd hd, of "CHR 0x7D" r gs s] show ?thesis by simp
  qed (use that in \<open>auto simp: str_text_def split: if_splits\<close>)
  then show ?case unfolding self_delimiting_def by blast
next
  case JNull
  have "JNull = b \<and> r = s" if "encode JNull @ r = encode b @ s" for b r s
  proof (cases b)
    case (JInt i)
    with that int_text_hd [of i] show ?thesis by (auto simp: number_char_def)
  qed (use that in \<open>auto simp: str_text_def split: if_splits\<close>)
  then show ?case unfolding self_delimiting_def by blast
next
  case (JBool t)
  have "JBool t = b \<and> r = s" if "encode (JBool t) @ r = encode b @ s" for b r s
  proof (cases b)
    case (JInt i)
    with that int_text_hd [of i] show ?thesis by (auto simp: number_char_def split: if_splits)
  qed (use that in \<open>auto simp: str_text_def split: if_splits\<close>)
  then show ?case unfolding self_delimiting_def by blast
qed

lemma encode_inject [simp]: "encode a = encode b \<longleftrightarrow> a = b"
proof
  assume "encode a = encode b"
  then have "encode a @ [] = encode b @ []" by simp
  moreover have "stops []" by simp
  ultimately show "a = b" using self_delimitingD [OF encode_self_delimiting] by blast
qed simp

lemma fingerprint_of_inject:
  "no_collision sha (encode a) (encode b) \<Longrightarrow> fingerprint_of sha a = fingerprint_of sha b \<longleftrightarrow> a = b"
  by (auto simp: no_collision_def fingerprint_of_def)

lemma prefixed_fingerprint_inject:
  "no_collision sha (encode a) (encode b)
    \<Longrightarrow> prefixed_fingerprint sha a = prefixed_fingerprint sha b \<longleftrightarrow> a = b"
  by (auto simp: no_collision_def prefixed_fingerprint_def)

lemma prefixed_fingerprint_nonempty [simp]: "prefixed_fingerprint sha j \<noteq> []"
  by (simp add: prefixed_fingerprint_def)

section \<open>Indented documents\<close>

text \<open>\<open>json.MarshalIndent\<close> with an empty prefix and two spaces; its length bounds files.\<close>

definition new_line :: "nat \<Rightarrow> string" where
  "new_line depth = CHR 0x0A # replicate (2 * depth) CHR '' ''"

fun encode_indent :: "nat \<Rightarrow> json \<Rightarrow> string" where
  "encode_indent depth (JArr xs) =
     (if xs = [] then ''[]''
      else ''['' @ join_comma (map (\<lambda>x. new_line (Suc depth) @ encode_indent (Suc depth) x) xs) @
           new_line depth @ '']'')"
| "encode_indent depth (JObj fs) =
     (if fs = [] then [CHR 0x7B, CHR 0x7D]
      else CHR 0x7B #
           join_comma (map (\<lambda>(k, v). new_line (Suc depth) @ str_text k @ '': '' @
             encode_indent (Suc depth) v) fs) @
           new_line depth @ [CHR 0x7D])"
| "encode_indent depth j = encode j"

end
