(* ===== verification/Resource_Types.thy ===== *)
theory Resource_Types
  imports Go_Json
begin

text \<open>
  \<open>internal/resourcequeue/types.go\<close>: the budget profile with its sealed fingerprint, the
  counters, the items and the queue, the structural validation of a persisted queue, and the
  map from a terminal queue state to the canonical resource state.

  Go's \<open>int\<close> and \<open>int64\<close> are integers in the range \<open>in64\<close>. A Go \<open>error\<close> result is an
  \<open>rq_error option\<close>. The hash \<open>sha\<close> is the hexadecimal SHA-256 of a byte string.
\<close>

section \<open>Constants\<close>

datatype item_state =
    Queued | Processing | Complete | Partial | Blocked
  | OtherState string \<comment> \<open>a text that is none of the five constants\<close>

fun state_text :: "item_state \<Rightarrow> string" where
  "state_text Queued = ''queued''"
| "state_text Processing = ''processing''"
| "state_text Complete = ''complete''"
| "state_text Partial = ''partial''"
| "state_text Blocked = ''blocked''"
| "state_text (OtherState s) = s"

abbreviation ReasonBudgetExhausted :: string where
  "ReasonBudgetExhausted \<equiv> ''budget_exhausted''"
abbreviation ReasonRunBudgetDeferred :: string where
  "ReasonRunBudgetDeferred \<equiv> ''run_budget_deferred''"
abbreviation ReasonManualProcessing :: string where
  "ReasonManualProcessing \<equiv> ''manual_processing_required''"

definition SchemaVersion :: string where
  "SchemaVersion = ''mindline-resource-queue/v0.1''"
definition BudgetSchemaVersion :: string where
  "BudgetSchemaVersion = ''mindline-resource-budget/v0.1''"
definition MaximumQueueItems :: int where "MaximumQueueItems = 250000"
definition MaximumRunWallSeconds :: int where "MaximumRunWallSeconds = 24 * 60 * 60"
definition maximumResourceIDBytes :: int where "maximumResourceIDBytes = 64"
definition maximumProfileNameBytes :: int where "maximumProfileNameBytes = 64"

lemmas rq_limit_defs [go_defs] =
  MaximumQueueItems_def MaximumRunWallSeconds_def maximumResourceIDBytes_def maximumProfileNameBytes_def

definition fixedBlockedReasons :: "string list" where
  "fixedBlockedReasons =
     [''sensitive_or_ambiguous'', ''unsupported_scheme'', ''unsupported_mime'', ''access_denied'',
      ''unreachable'', ''rate_limited'', ''unsafe_network_target'', ReasonBudgetExhausted,
      ReasonRunBudgetDeferred, ''extractor_unsupported'', ReasonManualProcessing]"

definition IsBlockedReason :: "string \<Rightarrow> bool" where
  "IsBlockedReason reason \<longleftrightarrow> reason \<in> set fixedBlockedReasons"

definition IsRetryableTerminalReason :: "string \<Rightarrow> bool" where
  "IsRetryableTerminalReason reason \<longleftrightarrow> reason = ''unreachable'' \<or> reason = ''rate_limited''"

definition validGenerationKind :: "string \<Rightarrow> bool" where
  "validGenerationKind kind \<longleftrightarrow>
     kind = '''' \<or> kind = ''continuation'' \<or> kind = ''retry:unreachable'' \<or> kind = ''retry:rate_limited''"

datatype rq_error =
    InvalidBudgetProfile | ProfileFingerprintMismatch
  | InvalidQueue | InvalidQueueItem | NonBlockedItemHasReason | InvalidBlockedReason
  | InvalidQueueState | NonProcessingItemReserves | QueueFingerprintMismatch
  | NotTerminal
  | WallUsageInvalid | QueueBusy | QueueUnavailable | PersistenceFailed
  | MembershipExceedsLimit | ResourceIDEmpty | InvalidMembership | ReservationAccountingInvalid
  | InvalidRebuildItem | QueuedRebuildItemHasReason | SuccessfulRebuildItemHasReason
  | BlockedRebuildItemInvalidReason | InvalidRebuildState
  | UsageInvalid | GenerationAlreadyClosed | ReservationNotSettled | ItemNotProcessing
  | BudgetNotExhausted | InvalidBudgetRemainder | BudgetRemainderChanged | ItemNotDeferred
  | BudgetRemainderIncomplete | RetryReasonNotApproved | QueueNotTerminal
  | StorageUnavailable | DeletionFailed

section \<open>Budget profiles\<close>

record fetch_policy =
  fp_request_timeout_seconds :: int
  fp_max_redirects :: int
  fp_max_wire_bytes :: int
  fp_max_decoded_bytes :: int
  fp_max_extracted_bytes :: int
  fp_retry_backoff_one_seconds :: int
  fp_retry_backoff_two_seconds :: int
  fp_max_retry_after_seconds :: int

record budget_profile =
  bp_schema_version :: string
  bp_name :: string
  bp_max_resources :: int
  bp_max_requests :: int
  bp_max_downloaded_bytes :: int
  bp_max_decoded_bytes :: int
  bp_max_extracted_bytes :: int
  bp_max_runtime_storage_bytes :: int
  bp_max_attempts_per_resource :: int
  bp_max_run_wall_seconds :: int
  bp_global_concurrency :: int
  bp_per_host_concurrency :: int
  bp_fetch_policy :: fetch_policy
  bp_fingerprint :: string

definition json_of_fetch_policy :: "fetch_policy \<Rightarrow> json" where
  "json_of_fetch_policy p = JObj
     [(''request_timeout_seconds'', JInt (fp_request_timeout_seconds p)),
      (''max_redirects'', JInt (fp_max_redirects p)),
      (''max_wire_bytes'', JInt (fp_max_wire_bytes p)),
      (''max_decoded_bytes'', JInt (fp_max_decoded_bytes p)),
      (''max_extracted_bytes'', JInt (fp_max_extracted_bytes p)),
      (''retry_backoff_one_seconds'', JInt (fp_retry_backoff_one_seconds p)),
      (''retry_backoff_two_seconds'', JInt (fp_retry_backoff_two_seconds p)),
      (''max_retry_after_seconds'', JInt (fp_max_retry_after_seconds p))]"

definition json_of_profile :: "budget_profile \<Rightarrow> json" where
  "json_of_profile p = JObj
     [(''schema_version'', JStr (bp_schema_version p)),
      (''name'', JStr (bp_name p)),
      (''max_resources'', JInt (bp_max_resources p)),
      (''max_requests'', JInt (bp_max_requests p)),
      (''max_downloaded_bytes'', JInt (bp_max_downloaded_bytes p)),
      (''max_decoded_bytes'', JInt (bp_max_decoded_bytes p)),
      (''max_extracted_bytes'', JInt (bp_max_extracted_bytes p)),
      (''max_runtime_storage_bytes'', JInt (bp_max_runtime_storage_bytes p)),
      (''max_attempts_per_resource'', JInt (bp_max_attempts_per_resource p)),
      (''max_run_wall_seconds'', JInt (bp_max_run_wall_seconds p)),
      (''global_concurrency'', JInt (bp_global_concurrency p)),
      (''per_host_concurrency'', JInt (bp_per_host_concurrency p)),
      (''fetch_policy'', json_of_fetch_policy (bp_fetch_policy p)),
      (''fingerprint'', JStr (bp_fingerprint p))]"

definition SealProfile :: "(string \<Rightarrow> string) \<Rightarrow> budget_profile \<Rightarrow> budget_profile" where
  "SealProfile sha profile =
     (let p = profile\<lparr>bp_schema_version := BudgetSchemaVersion, bp_fingerprint := ''''\<rparr>
      in p\<lparr>bp_fingerprint := fingerprint_of sha (json_of_profile p)\<rparr>)"

definition LiveProfile :: "(string \<Rightarrow> string) \<Rightarrow> budget_profile" where
  "LiveProfile sha = SealProfile sha
     \<lparr>bp_schema_version = BudgetSchemaVersion, bp_name = ''live'',
      bp_max_resources = 500, bp_max_requests = 1000,
      bp_max_downloaded_bytes = 256 * 2 ^ 20, bp_max_decoded_bytes = 64 * 2 ^ 20,
      bp_max_extracted_bytes = 64 * 2 ^ 20, bp_max_runtime_storage_bytes = 512 * 2 ^ 20,
      bp_max_attempts_per_resource = 3, bp_max_run_wall_seconds = 45 * 60,
      bp_global_concurrency = 4, bp_per_host_concurrency = 1,
      bp_fetch_policy =
        \<lparr>fp_request_timeout_seconds = 20, fp_max_redirects = 3, fp_max_wire_bytes = 5 * 2 ^ 20,
         fp_max_decoded_bytes = 2 * 2 ^ 20, fp_max_extracted_bytes = 512 * 2 ^ 10,
         fp_retry_backoff_one_seconds = 1, fp_retry_backoff_two_seconds = 3,
         fp_max_retry_after_seconds = 60\<rparr>,
      bp_fingerprint = ''''\<rparr>"

definition FixtureProfile :: "(string \<Rightarrow> string) \<Rightarrow> budget_profile" where
  "FixtureProfile sha =
     SealProfile sha ((LiveProfile sha)\<lparr>bp_name := ''fixture-primary'', bp_max_resources := 3\<rparr>)"

definition fixture_variants :: "(string \<times> (budget_profile \<Rightarrow> budget_profile)) list" where
  "fixture_variants =
     [(''resource-count'', \<lambda>p. p\<lparr>bp_max_resources := 1\<rparr>),
      (''request-count'', \<lambda>p. p\<lparr>bp_max_requests := 1\<rparr>),
      (''download-bytes'', \<lambda>p. p\<lparr>bp_max_downloaded_bytes := 1\<rparr>),
      (''decoded-bytes'', \<lambda>p. p\<lparr>bp_max_decoded_bytes := 1\<rparr>),
      (''extracted-bytes'', \<lambda>p. p\<lparr>bp_max_extracted_bytes := 1\<rparr>),
      (''runtime-storage'', \<lambda>p. p\<lparr>bp_max_runtime_storage_bytes := 1\<rparr>),
      (''attempt-count'', \<lambda>p. p\<lparr>bp_max_attempts_per_resource := 1\<rparr>),
      (''wall-time'', \<lambda>p. p\<lparr>bp_max_run_wall_seconds := 1\<rparr>)]"

definition FixtureProfiles :: "(string \<Rightarrow> string) \<Rightarrow> (string \<times> budget_profile) list" where
  "FixtureProfiles sha =
     map (\<lambda>(name, cap).
            (''fixture-'' @ name, SealProfile sha (cap ((FixtureProfile sha)\<lparr>bp_name := ''fixture-'' @ name\<rparr>))))
       fixture_variants"

definition queue_text_char :: "char \<Rightarrow> bool" where
  "queue_text_char c \<longleftrightarrow>
     (CHR ''a'' \<le> c \<and> c \<le> CHR ''z'') \<or> (CHR ''A'' \<le> c \<and> c \<le> CHR ''Z'') \<or>
     (CHR ''0'' \<le> c \<and> c \<le> CHR ''9'') \<or>
     c = CHR ''-'' \<or> c = CHR ''_'' \<or> c = CHR ''.'' \<or> c = CHR '':''"

definition validQueueText :: "string \<Rightarrow> int \<Rightarrow> bool" where
  "validQueueText value maximum_bytes \<longleftrightarrow>
     \<not> (value = '''' \<or> int (length value) > maximum_bytes \<or> trim_space value \<noteq> value) \<and>
     list_all queue_text_char value"

definition profile_fields_ok :: "budget_profile \<Rightarrow> bool" where
  "profile_fields_ok p \<longleftrightarrow>
     \<not> (bp_schema_version p \<noteq> BudgetSchemaVersion \<or>
        \<not> validQueueText (bp_name p) maximumProfileNameBytes \<or>
        bp_max_resources p < 1 \<or> bp_max_requests p < 1 \<or>
        bp_max_downloaded_bytes p < 1 \<or> bp_max_decoded_bytes p < 1 \<or>
        bp_max_extracted_bytes p < 1 \<or> bp_max_runtime_storage_bytes p < 1 \<or>
        bp_max_attempts_per_resource p < 1 \<or> bp_max_run_wall_seconds p < 1 \<or>
        bp_max_run_wall_seconds p > MaximumRunWallSeconds \<or>
        bp_global_concurrency p < 1 \<or> bp_per_host_concurrency p < 1 \<or>
        bp_per_host_concurrency p > bp_global_concurrency p \<or>
        fp_request_timeout_seconds (bp_fetch_policy p) < 1 \<or> fp_max_redirects (bp_fetch_policy p) < 0 \<or>
        fp_max_wire_bytes (bp_fetch_policy p) < 1 \<or> fp_max_decoded_bytes (bp_fetch_policy p) < 1 \<or>
        fp_max_extracted_bytes (bp_fetch_policy p) < 1 \<or>
        fp_retry_backoff_one_seconds (bp_fetch_policy p) < 1 \<or>
        fp_retry_backoff_two_seconds (bp_fetch_policy p) < 1 \<or>
        fp_max_retry_after_seconds (bp_fetch_policy p) < 1)"

definition ValidateProfile :: "(string \<Rightarrow> string) \<Rightarrow> budget_profile \<Rightarrow> rq_error option" where
  "ValidateProfile sha profile =
     (if \<not> profile_fields_ok profile then Some InvalidBudgetProfile
      else
        (let copy = profile\<lparr>bp_fingerprint := ''''\<rparr>
         in if bp_fingerprint profile = '''' \<or>
               bp_fingerprint profile \<noteq> fingerprint_of sha (json_of_profile copy)
            then Some ProfileFingerprintMismatch
            else None))"

section \<open>Queues\<close>

record counters =
  ct_processed_resources :: int
  ct_requests :: int
  ct_attempts :: int
  ct_reserved_requests :: int
  ct_downloaded_bytes :: int
  ct_decoded_bytes :: int
  ct_extracted_bytes :: int
  ct_runtime_storage_bytes :: int
  ct_wall_seconds :: int

definition zero_counters :: counters where
  "zero_counters = \<lparr>ct_processed_resources = 0, ct_requests = 0, ct_attempts = 0,
     ct_reserved_requests = 0, ct_downloaded_bytes = 0, ct_decoded_bytes = 0,
     ct_extracted_bytes = 0, ct_runtime_storage_bytes = 0, ct_wall_seconds = 0\<rparr>"

record item =
  it_job_id :: string
  it_resource_id :: string
  it_state :: item_state
  it_reason :: string
  it_attempts :: int
  it_reserved_requests :: int

record rebuild_item =
  rb_resource_id :: string
  rb_state :: item_state
  rb_reason :: string

record queue =
  rq_schema_version :: string
  rq_profile :: budget_profile
  rq_generation :: int
  rq_generation_kind :: string
  rq_generation_closed :: bool
  rq_legacy_migration_complete :: bool
  rq_counters :: counters
  rq_items :: "item list"
  rq_fingerprint :: string

record usage =
  us_requests :: int
  us_downloaded_bytes :: int
  us_decoded_bytes :: int
  us_extracted_bytes :: int
  us_runtime_storage_bytes :: int
  us_wall_seconds :: int

definition json_of_counters :: "counters \<Rightarrow> json" where
  "json_of_counters c = JObj
     [(''processed_resources'', JInt (ct_processed_resources c)),
      (''requests'', JInt (ct_requests c)),
      (''attempts'', JInt (ct_attempts c)),
      (''reserved_requests'', JInt (ct_reserved_requests c)),
      (''downloaded_bytes'', JInt (ct_downloaded_bytes c)),
      (''decoded_bytes'', JInt (ct_decoded_bytes c)),
      (''extracted_bytes'', JInt (ct_extracted_bytes c)),
      (''runtime_storage_bytes'', JInt (ct_runtime_storage_bytes c)),
      (''wall_seconds'', JInt (ct_wall_seconds c))]"

definition json_of_item :: "item \<Rightarrow> json" where
  "json_of_item it = JObj
     ([(''job_id'', JStr (it_job_id it)),
       (''resource_id'', JStr (it_resource_id it)),
       (''state'', JStr (state_text (it_state it)))]
      @ opt_field (it_reason it \<noteq> '''') ''reason'' (JStr (it_reason it))
      @ [(''attempts'', JInt (it_attempts it)),
         (''reserved_requests'', JInt (it_reserved_requests it))])"

definition json_of_queue :: "queue \<Rightarrow> json" where
  "json_of_queue q = JObj
     ([(''schema_version'', JStr (rq_schema_version q)),
       (''profile'', json_of_profile (rq_profile q))]
      @ opt_field (rq_generation q \<noteq> 0) ''generation'' (JInt (rq_generation q))
      @ opt_field (rq_generation_kind q \<noteq> '''') ''generation_kind'' (JStr (rq_generation_kind q))
      @ opt_field (rq_generation_closed q) ''generation_closed'' (JBool True)
      @ opt_field (rq_legacy_migration_complete q) ''legacy_budget_migration_complete'' (JBool True)
      @ [(''counters'', json_of_counters (rq_counters q)),
         (''items'', JArr (map json_of_item (rq_items q))),
         (''fingerprint'', JStr (rq_fingerprint q))])"

text \<open>
  \<open>hex[:24]\<close> of the digest of the profile fingerprint, a NUL byte and the resource identifier.
\<close>

definition JobIdentity :: "(string \<Rightarrow> string) \<Rightarrow> budget_profile \<Rightarrow> string \<Rightarrow> string" where
  "JobIdentity sha profile resource_id =
     ''resource-job-'' @ take 24 (sha (bp_fingerprint profile @ [CHR 0x00] @ resource_id))"

definition Seal :: "(string \<Rightarrow> string) \<Rightarrow> queue \<Rightarrow> queue" where
  "Seal sha q =
     (let q' = q\<lparr>rq_schema_version := SchemaVersion,
                 rq_items := sort_key it_resource_id (rq_items q), rq_fingerprint := ''''\<rparr>
      in q'\<lparr>rq_fingerprint := fingerprint_of sha (json_of_queue q')\<rparr>)"

definition Empty :: "(string \<Rightarrow> string) \<Rightarrow> budget_profile \<Rightarrow> queue" where
  "Empty sha profile = Seal sha
     \<lparr>rq_schema_version = SchemaVersion, rq_profile = profile, rq_generation = 0,
      rq_generation_kind = '''', rq_generation_closed = False, rq_legacy_migration_complete = False,
      rq_counters = zero_counters, rq_items = [], rq_fingerprint = ''''\<rparr>"

definition counters_nonneg :: "counters \<Rightarrow> bool" where
  "counters_nonneg c \<longleftrightarrow>
     \<not> (ct_processed_resources c < 0 \<or> ct_requests c < 0 \<or> ct_attempts c < 0 \<or>
        ct_reserved_requests c < 0 \<or> ct_downloaded_bytes c < 0 \<or> ct_decoded_bytes c < 0 \<or>
        ct_extracted_bytes c < 0 \<or> ct_runtime_storage_bytes c < 0 \<or> ct_wall_seconds c < 0)"

definition check_state_reason :: "item_state \<Rightarrow> string \<Rightarrow> rq_error option" where
  "check_state_reason st reason =
     (case st of
        OtherState _ \<Rightarrow> Some InvalidQueueState
      | Blocked \<Rightarrow> (if \<not> IsBlockedReason reason then Some InvalidBlockedReason else None)
      | _ \<Rightarrow> (if reason \<noteq> '''' then Some NonBlockedItemHasReason else None))"

fun check_items :: "(string \<Rightarrow> string) \<Rightarrow> budget_profile \<Rightarrow> string list \<Rightarrow> item list \<Rightarrow> rq_error option" where
  "check_items sha profile seen [] = None"
| "check_items sha profile seen (it # its) =
     (if \<not> validQueueText (it_resource_id it) maximumResourceIDBytes \<or>
         it_job_id it \<noteq> JobIdentity sha profile (it_resource_id it) \<or>
         it_resource_id it \<in> set seen \<or> it_attempts it < 0 \<or> it_reserved_requests it < 0
      then Some InvalidQueueItem
      else case check_state_reason (it_state it) (it_reason it) of
        Some e \<Rightarrow> Some e
      | None \<Rightarrow>
          if it_state it \<noteq> Processing \<and> it_reserved_requests it \<noteq> 0
          then Some NonProcessingItemReserves
          else check_items sha profile (it_resource_id it # seen) its)"

definition Validate :: "(string \<Rightarrow> string) \<Rightarrow> queue \<Rightarrow> rq_error option" where
  "Validate sha q =
     (if rq_schema_version q \<noteq> SchemaVersion \<or> ValidateProfile sha (rq_profile q) \<noteq> None \<or>
         rq_generation q < 0 \<or> int (length (rq_items q)) > MaximumQueueItems \<or>
         \<not> validGenerationKind (rq_generation_kind q) \<or> \<not> counters_nonneg (rq_counters q)
      then Some InvalidQueue
      else case check_items sha (rq_profile q) [] (rq_items q) of
        Some e \<Rightarrow> Some e
      | None \<Rightarrow>
          (let copy = q\<lparr>rq_fingerprint := ''''\<rparr>
           in if rq_fingerprint q = '''' \<or> rq_fingerprint q \<noteq> fingerprint_of sha (json_of_queue copy)
              then Some QueueFingerprintMismatch
              else None))"

section \<open>Canonical states\<close>

definition CanonicalState :: "item_state \<Rightarrow> string \<Rightarrow> (rq_error, string \<times> string list) result" where
  "CanonicalState st reason =
     (case st of
        Complete \<Rightarrow> Inr (''complete'', [])
      | Partial \<Rightarrow> Inr (''partial'', [])
      | Blocked \<Rightarrow>
          (if \<not> IsBlockedReason reason then Inl InvalidBlockedReason
           else Inr (if reason \<in> {''sensitive_or_ambiguous'', ''access_denied'', ReasonManualProcessing}
                     then ''inaccessible'' else ''failed'',
                     [''resource_blocked:'' @ reason]))
      | _ \<Rightarrow> Inl NotTerminal)"

section \<open>What validation means\<close>

text \<open>The hexadecimal digest is never empty.\<close>

definition digest_ok :: "(string \<Rightarrow> string) \<Rightarrow> bool" where
  "digest_ok sha \<longleftrightarrow> (\<forall>x. sha x \<noteq> '''')"

definition item_ok :: "(string \<Rightarrow> string) \<Rightarrow> budget_profile \<Rightarrow> item \<Rightarrow> bool" where
  "item_ok sha profile it \<longleftrightarrow>
     validQueueText (it_resource_id it) maximumResourceIDBytes \<and>
     it_job_id it = JobIdentity sha profile (it_resource_id it) \<and>
     0 \<le> it_attempts it \<and> 0 \<le> it_reserved_requests it \<and>
     check_state_reason (it_state it) (it_reason it) = None \<and>
     (it_state it \<noteq> Processing \<longrightarrow> it_reserved_requests it = 0)"

definition queue_ok :: "(string \<Rightarrow> string) \<Rightarrow> queue \<Rightarrow> bool" where
  "queue_ok sha q \<longleftrightarrow>
     ValidateProfile sha (rq_profile q) = None \<and> 0 \<le> rq_generation q \<and>
     int (length (rq_items q)) \<le> MaximumQueueItems \<and> validGenerationKind (rq_generation_kind q) \<and>
     counters_nonneg (rq_counters q) \<and> distinct (map it_resource_id (rq_items q)) \<and>
     (\<forall>it \<in> set (rq_items q). item_ok sha (rq_profile q) it)"

lemma check_items_None_iff:
  "check_items sha profile seen its = None \<longleftrightarrow>
     (\<forall>it \<in> set its. item_ok sha profile it) \<and> distinct (map it_resource_id its) \<and>
     set (map it_resource_id its) \<inter> set seen = {}"
proof (induction its arbitrary: seen)
  case Nil
  then show ?case by simp
next
  case (Cons it its)
  then show ?case by (auto simp: item_ok_def split: option.splits)
qed

lemma Validate_None_iff:
  "Validate sha q = None \<longleftrightarrow>
     rq_schema_version q = SchemaVersion \<and> queue_ok sha q \<and> rq_fingerprint q \<noteq> '''' \<and>
     rq_fingerprint q = fingerprint_of sha (json_of_queue (q\<lparr>rq_fingerprint := ''''\<rparr>))"
  using check_items_None_iff [of sha "rq_profile q" "[]" "rq_items q"]
  by (cases "check_items sha (rq_profile q) [] (rq_items q)")
    (auto simp: Validate_def queue_ok_def Let_def)

lemma ValidateProfile_SealProfile:
  assumes "digest_ok sha"
  shows "ValidateProfile sha (SealProfile sha p) = None \<longleftrightarrow>
    profile_fields_ok (p\<lparr>bp_schema_version := BudgetSchemaVersion\<rparr>)"
  using assms
  by (simp add: ValidateProfile_def SealProfile_def profile_fields_ok_def fingerprint_of_def
      digest_ok_def Let_def)

lemma SealProfile_idem [simp]: "SealProfile sha (SealProfile sha p) = SealProfile sha p"
  by (simp add: SealProfile_def Let_def)

lemma Seal_simps [simp]:
  "rq_profile (Seal sha q) = rq_profile q"
  "rq_generation (Seal sha q) = rq_generation q"
  "rq_generation_kind (Seal sha q) = rq_generation_kind q"
  "rq_generation_closed (Seal sha q) = rq_generation_closed q"
  "rq_legacy_migration_complete (Seal sha q) = rq_legacy_migration_complete q"
  "rq_counters (Seal sha q) = rq_counters q"
  "rq_items (Seal sha q) = sort_key it_resource_id (rq_items q)"
  "rq_schema_version (Seal sha q) = SchemaVersion"
  by (simp_all add: Seal_def Let_def)

lemma Seal_idem [simp]: "Seal sha (Seal sha q) = Seal sha q"
  by (simp add: Seal_def Let_def)

lemma queue_ok_Seal [simp]: "queue_ok sha (Seal sha q) = queue_ok sha q"
  by (simp add: queue_ok_def)

text \<open>Sealing makes exactly the structurally sound queues valid.\<close>

lemma Validate_Seal_iff:
  assumes "digest_ok sha"
  shows "Validate sha (Seal sha q) = None \<longleftrightarrow> queue_ok sha q"
proof -
  have "rq_fingerprint (Seal sha q) =
      fingerprint_of sha (json_of_queue ((Seal sha q)\<lparr>rq_fingerprint := ''''\<rparr>))"
    by (simp add: Seal_def Let_def)
  moreover have "rq_fingerprint (Seal sha q) \<noteq> ''''"
    using assms by (simp add: Seal_def Let_def fingerprint_of_def digest_ok_def)
  ultimately show ?thesis by (simp add: Validate_None_iff)
qed

section \<open>The encoding identifies the queue\<close>

lemma map_of_opt_field:
  "map_of (opt_field b k v) x = (if b \<and> x = k then Some v else None)"
  by (simp add: opt_field_def)

lemma json_of_fetch_policy_inj [simp]:
  "json_of_fetch_policy a = json_of_fetch_policy b \<longleftrightarrow> a = b"
  by (cases a; cases b) (simp add: json_of_fetch_policy_def)

lemma json_of_profile_inj [simp]: "json_of_profile a = json_of_profile b \<longleftrightarrow> a = b"
  by (cases a; cases b) (simp add: json_of_profile_def)

lemma json_of_counters_inj [simp]: "json_of_counters a = json_of_counters b \<longleftrightarrow> a = b"
  by (cases a; cases b) (simp add: json_of_counters_def)

definition known_state :: "item_state \<Rightarrow> bool" where
  "known_state st \<longleftrightarrow> (case st of OtherState _ \<Rightarrow> False | _ \<Rightarrow> True)"

lemma state_text_inj:
  "known_state a \<Longrightarrow> known_state b \<Longrightarrow> state_text a = state_text b \<Longrightarrow> a = b"
  by (cases a; cases b) (simp_all add: known_state_def)

lemma item_ok_known: "item_ok sha p it \<Longrightarrow> known_state (it_state it)"
  by (auto simp: item_ok_def check_state_reason_def known_state_def split: item_state.splits)

lemma json_of_item_inj:
  assumes "known_state (it_state a)" "known_state (it_state b)" "json_of_item a = json_of_item b"
  shows "a = b"
  using assms state_text_inj [of "it_state a" "it_state b"]
  by (cases a; cases b) (auto simp: json_of_item_def opt_field_def split: if_splits)

text \<open>The fields of an encoded object, by name.\<close>

fun json_fields :: "json \<Rightarrow> string \<Rightarrow> json option" where
  "json_fields (JObj fs) = map_of fs"
| "json_fields _ = Map.empty"

lemma queue_json_fields:
  "json_fields (json_of_queue q) ''schema_version'' = Some (JStr (rq_schema_version q))"
  "json_fields (json_of_queue q) ''profile'' = Some (json_of_profile (rq_profile q))"
  "json_fields (json_of_queue q) ''generation'' =
     (if rq_generation q \<noteq> 0 then Some (JInt (rq_generation q)) else None)"
  "json_fields (json_of_queue q) ''generation_kind'' =
     (if rq_generation_kind q \<noteq> '''' then Some (JStr (rq_generation_kind q)) else None)"
  "json_fields (json_of_queue q) ''generation_closed'' =
     (if rq_generation_closed q then Some (JBool True) else None)"
  "json_fields (json_of_queue q) ''legacy_budget_migration_complete'' =
     (if rq_legacy_migration_complete q then Some (JBool True) else None)"
  "json_fields (json_of_queue q) ''counters'' = Some (json_of_counters (rq_counters q))"
  "json_fields (json_of_queue q) ''items'' = Some (JArr (map json_of_item (rq_items q)))"
  "json_fields (json_of_queue q) ''fingerprint'' = Some (JStr (rq_fingerprint q))"
  by (simp_all add: json_of_queue_def map_of_opt_field opt_field_def)

lemma json_of_queue_inj:
  assumes "\<forall>it \<in> set (rq_items a) \<union> set (rq_items b). known_state (it_state it)"
    and eq: "json_of_queue a = json_of_queue b"
  shows "a = b"
proof -
  have f: "json_fields (json_of_queue a) k = json_fields (json_of_queue b) k" for k
    by (simp add: eq)
  have items: "rq_items a = rq_items b"
  proof (rule map_inj_on)
    show "map json_of_item (rq_items a) = map json_of_item (rq_items b)"
      using f [of "''items''"] by (simp add: queue_json_fields)
    show "inj_on json_of_item (set (rq_items a) \<union> set (rq_items b))"
      using assms(1) json_of_item_inj by (auto simp: inj_on_def)
  qed
  show ?thesis
    using items f [of "''schema_version''"] f [of "''profile''"] f [of "''generation''"]
      f [of "''generation_kind''"] f [of "''generation_closed''"]
      f [of "''legacy_budget_migration_complete''"] f [of "''counters''"] f [of "''fingerprint''"]
    by (cases a; cases b) (simp add: queue_json_fields split: if_splits)
qed

text \<open>
  Two valid queues with the same fingerprint are the same queue, unless SHA-256 collides on
  exactly their two encodings: a persisted queue cannot be edited unnoticed.
\<close>

lemma Validate_fingerprint_inject:
  assumes "Validate sha a = None" "Validate sha b = None" "rq_fingerprint a = rq_fingerprint b"
    and "no_collision sha (encode (json_of_queue (a\<lparr>rq_fingerprint := ''''\<rparr>)))
           (encode (json_of_queue (b\<lparr>rq_fingerprint := ''''\<rparr>)))"
  shows "a = b"
proof -
  let ?a = "a\<lparr>rq_fingerprint := ''''\<rparr>" and ?b = "b\<lparr>rq_fingerprint := ''''\<rparr>"
  have "fingerprint_of sha (json_of_queue ?a) = fingerprint_of sha (json_of_queue ?b)"
    using assms(1-3) by (simp add: Validate_None_iff)
  with assms(4) have "json_of_queue ?a = json_of_queue ?b"
    by (simp add: fingerprint_of_inject)
  moreover have "\<forall>it \<in> set (rq_items ?a) \<union> set (rq_items ?b). known_state (it_state it)"
    using assms(1,2) item_ok_known by (auto simp: Validate_None_iff queue_ok_def)
  ultimately have "?a = ?b" by (rule json_of_queue_inj [rotated])
  then show ?thesis using assms(3) by (cases a; cases b) simp
qed

text \<open>
  A queue with no generational state encodes as it did before those fields existed, so older
  fingerprints stay valid.
\<close>

lemma json_of_queue_without_generation:
  "rq_generation q = 0 \<Longrightarrow> rq_generation_kind q = '''' \<Longrightarrow> \<not> rq_generation_closed q \<Longrightarrow>
   \<not> rq_legacy_migration_complete q \<Longrightarrow>
   map fst (case json_of_queue q of JObj fs \<Rightarrow> fs | _ \<Rightarrow> []) =
     [''schema_version'', ''profile'', ''counters'', ''items'', ''fingerprint'']"
  by (simp add: json_of_queue_def opt_field_def)

section \<open>The fixed profiles\<close>

lemma blocked_reason_cases:
  "check_state_reason st r = None \<longleftrightarrow>
     (st = Blocked \<and> IsBlockedReason r) \<or> (st \<in> {Queued, Processing, Complete, Partial} \<and> r = '''')"
  by (cases st) (auto simp: check_state_reason_def)

lemma CanonicalState_ok_iff:
  "is_ok (CanonicalState st r) \<longleftrightarrow>
     st = Complete \<or> st = Partial \<or> (st = Blocked \<and> IsBlockedReason r)"
  by (cases st) (auto simp: CanonicalState_def)

lemma LiveProfile_name_ok: "validQueueText ''live'' 64"
  by code_simp

lemma LiveProfile_fields: "profile_fields_ok (LiveProfile sha)"
  by (simp add: profile_fields_ok_def LiveProfile_def SealProfile_def Let_def go_defs LiveProfile_name_ok)

end
