(* ===== verification/Private_IO.thy ===== *)
theory Private_IO
  imports Mindline_Prelude
begin

text \<open>
  The durable-write boundary of \<open>internal/privateio\<close>: \<open>AtomicReplaceWithBackup\<close> and
  \<open>atomicReplaceFile\<close>, with the fault points of \<open>faults.go\<close> and the operating-system calls
  that can fail. A file holds either the canonical bytes of a document (\<open>Doc d\<close>) or bytes
  that decode to no document (\<open>Garbled\<close>); a document and its bytes determine each other,
  because the encoding of \<open>Go_Json\<close> is injective.

  The lemmas show that a crash at any fault point leaves the current file with the old or the
  complete new document, that the backup holds the prior document whenever the current file
  has changed, and that success means the new document was validated and is on disk.
\<close>

section \<open>Files and failures\<close>

datatype 'd blob = Doc 'd | Garbled string

datatype fault_point =
    FaultBeforeBackupWrite | FaultAfterBackupWrite | FaultBeforeBackupSync | FaultAfterBackupSync
  | FaultBeforeBackupRename | FaultAfterBackupRename | FaultBeforeBackupDirSync | FaultAfterBackupDirSync
  | FaultBeforeCurrentWrite | FaultAfterCurrentWrite | FaultBeforeCurrentSync | FaultAfterCurrentSync
  | FaultBeforeCurrentRename | FaultAfterCurrentRename | FaultBeforeCurrentDirSync | FaultAfterCurrentDirSync
  | FaultBeforeReread | FaultAfterReread

text \<open>The calls of \<open>atomicReplaceFile\<close> and its caller that the operating system can refuse.\<close>

datatype os_call =
    OsPrepareDir | OsTargetUnsafe | OsCreateTemp | OsChmod | OsWrite | OsSync | OsClose | OsRename
  | OsDirOpen | OsDirSync | OsTargetChmod

record io_env =
  inject :: "fault_point \<Rightarrow> bool"
  os_fails :: "bool \<Rightarrow> os_call \<Rightarrow> bool" \<comment> \<open>the flag says whether the backup is being written\<close>
  contained_fails :: bool
  reread_fails :: bool

datatype io_error = ErrAtomicWriteFailed | ErrAtomicValidationFailed

record 'd disk =
  current_file :: "'d blob option"
  backup_file :: "'d blob option"

definition quiet_env :: io_env where
  "quiet_env = \<lparr>inject = (\<lambda>_. False), os_fails = (\<lambda>_ _. False),
     contained_fails = False, reread_fails = False\<rparr>"

section \<open>Replacing one file\<close>

text \<open>
  The steps before the rename work on a temporary file, which is removed on every return; the
  target changes at the rename and nowhere else.
\<close>

definition fails_before_rename :: "io_env \<Rightarrow> bool \<Rightarrow> bool" where
  "fails_before_rename env bk \<longleftrightarrow>
     os_fails env bk OsPrepareDir \<or> os_fails env bk OsTargetUnsafe \<or>
     os_fails env bk OsCreateTemp \<or> os_fails env bk OsChmod \<or> os_fails env bk OsWrite \<or>
     inject env (if bk then FaultAfterBackupWrite else FaultAfterCurrentWrite) \<or>
     inject env (if bk then FaultBeforeBackupSync else FaultBeforeCurrentSync) \<or>
     os_fails env bk OsSync \<or>
     inject env (if bk then FaultAfterBackupSync else FaultAfterCurrentSync) \<or>
     os_fails env bk OsClose \<or>
     inject env (if bk then FaultBeforeBackupRename else FaultBeforeCurrentRename) \<or>
     os_fails env bk OsRename"

definition fails_after_rename :: "io_env \<Rightarrow> bool \<Rightarrow> bool" where
  "fails_after_rename env bk \<longleftrightarrow>
     inject env (if bk then FaultAfterBackupRename else FaultAfterCurrentRename) \<or>
     inject env (if bk then FaultBeforeBackupDirSync else FaultBeforeCurrentDirSync) \<or>
     os_fails env bk OsDirOpen \<or> os_fails env bk OsDirSync \<or>
     inject env (if bk then FaultAfterBackupDirSync else FaultAfterCurrentDirSync)"

definition atomic_replace_file ::
  "io_env \<Rightarrow> bool \<Rightarrow> 'd blob \<Rightarrow> 'd blob option \<Rightarrow> 'd blob option \<times> io_error option" where
  "atomic_replace_file env bk data slot =
     (if fails_before_rename env bk then (slot, Some ErrAtomicWriteFailed)
      else if fails_after_rename env bk then (Some data, Some ErrAtomicWriteFailed)
      else (Some data, None))"

section \<open>Replacing the current file with a backup of the prior one\<close>

text \<open>
  \<open>blen\<close> is the number of bytes of a file and \<open>valid\<close> the caller's validation;
  \<open>prior = None\<close> is the empty prior of a first write.
\<close>

definition replace_current ::
  "io_env \<Rightarrow> ('d blob \<Rightarrow> int) \<Rightarrow> int \<Rightarrow> ('d blob \<Rightarrow> bool) \<Rightarrow> 'd blob \<Rightarrow> 'd disk
    \<Rightarrow> 'd disk \<times> io_error option" where
  "replace_current env blen max_bytes valid next d =
     (if inject env FaultBeforeCurrentWrite then (d, Some ErrAtomicWriteFailed)
      else
        (let (cur, err) = atomic_replace_file env False next (current_file d);
             d' = d\<lparr>current_file := cur\<rparr>
         in case err of
              Some e \<Rightarrow> (d', Some e)
            | None \<Rightarrow>
                if inject env FaultBeforeReread then (d', Some ErrAtomicWriteFailed)
                else if reread_fails env \<or> cur \<noteq> Some next \<or> blen next > max_bytes \<or> \<not> valid next
                  then (d', Some ErrAtomicValidationFailed)
                else if inject env FaultAfterReread then (d', Some ErrAtomicWriteFailed)
                else (d', None)))"

definition atomic_replace_with_backup ::
  "io_env \<Rightarrow> ('d blob \<Rightarrow> int) \<Rightarrow> int \<Rightarrow> ('d blob \<Rightarrow> bool) \<Rightarrow> 'd blob \<Rightarrow> 'd blob option
    \<Rightarrow> 'd disk \<Rightarrow> 'd disk \<times> io_error option" where
  "atomic_replace_with_backup env blen max_bytes valid next prior d =
     (if max_bytes \<le> 0 \<or> blen next > max_bytes then (d, Some ErrAtomicValidationFailed)
      else if \<not> valid next then (d, Some ErrAtomicValidationFailed)
      else if contained_fails env then (d, Some ErrAtomicWriteFailed)
      else case prior of
        None \<Rightarrow> replace_current env blen max_bytes valid next d
      | Some p \<Rightarrow>
          if blen p > max_bytes \<or> \<not> valid p then (d, Some ErrAtomicValidationFailed)
          else if inject env FaultBeforeBackupWrite then (d, Some ErrAtomicWriteFailed)
          else
            (let (bak, err) = atomic_replace_file env True p (backup_file d);
                 d' = d\<lparr>backup_file := bak\<rparr>
             in case err of
                  Some e \<Rightarrow> (d', Some e)
                | None \<Rightarrow> replace_current env blen max_bytes valid next d'))"

section \<open>Writing one file without a backup\<close>

text \<open>
  \<open>WriteFile\<close>: the same temporary file and rename, with \<open>noReplace\<close> linking instead of
  renaming, no fault points, and the mode of the target set after the rename.
\<close>

datatype write_error = WriteRefused | WriteExists

definition WriteFile ::
  "io_env \<Rightarrow> bool \<Rightarrow> 'd blob \<Rightarrow> 'd blob option \<Rightarrow> 'd blob option \<times> write_error option" where
  "WriteFile env no_replace data slot =
     (if os_fails env False OsPrepareDir \<or> os_fails env False OsTargetUnsafe
      then (slot, Some WriteRefused)
      else if no_replace \<and> slot \<noteq> None then (slot, Some WriteExists)
      else if os_fails env False OsCreateTemp \<or> os_fails env False OsChmod \<or>
              os_fails env False OsWrite \<or> os_fails env False OsSync \<or>
              os_fails env False OsClose \<or> os_fails env False OsRename
      then (slot, Some WriteRefused)
      else if os_fails env False OsTargetChmod \<or> os_fails env False OsDirOpen \<or>
              os_fails env False OsDirSync
      then (Some data, Some WriteRefused)
      else (Some data, None))"

section \<open>Crash safety\<close>

lemma WriteFile_slot: "fst (WriteFile env nr data slot) \<in> {slot, Some data}"
  by (simp add: WriteFile_def)

lemma WriteFile_ok: "WriteFile env nr data slot = (slot', None) \<Longrightarrow> slot' = Some data"
  by (auto simp: WriteFile_def split: if_splits)

lemma WriteFile_no_replace: "fst (WriteFile env True data (Some old)) = Some old"
  by (simp add: WriteFile_def)

lemma WriteFile_quiet [simp]: "WriteFile quiet_env False data slot = (Some data, None)"
  by (simp add: WriteFile_def quiet_env_def)

lemmas atomic_defs = atomic_replace_with_backup_def replace_current_def atomic_replace_file_def

lemma atomic_replace_file_slot:
  "fst (atomic_replace_file env bk data slot) \<in> {slot, Some data}"
  by (simp add: atomic_replace_file_def)

lemma replace_current_slot:
  assumes "replace_current env blen m valid next d = (d', r)"
  shows "current_file d' \<in> {current_file d, Some next}" and "backup_file d' = backup_file d"
  using assms
  by (auto simp: replace_current_def atomic_replace_file_def Let_def split: if_splits option.splits)

lemma replace_current_ok:
  assumes "replace_current env blen m valid next d = (d', None)"
  shows "current_file d' = Some next"
  using assms
  by (auto simp: replace_current_def atomic_replace_file_def Let_def split: if_splits option.splits)

text \<open>Whatever fails, the current file holds the old or the complete new document.\<close>

lemma atomic_replace_current:
  assumes "atomic_replace_with_backup env blen m valid next prior d = (d', r)"
  shows "current_file d' \<in> {current_file d, Some next}"
  using assms replace_current_slot(1)
  by (fastforce simp: atomic_replace_with_backup_def atomic_replace_file_def Let_def
      split: if_splits option.splits)

text \<open>Once the current file may have changed, the backup holds the prior document.\<close>

lemma atomic_replace_backup:
  assumes "atomic_replace_with_backup env blen m valid next (Some p) d = (d', r)"
    and "current_file d' \<noteq> current_file d"
  shows "backup_file d' = Some p"
  using assms replace_current_slot(2)
  by (fastforce simp: atomic_replace_with_backup_def atomic_replace_file_def Let_def
      split: if_splits option.splits)

lemma atomic_replace_ok:
  assumes "atomic_replace_with_backup env blen m valid next prior d = (d', None)"
  shows "current_file d' = Some next \<and> valid next \<and> blen next \<le> m \<and> 0 < m"
  using assms replace_current_ok
  by (fastforce simp: atomic_replace_with_backup_def atomic_replace_file_def Let_def
      split: if_splits option.splits)

text \<open>A document that fails validation, or is too large, never touches the disk.\<close>

lemma atomic_replace_invalid_untouched:
  "\<not> (valid next \<and> blen next \<le> m \<and> 0 < m) \<Longrightarrow>
    atomic_replace_with_backup env blen m valid next prior d = (d, Some ErrAtomicValidationFailed)"
  by (auto simp: atomic_replace_with_backup_def)

lemma atomic_replace_quiet:
  assumes "valid next" "blen next \<le> m" "0 < m" "\<forall>p. prior = Some p \<longrightarrow> valid p \<and> blen p \<le> m"
  shows "atomic_replace_with_backup quiet_env blen m valid next prior d =
    (d\<lparr>current_file := Some next,
       backup_file := (case prior of None \<Rightarrow> backup_file d | Some p \<Rightarrow> Some p)\<rparr>, None)"
  using assms
  by (auto simp: atomic_defs quiet_env_def Let_def fails_before_rename_def fails_after_rename_def
      split: option.splits)

text \<open>
  A crash-safe document store: what a client of the durable boundary relies on. \<open>put env n d\<close>
  stores \<open>n\<close>, \<open>get\<close> reads the current document, \<open>ok\<close> is the validation.
\<close>

locale durable_store =
  fixes get :: "'s \<Rightarrow> 'b option"
    and put :: "'env \<Rightarrow> 'b \<Rightarrow> 's \<Rightarrow> 's \<times> 'err option"
    and ok :: "'b \<Rightarrow> bool"
  assumes put_old_or_new: "get (fst (put env n s)) \<in> {get s, Some n}"
    and put_ok: "snd (put env n s) = None \<Longrightarrow> get (fst (put env n s)) = Some n \<and> ok n"
    and put_invalid: "\<not> ok n \<Longrightarrow> fst (put env n s) = s \<and> snd (put env n s) \<noteq> None"
begin

text \<open>A store that holds a valid document keeps holding one, whatever fails and whenever.\<close>

lemma get_valid_kept:
  assumes "\<And>b. get s = Some b \<Longrightarrow> ok b" and "get (fst (put env n s)) = Some b"
  shows "ok b"
  using assms put_old_or_new [of env n s] put_invalid [of n env s]
  by (cases "ok n") auto

fun put_all :: "('env \<times> 'b) list \<Rightarrow> 's \<Rightarrow> 's" where
  "put_all [] s = s"
| "put_all ((env, n) # ws) s = put_all ws (fst (put env n s))"

lemma put_all_valid:
  assumes "\<And>b. get s = Some b \<Longrightarrow> ok b"
  shows "get (put_all ws s) = Some b \<Longrightarrow> ok b"
  using assms
proof (induction ws arbitrary: s)
  case Nil
  then show ?case by simp
next
  case (Cons w ws)
  obtain env n where w: "w = (env, n)" by (cases w)
  have "\<And>b. get (fst (put env n s)) = Some b \<Longrightarrow> ok b"
    using get_valid_kept Cons.prems(2) by blast
  from Cons.IH [OF _ this] Cons.prems(1) w show ?case by simp
qed

text \<open>Every document the store ever shows was there at the start or was written to it.\<close>

lemma put_all_provenance:
  "get (put_all ws s) = Some b \<Longrightarrow> get s = Some b \<or> b \<in> snd ` set ws"
proof (induction ws arbitrary: s)
  case Nil
  then show ?case by simp
next
  case (Cons w ws)
  obtain env n where w: "w = (env, n)" by (cases w)
  with Cons.IH [of "fst (put env n s)"] Cons.prems put_old_or_new [of env n s]
  show ?case by auto
qed

end

text \<open>
  The atomic replacement is such a store, for every validation and every size bound, when a
  write offers the document now current as the prior one.
\<close>

definition replace_document ::
  "('d blob \<Rightarrow> int) \<Rightarrow> int \<Rightarrow> ('d blob \<Rightarrow> bool) \<Rightarrow> io_env \<Rightarrow> 'd blob \<Rightarrow> 'd disk
    \<Rightarrow> 'd disk \<times> io_error option" where
  "replace_document blen m valid env n d =
     atomic_replace_with_backup env blen m valid n (current_file d) d"

interpretation atomic_doc: durable_store current_file "replace_document blen m valid"
  "\<lambda>b. valid b \<and> blen b \<le> m \<and> 0 < m"
  for blen :: "'d blob \<Rightarrow> int" and m valid
proof (unfold_locales, goal_cases)
  case (1 env n s)
  show ?case
    using atomic_replace_current [of env blen m valid n "current_file s" s]
    by (cases "replace_document blen m valid env n s") (auto simp: replace_document_def)
next
  case (2 env n s)
  from atomic_replace_ok [of env blen m valid n "current_file s" s] this show ?case
    by (cases "replace_document blen m valid env n s") (simp add: replace_document_def)
next
  case (3 n env s)
  with atomic_replace_invalid_untouched [of valid n blen m env "current_file s" s] show ?case
    unfolding replace_document_def by simp
qed

end
