(* ===== verification/Resource_Store.thy ===== *)
theory Resource_Store
  imports Resource_Types Private_IO
begin

text \<open>
  \<open>internal/resourcequeue/store.go\<close>: every transition of the derived resource queue. The
  closure that each operation passes to \<open>Store.update\<close> is a function from a queue to an
  error or the changed queue (with what the operation returns); \<open>store_update\<close> wraps it in
  the load, seal, validate and atomic-replace cycle of the source.

  Counters are 64-bit integers: additions and subtractions are \<open>i64_add\<close> and \<open>i64_sub\<close>.
\<close>

section \<open>Budget predicates\<close>

definition globalBudgetExhausted :: "queue \<Rightarrow> bool" where
  "globalBudgetExhausted q \<longleftrightarrow>
     rq_generation_closed q \<or>
     ct_processed_resources (rq_counters q) \<ge> bp_max_resources (rq_profile q) \<or>
     i64_add (ct_requests (rq_counters q)) (ct_reserved_requests (rq_counters q))
       \<ge> bp_max_requests (rq_profile q) \<or>
     ct_downloaded_bytes (rq_counters q) \<ge> bp_max_downloaded_bytes (rq_profile q) \<or>
     ct_decoded_bytes (rq_counters q) \<ge> bp_max_decoded_bytes (rq_profile q) \<or>
     ct_extracted_bytes (rq_counters q) \<ge> bp_max_extracted_bytes (rq_profile q) \<or>
     ct_runtime_storage_bytes (rq_counters q) \<ge> bp_max_runtime_storage_bytes (rq_profile q) \<or>
     ct_wall_seconds (rq_counters q) \<ge> bp_max_run_wall_seconds (rq_profile q)"

definition budgetDefersItem :: "queue \<Rightarrow> item \<Rightarrow> bool" where
  "budgetDefersItem q it \<longleftrightarrow>
     (if rq_generation_closed q \<or>
         i64_add (ct_requests (rq_counters q)) (ct_reserved_requests (rq_counters q))
           \<ge> bp_max_requests (rq_profile q) \<or>
         ct_downloaded_bytes (rq_counters q) \<ge> bp_max_downloaded_bytes (rq_profile q) \<or>
         ct_decoded_bytes (rq_counters q) \<ge> bp_max_decoded_bytes (rq_profile q) \<or>
         ct_extracted_bytes (rq_counters q) \<ge> bp_max_extracted_bytes (rq_profile q) \<or>
         ct_runtime_storage_bytes (rq_counters q) \<ge> bp_max_runtime_storage_bytes (rq_profile q) \<or>
         ct_wall_seconds (rq_counters q) \<ge> bp_max_run_wall_seconds (rq_profile q)
      then True
      else ct_processed_resources (rq_counters q) \<ge> bp_max_resources (rq_profile q) \<and>
           it_attempts it = 0)"

section \<open>The transitions\<close>

type_synonym 'x change = "queue \<Rightarrow> (rq_error, queue \<times> 'x) result"

definition minimumInt64 :: "int \<Rightarrow> int \<Rightarrow> int" where
  "minimumInt64 left right = (if left < right then left else right)"

definition release_reservation :: "counters \<Rightarrow> item \<Rightarrow> counters" where
  "release_reservation c it =
     c\<lparr>ct_reserved_requests := i64_sub (ct_reserved_requests c) (it_reserved_requests it)\<rparr>"

definition charge_wall_change :: "int \<Rightarrow> unit change" where
  "charge_wall_change floor q =
     (if floor \<le> ct_wall_seconds (rq_counters q) then Inr (q, ())
      else Inr (q\<lparr>rq_counters := (rq_counters q)\<lparr>ct_wall_seconds :=
             minimumInt64 (bp_max_run_wall_seconds (rq_profile q)) floor\<rparr>\<rparr>, ()))"

definition new_item :: "(string \<Rightarrow> string) \<Rightarrow> budget_profile \<Rightarrow> string \<Rightarrow> item" where
  "new_item sha profile rid =
     \<lparr>it_job_id = JobIdentity sha profile rid, it_resource_id = rid, it_state = Queued,
      it_reason = '''', it_attempts = 0, it_reserved_requests = 0\<rparr>"

text \<open>\<open>known\<close> always holds exactly the identifiers of the items.\<close>

fun enqueue_loop :: "(string \<Rightarrow> string) \<Rightarrow> budget_profile \<Rightarrow> string list \<Rightarrow> item list
    \<Rightarrow> (rq_error, item list) result" where
  "enqueue_loop sha profile [] items = Inr items"
| "enqueue_loop sha profile (rid # rids) items =
     (if \<not> validQueueText rid maximumResourceIDBytes then Inl ResourceIDEmpty
      else if rid \<in> it_resource_id ` set items then enqueue_loop sha profile rids items
      else if int (length items) \<ge> MaximumQueueItems then Inl MembershipExceedsLimit
      else enqueue_loop sha profile rids (items @ [new_item sha profile rid]))"

definition enqueue_change :: "(string \<Rightarrow> string) \<Rightarrow> string list \<Rightarrow> unit change" where
  "enqueue_change sha rids q =
     rbind (enqueue_loop sha (rq_profile q) rids (rq_items q))
       (\<lambda>items. Inr (q\<lparr>rq_items := items\<rparr>, ()))"

text \<open>
  \<open>updateMembership\<close>: the loop that drops the undesired items and releases the reservations
  of those in flight, then the optional new generation, then the missing items.
\<close>

fun retain_loop :: "string list \<Rightarrow> item list \<Rightarrow> counters \<Rightarrow> (rq_error, item list \<times> counters) result" where
  "retain_loop desired [] c = Inr ([], c)"
| "retain_loop desired (it # its) c =
     (if it_resource_id it \<notin> set desired then
        (if it_state it = Processing then
           (if it_reserved_requests it > ct_reserved_requests c then Inl ReservationAccountingInvalid
            else retain_loop desired its (release_reservation c it))
         else retain_loop desired its c)
      else rbind (retain_loop desired its c) (\<lambda>(kept, c'). Inr (it # kept, c')))"

definition reopen_deferred :: "bool \<Rightarrow> item \<Rightarrow> item" where
  "reopen_deferred legacy_allowed it =
     (if it_state it = Blocked \<and>
         (it_reason it = ReasonRunBudgetDeferred \<or>
          (legacy_allowed \<and> it_reason it = ReasonBudgetExhausted \<and> it_attempts it = 0))
      then it\<lparr>it_state := Queued, it_reason := '''', it_attempts := 0, it_reserved_requests := 0\<rparr>
      else it)"

definition is_active :: "item \<Rightarrow> bool" where
  "is_active it \<longleftrightarrow> it_state it = Queued \<or> it_state it = Processing"

definition membership_change :: "(string \<Rightarrow> string) \<Rightarrow> string list \<Rightarrow> bool \<Rightarrow> unit change" where
  "membership_change sha rids add_missing q =
     rbind (retain_loop rids (rq_items q) (rq_counters q)) (\<lambda>(retained, c).
       let known = map it_resource_id retained;
           active = list_ex is_active retained;
           missing = (add_missing \<and> list_ex (\<lambda>rid. rid \<notin> set known) rids);
           q1 = (if missing \<and> \<not> active
                 then q\<lparr>rq_generation := i64_add (rq_generation q) 1,
                        rq_generation_kind := ''continuation'', rq_generation_closed := False,
                        rq_counters := zero_counters, rq_legacy_migration_complete := True\<rparr>
                 else q\<lparr>rq_counters := c\<rparr>);
           retained1 = (if missing \<and> \<not> active
                        then map (reopen_deferred (\<not> rq_legacy_migration_complete q)) retained
                        else retained);
           added = (if add_missing
                    then map (new_item sha (rq_profile q)) (filter (\<lambda>rid. rid \<notin> set known) rids)
                    else []);
           kind = (if missing \<and> active \<and> starts_with ''retry:'' (rq_generation_kind q1)
                   then '''' else rq_generation_kind q1)
       in Inr (q1\<lparr>rq_generation_kind := kind, rq_items := retained1 @ added\<rparr>, ()))"

fun rebuild_loop :: "(string \<Rightarrow> string) \<Rightarrow> budget_profile \<Rightarrow> string list \<Rightarrow> rebuild_item list
    \<Rightarrow> (rq_error, item list) result" where
  "rebuild_loop sha profile seen [] = Inr []"
| "rebuild_loop sha profile seen (rb # rbs) =
     (if \<not> validQueueText (rb_resource_id rb) maximumResourceIDBytes \<or> rb_resource_id rb \<in> set seen
      then Inl InvalidRebuildItem
      else
        let item = \<lparr>it_job_id = JobIdentity sha profile (rb_resource_id rb),
                    it_resource_id = rb_resource_id rb, it_state = rb_state rb,
                    it_reason = rb_reason rb, it_attempts = 0, it_reserved_requests = 0\<rparr>;
            continue = rbind (rebuild_loop sha profile (rb_resource_id rb # seen) rbs)
                         (\<lambda>items. Inr (item # items))
        in case rb_state rb of
             Queued \<Rightarrow> guard_err (rb_reason rb \<noteq> '''') QueuedRebuildItemHasReason continue
           | Complete \<Rightarrow> guard_err (rb_reason rb \<noteq> '''') SuccessfulRebuildItemHasReason continue
           | Partial \<Rightarrow> guard_err (rb_reason rb \<noteq> '''') SuccessfulRebuildItemHasReason continue
           | Blocked \<Rightarrow> guard_err (\<not> IsBlockedReason (rb_reason rb)) BlockedRebuildItemInvalidReason continue
           | _ \<Rightarrow> Inl InvalidRebuildState)"

definition rebuild_change :: "(string \<Rightarrow> string) \<Rightarrow> rebuild_item list \<Rightarrow> unit change" where
  "rebuild_change sha rbs q =
     rbind (rebuild_loop sha (rq_profile q) [] rbs) (\<lambda>items.
       Inr (q\<lparr>rq_counters := zero_counters, rq_generation_kind := '''',
              rq_generation_closed := False, rq_legacy_migration_complete := True,
              rq_items := items\<rparr>, ()))"

definition usage_valid :: "usage \<Rightarrow> bool" where
  "usage_valid u \<longleftrightarrow>
     \<not> (us_requests u < 0 \<or> us_downloaded_bytes u < 0 \<or> us_decoded_bytes u < 0 \<or>
        us_extracted_bytes u < 0 \<or> us_runtime_storage_bytes u < 0 \<or> us_wall_seconds u < 0)"

definition processing_item :: "string \<Rightarrow> item \<Rightarrow> bool" where
  "processing_item rid it \<longleftrightarrow> it_resource_id it = rid \<and> it_state it = Processing"

definition settle_item :: "item \<Rightarrow> item" where
  "settle_item it = it\<lparr>it_reserved_requests := 0\<rparr>"

text \<open>
  \<open>consumeUsage\<close>: a usage above the reservation exhausts the request budget; one that would
  cross an aggregate cap is clamped to the caps; otherwise it is charged as reported.
\<close>

definition consumeUsage :: "string \<Rightarrow> usage \<Rightarrow> bool change" where
  "consumeUsage rid u q =
     (case List.find (processing_item rid) (rq_items q) of
        None \<Rightarrow> Inl ItemNotProcessing
      | Some it \<Rightarrow>
          (let c = rq_counters q; p = rq_profile q;
               items = update_first (processing_item rid) settle_item (rq_items q);
               released = release_reservation c it
           in if us_requests u > it_reserved_requests it \<or>
                 us_requests u > i64_add (fp_max_redirects (bp_fetch_policy p)) 1
              then Inr (q\<lparr>rq_items := items,
                          rq_counters := released\<lparr>ct_requests := bp_max_requests p\<rparr>\<rparr>, True)
              else
                (let next_download = i64_add (ct_downloaded_bytes c) (us_downloaded_bytes u);
                     next_decoded = i64_add (ct_decoded_bytes c) (us_decoded_bytes u);
                     next_extracted = i64_add (ct_extracted_bytes c) (us_extracted_bytes u);
                     next_storage = i64_add (ct_runtime_storage_bytes c) (us_runtime_storage_bytes u);
                     next_wall = i64_add (ct_wall_seconds c) (us_wall_seconds u);
                     next_requests = i64_add (ct_requests c) (us_requests u)
                 in if next_download > bp_max_downloaded_bytes p \<or>
                       next_decoded > bp_max_decoded_bytes p \<or>
                       next_extracted > bp_max_extracted_bytes p \<or>
                       next_storage > bp_max_runtime_storage_bytes p \<or>
                       next_wall > bp_max_run_wall_seconds p
                    then Inr (q\<lparr>rq_items := items,
                                rq_counters := released\<lparr>
                                  ct_requests := minimumInt64 (bp_max_requests p) next_requests,
                                  ct_downloaded_bytes := minimumInt64 (bp_max_downloaded_bytes p) next_download,
                                  ct_decoded_bytes := minimumInt64 (bp_max_decoded_bytes p) next_decoded,
                                  ct_extracted_bytes := minimumInt64 (bp_max_extracted_bytes p) next_extracted,
                                  ct_runtime_storage_bytes := minimumInt64 (bp_max_runtime_storage_bytes p) next_storage,
                                  ct_wall_seconds := minimumInt64 (bp_max_run_wall_seconds p) next_wall\<rparr>\<rparr>, True)
                    else Inr (q\<lparr>rq_items := items,
                                rq_counters := released\<lparr>
                                  ct_requests := next_requests,
                                  ct_downloaded_bytes := next_download,
                                  ct_decoded_bytes := next_decoded,
                                  ct_extracted_bytes := next_extracted,
                                  ct_runtime_storage_bytes := next_storage,
                                  ct_wall_seconds := next_wall\<rparr>\<rparr>, False))))"

definition consume_and_close_change :: "string \<Rightarrow> usage \<Rightarrow> bool change" where
  "consume_and_close_change rid u q =
     (if rq_generation_closed q then Inl GenerationAlreadyClosed
      else rbind (consumeUsage rid u q) (\<lambda>(q1, exhausted).
        case List.find (processing_item rid) (rq_items q1) of
          None \<Rightarrow> Inl ItemNotProcessing
        | Some it \<Rightarrow>
            if it_reserved_requests it \<noteq> 0 then Inl ReservationNotSettled
            else Inr (q1\<lparr>rq_items := update_first (processing_item rid) (\<lambda>it. it\<lparr>it_state := Queued\<rparr>)
                                     (rq_items q1),
                         rq_generation_closed := True\<rparr>, exhausted)))"

definition recover_item :: "item \<Rightarrow> item" where
  "recover_item it =
     (if it_state it = Processing then it\<lparr>it_reserved_requests := 0, it_state := Queued\<rparr> else it)"

definition recover_change :: "unit change" where
  "recover_change q =
     Inr (q\<lparr>rq_counters := foldl release_reservation (rq_counters q)
                             (filter (\<lambda>it. it_state it = Processing) (rq_items q)),
            rq_items := map recover_item (rq_items q)\<rparr>, ())"

definition block_item :: "string \<Rightarrow> item \<Rightarrow> item" where
  "block_item reason it = it\<lparr>it_state := Blocked, it_reason := reason\<rparr>"

text \<open>
  \<open>ClaimNext\<close>: the first queued item in resource order is blocked when its attempts or the
  run budget are used up, and otherwise claimed with a request reservation.
\<close>

definition claim_change :: "item option change" where
  "claim_change q =
     (let items = sort_key it_resource_id (rq_items q);
          queued = (\<lambda>it. it_state it = Queued);
          p = rq_profile q; c = rq_counters q
      in case List.find queued items of
           None \<Rightarrow> Inr (q\<lparr>rq_items := items\<rparr>, None)
         | Some it \<Rightarrow>
             if it_attempts it \<ge> bp_max_attempts_per_resource p then
               (let it' = block_item ReasonBudgetExhausted it
                in Inr (q\<lparr>rq_items := update_first queued (\<lambda>_. it') items\<rparr>, Some it'))
             else if budgetDefersItem q it then
               (let it' = block_item ReasonRunBudgetDeferred it
                in Inr (q\<lparr>rq_items := update_first queued (\<lambda>_. it') items\<rparr>, Some it'))
             else
               (let processed = (if it_attempts it = 0 then i64_add (ct_processed_resources c) 1
                                 else ct_processed_resources c);
                    want = i64_add (fp_max_redirects (bp_fetch_policy p)) 1;
                    remaining = i64_sub (i64_sub (bp_max_requests p) (ct_requests c)) (ct_reserved_requests c);
                    reserve = (if want > remaining then remaining else want);
                    it' = it\<lparr>it_state := Processing, it_attempts := i64_add (it_attempts it) 1,
                             it_reserved_requests := reserve\<rparr>;
                    c' = c\<lparr>ct_processed_resources := processed,
                           ct_attempts := i64_add (ct_attempts c) 1,
                           ct_reserved_requests := i64_add (ct_reserved_requests c) reserve\<rparr>
                in Inr (q\<lparr>rq_items := update_first queued (\<lambda>_. it') items, rq_counters := c'\<rparr>, Some it')))"

definition budget_remainder :: "queue \<Rightarrow> string list" where
  "budget_remainder q =
     (if \<not> globalBudgetExhausted q then []
      else sort (map it_resource_id
             (filter (\<lambda>it. it_state it = Queued \<and> budgetDefersItem q it) (rq_items q))))"

fun terminalize_loop :: "queue \<Rightarrow> string list \<Rightarrow> item list
    \<Rightarrow> (rq_error, item list \<times> string list) result" where
  "terminalize_loop q expected [] = Inr ([], expected)"
| "terminalize_loop q expected (it # its) =
     (if it_resource_id it \<notin> set expected
      then rbind (terminalize_loop q expected its) (\<lambda>(done, rest). Inr (it # done, rest))
      else if it_state it \<noteq> Queued then Inl BudgetRemainderChanged
      else if \<not> budgetDefersItem q it then Inl ItemNotDeferred
      else rbind (terminalize_loop q (removeAll (it_resource_id it) expected) its)
             (\<lambda>(done, rest). Inr (block_item ReasonRunBudgetDeferred it # done, rest)))"

definition terminalize_change :: "string list \<Rightarrow> unit change" where
  "terminalize_change rids q =
     (if \<not> globalBudgetExhausted q then Inl BudgetNotExhausted
      else if '''' \<in> set rids \<or> has_dup rids then Inl InvalidBudgetRemainder
      else rbind (terminalize_loop q rids (rq_items q)) (\<lambda>(items, rest).
        if rest \<noteq> [] then Inl BudgetRemainderIncomplete
        else Inr (q\<lparr>rq_items := items\<rparr>, ())))"

definition continuation_eligible :: "queue \<Rightarrow> item \<Rightarrow> bool" where
  "continuation_eligible q it \<longleftrightarrow>
     it_state it = Blocked \<and>
     (it_reason it = ReasonRunBudgetDeferred \<or>
      (\<not> rq_legacy_migration_complete q \<and> it_reason it = ReasonBudgetExhausted \<and> it_attempts it = 0))"

definition requeue_item :: "item \<Rightarrow> item" where
  "requeue_item it = it\<lparr>it_state := Queued, it_reason := '''', it_reserved_requests := 0\<rparr>"

definition open_generation :: "string \<Rightarrow> queue \<Rightarrow> queue" where
  "open_generation kind q =
     q\<lparr>rq_generation := i64_add (rq_generation q) 1, rq_generation_kind := kind,
       rq_generation_closed := False, rq_counters := zero_counters,
       rq_legacy_migration_complete := True\<rparr>"

definition next_generation_change :: "bool change" where
  "next_generation_change q =
     (let has_queued = list_ex (\<lambda>it. it_state it = Queued) (rq_items q);
          all_queued_deferred =
            list_all (\<lambda>it. it_state it = Queued \<longrightarrow> budgetDefersItem q it) (rq_items q);
          eligible = continuation_eligible q
      in if list_ex (\<lambda>it. it_state it = Processing) (rq_items q) then Inr (q, False)
         else if has_queued \<and> (\<not> globalBudgetExhausted q \<or> \<not> all_queued_deferred) then Inr (q, False)
         else if \<not> list_ex eligible (rq_items q) \<and> \<not> has_queued then Inr (q, False)
         else Inr ((open_generation ''continuation'' q)
                     \<lparr>rq_items := map (\<lambda>it. if eligible it then requeue_item it else it) (rq_items q)\<rparr>, True))"

definition retry_generation_change :: "string \<Rightarrow> bool change" where
  "retry_generation_change reason q =
     (let kind = ''retry:'' @ reason;
          eligible = (\<lambda>it. it_state it = Blocked \<and> it_reason it = reason)
      in if list_ex is_active (rq_items q) then Inl QueueNotTerminal
         else if rq_generation_kind q = kind then Inr (q, False)
         else if \<not> list_ex eligible (rq_items q) then Inr (q, False)
         else Inr ((open_generation kind q)
                     \<lparr>rq_items := map (\<lambda>it. if eligible it then (requeue_item it)\<lparr>it_attempts := 0\<rparr> else it)
                                  (rq_items q)\<rparr>, True))"

definition requeue_change :: "string \<Rightarrow> unit change" where
  "requeue_change rid q =
     (case List.find (processing_item rid) (rq_items q) of
        None \<Rightarrow> Inl ItemNotProcessing
      | Some it \<Rightarrow>
          Inr (q\<lparr>rq_counters := release_reservation (rq_counters q) it,
                 rq_items := update_first (processing_item rid)
                   (\<lambda>it. it\<lparr>it_reserved_requests := 0, it_state := Queued\<rparr>) (rq_items q)\<rparr>, ()))"

definition finish_change :: "string \<Rightarrow> item_state \<Rightarrow> string \<Rightarrow> unit change" where
  "finish_change rid st reason q =
     (case List.find (processing_item rid) (rq_items q) of
        None \<Rightarrow> Inl ItemNotProcessing
      | Some it \<Rightarrow>
          if it_reserved_requests it \<noteq> 0 then Inl ReservationNotSettled
          else Inr (q\<lparr>rq_items := update_first (processing_item rid)
                       (\<lambda>it. it\<lparr>it_state := st, it_reason := reason\<rparr>) (rq_items q)\<rparr>, ()))"

section \<open>The store\<close>

record rq_store =
  st_profile :: budget_profile
  st_disk :: "queue disk"

record store_env =
  se_io :: io_env
  se_lock_busy :: bool
  se_read_fails :: bool
  se_prior_read_fails :: bool
  se_remove_fails :: "bool \<Rightarrow> bool" \<comment> \<open>the flag says whether the backup is removed\<close>

definition MaximumQueueBytes :: int where "MaximumQueueBytes = 64 * 2 ^ 20"

definition queue_bytes :: "queue blob \<Rightarrow> int" where
  "queue_bytes b =
     (case b of Doc q \<Rightarrow> int (length (encode (json_of_queue q))) + 1 | Garbled s \<Rightarrow> int (length s))"

definition valid_queue_blob :: "(string \<Rightarrow> string) \<Rightarrow> queue blob \<Rightarrow> bool" where
  "valid_queue_blob sha b = (case b of Doc q \<Rightarrow> Validate sha q = None | Garbled _ \<Rightarrow> False)"

definition NewStore :: "(string \<Rightarrow> string) \<Rightarrow> bool \<Rightarrow> bool \<Rightarrow> queue disk \<Rightarrow> budget_profile
    \<Rightarrow> (rq_error, rq_store) result" where
  "NewStore sha root_is_abs root_prepared disk profile =
     (if \<not> root_is_abs \<or> ValidateProfile sha profile \<noteq> None \<or> \<not> root_prepared
      then Inl StorageUnavailable
      else Inr \<lparr>st_profile = profile, st_disk = disk\<rparr>)"

definition store_load :: "(string \<Rightarrow> string) \<Rightarrow> store_env \<Rightarrow> rq_store \<Rightarrow> (rq_error, queue) result" where
  "store_load sha env st =
     (case current_file (st_disk st) of
        None \<Rightarrow> Inr (Empty sha (st_profile st))
      | Some b \<Rightarrow>
          if se_read_fails env \<or> queue_bytes b > MaximumQueueBytes then Inl QueueUnavailable
          else case b of
            Garbled _ \<Rightarrow> Inl QueueUnavailable
          | Doc q \<Rightarrow>
              if Validate sha q \<noteq> None \<or> bp_fingerprint (rq_profile q) \<noteq> bp_fingerprint (st_profile st)
              then Inl QueueUnavailable else Inr q)"

definition store_update :: "(string \<Rightarrow> string) \<Rightarrow> store_env \<Rightarrow> 'x change \<Rightarrow> rq_store
    \<Rightarrow> rq_store \<times> (rq_error, queue \<times> 'x) result" where
  "store_update sha env change st =
     (if se_lock_busy env then (st, Inl QueueBusy)
      else case store_load sha env st of
        Inl e \<Rightarrow> (st, Inl e)
      | Inr q \<Rightarrow>
          (case change q of
             Inl e \<Rightarrow> (st, Inl e)
           | Inr (q', x) \<Rightarrow>
               if se_prior_read_fails env \<and> current_file (st_disk st) \<noteq> None
               then (st, Inl QueueUnavailable)
               else
                 (let next = Seal sha q';
                      (d, err) = atomic_replace_with_backup (se_io env) queue_bytes MaximumQueueBytes
                                   (valid_queue_blob sha) (Doc next) (current_file (st_disk st)) (st_disk st)
                  in (st\<lparr>st_disk := d\<rparr>,
                      case err of None \<Rightarrow> Inr (next, x) | Some _ \<Rightarrow> Inl PersistenceFailed))))"

definition refused :: "rq_error \<Rightarrow> rq_store \<Rightarrow> rq_store \<times> (rq_error, queue \<times> 'x) result" where
  "refused e st = (st, Inl e)"

definition ChargeRunWallFloor :: "(string \<Rightarrow> string) \<Rightarrow> store_env \<Rightarrow> int \<Rightarrow> rq_store
    \<Rightarrow> rq_store \<times> (rq_error, bool) result" where
  "ChargeRunWallFloor sha env floor st =
     (if floor < 0 then (st, Inl WallUsageInvalid)
      else (case store_update sha env (charge_wall_change floor) st of
              (st', Inl e) \<Rightarrow> (st', Inl e)
            | (st', Inr (q, _)) \<Rightarrow>
                (st', Inr (ct_wall_seconds (rq_counters q) \<ge> bp_max_run_wall_seconds (rq_profile q)))))"

definition Enqueue :: "(string \<Rightarrow> string) \<Rightarrow> store_env \<Rightarrow> string list \<Rightarrow> rq_store
    \<Rightarrow> rq_store \<times> (rq_error, queue \<times> unit) result" where
  "Enqueue sha env rids st =
     (if int (length rids) > MaximumQueueItems then refused MembershipExceedsLimit st
      else store_update sha env (enqueue_change sha rids) st)"

definition updateMembership :: "(string \<Rightarrow> string) \<Rightarrow> store_env \<Rightarrow> string list \<Rightarrow> bool \<Rightarrow> rq_store
    \<Rightarrow> rq_store \<times> (rq_error, queue \<times> unit) result" where
  "updateMembership sha env rids add_missing st =
     (if int (length rids) > MaximumQueueItems then refused MembershipExceedsLimit st
      else if \<not> list_all (\<lambda>rid. validQueueText rid maximumResourceIDBytes) rids \<or> has_dup rids
        then refused InvalidMembership st
      else store_update sha env (membership_change sha rids add_missing) st)"

definition SyncMembership :: "(string \<Rightarrow> string) \<Rightarrow> store_env \<Rightarrow> string list \<Rightarrow> rq_store
    \<Rightarrow> rq_store \<times> (rq_error, queue \<times> unit) result" where
  "SyncMembership sha env rids st = updateMembership sha env rids True st"

definition PruneMembership :: "(string \<Rightarrow> string) \<Rightarrow> store_env \<Rightarrow> string list \<Rightarrow> rq_store
    \<Rightarrow> rq_store \<times> (rq_error, queue \<times> unit) result" where
  "PruneMembership sha env rids st = updateMembership sha env rids False st"

definition Rebuild :: "(string \<Rightarrow> string) \<Rightarrow> store_env \<Rightarrow> rebuild_item list \<Rightarrow> rq_store
    \<Rightarrow> rq_store \<times> (rq_error, queue \<times> unit) result" where
  "Rebuild sha env rbs st =
     (if int (length rbs) > MaximumQueueItems then refused MembershipExceedsLimit st
      else store_update sha env (rebuild_change sha rbs) st)"

definition Consume :: "(string \<Rightarrow> string) \<Rightarrow> store_env \<Rightarrow> string \<Rightarrow> usage \<Rightarrow> rq_store
    \<Rightarrow> rq_store \<times> (rq_error, queue \<times> bool) result" where
  "Consume sha env rid u st =
     (if \<not> usage_valid u then refused UsageInvalid st
      else store_update sha env (consumeUsage rid u) st)"

definition ConsumeAndCloseGeneration :: "(string \<Rightarrow> string) \<Rightarrow> store_env \<Rightarrow> string \<Rightarrow> usage \<Rightarrow> rq_store
    \<Rightarrow> rq_store \<times> (rq_error, queue \<times> bool) result" where
  "ConsumeAndCloseGeneration sha env rid u st =
     (if \<not> usage_valid u then refused UsageInvalid st
      else store_update sha env (consume_and_close_change rid u) st)"

definition Recover :: "(string \<Rightarrow> string) \<Rightarrow> store_env \<Rightarrow> rq_store
    \<Rightarrow> rq_store \<times> (rq_error, queue \<times> unit) result" where
  "Recover sha env st = store_update sha env recover_change st"

definition ClaimNext :: "(string \<Rightarrow> string) \<Rightarrow> store_env \<Rightarrow> rq_store
    \<Rightarrow> rq_store \<times> (rq_error, queue \<times> item option) result" where
  "ClaimNext sha env st = store_update sha env claim_change st"

definition BudgetRemainder :: "(string \<Rightarrow> string) \<Rightarrow> store_env \<Rightarrow> rq_store
    \<Rightarrow> (rq_error, string list \<times> bool) result" where
  "BudgetRemainder sha env st =
     rbind (store_load sha env st)
       (\<lambda>q. Inr (budget_remainder q, globalBudgetExhausted q \<and> budget_remainder q \<noteq> []))"

definition TerminalizeBudgetRemainder :: "(string \<Rightarrow> string) \<Rightarrow> store_env \<Rightarrow> string list \<Rightarrow> rq_store
    \<Rightarrow> rq_store \<times> rq_error option" where
  "TerminalizeBudgetRemainder sha env rids st =
     (if rids = [] then (st, None)
      else case store_update sha env (terminalize_change rids) st of
        (st', Inl e) \<Rightarrow> (st', Some e) | (st', Inr _) \<Rightarrow> (st', None))"

definition StartNextGeneration :: "(string \<Rightarrow> string) \<Rightarrow> store_env \<Rightarrow> rq_store
    \<Rightarrow> rq_store \<times> (rq_error, queue \<times> bool) result" where
  "StartNextGeneration sha env st = store_update sha env next_generation_change st"

definition StartRetryGeneration :: "(string \<Rightarrow> string) \<Rightarrow> store_env \<Rightarrow> string \<Rightarrow> rq_store
    \<Rightarrow> rq_store \<times> (rq_error, queue \<times> bool) result" where
  "StartRetryGeneration sha env reason st =
     (if \<not> IsRetryableTerminalReason reason then refused RetryReasonNotApproved st
      else store_update sha env (retry_generation_change reason) st)"

definition error_of :: "rq_store \<times> (rq_error, 'x) result \<Rightarrow> rq_store \<times> rq_error option" where
  "error_of r = (fst r, case snd r of Inl e \<Rightarrow> Some e | Inr _ \<Rightarrow> None)"

definition Requeue :: "(string \<Rightarrow> string) \<Rightarrow> store_env \<Rightarrow> string \<Rightarrow> rq_store
    \<Rightarrow> rq_store \<times> rq_error option" where
  "Requeue sha env rid st = error_of (store_update sha env (requeue_change rid) st)"

definition Finish :: "(string \<Rightarrow> string) \<Rightarrow> store_env \<Rightarrow> string \<Rightarrow> item_state \<Rightarrow> string \<Rightarrow> rq_store
    \<Rightarrow> rq_store \<times> rq_error option" where
  "Finish sha env rid st_new reason st =
     (case CanonicalState st_new reason of
        Inl e \<Rightarrow> (st, Some e)
      | Inr _ \<Rightarrow> error_of (store_update sha env (finish_change rid st_new reason) st))"

text \<open>The current file is removed first; a failure keeps what is left.\<close>

definition Delete :: "store_env \<Rightarrow> rq_store \<Rightarrow> rq_store \<times> rq_error option" where
  "Delete env st =
     (if contained_fails (se_io env) then (st, Some QueueUnavailable)
      else if se_lock_busy env then (st, Some QueueBusy)
      else if se_remove_fails env False then (st, Some DeletionFailed)
      else
        (let st1 = st\<lparr>st_disk := (st_disk st)\<lparr>current_file := None\<rparr>\<rparr>
         in if se_remove_fails env True then (st1, Some DeletionFailed)
            else (st1\<lparr>st_disk := (st_disk st1)\<lparr>backup_file := None\<rparr>\<rparr>, None)))"

section \<open>Facts about the update cycle\<close>

lemma store_update_ok:
  assumes "store_update sha env change st = (st', Inr (q', x))"
  shows "\<exists>q q0. store_load sha env st = Inr q \<and> change q = Inr (q0, x) \<and> q' = Seal sha q0 \<and>
    Validate sha q' = None \<and> current_file (st_disk st') = Some (Doc q') \<and>
    queue_bytes (Doc q') \<le> MaximumQueueBytes \<and> st_profile st' = st_profile st"
  using assms atomic_replace_ok
  by (fastforce simp: store_update_def Let_def valid_queue_blob_def
      split: if_splits sum.splits prod.splits option.splits)

text \<open>
  Whatever an operation does and whatever fails, the current file holds what it held or the
  sealed, validated result of the transition.
\<close>

lemma store_update_current:
  assumes "store_update sha env change st = (st', r)"
  shows "current_file (st_disk st') = current_file (st_disk st) \<or>
    (\<exists>q q0 x. store_load sha env st = Inr q \<and> change q = Inr (q0, x) \<and>
       Validate sha (Seal sha q0) = None \<and> current_file (st_disk st') = Some (Doc (Seal sha q0)))"
proof (cases "\<exists>q q0 x. store_load sha env st = Inr q \<and> change q = Inr (q0, x)")
  case False
  with assms show ?thesis
    by (auto simp: store_update_def split: if_splits sum.splits)
next
  case True
  then obtain q q0 x where q: "store_load sha env st = Inr q" "change q = Inr (q0, x)" by blast
  obtain d err where d: "atomic_replace_with_backup (se_io env) queue_bytes MaximumQueueBytes
      (valid_queue_blob sha) (Doc (Seal sha q0)) (current_file (st_disk st)) (st_disk st) = (d, err)"
    by (cases "atomic_replace_with_backup (se_io env) queue_bytes MaximumQueueBytes
      (valid_queue_blob sha) (Doc (Seal sha q0)) (current_file (st_disk st)) (st_disk st)")
  from assms q d consider "current_file (st_disk st') = current_file (st_disk st)"
    | "current_file (st_disk st') = current_file d"
    by (auto simp: store_update_def Let_def split: if_splits)
  then show ?thesis
  proof cases
    case 2
    show ?thesis
    proof (cases "valid_queue_blob sha (Doc (Seal sha q0))")
      case True
      with atomic_replace_current [OF d] q 2 show ?thesis
        by (auto simp: valid_queue_blob_def)
    next
      case False
      with d 2 show ?thesis by (auto simp: atomic_replace_with_backup_def split: if_splits)
    qed
  qed simp
qed

text \<open>When the current file has changed, the backup holds the document it held before.\<close>

lemma store_update_backup:
  assumes "store_update sha env change st = (st', r)"
    and "current_file (st_disk st) = Some b" "current_file (st_disk st') \<noteq> Some b"
  shows "backup_file (st_disk st') = Some b"
proof -
  have "st' = st \<or> (\<exists>q d err. st_disk st' = d \<and>
      atomic_replace_with_backup (se_io env) queue_bytes MaximumQueueBytes
        (valid_queue_blob sha) (Doc q) (Some b) (st_disk st) = (d, err))"
    using assms(1,2)
    by (auto simp: store_update_def Let_def split: if_splits sum.splits prod.splits)
  with assms(2,3) atomic_replace_backup [where p = b] show ?thesis
    by (metis option.inject)
qed

lemma store_update_profile [simp]: "st_profile (fst (store_update sha env change st)) = st_profile st"
  by (simp add: store_update_def Let_def split: sum.splits prod.splits)

lemma store_load_ok:
  assumes "store_load sha env st = Inr q"
  shows "q = Empty sha (st_profile st) \<and> current_file (st_disk st) = None \<or>
    current_file (st_disk st) = Some (Doc q) \<and> Validate sha q = None \<and>
    bp_fingerprint (rq_profile q) = bp_fingerprint (st_profile st)"
  using assms by (auto simp: store_load_def split: option.splits blob.splits if_splits)

end
