(* ===== verification/Resource_Budget.thy ===== *)
theory Resource_Budget
  imports Resource_Store
begin

text \<open>
  What the resource queue promises about its budgets: every persisted queue keeps each
  aggregate counter within the cap of its frozen profile, keeps every item within its attempt
  budget, and accounts for the outstanding request reservations exactly. The promise is an
  invariant of every store operation under every failure of the durable boundary.
\<close>

section \<open>The invariant\<close>

definition typed_profile :: "budget_profile \<Rightarrow> bool" where
  "typed_profile p \<longleftrightarrow>
     in64 (bp_max_resources p) \<and> in64 (bp_max_requests p) \<and> in64 (bp_max_downloaded_bytes p) \<and>
     in64 (bp_max_decoded_bytes p) \<and> in64 (bp_max_extracted_bytes p) \<and>
     in64 (bp_max_runtime_storage_bytes p) \<and> in64 (bp_max_attempts_per_resource p) \<and>
     in64 (bp_max_run_wall_seconds p) \<and> in64 (fp_max_redirects (bp_fetch_policy p))"

definition typed_counters :: "counters \<Rightarrow> bool" where
  "typed_counters c \<longleftrightarrow>
     in64 (ct_processed_resources c) \<and> in64 (ct_requests c) \<and> in64 (ct_attempts c) \<and>
     in64 (ct_reserved_requests c) \<and> in64 (ct_downloaded_bytes c) \<and> in64 (ct_decoded_bytes c) \<and>
     in64 (ct_extracted_bytes c) \<and> in64 (ct_runtime_storage_bytes c) \<and> in64 (ct_wall_seconds c)"

definition typed_usage :: "usage \<Rightarrow> bool" where
  "typed_usage u \<longleftrightarrow>
     in64 (us_requests u) \<and> in64 (us_downloaded_bytes u) \<and> in64 (us_decoded_bytes u) \<and>
     in64 (us_extracted_bytes u) \<and> in64 (us_runtime_storage_bytes u) \<and> in64 (us_wall_seconds u)"

definition reserved_total :: "item list \<Rightarrow> int" where
  "reserved_total its = sum_list (map it_reserved_requests its)"

definition caps_ok :: "budget_profile \<Rightarrow> counters \<Rightarrow> bool" where
  "caps_ok p c \<longleftrightarrow>
     ct_processed_resources c \<le> bp_max_resources p \<and>
     ct_downloaded_bytes c \<le> bp_max_downloaded_bytes p \<and>
     ct_decoded_bytes c \<le> bp_max_decoded_bytes p \<and>
     ct_extracted_bytes c \<le> bp_max_extracted_bytes p \<and>
     ct_runtime_storage_bytes c \<le> bp_max_runtime_storage_bytes p \<and>
     ct_wall_seconds c \<le> bp_max_run_wall_seconds p"

definition budget_bounds :: "queue \<Rightarrow> bool" where
  "budget_bounds q \<longleftrightarrow>
     typed_profile (rq_profile q) \<and> typed_counters (rq_counters q) \<and>
     ct_reserved_requests (rq_counters q) = reserved_total (rq_items q) \<and>
     caps_ok (rq_profile q) (rq_counters q) \<and>
     (\<forall>it \<in> set (rq_items q). it_attempts it \<le> bp_max_attempts_per_resource (rq_profile q))"

definition queue_inv :: "(string \<Rightarrow> string) \<Rightarrow> queue \<Rightarrow> bool" where
  "queue_inv sha q \<longleftrightarrow> queue_ok sha q \<and> budget_bounds q"

lemmas bounds_defs = budget_bounds_def caps_ok_def typed_counters_def reserved_total_def

lemma budget_bounds_Seal [simp]: "budget_bounds (Seal sha q) = budget_bounds q"
  by (simp add: bounds_defs)

lemma queue_inv_Seal [simp]: "queue_inv sha (Seal sha q) = queue_inv sha q"
  by (simp add: queue_inv_def)

text \<open>What \<open>ValidateProfile\<close> guarantees of the caps.\<close>

lemma valid_profile_positive:
  assumes "ValidateProfile sha p = None"
  shows "1 \<le> bp_max_resources p" "1 \<le> bp_max_requests p" "1 \<le> bp_max_downloaded_bytes p"
    "1 \<le> bp_max_decoded_bytes p" "1 \<le> bp_max_extracted_bytes p"
    "1 \<le> bp_max_runtime_storage_bytes p" "1 \<le> bp_max_attempts_per_resource p"
    "1 \<le> bp_max_run_wall_seconds p" "0 \<le> fp_max_redirects (bp_fetch_policy p)"
  using assms by (auto simp: ValidateProfile_def profile_fields_ok_def split: if_splits)

lemma queue_ok_positive:
  assumes "queue_ok sha q"
  shows "1 \<le> bp_max_resources (rq_profile q)" "1 \<le> bp_max_requests (rq_profile q)"
    "1 \<le> bp_max_downloaded_bytes (rq_profile q)" "1 \<le> bp_max_decoded_bytes (rq_profile q)"
    "1 \<le> bp_max_extracted_bytes (rq_profile q)" "1 \<le> bp_max_runtime_storage_bytes (rq_profile q)"
    "1 \<le> bp_max_attempts_per_resource (rq_profile q)" "1 \<le> bp_max_run_wall_seconds (rq_profile q)"
  using assms valid_profile_positive [of sha "rq_profile q"] by (auto simp: queue_ok_def)

lemma zero_counters_simps [simp]:
  "ct_processed_resources zero_counters = 0" "ct_requests zero_counters = 0"
  "ct_attempts zero_counters = 0" "ct_reserved_requests zero_counters = 0"
  "ct_downloaded_bytes zero_counters = 0" "ct_decoded_bytes zero_counters = 0"
  "ct_extracted_bytes zero_counters = 0" "ct_runtime_storage_bytes zero_counters = 0"
  "ct_wall_seconds zero_counters = 0"
  by (simp_all add: zero_counters_def)

lemma zero_counters_ok:
  assumes "queue_ok sha q"
  shows "typed_counters zero_counters" and "caps_ok (rq_profile q) zero_counters"
  using queue_ok_positive [OF assms] by (simp_all add: typed_counters_def caps_ok_def)

lemma item_reserved_nonneg: "queue_ok sha q \<Longrightarrow> it \<in> set (rq_items q) \<Longrightarrow> 0 \<le> it_reserved_requests it"
  by (auto simp: queue_ok_def item_ok_def)

lemma item_idle_reserved:
  "queue_ok sha q \<Longrightarrow> it \<in> set (rq_items q) \<Longrightarrow> it_state it \<noteq> Processing \<Longrightarrow> it_reserved_requests it = 0"
  by (auto simp: queue_ok_def item_ok_def)

lemma reserved_item_le_total:
  assumes "queue_inv sha q" "it \<in> set (rq_items q)"
  shows "it_reserved_requests it \<le> ct_reserved_requests (rq_counters q)"
  using assms member_le_sum_list_int [of it "rq_items q" it_reserved_requests]
  by (auto simp: queue_inv_def budget_bounds_def reserved_total_def intro: item_reserved_nonneg)

text \<open>Releasing a reservation that is part of the total is exact.\<close>

lemma release_reservation_exact:
  assumes "queue_inv sha q" "it \<in> set (rq_items q)"
  shows "ct_reserved_requests (release_reservation (rq_counters q) it)
    = ct_reserved_requests (rq_counters q) - it_reserved_requests it"
proof -
  have "in64 (ct_reserved_requests (rq_counters q))" and "0 \<le> it_reserved_requests it"
    using assms item_reserved_nonneg
    by (auto simp: queue_inv_def budget_bounds_def typed_counters_def)
  with reserved_item_le_total [OF assms] show ?thesis
    by (simp add: release_reservation_def i64_sub_nonneg)
qed

lemma release_reservation_frame [frame_simps]:
  "ct_processed_resources (release_reservation c it) = ct_processed_resources c"
  "ct_requests (release_reservation c it) = ct_requests c"
  "ct_attempts (release_reservation c it) = ct_attempts c"
  "ct_downloaded_bytes (release_reservation c it) = ct_downloaded_bytes c"
  "ct_decoded_bytes (release_reservation c it) = ct_decoded_bytes c"
  "ct_extracted_bytes (release_reservation c it) = ct_extracted_bytes c"
  "ct_runtime_storage_bytes (release_reservation c it) = ct_runtime_storage_bytes c"
  "ct_wall_seconds (release_reservation c it) = ct_wall_seconds c"
  by (simp_all add: release_reservation_def)

lemma release_reservation_typed [simp]:
  "typed_counters c \<Longrightarrow> typed_counters (release_reservation c it)"
  by (simp add: typed_counters_def release_reservation_def)

lemma release_reservation_caps [simp]: "caps_ok p (release_reservation c it) = caps_ok p c"
  by (simp add: caps_ok_def frame_simps)

lemma processing_item_in:
  "List.find (processing_item rid) its = Some it \<Longrightarrow>
    it \<in> set its \<and> it_resource_id it = rid \<and> it_state it = Processing"
  using find_Some_sat [of "processing_item rid" its it] by (simp add: processing_item_def)

section \<open>Every transition keeps the bounds\<close>

text \<open>
  A transition keeps the bounds when its result is structurally sound, which \<open>Validate\<close> checks
  before the result can reach the disk; in particular an overflowed counter is negative and
  is refused there.
\<close>

definition keeps_bounds :: "(string \<Rightarrow> string) \<Rightarrow> 'x change \<Rightarrow> bool" where
  "keeps_bounds sha change \<longleftrightarrow>
     (\<forall>q q' x. queue_inv sha q \<longrightarrow> change q = Inr (q', x) \<longrightarrow> queue_ok sha q' \<longrightarrow> budget_bounds q')"

lemma keeps_boundsI:
  assumes "\<And>q q' x. queue_inv sha q \<Longrightarrow> queue_ok sha q \<Longrightarrow> budget_bounds q \<Longrightarrow>
      change q = Inr (q', x) \<Longrightarrow> queue_ok sha q' \<Longrightarrow> budget_bounds q'"
  shows "keeps_bounds sha change"
  using assms by (auto simp: keeps_bounds_def queue_inv_def)

lemma charge_wall_keeps: "in64 floor \<Longrightarrow> keeps_bounds sha (charge_wall_change floor)"
  by (rule keeps_boundsI)
    (auto simp: charge_wall_change_def bounds_defs typed_profile_def minimumInt64_def split: if_splits)

lemma enqueue_loop_items:
  "enqueue_loop sha p rids its = Inr its' \<Longrightarrow> \<exists>ns. its' = its @ map (new_item sha p) ns"
proof (induction rids arbitrary: its)
  case Nil
  then show ?case by (auto intro: exI [of _ "[]"])
next
  case (Cons rid rids)
  show ?case
  proof (cases "rid \<in> it_resource_id ` set its")
    case True
    with Cons show ?thesis by (auto split: if_splits)
  next
    case False
    with Cons.prems have "enqueue_loop sha p rids (its @ [new_item sha p rid]) = Inr its'"
      by (auto split: if_splits)
    from Cons.IH [OF this] obtain ns where "its' = (its @ [new_item sha p rid]) @ map (new_item sha p) ns" ..
    then show ?thesis by (auto intro: exI [of _ "rid # ns"])
  qed
qed

lemma new_item_simps [simp]:
  "it_reserved_requests (new_item sha p rid) = 0" "it_attempts (new_item sha p rid) = 0"
  "it_resource_id (new_item sha p rid) = rid" "it_state (new_item sha p rid) = Queued"
  "it_reason (new_item sha p rid) = ''''" "it_job_id (new_item sha p rid) = JobIdentity sha p rid"
  by (simp_all add: new_item_def)

lemma sum_reserved_new [simp]:
  "sum_list (map (it_reserved_requests \<circ> new_item sha p) ns) = 0"
  by (induction ns) simp_all

lemma enqueue_keeps: "keeps_bounds sha (enqueue_change sha rids)"
proof (rule keeps_boundsI)
  fix q q' :: queue and x :: unit
  assume b: "budget_bounds q" and ok: "queue_ok sha q"
    and "enqueue_change sha rids q = Inr (q', x)"
  then obtain its where q': "q' = q\<lparr>rq_items := its\<rparr>"
    and "enqueue_loop sha (rq_profile q) rids (rq_items q) = Inr its"
    by (auto simp: enqueue_change_def rbind_Inr_iff)
  then obtain ns where "its = rq_items q @ map (new_item sha (rq_profile q)) ns"
    using enqueue_loop_items by blast
  with b q' queue_ok_positive [OF ok] show "budget_bounds q'"
    by (auto simp: bounds_defs)
qed

lemma retain_loop_bounds:
  "retain_loop desired its c = Inr (kept, c') \<Longrightarrow>
   ct_reserved_requests c = r + reserved_total its \<Longrightarrow> 0 \<le> r \<Longrightarrow> typed_counters c \<Longrightarrow>
   (\<forall>it \<in> set its. 0 \<le> it_reserved_requests it \<and>
      (it_state it \<noteq> Processing \<longrightarrow> it_reserved_requests it = 0)) \<Longrightarrow>
   set kept \<subseteq> set its \<and> ct_reserved_requests c' = r + reserved_total kept \<and> typed_counters c' \<and>
   (caps_ok p c \<longrightarrow> caps_ok p c')"
proof (induction its arbitrary: c kept r)
  case Nil
  then show ?case by (simp add: reserved_total_def)
next
  case (Cons it its)
  have tot: "0 \<le> reserved_total its"
    unfolding reserved_total_def by (rule sum_list_nonneg_int) (use Cons.prems(5) in auto)
  consider (drop) "it_resource_id it \<notin> set desired" "it_state it = Processing"
    | (idle) "it_resource_id it \<notin> set desired" "it_state it \<noteq> Processing"
    | (keep) "it_resource_id it \<in> set desired" by blast
  then show ?case
  proof cases
    case drop
    let ?c = "release_reservation c it"
    have "ct_reserved_requests ?c = ct_reserved_requests c - it_reserved_requests it"
      using Cons.prems tot by (simp add: release_reservation_def reserved_total_def
          typed_counters_def i64_sub_nonneg)
    with Cons.prems have "ct_reserved_requests ?c = r + reserved_total its"
      by (simp add: reserved_total_def)
    with drop Cons.prems Cons.IH [of ?c kept r] show ?thesis
      by (auto split: if_splits)
  next
    case idle
    with Cons.prems Cons.IH [of c kept r] show ?thesis by (auto simp: reserved_total_def)
  next
    case keep
    with Cons.prems(1) obtain kept' where "retain_loop desired its c = Inr (kept', c')"
      and "kept = it # kept'" by (auto simp: rbind_Inr_iff)
    with Cons.prems Cons.IH [of c kept' "r + it_reserved_requests it"] show ?thesis
      by (auto simp: reserved_total_def)
  qed
qed

lemma reopen_deferred_simps [simp]:
  "it_resource_id (reopen_deferred b it) = it_resource_id it"
  "it_job_id (reopen_deferred b it) = it_job_id it"
  by (simp_all add: reopen_deferred_def)

lemma membership_keeps: "keeps_bounds sha (membership_change sha rids add)"
proof (rule keeps_boundsI)
  fix q q' :: queue and x :: unit
  assume inv: "queue_inv sha q" and ok: "queue_ok sha q" and b: "budget_bounds q"
    and ok': "queue_ok sha q'" and ch: "membership_change sha rids add q = Inr (q', x)"
  from ch obtain kept c where rl: "retain_loop rids (rq_items q) (rq_counters q) = Inr (kept, c)"
    by (auto simp: membership_change_def rbind_Inr_iff)
  have rb: "set kept \<subseteq> set (rq_items q)" "ct_reserved_requests c = reserved_total kept"
    "typed_counters c" "caps_ok (rq_profile q) c"
    using retain_loop_bounds [OF rl, of 0 "rq_profile q"] b ok
    by (auto simp: budget_bounds_def queue_ok_def item_ok_def)
  have att: "\<forall>it\<in>set kept. it_attempts it \<le> bp_max_attempts_per_resource (rq_profile q)"
    using rb(1) b by (auto simp: budget_bounds_def)
  let ?fresh = "(add \<and> list_ex (\<lambda>rid. rid \<notin> set (map it_resource_id kept)) rids) \<and> \<not> list_ex is_active kept"
  show "budget_bounds q'"
  proof (cases ?fresh)
    case False
    with ch rl have "rq_profile q' = rq_profile q" "rq_counters q' = c"
      "\<exists>ns. rq_items q' = kept @ map (new_item sha (rq_profile q)) ns"
      by (auto simp: membership_change_def Let_def intro: exI [of _ "[]"])
    with rb att b queue_ok_positive [OF ok] show ?thesis
      by (auto simp: budget_bounds_def reserved_total_def)
  next
    case True
    with ch rl have q': "rq_profile q' = rq_profile q" "rq_counters q' = zero_counters"
      "\<exists>ns. rq_items q' = map (reopen_deferred (\<not> rq_legacy_migration_complete q)) kept
         @ map (new_item sha (rq_profile q)) ns"
      by (auto simp: membership_change_def Let_def)
    have "\<forall>it\<in>set kept. it_reserved_requests it = 0"
    proof
      fix it assume it: "it \<in> set kept"
      with True have "it_state it \<noteq> Processing" by (auto simp: list_ex_iff is_active_def)
      with it rb(1) ok show "it_reserved_requests it = 0" using item_idle_reserved by blast
    qed
    then have "\<forall>it\<in>set kept. it_reserved_requests (reopen_deferred l it) = 0" for l
      by (simp add: reopen_deferred_def)
    then have "sum_list (map (it_reserved_requests \<circ> reopen_deferred l) kept) = 0" for l
      by (simp add: sum_list_0 map_idI cong: map_cong)
    moreover have "\<forall>it\<in>set kept. it_attempts (reopen_deferred l it) \<le> bp_max_attempts_per_resource (rq_profile q)" for l
      using att queue_ok_positive [OF ok] by (auto simp: reopen_deferred_def)
    ultimately show ?thesis
      using q' b zero_counters_ok [OF ok] queue_ok_positive [OF ok]
      by (auto simp: budget_bounds_def reserved_total_def)
  qed
qed

lemma rebuild_loop_items:
  "rebuild_loop sha p seen rbs = Inr its \<Longrightarrow>
    \<forall>it \<in> set its. it_reserved_requests it = 0 \<and> it_attempts it = 0"
proof (induction rbs arbitrary: seen its)
  case Nil
  then show ?case by simp
next
  case (Cons rb rbs)
  then show ?case
    by (auto simp: Let_def rbind_Inr_iff split: if_splits item_state.splits)
qed

lemma sum_list_zero_int: "(\<And>x. x \<in> set xs \<Longrightarrow> f x = 0) \<Longrightarrow> sum_list (map f xs) = 0"
  for f :: "'a \<Rightarrow> int"
  by (induction xs) auto

lemma rebuild_keeps: "keeps_bounds sha (rebuild_change sha rbs)"
proof (rule keeps_boundsI)
  fix q q' :: queue and x :: unit
  assume ok: "queue_ok sha q" and b: "budget_bounds q" and "rebuild_change sha rbs q = Inr (q', x)"
  then obtain its where "rebuild_loop sha (rq_profile q) [] rbs = Inr its"
    and "rq_items q' = its" "rq_profile q' = rq_profile q" "rq_counters q' = zero_counters"
    by (auto simp: rebuild_change_def rbind_Inr_iff)
  with rebuild_loop_items [of sha "rq_profile q" "[]" rbs its] b zero_counters_ok [OF ok]
    queue_ok_positive [OF ok]
  show "budget_bounds q'"
    by (auto simp: budget_bounds_def reserved_total_def intro: sum_list_zero_int)
qed


text \<open>Settling one processing item's reservation keeps the accounting exact.\<close>

lemma settle_reserved_total:
  assumes inv: "queue_inv sha q" and f: "List.find (processing_item rid) (rq_items q) = Some it"
    and "\<And>j. it_reserved_requests (f j) = 0"
  shows "reserved_total (update_first (processing_item rid) f (rq_items q))
    = ct_reserved_requests (release_reservation (rq_counters q) it)"
proof -
  have "ct_reserved_requests (release_reservation (rq_counters q) it)
      = reserved_total (rq_items q) - it_reserved_requests it"
    using release_reservation_exact [OF inv, of it] processing_item_in [OF f] inv
    by (simp add: queue_inv_def budget_bounds_def)
  then show ?thesis
    using sum_list_update_first [OF f, of it_reserved_requests f] assms(3)
    by (simp add: reserved_total_def)
qed

lemma update_first_all:
  assumes "\<forall>x \<in> set xs. Q x" and "\<And>x. x \<in> set xs \<Longrightarrow> P x \<Longrightarrow> Q (f x)"
  shows "\<forall>x \<in> set (update_first P f xs). Q x"
  using assms by (induction xs) auto

lemma update_first_attempts:
  assumes "\<And>j. it_attempts (f j) = it_attempts j"
  shows "(\<forall>it \<in> set (update_first P f its). it_attempts it \<le> m) = (\<forall>it \<in> set its. it_attempts it \<le> m)"
  using assms by (induction its) auto

lemma i64_min_in64: "in64 a \<Longrightarrow> in64 b \<Longrightarrow> in64 (minimumInt64 a b)"
  by (simp add: minimumInt64_def)

lemma minimumInt64_le [simp]: "minimumInt64 a b \<le> a"
  by (simp add: minimumInt64_def)

lemma settle_item_simps [simp]:
  "it_reserved_requests (settle_item it) = 0" "it_attempts (settle_item it) = it_attempts it"
  "it_state (settle_item it) = it_state it" "it_resource_id (settle_item it) = it_resource_id it"
  "it_job_id (settle_item it) = it_job_id it" "it_reason (settle_item it) = it_reason it"
  by (simp_all add: settle_item_def)

text \<open>The three outcomes of \<open>consumeUsage\<close>, with the counters each leaves.\<close>

lemma consumeUsage_cases:
  assumes "consumeUsage rid u q = Inr (q', x)"
  obtains it c' where "List.find (processing_item rid) (rq_items q) = Some it"
    and "q' = q\<lparr>rq_items := update_first (processing_item rid) settle_item (rq_items q), rq_counters := c'\<rparr>"
    and "ct_reserved_requests c' = ct_reserved_requests (release_reservation (rq_counters q) it)"
    and "typed_profile (rq_profile q) \<Longrightarrow> typed_counters (rq_counters q) \<Longrightarrow> typed_counters c'"
    and "caps_ok (rq_profile q) (rq_counters q) \<Longrightarrow> caps_ok (rq_profile q) c'"
proof -
  from assms obtain it where f: "List.find (processing_item rid) (rq_items q) = Some it"
    by (auto simp: consumeUsage_def split: option.splits)
  have typed: "typed_counters (rq_counters q')"
    if "typed_profile (rq_profile q)" "typed_counters (rq_counters q)"
    using assms f that
    by (auto simp: consumeUsage_def Let_def typed_counters_def typed_profile_def
        release_reservation_def i64_min_in64 split: if_splits)
  have caps: "caps_ok (rq_profile q) (rq_counters q')" if "caps_ok (rq_profile q) (rq_counters q)"
    using assms f that
    by (auto simp: consumeUsage_def Let_def caps_ok_def release_reservation_def split: if_splits)
  have q': "q' = q\<lparr>rq_items := update_first (processing_item rid) settle_item (rq_items q),
      rq_counters := rq_counters q'\<rparr>"
    and res: "ct_reserved_requests (rq_counters q') = ct_reserved_requests (release_reservation (rq_counters q) it)"
    using assms f by (auto simp: consumeUsage_def Let_def split: if_splits)
  from that [OF f q' res typed caps] show thesis by blast
qed

lemma consumeUsage_bounds:
  assumes inv: "queue_inv sha q" and ch: "consumeUsage rid u q = Inr (q', x)"
  shows "budget_bounds q'"
  using ch
proof (cases rule: consumeUsage_cases)
  case (1 it c')
  with settle_reserved_total [OF inv 1(1), of settle_item] inv show ?thesis
    by (simp add: queue_inv_def budget_bounds_def update_first_attempts)
qed

lemma consume_keeps: "keeps_bounds sha (consumeUsage rid u)"
  by (rule keeps_boundsI) (rule consumeUsage_bounds)

lemma sum_reserved_update:
  "(\<And>j. it_reserved_requests (f j) = it_reserved_requests j) \<Longrightarrow>
    reserved_total (update_first P f its) = reserved_total its"
  unfolding reserved_total_def by (induction its) auto

lemma consume_and_close_keeps: "keeps_bounds sha (consume_and_close_change rid u)"
proof (rule keeps_boundsI)
  fix q q' :: queue and x :: bool
  assume inv: "queue_inv sha q" and "consume_and_close_change rid u q = Inr (q', x)"
  then obtain q1 where "consumeUsage rid u q = Inr (q1, x)"
    and q': "q' = q1\<lparr>rq_items := update_first (processing_item rid) (\<lambda>it. it\<lparr>it_state := Queued\<rparr>)
               (rq_items q1), rq_generation_closed := True\<rparr>"
    by (auto simp: consume_and_close_change_def rbind_Inr_iff split: if_splits option.splits)
  with consumeUsage_bounds [OF inv] have "budget_bounds q1" by blast
  with q' show "budget_bounds q'"
    by (simp add: budget_bounds_def sum_reserved_update update_first_attempts)
qed

lemma release_all:
  "ct_reserved_requests c = r + reserved_total its \<Longrightarrow> 0 \<le> r \<Longrightarrow> typed_counters c \<Longrightarrow>
   (\<forall>it \<in> set its. 0 \<le> it_reserved_requests it) \<Longrightarrow>
   ct_reserved_requests (foldl release_reservation c its) = r \<and>
   typed_counters (foldl release_reservation c its) \<and>
   caps_ok p (foldl release_reservation c its) = caps_ok p c \<and>
   ct_requests (foldl release_reservation c its) = ct_requests c"
proof (induction its arbitrary: c)
  case Nil
  then show ?case by (simp add: reserved_total_def)
next
  case (Cons it its)
  have "0 \<le> reserved_total its"
    unfolding reserved_total_def by (rule sum_list_nonneg_int) (use Cons.prems(4) in auto)
  moreover have "in64 (ct_reserved_requests c)" using Cons.prems(3) by (simp add: typed_counters_def)
  ultimately have "ct_reserved_requests (release_reservation c it) = r + reserved_total its"
    using Cons.prems by (simp add: release_reservation_def reserved_total_def i64_sub_nonneg)
  with Cons.IH [of "release_reservation c it"] Cons.prems show ?case by (simp add: frame_simps)
qed

lemma reserved_total_processing:
  assumes "\<forall>it \<in> set its. it_state it \<noteq> Processing \<longrightarrow> it_reserved_requests it = 0"
  shows "reserved_total (filter (\<lambda>it. it_state it = Processing) its) = reserved_total its"
  unfolding reserved_total_def using assms by (induction its) auto

lemma recover_result:
  assumes inv: "queue_inv sha q" and ch: "recover_change q = Inr (q', x)"
  shows "ct_reserved_requests (rq_counters q') = 0 \<and> typed_counters (rq_counters q') \<and>
    caps_ok (rq_profile q) (rq_counters q') \<and> ct_requests (rq_counters q') = ct_requests (rq_counters q)"
proof -
  let ?ps = "filter (\<lambda>it. it_state it = Processing) (rq_items q)"
  have ok: "queue_ok sha q" and b: "budget_bounds q" using inv by (simp_all add: queue_inv_def)
  have "reserved_total ?ps = reserved_total (rq_items q)"
    by (rule reserved_total_processing) (use item_idle_reserved [OF ok] in blast)
  with release_all [of "rq_counters q" 0 ?ps "rq_profile q"] b ch item_reserved_nonneg [OF ok]
  show ?thesis by (auto simp: recover_change_def budget_bounds_def)
qed

lemma recover_item_simps [simp]:
  "it_resource_id (recover_item it) = it_resource_id it" "it_job_id (recover_item it) = it_job_id it"
  "it_attempts (recover_item it) = it_attempts it" "it_reason (recover_item it) = it_reason it"
  "it_state (recover_item it) \<noteq> Processing"
  by (simp_all add: recover_item_def)

lemma recover_keeps: "keeps_bounds sha recover_change"
proof (rule keeps_boundsI)
  fix q q' :: queue and x :: unit
  assume inv: "queue_inv sha q" and ok: "queue_ok sha q" and b: "budget_bounds q"
    and ch: "recover_change q = Inr (q', x)"
  have "reserved_total (map recover_item (rq_items q)) = 0"
    unfolding reserved_total_def map_map
    by (rule sum_list_zero_int) (use item_idle_reserved [OF ok] in \<open>auto simp: recover_item_def\<close>)
  with recover_result [OF inv ch] b ch show "budget_bounds q'"
    by (auto simp: recover_change_def budget_bounds_def)
qed


text \<open>
  A claim: which item it takes, and the reservation it makes. The item is the first queued
  one in resource order; its attempts and the run budget decide between the two blocked
  terminals and a claim.
\<close>

definition claim_of :: "queue \<Rightarrow> item \<Rightarrow> item" where
  "claim_of q it = it\<lparr>it_state := Processing, it_attempts := i64_add (it_attempts it) 1,
     it_reserved_requests :=
       (let want = i64_add (fp_max_redirects (bp_fetch_policy (rq_profile q))) 1;
            remaining = i64_sub (i64_sub (bp_max_requests (rq_profile q)) (ct_requests (rq_counters q)))
                          (ct_reserved_requests (rq_counters q))
        in if want > remaining then remaining else want)\<rparr>"

definition claim_counters :: "queue \<Rightarrow> item \<Rightarrow> counters" where
  "claim_counters q it = (rq_counters q)\<lparr>
     ct_processed_resources := (if it_attempts it = 0
       then i64_add (ct_processed_resources (rq_counters q)) 1 else ct_processed_resources (rq_counters q)),
     ct_attempts := i64_add (ct_attempts (rq_counters q)) 1,
     ct_reserved_requests :=
       i64_add (ct_reserved_requests (rq_counters q)) (it_reserved_requests (claim_of q it))\<rparr>"

abbreviation is_queued :: "item \<Rightarrow> bool" where "is_queued it \<equiv> it_state it = Queued"

lemma claim_cases [consumes 1, case_names none attempts deferred claimed]:
  assumes "claim_change q = Inr (q', x)"
  obtains "x = None" "q' = q\<lparr>rq_items := sort_key it_resource_id (rq_items q)\<rparr>"
      "\<forall>it \<in> set (rq_items q). \<not> is_queued it"
  | it where "List.find is_queued (sort_key it_resource_id (rq_items q)) = Some it"
      "bp_max_attempts_per_resource (rq_profile q) \<le> it_attempts it"
      "x = Some (block_item ReasonBudgetExhausted it)"
      "q' = q\<lparr>rq_items := update_first is_queued (\<lambda>_. block_item ReasonBudgetExhausted it)
                            (sort_key it_resource_id (rq_items q))\<rparr>"
  | it where "List.find is_queued (sort_key it_resource_id (rq_items q)) = Some it"
      "it_attempts it < bp_max_attempts_per_resource (rq_profile q)" "budgetDefersItem q it"
      "x = Some (block_item ReasonRunBudgetDeferred it)"
      "q' = q\<lparr>rq_items := update_first is_queued (\<lambda>_. block_item ReasonRunBudgetDeferred it)
                            (sort_key it_resource_id (rq_items q))\<rparr>"
  | it where "List.find is_queued (sort_key it_resource_id (rq_items q)) = Some it"
      "it_attempts it < bp_max_attempts_per_resource (rq_profile q)" "\<not> budgetDefersItem q it"
      "x = Some (claim_of q it)"
      "q' = q\<lparr>rq_items := update_first is_queued (\<lambda>_. claim_of q it)
                            (sort_key it_resource_id (rq_items q)), rq_counters := claim_counters q it\<rparr>"
proof (cases "List.find is_queued (sort_key it_resource_id (rq_items q))")
  case None
  with assms that(1) show thesis by (auto simp: claim_change_def Let_def find_None_iff)
next
  case (Some it)
  with assms that(2,3,4) [OF Some] show thesis
    by (auto simp: claim_change_def Let_def claim_of_def claim_counters_def not_le split: if_splits)
qed

lemma find_sorted_in:
  "List.find P (sort_key k its) = Some it \<Longrightarrow> it \<in> set its \<and> P it"
  using find_Some_sat [of P "sort_key k its" it] by simp

lemma block_item_simps [simp]:
  "it_reserved_requests (block_item r it) = it_reserved_requests it"
  "it_attempts (block_item r it) = it_attempts it" "it_resource_id (block_item r it) = it_resource_id it"
  "it_state (block_item r it) = Blocked" "it_reason (block_item r it) = r"
  "it_job_id (block_item r it) = it_job_id it"
  by (simp_all add: block_item_def)

lemma claim_of_simps [simp]:
  "it_resource_id (claim_of q it) = it_resource_id it" "it_job_id (claim_of q it) = it_job_id it"
  "it_state (claim_of q it) = Processing" "it_reason (claim_of q it) = it_reason it"
  "it_attempts (claim_of q it) = i64_add (it_attempts it) 1"
  by (simp_all add: claim_of_def)

lemma update_first_const_attempts:
  assumes "List.find P its = Some it" and "\<forall>it \<in> set its. it_attempts it \<le> m"
  shows "(\<forall>it \<in> set (update_first P (\<lambda>_. j) its). it_attempts it \<le> m) = (it_attempts j \<le> m)"
  using assms by (induction its) (auto split: if_splits)

lemma update_first_const_reserved:
  assumes "List.find P its = Some it"
  shows "reserved_total (update_first P (\<lambda>_. j) its)
    = reserved_total its - it_reserved_requests it + it_reserved_requests j"
  using sum_list_update_first [OF assms, of it_reserved_requests "\<lambda>_. j"] by (simp add: reserved_total_def)

lemma reserved_total_sort [simp]: "reserved_total (sort_key k its) = reserved_total its"
  by (simp add: reserved_total_def)

text \<open>The reservation a claim makes is non-negative only when it is exact.\<close>

lemma claim_reserve_exact:
  assumes inv: "queue_inv sha q"
    and r: "0 \<le> it_reserved_requests (claim_of q it)"
    and c: "0 \<le> ct_reserved_requests (claim_counters q it)"
  shows "ct_reserved_requests (claim_counters q it)
    = ct_reserved_requests (rq_counters q) + it_reserved_requests (claim_of q it)"
proof -
  have "0 \<le> ct_reserved_requests (rq_counters q)" "in64 (ct_reserved_requests (rq_counters q))"
    using inv by (auto simp: queue_inv_def queue_ok_def counters_nonneg_def budget_bounds_def typed_counters_def)
  moreover have "in64 (it_reserved_requests (claim_of q it))"
    by (simp add: claim_of_def Let_def)
  ultimately show ?thesis
    using i64_add_nonneg_cases r c by (fastforce simp: claim_counters_def)
qed

lemma claim_attempts_exact:
  assumes "queue_inv sha q" "it \<in> set (rq_items q)"
    and "it_attempts it < bp_max_attempts_per_resource (rq_profile q)"
  shows "i64_add (it_attempts it) 1 = it_attempts it + 1"
  using assms
  by (intro i64_add_exact)
    (auto simp: queue_inv_def queue_ok_def item_ok_def budget_bounds_def typed_profile_def in64_def)

lemma claim_processed_exact:
  assumes inv: "queue_inv sha q" and d: "\<not> budgetDefersItem q it"
  shows "ct_processed_resources (claim_counters q it) \<le> bp_max_resources (rq_profile q)"
proof (cases "it_attempts it = 0")
  case True
  with d have "ct_processed_resources (rq_counters q) < bp_max_resources (rq_profile q)"
    by (auto simp: budgetDefersItem_def split: if_splits)
  moreover have "0 \<le> ct_processed_resources (rq_counters q)" "in64 (bp_max_resources (rq_profile q))"
    using inv by (auto simp: queue_inv_def queue_ok_def counters_nonneg_def budget_bounds_def typed_profile_def)
  ultimately have "in64 (ct_processed_resources (rq_counters q) + 1)" by (simp add: in64_def)
  with True \<open>ct_processed_resources (rq_counters q) < _\<close> show ?thesis
    by (simp add: claim_counters_def i64_add_exact)
next
  case False
  with inv show ?thesis by (simp add: claim_counters_def queue_inv_def budget_bounds_def caps_ok_def)
qed

lemma claim_keeps: "keeps_bounds sha claim_change"
proof (rule keeps_boundsI)
  fix q q' :: queue and x :: "item option"
  assume inv: "queue_inv sha q" and ok: "queue_ok sha q" and b: "budget_bounds q"
    and ok': "queue_ok sha q'" and ch: "claim_change q = Inr (q', x)"
  let ?its = "sort_key it_resource_id (rq_items q)"
  from ch show "budget_bounds q'"
  proof (cases rule: claim_cases)
    case none
    with b show ?thesis by (simp add: budget_bounds_def)
  next
    case (attempts it)
    from find_sorted_in [OF attempts(1)] b have "it_attempts it \<le> bp_max_attempts_per_resource (rq_profile q)"
      by (auto simp: budget_bounds_def)
    with attempts(1,4) b show ?thesis
      by (simp add: budget_bounds_def update_first_const_reserved update_first_const_attempts)
  next
    case (deferred it)
    with b show ?thesis
      by (simp add: budget_bounds_def update_first_const_reserved update_first_const_attempts)
  next
    case (claimed it)
    have it: "it \<in> set (rq_items q)" "is_queued it" using find_sorted_in [OF claimed(1)] by simp_all
    have "claim_of q it \<in> set (rq_items q')"
      using update_first_here [OF claimed(1), of "\<lambda>_. claim_of q it"] claimed(5) by simp
    with ok' have r: "0 \<le> it_reserved_requests (claim_of q it)" by (rule item_reserved_nonneg)
    have c: "0 \<le> ct_reserved_requests (claim_counters q it)"
      using ok' claimed(5) by (simp add: queue_ok_def counters_nonneg_def)
    have "it_reserved_requests it = 0" using item_idle_reserved [OF ok it(1)] it(2) by simp
    then have tot: "reserved_total (rq_items q') = ct_reserved_requests (rq_counters q')"
      using claim_reserve_exact [OF inv r c] claimed b
      by (simp add: update_first_const_reserved budget_bounds_def)
    have att: "it_attempts (claim_of q it) \<le> bp_max_attempts_per_resource (rq_profile q)"
      using claim_attempts_exact [OF inv it(1) claimed(2)] claimed(2) by simp
    have "typed_counters (claim_counters q it)"
      using b by (simp add: claim_counters_def budget_bounds_def typed_counters_def)
    moreover have "caps_ok (rq_profile q) (claim_counters q it)"
      using claim_processed_exact [OF inv claimed(3)] b
      by (simp add: caps_ok_def budget_bounds_def claim_counters_def)
    ultimately show ?thesis
      using tot att claimed(1,5) b by (simp add: budget_bounds_def update_first_const_attempts)
  qed
qed


lemma terminalize_loop_items:
  "terminalize_loop q expected its = Inr (done', rest) \<Longrightarrow>
    map it_reserved_requests done' = map it_reserved_requests its \<and>
    map it_attempts done' = map it_attempts its"
  by (induction its arbitrary: expected done' rest) (fastforce simp: rbind_Inr_iff split: if_splits)+

lemma attempts_le_map:
  "(\<forall>it \<in> set its. it_attempts it \<le> m) \<longleftrightarrow> (\<forall>a \<in> set (map it_attempts its). a \<le> m)"
  by simp

lemma terminalize_keeps: "keeps_bounds sha (terminalize_change rids)"
proof (rule keeps_boundsI)
  fix q q' :: queue and x :: unit
  assume b: "budget_bounds q" and "terminalize_change rids q = Inr (q', x)"
  then obtain its rest where "terminalize_loop q rids (rq_items q) = Inr (its, rest)"
    and "q' = q\<lparr>rq_items := its\<rparr>"
    by (auto simp: terminalize_change_def rbind_Inr_iff split: if_splits)
  with terminalize_loop_items b show "budget_bounds q'"
    by (fastforce simp: budget_bounds_def reserved_total_def attempts_le_map simp del: set_map)
qed

lemma open_generation_simps [simp]:
  "rq_profile (open_generation k q) = rq_profile q" "rq_counters (open_generation k q) = zero_counters"
  "rq_generation_kind (open_generation k q) = k" "rq_items (open_generation k q) = rq_items q"
  "\<not> rq_generation_closed (open_generation k q)"
  "rq_generation (open_generation k q) = i64_add (rq_generation q) 1"
  by (simp_all add: open_generation_def)

lemma requeue_item_simps [simp]:
  "it_resource_id (requeue_item it) = it_resource_id it" "it_job_id (requeue_item it) = it_job_id it"
  "it_attempts (requeue_item it) = it_attempts it" "it_reserved_requests (requeue_item it) = 0"
  "it_state (requeue_item it) = Queued" "it_reason (requeue_item it) = ''''"
  by (simp_all add: requeue_item_def)

text \<open>A new generation starts with nothing reserved: no item was in flight.\<close>

lemma fresh_generation_bounds:
  assumes ok: "queue_ok sha q" and b: "budget_bounds q"
    and idle: "\<forall>it \<in> set (rq_items q). it_state it \<noteq> Processing"
    and f: "\<And>it. it_reserved_requests it = 0 \<Longrightarrow> it_reserved_requests (f it) = 0"
      "\<And>it. 0 \<le> it_attempts it \<Longrightarrow> it_attempts (f it) \<le> it_attempts it"
  shows "budget_bounds ((open_generation k q)\<lparr>rq_items := map f (rq_items q)\<rparr>)"
proof -
  have "\<forall>it \<in> set (rq_items q). it_reserved_requests it = 0"
    using idle ok item_idle_reserved by blast
  then have "reserved_total (map f (rq_items q)) = 0"
    unfolding reserved_total_def map_map by (intro sum_list_zero_int) (simp add: f(1))
  moreover have "\<forall>it \<in> set (rq_items q). it_attempts (f it) \<le> bp_max_attempts_per_resource (rq_profile q)"
  proof
    fix it assume "it \<in> set (rq_items q)"
    with ok b f(2) [of it] show "it_attempts (f it) \<le> bp_max_attempts_per_resource (rq_profile q)"
      by (fastforce simp: queue_ok_def item_ok_def budget_bounds_def)
  qed
  ultimately show ?thesis
    using b zero_counters_ok [OF ok] by (simp add: budget_bounds_def)
qed

lemma next_generation_keeps: "keeps_bounds sha next_generation_change"
proof (rule keeps_boundsI)
  fix q q' :: queue and x :: bool
  assume ok: "queue_ok sha q" and b: "budget_bounds q" and ch: "next_generation_change q = Inr (q', x)"
  let ?f = "\<lambda>it. if continuation_eligible q it then requeue_item it else it"
  from ch consider "q' = q"
    | "q' = (open_generation ''continuation'' q)\<lparr>rq_items := map ?f (rq_items q)\<rparr>"
      "\<forall>it \<in> set (rq_items q). it_state it \<noteq> Processing"
    by (auto simp: next_generation_change_def Let_def list_ex_iff split: if_splits)
  then show "budget_bounds q'"
  proof cases
    case 2
    show ?thesis
      unfolding 2(1) by (rule fresh_generation_bounds [OF ok b 2(2)]) simp_all
  qed (use b in simp)
qed

lemma retry_generation_keeps: "keeps_bounds sha (retry_generation_change reason)"
proof (rule keeps_boundsI)
  fix q q' :: queue and x :: bool
  assume ok: "queue_ok sha q" and b: "budget_bounds q" and ch: "retry_generation_change reason q = Inr (q', x)"
  let ?f = "\<lambda>it. if it_state it = Blocked \<and> it_reason it = reason
    then (requeue_item it)\<lparr>it_attempts := 0\<rparr> else it"
  from ch consider "q' = q"
    | "q' = (open_generation (''retry:'' @ reason) q)\<lparr>rq_items := map ?f (rq_items q)\<rparr>"
      "\<forall>it \<in> set (rq_items q). it_state it \<noteq> Processing"
    by (auto simp: retry_generation_change_def Let_def list_ex_iff is_active_def split: if_splits)
  then show "budget_bounds q'"
  proof cases
    case 2
    show ?thesis
      unfolding 2(1) by (rule fresh_generation_bounds [OF ok b 2(2)]) simp_all
  qed (use b in simp)
qed

lemma requeue_keeps: "keeps_bounds sha (requeue_change rid)"
proof (rule keeps_boundsI)
  fix q q' :: queue and x :: unit
  assume inv: "queue_inv sha q" and b: "budget_bounds q" and "requeue_change rid q = Inr (q', x)"
  then obtain it where f: "List.find (processing_item rid) (rq_items q) = Some it"
    and q': "q' = q\<lparr>rq_counters := release_reservation (rq_counters q) it,
      rq_items := update_first (processing_item rid)
        (\<lambda>it. it\<lparr>it_reserved_requests := 0, it_state := Queued\<rparr>) (rq_items q)\<rparr>"
    by (auto simp: requeue_change_def split: option.splits)
  with settle_reserved_total [OF inv f, of "\<lambda>it. it\<lparr>it_reserved_requests := 0, it_state := Queued\<rparr>"] b
  show "budget_bounds q'" by (simp add: budget_bounds_def update_first_attempts)
qed

lemma finish_keeps: "keeps_bounds sha (finish_change rid st reason)"
proof (rule keeps_boundsI)
  fix q q' :: queue and x :: unit
  assume b: "budget_bounds q" and "finish_change rid st reason q = Inr (q', x)"
  then have "q' = q\<lparr>rq_items := update_first (processing_item rid)
      (\<lambda>it. it\<lparr>it_state := st, it_reason := reason\<rparr>) (rq_items q)\<rparr>"
    by (auto simp: finish_change_def split: option.splits if_splits)
  with b show "budget_bounds q'"
    by (simp add: budget_bounds_def sum_reserved_update update_first_attempts)
qed


section \<open>Reachable stores\<close>

text \<open>
  The operations of the store as commands, so that a run is a sequence of them. Each runs
  under its own environment, which may inject any fault.
\<close>

datatype rq_op =
    OpChargeWall int | OpEnqueue "string list" | OpSync "string list" | OpPrune "string list"
  | OpRebuild "rebuild_item list" | OpConsume string usage | OpConsumeAndClose string usage
  | OpRecover | OpClaimNext | OpTerminalize "string list" | OpNextGeneration
  | OpRetryGeneration string | OpRequeue string | OpFinish string item_state string | OpDelete

fun run_op :: "(string \<Rightarrow> string) \<Rightarrow> store_env \<Rightarrow> rq_op \<Rightarrow> rq_store \<Rightarrow> rq_store" where
  "run_op sha env (OpChargeWall floor) st = fst (ChargeRunWallFloor sha env floor st)"
| "run_op sha env (OpEnqueue rids) st = fst (Enqueue sha env rids st)"
| "run_op sha env (OpSync rids) st = fst (SyncMembership sha env rids st)"
| "run_op sha env (OpPrune rids) st = fst (PruneMembership sha env rids st)"
| "run_op sha env (OpRebuild rbs) st = fst (Rebuild sha env rbs st)"
| "run_op sha env (OpConsume rid u) st = fst (Consume sha env rid u st)"
| "run_op sha env (OpConsumeAndClose rid u) st = fst (ConsumeAndCloseGeneration sha env rid u st)"
| "run_op sha env OpRecover st = fst (Recover sha env st)"
| "run_op sha env OpClaimNext st = fst (ClaimNext sha env st)"
| "run_op sha env (OpTerminalize rids) st = fst (TerminalizeBudgetRemainder sha env rids st)"
| "run_op sha env OpNextGeneration st = fst (StartNextGeneration sha env st)"
| "run_op sha env (OpRetryGeneration reason) st = fst (StartRetryGeneration sha env reason st)"
| "run_op sha env (OpRequeue rid) st = fst (Requeue sha env rid st)"
| "run_op sha env (OpFinish rid s reason) st = fst (Finish sha env rid s reason st)"
| "run_op sha env OpDelete st = fst (Delete env st)"

text \<open>The integer arguments of a command are Go integers.\<close>

fun typed_op :: "rq_op \<Rightarrow> bool" where
  "typed_op (OpChargeWall floor) = in64 floor"
| "typed_op (OpConsume _ u) = typed_usage u"
| "typed_op (OpConsumeAndClose _ u) = typed_usage u"
| "typed_op _ = True"

inductive rq_step :: "(string \<Rightarrow> string) \<Rightarrow> rq_store \<Rightarrow> rq_store \<Rightarrow> bool" for sha where
  step: "typed_op op \<Longrightarrow> rq_step sha st (run_op sha env op st)"

inductive rq_reachable :: "(string \<Rightarrow> string) \<Rightarrow> rq_store \<Rightarrow> bool" for sha where
  init: "NewStore sha True True \<lparr>current_file = None, backup_file = None\<rparr> p = Inr st \<Longrightarrow>
    typed_profile p \<Longrightarrow> rq_reachable sha st"
| step: "rq_reachable sha st \<Longrightarrow> rq_step sha st st' \<Longrightarrow> rq_reachable sha st'"

inductive_cases rq_stepE: "rq_step sha st st'"
inductive_simps rq_step_iff: "rq_step sha st st'"

text \<open>
  The invariant of a store: its profile is valid, and whatever document its current file
  holds satisfies the queue invariant.
\<close>

definition store_inv :: "(string \<Rightarrow> string) \<Rightarrow> rq_store \<Rightarrow> bool" where
  "store_inv sha st \<longleftrightarrow>
     ValidateProfile sha (st_profile st) = None \<and> typed_profile (st_profile st) \<and>
     (case current_file (st_disk st) of
        None \<Rightarrow> True
      | Some (Garbled _) \<Rightarrow> False
      | Some (Doc q) \<Rightarrow> Validate sha q = None \<and> queue_inv sha q)"

lemma Empty_simps [simp]:
  "rq_items (Empty sha p) = []" "rq_counters (Empty sha p) = zero_counters"
  "rq_profile (Empty sha p) = p" "rq_generation (Empty sha p) = 0"
  "rq_generation_kind (Empty sha p) = ''''" "\<not> rq_generation_closed (Empty sha p)"
  "\<not> rq_legacy_migration_complete (Empty sha p)"
  by (simp_all add: Empty_def)

lemma Empty_inv:
  assumes "ValidateProfile sha p = None" "typed_profile p"
  shows "queue_inv sha (Empty sha p)"
proof -
  have "queue_ok sha (Empty sha p)"
    using assms(1)
    by (simp add: queue_ok_def counters_nonneg_def validGenerationKind_def MaximumQueueItems_def)
  moreover from this have "budget_bounds (Empty sha p)"
    using assms(2) zero_counters_ok [of sha "Empty sha p"]
    by (simp add: budget_bounds_def reserved_total_def)
  ultimately show ?thesis by (simp add: queue_inv_def)
qed

lemma store_load_inv:
  assumes "store_inv sha st" "store_load sha env st = Inr q"
  shows "queue_inv sha q"
  using store_load_ok [OF assms(2)] assms(1) Empty_inv by (auto simp: store_inv_def)

lemma store_update_inv [wf_intros]:
  assumes st: "store_inv sha st" and k: "keeps_bounds sha change"
  shows "store_inv sha (fst (store_update sha env change st))"
proof -
  obtain st' r where u: "store_update sha env change st = (st', r)"
    by (cases "store_update sha env change st")
  have p: "st_profile st' = st_profile st"
    using store_update_profile [of sha env change st] u by simp
  from store_update_current [OF u] show ?thesis
  proof
    assume "current_file (st_disk st') = current_file (st_disk st)"
    with st p u show ?thesis by (simp add: store_inv_def)
  next
    assume "\<exists>q q0 x. store_load sha env st = Inr q \<and> change q = Inr (q0, x) \<and>
       Validate sha (Seal sha q0) = None \<and> current_file (st_disk st') = Some (Doc (Seal sha q0))"
    then obtain q q0 x where q: "store_load sha env st = Inr q" "change q = Inr (q0, x)"
      and v: "Validate sha (Seal sha q0) = None"
      and c: "current_file (st_disk st') = Some (Doc (Seal sha q0))" by blast
    from v have ok: "queue_ok sha q0" by (simp add: Validate_None_iff)
    from st q(1) have "queue_inv sha q" by (rule store_load_inv)
    with k q(2) ok have "budget_bounds q0" by (auto simp: keeps_bounds_def)
    with ok c v p st u show ?thesis by (simp add: store_inv_def queue_inv_def)
  qed
qed

lemmas change_keeps [wf_intros] =
  charge_wall_keeps enqueue_keeps membership_keeps rebuild_keeps consume_keeps
  consume_and_close_keeps recover_keeps claim_keeps terminalize_keeps next_generation_keeps
  retry_generation_keeps requeue_keeps finish_keeps

lemma fst_refused [simp]: "fst (refused e st) = st"
  by (simp add: refused_def)

lemma fst_error_of [simp]: "fst (error_of r) = fst r"
  by (simp add: error_of_def)

lemma run_op_inv:
  assumes "store_inv sha st" "typed_op op"
  shows "store_inv sha (run_op sha env op st)"
proof (cases op)
  case (OpChargeWall floor)
  with assms store_update_inv [OF assms(1) charge_wall_keeps, of floor env] show ?thesis
    by (auto simp: ChargeRunWallFloor_def split: prod.splits sum.splits)
next
  case (OpTerminalize rids)
  with assms store_update_inv [OF assms(1) terminalize_keeps, of env rids] show ?thesis
    by (auto simp: TerminalizeBudgetRemainder_def split: prod.splits sum.splits)
next
  case OpDelete
  with assms show ?thesis by (auto simp: Delete_def store_inv_def Let_def)
next
  case (OpFinish rid s reason)
  with assms show ?thesis
    by (auto simp: Finish_def intro: wf_intros split: sum.splits)
qed (use assms in \<open>auto simp: Enqueue_def SyncMembership_def PruneMembership_def updateMembership_def
      Rebuild_def Consume_def ConsumeAndCloseGeneration_def Recover_def ClaimNext_def
      StartNextGeneration_def StartRetryGeneration_def Requeue_def intro: wf_intros\<close>)

lemma rq_reachable_inv: "rq_reachable sha st \<Longrightarrow> store_inv sha st"
proof (induction rule: rq_reachable.induct)
  case (init p st)
  then show ?case by (auto simp: NewStore_def store_inv_def split: if_splits)
next
  case (step st st')
  then show ?case by (auto elim!: rq_stepE intro: run_op_inv)
qed

end
