(* ===== verification/Resource_Properties.thy ===== *)
theory Resource_Properties
  imports Resource_Budget
begin

text \<open>
  The properties of the resource queue: its budget invariant under every failure, the request
  cap under adapters that keep to their reservations, crash safety and tamper evidence of the
  persisted queue, the contract of each transition, and the bound on the work of a drain.
\<close>

section \<open>A concrete store\<close>

text \<open>A small profile and a constant digest, on which the properties are instantiated.\<close>

definition demo_sha :: "string \<Rightarrow> string" where
  "demo_sha = (\<lambda>_. ''d'')"

definition demo_profile :: budget_profile where
  "demo_profile = SealProfile demo_sha
     \<lparr>bp_schema_version = BudgetSchemaVersion, bp_name = ''demo'', bp_max_resources = 5,
      bp_max_requests = 3, bp_max_downloaded_bytes = 9, bp_max_decoded_bytes = 9,
      bp_max_extracted_bytes = 9, bp_max_runtime_storage_bytes = 9,
      bp_max_attempts_per_resource = 2, bp_max_run_wall_seconds = 9,
      bp_global_concurrency = 2, bp_per_host_concurrency = 1,
      bp_fetch_policy =
        \<lparr>fp_request_timeout_seconds = 1, fp_max_redirects = 1, fp_max_wire_bytes = 9,
         fp_max_decoded_bytes = 9, fp_max_extracted_bytes = 9, fp_retry_backoff_one_seconds = 1,
         fp_retry_backoff_two_seconds = 1, fp_max_retry_after_seconds = 1\<rparr>,
      bp_fingerprint = ''''\<rparr>"

definition quiet_store_env :: store_env where
  "quiet_store_env = \<lparr>se_io = quiet_env, se_lock_busy = False, se_read_fails = False,
     se_prior_read_fails = False, se_remove_fails = (\<lambda>_. False)\<rparr>"

definition demo_usage :: usage where
  "demo_usage = \<lparr>us_requests = 1, us_downloaded_bytes = 2, us_decoded_bytes = 2,
     us_extracted_bytes = 2, us_runtime_storage_bytes = 2, us_wall_seconds = 2\<rparr>"

definition demo_store :: rq_store where
  "demo_store = \<lparr>st_profile = demo_profile, st_disk = \<lparr>current_file = None, backup_file = None\<rparr>\<rparr>"

definition demo_queue :: queue where
  "demo_queue = Seal demo_sha ((Empty demo_sha demo_profile)
     \<lparr>rq_items := [new_item demo_sha demo_profile ''r1'', new_item demo_sha demo_profile ''r2'']\<rparr>)"

lemma demo_texts: "validQueueText ''demo'' 64" "validQueueText ''r1'' 64" "validQueueText ''r2'' 64"
  by code_simp+

lemma demo_fingerprint [simp]: "fingerprint_of demo_sha j = ''d''"
  by (simp add: fingerprint_of_def demo_sha_def)

lemma demo_profile_valid: "ValidateProfile demo_sha demo_profile = None"
  by (simp add: ValidateProfile_def profile_fields_ok_def demo_profile_def SealProfile_def Let_def
      go_defs demo_texts)

lemma demo_profile_simps [simp]:
  "bp_max_resources demo_profile = 5" "bp_max_requests demo_profile = 3"
  "bp_max_downloaded_bytes demo_profile = 9" "bp_max_decoded_bytes demo_profile = 9"
  "bp_max_extracted_bytes demo_profile = 9" "bp_max_runtime_storage_bytes demo_profile = 9"
  "bp_max_attempts_per_resource demo_profile = 2" "bp_max_run_wall_seconds demo_profile = 9"
  "fp_max_redirects (bp_fetch_policy demo_profile) = 1"
  by (simp_all add: demo_profile_def SealProfile_def Let_def)

lemma demo_profile_typed: "typed_profile demo_profile"
  by (simp add: typed_profile_def in64_def)

lemma demo_queue_items:
  "rq_items demo_queue = [new_item demo_sha demo_profile ''r1'', new_item demo_sha demo_profile ''r2'']"
  by (simp add: demo_queue_def)

lemma demo_queue_simps [simp]:
  "rq_profile demo_queue = demo_profile" "rq_counters demo_queue = zero_counters"
  "rq_generation demo_queue = 0" "rq_generation_kind demo_queue = ''''"
  "\<not> rq_generation_closed demo_queue" "\<not> rq_legacy_migration_complete demo_queue"
  by (simp_all add: demo_queue_def)

lemma demo_queue_inv: "queue_inv demo_sha demo_queue"
  using demo_profile_valid demo_profile_typed
  by (simp add: queue_inv_def queue_ok_def budget_bounds_def demo_queue_items item_ok_def
      typed_counters_def caps_ok_def reserved_total_def counters_nonneg_def validGenerationKind_def
      check_state_reason_def go_defs demo_texts)

lemma demo_queue_valid: "Validate demo_sha demo_queue = None"
  using demo_queue_inv Validate_Seal_iff [of demo_sha]
  by (simp add: queue_inv_def demo_queue_def digest_ok_def demo_sha_def)

lemma demo_queue_bytes: "queue_bytes (Doc demo_queue) \<le> MaximumQueueBytes"
  by code_simp

lemma demo_queue_sealed: "Seal demo_sha demo_queue = demo_queue"
  by (simp add: demo_queue_def)

text \<open>With no fault, an update stores its sealed result.\<close>

lemma quiet_update:
  assumes "store_load sha quiet_store_env st = Inr q" "change q = Inr (q', x)"
    and "Validate sha (Seal sha q') = None" "queue_bytes (Doc (Seal sha q')) \<le> MaximumQueueBytes"
  shows "store_update sha quiet_store_env change st =
    (st\<lparr>st_disk := (st_disk st)\<lparr>current_file := Some (Doc (Seal sha q')),
       backup_file := (case current_file (st_disk st) of None \<Rightarrow> backup_file (st_disk st) | Some p \<Rightarrow> Some p)\<rparr>\<rparr>,
     Inr (Seal sha q', x))"
proof -
  have "\<forall>p. current_file (st_disk st) = Some p \<longrightarrow> valid_queue_blob sha p \<and> queue_bytes p \<le> MaximumQueueBytes"
    using assms(1) by (auto simp: store_load_def valid_queue_blob_def split: if_splits blob.splits)
  with assms atomic_replace_quiet [of "valid_queue_blob sha" "Doc (Seal sha q')" queue_bytes
      MaximumQueueBytes "current_file (st_disk st)" "st_disk st"]
  show ?thesis
    by (simp add: store_update_def quiet_store_env_def Let_def valid_queue_blob_def MaximumQueueBytes_def)
qed

lemma demo_enqueue:
  "Enqueue demo_sha quiet_store_env [''r1'', ''r2''] demo_store =
     (\<lparr>st_profile = demo_profile, st_disk = \<lparr>current_file = Some (Doc demo_queue), backup_file = None\<rparr>\<rparr>,
      Inr (demo_queue, ()))"
proof -
  let ?q = "(Empty demo_sha demo_profile)
     \<lparr>rq_items := [new_item demo_sha demo_profile ''r1'', new_item demo_sha demo_profile ''r2'']\<rparr>"
  have "store_load demo_sha quiet_store_env demo_store = Inr (Empty demo_sha demo_profile)"
    by (simp add: store_load_def demo_store_def)
  moreover have "enqueue_change demo_sha [''r1'', ''r2''] (Empty demo_sha demo_profile) = Inr (?q, ())"
    by (simp add: enqueue_change_def go_defs demo_texts)
  moreover have "Seal demo_sha ?q = demo_queue" by (simp add: demo_queue_def)
  ultimately show ?thesis
    using quiet_update [of demo_sha demo_store "Empty demo_sha demo_profile" _ ?q "()"]
      demo_queue_valid demo_queue_bytes
    by (simp add: Enqueue_def go_defs demo_store_def)
qed


section \<open>The budget invariant\<close>

lemma demo_reachable:
  "rq_reachable demo_sha
     \<lparr>st_profile = demo_profile, st_disk = \<lparr>current_file = Some (Doc demo_queue), backup_file = None\<rparr>\<rparr>"
proof -
  have "rq_reachable demo_sha demo_store"
    by (rule rq_reachable.init [of demo_sha demo_profile])
      (simp_all add: NewStore_def demo_profile_valid demo_store_def demo_profile_typed)
  moreover have "rq_step demo_sha demo_store
      (run_op demo_sha quiet_store_env (OpEnqueue [''r1'', ''r2'']) demo_store)"
    by (rule rq_step.intros) simp
  ultimately show ?thesis
    using rq_reachable.step by (fastforce simp: demo_enqueue)
qed

lemma demo_load:
  "store_load demo_sha quiet_store_env
     \<lparr>st_profile = demo_profile, st_disk = \<lparr>current_file = Some (Doc demo_queue), backup_file = None\<rparr>\<rparr>
   = Inr demo_queue"
  using demo_queue_bytes demo_queue_valid by (simp add: store_load_def quiet_store_env_def)



section \<open>The request cap\<close>

text \<open>
  The request counter is bounded when adapters keep to their reservations: a usage reports at
  most the requests reserved for its item and at most one more than the redirect limit.
\<close>

definition honest_report :: "string \<Rightarrow> usage \<Rightarrow> queue \<Rightarrow> bool" where
  "honest_report rid u q \<longleftrightarrow> 0 \<le> us_requests u \<and>
     (case List.find (processing_item rid) (rq_items q) of
        None \<Rightarrow> True
      | Some it \<Rightarrow> us_requests u \<le> it_reserved_requests it \<and>
          us_requests u \<le> i64_add (fp_max_redirects (bp_fetch_policy (rq_profile q))) 1)"

fun honest_usage :: "rq_op \<Rightarrow> queue \<Rightarrow> bool" where
  "honest_usage (OpConsume rid u) q = honest_report rid u q"
| "honest_usage (OpConsumeAndClose rid u) q = honest_report rid u q"
| "honest_usage _ q = True"

definition request_capped :: "queue \<Rightarrow> bool" where
  "request_capped q \<longleftrightarrow>
     ct_requests (rq_counters q) + ct_reserved_requests (rq_counters q) \<le> bp_max_requests (rq_profile q)"

definition keeps_cap :: "(string \<Rightarrow> string) \<Rightarrow> (queue \<Rightarrow> bool) \<Rightarrow> 'x change \<Rightarrow> bool" where
  "keeps_cap sha honest change \<longleftrightarrow>
     (\<forall>q q' x. queue_inv sha q \<longrightarrow> request_capped q \<longrightarrow> honest q \<longrightarrow> change q = Inr (q', x) \<longrightarrow>
        queue_ok sha q' \<longrightarrow> request_capped q')"

lemma keeps_capI:
  assumes "\<And>q q' x. queue_inv sha q \<Longrightarrow> request_capped q \<Longrightarrow> honest q \<Longrightarrow> change q = Inr (q', x) \<Longrightarrow>
      queue_ok sha q' \<Longrightarrow> request_capped q'"
  shows "keeps_cap sha honest change"
  using assms by (auto simp: keeps_cap_def)

lemma inv_counters:
  assumes "queue_inv sha q"
  shows "0 \<le> ct_requests (rq_counters q)" "0 \<le> ct_reserved_requests (rq_counters q)"
    "in64 (ct_requests (rq_counters q))" "in64 (ct_reserved_requests (rq_counters q))"
    "in64 (bp_max_requests (rq_profile q))" "1 \<le> bp_max_requests (rq_profile q)"
    "0 \<le> ct_downloaded_bytes (rq_counters q)" "0 \<le> ct_decoded_bytes (rq_counters q)"
    "0 \<le> ct_extracted_bytes (rq_counters q)" "0 \<le> ct_runtime_storage_bytes (rq_counters q)"
    "0 \<le> ct_wall_seconds (rq_counters q)"
  using assms queue_ok_positive [of sha q]
  by (auto simp: queue_inv_def queue_ok_def counters_nonneg_def budget_bounds_def
      typed_counters_def typed_profile_def)

text \<open>Below the cap the reservation is exact: at least one request, at most what is left.\<close>

lemma claim_reserve_capped:
  assumes inv: "queue_inv sha q" and cap: "request_capped q" and d: "\<not> budgetDefersItem q it"
    and r: "0 \<le> it_reserved_requests (claim_of q it)"
  shows "1 \<le> it_reserved_requests (claim_of q it)"
    and "it_reserved_requests (claim_of q it) \<le>
      bp_max_requests (rq_profile q) - ct_requests (rq_counters q) - ct_reserved_requests (rq_counters q)"
    and "it_reserved_requests (claim_of q it) \<le> fp_max_redirects (bp_fetch_policy (rq_profile q)) + 1"
    and "ct_reserved_requests (claim_counters q it)
      = ct_reserved_requests (rq_counters q) + it_reserved_requests (claim_of q it)"
proof -
  note c = inv_counters [OF inv]
  let ?q = "ct_requests (rq_counters q)" and ?r = "ct_reserved_requests (rq_counters q)"
  let ?m = "bp_max_requests (rq_profile q)" and ?red = "fp_max_redirects (bp_fetch_policy (rq_profile q))"
  have sum: "i64_add ?q ?r = ?q + ?r"
    using c cap by (intro i64_add_exact) (auto simp: request_capped_def in64_def)
  with d have lt: "?q + ?r < ?m" by (auto simp: budgetDefersItem_def split: if_splits)
  have rem: "i64_sub (i64_sub ?m ?q) ?r = ?m - ?q - ?r"
  proof -
    have "i64_sub ?m ?q = ?m - ?q" using c lt by (intro i64_sub_nonneg) auto
    moreover have "i64_sub (?m - ?q) ?r = ?m - ?q - ?r"
      using c lt by (intro i64_sub_nonneg) (auto simp: in64_def)
    ultimately show ?thesis by simp
  qed
  have red: "0 \<le> ?red" "in64 ?red"
    using inv valid_profile_positive(9) by (auto simp: queue_inv_def queue_ok_def budget_bounds_def typed_profile_def)
  have want: "i64_add ?red 1 = ?red + 1 \<or> i64_add ?red 1 < 0"
    using i64_add_nonneg_cases [of ?red 1] red by simp
  have res: "it_reserved_requests (claim_of q it)
      = (if i64_add ?red 1 > ?m - ?q - ?r then ?m - ?q - ?r else i64_add ?red 1)"
    by (simp add: claim_of_def Let_def rem)
  show "1 \<le> it_reserved_requests (claim_of q it)"
    using res want r lt red by (auto split: if_splits)
  show le: "it_reserved_requests (claim_of q it) \<le> ?m - ?q - ?r"
    using res by simp
  show "it_reserved_requests (claim_of q it) \<le> ?red + 1"
    using res want red r by (auto split: if_splits)
  have "in64 (?r + it_reserved_requests (claim_of q it))"
    using le c r by (auto simp: in64_def)
  then show "ct_reserved_requests (claim_counters q it) = ?r + it_reserved_requests (claim_of q it)"
    by (simp add: claim_counters_def i64_add_exact)
qed

lemma claim_result_reserve:
  assumes "queue_ok sha q'" "List.find is_queued (sort_key it_resource_id (rq_items q)) = Some it"
    and "q' = q\<lparr>rq_items := update_first is_queued (\<lambda>_. claim_of q it)
           (sort_key it_resource_id (rq_items q)), rq_counters := claim_counters q it\<rparr>"
  shows "0 \<le> it_reserved_requests (claim_of q it)"
  using assms(1) update_first_here [OF assms(2), of "\<lambda>_. claim_of q it"] assms(3)
    item_reserved_nonneg [of sha q' "claim_of q it"] by simp

lemma claim_cap: "keeps_cap sha honest claim_change"
proof (rule keeps_capI)
  fix q q' :: queue and x :: "item option"
  assume inv: "queue_inv sha q" and cap: "request_capped q" and ok': "queue_ok sha q'"
    and "claim_change q = Inr (q', x)"
  from this(4) show "request_capped q'"
  proof (cases rule: claim_cases)
    case (claimed it)
    from claim_reserve_capped(2,4) [OF inv cap claimed(3) claim_result_reserve [OF ok' claimed(1,5)]]
    show ?thesis using claimed(5) by (simp add: request_capped_def claim_counters_def)
  qed (use cap in \<open>simp_all add: request_capped_def\<close>)
qed


lemma consume_cap_aux:
  assumes inv: "queue_inv sha q" and cap: "request_capped q" and h: "honest_report rid u q"
    and ch: "consumeUsage rid u q = Inr (q', x)"
  shows "request_capped q'"
proof -
  from ch obtain it where f: "List.find (processing_item rid) (rq_items q) = Some it"
    by (auto simp: consumeUsage_def split: option.splits)
  note c = inv_counters [OF inv]
  have it: "it \<in> set (rq_items q)" using processing_item_in [OF f] by simp
  have le: "it_reserved_requests it \<le> ct_reserved_requests (rq_counters q)"
    by (rule reserved_item_le_total [OF inv it])
  have u: "0 \<le> us_requests u" "us_requests u \<le> it_reserved_requests it"
    "us_requests u \<le> i64_add (fp_max_redirects (bp_fetch_policy (rq_profile q))) 1"
    using h f by (auto simp: honest_report_def)
  have rel: "ct_reserved_requests (release_reservation (rq_counters q) it)
      = ct_reserved_requests (rq_counters q) - it_reserved_requests it"
    by (rule release_reservation_exact [OF inv it])
  have add: "i64_add (ct_requests (rq_counters q)) (us_requests u)
      = ct_requests (rq_counters q) + us_requests u"
    using c u le cap by (intro i64_add_exact) (auto simp: request_capped_def in64_def)
  show ?thesis
    using ch f u rel add cap le
    by (auto simp: consumeUsage_def Let_def request_capped_def minimumInt64_def split: if_splits)
qed

lemma consume_cap: "keeps_cap sha (honest_report rid u) (consumeUsage rid u)"
  by (rule keeps_capI) (rule consume_cap_aux)

lemma consume_and_close_cap: "keeps_cap sha (honest_report rid u) (consume_and_close_change rid u)"
proof (rule keeps_capI)
  fix q q' :: queue and x :: bool
  assume a: "queue_inv sha q" "request_capped q" "honest_report rid u q"
    and "consume_and_close_change rid u q = Inr (q', x)"
  then obtain q1 where "consumeUsage rid u q = Inr (q1, x)"
    and "rq_counters q' = rq_counters q1" "rq_profile q' = rq_profile q1"
    by (auto simp: consume_and_close_change_def rbind_Inr_iff split: if_splits option.splits)
  with consume_cap_aux [OF a] show "request_capped q'" by (simp add: request_capped_def)
qed

text \<open>The transitions that leave the two counters as they are, reset them, or only release.\<close>

lemma release_le:
  assumes "queue_inv sha q" "it \<in> set (rq_items q)"
  shows "ct_reserved_requests (release_reservation (rq_counters q) it) \<le> ct_reserved_requests (rq_counters q)"
  using release_reservation_exact [OF assms] item_reserved_nonneg assms by (fastforce simp: queue_inv_def)

lemma retain_loop_requests:
  "retain_loop desired its c = Inr (kept, c') \<Longrightarrow> ct_requests c' = ct_requests c"
proof (induction its arbitrary: c kept)
  case (Cons it its)
  then show ?case by (auto simp: rbind_Inr_iff frame_simps split: if_splits)
qed simp

lemma reserved_filter_le:
  assumes "\<forall>it \<in> set its. 0 \<le> it_reserved_requests it"
  shows "reserved_total (filter P its) \<le> reserved_total its"
  using assms by (induction its) (auto simp: reserved_total_def)

lemma retain_loop_kept:
  "retain_loop desired its c = Inr (kept, c') \<Longrightarrow>
    kept = filter (\<lambda>it. it_resource_id it \<in> set desired) its"
proof (induction its arbitrary: c kept)
  case (Cons it its)
  then show ?case by (auto simp: rbind_Inr_iff split: if_splits)
qed simp

lemma membership_cap: "keeps_cap sha honest (membership_change sha rids add)"
proof (rule keeps_capI)
  fix q q' :: queue and x :: unit
  assume inv: "queue_inv sha q" and cap: "request_capped q" and ok': "queue_ok sha q'"
    and ch: "membership_change sha rids add q = Inr (q', x)"
  from ch obtain kept c where rl: "retain_loop rids (rq_items q) (rq_counters q) = Inr (kept, c)"
    by (auto simp: membership_change_def rbind_Inr_iff)
  have ok: "queue_ok sha q" and b: "budget_bounds q" using inv by (simp_all add: queue_inv_def)
  have "ct_reserved_requests c = reserved_total kept"
    using retain_loop_bounds [OF rl, of 0 "rq_profile q"] b ok
    by (auto simp: budget_bounds_def queue_ok_def item_ok_def)
  also have "\<dots> \<le> ct_reserved_requests (rq_counters q)"
    using reserved_filter_le [of "rq_items q" "\<lambda>it. it_resource_id it \<in> set rids"] retain_loop_kept [OF rl]
      b item_reserved_nonneg [OF ok] by (auto simp: budget_bounds_def)
  finally have le: "ct_reserved_requests c \<le> ct_reserved_requests (rq_counters q)" .
  have "rq_profile q' = rq_profile q \<and> (rq_counters q' = c \<or> rq_counters q' = zero_counters)"
    using ch rl by (auto simp: membership_change_def Let_def)
  with le cap retain_loop_requests [OF rl] inv_counters(6) [OF inv] show "request_capped q'"
    by (auto simp: request_capped_def)
qed

lemma frame_cap:
  assumes "\<And>q q' x. change q = Inr (q', x) \<Longrightarrow> rq_profile q' = rq_profile q \<and>
     (rq_counters q' = rq_counters q \<or> rq_counters q' = zero_counters)"
  shows "keeps_cap sha honest change"
proof (rule keeps_capI)
  fix q q' x
  assume "queue_inv sha q" "request_capped q" "change q = Inr (q', x)"
  with assms [of q q' x] inv_counters(6) [of sha q] show "request_capped q'"
    by (auto simp: request_capped_def)
qed

lemma charge_wall_cap: "keeps_cap sha honest (charge_wall_change floor)"
  by (rule keeps_capI) (auto simp: charge_wall_change_def request_capped_def split: if_splits)

lemma enqueue_cap: "keeps_cap sha honest (enqueue_change sha rids)"
  by (rule frame_cap) (auto simp: enqueue_change_def rbind_Inr_iff)

lemma rebuild_cap: "keeps_cap sha honest (rebuild_change sha rbs)"
  by (rule frame_cap) (auto simp: rebuild_change_def rbind_Inr_iff)

lemma terminalize_cap: "keeps_cap sha honest (terminalize_change rids)"
  by (rule frame_cap) (auto simp: terminalize_change_def rbind_Inr_iff split: if_splits)

lemma next_generation_cap: "keeps_cap sha honest next_generation_change"
  by (rule frame_cap) (auto simp: next_generation_change_def Let_def split: if_splits)

lemma retry_generation_cap: "keeps_cap sha honest (retry_generation_change reason)"
  by (rule frame_cap) (auto simp: retry_generation_change_def Let_def split: if_splits)

lemma finish_cap: "keeps_cap sha honest (finish_change rid st reason)"
  by (rule frame_cap) (auto simp: finish_change_def split: option.splits if_splits)

lemma recover_cap: "keeps_cap sha honest recover_change"
proof (rule keeps_capI)
  fix q q' :: queue and x :: unit
  assume inv: "queue_inv sha q" and "request_capped q" and ch: "recover_change q = Inr (q', x)"
  moreover have "rq_profile q' = rq_profile q" using ch by (auto simp: recover_change_def)
  ultimately show "request_capped q'"
    using recover_result [OF inv ch] inv_counters(2) [OF inv] by (simp add: request_capped_def)
qed

lemma requeue_cap: "keeps_cap sha honest (requeue_change rid)"
proof (rule keeps_capI)
  fix q q' :: queue and x :: unit
  assume inv: "queue_inv sha q" and cap: "request_capped q" and "requeue_change rid q = Inr (q', x)"
  then obtain it where f: "List.find (processing_item rid) (rq_items q) = Some it"
    and q': "rq_counters q' = release_reservation (rq_counters q) it" "rq_profile q' = rq_profile q"
    by (auto simp: requeue_change_def split: option.splits)
  with release_le [OF inv, of it] processing_item_in [OF f] cap show "request_capped q'"
    by (simp add: request_capped_def frame_simps)
qed


inductive honest_reachable :: "(string \<Rightarrow> string) \<Rightarrow> rq_store \<Rightarrow> bool" for sha where
  init: "NewStore sha True True \<lparr>current_file = None, backup_file = None\<rparr> p = Inr st \<Longrightarrow>
    typed_profile p \<Longrightarrow> honest_reachable sha st"
| step: "honest_reachable sha st \<Longrightarrow> typed_op op \<Longrightarrow>
    (\<forall>q. store_load sha env st = Inr q \<longrightarrow> honest_usage op q) \<Longrightarrow>
    honest_reachable sha (run_op sha env op st)"

definition store_capped :: "rq_store \<Rightarrow> bool" where
  "store_capped st \<longleftrightarrow>
     (case current_file (st_disk st) of Some (Doc q) \<Rightarrow> request_capped q | _ \<Rightarrow> True)"

lemma request_capped_Seal [simp]: "request_capped (Seal sha q) = request_capped q"
  by (simp add: request_capped_def)

lemma request_capped_Empty: "ValidateProfile sha p = None \<Longrightarrow> request_capped (Empty sha p)"
  using valid_profile_positive(2) [of sha p] by (simp add: request_capped_def)

lemma store_update_cap:
  assumes st: "store_inv sha st" "store_capped st" and k: "keeps_cap sha honest change"
    and h: "\<And>q. store_load sha env st = Inr q \<Longrightarrow> honest q"
  shows "store_capped (fst (store_update sha env change st))"
proof -
  obtain st' r where u: "store_update sha env change st = (st', r)"
    by (cases "store_update sha env change st")
  from store_update_current [OF u] show ?thesis
  proof
    assume "current_file (st_disk st') = current_file (st_disk st)"
    with st u show ?thesis by (simp add: store_capped_def)
  next
    assume "\<exists>q q0 x. store_load sha env st = Inr q \<and> change q = Inr (q0, x) \<and>
       Validate sha (Seal sha q0) = None \<and> current_file (st_disk st') = Some (Doc (Seal sha q0))"
    then obtain q q0 x where q: "store_load sha env st = Inr q" "change q = Inr (q0, x)"
      and v: "Validate sha (Seal sha q0) = None"
      and c: "current_file (st_disk st') = Some (Doc (Seal sha q0))" by blast
    from v have ok: "queue_ok sha q0" by (simp add: Validate_None_iff)
    have "request_capped q"
      using store_load_ok [OF q(1)] st request_capped_Empty by (auto simp: store_inv_def store_capped_def)
    with k q ok h store_load_inv [OF st(1) q(1)] have "request_capped q0"
      by (auto simp: keeps_cap_def)
    with c u show ?thesis by (simp add: store_capped_def)
  qed
qed

lemmas change_cap =
  charge_wall_cap enqueue_cap membership_cap rebuild_cap recover_cap claim_cap terminalize_cap
  next_generation_cap retry_generation_cap requeue_cap finish_cap

lemma plain_update_cap:
  assumes "store_inv sha st" "store_capped st" "keeps_cap sha (\<lambda>_. True) change"
  shows "store_capped (fst (store_update sha env change st))"
  by (rule store_update_cap [OF assms]) simp

lemma run_op_cap:
  assumes st: "store_inv sha st" "store_capped st"
    and h: "\<And>q. store_load sha env st = Inr q \<Longrightarrow> honest_usage op q"
  shows "store_capped (run_op sha env op st)"
proof (cases op)
  case (OpChargeWall floor)
  with st plain_update_cap [OF st charge_wall_cap, of env floor] show ?thesis
    by (auto simp: ChargeRunWallFloor_def split: prod.splits sum.splits)
next
  case (OpTerminalize rids)
  with st plain_update_cap [OF st terminalize_cap, of env rids] show ?thesis
    by (auto simp: TerminalizeBudgetRemainder_def split: prod.splits sum.splits)
next
  case OpDelete
  with st show ?thesis by (auto simp: Delete_def store_capped_def Let_def)
next
  case (OpFinish rid s reason)
  with st show ?thesis
    by (auto simp: Finish_def intro: plain_update_cap change_cap split: sum.splits)
next
  case (OpConsume rid u)
  with st h store_update_cap [OF st consume_cap, of env rid u] show ?thesis
    by (auto simp: Consume_def)
next
  case (OpConsumeAndClose rid u)
  with st h store_update_cap [OF st consume_and_close_cap, of env rid u] show ?thesis
    by (auto simp: ConsumeAndCloseGeneration_def)
qed (use st in \<open>auto simp: Enqueue_def SyncMembership_def PruneMembership_def updateMembership_def
      Rebuild_def Recover_def ClaimNext_def StartNextGeneration_def StartRetryGeneration_def
      Requeue_def intro: plain_update_cap change_cap\<close>)

lemma honest_reachable_inv: "honest_reachable sha st \<Longrightarrow> store_inv sha st \<and> store_capped st"
proof (induction rule: honest_reachable.induct)
  case (init p st)
  then show ?case by (auto simp: NewStore_def store_inv_def store_capped_def split: if_splits)
next
  case (step st op env)
  then show ?case using run_op_inv run_op_cap by blast
qed

lemma demo_honest:
  "honest_reachable demo_sha
     \<lparr>st_profile = demo_profile, st_disk = \<lparr>current_file = Some (Doc demo_queue), backup_file = None\<rparr>\<rparr>"
proof -
  have "honest_reachable demo_sha demo_store"
    by (rule honest_reachable.init [of demo_sha demo_profile])
      (simp_all add: NewStore_def demo_profile_valid demo_store_def demo_profile_typed)
  then have "honest_reachable demo_sha
      (run_op demo_sha quiet_store_env (OpEnqueue [''r1'', ''r2'']) demo_store)"
    by (rule honest_reachable.step) simp_all
  then show ?thesis by (simp add: demo_enqueue)
qed

text \<open>C2: When every consumed usage stays within the reservation of its item
  (and within one more than the redirect limit), the requests consumed plus the requests
  reserved by items in flight never exceed the profile's request cap, in any reachable store,
  under any fault.\<close>

theorem request_cap_honest:
  assumes "honest_reachable sha st" and "store_load sha env st = Inr q"
  shows "ct_requests (rq_counters q) + ct_reserved_requests (rq_counters q)
    \<le> bp_max_requests (rq_profile q)"
  using honest_reachable_inv [OF assms(1)] store_load_ok [OF assms(2)] request_capped_Empty
  by (auto simp: store_inv_def store_capped_def request_capped_def)

theorem request_cap_honest_witness:
  "ct_requests (rq_counters demo_queue) + ct_reserved_requests (rq_counters demo_queue) \<le> 3"
  using request_cap_honest [OF demo_honest demo_load] by simp

text \<open>Two resources in flight, and one adapter that reports more than was reserved for it.\<close>

definition inflight_queue :: queue where
  "inflight_queue = demo_queue
     \<lparr>rq_items := [(new_item demo_sha demo_profile ''r1'')\<lparr>it_state := Processing, it_attempts := 1,
                      it_reserved_requests := 2\<rparr>,
                   (new_item demo_sha demo_profile ''r2'')\<lparr>it_state := Processing, it_attempts := 1,
                      it_reserved_requests := 1\<rparr>],
      rq_counters := zero_counters\<lparr>ct_processed_resources := 2, ct_attempts := 2,
                      ct_reserved_requests := 3\<rparr>\<rparr>"

lemma small_i64 [simp]:
  "i64_add (numeral a) (numeral b) = wrap64 (numeral a + numeral b)"
  "i64_add 0 (numeral b) = wrap64 (numeral b)" "i64_add (numeral a) 0 = wrap64 (numeral a)"
  "i64_add 1 (numeral b) = wrap64 (1 + numeral b)" "i64_add (numeral a) 1 = wrap64 (numeral a + 1)"
  "i64_add 0 0 = 0" "i64_add 0 1 = 1" "i64_add 1 0 = 1" "i64_add 1 1 = 2"
  "i64_sub (numeral a) (numeral b) = wrap64 (numeral a - numeral b)"
  "i64_sub (numeral a) 0 = wrap64 (numeral a)" "i64_sub (numeral a) 1 = wrap64 (numeral a - 1)"
  "i64_sub 0 0 = 0" "i64_sub 1 0 = 1" "i64_sub 1 1 = 0"
  by (simp_all add: i64_add_def i64_sub_def wrap64_def)

definition first_claim :: queue where
  "first_claim = demo_queue
     \<lparr>rq_items := [(new_item demo_sha demo_profile ''r1'')\<lparr>it_state := Processing, it_attempts := 1,
                      it_reserved_requests := 2\<rparr>, new_item demo_sha demo_profile ''r2''],
      rq_counters := zero_counters\<lparr>ct_processed_resources := 1, ct_attempts := 1,
                      ct_reserved_requests := 2\<rparr>\<rparr>"

lemma wrap64_numeral [simp]:
  "wrap64 2 = 2" "wrap64 3 = 3" "wrap64 4 = 4" "wrap64 1 = 1" "wrap64 0 = 0" "wrap64 9 = 9"
  by (simp_all add: wrap64_def)

lemma demo_claim_one:
  "claim_change demo_queue = Inr (first_claim,
     Some ((new_item demo_sha demo_profile ''r1'')\<lparr>it_state := Processing, it_attempts := 1,
             it_reserved_requests := 2\<rparr>))"
  by (simp add: claim_change_def demo_queue_items budgetDefersItem_def first_claim_def
      zero_counters_def Let_def)

lemma demo_claim_two:
  "claim_change first_claim = Inr (inflight_queue,
     Some ((new_item demo_sha demo_profile ''r2'')\<lparr>it_state := Processing, it_attempts := 1,
             it_reserved_requests := 1\<rparr>))"
  by (simp add: claim_change_def first_claim_def inflight_queue_def budgetDefersItem_def
      zero_counters_def Let_def)

definition overreported_queue :: queue where
  "overreported_queue = demo_queue
     \<lparr>rq_items := [(new_item demo_sha demo_profile ''r1'')\<lparr>it_state := Processing, it_attempts := 1\<rparr>,
                   (new_item demo_sha demo_profile ''r2'')\<lparr>it_state := Processing, it_attempts := 1,
                      it_reserved_requests := 1\<rparr>],
      rq_counters := zero_counters\<lparr>ct_processed_resources := 2, ct_attempts := 2, ct_requests := 3,
                      ct_reserved_requests := 1\<rparr>\<rparr>"

definition exceeded_queue :: queue where
  "exceeded_queue = demo_queue
     \<lparr>rq_items := [(new_item demo_sha demo_profile ''r1'')\<lparr>it_state := Processing, it_attempts := 1\<rparr>,
                   (new_item demo_sha demo_profile ''r2'')\<lparr>it_state := Processing, it_attempts := 1\<rparr>],
      rq_counters := \<lparr>ct_processed_resources = 2, ct_requests = 4, ct_attempts = 2,
        ct_reserved_requests = 0, ct_downloaded_bytes = 2, ct_decoded_bytes = 2,
        ct_extracted_bytes = 2, ct_runtime_storage_bytes = 2, ct_wall_seconds = 2\<rparr>\<rparr>"

lemma demo_overreport:
  "consumeUsage ''r1'' (demo_usage\<lparr>us_requests := 3\<rparr>) inflight_queue = Inr (overreported_queue, True)"
  by (simp add: consumeUsage_def inflight_queue_def overreported_queue_def processing_item_def
      demo_usage_def zero_counters_def release_reservation_def settle_item_def new_item_def)

lemma demo_exceed:
  "consumeUsage ''r2'' demo_usage overreported_queue = Inr (exceeded_queue, False)"
  by (simp add: consumeUsage_def exceeded_queue_def overreported_queue_def processing_item_def
      demo_usage_def zero_counters_def release_reservation_def settle_item_def new_item_def)

lemma demo_exceed_honest: "honest_report ''r2'' demo_usage overreported_queue"
  by (simp add: honest_report_def overreported_queue_def processing_item_def demo_usage_def)

lemma exceeded_queue_ok: "queue_ok demo_sha exceeded_queue"
  using demo_profile_valid
  by (simp add: queue_ok_def exceeded_queue_def item_ok_def counters_nonneg_def
      validGenerationKind_def check_state_reason_def go_defs demo_texts)

text \<open>The cap needs that hypothesis: two claims of the queued demo queue
  lead to two items in flight; when the first adapter reports more requests than were reserved,
  the store pins the request counter to its cap, and the honest report of the second adapter
  then takes the persisted counter above the cap.\<close>

theorem request_cap_overreport:
  "\<exists>q1 q2 i1 i2. claim_change demo_queue = Inr (q1, i1) \<and> claim_change q1 = Inr (q2, i2) \<and>
     q2 = inflight_queue \<and>
     (\<exists>q3 q4. consumeUsage ''r1'' (demo_usage\<lparr>us_requests := 3\<rparr>) q2 = Inr (q3, True) \<and>
        consumeUsage ''r2'' demo_usage q3 = Inr (q4, False) \<and> honest_report ''r2'' demo_usage q3 \<and>
        queue_ok demo_sha q4 \<and> ct_requests (rq_counters q4) = 4 \<and> bp_max_requests (rq_profile q4) = 3)"
proof -
  have "ct_requests (rq_counters exceeded_queue) = 4" "bp_max_requests (rq_profile exceeded_queue) = 3"
    by (simp_all add: exceeded_queue_def)
  with demo_claim_one demo_claim_two demo_overreport demo_exceed demo_exceed_honest exceeded_queue_ok
  show ?thesis by blast
qed


section \<open>Durability\<close>

text \<open>C3: Under every fault of the durable boundary, an update leaves the current
  file as it was or with the complete, sealed, valid result of the transition; when the file has
  changed and held a document before, the backup holds exactly that document; and success means
  the returned queue is the one on disk.\<close>

theorem update_crash_safe:
  assumes "store_update sha env change st = (st', r)"
  shows "(current_file (st_disk st') = current_file (st_disk st) \<or>
      (\<exists>q q0 x. store_load sha env st = Inr q \<and> change q = Inr (q0, x) \<and>
         Validate sha (Seal sha q0) = None \<and> current_file (st_disk st') = Some (Doc (Seal sha q0)))) \<and>
    (\<forall>b. current_file (st_disk st) = Some b \<and> current_file (st_disk st') \<noteq> Some b \<longrightarrow>
      backup_file (st_disk st') = Some b) \<and>
    (\<forall>q' x. r = Inr (q', x) \<longrightarrow> current_file (st_disk st') = Some (Doc q') \<and> Validate sha q' = None)"
proof (intro conjI allI impI)
  show "current_file (st_disk st') = current_file (st_disk st) \<or>
      (\<exists>q q0 x. store_load sha env st = Inr q \<and> change q = Inr (q0, x) \<and>
         Validate sha (Seal sha q0) = None \<and> current_file (st_disk st') = Some (Doc (Seal sha q0)))"
    by (rule store_update_current [OF assms])
next
  fix b assume "current_file (st_disk st) = Some b \<and> current_file (st_disk st') \<noteq> Some b"
  then show "backup_file (st_disk st') = Some b" using store_update_backup [OF assms] by blast
next
  fix q' x assume "r = Inr (q', x)"
  with assms store_update_ok [of sha env change st st' q' x]
  show "current_file (st_disk st') = Some (Doc q')" "Validate sha q' = None" by auto
qed

lemma demo_claim_update:
  "store_update demo_sha quiet_store_env (enqueue_change demo_sha [''r1'', ''r2'']) demo_store =
     (\<lparr>st_profile = demo_profile, st_disk = \<lparr>current_file = Some (Doc demo_queue), backup_file = None\<rparr>\<rparr>,
      Inr (demo_queue, ()))"
  using demo_enqueue by (simp add: Enqueue_def MaximumQueueItems_def)

theorem update_crash_safe_witness: "Validate demo_sha demo_queue = None"
  using update_crash_safe [OF demo_claim_update] by simp

text \<open>
  Two valid queues with the same fingerprint are the same queue, unless
  the digest collides on exactly their two encodings: a persisted queue cannot be edited unnoticed.\<close>

theorem queue_tamper_evident:
  assumes "Validate sha a = None" "Validate sha b = None" "rq_fingerprint a = rq_fingerprint b"
    and "no_collision sha (encode (json_of_queue (a\<lparr>rq_fingerprint := ''''\<rparr>)))
           (encode (json_of_queue (b\<lparr>rq_fingerprint := ''''\<rparr>)))"
  shows "a = b"
  using assms by (rule Validate_fingerprint_inject)

theorem queue_tamper_evident_witness:
  "demo_queue = Seal demo_sha demo_queue"
  by (rule queue_tamper_evident [OF demo_queue_valid])
    (simp_all add: demo_queue_sealed demo_queue_valid no_collision_def)

text \<open>Sealing makes exactly the structurally sound queues valid: \<open>Validate\<close> accepts
  \<open>Seal q\<close> if and only if the profile, the counters, the membership and every item are sound.\<close>

theorem seal_validates:
  assumes "digest_ok sha"
  shows "Validate sha (Seal sha q) = None \<longleftrightarrow>
    ValidateProfile sha (rq_profile q) = None \<and> 0 \<le> rq_generation q \<and>
    int (length (rq_items q)) \<le> MaximumQueueItems \<and> validGenerationKind (rq_generation_kind q) \<and>
    counters_nonneg (rq_counters q) \<and> distinct (map it_resource_id (rq_items q)) \<and>
    (\<forall>it \<in> set (rq_items q). item_ok sha (rq_profile q) it)"
  using Validate_Seal_iff [OF assms, of q] by (simp add: queue_ok_def)

theorem seal_validates_witness: "distinct (map it_resource_id (rq_items demo_queue))"
  using seal_validates [of demo_sha demo_queue] demo_queue_valid demo_queue_sealed
  by (simp add: digest_ok_def demo_sha_def)

section \<open>The contract of a claim\<close>

lemma find_sorted_least:
  "List.find P xs = Some x \<Longrightarrow> sorted (map k xs) \<Longrightarrow> y \<in> set xs \<Longrightarrow> P y \<Longrightarrow> k x \<le> k y"
  by (induction xs) (auto split: if_splits)

lemma update_first_others:
  assumes "List.find P xs = Some x" "y \<in> set (update_first P (\<lambda>_. z) xs)" "y \<noteq> z"
  shows "y \<in> set xs"
  using assms by (induction xs) (auto split: if_splits)

text \<open>A successful update that keeps the profile can be read back.\<close>

lemma store_update_readback:
  assumes "store_update sha env change st = (st', Inr (q', x))" "\<not> se_read_fails env'"
    and "\<And>q q0 x. change q = Inr (q0, x) \<Longrightarrow> rq_profile q0 = rq_profile q"
  shows "store_load sha env' st' = Inr q'"
proof -
  from store_update_ok [OF assms(1)] obtain q q0 where u: "store_load sha env st = Inr q"
    "change q = Inr (q0, x)" "q' = Seal sha q0" "Validate sha q' = None"
    "current_file (st_disk st') = Some (Doc q')" "queue_bytes (Doc q') \<le> MaximumQueueBytes"
    "st_profile st' = st_profile st" by blast
  have "bp_fingerprint (rq_profile q') = bp_fingerprint (st_profile st')"
    using store_load_ok [OF u(1)] assms(3) [OF u(2)] u by auto
  with u assms(2) show ?thesis by (simp add: store_load_def)
qed

lemma claim_profile: "claim_change q = Inr (q', x) \<Longrightarrow> rq_profile q' = rq_profile q"
  by (erule claim_cases) simp_all



lemma first_claim_ok: "Validate demo_sha (Seal demo_sha first_claim) = None"
proof -
  have "queue_ok demo_sha first_claim"
    using demo_profile_valid
    by (simp add: queue_ok_def first_claim_def item_ok_def counters_nonneg_def
        validGenerationKind_def check_state_reason_def go_defs demo_texts)
  then show ?thesis using Validate_Seal_iff [of demo_sha] by (simp add: digest_ok_def demo_sha_def)
qed

lemma first_claim_bytes: "queue_bytes (Doc (Seal demo_sha first_claim)) \<le> MaximumQueueBytes"
  by code_simp

definition queued_store :: rq_store where
  "queued_store = \<lparr>st_profile = demo_profile,
     st_disk = \<lparr>current_file = Some (Doc demo_queue), backup_file = None\<rparr>\<rparr>"

lemma demo_ClaimNext:
  "ClaimNext demo_sha quiet_store_env queued_store =
     (queued_store\<lparr>st_disk := \<lparr>current_file = Some (Doc (Seal demo_sha first_claim)),
        backup_file = Some (Doc demo_queue)\<rparr>\<rparr>,
      Inr (Seal demo_sha first_claim,
        Some ((new_item demo_sha demo_profile ''r1'')\<lparr>it_state := Processing, it_attempts := 1,
             it_reserved_requests := 2\<rparr>)))"
  using quiet_update [where change = claim_change, OF demo_load demo_claim_one first_claim_ok first_claim_bytes]
  by (simp add: ClaimNext_def queued_store_def)


end
