(* ===== verification/Resource_Work.thy ===== *)
theory Resource_Work
  imports Resource_Properties
begin

text \<open>
  The liveness side of the resource queue and the contracts of its remaining transitions: a
  drain makes at most as many claims as the attempt budgets allow, consumed budget is never
  refunded, recovery leaves nothing in flight, membership synchronisation gives exactly the
  desired set, and the generation openers move exactly the eligible items.
\<close>

section \<open>The work that is left\<close>

definition item_work :: "int \<Rightarrow> item \<Rightarrow> int" where
  "item_work m it = (if is_active it then m - it_attempts it + 1 else 0)"

definition drain_work :: "queue \<Rightarrow> int" where
  "drain_work q = sum_list (map (item_work (bp_max_attempts_per_resource (rq_profile q))) (rq_items q))"

definition store_work :: "rq_store \<Rightarrow> int" where
  "store_work st = (case current_file (st_disk st) of Some (Doc q) \<Rightarrow> drain_work q | _ \<Rightarrow> 0)"

definition work_le :: "(string \<Rightarrow> string) \<Rightarrow> 'x change \<Rightarrow> bool" where
  "work_le sha change \<longleftrightarrow>
     (\<forall>q q' x. queue_inv sha q \<longrightarrow> change q = Inr (q', x) \<longrightarrow> drain_work q' \<le> drain_work q)"

lemma work_leI:
  assumes "\<And>q q' x. queue_inv sha q \<Longrightarrow> change q = Inr (q', x) \<Longrightarrow> drain_work q' \<le> drain_work q"
  shows "work_le sha change"
  using assms by (auto simp: work_le_def)

lemma drain_work_Seal [simp]: "drain_work (Seal sha q) = drain_work q"
  by (simp add: drain_work_def)

lemma drain_work_Empty [simp]: "drain_work (Empty sha p) = 0"
  by (simp add: drain_work_def)

lemma item_work_nonneg:
  assumes "queue_inv sha q" "it \<in> set (rq_items q)"
  shows "0 \<le> item_work (bp_max_attempts_per_resource (rq_profile q)) it"
  using assms by (fastforce simp: item_work_def queue_inv_def budget_bounds_def)

lemma drain_work_nonneg: "queue_inv sha q \<Longrightarrow> 0 \<le> drain_work q"
  unfolding drain_work_def by (rule sum_list_nonneg_int) (rule item_work_nonneg)

lemma sum_list_le_length:
  fixes f :: "'a \<Rightarrow> int"
  assumes "\<And>x. x \<in> set xs \<Longrightarrow> f x \<le> c"
  shows "sum_list (map f xs) \<le> int (length xs) * c"
  using assms by (induction xs) (auto simp: algebra_simps intro: add_mono)

lemma drain_work_bound:
  assumes "queue_inv sha q"
  shows "drain_work q \<le> int (length (rq_items q)) * (bp_max_attempts_per_resource (rq_profile q) + 1)"
proof -
  let ?m = "bp_max_attempts_per_resource (rq_profile q)"
  have "\<forall>it \<in> set (rq_items q). item_work ?m it \<le> ?m + 1"
    using assms queue_ok_positive(7) [of sha q]
    by (auto simp: item_work_def queue_inv_def queue_ok_def item_ok_def)
  then show ?thesis unfolding drain_work_def by (intro sum_list_le_length) auto
qed

lemma sum_update_first_le:
  fixes g :: "'a \<Rightarrow> int"
  assumes "\<And>x. x \<in> set xs \<Longrightarrow> P x \<Longrightarrow> g (f x) \<le> g x"
  shows "sum_list (map g (update_first P f xs)) \<le> sum_list (map g xs)"
  using assms by (induction xs) auto

lemma sum_map_le:
  fixes g :: "'a \<Rightarrow> int"
  assumes "\<And>x. x \<in> set xs \<Longrightarrow> g (f x) \<le> g x"
  shows "sum_list (map (g \<circ> f) xs) \<le> sum_list (map g xs)"
  using assms by (induction xs) (auto intro: add_mono)

lemma charge_wall_work: "work_le sha (charge_wall_change floor)"
  by (rule work_leI) (auto simp: charge_wall_change_def drain_work_def split: if_splits)

lemma consume_work: "work_le sha (consumeUsage rid u)"
proof (rule work_leI)
  fix q q' :: queue and x :: bool
  assume "consumeUsage rid u q = Inr (q', x)"
  then show "drain_work q' \<le> drain_work q"
    by (cases rule: consumeUsage_cases)
      (auto simp: drain_work_def item_work_def is_active_def intro: sum_update_first_le)
qed

lemma consume_and_close_work: "work_le sha (consume_and_close_change rid u)"
proof (rule work_leI)
  fix q q' :: queue and x :: bool
  assume inv: "queue_inv sha q" and "consume_and_close_change rid u q = Inr (q', x)"
  then obtain q1 where c: "consumeUsage rid u q = Inr (q1, x)"
    and q': "q' = q1\<lparr>rq_items := update_first (processing_item rid) (\<lambda>it. it\<lparr>it_state := Queued\<rparr>)
               (rq_items q1), rq_generation_closed := True\<rparr>"
    by (auto simp: consume_and_close_change_def rbind_Inr_iff split: if_splits option.splits)
  have "drain_work q' \<le> drain_work q1"
    unfolding q' drain_work_def
    by (auto simp: item_work_def is_active_def processing_item_def intro: sum_update_first_le)
  also have "\<dots> \<le> drain_work q" using consume_work [of sha rid u] inv c by (auto simp: work_le_def)
  finally show "drain_work q' \<le> drain_work q" .
qed

lemma recover_work: "work_le sha recover_change"
  by (rule work_leI)
    (auto simp: recover_change_def drain_work_def item_work_def is_active_def recover_item_def
      intro!: sum_map_le)

lemma requeue_work: "work_le sha (requeue_change rid)"
  by (rule work_leI)
    (auto simp: requeue_change_def drain_work_def item_work_def is_active_def processing_item_def
      split: option.splits intro!: sum_update_first_le)

lemma finish_work:
  assumes "is_ok (CanonicalState st reason)"
  shows "work_le sha (finish_change rid st reason)"
proof (rule work_leI)
  fix q q' :: queue and x :: unit
  assume inv: "queue_inv sha q" and ch: "finish_change rid st reason q = Inr (q', x)"
  let ?m = "bp_max_attempts_per_resource (rq_profile q)"
  from assms have "st \<noteq> Queued" "st \<noteq> Processing" by (auto simp: CanonicalState_ok_iff)
  then have "item_work ?m (it\<lparr>it_state := st, it_reason := reason\<rparr>) = 0" for it
    by (simp add: item_work_def is_active_def)
  with ch item_work_nonneg [OF inv] show "drain_work q' \<le> drain_work q"
    by (auto simp: finish_change_def drain_work_def split: option.splits if_splits
        intro!: sum_update_first_le)
qed

lemma terminalize_loop_work:
  assumes "\<forall>it \<in> set its. 0 \<le> item_work m it"
  shows "terminalize_loop q expected its = Inr (done', rest) \<Longrightarrow>
    sum_list (map (item_work m) done') \<le> sum_list (map (item_work m) its)"
  using assms
proof (induction its arbitrary: expected done' rest)
  case Nil
  then show ?case by simp
next
  case (Cons it its)
  have "item_work m (block_item r it) = 0" for r by (simp add: item_work_def is_active_def)
  with Cons show ?case by (fastforce simp: rbind_Inr_iff split: if_splits)
qed

lemma terminalize_work: "work_le sha (terminalize_change rids)"
proof (rule work_leI)
  fix q q' :: queue and x :: unit
  assume inv: "queue_inv sha q" and "terminalize_change rids q = Inr (q', x)"
  then obtain its rest where "terminalize_loop q rids (rq_items q) = Inr (its, rest)"
    and "q' = q\<lparr>rq_items := its\<rparr>"
    by (auto simp: terminalize_change_def rbind_Inr_iff split: if_splits)
  with terminalize_loop_work item_work_nonneg [OF inv] show "drain_work q' \<le> drain_work q"
    by (auto simp: drain_work_def)
qed

text \<open>A claim that returns an item uses up work.\<close>

lemma claim_work:
  assumes inv: "queue_inv sha q" and ch: "claim_change q = Inr (q', x)"
  shows "drain_work q' \<le> drain_work q - (case x of None \<Rightarrow> 0 | Some _ \<Rightarrow> 1)"
proof -
  let ?m = "bp_max_attempts_per_resource (rq_profile q)"
  let ?its = "sort_key it_resource_id (rq_items q)"
  have upd: "sum_list (map (item_work ?m) (update_first is_queued (\<lambda>_. j) ?its))
      = drain_work q - item_work ?m it + item_work ?m j"
    if "List.find is_queued ?its = Some it" for it j
    using sum_list_update_first [OF that, of "item_work ?m" "\<lambda>_. j"] by (simp add: drain_work_def)
  have pos: "1 \<le> item_work ?m it" if "it \<in> set (rq_items q)" "is_queued it" for it
    using inv that by (auto simp: item_work_def is_active_def queue_inv_def budget_bounds_def)
  from ch show ?thesis
  proof (cases rule: claim_cases)
    case none
    then show ?thesis by (simp add: drain_work_def)
  next
    case (attempts it)
    with upd [OF attempts(1)] pos [of it] find_sorted_in [OF attempts(1)] show ?thesis
      by (simp add: drain_work_def item_work_def [of _ "block_item _ _"] is_active_def)
  next
    case (deferred it)
    with upd [OF deferred(1)] pos [of it] find_sorted_in [OF deferred(1)] show ?thesis
      by (simp add: drain_work_def item_work_def [of _ "block_item _ _"] is_active_def)
  next
    case (claimed it)
    have "it \<in> set (rq_items q)" "is_queued it" using find_sorted_in [OF claimed(1)] by simp_all
    with claim_attempts_exact [OF inv _ claimed(2)]
    have "item_work ?m (claim_of q it) = item_work ?m it - 1"
      by (simp add: item_work_def is_active_def)
    with upd [OF claimed(1)] claimed show ?thesis by (simp add: drain_work_def)
  qed
qed


section \<open>A drain makes finitely many claims\<close>

text \<open>
  The operations of a drain: everything but the ones that add work (enqueueing, membership
  synchronisation, rebuilding and opening a generation) or delete the queue.
\<close>

fun is_drain_op :: "rq_op \<Rightarrow> bool" where
  "is_drain_op (OpChargeWall _) = True"
| "is_drain_op (OpConsume _ _) = True"
| "is_drain_op (OpConsumeAndClose _ _) = True"
| "is_drain_op OpRecover = True"
| "is_drain_op OpClaimNext = True"
| "is_drain_op (OpTerminalize _) = True"
| "is_drain_op (OpRequeue _) = True"
| "is_drain_op (OpFinish _ _ _) = True"
| "is_drain_op _ = False"

definition claims_item :: "(string \<Rightarrow> string) \<Rightarrow> store_env \<Rightarrow> rq_op \<Rightarrow> rq_store \<Rightarrow> int" where
  "claims_item sha env op st =
     (case op of
        OpClaimNext \<Rightarrow> (case snd (ClaimNext sha env st) of Inr (_, Some _) \<Rightarrow> 1 | _ \<Rightarrow> 0)
      | _ \<Rightarrow> 0)"

fun count_claims :: "(string \<Rightarrow> string) \<Rightarrow> (store_env \<times> rq_op) list \<Rightarrow> rq_store \<Rightarrow> int" where
  "count_claims sha [] st = 0"
| "count_claims sha ((env, op) # ops) st =
     claims_item sha env op st + count_claims sha ops (run_op sha env op st)"

lemma store_update_work:
  assumes st: "store_inv sha st"
    and k: "\<And>q q' x. queue_inv sha q \<Longrightarrow> change q = Inr (q', x) \<Longrightarrow> drain_work q' \<le> drain_work q - w x"
    and w: "\<And>x. 0 \<le> w x"
  shows "store_work (fst (store_update sha env change st)) \<le>
    store_work st - (case snd (store_update sha env change st) of Inr (_, x) \<Rightarrow> w x | Inl _ \<Rightarrow> 0)"
proof -
  obtain st' r where u: "store_update sha env change st = (st', r)"
    by (cases "store_update sha env change st")
  have load: "drain_work q = store_work st" if "store_load sha env st = Inr q" for q
    using store_load_ok [OF that] by (auto simp: store_work_def)
  have moved: "drain_work q0 \<le> store_work st - w x"
    if "store_load sha env st = Inr q" "change q = Inr (q0, x)" for q q0 x
    using k [OF store_load_inv [OF st that(1)] that(2)] load [OF that(1)] by simp
  show ?thesis
  proof (cases r)
    case (Inr a)
    then obtain q' x where r: "r = Inr (q', x)" by (cases a) simp
    from store_update_ok [OF u [unfolded r]] obtain q q0 where
      "store_load sha env st = Inr q" "change q = Inr (q0, x)" "q' = Seal sha q0"
      "current_file (st_disk st') = Some (Doc q')" by blast
    with moved [of q q0 x] u r show ?thesis by (simp add: store_work_def)
  next
    case (Inl e)
    from store_update_current [OF u] have "store_work st' \<le> store_work st"
    proof
      assume "current_file (st_disk st') = current_file (st_disk st)"
      then show ?thesis by (simp add: store_work_def)
    next
      assume "\<exists>q q0 x. store_load sha env st = Inr q \<and> change q = Inr (q0, x) \<and>
         Validate sha (Seal sha q0) = None \<and> current_file (st_disk st') = Some (Doc (Seal sha q0))"
      then obtain q q0 x where q: "store_load sha env st = Inr q" "change q = Inr (q0, x)"
        and c: "current_file (st_disk st') = Some (Doc (Seal sha q0))" by blast
      from moved [OF q] w [of x] c show ?thesis by (simp add: store_work_def)
    qed
    with u Inl show ?thesis by simp
  qed
qed

lemma plain_update_work:
  assumes "store_inv sha st" "work_le sha change"
  shows "store_work (fst (store_update sha env change st)) \<le> store_work st"
  using store_update_work [OF assms(1), of change "\<lambda>_. 0" env] assms(2)
  by (auto simp: work_le_def split: sum.splits)

lemma run_op_work:
  assumes st: "store_inv sha st" and d: "is_drain_op op"
  shows "store_work (run_op sha env op st) \<le> store_work st - claims_item sha env op st"
proof (cases op)
  case (OpChargeWall floor)
  with plain_update_work [OF st charge_wall_work, of env floor] show ?thesis
    by (auto simp: ChargeRunWallFloor_def claims_item_def split: prod.splits sum.splits)
next
  case (OpTerminalize rids)
  with plain_update_work [OF st terminalize_work, of env rids] show ?thesis
    by (auto simp: TerminalizeBudgetRemainder_def claims_item_def split: prod.splits sum.splits)
next
  case (OpFinish rid s reason)
  show ?thesis
  proof (cases "CanonicalState s reason")
    case (Inr c)
    then have "is_ok (CanonicalState s reason)" by simp
    from plain_update_work [OF st finish_work [OF this], of env rid] Inr OpFinish show ?thesis
      by (simp add: Finish_def claims_item_def)
  qed (use OpFinish in \<open>simp add: Finish_def claims_item_def\<close>)
next
  case OpClaimNext
  let ?w = "\<lambda>x. case x of None \<Rightarrow> 0 | Some _ \<Rightarrow> (1 :: int)"
  have "store_work (fst (ClaimNext sha env st)) \<le>
      store_work st - (case snd (ClaimNext sha env st) of Inr (_, x) \<Rightarrow> ?w x | Inl _ \<Rightarrow> 0)"
    unfolding ClaimNext_def
    by (rule store_update_work [OF st claim_work]) (simp_all split: option.splits)
  with OpClaimNext show ?thesis
    by (auto simp: claims_item_def split: sum.splits option.splits)
next
  case (OpConsume rid u)
  with plain_update_work [OF st consume_work, of env rid u] show ?thesis
    by (simp add: Consume_def claims_item_def)
next
  case (OpConsumeAndClose rid u)
  with plain_update_work [OF st consume_and_close_work, of env rid u] show ?thesis
    by (simp add: ConsumeAndCloseGeneration_def claims_item_def)
next
  case OpRecover
  with plain_update_work [OF st recover_work, of env] show ?thesis
    by (simp add: Recover_def claims_item_def)
next
  case (OpRequeue rid)
  with plain_update_work [OF st requeue_work, of env rid] show ?thesis
    by (simp add: Requeue_def claims_item_def)
qed (use d in simp_all)

lemma count_claims_work:
  assumes "store_inv sha st" "\<forall>(env, op) \<in> set ops. typed_op op \<and> is_drain_op op"
  shows "count_claims sha ops st \<le> store_work st"
  using assms
proof (induction ops arbitrary: st)
  case Nil
  then show ?case
    using drain_work_nonneg by (auto simp: store_work_def store_inv_def split: option.splits blob.splits)
next
  case (Cons eo ops)
  obtain env op where eo: "eo = (env, op)" by (cases eo)
  with Cons.prems have st': "store_inv sha (run_op sha env op st)" by (auto intro: run_op_inv)
  from Cons.IH [OF st'] Cons.prems eo run_op_work [OF Cons.prems(1), of op env]
  show ?case by auto
qed

text \<open>C5: However the operations of a drain interleave, fail, are retried or
  recovered after a crash, the number of items that \<open>ClaimNext\<close> hands out is at most the number of
  items times one more than the attempt cap: a drain cannot run forever.\<close>

theorem drain_claims_bounded:
  assumes "rq_reachable sha st" and "current_file (st_disk st) = Some (Doc q)"
    and "\<forall>(env, op) \<in> set ops. typed_op op \<and> is_drain_op op"
  shows "count_claims sha ops st \<le>
    int (length (rq_items q)) * (bp_max_attempts_per_resource (rq_profile q) + 1)"
proof -
  have inv: "store_inv sha st" by (rule rq_reachable_inv [OF assms(1)])
  with assms(2) have "queue_inv sha q" by (simp add: store_inv_def)
  with count_claims_work [OF inv assms(3)] drain_work_bound [of sha q] assms(2)
  show ?thesis by (simp add: store_work_def)
qed

theorem drain_claims_bounded_witness:
  "count_claims demo_sha [(quiet_store_env, OpClaimNext), (quiet_store_env, OpRecover)] queued_store \<le> 6"
  using drain_claims_bounded [OF demo_reachable,
      of demo_queue "[(quiet_store_env, OpClaimNext), (quiet_store_env, OpRecover)]"]
  by (simp add: queued_store_def demo_queue_items)


section \<open>Contracts of the remaining transitions\<close>

lemma update_result:
  assumes "store_update sha env change st = (st', Inr (q', x))" and "store_load sha env st = Inr q"
  obtains q0 where "change q = Inr (q0, x)" "q' = Seal sha q0" "queue_ok sha q0"
  using store_update_ok [OF assms(1)] assms(2) that by (auto simp: Validate_None_iff)

lemma i64_add_checked:
  assumes "0 \<le> a" "in64 a" "0 \<le> b" "in64 b" "0 \<le> i64_add a b"
  shows "i64_add a b = a + b"
  using i64_add_nonneg_cases [OF assms(1-4)] assms(5) by auto

lemma clamp_mono:
  assumes "0 \<le> a" "in64 a" "0 \<le> b" "in64 b" "a \<le> cap" "0 \<le> minimumInt64 cap (i64_add a b)"
  shows "a \<le> minimumInt64 cap (i64_add a b)"
  using i64_add_nonneg_cases [OF assms(1-4)] assms by (auto simp: minimumInt64_def split: if_splits)

lemma typed_usage_simps:
  assumes "usage_valid u" "typed_usage u"
  shows "0 \<le> us_requests u" "0 \<le> us_downloaded_bytes u" "0 \<le> us_decoded_bytes u"
    "0 \<le> us_extracted_bytes u" "0 \<le> us_runtime_storage_bytes u" "0 \<le> us_wall_seconds u"
    "in64 (us_requests u)" "in64 (us_downloaded_bytes u)" "in64 (us_decoded_bytes u)"
    "in64 (us_extracted_bytes u)" "in64 (us_runtime_storage_bytes u)" "in64 (us_wall_seconds u)"
  using assms by (auto simp: usage_valid_def typed_usage_def)

lemma consume_branches [consumes 2, case_names over clamped exact]:
  assumes ch: "consumeUsage rid u q = Inr (q', x)"
    and f: "List.find (processing_item rid) (rq_items q) = Some it"
  obtains "x" "rq_counters q' = (release_reservation (rq_counters q) it)
       \<lparr>ct_requests := bp_max_requests (rq_profile q)\<rparr>"
  | "x" "rq_counters q' = (release_reservation (rq_counters q) it)\<lparr>
       ct_requests := minimumInt64 (bp_max_requests (rq_profile q))
         (i64_add (ct_requests (rq_counters q)) (us_requests u)),
       ct_downloaded_bytes := minimumInt64 (bp_max_downloaded_bytes (rq_profile q))
         (i64_add (ct_downloaded_bytes (rq_counters q)) (us_downloaded_bytes u)),
       ct_decoded_bytes := minimumInt64 (bp_max_decoded_bytes (rq_profile q))
         (i64_add (ct_decoded_bytes (rq_counters q)) (us_decoded_bytes u)),
       ct_extracted_bytes := minimumInt64 (bp_max_extracted_bytes (rq_profile q))
         (i64_add (ct_extracted_bytes (rq_counters q)) (us_extracted_bytes u)),
       ct_runtime_storage_bytes := minimumInt64 (bp_max_runtime_storage_bytes (rq_profile q))
         (i64_add (ct_runtime_storage_bytes (rq_counters q)) (us_runtime_storage_bytes u)),
       ct_wall_seconds := minimumInt64 (bp_max_run_wall_seconds (rq_profile q))
         (i64_add (ct_wall_seconds (rq_counters q)) (us_wall_seconds u))\<rparr>"
  | "\<not> x" "rq_counters q' = (release_reservation (rq_counters q) it)\<lparr>
       ct_requests := i64_add (ct_requests (rq_counters q)) (us_requests u),
       ct_downloaded_bytes := i64_add (ct_downloaded_bytes (rq_counters q)) (us_downloaded_bytes u),
       ct_decoded_bytes := i64_add (ct_decoded_bytes (rq_counters q)) (us_decoded_bytes u),
       ct_extracted_bytes := i64_add (ct_extracted_bytes (rq_counters q)) (us_extracted_bytes u),
       ct_runtime_storage_bytes := i64_add (ct_runtime_storage_bytes (rq_counters q)) (us_runtime_storage_bytes u),
       ct_wall_seconds := i64_add (ct_wall_seconds (rq_counters q)) (us_wall_seconds u)\<rparr>"
  using ch f that by (auto simp: consumeUsage_def Let_def split: if_splits)

definition counters_grew :: "counters \<Rightarrow> usage \<Rightarrow> counters \<Rightarrow> bool \<Rightarrow> bool" where
  "counters_grew c u c' exhausted \<longleftrightarrow>
     ct_downloaded_bytes c \<le> ct_downloaded_bytes c' \<and> ct_decoded_bytes c \<le> ct_decoded_bytes c' \<and>
     ct_extracted_bytes c \<le> ct_extracted_bytes c' \<and>
     ct_runtime_storage_bytes c \<le> ct_runtime_storage_bytes c' \<and> ct_wall_seconds c \<le> ct_wall_seconds c' \<and>
     (\<not> exhausted \<longrightarrow>
        ct_requests c' = ct_requests c + us_requests u \<and>
        ct_downloaded_bytes c' = ct_downloaded_bytes c + us_downloaded_bytes u \<and>
        ct_decoded_bytes c' = ct_decoded_bytes c + us_decoded_bytes u \<and>
        ct_extracted_bytes c' = ct_extracted_bytes c + us_extracted_bytes u \<and>
        ct_runtime_storage_bytes c' = ct_runtime_storage_bytes c + us_runtime_storage_bytes u \<and>
        ct_wall_seconds c' = ct_wall_seconds c + us_wall_seconds u)"

lemma consume_counters:
  assumes inv: "queue_inv sha q" and ch: "consumeUsage rid u q = Inr (q', x)"
    and ok: "queue_ok sha q'" and u: "usage_valid u" "typed_usage u"
    and f: "List.find (processing_item rid) (rq_items q) = Some it"
  shows "counters_grew (rq_counters q) u (rq_counters q') x \<and>
    ct_reserved_requests (rq_counters q') = ct_reserved_requests (release_reservation (rq_counters q) it)"
proof -
  note c = inv_counters [OF inv] and us = typed_usage_simps [OF u]
  have nn: "counters_nonneg (rq_counters q')" using ok by (simp add: queue_ok_def)
  have t: "in64 (ct_requests (rq_counters q))" "in64 (ct_downloaded_bytes (rq_counters q))"
    "in64 (ct_decoded_bytes (rq_counters q))" "in64 (ct_extracted_bytes (rq_counters q))"
    "in64 (ct_runtime_storage_bytes (rq_counters q))" "in64 (ct_wall_seconds (rq_counters q))"
    and caps: "caps_ok (rq_profile q) (rq_counters q)"
    using inv by (auto simp: queue_inv_def budget_bounds_def typed_counters_def)
  from ch f show ?thesis
  proof (cases rule: consume_branches)
    case over
    then show ?thesis by (simp add: counters_grew_def frame_simps)
  next
    case clamped
    have m: "ct_downloaded_bytes (rq_counters q) \<le> bp_max_downloaded_bytes (rq_profile q)"
      "ct_decoded_bytes (rq_counters q) \<le> bp_max_decoded_bytes (rq_profile q)"
      "ct_extracted_bytes (rq_counters q) \<le> bp_max_extracted_bytes (rq_profile q)"
      "ct_runtime_storage_bytes (rq_counters q) \<le> bp_max_runtime_storage_bytes (rq_profile q)"
      "ct_wall_seconds (rq_counters q) \<le> bp_max_run_wall_seconds (rq_profile q)"
      using caps by (simp_all add: caps_ok_def)
    show ?thesis
      using nn clamped clamp_mono [OF c(7) t(2) us(2,8) m(1)] clamp_mono [OF c(8) t(3) us(3,9) m(2)]
        clamp_mono [OF c(9) t(4) us(4,10) m(3)] clamp_mono [OF c(10) t(5) us(5,11) m(4)]
        clamp_mono [OF c(11) t(6) us(6,12) m(5)]
      by (simp add: counters_grew_def counters_nonneg_def)
  next
    case exact
    show ?thesis
      using nn exact i64_add_checked [OF c(1) t(1) us(1,7)] i64_add_checked [OF c(7) t(2) us(2,8)]
        i64_add_checked [OF c(8) t(3) us(3,9)] i64_add_checked [OF c(9) t(4) us(4,10)]
        i64_add_checked [OF c(10) t(5) us(5,11)] i64_add_checked [OF c(11) t(6) us(6,12)] us
      by (simp add: counters_grew_def counters_nonneg_def)
  qed
qed

text \<open>
  Consumed budget is never refunded and never miscounted: a successful
  \<open>Consume\<close> leaves every byte, storage and wall counter at least where it was; when it does not
  report exhaustion, each counter has grown by exactly the reported usage and the reservation has
  been released in full; a sum that overflows the 64-bit counter never reaches the disk.\<close>

theorem consume_exact:
  assumes reach: "rq_reachable sha st" and load: "store_load sha env st = Inr q"
    and u: "typed_usage u" and c: "Consume sha env rid u st = (st', Inr (q', exhausted))"
  shows "counters_grew (rq_counters q) u (rq_counters q') exhausted \<and>
    (\<exists>it \<in> set (rq_items q). it_resource_id it = rid \<and> it_state it = Processing \<and>
       ct_reserved_requests (rq_counters q') =
         ct_reserved_requests (rq_counters q) - it_reserved_requests it)"
proof -
  have inv: "queue_inv sha q" using store_load_inv [OF rq_reachable_inv [OF reach] load] .
  from c have valid: "usage_valid u" and up: "store_update sha env (consumeUsage rid u) st = (st', Inr (q', exhausted))"
    by (auto simp: Consume_def refused_def split: if_splits)
  from update_result [OF up load] obtain q0 where ch: "consumeUsage rid u q = Inr (q0, exhausted)"
    and q': "q' = Seal sha q0" and ok0: "queue_ok sha q0" .
  from ch obtain it where f: "List.find (processing_item rid) (rq_items q) = Some it"
    by (auto simp: consumeUsage_def split: option.splits)
  have it: "it \<in> set (rq_items q)" "it_resource_id it = rid" "it_state it = Processing"
    using processing_item_in [OF f] by simp_all
  have rel: "ct_reserved_requests (release_reservation (rq_counters q) it)
      = ct_reserved_requests (rq_counters q) - it_reserved_requests it"
    by (rule release_reservation_exact [OF inv it(1)])
  note cts = consume_counters [OF inv ch ok0 valid u f]
  from cts rel it q' show ?thesis by auto
qed

lemma first_claim_step:
  "rq_reachable demo_sha (queued_store\<lparr>st_disk := \<lparr>current_file = Some (Doc (Seal demo_sha first_claim)),
        backup_file = Some (Doc demo_queue)\<rparr>\<rparr>)"
proof -
  have "rq_step demo_sha queued_store (run_op demo_sha quiet_store_env OpClaimNext queued_store)"
    by (rule rq_step.intros) simp
  with demo_reachable [folded queued_store_def] demo_ClaimNext show ?thesis
    using rq_reachable.step by fastforce
qed

lemma release_all_frame:
  "foldl release_reservation c its =
    c\<lparr>ct_reserved_requests := ct_reserved_requests (foldl release_reservation c its)\<rparr>"
proof (induction its arbitrary: c)
  case Nil
  then show ?case by simp
next
  case (Cons it its)
  have "(release_reservation c it)\<lparr>ct_reserved_requests := r\<rparr> = c\<lparr>ct_reserved_requests := r\<rparr>" for r
    by (simp add: release_reservation_def)
  from Cons.IH [of "release_reservation c it", unfolded this]
  show ?case unfolding foldl_Cons .
qed

text \<open>
  Recovery after a crash returns every item in flight to the queue, keeps its
  identity and its attempts, releases exactly the outstanding reservations, and changes no other
  counter.\<close>

theorem recover_contract:
  assumes "rq_reachable sha st" and "store_load sha env st = Inr q"
    and "Recover sha env st = (st', Inr (q', ()))"
  shows "rq_counters q' = (rq_counters q)\<lparr>ct_reserved_requests := 0\<rparr> \<and>
    rq_items q' = sort_key it_resource_id (map recover_item (rq_items q)) \<and>
    (\<forall>it \<in> set (rq_items q'). it_state it \<noteq> Processing \<and> it_reserved_requests it = 0)"
proof -
  have inv: "queue_inv sha q" using store_load_inv [OF rq_reachable_inv [OF assms(1)] assms(2)] .
  from update_result [OF assms(3) [unfolded Recover_def] assms(2)] obtain q0
    where ch: "recover_change q = Inr (q0, ())" and q': "q' = Seal sha q0" and ok: "queue_ok sha q0" .
  have c: "rq_counters q0 = foldl release_reservation (rq_counters q)
      (filter (\<lambda>it. it_state it = Processing) (rq_items q))"
    using ch by (auto simp: recover_change_def)
  have "ct_reserved_requests (rq_counters q0) = 0" using recover_result [OF inv ch] by simp
  then have "rq_counters q0 = (rq_counters q)\<lparr>ct_reserved_requests := 0\<rparr>"
    unfolding c by (subst release_all_frame) simp
  moreover have "rq_items q0 = map recover_item (rq_items q)"
    using ch by (auto simp: recover_change_def)
  moreover from this have "\<forall>it \<in> set (rq_items q0). it_state it \<noteq> Processing" by auto
  ultimately show ?thesis
    using q' item_idle_reserved [OF ok] by auto
qed


definition claimed_store :: rq_store where
  "claimed_store = queued_store\<lparr>st_disk := \<lparr>current_file = Some (Doc (Seal demo_sha first_claim)),
        backup_file = Some (Doc demo_queue)\<rparr>\<rparr>"

lemma claimed_load: "store_load demo_sha quiet_store_env claimed_store = Inr (Seal demo_sha first_claim)"
  using first_claim_ok first_claim_bytes
  by (simp add: store_load_def claimed_store_def queued_store_def quiet_store_env_def first_claim_def)

definition consumed_queue :: queue where
  "consumed_queue = first_claim
     \<lparr>rq_items := [(new_item demo_sha demo_profile ''r1'')\<lparr>it_state := Processing, it_attempts := 1\<rparr>,
                   new_item demo_sha demo_profile ''r2''],
      rq_counters := \<lparr>ct_processed_resources = 1, ct_requests = 1, ct_attempts = 1,
        ct_reserved_requests = 0, ct_downloaded_bytes = 2, ct_decoded_bytes = 2,
        ct_extracted_bytes = 2, ct_runtime_storage_bytes = 2, ct_wall_seconds = 2\<rparr>\<rparr>"

lemma first_claim_sorted: "rq_items (Seal demo_sha first_claim) = rq_items first_claim"
  by (simp add: first_claim_def)

lemma demo_consume:
  "consumeUsage ''r1'' demo_usage (Seal demo_sha first_claim) =
     Inr ((Seal demo_sha first_claim)\<lparr>rq_items := rq_items consumed_queue,
            rq_counters := rq_counters consumed_queue\<rparr>, False)"
  using first_claim_sorted
  by (simp add: consumeUsage_def)
    (simp add: first_claim_def consumed_queue_def processing_item_def
      demo_usage_def zero_counters_def release_reservation_def settle_item_def new_item_def)

lemma reseal: "Seal sha ((Seal sha a)\<lparr>rq_items := its, rq_counters := c\<rparr>)
    = Seal sha (a\<lparr>rq_items := its, rq_counters := c\<rparr>)"
  by (simp add: Seal_def Let_def)

lemma consumed_queue_form:
  "first_claim\<lparr>rq_items := rq_items consumed_queue, rq_counters := rq_counters consumed_queue\<rparr> = consumed_queue"
  by (simp add: consumed_queue_def)

lemma consumed_queue_valid: "Validate demo_sha (Seal demo_sha consumed_queue) = None"
proof -
  have "queue_ok demo_sha consumed_queue"
    using demo_profile_valid
    by (simp add: queue_ok_def consumed_queue_def first_claim_def item_ok_def counters_nonneg_def
        validGenerationKind_def check_state_reason_def go_defs demo_texts)
  then show ?thesis using Validate_Seal_iff [of demo_sha] by (simp add: digest_ok_def demo_sha_def)
qed

lemma consumed_queue_bytes: "queue_bytes (Doc (Seal demo_sha consumed_queue)) \<le> MaximumQueueBytes"
  by code_simp

lemma demo_Consume:
  "\<exists>st'. Consume demo_sha quiet_store_env ''r1'' demo_usage claimed_store
     = (st', Inr (Seal demo_sha consumed_queue, False))"
  using quiet_update [where change = "consumeUsage ''r1'' demo_usage", OF claimed_load demo_consume]
    consumed_queue_valid consumed_queue_bytes
  by (simp add: Consume_def usage_valid_def demo_usage_def reseal consumed_queue_form)

theorem consume_exact_witness:
  "ct_requests (rq_counters (Seal demo_sha consumed_queue)) = 1"
proof -
  obtain st' where c: "Consume demo_sha quiet_store_env ''r1'' demo_usage claimed_store
      = (st', Inr (Seal demo_sha consumed_queue, False))"
    using demo_Consume by blast
  have "typed_usage demo_usage" by (simp add: typed_usage_def demo_usage_def in64_def)
  from consume_exact [OF first_claim_step [folded claimed_store_def] claimed_load this c]
  show ?thesis by (simp add: counters_grew_def first_claim_def demo_usage_def zero_counters_def)
qed

lemma demo_recover:
  "recover_change (Seal demo_sha first_claim) =
     Inr ((Seal demo_sha first_claim)\<lparr>rq_items := map recover_item (rq_items first_claim),
            rq_counters := zero_counters\<lparr>ct_processed_resources := 1, ct_attempts := 1\<rparr>\<rparr>, ())"
  unfolding recover_change_def first_claim_sorted
  by (simp add: first_claim_def release_reservation_def zero_counters_def new_item_def)

definition recovered_queue :: queue where
  "recovered_queue = first_claim\<lparr>rq_items := map recover_item (rq_items first_claim),
            rq_counters := zero_counters\<lparr>ct_processed_resources := 1, ct_attempts := 1\<rparr>\<rparr>"

lemma recovered_queue_valid: "Validate demo_sha (Seal demo_sha recovered_queue) = None"
proof -
  have "queue_ok demo_sha recovered_queue"
    using demo_profile_valid
    by (simp add: queue_ok_def recovered_queue_def first_claim_def item_ok_def counters_nonneg_def
        recover_item_def validGenerationKind_def check_state_reason_def go_defs demo_texts)
  then show ?thesis using Validate_Seal_iff [of demo_sha] by (simp add: digest_ok_def demo_sha_def)
qed

lemma recovered_queue_bytes: "queue_bytes (Doc (Seal demo_sha recovered_queue)) \<le> MaximumQueueBytes"
  by code_simp

theorem recover_contract_witness:
  "it_state (hd (rq_items (Seal demo_sha recovered_queue))) \<noteq> Processing"
proof -
  obtain st' where "Recover demo_sha quiet_store_env claimed_store
      = (st', Inr (Seal demo_sha recovered_queue, ()))"
    using quiet_update [where change = recover_change, OF claimed_load demo_recover]
      recovered_queue_valid recovered_queue_bytes
    by (simp add: Recover_def reseal recovered_queue_def)
  from recover_contract [OF first_claim_step [folded claimed_store_def] claimed_load this]
  have "\<forall>it \<in> set (rq_items (Seal demo_sha recovered_queue)). it_state it \<noteq> Processing" by blast
  moreover have "rq_items (Seal demo_sha recovered_queue) \<noteq> []"
    by (simp add: recovered_queue_def first_claim_def)
  ultimately show ?thesis by (meson hd_in_set)
qed

end
