(* ===== verification/Resource_Generations.thy ===== *)
theory Resource_Generations
  imports Resource_Work
begin

text \<open>
  The contracts of the transitions that change membership or open a generation:
  \<open>SyncMembership\<close>, \<open>TerminalizeBudgetRemainder\<close>, \<open>StartNextGeneration\<close> and
  \<open>StartRetryGeneration\<close>, stated on the queue each receives and the queue each returns.
\<close>

section \<open>Membership\<close>

definition opens_generation :: "string list \<Rightarrow> queue \<Rightarrow> bool" where
  "opens_generation rids q \<longleftrightarrow>
     \<not> set rids \<subseteq> it_resource_id ` set (rq_items q) \<and>
     \<not> (\<exists>it \<in> set (rq_items q). it_resource_id it \<in> set rids \<and> is_active it)"

lemma retain_loop_counters:
  "retain_loop desired its c = Inr (kept, c') \<Longrightarrow>
    c' = c\<lparr>ct_reserved_requests := ct_reserved_requests c'\<rparr>"
proof (induction its arbitrary: c kept)
  case Nil
  then show ?case by simp
next
  case (Cons it its)
  have "(release_reservation c it)\<lparr>ct_reserved_requests := r\<rparr> = c\<lparr>ct_reserved_requests := r\<rparr>" for r
    by (simp add: release_reservation_def)
  with Cons show ?case by (fastforce simp: rbind_Inr_iff split: if_splits)
qed

lemma membership_ids:
  assumes "it_resource_id ` set kept \<subseteq> set rids" and "\<And>it. it_resource_id (f it) = it_resource_id it"
  shows "it_resource_id ` set (map f kept @ map (new_item sha p)
      (filter (\<lambda>rid. rid \<notin> set (map it_resource_id kept)) rids)) = set rids"
proof -
  have "it_resource_id ` set (map f kept) = it_resource_id ` set kept"
    using assms(2) by (simp add: image_image)
  moreover have "it_resource_id ` set (map (new_item sha p)
      (filter (\<lambda>rid. rid \<notin> set (map it_resource_id kept)) rids)) = set rids - it_resource_id ` set kept"
    by (auto simp: image_image)
  ultimately show ?thesis using assms(1) by (simp only: set_append image_Un) auto
qed

text \<open>After \<open>SyncMembership\<close> the queue holds exactly the desired resources.
  Unless new work meets a queue with nothing active, every retained item is untouched and every
  consumed counter is kept (only reservations of dropped items are released); otherwise the
  generation advances by one, the counters restart at zero, and a retained item changes only if it
  was deferred by a run budget (or, before the legacy migration, blocked without an attempt).\<close>

theorem sync_membership_exact:
  assumes "membership_change sha rids True q = Inr (q', ())"
  shows "it_resource_id ` set (rq_items q') = set rids \<and>
    (if opens_generation rids q
     then rq_generation q' = i64_add (rq_generation q) 1 \<and> rq_counters q' = zero_counters \<and>
       (\<forall>it \<in> set (rq_items q). it_resource_id it \<in> set rids \<longrightarrow>
          reopen_deferred (\<not> rq_legacy_migration_complete q) it \<in> set (rq_items q'))
     else rq_generation q' = rq_generation q \<and>
       rq_counters q' = (rq_counters q)\<lparr>ct_reserved_requests := ct_reserved_requests (rq_counters q')\<rparr> \<and>
       (\<forall>it \<in> set (rq_items q). it_resource_id it \<in> set rids \<longrightarrow> it \<in> set (rq_items q')))"
proof -
  from assms obtain kept c where rl: "retain_loop rids (rq_items q) (rq_counters q) = Inr (kept, c)"
    by (auto simp: membership_change_def rbind_Inr_iff)
  note kept = retain_loop_kept [OF rl]
  have missing: "list_ex (\<lambda>rid. rid \<notin> set (map it_resource_id kept)) rids \<longleftrightarrow>
      \<not> set rids \<subseteq> it_resource_id ` set (rq_items q)"
    unfolding kept by (auto simp: list_ex_iff)
  have active: "list_ex is_active kept \<longleftrightarrow>
      (\<exists>it \<in> set (rq_items q). it_resource_id it \<in> set rids \<and> is_active it)"
    unfolding kept by (auto simp: list_ex_iff)
  let ?known = "map it_resource_id kept"
  let ?new = "map (new_item sha (rq_profile q)) (filter (\<lambda>rid. rid \<notin> set ?known) rids)"
  show ?thesis
  proof (cases "opens_generation rids q")
    case True
    with missing active have "list_ex (\<lambda>rid. rid \<notin> set ?known) rids" "\<not> list_ex is_active kept"
      by (auto simp: opens_generation_def)
    with assms rl have q': "rq_generation q' = i64_add (rq_generation q) 1" "rq_counters q' = zero_counters"
      "rq_items q' = map (reopen_deferred (\<not> rq_legacy_migration_complete q)) kept @ ?new"
      by (auto simp: membership_change_def Let_def)
    have "it_resource_id ` set (rq_items q') = set rids"
      unfolding q'(3) by (rule membership_ids) (auto simp: kept)
    with q' True kept show ?thesis by auto
  next
    case False
    with missing active have nf: "\<not> (list_ex (\<lambda>rid. rid \<notin> set ?known) rids \<and> \<not> list_ex is_active kept)"
      by (auto simp: opens_generation_def)
    with assms rl have q': "rq_generation q' = rq_generation q" "rq_counters q' = c"
      "rq_items q' = kept @ ?new"
      by (auto simp: membership_change_def Let_def)
    have "it_resource_id ` set (rq_items q') = set rids"
      unfolding q'(3) using membership_ids [of kept rids id] by (simp only: list.map_id) (auto simp: kept)
    moreover have "rq_counters q' = (rq_counters q)\<lparr>ct_reserved_requests := ct_reserved_requests (rq_counters q')\<rparr>"
      unfolding q'(2) by (rule retain_loop_counters [OF rl])
    moreover have "\<forall>it \<in> set (rq_items q). it_resource_id it \<in> set rids \<longrightarrow> it \<in> set (rq_items q')"
      unfolding q'(3) kept by auto
    ultimately show ?thesis using q'(1) False by simp
  qed
qed

definition small_sync :: "(rq_error, queue \<times> unit) result" where
  "small_sync = membership_change demo_sha [''r2'', ''r3''] True demo_queue"

lemma small_sync_ok: "\<exists>q'. small_sync = Inr (q', ())"
  by (simp add: small_sync_def membership_change_def demo_queue_items is_active_def Let_def)

theorem sync_membership_exact_witness:
  "\<exists>q'. small_sync = Inr (q', ()) \<and> it_resource_id ` set (rq_items q') = {''r2'', ''r3''}"
proof -
  from small_sync_ok obtain q' where q': "small_sync = Inr (q', ())" ..
  with sync_membership_exact [OF q' [unfolded small_sync_def]] show ?thesis by auto
qed

section \<open>Budget remainder\<close>

lemma terminalize_loop_exact:
  "terminalize_loop q expected its = Inr (done', rest) \<Longrightarrow> distinct (map it_resource_id its) \<Longrightarrow>
    done' = map (\<lambda>it. if it_resource_id it \<in> set expected then block_item ReasonRunBudgetDeferred it else it) its \<and>
    (\<forall>it \<in> set its. it_resource_id it \<in> set expected \<longrightarrow> is_queued it \<and> budgetDefersItem q it) \<and>
    set rest = set expected - it_resource_id ` set its"
proof (induction its arbitrary: expected done' rest)
  case Nil
  then show ?case by simp
next
  case (Cons it its)
  show ?case
  proof (cases "it_resource_id it \<in> set expected")
    case False
    with Cons.prems obtain d where "terminalize_loop q expected its = Inr (d, rest)" "done' = it # d"
      by (auto simp: rbind_Inr_iff)
    with Cons.IH [of expected d rest] Cons.prems(2) False show ?thesis by auto
  next
    case True
    let ?e = "removeAll (it_resource_id it) expected"
    from True Cons.prems(1) obtain d where d: "terminalize_loop q ?e its = Inr (d, rest)"
      "done' = block_item ReasonRunBudgetDeferred it # d" "is_queued it" "budgetDefersItem q it"
      by (auto simp: rbind_Inr_iff split: if_splits)
    have same: "it_resource_id j \<in> set ?e \<longleftrightarrow> it_resource_id j \<in> set expected" if "j \<in> set its" for j
      using Cons.prems(2) that by (auto simp: image_iff)
    from Cons.IH [OF d(1)] Cons.prems(2)
    have "d = map (\<lambda>it. if it_resource_id it \<in> set ?e then block_item ReasonRunBudgetDeferred it else it) its"
      and q: "\<forall>j \<in> set its. it_resource_id j \<in> set ?e \<longrightarrow> is_queued j \<and> budgetDefersItem q j"
      and r: "set rest = set ?e - it_resource_id ` set its" by simp_all
    then have "d = map (\<lambda>it. if it_resource_id it \<in> set expected then block_item ReasonRunBudgetDeferred it else it) its"
      using same by simp
    with d q r same True show ?thesis by auto
  qed
qed

text \<open>\<open>TerminalizeBudgetRemainder\<close> is all or nothing: it succeeds only when the
  run budget is exhausted and every given identity is a queued item that the budget defers, and then
  it blocks exactly those items as run_budget_deferred and changes nothing else.\<close>

theorem terminalize_exact:
  assumes "queue_ok sha q" and "terminalize_change rids q = Inr (q', ())"
  shows "globalBudgetExhausted q \<and> set rids \<subseteq> it_resource_id ` set (rq_items q) \<and>
    (\<forall>it \<in> set (rq_items q). it_resource_id it \<in> set rids \<longrightarrow> it_state it = Queued \<and> budgetDefersItem q it) \<and>
    q' = q\<lparr>rq_items := map (\<lambda>it. if it_resource_id it \<in> set rids
             then it\<lparr>it_state := Blocked, it_reason := ReasonRunBudgetDeferred\<rparr> else it) (rq_items q)\<rparr>"
proof -
  from assms(2) have g: "globalBudgetExhausted q" by (auto simp: terminalize_change_def split: if_splits)
  from assms(2) obtain its where l: "terminalize_loop q rids (rq_items q) = Inr (its, [])"
    and q': "q' = q\<lparr>rq_items := its\<rparr>"
    by (auto simp: terminalize_change_def rbind_Inr_iff split: if_splits)
  have "distinct (map it_resource_id (rq_items q))" using assms(1) by (simp add: queue_ok_def)
  from terminalize_loop_exact [OF l this] g q' show ?thesis by (auto simp: block_item_def)
qed

definition closed_queue :: queue where
  "closed_queue = demo_queue\<lparr>rq_generation_closed := True\<rparr>"

lemma closed_queue_ok: "queue_ok demo_sha closed_queue"
  using demo_queue_inv by (simp add: queue_inv_def queue_ok_def closed_queue_def)

theorem terminalize_exact_witness:
  "\<exists>q'. terminalize_change [''r2''] closed_queue = Inr (q', ()) \<and>
     map it_state (rq_items q') = [Queued, Blocked]"
proof -
  have "\<exists>q'. terminalize_change [''r2''] closed_queue = Inr (q', ())"
    by (simp add: terminalize_change_def closed_queue_def demo_queue_items globalBudgetExhausted_def
        budgetDefersItem_def)
  then obtain q' where q': "terminalize_change [''r2''] closed_queue = Inr (q', ())" ..
  with terminalize_exact [OF closed_queue_ok q'] show ?thesis
    by (auto simp: closed_queue_def demo_queue_items)
qed

section \<open>Generations\<close>

lemma list_ex_mapI: "x \<in> set xs \<Longrightarrow> Q (f x) \<Longrightarrow> list_ex Q (map f xs)"
  by (auto simp: list_ex_iff)

lemma zero_not_exhausted:
  assumes "queue_ok sha q" "rq_counters q = zero_counters" "\<not> rq_generation_closed q"
  shows "\<not> globalBudgetExhausted q" "\<not> budgetDefersItem q it"
  using assms queue_ok_positive [OF assms(1)]
  by (auto simp: globalBudgetExhausted_def budgetDefersItem_def not_le)

text \<open>
  Opening the next generation is exact and happens at most once: when it
  starts, the generation number advances, the counters restart, precisely the eligible blocked items
  are requeued and every other item is untouched; started again at once, it does nothing; and the
  run budget of the new generation is not exhausted.\<close>

theorem next_generation_once:
  assumes ok: "queue_ok sha q" and "next_generation_change q = Inr (q', True)"
  shows "rq_generation q' = i64_add (rq_generation q) 1 \<and> rq_counters q' = zero_counters \<and>
    rq_items q' = map (\<lambda>it. if continuation_eligible q it then requeue_item it else it) (rq_items q) \<and>
    \<not> globalBudgetExhausted q' \<and> next_generation_change q' = Inr (q', False)"
proof -
  let ?f = "\<lambda>it. if continuation_eligible q it then requeue_item it else it"
  from assms(2) have q': "q' = (open_generation ''continuation'' q)\<lparr>rq_items := map ?f (rq_items q)\<rparr>"
    and idle: "\<not> list_ex (\<lambda>it. it_state it = Processing) (rq_items q)"
    and some: "list_ex (continuation_eligible q) (rq_items q) \<or> list_ex is_queued (rq_items q)"
    by (auto simp: next_generation_change_def Let_def split: if_splits)
  have g: "\<not> globalBudgetExhausted q'"
    using q' queue_ok_positive [OF ok]
    by (auto simp: globalBudgetExhausted_def open_generation_def not_le)
  from some obtain it where "it \<in> set (rq_items q)" "continuation_eligible q it \<or> is_queued it"
    by (auto simp: list_ex_iff)
  then have "list_ex is_queued (rq_items q')"
    using q' by (auto intro!: list_ex_mapI)
  moreover have "\<not> list_ex (\<lambda>it. it_state it = Processing) (rq_items q')"
    using idle q' by (auto simp: list_ex_iff)
  ultimately have "next_generation_change q' = Inr (q', False)"
    using g by (simp add: next_generation_change_def Let_def)
  with g q' show ?thesis by simp
qed

theorem next_generation_once_witness:
  "\<exists>q'. next_generation_change closed_queue = Inr (q', True) \<and> rq_generation q' = 1"
proof -
  have "\<exists>q'. next_generation_change closed_queue = Inr (q', True)"
    by (simp add: next_generation_change_def closed_queue_def demo_queue_items globalBudgetExhausted_def
        budgetDefersItem_def Let_def)
  then obtain q' where q': "next_generation_change closed_queue = Inr (q', True)" ..
  with next_generation_once [OF closed_queue_ok q'] show ?thesis by (auto simp: closed_queue_def)
qed

text \<open>A retry generation opens only on a queue with nothing active, requeues
  exactly the items blocked for the approved reason with a fresh attempt budget, leaves every other
  item (in particular every permanent terminal) untouched, and cannot be opened again while its work
  is active, nor, for the same reason, once that work is terminal again.\<close>

theorem retry_generation_scope:
  assumes "retry_generation_change reason q = Inr (q', True)"
  shows "(\<forall>it \<in> set (rq_items q). \<not> is_active it) \<and> rq_generation q' = i64_add (rq_generation q) 1 \<and>
    rq_counters q' = zero_counters \<and>
    rq_items q' = map (\<lambda>it. if it_state it = Blocked \<and> it_reason it = reason
        then it\<lparr>it_state := Queued, it_reason := '''', it_reserved_requests := 0, it_attempts := 0\<rparr>
        else it) (rq_items q) \<and>
    retry_generation_change reason' q' = Inl QueueNotTerminal \<and>
    (\<forall>q''. rq_generation_kind q'' = rq_generation_kind q' \<longrightarrow> (\<forall>it \<in> set (rq_items q''). \<not> is_active it) \<longrightarrow>
       retry_generation_change reason q'' = Inr (q'', False))"
proof -
  let ?f = "\<lambda>it. if it_state it = Blocked \<and> it_reason it = reason
    then (requeue_item it)\<lparr>it_attempts := 0\<rparr> else it"
  from assms have q': "q' = (open_generation (''retry:'' @ reason) q)\<lparr>rq_items := map ?f (rq_items q)\<rparr>"
    and idle: "\<not> list_ex is_active (rq_items q)"
    and some: "list_ex (\<lambda>it. it_state it = Blocked \<and> it_reason it = reason) (rq_items q)"
    by (auto simp: retry_generation_change_def Let_def split: if_splits)
  from some obtain it where "it \<in> set (rq_items q)" "it_state it = Blocked \<and> it_reason it = reason"
    by (auto simp: list_ex_iff)
  then have "list_ex is_active (rq_items q')"
    unfolding q' by (auto simp: is_active_def intro: list_ex_mapI)
  then have "retry_generation_change reason' q' = Inl QueueNotTerminal"
    by (simp add: retry_generation_change_def Let_def)
  moreover have "retry_generation_change reason q'' = Inr (q'', False)"
    if "rq_generation_kind q'' = rq_generation_kind q'" "\<forall>it \<in> set (rq_items q''). \<not> is_active it" for q''
    using that q' by (auto simp: retry_generation_change_def Let_def list_ex_iff)
  ultimately show ?thesis
    using q' idle by (auto simp: list_ex_iff requeue_item_def)
qed

definition unreachable_queue :: queue where
  "unreachable_queue = demo_queue\<lparr>rq_items := map (block_item ''unreachable'') (rq_items demo_queue)\<rparr>"

theorem retry_generation_scope_witness:
  "\<exists>q'. retry_generation_change ''unreachable'' unreachable_queue = Inr (q', True) \<and>
     retry_generation_change ''rate_limited'' q' = Inl QueueNotTerminal"
proof -
  have "\<exists>q'. retry_generation_change ''unreachable'' unreachable_queue = Inr (q', True)"
    by (simp add: retry_generation_change_def unreachable_queue_def demo_queue_items is_active_def
        Let_def block_item_def)
  then obtain q' where q': "retry_generation_change ''unreachable'' unreachable_queue = Inr (q', True)" ..
  with retry_generation_scope [OF q', of "''rate_limited''"] show ?thesis by auto
qed

end
