(* ===== verification/Resource_Runner.thy ===== *)
theory Resource_Runner
  imports Resource_Generations
begin

text \<open>
  \<open>internal/resourcequeue/runner.go\<close> and \<open>resourcefetch_adapter.go\<close>: one processing step
  (\<open>ProcessNext\<close>), the settlement of a deferred remainder, and the drain loop, over the store of
  \<open>Resource_Store\<close> and the two ports of the package.

  The ports are parameters: the canonical repository (\<open>Load\<close>, \<open>MergeEnrichment\<close>) is a
  \<open>repository\<close> over a state \<open>'r\<close>, and what the context, the fetcher and the sleep return is
  given by an environment record, together with the environment of each store call.
\<close>

section \<open>Ports\<close>

datatype go_error = Canceled | DeadlineExceeded | OtherError
datatype repo_error = InvalidEnrichment | RepositoryFailed

datatype run_error =
    QueueFailed rq_error | RepoFailed repo_error | ContextDone go_error
  | RunnerIncomplete | ResourceAbsent | NoReservation | InvalidGenerationClose
  | BlockedIncludesContent | CompleteRequiresContent | WallClockBackwards

record excerpt = ex_id :: string  ex_text :: string  ex_locator :: string
record related = rl_url :: string  rl_relation :: string  rl_ref :: string  rl_relevant :: bool

record evidence =
  ev_canonical_item_id :: string
  ev_canonical_url :: string
  ev_state :: string
  ev_retrieved_at :: string
  ev_title :: string
  ev_author :: string
  ev_published_at :: string
  ev_excerpts :: "excerpt list"
  ev_related :: "related list"
  ev_missingness :: "string list"
  ev_access_class :: string
  ev_secret_like :: bool

record content =
  co_canonical_url :: string
  co_media_type :: string
  co_completeness :: string
  co_text :: string
  co_missingness :: "string list"
  co_access_class :: string

record batch =
  ba_schema_version :: string
  ba_resources :: "evidence list"
  ba_contents :: "content list"

record 'r repository =
  rp_load :: "'r \<Rightarrow> 'r \<times> (repo_error, (string \<times> string) list) result" \<comment> \<open>identifier and URL\<close>
  rp_merge :: "batch \<Rightarrow> 'r \<Rightarrow> 'r \<times> repo_error option"

record target =
  ta_resource_id :: string
  ta_canonical_url :: string
  ta_remaining :: usage

record fetch_result =
  fr_state :: item_state
  fr_blocked_reason :: string
  fr_retryable :: bool
  fr_close_generation :: bool
  fr_exhausted_dimension :: string
  fr_evidence :: evidence
  fr_content :: "content option"
  fr_usage :: usage
  fr_transient_network :: bool
  fr_http_status :: int
  fr_retry_after_seconds :: int

definition no_evidence :: evidence where
  "no_evidence = \<lparr>ev_canonical_item_id = '''', ev_canonical_url = '''', ev_state = '''',
     ev_retrieved_at = '''', ev_title = '''', ev_author = '''', ev_published_at = '''',
     ev_excerpts = [], ev_related = [], ev_missingness = [], ev_access_class = '''',
     ev_secret_like = False\<rparr>"

definition no_usage :: usage where
  "no_usage = \<lparr>us_requests = 0, us_downloaded_bytes = 0, us_decoded_bytes = 0,
     us_extracted_bytes = 0, us_runtime_storage_bytes = 0, us_wall_seconds = 0\<rparr>"

definition no_result :: fetch_result where
  "no_result = \<lparr>fr_state = OtherState '''', fr_blocked_reason = '''', fr_retryable = False,
     fr_close_generation = False, fr_exhausted_dimension = '''', fr_evidence = no_evidence,
     fr_content = None, fr_usage = no_usage, fr_transient_network = False, fr_http_status = 0,
     fr_retry_after_seconds = 0\<rparr>"

definition enrichment_schema :: string where
  "enrichment_schema = ''mindline-personal-enrichment-batch/v0.1''"

text \<open>The state a runner works on, and what its surroundings answer during one step.\<close>

record 'r world =
  w_store :: rq_store
  w_repo :: 'r

datatype call_site =
    AtClaim | AtTarget | AtTargetRequeue | AtClose | AtConsume | AtRequeue | AtAttempts | AtDelay
  | AtDelayConsume | AtFinish | AtRemainder | AtTerminalize | AtCharge

record step_env =
  se_store :: "call_site \<Rightarrow> store_env"
  se_ctx_start :: "go_error option"
  se_ctx_target :: "go_error option"
  se_ctx_fetched :: "go_error option"
  se_fetch :: "target \<Rightarrow> fetch_result \<times> go_error option"
  se_sleep :: "int \<Rightarrow> go_error option"
  se_ctx_settle :: "nat \<Rightarrow> go_error option"

type_synonym 'r outcome = "'r world \<times> run_error option"

section \<open>Canonical merges\<close>

definition approvedBlockedReason :: "string \<Rightarrow> string" where
  "approvedBlockedReason reason = (if IsBlockedReason reason then reason else ReasonBudgetExhausted)"

definition blockedHasPayload :: "fetch_result \<Rightarrow> bool" where
  "blockedHasPayload r \<longleftrightarrow>
     (if fr_content r \<noteq> None then True
      else (let e = fr_evidence r
            in ev_canonical_item_id e \<noteq> '''' \<or> ev_title e \<noteq> '''' \<or> ev_author e \<noteq> '''' \<or>
               ev_published_at e \<noteq> '''' \<or> ev_excerpts e \<noteq> [] \<or> ev_related e \<noteq> []))"

definition retryEligible :: "fetch_result \<Rightarrow> bool" where
  "retryEligible r \<longleftrightarrow>
     fr_transient_network r \<or> fr_http_status r = 429 \<or>
     (fr_http_status r \<ge> 500 \<and> fr_http_status r \<le> 599)"

definition canonical_evidence :: "target \<Rightarrow> item \<Rightarrow> fetch_result \<Rightarrow> string \<Rightarrow> string list \<Rightarrow> evidence" where
  "canonical_evidence t it r canonical_state missingness =
     (let e = (fr_evidence r)\<lparr>ev_canonical_url := ta_canonical_url t, ev_state := canonical_state\<rparr>;
          e1 = (if ev_access_class e = ''''
                then e\<lparr>ev_access_class := (if canonical_state = ''inaccessible'' then ''unsupported'' else ''public'')\<rparr>
                else e)
      in if it_state it = Blocked then e1\<lparr>ev_missingness := ev_missingness e1 @ missingness\<rparr> else e1)"

definition mergeCanonical :: "'r repository \<Rightarrow> target \<Rightarrow> item \<Rightarrow> fetch_result \<Rightarrow> 'r world \<Rightarrow> 'r outcome" where
  "mergeCanonical ports t it r w =
     (case CanonicalState (it_state it) (it_reason it) of
        Inl e \<Rightarrow> (w, Some (QueueFailed e))
      | Inr (canonical_state, missingness) \<Rightarrow>
          (let e = canonical_evidence t it r canonical_state missingness;
               contents = (case fr_content r of None \<Rightarrow> []
                           | Some c \<Rightarrow> [c\<lparr>co_canonical_url := ta_canonical_url t\<rparr>]);
               (repo, err) = rp_merge ports \<lparr>ba_schema_version = enrichment_schema,
                               ba_resources = [e], ba_contents = contents\<rparr> (w_repo w)
           in (w\<lparr>w_repo := repo\<rparr>, map_option RepoFailed err)))"

definition with_store :: "rq_store \<times> rq_error option \<Rightarrow> 'r world \<Rightarrow> 'r outcome" where
  "with_store r w = (w\<lparr>w_store := fst r\<rparr>, map_option QueueFailed (snd r))"

definition finishQueueItem :: "(string \<Rightarrow> string) \<Rightarrow> step_env \<Rightarrow> item \<Rightarrow> 'r world \<Rightarrow> 'r outcome" where
  "finishQueueItem sha env it w =
     (if it_state it = Blocked \<and> it_attempts it = 0 then (w, None)
      else with_store (Finish sha (se_store env AtFinish) (it_resource_id it) (it_state it) (it_reason it)
                         (w_store w)) w)"

definition mergeAndFinish ::
  "(string \<Rightarrow> string) \<Rightarrow> 'r repository \<Rightarrow> step_env \<Rightarrow> target \<Rightarrow> item \<Rightarrow> fetch_result
    \<Rightarrow> 'r world \<Rightarrow> 'r outcome" where
  "mergeAndFinish sha ports env t it r w =
     (case mergeCanonical ports t it r w of
        (w', Some e) \<Rightarrow> (w', Some e)
      | (w', None) \<Rightarrow> finishQueueItem sha env it w')"

definition mergeFetchedOrBlock ::
  "(string \<Rightarrow> string) \<Rightarrow> 'r repository \<Rightarrow> step_env \<Rightarrow> target \<Rightarrow> item \<Rightarrow> fetch_result
    \<Rightarrow> 'r world \<Rightarrow> 'r outcome" where
  "mergeFetchedOrBlock sha ports env t it r w =
     (case mergeCanonical ports t it r w of
        (w', Some e) \<Rightarrow>
          if e \<noteq> RepoFailed InvalidEnrichment then (w', Some e)
          else mergeAndFinish sha ports env t (block_item ReasonManualProcessing it) no_result w'
      | (w', None) \<Rightarrow> finishQueueItem sha env it w')"

section \<open>Targets and retry delays\<close>

definition runner_target ::
  "(string \<Rightarrow> string) \<Rightarrow> 'r repository \<Rightarrow> store_env \<Rightarrow> string \<Rightarrow> 'r world
    \<Rightarrow> 'r world \<times> (run_error, target) result" where
  "runner_target sha ports env rid w =
     (case rp_load ports (w_repo w) of
        (repo, Inl e) \<Rightarrow> (w\<lparr>w_repo := repo\<rparr>, Inl (RepoFailed e))
      | (repo, Inr resources) \<Rightarrow>
          (w\<lparr>w_repo := repo\<rparr>,
           case store_load sha env (w_store w) of
             Inl e \<Rightarrow> Inl (QueueFailed e)
           | Inr q \<Rightarrow>
               (let c = rq_counters q; p = rq_profile q;
                    reserved = (case List.find (processing_item rid) (rq_items q) of
                                  None \<Rightarrow> 0 | Some it \<Rightarrow> it_reserved_requests it);
                    remaining =
                      \<lparr>us_requests = reserved,
                       us_downloaded_bytes = i64_sub (bp_max_downloaded_bytes p) (ct_downloaded_bytes c),
                       us_decoded_bytes = i64_sub (bp_max_decoded_bytes p) (ct_decoded_bytes c),
                       us_extracted_bytes = i64_sub (bp_max_extracted_bytes p) (ct_extracted_bytes c),
                       us_runtime_storage_bytes = i64_sub (bp_max_runtime_storage_bytes p) (ct_runtime_storage_bytes c),
                       us_wall_seconds = i64_sub (bp_max_run_wall_seconds p) (ct_wall_seconds c)\<rparr>
                in case List.find (\<lambda>(i, url). i = rid) resources of
                     None \<Rightarrow> Inl ResourceAbsent
                   | Some (_, url) \<Rightarrow>
                       Inr \<lparr>ta_resource_id = rid, ta_canonical_url = url, ta_remaining = remaining\<rparr>)))"

definition profileAttempts :: "(string \<Rightarrow> string) \<Rightarrow> store_env \<Rightarrow> rq_store \<Rightarrow> int" where
  "profileAttempts sha env st =
     (case store_load sha env st of Inl _ \<Rightarrow> 0 | Inr q \<Rightarrow> bp_max_attempts_per_resource (rq_profile q))"

text \<open>A \<open>time.Duration\<close> is an \<open>int64\<close> number of nanoseconds.\<close>

definition nanoseconds :: int where "nanoseconds = 1000000000"

definition trunc_div :: "int \<Rightarrow> int \<Rightarrow> int" where
  "trunc_div a b = (if a < 0 then - ((- a) div b) else a div b)"

definition retry_seconds :: "fetch_policy \<Rightarrow> int \<Rightarrow> int \<Rightarrow> int" where
  "retry_seconds fp attempt retry_after =
     (let d0 = (if attempt > 1 then fp_retry_backoff_two_seconds fp else fp_retry_backoff_one_seconds fp);
          d1 = (if retry_after > 0 \<and> retry_after < d0 then retry_after else d0);
          d2 = (if retry_after > d1 then retry_after else d1)
      in if d2 > fp_max_retry_after_seconds fp then fp_max_retry_after_seconds fp else d2)"

definition retryDelay :: "(string \<Rightarrow> string) \<Rightarrow> store_env \<Rightarrow> int \<Rightarrow> int \<Rightarrow> rq_store \<Rightarrow> (rq_error, int) result" where
  "retryDelay sha env attempt retry_after st =
     rbind (store_load sha env st) (\<lambda>q.
       Inr (wrap64 (retry_seconds (bp_fetch_policy (rq_profile q)) attempt retry_after * nanoseconds)))"

section \<open>One processing step\<close>

definition valid_close :: "fetch_result \<Rightarrow> go_error option \<Rightarrow> bool" where
  "valid_close r fetch_err \<longleftrightarrow>
     fr_close_generation r \<and> fetch_err = None \<and> fr_blocked_reason r = ReasonRunBudgetDeferred \<and>
     (fr_exhausted_dimension r = ''decoded'' \<or> fr_exhausted_dimension r = ''extracted'' \<or>
      fr_exhausted_dimension r = ''runtime_storage'') \<and> \<not> blockedHasPayload r"

text \<open>What happens once the fetch has been settled without exhaustion, cancellation or close.\<close>

definition settle_outcome ::
  "(string \<Rightarrow> string) \<Rightarrow> 'r repository \<Rightarrow> step_env \<Rightarrow> target \<Rightarrow> item \<Rightarrow> fetch_result
    \<Rightarrow> go_error option \<Rightarrow> 'r world \<Rightarrow> 'r outcome" where
  "settle_outcome sha ports env t it r fetch_err w =
     (if fetch_err \<noteq> None then
        (let reason = (if IsBlockedReason (fr_blocked_reason r) then fr_blocked_reason r else ''unreachable'')
         in mergeAndFinish sha ports env t (block_item reason it) no_result w)
      else if fr_blocked_reason r \<noteq> '''' then
        (if blockedHasPayload r then (w, Some BlockedIncludesContent)
         else mergeAndFinish sha ports env t (block_item (approvedBlockedReason (fr_blocked_reason r)) it)
                no_result w)
      else if fr_state r \<noteq> Complete \<and> fr_state r \<noteq> Partial then
        mergeAndFinish sha ports env t (block_item ReasonBudgetExhausted it) no_result w
      else if fr_state r = Complete \<and> fr_content r = None then (w, Some CompleteRequiresContent)
      else mergeFetchedOrBlock sha ports env t (it\<lparr>it_state := fr_state r, it_reason := ''''\<rparr>) r w)"

text \<open>The retry branch: charge the delay, sleep, and put the item back.\<close>

definition retry_outcome ::
  "(string \<Rightarrow> string) \<Rightarrow> 'r repository \<Rightarrow> step_env \<Rightarrow> target \<Rightarrow> item \<Rightarrow> fetch_result
    \<Rightarrow> 'r world \<Rightarrow> 'r outcome" where
  "retry_outcome sha ports env t it r w =
     (case retryDelay sha (se_store env AtDelay) (it_attempts it) (fr_retry_after_seconds r) (w_store w) of
        Inl e \<Rightarrow> (w, Some (QueueFailed e))
      | Inr delay \<Rightarrow>
          (case Consume sha (se_store env AtDelayConsume) (it_resource_id it)
                  (no_usage\<lparr>us_wall_seconds := trunc_div delay nanoseconds\<rparr>) (w_store w) of
             (st, Inl e) \<Rightarrow> (w\<lparr>w_store := st\<rparr>, Some (QueueFailed e))
           | (st, Inr (_, delay_exhausted)) \<Rightarrow>
               (let w1 = w\<lparr>w_store := st\<rparr>
                in if delay_exhausted
                   then mergeAndFinish sha ports env t (block_item ReasonRunBudgetDeferred it) no_result w1
                   else
                     (case with_store (Requeue sha (se_store env AtRequeue) (it_resource_id it) (w_store w1)) w1 of
                        (w2, Some e) \<Rightarrow> (w2, Some e)
                      | (w2, None) \<Rightarrow> (w2, map_option ContextDone (se_sleep env delay))))))"

definition fetch_and_settle ::
  "(string \<Rightarrow> string) \<Rightarrow> 'r repository \<Rightarrow> step_env \<Rightarrow> target \<Rightarrow> item \<Rightarrow> 'r world \<Rightarrow> 'r outcome" where
  "fetch_and_settle sha ports env t it w =
     (let (r, fetch_err) = se_fetch env t;
          cancel_err = (if se_ctx_fetched env = None \<and> fetch_err = Some Canceled then Some Canceled
                        else se_ctx_fetched env);
          rid = it_resource_id it
      in if valid_close r fetch_err \<and> cancel_err = None then
           (case ConsumeAndCloseGeneration sha (se_store env AtClose) rid (fr_usage r) (w_store w) of
              (st, Inl e) \<Rightarrow> (w\<lparr>w_store := st\<rparr>, Some (QueueFailed e))
            | (st, Inr _) \<Rightarrow> (w\<lparr>w_store := st\<rparr>, None))
         else
           (case Consume sha (se_store env AtConsume) rid (fr_usage r) (w_store w) of
              (st, Inl e) \<Rightarrow> (w\<lparr>w_store := st\<rparr>, Some (QueueFailed e))
            | (st, Inr (_, exhausted)) \<Rightarrow>
                (let w1 = w\<lparr>w_store := st\<rparr>
                 in case cancel_err of
                      Some c \<Rightarrow>
                        (case with_store (Requeue sha (se_store env AtRequeue) rid (w_store w1)) w1 of
                           (w2, Some e) \<Rightarrow> (w2, Some e)
                         | (w2, None) \<Rightarrow> (w2, Some (ContextDone c)))
                    | None \<Rightarrow>
                        if fr_close_generation r then (w1, Some InvalidGenerationClose)
                        else if exhausted then
                          mergeAndFinish sha ports env t (block_item ReasonRunBudgetDeferred it) no_result w1
                        else if retryEligible r \<and>
                                it_attempts it < profileAttempts sha (se_store env AtAttempts) (w_store w1)
                          then retry_outcome sha ports env t it r w1
                        else settle_outcome sha ports env t it r fetch_err w1)))"

text \<open>
  The flag says whether an item was found (with a failed claim it is not looked at by the
  drain); the ports are never absent here.
\<close>

definition ProcessNext ::
  "(string \<Rightarrow> string) \<Rightarrow> 'r repository \<Rightarrow> step_env \<Rightarrow> 'r world \<Rightarrow> 'r world \<times> bool \<times> run_error option" where
  "ProcessNext sha ports env w =
     (case se_ctx_start env of
        Some c \<Rightarrow> (w, False, Some (ContextDone c))
      | None \<Rightarrow>
          (case ClaimNext sha (se_store env AtClaim) (w_store w) of
             (st, Inl e) \<Rightarrow> (w\<lparr>w_store := st\<rparr>, False, Some (QueueFailed e))
           | (st, Inr (_, None)) \<Rightarrow> (w\<lparr>w_store := st\<rparr>, False, None)
           | (st, Inr (_, Some it)) \<Rightarrow>
               (case runner_target sha ports (se_store env AtTarget) (it_resource_id it) (w\<lparr>w_store := st\<rparr>) of
                  (w1, Inl e) \<Rightarrow>
                    ((if se_ctx_target env = None then w1
                      else w1\<lparr>w_store := fst (Requeue sha (se_store env AtTargetRequeue)
                                               (it_resource_id it) (w_store w1))\<rparr>),
                     True, Some e)
                | (w1, Inr t) \<Rightarrow>
                    (let (w2, err) =
                       (if it_state it = Blocked then mergeAndFinish sha ports env t it no_result w1
                        else if us_requests (ta_remaining t) < 1 then (w1, Some NoReservation)
                        else fetch_and_settle sha ports env t it w1)
                     in (w2, True, err)))))"


section \<open>Settling the deferred remainder\<close>

definition deferred_evidence :: "string \<Rightarrow> evidence" where
  "deferred_evidence url = no_evidence\<lparr>ev_canonical_url := url, ev_state := ''failed'',
     ev_access_class := ''public'', ev_missingness := [''resource_blocked:'' @ ReasonRunBudgetDeferred]\<rparr>"

text \<open>The loop polls the context once per 1024 identities; poll 3 is its first.\<close>

fun remainder_loop ::
  "(nat \<Rightarrow> go_error option) \<Rightarrow> (string \<rightharpoonup> string) \<Rightarrow> nat \<Rightarrow> string list
    \<Rightarrow> (run_error, evidence list) result" where
  "remainder_loop poll urls index [] = Inr []"
| "remainder_loop poll urls index (rid # rids) =
     (case (if index mod 1024 = 0 then poll (3 + index div 1024) else None) of
        Some c \<Rightarrow> Inl (ContextDone c)
      | None \<Rightarrow>
          (case urls rid of
             None \<Rightarrow> Inl ResourceAbsent
           | Some url \<Rightarrow>
               rbind (remainder_loop poll urls (index + 1) rids)
                 (\<lambda>es. Inr (deferred_evidence url # es))))"

text \<open>A later resource with the same identifier overwrites an earlier one in \<open>urls\<close>.\<close>

definition prepare_remainder ::
  "(string \<Rightarrow> string) \<Rightarrow> 'r repository \<Rightarrow> step_env \<Rightarrow> 'r world
    \<Rightarrow> 'r world \<times> (run_error option, string list \<times> evidence list) result" where
  "prepare_remainder sha ports env w =
     (case se_ctx_settle env 0 of
        Some c \<Rightarrow> (w, Inl (Some (ContextDone c)))
      | None \<Rightarrow>
     (case BudgetRemainder sha (se_store env AtRemainder) (w_store w) of
        Inl e \<Rightarrow> (w, Inl (Some (QueueFailed e)))
      | Inr (rids, found) \<Rightarrow>
     (if \<not> found then (w, Inl None)
      else case se_ctx_settle env 1 of
        Some c \<Rightarrow> (w, Inl (Some (ContextDone c)))
      | None \<Rightarrow>
     (case rp_load ports (w_repo w) of
        (repo, Inl e) \<Rightarrow> (w\<lparr>w_repo := repo\<rparr>, Inl (Some (RepoFailed e)))
      | (repo, Inr resources) \<Rightarrow>
          (w\<lparr>w_repo := repo\<rparr>,
     (case se_ctx_settle env 2 of
        Some c \<Rightarrow> Inl (Some (ContextDone c))
      | None \<Rightarrow>
     (case remainder_loop (se_ctx_settle env) (map_of (rev resources)) 0 rids of
        Inl e \<Rightarrow> Inl (Some e)
      | Inr es \<Rightarrow>
     (case se_ctx_settle env (3 + (length rids + 1023) div 1024) of
        Some c \<Rightarrow> Inl (Some (ContextDone c))
      | None \<Rightarrow> Inr (rids, es)))))))))"

text \<open>The canonical batch is committed first; only then does the derived queue advance.\<close>

definition commit_remainder ::
  "(string \<Rightarrow> string) \<Rightarrow> 'r repository \<Rightarrow> step_env \<Rightarrow> string list \<Rightarrow> evidence list \<Rightarrow> 'r world
    \<Rightarrow> 'r world \<times> bool \<times> run_error option" where
  "commit_remainder sha ports env rids es w =
     (case rp_merge ports \<lparr>ba_schema_version = enrichment_schema, ba_resources = es, ba_contents = []\<rparr>
             (w_repo w) of
        (repo, Some e) \<Rightarrow> (w\<lparr>w_repo := repo\<rparr>, False, Some (RepoFailed e))
      | (repo, None) \<Rightarrow>
          (case TerminalizeBudgetRemainder sha (se_store env AtTerminalize) rids (w_store w) of
             (st, Some e) \<Rightarrow> (\<lparr>w_store = st, w_repo = repo\<rparr>, False, Some (QueueFailed e))
           | (st, None) \<Rightarrow> (\<lparr>w_store = st, w_repo = repo\<rparr>, True, None)))"

definition settleBudgetRemainder ::
  "(string \<Rightarrow> string) \<Rightarrow> 'r repository \<Rightarrow> step_env \<Rightarrow> 'r world \<Rightarrow> 'r world \<times> bool \<times> run_error option" where
  "settleBudgetRemainder sha ports env w =
     (case prepare_remainder sha ports env w of
        (w1, Inl err) \<Rightarrow> (w1, False, err)
      | (w1, Inr (rids, es)) \<Rightarrow> commit_remainder sha ports env rids es w1)"

section \<open>The drain loop\<close>

text \<open>
  What one iteration observes: the run context and the caller's context, and the nanoseconds
  elapsed since the start at the two readings of the wall clock.
\<close>

record iter_env =
  ie_run_ctx :: "go_error option"
  ie_ctx :: "go_error option"
  ie_elapsed_before :: int
  ie_elapsed_after :: int
  ie_step :: step_env

record drain_env =
  de_ctx_start :: "go_error option"
  de_recover :: store_env
  de_load :: store_env
  de_elapsed_start :: int
  de_elapsed_window :: int
  de_elapsed_final :: int
  de_final :: store_env
  de_iter :: "nat \<Rightarrow> iter_env"

definition charge_elapsed ::
  "(string \<Rightarrow> string) \<Rightarrow> store_env \<Rightarrow> int \<Rightarrow> int \<Rightarrow> 'r world \<Rightarrow> 'r world \<times> (run_error, bool) result" where
  "charge_elapsed sha env starting_wall elapsed w =
     (if elapsed < 0 then (w, Inl WallClockBackwards)
      else
        (case ChargeRunWallFloor sha env (i64_add starting_wall (trunc_div elapsed nanoseconds)) (w_store w) of
           (st, Inl e) \<Rightarrow> (w\<lparr>w_store := st\<rparr>, Inl (QueueFailed e))
         | (st, Inr exhausted) \<Rightarrow> (w\<lparr>w_store := st\<rparr>, Inr exhausted)))"

text \<open>How the loop leaves after an error of a step: the caller's context first, then the run deadline.\<close>

definition loop_error :: "iter_env \<Rightarrow> run_error \<Rightarrow> run_error option" where
  "loop_error ie e =
     (case ie_ctx ie of
        Some c \<Rightarrow> Some (ContextDone c)
      | None \<Rightarrow> if e = ContextDone DeadlineExceeded \<and> ie_run_ctx ie \<noteq> None then None else Some e)"

definition drain_iteration ::
  "(string \<Rightarrow> string) \<Rightarrow> 'r repository \<Rightarrow> int \<Rightarrow> iter_env \<Rightarrow> 'r world
    \<Rightarrow> 'r world \<times> run_error option option" where \<comment> \<open>\<open>None\<close>: go on; \<open>Some\<close>: return\<close>
  "drain_iteration sha ports starting_wall ie w =
     (let step = ie_step ie; charge_env = se_store step AtCharge
      in case charge_elapsed sha charge_env starting_wall (ie_elapsed_before ie) w of
           (w1, Inl e) \<Rightarrow> (w1, Some (Some e))
         | (w1, Inr True) \<Rightarrow> (w1, Some None)
         | (w1, Inr False) \<Rightarrow>
             (case settleBudgetRemainder sha ports step w1 of
                (w2, _, Some e) \<Rightarrow> (w2, Some (loop_error ie e))
              | (w2, True, None) \<Rightarrow> (w2, None)
              | (w2, False, None) \<Rightarrow>
                  (case ProcessNext sha ports step w2 of
                     (w3, processed, err) \<Rightarrow>
                       (case charge_elapsed sha charge_env starting_wall (ie_elapsed_after ie) w3 of
                          (w4, Inl e) \<Rightarrow> (w4, Some (Some e))
                        | (w4, Inr exhausted) \<Rightarrow>
                            (case err of
                               Some e \<Rightarrow> (w4, Some (loop_error ie e))
                             | None \<Rightarrow>
                                 if exhausted \<or> \<not> processed then (w4, Some None) else (w4, None))))))"

text \<open>
  The check of the run context at the head of the loop is the first poll of the iteration;
  when it is done the elapsed wall time is charged and the drain returns.
\<close>

definition loop_head ::
  "(string \<Rightarrow> string) \<Rightarrow> 'r repository \<Rightarrow> int \<Rightarrow> go_error option \<Rightarrow> iter_env \<Rightarrow> 'r world
    \<Rightarrow> 'r world \<times> run_error option option" where
  "loop_head sha ports starting_wall head_ctx ie w =
     (if head_ctx \<noteq> None then
        (case charge_elapsed sha (se_store (ie_step ie) AtCharge) starting_wall (ie_elapsed_before ie) w of
           (w1, Inl e) \<Rightarrow> (w1, Some (Some e))
         | (w1, Inr _) \<Rightarrow> (w1, Some (map_option ContextDone (ie_ctx ie))))
      else drain_iteration sha ports starting_wall ie w)"

fun drain_loop ::
  "(string \<Rightarrow> string) \<Rightarrow> 'r repository \<Rightarrow> int \<Rightarrow> (nat \<Rightarrow> go_error option) \<Rightarrow> (nat \<Rightarrow> iter_env)
    \<Rightarrow> nat \<Rightarrow> nat \<Rightarrow> 'r world \<Rightarrow> ('r world \<times> run_error option) option" where
  "drain_loop sha ports starting_wall heads ies i 0 w = None"
| "drain_loop sha ports starting_wall heads ies i (Suc fuel) w =
     (case loop_head sha ports starting_wall (heads i) (ies i) w of
        (w', Some err) \<Rightarrow> Some (w', err)
      | (w', None) \<Rightarrow> drain_loop sha ports starting_wall heads ies (Suc i) fuel w')"

text \<open>The deferred charge on the way out.\<close>

definition with_final_charge ::
  "(string \<Rightarrow> string) \<Rightarrow> drain_env \<Rightarrow> int \<Rightarrow> 'r outcome \<Rightarrow> 'r outcome" where
  "with_final_charge sha de starting_wall r =
     (case r of (w, err) \<Rightarrow>
        (case charge_elapsed sha (de_final de) starting_wall (de_elapsed_final de) w of
           (w', Inl e) \<Rightarrow> (w', if err = None then Some e else err)
         | (w', Inr _) \<Rightarrow> (w', err)))"

definition Drain ::
  "(string \<Rightarrow> string) \<Rightarrow> 'r repository \<Rightarrow> drain_env \<Rightarrow> (nat \<Rightarrow> go_error option) \<Rightarrow> nat \<Rightarrow> 'r world
    \<Rightarrow> 'r outcome option" where
  "Drain sha ports de heads fuel w =
     (case de_ctx_start de of
        Some c \<Rightarrow> Some (w, Some (ContextDone c))
      | None \<Rightarrow>
          (case Recover sha (de_recover de) (w_store w) of
             (st, Inl e) \<Rightarrow> Some (w\<lparr>w_store := st\<rparr>, Some (QueueFailed e))
           | (st, Inr _) \<Rightarrow>
               (let w1 = w\<lparr>w_store := st\<rparr>
                in case store_load sha (de_load de) st of
                     Inl e \<Rightarrow> Some (w1, Some (QueueFailed e))
                   | Inr q \<Rightarrow>
                       (let remaining = i64_sub (bp_max_run_wall_seconds (rq_profile q))
                                          (ct_wall_seconds (rq_counters q));
                            starting = ct_wall_seconds (rq_counters q)
                        in if remaining \<le> 0 then Some (w1, None)
                           else map_option (with_final_charge sha de starting)
                             (if de_elapsed_start de < 0 then Some (w1, Some WallClockBackwards)
                              else if i64_sub (wrap64 (remaining * nanoseconds)) (de_elapsed_start de) \<le> 0 then
                                (case charge_elapsed sha (se_store (ie_step (de_iter de 0)) AtCharge) starting
                                        (de_elapsed_window de) w1 of
                                   (w2, Inl e) \<Rightarrow> Some (w2, Some e)
                                 | (w2, Inr _) \<Rightarrow> Some (w2, None))
                              else drain_loop sha ports starting heads (de_iter de) 0 fuel w1)))))"


section \<open>The fetch adapter\<close>

text \<open>The fields of \<open>resourcefetch.Result\<close> that the adapter reads.\<close>

record rf_result =
  rf_state :: item_state
  rf_reason :: string
  rf_retryable :: bool
  rf_retry_after_seconds :: int
  rf_request_count :: int
  rf_media_type :: string
  rf_title :: string
  rf_author :: string
  rf_published_at :: string
  rf_text :: string
  rf_related_urls :: "string list"
  rf_missingness :: "string list"
  rf_wire_bytes :: int
  rf_decoded_bytes :: int
  rf_extracted_bytes :: int
  rf_wall_seconds :: int
  rf_exhausted_dimension :: string

definition link_reference :: "(string \<Rightarrow> string) \<Rightarrow> string \<Rightarrow> string" where
  "link_reference sha url = ''related-'' @ take 16 (sha url)"

definition keeps_link :: "string \<Rightarrow> bool" where
  "keeps_link url \<longleftrightarrow> (case utf8_runes url of None \<Rightarrow> False | Some n \<Rightarrow> n \<le> 1000)"

definition link_excerpt :: "(string \<Rightarrow> string) \<Rightarrow> string \<Rightarrow> excerpt" where
  "link_excerpt sha url =
     \<lparr>ex_id = link_reference sha url, ex_text = url, ex_locator = ''discovered_outbound_link''\<rparr>"

definition link_related :: "(string \<Rightarrow> string) \<Rightarrow> string \<Rightarrow> related" where
  "link_related sha url =
     \<lparr>rl_url = url, rl_relation = ''source_links_to'', rl_ref = link_reference sha url, rl_relevant = False\<rparr>"

definition FromResourcefetchResult :: "(string \<Rightarrow> string) \<Rightarrow> rf_result \<Rightarrow> fetch_result" where
  "FromResourcefetchResult sha r =
     (let adapted = no_result\<lparr>fr_state := rf_state r, fr_blocked_reason := rf_reason r,
            fr_exhausted_dimension := rf_exhausted_dimension r,
            fr_usage := \<lparr>us_requests = rf_request_count r, us_downloaded_bytes = rf_wire_bytes r,
              us_decoded_bytes = rf_decoded_bytes r, us_extracted_bytes = rf_extracted_bytes r,
              us_runtime_storage_bytes = rf_extracted_bytes r, us_wall_seconds = rf_wall_seconds r\<rparr>,
            fr_retry_after_seconds := rf_retry_after_seconds r\<rparr>
      in if rf_state r = Blocked then
           (let a1 = (if rf_reason r = ''budget_exhausted''
                      then adapted\<lparr>fr_blocked_reason := ''budget_exhausted''\<rparr> else adapted)
            in if rf_retryable r \<and> rf_reason r = ''rate_limited'' then a1\<lparr>fr_http_status := 429\<rparr>
               else if rf_retryable r then a1\<lparr>fr_transient_network := True\<rparr>
               else a1)
         else
           (let links = filter keeps_link (rf_related_urls r);
                e = no_evidence\<lparr>ev_title := rf_title r, ev_author := rf_author r,
                      ev_published_at := rf_published_at r, ev_missingness := rf_missingness r,
                      ev_excerpts := map (link_excerpt sha) links,
                      ev_related := map (link_related sha) links\<rparr>;
                c = (if rf_text r = '''' then None
                     else Some \<lparr>co_canonical_url = '''', co_media_type = rf_media_type r,
                            co_completeness = (if rf_state r = Partial then ''partial'' else ''full''),
                            co_text = rf_text r, co_missingness = rf_missingness r,
                            co_access_class = ''public''\<rparr>)
            in adapted\<lparr>fr_evidence := e, fr_content := c\<rparr>))"

end
