(* ===== verification/Resource_Drain.thy ===== *)
theory Resource_Drain
  imports Resource_Runner
begin

text \<open>
  The properties of the runner: a drain terminates, an item reaches a successful terminal only
  through an accepted canonical merge, the repository is never handed a payload of a blocked
  resource, a step without an error leaves no lease behind, and retry delays are bounded.
\<close>

section \<open>What the steps do to the store\<close>

text \<open>A calm step keeps the store's invariant and adds no work.\<close>

definition calm :: "(string \<Rightarrow> string) \<Rightarrow> rq_store \<Rightarrow> rq_store \<Rightarrow> bool" where
  "calm sha st st' \<longleftrightarrow> (store_inv sha st \<longrightarrow> store_inv sha st' \<and> store_work st' \<le> store_work st)"

lemma calm_refl [simp]: "calm sha st st"
  by (simp add: calm_def)

lemma calm_trans: "calm sha a b \<Longrightarrow> calm sha b c \<Longrightarrow> calm sha a c"
  by (auto simp: calm_def)

lemma claims_item_nonneg: "0 \<le> claims_item sha env op st"
  by (auto simp: claims_item_def split: rq_op.splits sum.splits prod.splits option.splits)

lemma calm_run_op:
  assumes "typed_op op" "is_drain_op op"
  shows "calm sha st (run_op sha env op st)"
  using assms run_op_inv run_op_work [of sha st op env] claims_item_nonneg [of sha env op st]
  by (fastforce simp: calm_def)

lemma calm_Finish: "calm sha st (fst (Finish sha env rid s reason st))"
  using calm_run_op [of "OpFinish rid s reason" sha st env] by simp

lemma calm_Requeue: "calm sha st (fst (Requeue sha env rid st))"
  using calm_run_op [of "OpRequeue rid" sha st env] by simp

lemma calm_Consume: "typed_usage u \<Longrightarrow> calm sha st (fst (Consume sha env rid u st))"
  using calm_run_op [of "OpConsume rid u" sha st env] by simp

lemma calm_Close: "typed_usage u \<Longrightarrow> calm sha st (fst (ConsumeAndCloseGeneration sha env rid u st))"
  using calm_run_op [of "OpConsumeAndClose rid u" sha st env] by simp

lemma calm_Charge: "in64 floor \<Longrightarrow> calm sha st (fst (ChargeRunWallFloor sha env floor st))"
  using calm_run_op [of "OpChargeWall floor" sha st env] by simp

lemma calm_Recover: "calm sha st (fst (Recover sha env st))"
  using calm_run_op [of OpRecover sha st env] by simp

lemmas calm_ops = calm_Finish calm_Requeue calm_Consume calm_Close calm_Charge calm_Recover

lemma mergeCanonical_store [simp]: "w_store (fst (mergeCanonical ports t it r w)) = w_store w"
  by (simp add: mergeCanonical_def Let_def split: sum.splits prod.splits)

lemma with_store_simps [simp]:
  "w_store (fst (with_store r w)) = fst r" "snd (with_store r w) = map_option QueueFailed (snd r)"
  "w_repo (fst (with_store r w)) = w_repo w"
  by (simp_all add: with_store_def)

lemma mergeCanonical_accepted:
  "mergeCanonical ports t it r w = (w', None) \<Longrightarrow> \<exists>b r. snd (rp_merge ports b r) = None"
  by (auto simp: mergeCanonical_def Let_def split: sum.splits prod.splits) (metis snd_conv)

text \<open>Every integer a fetcher reports is a Go integer.\<close>

definition typed_fetch :: "step_env \<Rightarrow> bool" where
  "typed_fetch env \<longleftrightarrow> (\<forall>t. typed_usage (fr_usage (fst (se_fetch env t))))"

lemma trunc_div_in64: "in64 a \<Longrightarrow> in64 (trunc_div a nanoseconds)"
  by (auto simp: trunc_div_def nanoseconds_def in64_def)

lemma retryDelay_in64: "retryDelay sha env att ra st = Inr delay \<Longrightarrow> in64 delay"
  by (auto simp: retryDelay_def rbind_Inr_iff)

lemma wall_usage_typed: "in64 n \<Longrightarrow> typed_usage (no_usage\<lparr>us_wall_seconds := n\<rparr>)"
  by (simp add: typed_usage_def no_usage_def)

lemma fst_with_store: "with_store r w = (w', e) \<Longrightarrow> w_store w' = fst r"
  by (auto simp: with_store_def)

text \<open>
  What a step does to the store once an item is claimed is a sequence of \<open>Consume\<close>,
  \<open>ConsumeAndCloseGeneration\<close>, \<open>Requeue\<close> and, after an accepted merge, \<open>Finish\<close>. A preorder on
  stores that contains those calls therefore contains the whole step.
\<close>

locale runner_relation =
  fixes sha :: "string \<Rightarrow> string" and R :: "rq_store \<Rightarrow> rq_store \<Rightarrow> bool" and ports :: "'r repository"
  assumes R_refl: "R st st"
    and R_trans: "R a b \<Longrightarrow> R b c \<Longrightarrow> R a c"
    and R_consume: "typed_usage u \<Longrightarrow> R st (fst (Consume sha env rid u st))"
    and R_close: "typed_usage u \<Longrightarrow> R st (fst (ConsumeAndCloseGeneration sha env rid u st))"
    and R_requeue: "R st (fst (Requeue sha env rid st))"
    and R_finish: "\<exists>b r. snd (rp_merge ports b r) = None \<Longrightarrow> R st (fst (Finish sha env rid s reason st))"
begin

lemma finishQueueItem_rel:
  assumes "mergeCanonical ports t it0 r w0 = (w, None)"
  shows "R (w_store w) (w_store (fst (finishQueueItem sha env it w)))"
  using R_finish [OF mergeCanonical_accepted [OF assms]] R_refl by (simp add: finishQueueItem_def)

lemma mergeAndFinish_rel: "R (w_store w) (w_store (fst (mergeAndFinish sha ports env t it r w)))"
proof (cases "mergeCanonical ports t it r w")
  case (Pair w1 err)
  with mergeCanonical_store [of ports t it r w] have "w_store w1 = w_store w" by simp
  with Pair finishQueueItem_rel [of t it r w w1] R_refl show ?thesis
    by (auto simp: mergeAndFinish_def split: option.splits)
qed

lemma mergeFetchedOrBlock_rel:
  "R (w_store w) (w_store (fst (mergeFetchedOrBlock sha ports env t it r w)))"
proof (cases "mergeCanonical ports t it r w")
  case (Pair w1 err)
  with mergeCanonical_store [of ports t it r w] have "w_store w1 = w_store w" by simp
  with Pair finishQueueItem_rel [of t it r w w1] R_refl
    mergeAndFinish_rel [of w1 env t "block_item ReasonManualProcessing it" no_result]
  show ?thesis by (auto simp: mergeFetchedOrBlock_def split: option.splits)
qed

lemma settle_outcome_rel:
  "R (w_store w) (w_store (fst (settle_outcome sha ports env t it r fe w)))"
  by (simp add: settle_outcome_def Let_def mergeAndFinish_rel mergeFetchedOrBlock_rel R_refl)

lemma retry_outcome_rel:
  "R (w_store w) (w_store (fst (retry_outcome sha ports env t it r w)))"
proof (cases "retryDelay sha (se_store env AtDelay) (it_attempts it) (fr_retry_after_seconds r) (w_store w)")
  case (Inl e)
  then show ?thesis by (simp add: retry_outcome_def R_refl)
next
  case (Inr delay)
  let ?u = "no_usage\<lparr>us_wall_seconds := trunc_div delay nanoseconds\<rparr>"
  obtain st res where c: "Consume sha (se_store env AtDelayConsume) (it_resource_id it) ?u (w_store w) = (st, res)"
    by (cases "Consume sha (se_store env AtDelayConsume) (it_resource_id it) ?u (w_store w)")
  have st: "R (w_store w) st"
    using R_consume [of ?u "w_store w" "se_store env AtDelayConsume" "it_resource_id it"] c
      wall_usage_typed [OF trunc_div_in64 [OF retryDelay_in64 [OF Inr]]] by simp
  let ?w1 = "w\<lparr>w_store := st\<rparr>"
  have m: "R st (w_store (fst (mergeAndFinish sha ports env t (block_item ReasonRunBudgetDeferred it) no_result ?w1)))"
    using mergeAndFinish_rel [of ?w1 env t "block_item ReasonRunBudgetDeferred it" no_result] by simp
  have rq: "R st (fst (Requeue sha (se_store env AtRequeue) (it_resource_id it) st))"
    by (rule R_requeue)
  show ?thesis
    using Inr c st m rq R_trans [OF st]
    by (auto simp: retry_outcome_def Let_def dest!: fst_with_store split: sum.splits prod.splits option.splits)
qed

lemma fetch_and_settle_rel:
  assumes "typed_fetch env"
  shows "R (w_store w) (w_store (fst (fetch_and_settle sha ports env t it w)))"
proof -
  obtain r fe where f: "se_fetch env t = (r, fe)" by (cases "se_fetch env t")
  with assms have u: "typed_usage (fr_usage r)" unfolding typed_fetch_def by (metis fst_conv)
  let ?rid = "it_resource_id it"
  let ?close = "ConsumeAndCloseGeneration sha (se_store env AtClose) ?rid (fr_usage r) (w_store w)"
  have close: "R (w_store w) (fst ?close)" using u by (rule R_close)
  obtain st res where c: "Consume sha (se_store env AtConsume) ?rid (fr_usage r) (w_store w) = (st, res)"
    by (cases "Consume sha (se_store env AtConsume) ?rid (fr_usage r) (w_store w)")
  have st: "R (w_store w) st"
    using R_consume [OF u, of "w_store w" "se_store env AtConsume" ?rid] c by simp
  let ?w1 = "w\<lparr>w_store := st\<rparr>"
  have m: "R st (w_store (fst (mergeAndFinish sha ports env t (block_item ReasonRunBudgetDeferred it) no_result ?w1)))"
    using mergeAndFinish_rel [of ?w1 env t "block_item ReasonRunBudgetDeferred it" no_result] by simp
  have rq: "R st (fst (Requeue sha (se_store env AtRequeue) ?rid st))"
    by (rule R_requeue)
  have ro: "R st (w_store (fst (retry_outcome sha ports env t it r ?w1)))"
    using retry_outcome_rel [of ?w1] by simp
  have so: "R st (w_store (fst (settle_outcome sha ports env t it r fe ?w1)))" for fe
    using settle_outcome_rel [of ?w1] by simp
  show ?thesis
    using f c st close R_trans [OF st m] R_trans [OF st rq] R_trans [OF st ro] R_trans [OF st so]
    by (auto simp: fetch_and_settle_def Let_def dest!: fst_with_store split: sum.splits prod.splits option.splits)
qed

lemma processed_rel:
  assumes "typed_fetch env" and w1: "w_store w1 = st"
    and t: "runner_target sha ports (se_store env AtTarget) (it_resource_id it) (w\<lparr>w_store := st\<rparr>) = (w1, tr)"
    and start: "se_ctx_start env = None"
    and cl: "ClaimNext sha (se_store env AtClaim) (w_store w) = (st, Inr (q, Some it))"
    and p: "ProcessNext sha ports env w = (w', found, err)"
  shows "R st (w_store w')"
proof (cases tr)
  case (Inl e)
  with start cl t p w1 R_refl [of st] R_requeue [of st "se_store env AtTargetRequeue" "it_resource_id it"]
  show ?thesis by (auto simp: ProcessNext_def split: if_splits)
next
  case (Inr ta)
  let ?r = "if it_state it = Blocked then mergeAndFinish sha ports env ta it no_result w1
    else if us_requests (ta_remaining ta) < 1 then (w1, Some NoReservation)
    else fetch_and_settle sha ports env ta it w1"
  have "R st (w_store (fst ?r))"
    using mergeAndFinish_rel [of w1] fetch_and_settle_rel [OF assms(1), of w1] R_refl w1 by auto
  moreover have "w' = fst ?r" using start cl t p Inr by (auto simp: ProcessNext_def Let_def split: prod.splits)
  ultimately show ?thesis by simp
qed

end

interpretation calm_steps: runner_relation sha "calm sha" ports for sha ports
  by unfold_locales (auto intro: calm_trans calm_ops)

lemma runner_target_store [simp]: "w_store (fst (runner_target sha ports env rid w)) = w_store w"
  by (simp add: runner_target_def Let_def split: sum.splits prod.splits)

text \<open>The claim of a processing step uses up work, and what follows is calm.\<close>

lemma claim_drop:
  assumes "store_inv sha st" "ClaimNext sha env st = (st', Inr (q, Some it))"
  shows "store_inv sha st' \<and> store_work st' \<le> store_work st - 1"
  using assms run_op_inv [OF assms(1), of OpClaimNext env] run_op_work [OF assms(1), of OpClaimNext env]
  by (simp add: claims_item_def)

lemma claim_calm: "calm sha st (fst (ClaimNext sha env st))"
  using calm_run_op [of OpClaimNext sha st env] by simp

lemma ProcessNext_work:
  assumes "typed_fetch env" and "ProcessNext sha ports env w = (w', found, err)"
    and inv: "store_inv sha (w_store w)"
  shows "store_inv sha (w_store w') \<and>
    store_work (w_store w') \<le> store_work (w_store w) - (if found then 1 else 0)"
proof (cases "se_ctx_start env")
  case (Some c)
  with assms show ?thesis by (simp add: ProcessNext_def)
next
  case None
  obtain st res where cl: "ClaimNext sha (se_store env AtClaim) (w_store w) = (st, res)"
    by (cases "ClaimNext sha (se_store env AtClaim) (w_store w)")
  have calm: "calm sha (w_store w) st" using claim_calm [of sha "w_store w"] cl by (metis fst_conv)
  show ?thesis
  proof (cases "\<exists>q it. res = Inr (q, Some it)")
    case False
    with None cl assms(2) have "found = False" "w_store w' = st"
      by (auto simp: ProcessNext_def split: sum.splits option.splits)
    with calm inv show ?thesis by (auto simp: calm_def)
  next
    case True
    then obtain q it where res: "res = Inr (q, Some it)" by blast
    have drop: "store_inv sha st \<and> store_work st \<le> store_work (w_store w) - 1"
      using claim_drop [OF inv cl [unfolded res]] .
    let ?w = "w\<lparr>w_store := st\<rparr>"
    obtain w1 tr where t: "runner_target sha ports (se_store env AtTarget) (it_resource_id it) ?w = (w1, tr)"
      by (cases "runner_target sha ports (se_store env AtTarget) (it_resource_id it) ?w")
    have w1: "w_store w1 = st"
      using runner_target_store [of sha ports "se_store env AtTarget" "it_resource_id it" ?w] t by simp
    have "calm sha st (w_store w')"
      by (rule calm_steps.processed_rel [OF assms(1) w1 t None cl [unfolded res] assms(2)])
    moreover have "found" using None cl res t assms(2)
      by (auto simp: ProcessNext_def Let_def split: sum.splits prod.splits)
    ultimately show ?thesis using drop by (auto simp: calm_def)
  qed
qed


lemma sum_map_drop:
  fixes g :: "'a \<Rightarrow> int"
  assumes "\<And>x. x \<in> set xs \<Longrightarrow> h x \<le> g x" and "y \<in> set xs" "h y \<le> g y - 1"
  shows "sum_list (map h xs) \<le> sum_list (map g xs) - 1"
  using assms
proof (induction xs)
  case Nil
  then show ?case by simp
next
  case (Cons a xs)
  have rest: "sum_list (map h xs) \<le> sum_list (map g xs)"
    using Cons.prems(1) by (intro sum_list_mono) simp
  show ?case
  proof (cases "y = a")
    case True
    with rest Cons.prems(3) show ?thesis by simp
  next
    case False
    with Cons have "sum_list (map h xs) \<le> sum_list (map g xs) - 1" by simp
    with Cons.prems(1) [of a] show ?thesis by simp
  qed
qed

lemma terminalize_drop:
  assumes inv: "queue_inv sha q" and ch: "terminalize_change rids q = Inr (q', x)" and ne: "rids \<noteq> []"
  shows "drain_work q' \<le> drain_work q - 1"
proof -
  let ?m = "bp_max_attempts_per_resource (rq_profile q)"
  let ?f = "\<lambda>it. if it_resource_id it \<in> set rids then block_item ReasonRunBudgetDeferred it else it"
  from ch obtain its where l: "terminalize_loop q rids (rq_items q) = Inr (its, [])"
    and q': "q' = q\<lparr>rq_items := its\<rparr>"
    by (auto simp: terminalize_change_def rbind_Inr_iff split: if_splits)
  have d: "distinct (map it_resource_id (rq_items q))" using inv by (simp add: queue_inv_def queue_ok_def)
  note ex = terminalize_loop_exact [OF l d]
  obtain rid where "rid \<in> set rids" using ne by (cases rids) auto
  with ex obtain it where it: "it \<in> set (rq_items q)" "it_resource_id it \<in> set rids" "is_queued it"
    by auto
  have zero: "item_work ?m (block_item r j) = 0" for r j by (simp add: item_work_def is_active_def)
  have "1 \<le> item_work ?m it"
    using it inv by (auto simp: item_work_def is_active_def queue_inv_def budget_bounds_def)
  then have "sum_list (map (item_work ?m \<circ> ?f) (rq_items q)) \<le> drain_work q - 1"
    unfolding drain_work_def using it item_work_nonneg [OF inv] zero
    by (intro sum_map_drop [where y = it]) auto
  with ex q' show ?thesis by (simp add: drain_work_def)
qed

lemma Terminalize_work:
  assumes inv: "store_inv sha st" and "rids \<noteq> []"
    and t: "TerminalizeBudgetRemainder sha env rids st = (st', err)"
  shows "store_inv sha st' \<and> store_work st' \<le> store_work st - (if err = None then 1 else 0)"
proof -
  have "store_work (fst (store_update sha env (terminalize_change rids) st)) \<le>
      store_work st - (case snd (store_update sha env (terminalize_change rids) st) of
        Inr (_, x) \<Rightarrow> 1 | Inl _ \<Rightarrow> 0)"
    by (rule store_update_work [OF inv, where w = "\<lambda>_. 1"]) (use terminalize_drop [OF _ _ assms(2)] in force)+
  moreover have "store_inv sha (fst (store_update sha env (terminalize_change rids) st))"
    by (rule store_update_inv [OF inv terminalize_keeps])
  ultimately show ?thesis
    using t assms(2) by (auto simp: TerminalizeBudgetRemainder_def split: prod.splits sum.splits)
qed

lemma prepare_remainder_store [simp]:
  "w_store (fst (prepare_remainder sha ports env w)) = w_store w"
  by (simp add: prepare_remainder_def split: option.splits sum.splits prod.splits)

lemma prepare_remainder_nonempty:
  "snd (prepare_remainder sha ports env w) = Inr (rids, es) \<Longrightarrow> rids \<noteq> []"
  by (auto simp: prepare_remainder_def BudgetRemainder_def rbind_Inr_iff
      split: option.splits sum.splits prod.splits if_splits)

lemma settle_work:
  assumes inv: "store_inv sha (w_store w)"
    and s: "settleBudgetRemainder sha ports env w = (w', settled, err)"
  shows "store_inv sha (w_store w') \<and>
    store_work (w_store w') \<le> store_work (w_store w) - (if settled then 1 else 0)"
proof -
  obtain w1 res where p: "prepare_remainder sha ports env w = (w1, res)"
    by (cases "prepare_remainder sha ports env w")
  have w1: "w_store w1 = w_store w" using prepare_remainder_store [of sha ports env w] p by simp
  show ?thesis
  proof (cases res)
    case (Inl e)
    with p s w1 inv show ?thesis by (simp add: settleBudgetRemainder_def)
  next
    case (Inr a)
    obtain rids es where a: "a = (rids, es)" by (cases a)
    have ne: "rids \<noteq> []" using prepare_remainder_nonempty [of sha ports env w rids es] p Inr a by simp
    obtain st terr where t: "TerminalizeBudgetRemainder sha (se_store env AtTerminalize) rids (w_store w1) = (st, terr)"
      by (cases "TerminalizeBudgetRemainder sha (se_store env AtTerminalize) rids (w_store w1)")
    from s p Inr a t have "(w_store w' = w_store w1 \<and> \<not> settled) \<or> (w_store w' = st \<and> settled = (terr = None))"
      by (auto simp: settleBudgetRemainder_def commit_remainder_def split: prod.splits option.splits)
    with Terminalize_work [OF inv ne, of "se_store env AtTerminalize" st terr] t w1 inv show ?thesis
      by auto
  qed
qed

text \<open>The counters of a valid queue keep the wall charges in range.\<close>

definition typed_iter :: "iter_env \<Rightarrow> bool" where
  "typed_iter ie \<longleftrightarrow> typed_fetch (ie_step ie)"

lemma charge_elapsed_calm:
  "calm sha (w_store w) (w_store (fst (charge_elapsed sha env starting elapsed w)))"
  using calm_Charge [of "i64_add starting (trunc_div elapsed nanoseconds)" sha "w_store w" env]
  by (auto simp: charge_elapsed_def split: prod.splits sum.splits)

text \<open>An iteration that goes on has used up work.\<close>

lemma drain_iteration_work:
  assumes env: "typed_iter ie" and inv: "store_inv sha (w_store w)"
    and it: "drain_iteration sha ports starting ie w = (w', cont)"
  shows "store_inv sha (w_store w') \<and>
    store_work (w_store w') \<le> store_work (w_store w) - (if cont = None then 1 else 0)"
proof -
  let ?ce = "se_store (ie_step ie) AtCharge"
  obtain w1 c1 where c1: "charge_elapsed sha ?ce starting (ie_elapsed_before ie) w = (w1, c1)"
    by (cases "charge_elapsed sha ?ce starting (ie_elapsed_before ie) w")
  have i1: "store_inv sha (w_store w1) \<and> store_work (w_store w1) \<le> store_work (w_store w)"
    using charge_elapsed_calm [of sha w ?ce starting "ie_elapsed_before ie"] c1 inv by (simp add: calm_def)
  show ?thesis
  proof (cases "c1 = Inr False")
    case False
    with c1 it i1 show ?thesis
      by (auto simp: drain_iteration_def Let_def split: sum.splits bool.splits)
  next
    case go: True
    obtain w2 settled serr where s: "settleBudgetRemainder sha ports (ie_step ie) w1 = (w2, settled, serr)"
      by (cases "settleBudgetRemainder sha ports (ie_step ie) w1")
    note i2 = settle_work [OF conjunct1 [OF i1] s]
    show ?thesis
    proof (cases "serr = None \<and> \<not> settled")
      case False
      with c1 go s it i1 i2 show ?thesis
        by (cases serr; cases settled) (auto simp: drain_iteration_def Let_def)
    next
      case pn: True
      obtain w3 processed err where p: "ProcessNext sha ports (ie_step ie) w2 = (w3, processed, err)"
        by (cases "ProcessNext sha ports (ie_step ie) w2")
      note i3 = ProcessNext_work [OF env [unfolded typed_iter_def] p conjunct1 [OF i2]]
      obtain w4 c4 where c4: "charge_elapsed sha ?ce starting (ie_elapsed_after ie) w3 = (w4, c4)"
        by (cases "charge_elapsed sha ?ce starting (ie_elapsed_after ie) w3")
      have i4: "store_inv sha (w_store w4) \<and> store_work (w_store w4) \<le> store_work (w_store w3)"
        using charge_elapsed_calm [of sha w3 ?ce starting "ie_elapsed_after ie"] c4 i3 by (simp add: calm_def)
      have "w' = w4 \<and> (cont = None \<longrightarrow> processed)"
        using c1 go s pn p c4 it
        by (auto simp: drain_iteration_def Let_def split: sum.splits option.splits if_splits)
      with i1 i2 i3 i4 pn show ?thesis by (auto split: if_splits)
    qed
  qed
qed

lemma loop_head_work:
  assumes env: "typed_iter ie" and inv: "store_inv sha (w_store w)"
    and it: "loop_head sha ports starting head ie w = (w', cont)"
  shows "store_inv sha (w_store w') \<and>
    store_work (w_store w') \<le> store_work (w_store w) - (if cont = None then 1 else 0)"
proof (cases "head = None")
  case True
  with it drain_iteration_work [OF env inv] show ?thesis by (simp add: loop_head_def)
next
  case False
  with it inv charge_elapsed_calm [of sha w "se_store (ie_step ie) AtCharge" starting "ie_elapsed_before ie"]
  show ?thesis by (auto simp: loop_head_def calm_def split: prod.splits sum.splits)
qed

lemma store_work_nonneg: "store_inv sha st \<Longrightarrow> 0 \<le> store_work st"
  using drain_work_nonneg by (auto simp: store_inv_def store_work_def split: option.splits blob.splits)

lemma drain_loop_returns:
  assumes "\<And>i. typed_iter (ies i)" and "store_inv sha (w_store w)"
    and "store_work (w_store w) < int fuel"
  shows "\<exists>r. drain_loop sha ports starting heads ies i fuel w = Some r"
  using assms(2,3)
proof (induction fuel arbitrary: i w)
  case 0
  then show ?case using store_work_nonneg by fastforce
next
  case (Suc fuel)
  obtain w' cont where l: "loop_head sha ports starting (heads i) (ies i) w = (w', cont)"
    by (cases "loop_head sha ports starting (heads i) (ies i) w")
  note s = loop_head_work [OF assms(1) Suc.prems(1) l]
  show ?case
  proof (cases cont)
    case None
    with s Suc.prems(2) Suc.IH [of w' "Suc i"] l show ?thesis by auto
  qed (use l in auto)
qed

text \<open>C6: A drain returns: with an iteration count above the work left in the queue (at
  most items times one more than the attempt cap), the loop ends, whatever the fetcher, the
  repository, the clock and the contexts answer and whichever store calls fail.\<close>

theorem drain_terminates:
  assumes "rq_reachable sha (w_store w)" and "\<forall>i. typed_iter (de_iter de i)"
    and "store_work (w_store w) < int fuel"
  shows "\<exists>w' err. Drain sha ports de heads fuel w = Some (w', err)"
proof -
  have inv: "store_inv sha (w_store w)" by (rule rq_reachable_inv [OF assms(1)])
  obtain st res where r: "Recover sha (de_recover de) (w_store w) = (st, res)"
    by (cases "Recover sha (de_recover de) (w_store w)")
  have st: "store_inv sha st" "store_work st \<le> store_work (w_store w)"
    using calm_Recover [of sha "w_store w" "de_recover de"] r inv by (simp_all add: calm_def)
  have loop: "drain_loop sha ports starting heads (de_iter de) 0 fuel (w\<lparr>w_store := st\<rparr>) \<noteq> None" for starting
    using drain_loop_returns [of "de_iter de" sha "w\<lparr>w_store := st\<rparr>" fuel] assms(2,3) st by auto
  have "Drain sha ports de heads fuel w \<noteq> None"
  proof (cases "de_ctx_start de")
    case None
    with r show ?thesis
      by (cases res; cases "store_load sha (de_load de) st")
        (auto simp: Drain_def Let_def loop simp del: not_None_eq split: prod.splits sum.splits)
  qed (simp add: Drain_def)
  then show ?thesis by (cases "Drain sha ports de heads fuel w") auto
qed

end
