(* ===== verification/Resource_Evidence.thy ===== *)
theory Resource_Evidence
  imports Resource_Drain
begin

text \<open>
  What the runner tells the canonical repository and when it lets an item become terminal: no
  payload of a blocked resource reaches the repository, an item succeeds only through an accepted
  merge, a step without an error leaves no lease behind, retry delays are bounded, and the fetch
  adapter keeps the provenance of every related link.
\<close>

section \<open>Payloads\<close>

text \<open>A repository that refuses every batch outside \<open>P\<close>.\<close>

definition guarded :: "(batch \<Rightarrow> bool) \<Rightarrow> 'r repository \<Rightarrow> 'r repository" where
  "guarded P ports = ports\<lparr>rp_merge := \<lambda>b r. if P b then rp_merge ports b r else (r, Some RepositoryFailed)\<rparr>"

definition evidence_bare :: "evidence \<Rightarrow> bool" where
  "evidence_bare e \<longleftrightarrow>
     ev_canonical_item_id e = '''' \<and> ev_title e = '''' \<and> ev_author e = '''' \<and>
     ev_published_at e = '''' \<and> ev_excerpts e = [] \<and> ev_related e = []"

definition batch_clean :: "batch \<Rightarrow> bool" where
  "batch_clean b \<longleftrightarrow>
     (\<forall>e \<in> set (ba_resources b). ev_state e \<noteq> ''complete'' \<and> ev_state e \<noteq> ''partial'' \<longrightarrow>
        ba_contents b = [] \<and> evidence_bare e) \<and>
     (\<forall>c \<in> set (ba_contents b). \<exists>e \<in> set (ba_resources b). co_canonical_url c = ev_canonical_url e)"

lemma guarded_load [simp]: "rp_load (guarded P ports) = rp_load ports"
  by (simp add: guarded_def)

lemma guarded_merge: "P b \<Longrightarrow> rp_merge (guarded P ports) b r = rp_merge ports b r"
  by (simp add: guarded_def)

lemma canonical_evidence_fields:
  "ev_state (canonical_evidence t it r s ms) = s"
  "ev_canonical_url (canonical_evidence t it r s ms) = ta_canonical_url t"
  "evidence_bare (canonical_evidence t it no_result s ms)"
  by (simp_all add: canonical_evidence_def Let_def evidence_bare_def no_result_def no_evidence_def)

lemma CanonicalState_success:
  "CanonicalState st r = Inr (s, ms) \<Longrightarrow> st \<noteq> Blocked \<Longrightarrow> s = ''complete'' \<or> s = ''partial''"
  by (cases st) (auto simp: CanonicalState_def)

lemma mergeCanonical_guarded:
  assumes "it_state it = Blocked \<longrightarrow> r = no_result"
  shows "mergeCanonical (guarded batch_clean ports) t it r w = mergeCanonical ports t it r w"
proof (cases "CanonicalState (it_state it) (it_reason it)")
  case (Inl e)
  then show ?thesis by (simp add: mergeCanonical_def)
next
  case (Inr a)
  obtain s ms where a: "a = (s, ms)" by (cases a)
  let ?contents = "case fr_content r of None \<Rightarrow> [] | Some c \<Rightarrow> [c\<lparr>co_canonical_url := ta_canonical_url t\<rparr>]"
  let ?b = "\<lparr>ba_schema_version = enrichment_schema, ba_resources = [canonical_evidence t it r s ms],
      ba_contents = ?contents\<rparr>"
  have "batch_clean ?b"
  proof (cases "it_state it = Blocked")
    case True
    with assms have "r = no_result" by simp
    then show ?thesis
      by (simp add: batch_clean_def canonical_evidence_fields) (simp add: no_result_def)
  next
    case False
    with Inr a have "s = ''complete'' \<or> s = ''partial''" by (auto dest: CanonicalState_success)
    then show ?thesis
      by (auto simp: batch_clean_def canonical_evidence_fields split: option.splits)
  qed
  with Inr a show ?thesis by (simp add: mergeCanonical_def Let_def guarded_merge)
qed

lemma mergeAndFinish_guarded:
  "mergeAndFinish sha (guarded batch_clean ports) env t it no_result w = mergeAndFinish sha ports env t it no_result w"
  by (simp add: mergeAndFinish_def mergeCanonical_guarded)

lemma mergeFetchedOrBlock_guarded:
  "it_state it \<noteq> Blocked \<Longrightarrow>
    mergeFetchedOrBlock sha (guarded batch_clean ports) env t it r w = mergeFetchedOrBlock sha ports env t it r w"
  unfolding mergeFetchedOrBlock_def mergeAndFinish_guarded by (simp add: mergeCanonical_guarded)

lemma settle_outcome_guarded:
  "settle_outcome sha (guarded batch_clean ports) env t it r fe w = settle_outcome sha ports env t it r fe w"
  by (auto simp: settle_outcome_def Let_def mergeAndFinish_guarded mergeFetchedOrBlock_guarded)

lemma retry_outcome_guarded:
  "retry_outcome sha (guarded batch_clean ports) env t it r w = retry_outcome sha ports env t it r w"
  unfolding retry_outcome_def mergeAndFinish_guarded ..

lemma fetch_and_settle_guarded:
  "fetch_and_settle sha (guarded batch_clean ports) env t it w = fetch_and_settle sha ports env t it w"
  unfolding fetch_and_settle_def mergeAndFinish_guarded retry_outcome_guarded settle_outcome_guarded ..

lemma runner_target_guarded:
  "runner_target sha (guarded P ports) env rid w = runner_target sha ports env rid w"
  by (simp add: runner_target_def)

lemma remainder_loop_deferred:
  "remainder_loop poll urls index rids = Inr es \<Longrightarrow>
    length es = length rids \<and> (\<forall>e \<in> set es. \<exists>url. e = deferred_evidence url)"
  by (induction poll urls index rids arbitrary: es rule: remainder_loop.induct)
    (auto simp: rbind_Inr_iff split: option.splits if_splits)

lemma deferred_bare: "evidence_bare (deferred_evidence url)"
  by (simp add: deferred_evidence_def evidence_bare_def no_evidence_def)

lemma prepare_remainder_evidence:
  "snd (prepare_remainder sha ports env w) = Inr (rids, es) \<Longrightarrow>
    length es = length rids \<and> (\<forall>e \<in> set es. \<exists>url. e = deferred_evidence url)"
  using remainder_loop_deferred
  by (fastforce simp: prepare_remainder_def split: option.splits sum.splits prod.splits if_splits)

lemma settle_guarded:
  "settleBudgetRemainder sha (guarded batch_clean ports) env w = settleBudgetRemainder sha ports env w"
proof -
  have p: "prepare_remainder sha (guarded batch_clean ports) env w = prepare_remainder sha ports env w"
    unfolding prepare_remainder_def guarded_load ..
  have c: "commit_remainder sha (guarded batch_clean ports) env rids es w1 = commit_remainder sha ports env rids es w1"
    if "\<forall>e \<in> set es. \<exists>url. e = deferred_evidence url" for rids es w1
  proof -
    have "batch_clean \<lparr>ba_schema_version = enrichment_schema, ba_resources = es, ba_contents = []\<rparr>"
      using that deferred_bare by (auto simp: batch_clean_def)
    then show ?thesis by (simp add: commit_remainder_def guarded_merge)
  qed
  from prepare_remainder_evidence [of sha ports env w] show ?thesis
    by (auto simp: settleBudgetRemainder_def p split: prod.splits sum.splits intro: c)
qed

text \<open>C8: The canonical repository never receives a payload of a blocked resource:
  refusing every batch that carries content, a title, an author, a date, an excerpt or a related
  link for a resource whose state is not complete or partial (or content for another URL than its
  evidence) changes nothing about a processing step or about the settlement of a remainder.\<close>

theorem no_blocked_payload:
  "ProcessNext sha (guarded batch_clean ports) env w = ProcessNext sha ports env w \<and>
   settleBudgetRemainder sha (guarded batch_clean ports) env w = settleBudgetRemainder sha ports env w"
proof
  show "ProcessNext sha (guarded batch_clean ports) env w = ProcessNext sha ports env w"
    unfolding ProcessNext_def runner_target_guarded mergeAndFinish_guarded fetch_and_settle_guarded ..
  show "settleBudgetRemainder sha (guarded batch_clean ports) env w = settleBudgetRemainder sha ports env w"
    by (rule settle_guarded)
qed

section \<open>Success needs an accepted merge\<close>

definition success_state :: "item_state \<Rightarrow> bool" where
  "success_state s \<longleftrightarrow> s = Complete \<or> s = Partial"

definition queue_ids :: "(item_state \<Rightarrow> bool) \<Rightarrow> queue \<Rightarrow> string set" where
  "queue_ids P q = it_resource_id ` {it \<in> set (rq_items q). P (it_state it)}"

definition store_ids :: "(item_state \<Rightarrow> bool) \<Rightarrow> rq_store \<Rightarrow> string set" where
  "store_ids P st = (case current_file (st_disk st) of Some (Doc q) \<Rightarrow> queue_ids P q | _ \<Rightarrow> {})"

definition shrinks :: "(item_state \<Rightarrow> bool) \<Rightarrow> 'x change \<Rightarrow> bool" where
  "shrinks P change \<longleftrightarrow> (\<forall>q q' x. change q = Inr (q', x) \<longrightarrow> queue_ids P q' \<subseteq> queue_ids P q)"

lemma queue_ids_Seal [simp]: "queue_ids P (Seal sha q) = queue_ids P q"
  by (simp add: queue_ids_def)

lemma load_ids: "store_load sha env st = Inr q \<Longrightarrow> queue_ids P q = store_ids P st"
  using store_load_ok [of sha env st q] by (auto simp: store_ids_def queue_ids_def)

lemma store_update_shrinks:
  assumes "shrinks P change"
  shows "store_ids P (fst (store_update sha env change st)) \<subseteq> store_ids P st"
proof -
  obtain st' r where u: "store_update sha env change st = (st', r)"
    by (cases "store_update sha env change st")
  from store_update_current [OF u] show ?thesis
  proof
    assume "current_file (st_disk st') = current_file (st_disk st)"
    with u show ?thesis by (simp add: store_ids_def)
  next
    assume "\<exists>q q0 x. store_load sha env st = Inr q \<and> change q = Inr (q0, x) \<and>
       Validate sha (Seal sha q0) = None \<and> current_file (st_disk st') = Some (Doc (Seal sha q0))"
    then obtain q q0 x where q: "store_load sha env st = Inr q" "change q = Inr (q0, x)"
      and c: "current_file (st_disk st') = Some (Doc (Seal sha q0))" by blast
    from assms q(2) load_ids [OF q(1), of P] have "queue_ids P q0 \<subseteq> store_ids P st"
      by (auto simp: shrinks_def)
    with c u show ?thesis by (simp add: store_ids_def)
  qed
qed

lemma ids_update_first:
  assumes "\<And>it. Q it \<Longrightarrow> it_resource_id (f it) = it_resource_id it"
    and "\<And>it. Q it \<Longrightarrow> P (it_state (f it)) \<Longrightarrow> P (it_state it)"
  shows "it_resource_id ` {it \<in> set (update_first Q f its). P (it_state it)}
    \<subseteq> it_resource_id ` {it \<in> set its. P (it_state it)}"
proof
  fix rid assume "rid \<in> it_resource_id ` {it \<in> set (update_first Q f its). P (it_state it)}"
  then obtain it where it: "it \<in> set (update_first Q f its)" "P (it_state it)" "rid = it_resource_id it"
    by blast
  from set_update_first [OF it(1)] show "rid \<in> it_resource_id ` {it \<in> set its. P (it_state it)}"
  proof
    assume "\<exists>x. List.find Q its = Some x \<and> it = f x"
    then obtain x where fx: "List.find Q its = Some x" and itx: "it = f x" by blast
    from find_Some_sat [OF fx] itx have x: "x \<in> set its" "Q x" "it = f x" by simp_all
    have "rid = it_resource_id x" using it(3) x(3) assms(1) [OF x(2)] by simp
    moreover have "P (it_state x)" using assms(2) [OF x(2)] it(2) x(3) by simp
    ultimately show ?thesis using x(1) by blast
  qed (use it in auto)
qed

lemma consume_shrinks: "shrinks P (consumeUsage rid u)"
  unfolding shrinks_def
proof (intro allI impI)
  fix q q' x assume "consumeUsage rid u q = Inr (q', x)"
  then show "queue_ids P q' \<subseteq> queue_ids P q"
  proof (cases rule: consumeUsage_cases)
    case (1 it c')
    have "rq_items q' = update_first (processing_item rid) settle_item (rq_items q)"
      using 1(2) by simp
    then show ?thesis
      unfolding queue_ids_def by (simp only:) (rule ids_update_first, simp_all)
  qed
qed

lemma requeue_shrinks:
  assumes "\<not> P Queued"
  shows "shrinks P (requeue_change rid)"
  unfolding shrinks_def
proof (intro allI impI)
  fix q q' x assume "requeue_change rid q = Inr (q', x)"
  then have q': "rq_items q' = update_first (processing_item rid)
      (\<lambda>it. it\<lparr>it_reserved_requests := 0, it_state := Queued\<rparr>) (rq_items q)"
    by (auto simp: requeue_change_def split: option.splits)
  show "queue_ids P q' \<subseteq> queue_ids P q"
    unfolding queue_ids_def q' by (rule ids_update_first) (use assms in auto)
qed

lemma close_shrinks:
  assumes "\<not> P Queued"
  shows "shrinks P (consume_and_close_change rid u)"
  unfolding shrinks_def
proof (intro allI impI)
  fix q q' x assume "consume_and_close_change rid u q = Inr (q', x)"
  then obtain q1 where c: "consumeUsage rid u q = Inr (q1, x)"
    and q': "rq_items q' = update_first (processing_item rid) (\<lambda>it. it\<lparr>it_state := Queued\<rparr>) (rq_items q1)"
    by (auto simp: consume_and_close_change_def rbind_Inr_iff split: if_splits option.splits)
  have "queue_ids P q' \<subseteq> queue_ids P q1"
    unfolding queue_ids_def q' by (rule ids_update_first) (use assms in auto)
  also have "\<dots> \<subseteq> queue_ids P q"
    using consume_shrinks [of P rid u, unfolded shrinks_def] c by blast
  finally show "queue_ids P q' \<subseteq> queue_ids P q" .
qed


lemma block_claim_shrinks:
  assumes "\<not> P Blocked" "\<not> P Processing"
  shows "shrinks P claim_change"
  unfolding shrinks_def
proof (intro allI impI)
  fix q q' x assume "claim_change q = Inr (q', x)"
  then show "queue_ids P q' \<subseteq> queue_ids P q"
  proof (cases rule: claim_cases)
    case none
    then show ?thesis by (simp add: queue_ids_def)
  next
    case (attempts it)
    show ?thesis using assms attempts(4) by (auto simp: queue_ids_def dest!: set_update_first)
  next
    case (deferred it)
    show ?thesis using assms deferred(5) by (auto simp: queue_ids_def dest!: set_update_first)
  next
    case (claimed it)
    show ?thesis using assms claimed(5) by (auto simp: queue_ids_def dest!: set_update_first)
  qed
qed

definition rejects_all :: "'r repository \<Rightarrow> bool" where
  "rejects_all ports \<longleftrightarrow> (\<forall>b r. snd (rp_merge ports b r) \<noteq> None)"

text \<open>Stores whose successes can only shrink, as long as the repository rejects every merge.\<close>

definition no_new_success :: "'r repository \<Rightarrow> rq_store \<Rightarrow> rq_store \<Rightarrow> bool" where
  "no_new_success ports st st' \<longleftrightarrow>
     (rejects_all ports \<longrightarrow> store_ids success_state st' \<subseteq> store_ids success_state st)"

lemma not_success [simp]:
  "\<not> success_state Queued" "\<not> success_state Processing" "\<not> success_state Blocked"
  by (simp_all add: success_state_def)

lemma refused_ids [simp]: "fst (refused e st) = st"
  by (simp add: refused_def)

interpretation success_steps: runner_relation sha "no_new_success ports" ports for sha ports
proof (unfold_locales, goal_cases)
  case (3 u st env rid)
  then show ?case
    using store_update_shrinks [OF consume_shrinks [of success_state rid u], of sha env st]
    by (auto simp: no_new_success_def Consume_def)
next
  case (4 u st env rid)
  then show ?case
    using store_update_shrinks [OF close_shrinks [of success_state rid u], of sha env st]
    by (auto simp: no_new_success_def ConsumeAndCloseGeneration_def)
next
  case (5 st env rid)
  then show ?case
    using store_update_shrinks [OF requeue_shrinks [of success_state rid], of sha env st]
    by (auto simp: no_new_success_def Requeue_def)
next
  case 6
  then show ?case unfolding no_new_success_def rejects_all_def by blast
qed (auto simp: no_new_success_def)

text \<open>C7: A resource becomes complete or partial in the queue only through an
  accepted canonical merge: with a repository that rejects every batch, a processing step, whatever
  the fetcher reports and whichever store calls fail, adds no successful item.\<close>

theorem success_needs_merge:
  assumes "\<forall>b r. snd (rp_merge ports b r) \<noteq> None" and "typed_fetch env"
    and p: "ProcessNext sha ports env w = (w', found, err)"
  shows "store_ids success_state (w_store w') \<subseteq> store_ids success_state (w_store w)"
proof (cases "se_ctx_start env")
  case (Some c)
  with p show ?thesis by (simp add: ProcessNext_def)
next
  case None
  obtain st res where cl: "ClaimNext sha (se_store env AtClaim) (w_store w) = (st, res)"
    by (cases "ClaimNext sha (se_store env AtClaim) (w_store w)")
  have claim: "store_ids success_state st \<subseteq> store_ids success_state (w_store w)"
    using store_update_shrinks [OF block_claim_shrinks [of success_state], of sha "se_store env AtClaim" "w_store w"] cl
    by (simp add: ClaimNext_def)
  show ?thesis
  proof (cases "\<exists>q it. res = Inr (q, Some it)")
    case False
    with None cl p have "w_store w' = st"
      by (auto simp: ProcessNext_def split: sum.splits option.splits)
    with claim show ?thesis by simp
  next
    case True
    then obtain q it where res: "res = Inr (q, Some it)" by blast
    obtain w1 tr where t: "runner_target sha ports (se_store env AtTarget) (it_resource_id it)
        (w\<lparr>w_store := st\<rparr>) = (w1, tr)"
      by (cases "runner_target sha ports (se_store env AtTarget) (it_resource_id it) (w\<lparr>w_store := st\<rparr>)")
    have w1: "w_store w1 = st"
      using runner_target_store [of sha ports "se_store env AtTarget" "it_resource_id it" "w\<lparr>w_store := st\<rparr>"] t
      by simp
    have "no_new_success ports st (w_store w')"
      by (rule success_steps.processed_rel [OF assms(2) w1 t None cl [unfolded res] p])
    with assms(1) claim show ?thesis by (auto simp: no_new_success_def rejects_all_def)
  qed
qed

definition rejecting_repository :: "unit repository" where
  "rejecting_repository = \<lparr>rp_load = \<lambda>r. (r, Inr [(''r1'', ''https://one''), (''r2'', ''https://two'')]),
     rp_merge = \<lambda>b r. (r, Some RepositoryFailed)\<rparr>"

definition quiet_step :: "fetch_result \<Rightarrow> step_env" where
  "quiet_step r = \<lparr>se_store = (\<lambda>_. quiet_store_env), se_ctx_start = None, se_ctx_target = None,
     se_ctx_fetched = None, se_fetch = (\<lambda>_. (r, None)), se_sleep = (\<lambda>_. None), se_ctx_settle = (\<lambda>_. None)\<rparr>"

lemma quiet_step_typed: "typed_usage (fr_usage r) \<Longrightarrow> typed_fetch (quiet_step r)"
  by (simp add: typed_fetch_def quiet_step_def)

theorem success_needs_merge_witness:
  "store_ids success_state
     (w_store (fst (ProcessNext demo_sha rejecting_repository (quiet_step no_result)
        \<lparr>w_store = queued_store, w_repo = ()\<rparr>))) = {}"
proof -
  have "typed_usage no_usage" by (simp add: typed_usage_def no_usage_def)
  then have t: "typed_fetch (quiet_step no_result)"
    by (intro quiet_step_typed) (simp add: no_result_def)
  have r: "\<forall>b r. snd (rp_merge rejecting_repository b r) \<noteq> None" by (simp add: rejecting_repository_def)
  have "store_ids success_state queued_store = {}"
    by (auto simp: store_ids_def queued_store_def queue_ids_def demo_queue_items)
  moreover obtain w' found err where p: "ProcessNext demo_sha rejecting_repository (quiet_step no_result)
      \<lparr>w_store = queued_store, w_repo = ()\<rparr> = (w', found, err)"
    by (metis prod_cases3)
  ultimately show ?thesis using success_needs_merge [OF r t p] by simp
qed


section \<open>Leases\<close>

abbreviation leases :: "rq_store \<Rightarrow> string set" where
  "leases st \<equiv> store_ids (\<lambda>s. s = Processing) st"

lemma load_distinct:
  assumes "store_load sha env st = Inr q"
  shows "distinct (map it_resource_id (rq_items q))"
  using store_load_ok [OF assms] by (auto simp: Validate_None_iff queue_ok_def)

lemma release_ids:
  assumes "distinct (map it_resource_id its)"
    and "\<And>it. it_resource_id (f it) = it_resource_id it" "\<And>it. it_state (f it) \<noteq> Processing"
  shows "it_resource_id ` {it \<in> set (update_first (processing_item rid) f its). it_state it = Processing}
    \<subseteq> it_resource_id ` {it \<in> set its. it_state it = Processing} - {rid}"
  using assms(1)
proof (induction its)
  case Nil
  then show ?case by simp
next
  case (Cons a its)
  show ?case
  proof (cases "processing_item rid a")
    case True
    then have a: "it_resource_id a = rid" "it_state a = Processing" by (auto simp: processing_item_def)
    with Cons.prems have "rid \<notin> it_resource_id ` set its" by simp
    with True a assms(2,3) show ?thesis by (auto simp: image_iff)
  next
    case False
    then have "it_state a = Processing \<Longrightarrow> it_resource_id a \<noteq> rid" by (auto simp: processing_item_def)
    with Cons False show ?thesis by auto
  qed
qed

lemma update_releases:
  assumes u: "store_update sha env change st = (st', Inr (q', x))"
    and ch: "\<And>q q0. change q = Inr (q0, x) \<Longrightarrow> distinct (map it_resource_id (rq_items q)) \<Longrightarrow>
      queue_ids (\<lambda>s. s = Processing) q0 \<subseteq> queue_ids (\<lambda>s. s = Processing) q - {rid}"
  shows "leases st' \<subseteq> leases st - {rid}"
proof -
  from store_update_ok [OF u] obtain q q0 where q: "store_load sha env st = Inr q"
    "change q = Inr (q0, x)" "q' = Seal sha q0" "current_file (st_disk st') = Some (Doc q')" by blast
  from ch [OF q(2) load_distinct [OF q(1)]] load_ids [OF q(1)] q(3,4) show ?thesis
    by (simp add: store_ids_def)
qed

lemma Requeue_releases:
  assumes "Requeue sha env rid st = (st', None)"
  shows "leases st' \<subseteq> leases st - {rid}"
proof -
  from assms obtain q' where u: "store_update sha env (requeue_change rid) st = (st', Inr (q', ()))"
    by (auto simp: Requeue_def error_of_def prod_eq_iff split: sum.splits)
  show ?thesis
  proof (rule update_releases [OF u])
    fix q q0
    assume "requeue_change rid q = Inr (q0, ())" and d: "distinct (map it_resource_id (rq_items q))"
    then have "rq_items q0 = update_first (processing_item rid)
        (\<lambda>it. it\<lparr>it_reserved_requests := 0, it_state := Queued\<rparr>) (rq_items q)"
      by (auto simp: requeue_change_def split: option.splits)
    then show "queue_ids (\<lambda>s. s = Processing) q0 \<subseteq> queue_ids (\<lambda>s. s = Processing) q - {rid}"
      unfolding queue_ids_def by (simp only:) (rule release_ids [OF d], simp_all)
  qed
qed

lemma Finish_releases:
  assumes "Finish sha env rid s reason st = (st', None)"
  shows "leases st' \<subseteq> leases st - {rid}"
proof -
  from assms have "is_ok (CanonicalState s reason)" by (auto simp: Finish_def split: sum.splits)
  then have s: "s \<noteq> Processing" by (auto simp: CanonicalState_ok_iff)
  from assms obtain q' where u: "store_update sha env (finish_change rid s reason) st = (st', Inr (q', ()))"
    by (auto simp: Finish_def error_of_def prod_eq_iff split: sum.splits)
  show ?thesis
  proof (rule update_releases [OF u])
    fix q q0
    assume "finish_change rid s reason q = Inr (q0, ())" and d: "distinct (map it_resource_id (rq_items q))"
    then have "rq_items q0 = update_first (processing_item rid)
        (\<lambda>it. it\<lparr>it_state := s, it_reason := reason\<rparr>) (rq_items q)"
      by (auto simp: finish_change_def split: option.splits if_splits)
    then show "queue_ids (\<lambda>s. s = Processing) q0 \<subseteq> queue_ids (\<lambda>s. s = Processing) q - {rid}"
      unfolding queue_ids_def using s by (simp only:) (rule release_ids [OF d], simp_all)
  qed
qed

lemma Close_releases:
  assumes "ConsumeAndCloseGeneration sha env rid u st = (st', Inr (q', x))"
  shows "leases st' \<subseteq> leases st - {rid}"
proof -
  from assms have u: "store_update sha env (consume_and_close_change rid u) st = (st', Inr (q', x))"
    by (auto simp: ConsumeAndCloseGeneration_def refused_def split: if_splits)
  show ?thesis
  proof (rule update_releases [OF u])
    fix q q0
    assume "consume_and_close_change rid u q = Inr (q0, x)" and d: "distinct (map it_resource_id (rq_items q))"
    then obtain q1 where c: "consumeUsage rid u q = Inr (q1, x)"
      and q0: "rq_items q0 = update_first (processing_item rid) (\<lambda>it. it\<lparr>it_state := Queued\<rparr>) (rq_items q1)"
      by (auto simp: consume_and_close_change_def rbind_Inr_iff split: if_splits option.splits)
    from c have "map it_resource_id (rq_items q1) = map it_resource_id (rq_items q)"
      by (cases rule: consumeUsage_cases) (simp add: map_update_first_key)
    with d have d1: "distinct (map it_resource_id (rq_items q1))" by simp
    have "queue_ids (\<lambda>s. s = Processing) q0 \<subseteq> queue_ids (\<lambda>s. s = Processing) q1 - {rid}"
      unfolding queue_ids_def q0 by (rule release_ids [OF d1]) simp_all
    also have "\<dots> \<subseteq> queue_ids (\<lambda>s. s = Processing) q - {rid}"
      using consume_shrinks [of "\<lambda>s. s = Processing" rid u, unfolded shrinks_def] c by blast
    finally show "queue_ids (\<lambda>s. s = Processing) q0 \<subseteq> queue_ids (\<lambda>s. s = Processing) q - {rid}" .
  qed
qed

lemma Consume_leases: "leases (fst (Consume sha env rid u st)) \<subseteq> leases st"
  using store_update_shrinks [OF consume_shrinks [of "\<lambda>s. s = Processing" rid u], of sha env st]
  by (auto simp: Consume_def)

text \<open>A step of the settlement that reports no error has released the item.\<close>

definition releases :: "string \<Rightarrow> rq_store \<Rightarrow> 'r outcome \<Rightarrow> bool" where
  "releases rid st r \<longleftrightarrow> (snd r = None \<longrightarrow> leases (w_store (fst r)) \<subseteq> leases st - {rid})"

lemma finishQueueItem_releases:
  assumes "it_attempts it \<noteq> 0"
  shows "releases (it_resource_id it) (w_store w) (finishQueueItem sha env it w)"
  using assms Finish_releases [of sha "se_store env AtFinish" "it_resource_id it" "it_state it" "it_reason it" "w_store w"]
  by (auto simp: releases_def finishQueueItem_def with_store_def prod_eq_iff)

lemma mergeAndFinish_releases:
  assumes "it_attempts it \<noteq> 0"
  shows "releases (it_resource_id it) (w_store w) (mergeAndFinish sha ports env t it r w)"
proof (cases "mergeCanonical ports t it r w")
  case (Pair w1 err)
  with mergeCanonical_store [of ports t it r w] have "w_store w1 = w_store w" by simp
  with Pair finishQueueItem_releases [OF assms, of w1 sha env] show ?thesis
    by (cases err) (auto simp: mergeAndFinish_def releases_def)
qed

lemma mergeFetchedOrBlock_releases:
  assumes "it_attempts it \<noteq> 0"
  shows "releases (it_resource_id it) (w_store w) (mergeFetchedOrBlock sha ports env t it r w)"
proof (cases "mergeCanonical ports t it r w")
  case (Pair w1 err)
  with mergeCanonical_store [of ports t it r w] have "w_store w1 = w_store w" by simp
  with Pair finishQueueItem_releases [OF assms, of w1 sha env]
    mergeAndFinish_releases [of "block_item ReasonManualProcessing it" w1 sha ports env t no_result] assms
  show ?thesis by (cases err) (auto simp: mergeFetchedOrBlock_def releases_def)
qed

lemma settle_outcome_releases:
  assumes "it_attempts it \<noteq> 0"
  shows "releases (it_resource_id it) (w_store w) (settle_outcome sha ports env t it r fe w)"
proof -
  have b: "releases (it_resource_id it) (w_store w) (mergeAndFinish sha ports env t (block_item reason it) no_result w)"
    for reason
    using mergeAndFinish_releases [of "block_item reason it" w sha ports env t no_result] assms by simp
  have s: "releases (it_resource_id it) (w_store w)
      (mergeFetchedOrBlock sha ports env t (it\<lparr>it_state := fr_state r, it_reason := ''''\<rparr>) r w)"
    using mergeFetchedOrBlock_releases [of "it\<lparr>it_state := fr_state r, it_reason := ''''\<rparr>" w sha ports env t r] assms
    by simp
  have "releases rid st (w1, Some e)" for rid st e and w1 :: "'a world" by (simp add: releases_def)
  with b s show ?thesis unfolding settle_outcome_def Let_def by (auto split: if_splits)
qed

lemma releases_mono:
  "releases rid st1 r \<Longrightarrow> leases st1 \<subseteq> leases st \<Longrightarrow> releases rid st r"
  by (auto simp: releases_def)

lemma with_store_Requeue:
  "with_store (Requeue sha env rid (w_store w)) w = (w2, None) \<Longrightarrow> leases (w_store w2) \<subseteq> leases (w_store w) - {rid}"
  using Requeue_releases [of sha env rid "w_store w"] by (auto simp: with_store_def prod_eq_iff)

lemma retry_outcome_releases:
  assumes "it_attempts it \<noteq> 0"
  shows "releases (it_resource_id it) (w_store w) (retry_outcome sha ports env t it r w)"
proof (cases "retryDelay sha (se_store env AtDelay) (it_attempts it) (fr_retry_after_seconds r) (w_store w)")
  case (Inl e)
  then show ?thesis by (simp add: retry_outcome_def releases_def)
next
  case (Inr delay)
  let ?u = "no_usage\<lparr>us_wall_seconds := trunc_div delay nanoseconds\<rparr>"
  obtain st res where c: "Consume sha (se_store env AtDelayConsume) (it_resource_id it) ?u (w_store w) = (st, res)"
    by (cases "Consume sha (se_store env AtDelayConsume) (it_resource_id it) ?u (w_store w)")
  have le: "leases st \<subseteq> leases (w_store w)"
    using Consume_leases [of sha "se_store env AtDelayConsume" "it_resource_id it" ?u "w_store w"] c by simp
  let ?w1 = "w\<lparr>w_store := st\<rparr>"
  have m: "releases (it_resource_id it) (w_store w)
      (mergeAndFinish sha ports env t (block_item ReasonRunBudgetDeferred it) no_result ?w1)"
    using mergeAndFinish_releases [of "block_item ReasonRunBudgetDeferred it" ?w1 sha ports env t no_result]
      assms le by (auto intro: releases_mono)
  obtain w2 e where rq: "with_store (Requeue sha (se_store env AtRequeue) (it_resource_id it) (w_store ?w1)) ?w1 = (w2, e)"
    by (cases "with_store (Requeue sha (se_store env AtRequeue) (it_resource_id it) (w_store ?w1)) ?w1")
  have "e = None \<Longrightarrow> leases (w_store w2) \<subseteq> leases (w_store w) - {it_resource_id it}"
    using with_store_Requeue [of sha "se_store env AtRequeue" "it_resource_id it" ?w1 w2] rq le by auto
  with Inr c m rq show ?thesis
    by (cases res; cases e) (auto simp: retry_outcome_def releases_def Let_def split: prod.splits if_splits)
qed

lemma fetch_and_settle_releases:
  assumes "it_attempts it \<noteq> 0"
  shows "releases (it_resource_id it) (w_store w) (fetch_and_settle sha ports env t it w)"
proof -
  obtain r fe where f: "se_fetch env t = (r, fe)" by (cases "se_fetch env t")
  let ?rid = "it_resource_id it"
  obtain cst cres where cc: "ConsumeAndCloseGeneration sha (se_store env AtClose) ?rid (fr_usage r) (w_store w) = (cst, cres)"
    by (cases "ConsumeAndCloseGeneration sha (se_store env AtClose) ?rid (fr_usage r) (w_store w)")
  have close: "cres = Inr y \<Longrightarrow> leases cst \<subseteq> leases (w_store w) - {?rid}" for y
    using Close_releases [of sha "se_store env AtClose" ?rid "fr_usage r" "w_store w" cst] cc by (cases y) auto
  obtain st res where c: "Consume sha (se_store env AtConsume) ?rid (fr_usage r) (w_store w) = (st, res)"
    by (cases "Consume sha (se_store env AtConsume) ?rid (fr_usage r) (w_store w)")
  have le: "leases st \<subseteq> leases (w_store w)"
    using Consume_leases [of sha "se_store env AtConsume" ?rid "fr_usage r" "w_store w"] c by simp
  let ?w1 = "w\<lparr>w_store := st\<rparr>"
  have m: "releases ?rid (w_store w) (mergeAndFinish sha ports env t (block_item ReasonRunBudgetDeferred it) no_result ?w1)"
    using mergeAndFinish_releases [of "block_item ReasonRunBudgetDeferred it" ?w1 sha ports env t no_result]
      assms le by (auto intro: releases_mono)
  have ro: "releases ?rid (w_store w) (retry_outcome sha ports env t it r ?w1)"
    using retry_outcome_releases [OF assms, of ?w1 sha ports env t r] le by (auto intro: releases_mono)
  have so: "releases ?rid (w_store w) (settle_outcome sha ports env t it r fe ?w1)"
    using settle_outcome_releases [OF assms, of ?w1 sha ports env t r fe] le by (auto intro: releases_mono)
  show ?thesis
  proof (cases "valid_close r fe \<and> (if se_ctx_fetched env = None \<and> fe = Some Canceled then Some Canceled else se_ctx_fetched env) = None")
    case True
    with f cc close show ?thesis
      by (cases cres) (auto simp: fetch_and_settle_def Let_def releases_def)
  next
    case False
    with f c m ro so show ?thesis
      by (auto simp: fetch_and_settle_def Let_def releases_def split: sum.splits option.splits prod.splits)
  qed
qed


lemma claim_leases:
  assumes inv: "store_inv sha st" and cl: "ClaimNext sha env st = (st', Inr (q', Some it))"
  shows "(it_state it = Blocked \<and> leases st' \<subseteq> leases st) \<or>
    (it_attempts it \<noteq> 0 \<and> leases st' \<subseteq> insert (it_resource_id it) (leases st))"
proof -
  from store_update_ok [OF cl [unfolded ClaimNext_def]] obtain q q0
    where load: "store_load sha env st = Inr q" and ch: "claim_change q = Inr (q0, Some it)"
      and q': "q' = Seal sha q0" and cur: "current_file (st_disk st') = Some (Doc q')" by blast
  have inv': "queue_inv sha q" by (rule store_load_inv [OF inv load])
  have st': "leases st' = queue_ids (\<lambda>s. s = Processing) q0" using cur q' by (simp add: store_ids_def)
  have st: "leases st = queue_ids (\<lambda>s. s = Processing) q" using load_ids [OF load] by simp
  from ch show ?thesis
  proof (cases rule: claim_cases)
    case none
    then show ?thesis by simp
  next
    case (attempts it0)
    then have "queue_ids (\<lambda>s. s = Processing) q0 \<subseteq> queue_ids (\<lambda>s. s = Processing) q"
      by (auto simp: queue_ids_def dest!: set_update_first)
    with attempts st st' show ?thesis by auto
  next
    case (deferred it0)
    then have "queue_ids (\<lambda>s. s = Processing) q0 \<subseteq> queue_ids (\<lambda>s. s = Processing) q"
      by (auto simp: queue_ids_def dest!: set_update_first)
    with deferred st st' show ?thesis by auto
  next
    case (claimed it0)
    have "0 \<le> it_attempts it0"
      using find_sorted_in [OF claimed(1)] inv' by (auto simp: queue_inv_def queue_ok_def item_ok_def)
    moreover have "it_attempts it = it_attempts it0 + 1"
      using claim_attempts_exact [OF inv' _ claimed(2)] find_sorted_in [OF claimed(1)] claimed(4) by simp
    ultimately have "it_attempts it \<noteq> 0" by simp
    moreover have "queue_ids (\<lambda>s. s = Processing) q0 \<subseteq> insert (it_resource_id it) (queue_ids (\<lambda>s. s = Processing) q)"
      using claimed(4,5) by (auto simp: queue_ids_def dest!: set_update_first)
    ultimately show ?thesis using st st' by simp
  qed
qed

lemma merged_store: "mergeCanonical ports t it r w = (w', e) \<Longrightarrow> w_store w' = w_store w"
  using mergeCanonical_store [of ports t it r w] by simp

text \<open>
  A processing step that reports no error leaves no lease behind: the item it
  claimed has been requeued, closed with its generation, or finished, so that no resource is
  processing in the queue after the step that was not before it.\<close>

theorem no_lease_left:
  assumes reach: "rq_reachable sha (w_store w)"
    and p: "ProcessNext sha ports env w = (w', found, None)"
  shows "leases (w_store w') \<subseteq> leases (w_store w)"
proof -
  have inv: "store_inv sha (w_store w)" by (rule rq_reachable_inv [OF reach])
  from p have start: "se_ctx_start env = None" by (auto simp: ProcessNext_def split: option.splits)
  obtain st res where cl: "ClaimNext sha (se_store env AtClaim) (w_store w) = (st, res)"
    by (cases "ClaimNext sha (se_store env AtClaim) (w_store w)")
  show ?thesis
  proof (cases "\<exists>q it. res = Inr (q, Some it)")
    case False
    with start cl p have w': "w_store w' = st" and "\<exists>q. res = Inr (q, None)"
      by (auto simp: ProcessNext_def split: sum.splits option.splits)
    then obtain q where res: "res = Inr (q, None)" by blast
    from store_update_ok [OF cl [unfolded res ClaimNext_def]] obtain q1 q0 where
      q: "store_load sha (se_store env AtClaim) (w_store w) = Inr q1" "claim_change q1 = Inr (q0, None)"
        "q = Seal sha q0" "current_file (st_disk st) = Some (Doc q)" by blast
    from q(2) have "queue_ids (\<lambda>s. s = Processing) q0 = queue_ids (\<lambda>s. s = Processing) q1"
      by (cases rule: claim_cases) (simp_all add: queue_ids_def)
    then have "leases st = leases (w_store w)"
      using load_ids [OF q(1)] q(3,4) by (simp add: store_ids_def)
    with w' show ?thesis by simp
  next
    case True
    then obtain q it where res: "res = Inr (q, Some it)" by blast
    note leased = claim_leases [OF inv cl [unfolded res]]
    obtain w1 tr where t: "runner_target sha ports (se_store env AtTarget) (it_resource_id it)
        (w\<lparr>w_store := st\<rparr>) = (w1, tr)"
      by (cases "runner_target sha ports (se_store env AtTarget) (it_resource_id it) (w\<lparr>w_store := st\<rparr>)")
    have w1: "w_store w1 = st"
      using runner_target_store [of sha ports "se_store env AtTarget" "it_resource_id it" "w\<lparr>w_store := st\<rparr>"] t
      by simp
    from p start cl res t obtain ta where tr: "tr = Inr ta"
      by (cases tr) (auto simp: ProcessNext_def)
    let ?r = "if it_state it = Blocked then mergeAndFinish sha ports env ta it no_result w1
      else if us_requests (ta_remaining ta) < 1 then (w1, Some NoReservation)
      else fetch_and_settle sha ports env ta it w1"
    have r: "?r = (w', None)"
      using p start cl res t tr by (cases ?r) (simp add: ProcessNext_def Let_def)
    show ?thesis
    proof (cases "it_attempts it = 0")
      case True
      with leased have b: "it_state it = Blocked" "leases st \<subseteq> leases (w_store w)" by auto
      then have "w_store w' = st"
        using r True w1
        by (auto simp: mergeAndFinish_def finishQueueItem_def dest!: merged_store
            split: prod.splits option.splits if_splits)
      with b show ?thesis by simp
    next
      case False
      have "releases (it_resource_id it) st ?r"
        using mergeAndFinish_releases [OF False, of w1 sha ports env ta no_result]
          fetch_and_settle_releases [OF False, of w1 sha ports env ta] w1 by (simp add: releases_def)
      with r have "leases (w_store w') \<subseteq> leases st - {it_resource_id it}" by (simp add: releases_def)
      with leased show ?thesis by auto
    qed
  qed
qed

section \<open>A terminal claim of a retried item\<close>

text \<open>
  \<open>ClaimNext\<close> has already persisted a blocked terminal when it returns a blocked item; the runner
  records it canonically and skips \<open>Finish\<close> only when the item was never attempted.
\<close>

definition accepting_repository :: "batch list repository" where
  "accepting_repository = \<lparr>rp_load = \<lambda>r. (r, Inr [(''r1'', ''https://one''), (''r2'', ''https://two'')]),
     rp_merge = \<lambda>b r. (r @ [b], None)\<rparr>"

text \<open>C9: When \<open>ClaimNext\<close> blocks an item that has been attempted before (its
  attempts are used up after a cancelled or recovered run), the step merges the terminal state
  canonically and then fails with ``item is not processing'': the error is spurious, as the queue
  already holds the terminal item.\<close>

theorem terminal_claim_error:
  assumes start: "se_ctx_start env = None"
    and cl: "ClaimNext sha (se_store env AtClaim) (w_store w) = (st, Inr (q, Some it))"
    and blocked: "it_state it = Blocked" "it_attempts it \<noteq> 0"
    and t: "runner_target sha ports (se_store env AtTarget) (it_resource_id it) (w\<lparr>w_store := st\<rparr>) = (w1, Inr ta)"
    and m: "mergeCanonical ports ta it no_result w1 = (w2, None)"
    and quiet: "\<not> se_lock_busy (se_store env AtFinish)" "\<not> se_read_fails (se_store env AtFinish)"
  shows "ProcessNext sha ports env w = (w2, True, Some (QueueFailed ItemNotProcessing)) \<and>
    it \<in> set (rq_items q) \<and> store_load sha (se_store env AtFinish) (w_store w2) = Inr q"
proof -
  note u = cl [unfolded ClaimNext_def]
  have w1: "w_store w1 = st"
    using runner_target_store [of sha ports "se_store env AtTarget" "it_resource_id it" "w\<lparr>w_store := st\<rparr>"] t
    by simp
  have w2: "w_store w2 = st" using mergeCanonical_store [of ports ta it no_result w1] m w1 by simp
  have load: "store_load sha (se_store env AtFinish) st = Inr q"
    using store_update_readback [OF u quiet(2)] claim_profile by blast
  from store_update_ok [OF u] obtain q1 q0 where l1: "store_load sha (se_store env AtClaim) (w_store w) = Inr q1"
    and ch: "claim_change q1 = Inr (q0, Some it)" and q: "q = Seal sha q0" and v: "Validate sha q = None" by blast
  from ch have it: "it \<in> set (rq_items q0)"
    by (cases rule: claim_cases) (auto dest: update_first_here)
  then have itq: "it \<in> set (rq_items q)" using q by simp
  have d: "distinct (map it_resource_id (rq_items q))" and io: "item_ok sha (rq_profile q) it"
    using v itq by (auto simp: Validate_None_iff queue_ok_def)
  have none: "List.find (processing_item (it_resource_id it)) (rq_items q) = None"
  proof (rule ccontr)
    assume "List.find (processing_item (it_resource_id it)) (rq_items q) \<noteq> None"
    then obtain j where "List.find (processing_item (it_resource_id it)) (rq_items q) = Some j" by auto
    from processing_item_in [OF this] d itq have "j = it" "it_state j = Processing"
      by (auto simp: distinct_map dest: inj_onD)
    with blocked(1) show False by simp
  qed
  have "is_ok (CanonicalState Blocked (it_reason it))"
    using io blocked by (simp add: CanonicalState_ok_iff item_ok_def blocked_reason_cases)
  then obtain c where c: "CanonicalState Blocked (it_reason it) = Inr c" by (auto simp: is_ok_iff)
  have "Finish sha (se_store env AtFinish) (it_resource_id it) Blocked (it_reason it) st = (st, Some ItemNotProcessing)"
    using c load none quiet(1) by (simp add: Finish_def store_update_def finish_change_def error_of_def)
  with blocked w2 have f: "finishQueueItem sha env it w2 = (w2, Some (QueueFailed ItemNotProcessing))"
    by (simp add: finishQueueItem_def with_store_def)
  have "ProcessNext sha ports env w = (w2, True, Some (QueueFailed ItemNotProcessing))"
    using start cl t blocked m f by (simp add: ProcessNext_def mergeAndFinish_def)
  with itq load w2 show ?thesis by simp
qed


definition spent_queue :: queue where
  "spent_queue = Seal demo_sha (demo_queue
     \<lparr>rq_items := [(new_item demo_sha demo_profile ''r1'')\<lparr>it_attempts := 2\<rparr>,
                   new_item demo_sha demo_profile ''r2'']\<rparr>)"

definition spent_item :: item where
  "spent_item = block_item ReasonBudgetExhausted ((new_item demo_sha demo_profile ''r1'')\<lparr>it_attempts := 2\<rparr>)"

definition spent_claimed :: queue where
  "spent_claimed = Seal demo_sha (demo_queue
     \<lparr>rq_items := [spent_item, new_item demo_sha demo_profile ''r2'']\<rparr>)"

lemma spent_items:
  "rq_items spent_queue = [(new_item demo_sha demo_profile ''r1'')\<lparr>it_attempts := 2\<rparr>,
     new_item demo_sha demo_profile ''r2'']"
  "rq_items spent_claimed = [spent_item, new_item demo_sha demo_profile ''r2'']"
  by (simp_all add: spent_queue_def spent_claimed_def spent_item_def)

lemma spent_profile [simp]: "rq_profile spent_queue = demo_profile" "rq_profile spent_claimed = demo_profile"
  by (simp_all add: spent_queue_def spent_claimed_def)

lemma exhausted_is_reason: "IsBlockedReason ReasonBudgetExhausted"
  by (simp add: IsBlockedReason_def fixedBlockedReasons_def)

lemma spent_ok: "queue_ok demo_sha spent_queue" "queue_ok demo_sha spent_claimed"
  using demo_profile_valid exhausted_is_reason
  by (simp_all add: queue_ok_def spent_items spent_item_def item_ok_def counters_nonneg_def
      validGenerationKind_def check_state_reason_def go_defs demo_texts)
    (simp_all add: spent_queue_def spent_claimed_def)

lemma spent_valid: "Validate demo_sha spent_queue = None" "Validate demo_sha spent_claimed = None"
  using spent_ok Validate_Seal_iff [of demo_sha]
  by (simp_all add: spent_queue_def spent_claimed_def digest_ok_def demo_sha_def)

lemma spent_bytes: "queue_bytes (Doc spent_queue) \<le> MaximumQueueBytes"
    "queue_bytes (Doc spent_claimed) \<le> MaximumQueueBytes"
  by code_simp+

definition spent_store :: rq_store where
  "spent_store = \<lparr>st_profile = demo_profile,
     st_disk = \<lparr>current_file = Some (Doc spent_queue), backup_file = None\<rparr>\<rparr>"

lemma spent_load: "store_load demo_sha quiet_store_env spent_store = Inr spent_queue"
  using spent_bytes spent_valid by (simp add: store_load_def quiet_store_env_def spent_store_def)

lemma spent_change:
  "claim_change spent_queue = Inr (spent_queue\<lparr>rq_items := rq_items spent_claimed\<rparr>, Some spent_item)"
  by (simp add: claim_change_def spent_items spent_item_def Let_def)

lemma spent_reseal: "Seal demo_sha (spent_queue\<lparr>rq_items := rq_items spent_claimed\<rparr>) = spent_claimed"
  unfolding spent_items by (simp add: spent_queue_def spent_claimed_def spent_item_def Seal_def Let_def)

lemma spent_claim:
  "ClaimNext demo_sha quiet_store_env spent_store =
     (spent_store\<lparr>st_disk := \<lparr>current_file = Some (Doc spent_claimed), backup_file = Some (Doc spent_queue)\<rparr>\<rparr>,
      Inr (spent_claimed, Some spent_item))"
  using quiet_update [where change = claim_change, OF spent_load spent_change] spent_valid spent_bytes
  by (simp add: ClaimNext_def spent_reseal) (simp add: spent_store_def)

theorem terminal_claim_error_witness:
  "snd (snd (ProcessNext demo_sha accepting_repository (quiet_step no_result)
      \<lparr>w_store = spent_store, w_repo = []\<rparr>)) = Some (QueueFailed ItemNotProcessing)"
proof -
  let ?w = "\<lparr>w_store = spent_store, w_repo = []\<rparr> :: batch list world"
  let ?st = "spent_store\<lparr>st_disk := \<lparr>current_file = Some (Doc spent_claimed), backup_file = Some (Doc spent_queue)\<rparr>\<rparr>"
  have load: "store_load demo_sha quiet_store_env ?st = Inr spent_claimed"
    using spent_bytes spent_valid by (simp add: store_load_def quiet_store_env_def spent_store_def)
  obtain ta where t: "runner_target demo_sha accepting_repository quiet_store_env (it_resource_id spent_item)
      (?w\<lparr>w_store := ?st\<rparr>) = (?w\<lparr>w_store := ?st\<rparr>, Inr ta)"
    by (simp add: runner_target_def accepting_repository_def load spent_item_def Let_def)
  obtain c where c: "CanonicalState Blocked ReasonBudgetExhausted = Inr c"
    using exhausted_is_reason by (simp add: CanonicalState_def)
  then obtain w2 where m: "mergeCanonical accepting_repository ta spent_item no_result (?w\<lparr>w_store := ?st\<rparr>) = (w2, None)"
    by (cases c) (simp add: mergeCanonical_def accepting_repository_def spent_item_def Let_def)
  have env: "se_store (quiet_step no_result) site = quiet_store_env" for site by (simp add: quiet_step_def)
  show ?thesis
    using terminal_claim_error [of "quiet_step no_result" demo_sha ?w ?st spent_claimed spent_item accepting_repository
        "?w\<lparr>w_store := ?st\<rparr>" ta w2] spent_claim t m
    by (simp add: env) (simp add: quiet_step_def quiet_store_env_def spent_item_def)
qed


text \<open>A step that closes its generation, on the demo queue.\<close>

definition closing_result :: fetch_result where
  "closing_result = no_result\<lparr>fr_close_generation := True, fr_blocked_reason := ReasonRunBudgetDeferred,
     fr_exhausted_dimension := ''decoded'', fr_usage := demo_usage\<rparr>"

definition closed_claim :: queue where
  "closed_claim = consumed_queue
     \<lparr>rq_items := [(new_item demo_sha demo_profile ''r1'')\<lparr>it_attempts := 1\<rparr>,
                   new_item demo_sha demo_profile ''r2''], rq_generation_closed := True\<rparr>"

lemma closed_claim_valid: "Validate demo_sha (Seal demo_sha closed_claim) = None"
proof -
  have "queue_ok demo_sha closed_claim"
    using demo_profile_valid
    by (simp add: queue_ok_def closed_claim_def consumed_queue_def first_claim_def item_ok_def
        counters_nonneg_def validGenerationKind_def check_state_reason_def go_defs demo_texts)
  then show ?thesis using Validate_Seal_iff [of demo_sha] by (simp add: digest_ok_def demo_sha_def)
qed

lemma closed_claim_bytes: "queue_bytes (Doc (Seal demo_sha closed_claim)) \<le> MaximumQueueBytes"
  by code_simp

lemma demo_close:
  "consume_and_close_change ''r1'' demo_usage (Seal demo_sha first_claim) =
     Inr ((Seal demo_sha first_claim)\<lparr>rq_items := rq_items closed_claim,
            rq_counters := rq_counters closed_claim, rq_generation_closed := True\<rparr>, False)"
proof -
  have "\<not> rq_generation_closed (Seal demo_sha first_claim)" by (simp add: first_claim_def)
  then show ?thesis
    by (simp add: consume_and_close_change_def demo_consume)
      (simp add: consumed_queue_def closed_claim_def processing_item_def new_item_def)
qed

lemma reseal_closed: "Seal sha ((Seal sha a)\<lparr>rq_items := its, rq_counters := c, rq_generation_closed := b\<rparr>)
    = Seal sha (a\<lparr>rq_items := its, rq_counters := c, rq_generation_closed := b\<rparr>)"
  by (simp add: Seal_def Let_def)

lemma closed_claim_form:
  "first_claim\<lparr>rq_items := rq_items closed_claim, rq_counters := rq_counters closed_claim,
     rq_generation_closed := True\<rparr> = closed_claim"
  by (simp add: closed_claim_def consumed_queue_def)

lemma demo_Close:
  "\<exists>st'. ConsumeAndCloseGeneration demo_sha quiet_store_env ''r1'' demo_usage claimed_store
     = (st', Inr (Seal demo_sha closed_claim, False))"
  using quiet_update [where change = "consume_and_close_change ''r1'' demo_usage", OF claimed_load demo_close]
    closed_claim_valid closed_claim_bytes
  by (simp add: ConsumeAndCloseGeneration_def usage_valid_def demo_usage_def reseal_closed closed_claim_form)

lemma demo_closing_step:
  "\<exists>w'. ProcessNext demo_sha accepting_repository (quiet_step closing_result)
     \<lparr>w_store = queued_store, w_repo = []\<rparr> = (w', True, None)"
proof -
  let ?w = "\<lparr>w_store = queued_store, w_repo = []\<rparr> :: batch list world"
  let ?it = "(new_item demo_sha demo_profile ''r1'')\<lparr>it_state := Processing, it_attempts := 1, it_reserved_requests := 2\<rparr>"
  have env: "se_store (quiet_step closing_result) site = quiet_store_env" for site by (simp add: quiet_step_def)
  have f: "List.find (processing_item ''r1'') (sort_key it_resource_id (rq_items first_claim)) = Some ?it"
    by (simp add: first_claim_def processing_item_def)
  obtain ta where t: "runner_target demo_sha accepting_repository quiet_store_env ''r1''
      (?w\<lparr>w_store := claimed_store\<rparr>) = (?w\<lparr>w_store := claimed_store\<rparr>, Inr ta)"
    and r: "us_requests (ta_remaining ta) = 2"
    by (simp add: runner_target_def accepting_repository_def claimed_load f Let_def)
  obtain st' where c: "ConsumeAndCloseGeneration demo_sha quiet_store_env ''r1'' demo_usage claimed_store
     = (st', Inr (Seal demo_sha closed_claim, False))" using demo_Close by blast
  have v: "valid_close closing_result None"
    by (simp add: valid_close_def closing_result_def blockedHasPayload_def no_result_def no_evidence_def)
  have "fetch_and_settle demo_sha accepting_repository (quiet_step closing_result) ta ?it
      (?w\<lparr>w_store := claimed_store\<rparr>) = (?w\<lparr>w_store := st'\<rparr>, None)"
    using v c by (simp add: fetch_and_settle_def env) (simp add: quiet_step_def closing_result_def)
  then show ?thesis
    using demo_ClaimNext [folded claimed_store_def] t r
    by (simp add: ProcessNext_def env) (simp add: quiet_step_def)
qed

theorem no_lease_left_witness:
  "\<exists>w'. ProcessNext demo_sha accepting_repository (quiet_step closing_result)
      \<lparr>w_store = queued_store, w_repo = []\<rparr> = (w', True, None) \<and> leases (w_store w') = {}"
proof -
  obtain w' where p: "ProcessNext demo_sha accepting_repository (quiet_step closing_result)
     \<lparr>w_store = queued_store, w_repo = []\<rparr> = (w', True, None)" using demo_closing_step by blast
  have "leases queued_store = {}"
    by (auto simp: store_ids_def queued_store_def queue_ids_def demo_queue_items)
  moreover have "rq_reachable demo_sha (w_store \<lparr>w_store = queued_store, w_repo = [] :: batch list\<rparr>)"
    using demo_reachable by (simp add: queued_store_def)
  ultimately show ?thesis using no_lease_left [OF _ p] p by auto
qed

section \<open>Retries and the adapter\<close>

text \<open>The retry delay stays within the policy: at least one second (or the
  server's own shorter wish), never above \<open>MaxRetryAfterSeconds\<close>, and it honours a
  \<open>Retry-After\<close> up to that bound.\<close>

theorem retry_delay_bounded:
  assumes "ValidateProfile sha p = None"
  shows "1 \<le> retry_seconds (bp_fetch_policy p) attempt retry_after \<and>
    retry_seconds (bp_fetch_policy p) attempt retry_after \<le> fp_max_retry_after_seconds (bp_fetch_policy p) \<and>
    (0 < retry_after \<longrightarrow> retry_seconds (bp_fetch_policy p) attempt retry_after =
       min retry_after (fp_max_retry_after_seconds (bp_fetch_policy p)))"
  using assms
  by (auto simp: retry_seconds_def Let_def ValidateProfile_def profile_fields_ok_def split: if_splits)

theorem retry_delay_bounded_witness:
  "retry_seconds (bp_fetch_policy demo_profile) 2 30 = min 30 (fp_max_retry_after_seconds (bp_fetch_policy demo_profile))"
  using retry_delay_bounded [OF demo_profile_valid, of 2 30] by simp

text \<open>The fetch adapter never attaches a payload to a blocked result, maps its
  usage one to one, and gives every related link it keeps an excerpt that quotes the link under the
  link's own reference.\<close>

theorem adapter_provenance:
  "(rf_state r = Blocked \<longrightarrow> \<not> blockedHasPayload (FromResourcefetchResult sha r)) \<and>
   us_requests (fr_usage (FromResourcefetchResult sha r)) = rf_request_count r \<and>
   us_downloaded_bytes (fr_usage (FromResourcefetchResult sha r)) = rf_wire_bytes r \<and>
   (\<forall>l \<in> set (ev_related (fr_evidence (FromResourcefetchResult sha r))).
      rl_url l \<in> set (rf_related_urls r) \<and>
      (\<exists>e \<in> set (ev_excerpts (fr_evidence (FromResourcefetchResult sha r))).
         ex_id e = rl_ref l \<and> ex_text e = rl_url l))"
  by (auto simp: FromResourcefetchResult_def Let_def blockedHasPayload_def no_result_def no_evidence_def
      link_related_def link_excerpt_def)


definition quiet_drain :: drain_env where
  "quiet_drain = \<lparr>de_ctx_start = None, de_recover = quiet_store_env, de_load = quiet_store_env,
     de_elapsed_start = 0, de_elapsed_window = 0, de_elapsed_final = 0, de_final = quiet_store_env,
     de_iter = (\<lambda>_. \<lparr>ie_run_ctx = None, ie_ctx = None, ie_elapsed_before = 0, ie_elapsed_after = 0,
                   ie_step = quiet_step closing_result\<rparr>)\<rparr>"

theorem drain_terminates_witness:
  "\<exists>w' err. Drain demo_sha accepting_repository quiet_drain (\<lambda>_. None) 7
     \<lparr>w_store = queued_store, w_repo = []\<rparr> = Some (w', err)"
proof -
  have "typed_usage demo_usage" by (simp add: typed_usage_def demo_usage_def in64_def)
  then have "typed_fetch (quiet_step closing_result)"
    by (intro quiet_step_typed) (simp add: closing_result_def)
  then have t: "\<forall>i. typed_iter (de_iter quiet_drain i)" by (simp add: typed_iter_def quiet_drain_def)
  have "store_work queued_store = 6"
    by (simp add: store_work_def queued_store_def drain_work_def demo_queue_items item_work_def is_active_def)
  with drain_terminates [of demo_sha "\<lparr>w_store = queued_store, w_repo = []\<rparr>" quiet_drain 7] t demo_reachable
  show ?thesis by (simp add: queued_store_def)
qed

definition demo_blocked_rf :: rf_result where
  "demo_blocked_rf =
     \<lparr>rf_state = Blocked, rf_reason = ''rate_limited'', rf_retryable = True,
      rf_retry_after_seconds = 5, rf_request_count = 2, rf_media_type = '''', rf_title = ''t'',
      rf_author = '''', rf_published_at = '''', rf_text = ''body'', rf_related_urls = [''u''],
      rf_missingness = [], rf_wire_bytes = 10, rf_decoded_bytes = 0, rf_extracted_bytes = 0,
      rf_wall_seconds = 1, rf_exhausted_dimension = ''''\<rparr>"

theorem adapter_provenance_witness:
  "\<not> blockedHasPayload (FromResourcefetchResult demo_sha demo_blocked_rf) \<and>
   us_requests (fr_usage (FromResourcefetchResult demo_sha demo_blocked_rf)) = 2"
  using adapter_provenance [of demo_blocked_rf demo_sha] by (simp add: demo_blocked_rf_def)

end
