(* ===== verification/Sbos_Engine.thy ===== *)
theory Sbos_Engine
  imports Mindline_Prelude
begin

text \<open>
  \<open>internal/sbos/engine.go\<close>: the candidate engine of the ``second brain'' pipeline. A candidate is
  validated, recorded once per idempotency key, and routed through the safety, redaction,
  enrichment, clarification and visibility gates to one of its states.

  JSON decoding is the caller's: \<open>None\<close> stands for input that does not decode. The candidate store
  is an interface (the record \<open>candidate_store\<close>, its laws the locale \<open>candidate_store_laws\<close>),
  provided by the memory store of the package.
\<close>

section \<open>States and candidates\<close>

datatype engine_state =
    Ingested | Validated | Skipped | NeedsEnrichment | NeedsClarify | BackgroundReady
  | AttentionReady | PublishReady | DryRunPublished | EngineError

datatype artifact_kind = AttentionPreview | DryRunPublish

record artifact =
  ar_kind :: artifact_kind
  ar_body :: string

record visibility_value =
  vv_value :: string
  vv_visibility :: string

record provenance =
  pv_permalink :: visibility_value
  pv_native_timestamp :: visibility_value
  pv_author :: visibility_value
  pv_raw_locator :: visibility_value

record sb_content =
  sc_text :: string
  sc_urls :: "string list"
  sc_attachments :: "string list"
  sc_source_title :: string

record classification =
  cl_type :: string
  cl_domain :: string
  cl_topics :: "string list"
  cl_confidence :: string
  cl_needs_clarification :: bool
  cl_clarification_reason :: string

record safety =
  sf_redaction_required :: bool
  sf_secret_like :: bool
  sf_empty_content :: bool
  sf_private_provenance :: bool

record candidate =
  ca_schema_version :: string
  ca_candidate_id :: string
  ca_adapter_id :: string
  ca_external_id :: string
  ca_captured_at :: string
  ca_provenance :: provenance
  ca_content :: sb_content
  ca_enrichment_status :: string
  ca_classification :: classification
  ca_safety :: safety
  ca_desired_visibility :: string
  ca_idempotency_key :: string

record stored_record =
  sr_id :: string
  sr_raw_content :: string

record process_result =
  pr_state :: engine_state
  pr_record_id :: string
  pr_source_candidate_id :: string
  pr_idempotency_key :: string
  pr_safety :: safety
  pr_stored_record :: stored_record
  pr_artifacts :: "artifact list"
  pr_authority_ids :: "string list"

datatype engine_error =
    DecodeFailed | UnsupportedSchema | MissingRequiredField | InvalidEnrichmentStatus
  | InvalidDesiredVisibility | InvalidProvenanceVisibility

definition requiredAuthorityIDs :: "string list" where
  "requiredAuthorityIDs = [''DEC-4'', ''DEC-3'', ''DEC-2'', ''DEC-1'', ''FEAT-1'', ''STD-1'', ''STD-7'',
     ''STD-10'', ''STD-11'', ''STD-12'', ''FEAT-4'', ''WP-1'']"

section \<open>Validation\<close>

definition oneOf :: "string \<Rightarrow> string list \<Rightarrow> bool" where
  "oneOf value allowed \<longleftrightarrow> value \<in> set allowed"

definition provenance_values :: "provenance \<Rightarrow> visibility_value list" where
  "provenance_values p = [pv_permalink p, pv_native_timestamp p, pv_author p, pv_raw_locator p]"

text \<open>
  Go ranges over the field map in no particular order, so which field an error names is not
  determined; the model keeps the kind of error. With several faulty fields the kind can differ
  only between a blank value and a bad visibility, and the blank one is reported here.
\<close>

definition validate_provenance :: "provenance \<Rightarrow> engine_error option" where
  "validate_provenance p =
     (if list_ex (\<lambda>v. blank (vv_value v)) (provenance_values p) then Some MissingRequiredField
      else if \<not> list_all (\<lambda>v. oneOf (vv_visibility v) [''public'', ''private'']) (provenance_values p)
        then Some InvalidProvenanceVisibility
      else None)"

definition validate_candidate :: "candidate \<Rightarrow> engine_error option" where
  "validate_candidate c =
     (if ca_schema_version c \<noteq> ''v0.1'' then Some UnsupportedSchema
      else if list_ex blank [ca_candidate_id c, ca_adapter_id c, ca_external_id c, ca_captured_at c,
                ca_idempotency_key c, ca_enrichment_status c, ca_desired_visibility c]
        then Some MissingRequiredField
      else if \<not> oneOf (ca_enrichment_status c) [''not_required'', ''complete'', ''incomplete'', ''failed'']
        then Some InvalidEnrichmentStatus
      else if \<not> oneOf (ca_desired_visibility c) [''background'', ''attention'', ''publish'', ''clarify'']
        then Some InvalidDesiredVisibility
      else case validate_provenance (ca_provenance c) of
        Some e \<Rightarrow> Some e
      | None \<Rightarrow>
          if blank (sc_text (ca_content c)) \<and> \<not> sf_empty_content (ca_safety c) then Some MissingRequiredField
          else if blank (cl_type (ca_classification c)) then Some MissingRequiredField
          else if blank (cl_domain (ca_classification c)) then Some MissingRequiredField
          else if blank (cl_confidence (ca_classification c)) then Some MissingRequiredField
          else if cl_topics (ca_classification c) = [] then Some MissingRequiredField
          else None)"

section \<open>Rendering\<close>

definition redacted_text :: string where "redacted_text = ''[redacted]''"

definition hasPrivatePublishProvenance :: "candidate \<Rightarrow> bool" where
  "hasPrivatePublishProvenance c \<longleftrightarrow>
     (let p = ca_provenance c
      in vv_visibility (pv_permalink p) = ''private'' \<or> vv_visibility (pv_native_timestamp p) = ''private'' \<or>
         vv_visibility (pv_author p) = ''private'' \<or> vv_visibility (pv_raw_locator p) = ''private'')"

definition recordContent :: "candidate \<Rightarrow> string" where
  "recordContent c =
     (if sf_empty_content (ca_safety c) \<or> sf_secret_like (ca_safety c) \<or>
         sf_redaction_required (ca_safety c) \<or> sf_private_provenance (ca_safety c) \<or>
         hasPrivatePublishProvenance c
      then redacted_text else sc_text (ca_content c))"

definition titleOrFallback :: "candidate \<Rightarrow> string" where
  "titleOrFallback c =
     (if sc_source_title (ca_content c) \<noteq> '''' then sc_source_title (ca_content c) else ca_candidate_id c)"

definition safeValue :: "visibility_value \<Rightarrow> bool \<Rightarrow> string" where
  "safeValue v redacted =
     (if redacted \<or> vv_visibility v = ''private'' then redacted_text
      else if vv_value v = '''' then ''unknown'' else vv_value v)"

definition safeText :: "string \<Rightarrow> bool \<Rightarrow> string" where
  "safeText v redacted = (if redacted then redacted_text else v)"

definition stableFingerprint :: "(string \<Rightarrow> string) \<Rightarrow> string \<Rightarrow> string" where
  "stableFingerprint sha v = take 16 (sha v)"

abbreviation newline :: string where "newline \<equiv> [CHR 0x0A]"

definition renderAttention :: "(string \<Rightarrow> string) \<Rightarrow> candidate \<Rightarrow> bool \<Rightarrow> string \<Rightarrow> string" where
  "renderAttention sha c redacted reason =
     (let source = safeValue (pv_permalink (ca_provenance c)) redacted;
          author = safeValue (pv_author (ca_provenance c)) redacted;
          body = safeText (sc_text (ca_content c)) redacted;
          title = (if redacted then ''Attention needed'' else titleOrFallback c);
          cid = (if redacted then ''source-'' @ stableFingerprint sha (ca_candidate_id c) else ca_candidate_id c)
      in ''# '' @ title @ newline @ newline @ reason @ ''.'' @ newline @ newline @
         ''- Candidate: '' @ cid @ newline @ ''- Source: '' @ source @ newline @
         ''- Author: '' @ author @ newline @ ''- Detail: '' @ body @ newline)"

definition renderPublish :: "candidate \<Rightarrow> string" where
  "renderPublish c =
     ''source_candidate_id: '' @ ca_candidate_id c @ newline @
     ''state: dry_run_published'' @ newline @
     ''title: '' @ titleOrFallback c @ newline @
     ''type: '' @ cl_type (ca_classification c) @ newline @
     ''domain: '' @ cl_domain (ca_classification c) @ newline @
     ''confidence: '' @ cl_confidence (ca_classification c) @ newline @
     ''source_adapter: '' @ ca_adapter_id c @ newline @
     ''text: '' @ sc_text (ca_content c) @ newline @
     ''urls:'' @ newline @
     concat (map (\<lambda>u. ''- '' @ u @ newline) (sc_urls (ca_content c)))"

section \<open>The candidate store\<close>

record 's candidate_store =
  cs_get :: "string \<Rightarrow> 's \<Rightarrow> stored_record option"
  cs_save :: "string \<Rightarrow> stored_record \<Rightarrow> 's \<Rightarrow> 's"
  cs_count :: "'s \<Rightarrow> nat"

type_synonym memory = "(string \<times> stored_record) list"

definition NewMemoryCandidateStore :: memory where
  "NewMemoryCandidateStore = []"

definition MemoryCandidateStore :: "memory candidate_store" where
  "MemoryCandidateStore =
     \<lparr>cs_get = (\<lambda>key m. map_of m key), cs_save = AList.update, cs_count = length\<rparr>"

section \<open>The engine\<close>

definition effective_safety :: "candidate \<Rightarrow> safety" where
  "effective_safety c =
     (if hasPrivatePublishProvenance c then (ca_safety c)\<lparr>sf_private_provenance := True\<rparr> else ca_safety c)"

definition attention :: "(string \<Rightarrow> string) \<Rightarrow> candidate \<Rightarrow> bool \<Rightarrow> string \<Rightarrow> engine_state \<times> artifact list" where
  "attention sha c redacted reason =
     (AttentionReady, [\<lparr>ar_kind = AttentionPreview, ar_body = renderAttention sha c redacted reason\<rparr>])"

text \<open>The gates, in the order of the source.\<close>

definition route_candidate :: "(string \<Rightarrow> string) \<Rightarrow> candidate \<Rightarrow> engine_state \<times> artifact list" where
  "route_candidate sha c =
     (let es = effective_safety c; want = ca_desired_visibility c
      in if sf_empty_content es \<or> sf_secret_like es then (Skipped, [])
         else if sf_redaction_required es \<or> sf_private_provenance es then
           (if want = ''attention'' \<or> want = ''clarify'' then attention sha c True ''Redaction required''
            else (BackgroundReady, []))
         else if ca_enrichment_status c = ''incomplete'' \<or> ca_enrichment_status c = ''failed'' then
           (if want = ''clarify'' then attention sha c False ''Enrichment blocker''
            else (NeedsEnrichment, []))
         else if want = ''clarify'' \<or> cl_needs_clarification (ca_classification c) then
           attention sha c False ''Clarification needed''
         else if want = ''background'' then (BackgroundReady, [])
         else if want = ''attention'' then attention sha c False ''Attention needed''
         else (DryRunPublished, [\<lparr>ar_kind = DryRunPublish, ar_body = renderPublish c\<rparr>]))"

definition ProcessCandidate ::
  "(string \<Rightarrow> string) \<Rightarrow> 's candidate_store \<Rightarrow> candidate option \<Rightarrow> 's
    \<Rightarrow> 's \<times> (engine_error, process_result) result" where
  "ProcessCandidate sha store input s =
     (case input of
        None \<Rightarrow> (s, Inl DecodeFailed)
      | Some c \<Rightarrow>
          (case validate_candidate c of
             Some e \<Rightarrow> (s, Inl e)
           | None \<Rightarrow>
               (case cs_get store (ca_idempotency_key c) s of
                  Some existing \<Rightarrow>
                    (s, Inr \<lparr>pr_state = Validated, pr_record_id = sr_id existing,
                         pr_source_candidate_id = ca_candidate_id c,
                         pr_idempotency_key = ca_idempotency_key c, pr_safety = effective_safety c,
                         pr_stored_record = existing, pr_artifacts = [],
                         pr_authority_ids = requiredAuthorityIDs\<rparr>)
                | None \<Rightarrow>
                    (let rec = \<lparr>sr_id = ca_candidate_id c, sr_raw_content = recordContent c\<rparr>;
                         (st, arts) = route_candidate sha c
                     in (cs_save store (ca_idempotency_key c) rec s,
                         Inr \<lparr>pr_state = st, pr_record_id = sr_id rec,
                           pr_source_candidate_id = ca_candidate_id c,
                           pr_idempotency_key = ca_idempotency_key c, pr_safety = effective_safety c,
                           pr_stored_record = rec, pr_artifacts = arts,
                           pr_authority_ids = requiredAuthorityIDs\<rparr>)))))"

section \<open>The state machine\<close>

fun allowed_transitions :: "engine_state \<Rightarrow> engine_state list" where
  "allowed_transitions Ingested = [Validated]"
| "allowed_transitions Validated =
     [Skipped, NeedsEnrichment, NeedsClarify, BackgroundReady, AttentionReady, PublishReady, EngineError]"
| "allowed_transitions NeedsClarify = [AttentionReady]"
| "allowed_transitions PublishReady = [DryRunPublished]"
| "allowed_transitions NeedsEnrichment = [EngineError]"
| "allowed_transitions _ = []"

definition Transition :: "engine_state \<Rightarrow> engine_state \<Rightarrow> bool" where
  "Transition from_state to_state \<longleftrightarrow> to_state \<in> set (allowed_transitions from_state)"

inductive transitions :: "engine_state \<Rightarrow> engine_state \<Rightarrow> bool" where
  here: "transitions s s"
| there: "Transition s t \<Longrightarrow> transitions t u \<Longrightarrow> transitions s u"

inductive_cases transitions_fromE: "transitions s t"

section \<open>What a store promises\<close>

locale candidate_store_laws =
  fixes store :: "'s candidate_store" and ok :: "'s \<Rightarrow> bool"
  assumes get_save_same: "ok s \<Longrightarrow> cs_get store key (cs_save store key r s) = Some r"
    and get_save_other: "ok s \<Longrightarrow> key' \<noteq> key \<Longrightarrow> cs_get store key' (cs_save store key r s) = cs_get store key' s"
    and save_ok: "ok s \<Longrightarrow> ok (cs_save store key r s)"
    and count_save: "ok s \<Longrightarrow> cs_count store (cs_save store key r s) =
      (if cs_get store key s = None then Suc (cs_count store s) else cs_count store s)"
begin

text \<open>A second submission under the same key changes nothing and publishes nothing.\<close>

lemma process_again:
  assumes "ok s" and first: "ProcessCandidate sha store (Some c) s = (s1, Inr r1)"
    and again: "ProcessCandidate sha store (Some c') s1 = (s2, Inr r2)"
    and key: "ca_idempotency_key c' = ca_idempotency_key c"
  shows "s2 = s1 \<and> pr_state r2 = Validated \<and> pr_artifacts r2 = [] \<and>
    pr_stored_record r2 = pr_stored_record r1 \<and> cs_count store s2 = cs_count store s1"
proof -
  have "cs_get store (ca_idempotency_key c) s1 = Some (pr_stored_record r1)"
    using first assms(1) get_save_same
    by (auto simp: ProcessCandidate_def Let_def split: option.splits prod.splits)
  with again key show ?thesis
    by (auto simp: ProcessCandidate_def split: option.splits)
qed

lemma save_keeps:
  "ok s \<Longrightarrow> cs_get store k s = None \<Longrightarrow> cs_get store key s = Some rec \<Longrightarrow>
    cs_get store key (cs_save store k r s) = Some rec"
  using get_save_other [of s key k r] by (cases "key = k") auto

text \<open>Processing never touches the record of another key, nor replaces an existing one.\<close>

lemma process_frame:
  assumes "ok s" and "ProcessCandidate sha store (Some c) s = (s1, r)"
  shows "ok s1 \<and> (\<forall>key rec. cs_get store key s = Some rec \<longrightarrow> cs_get store key s1 = Some rec) \<and>
    cs_count store s1 \<le> Suc (cs_count store s)"
  using assms save_keeps save_ok count_save
  by (auto simp: ProcessCandidate_def Let_def split: option.splits prod.splits)

end

lemma length_update_alist:
  "distinct (map fst m) \<Longrightarrow> length (AList.update k v m) = (if map_of m k = None then Suc (length m) else length m)"
  by (induction m) auto

interpretation memory_store: candidate_store_laws MemoryCandidateStore "\<lambda>m. distinct (map fst m)"
  by unfold_locales
    (auto simp: MemoryCandidateStore_def update_conv' length_update_alist distinct_update)


section \<open>Properties\<close>

definition open_value :: visibility_value where
  "open_value = \<lparr>vv_value = ''v'', vv_visibility = ''public''\<rparr>"

definition demo_candidate :: candidate where
  "demo_candidate = \<lparr>ca_schema_version = ''v0.1'', ca_candidate_id = ''c'', ca_adapter_id = ''a'',
     ca_external_id = ''e'', ca_captured_at = ''t'',
     ca_provenance = \<lparr>pv_permalink = open_value, pv_native_timestamp = open_value,
       pv_author = open_value, pv_raw_locator = open_value\<rparr>,
     ca_content = \<lparr>sc_text = ''x'', sc_urls = [], sc_attachments = [], sc_source_title = ''''\<rparr>,
     ca_enrichment_status = ''complete'',
     ca_classification = \<lparr>cl_type = ''k'', cl_domain = ''d'', cl_topics = [''p''], cl_confidence = ''h'',
       cl_needs_clarification = False, cl_clarification_reason = ''''\<rparr>,
     ca_safety = \<lparr>sf_redaction_required = False, sf_secret_like = False, sf_empty_content = False,
       sf_private_provenance = False\<rparr>,
     ca_desired_visibility = ''publish'', ca_idempotency_key = ''i''\<rparr>"

definition secret_candidate :: candidate where
  "secret_candidate = demo_candidate
     \<lparr>ca_safety := \<lparr>sf_redaction_required = False, sf_secret_like = True, sf_empty_content = False,
       sf_private_provenance = False\<rparr>\<rparr>"

lemma demo_candidate_valid: "validate_candidate demo_candidate = None"
  by code_simp

lemma secret_candidate_valid: "validate_candidate secret_candidate = None"
  by code_simp

lemma demo_candidate_publishes:
  "\<exists>s r. ProcessCandidate sha MemoryCandidateStore (Some demo_candidate) [] = (s, Inr r) \<and>
     pr_state r = DryRunPublished"
proof -
  have "fst (route_candidate sha demo_candidate) = DryRunPublished"
    by (simp add: route_candidate_def demo_candidate_def effective_safety_def
        hasPrivatePublishProvenance_def open_value_def Let_def)
  then show ?thesis
    by (cases "route_candidate sha demo_candidate")
      (simp add: ProcessCandidate_def demo_candidate_valid MemoryCandidateStore_def Let_def)
qed

text \<open>C11: A candidate is published (dry run) only when every gate lets it through: it
  is valid and new, not empty, secret-like, redacted or of private provenance (its own flag or any
  provenance field), fully enriched, not in need of clarification, and asks to be published.\<close>

theorem publish_gates:
  assumes "ProcessCandidate sha store (Some c) s = (s', Inr r)" and "pr_state r = DryRunPublished"
  shows "validate_candidate c = None \<and> cs_get store (ca_idempotency_key c) s = None \<and>
    \<not> sf_empty_content (ca_safety c) \<and> \<not> sf_secret_like (ca_safety c) \<and>
    \<not> sf_redaction_required (ca_safety c) \<and> \<not> sf_private_provenance (ca_safety c) \<and>
    (\<forall>v \<in> set (provenance_values (ca_provenance c)). vv_visibility v = ''public'') \<and>
    (ca_enrichment_status c = ''not_required'' \<or> ca_enrichment_status c = ''complete'') \<and>
    \<not> cl_needs_clarification (ca_classification c) \<and> ca_desired_visibility c = ''publish''"
proof -
  from assms have v: "validate_candidate c = None" and g: "cs_get store (ca_idempotency_key c) s = None"
    and rt: "fst (route_candidate sha c) = DryRunPublished"
    by (auto simp: ProcessCandidate_def Let_def split: option.splits prod.splits)
  have np: "\<not> hasPrivatePublishProvenance c" and gates:
    "\<not> sf_empty_content (ca_safety c)" "\<not> sf_secret_like (ca_safety c)"
    "\<not> sf_redaction_required (ca_safety c)" "\<not> sf_private_provenance (ca_safety c)"
    "ca_enrichment_status c \<noteq> ''incomplete''" "ca_enrichment_status c \<noteq> ''failed''"
    "\<not> cl_needs_clarification (ca_classification c)" "ca_desired_visibility c \<noteq> ''clarify''"
    "ca_desired_visibility c \<noteq> ''background''" "ca_desired_visibility c \<noteq> ''attention''"
    using rt by (auto simp: route_candidate_def effective_safety_def attention_def Let_def split: if_splits)
  from v have "validate_provenance (ca_provenance c) = None"
    and e: "oneOf (ca_enrichment_status c) [''not_required'', ''complete'', ''incomplete'', ''failed'']"
    and d: "oneOf (ca_desired_visibility c) [''background'', ''attention'', ''publish'', ''clarify'']"
    by (auto simp: validate_candidate_def split: if_splits option.splits)
  then have "\<forall>v \<in> set (provenance_values (ca_provenance c)). vv_visibility v = ''public'' \<or> vv_visibility v = ''private''"
    by (auto simp: validate_provenance_def oneOf_def list_all_iff split: if_splits)
  with np have "\<forall>v \<in> set (provenance_values (ca_provenance c)). vv_visibility v = ''public''"
    by (auto simp: hasPrivatePublishProvenance_def provenance_values_def Let_def)
  with v g gates e d show ?thesis by (auto simp: oneOf_def)
qed

theorem publish_gates_witness:
  "ca_enrichment_status demo_candidate = ''not_required'' \<or> ca_enrichment_status demo_candidate = ''complete''"
proof -
  obtain s r where "ProcessCandidate (\<lambda>x. x) MemoryCandidateStore (Some demo_candidate) [] = (s, Inr r)"
    "pr_state r = DryRunPublished" using demo_candidate_publishes by blast
  from publish_gates [OF this] show ?thesis by blast
qed

definition unsafe_candidate :: "candidate \<Rightarrow> bool" where
  "unsafe_candidate c \<longleftrightarrow>
     (let es = effective_safety c
      in sf_empty_content es \<or> sf_secret_like es \<or> sf_redaction_required es \<or> sf_private_provenance es)"

text \<open>C10: Nothing of an unsafe candidate's content leaves the engine: for a
  candidate that is empty, secret-like, to be redacted or of private provenance, the stored record,
  the artifacts and every other part of the result are the same whatever its text, URLs,
  attachments, source title and permalink, author, time or locator values are, and the record
  holds only the redaction marker.\<close>

theorem unsafe_noninterference:
  assumes "unsafe_candidate c"
    and "validate_candidate c = None" "validate_candidate d = None"
    and d: "d = c\<lparr>ca_content := content, ca_provenance := \<lparr>
         pv_permalink = (pv_permalink (ca_provenance c))\<lparr>vv_value := a\<rparr>,
         pv_native_timestamp = (pv_native_timestamp (ca_provenance c))\<lparr>vv_value := b\<rparr>,
         pv_author = (pv_author (ca_provenance c))\<lparr>vv_value := e\<rparr>,
         pv_raw_locator = (pv_raw_locator (ca_provenance c))\<lparr>vv_value := f\<rparr>\<rparr>\<rparr>"
  shows "ProcessCandidate sha store (Some d) s = ProcessCandidate sha store (Some c) s \<and>
    recordContent c = redacted_text"
proof -
  have priv: "hasPrivatePublishProvenance d = hasPrivatePublishProvenance c"
    by (simp add: d hasPrivatePublishProvenance_def Let_def)
  then have es: "effective_safety d = effective_safety c" by (simp add: effective_safety_def d)
  have rc: "recordContent c = redacted_text" "recordContent d = redacted_text"
    using assms(1) priv d
    by (auto simp: recordContent_def unsafe_candidate_def effective_safety_def Let_def split: if_splits)
  have at: "attention sha d True reason = attention sha c True reason" for reason
    by (simp add: attention_def renderAttention_def safeValue_def safeText_def d Let_def)
  have ids: "ca_idempotency_key d = ca_idempotency_key c" "ca_candidate_id d = ca_candidate_id c"
    "ca_desired_visibility d = ca_desired_visibility c"
    by (simp_all add: d)
  have route: "route_candidate sha d = route_candidate sha c"
    using assms(1) es at ids by (auto simp: route_candidate_def unsafe_candidate_def Let_def)
  have "ProcessCandidate sha store (Some d) s = ProcessCandidate sha store (Some c) s"
    unfolding ProcessCandidate_def option.case assms(2,3) ids es rc route ..
  with rc show ?thesis by simp
qed

theorem unsafe_noninterference_witness:
  "recordContent secret_candidate = redacted_text"
  using unsafe_noninterference [where c = secret_candidate and d = secret_candidate and
      content = "ca_content secret_candidate" and a = "''v''" and b = "''v''" and e = "''v''" and f = "''v''",
      OF _ secret_candidate_valid secret_candidate_valid]
  by (simp add: unsafe_candidate_def secret_candidate_def demo_candidate_def effective_safety_def open_value_def Let_def)

text \<open>
  Candidates are recorded once per idempotency key: processing any
  candidate again under the same key changes no record, publishes nothing, reports the first
  record, and leaves the record count as it is.\<close>

theorem process_idempotent:
  assumes "distinct (map fst m)"
    and "ProcessCandidate sha MemoryCandidateStore (Some c) m = (m1, Inr r1)"
    and "ProcessCandidate sha MemoryCandidateStore (Some c') m1 = (m2, Inr r2)"
    and "ca_idempotency_key c' = ca_idempotency_key c"
  shows "m2 = m1 \<and> pr_state r2 = Validated \<and> pr_artifacts r2 = [] \<and>
    pr_stored_record r2 = pr_stored_record r1 \<and> length m2 = length m1"
  using memory_store.process_again [OF assms] by simp

theorem process_idempotent_witness:
  "\<exists>m1 m2 r2. ProcessCandidate (\<lambda>x. x) MemoryCandidateStore (Some secret_candidate) m1 = (m2, Inr r2) \<and>
     pr_state r2 = Validated \<and> length m1 = 1"
proof -
  obtain m1 r1 where first: "ProcessCandidate (\<lambda>x. x) MemoryCandidateStore (Some demo_candidate) [] = (m1, Inr r1)"
    using demo_candidate_publishes by blast
  then have m1: "map_of m1 ''i'' \<noteq> None" "length m1 = 1"
    by (auto simp: ProcessCandidate_def MemoryCandidateStore_def Let_def demo_candidate_def
        split: option.splits prod.splits)
  have keys: "ca_idempotency_key secret_candidate = ''i''"
    "ca_idempotency_key secret_candidate = ca_idempotency_key demo_candidate"
    by (simp_all add: secret_candidate_def demo_candidate_def)
  obtain m2 r2 where again: "ProcessCandidate (\<lambda>x. x) MemoryCandidateStore (Some secret_candidate) m1 = (m2, Inr r2)"
    using m1(1) by (cases "map_of m1 ''i''")
      (simp_all add: ProcessCandidate_def secret_candidate_valid MemoryCandidateStore_def keys(1))
  with process_idempotent [OF _ first again keys(2)] m1(2) show ?thesis by auto
qed



end
