(* ===== verification/Json_Decode.thy ===== *)
theory Json_Decode
  imports Go_Json
begin

text \<open>
  Strict JSON decoding as the modelled packages use it: \<open>json.Decoder\<close> with
  \<open>DisallowUnknownFields\<close>, followed by the check that nothing follows the first value. A
  \<open>json.RawMessage\<close> is either the parsed value or bytes that are not one JSON value. A field that
  is absent or null keeps Go's zero value, a value of another type or an integer out of range is
  an error. Keys are matched exactly, and of a repeated key the last value counts.

  A Go map of strings is an association list with strictly ascending keys: this is how
  \<open>json.Marshal\<close> writes it, and two such lists are equal exactly when the maps are.
\<close>

section \<open>Raw messages\<close>

datatype raw_message = Raw json | Junk string

fun raw_bytes :: "raw_message \<Rightarrow> string" where
  "raw_bytes (Raw j) = encode j"
| "raw_bytes (Junk s) = s"

section \<open>Fields\<close>

definition strict_fields :: "string list \<Rightarrow> json \<Rightarrow> (string \<times> json) list option" where
  "strict_fields names j =
     (case j of
        JNull \<Rightarrow> Some []
      | JObj fs \<Rightarrow> (if list_all (\<lambda>(k, v). k \<in> set names) fs then Some fs else None)
      | _ \<Rightarrow> None)"

definition get_field :: "string \<Rightarrow> (string \<times> json) list \<Rightarrow> json" where
  "get_field k fs = (case map_of (rev fs) k of None \<Rightarrow> JNull | Some v \<Rightarrow> v)"

fun decode_str :: "json \<Rightarrow> string option" where
  "decode_str JNull = Some ''''"
| "decode_str (JStr s) = Some s"
| "decode_str _ = None"

fun decode_int :: "json \<Rightarrow> int option" where
  "decode_int JNull = Some 0"
| "decode_int (JInt i) = (if in64 i then Some i else None)"
| "decode_int _ = None"

section \<open>Maps of strings\<close>

type_synonym smap = "(string \<times> string) list"

definition go_map :: "(string \<times> 'v) list \<Rightarrow> bool" where
  "go_map m \<longleftrightarrow> sorted_wrt (<) (map fst m)"

definition map_set :: "string \<Rightarrow> 'v \<Rightarrow> (string \<times> 'v) list \<Rightarrow> (string \<times> 'v) list" where
  "map_set k v m = filter (\<lambda>(k', v'). k' < k) m @ (k, v) # filter (\<lambda>(k', v'). k < k') m"

definition map_delete :: "string \<Rightarrow> (string \<times> 'v) list \<Rightarrow> (string \<times> 'v) list" where
  "map_delete k m = filter (\<lambda>(k', v'). k' \<noteq> k) m"

text \<open>Reading a missing key of a Go map gives the zero value.\<close>

definition map_get :: "smap \<Rightarrow> string \<Rightarrow> string" where
  "map_get m k = (case map_of m k of None \<Rightarrow> '''' | Some v \<Rightarrow> v)"

fun decode_smap_fields :: "(string \<times> json) list \<Rightarrow> smap \<Rightarrow> smap option" where
  "decode_smap_fields [] m = Some m"
| "decode_smap_fields ((k, j) # fs) m =
     (case decode_str j of None \<Rightarrow> None | Some v \<Rightarrow> decode_smap_fields fs (map_set k v m))"

fun decode_smap :: "json \<Rightarrow> smap option" where
  "decode_smap JNull = Some []"
| "decode_smap (JObj fs) = decode_smap_fields fs []"
| "decode_smap _ = None"

text \<open>\<open>equalStringMaps\<close>: same size, and every entry of the left one reads the same on the right.\<close>

definition equalStringMaps :: "smap \<Rightarrow> smap \<Rightarrow> bool" where
  "equalStringMaps l r \<longleftrightarrow> length l = length r \<and> list_all (\<lambda>(k, v). map_get r k = v) l"

section \<open>Facts\<close>

lemma go_map_Nil [simp]: "go_map []"
  by (simp add: go_map_def)

lemma go_map_distinct: "go_map m \<Longrightarrow> distinct (map fst m)"
  by (simp add: go_map_def strict_sorted_iff)

lemma go_map_sort [simp]: "go_map m \<Longrightarrow> sort_key fst m = m"
  by (simp add: go_map_def sort_key_id_if_sorted strict_sorted_imp_sorted)

lemma go_map_set [simp]: "go_map m \<Longrightarrow> go_map (map_set k v m)"
  by (auto simp: go_map_def map_set_def sorted_wrt_map sorted_wrt_append sorted_wrt_filter)

lemma map_of_filter_key:
  "map_of (filter (\<lambda>(k, v). P k) m) x = (if P x then map_of m x else None)"
  by (induction m) auto

lemma map_of_map_set [simp]: "map_of (map_set k v m) = (map_of m)(k \<mapsto> v)"
  by (rule ext) (auto simp: map_set_def map_add_def map_of_filter_key split: option.splits)

lemma map_get_map_set:
  "map_get (map_set k v m) x = (if x = k then v else map_get m x)"
  by (simp add: map_get_def)

lemma map_set_last:
  "list_all (\<lambda>(k', v'). k' < k) m \<Longrightarrow> map_set k v m = m @ [(k, v)]"
  by (auto simp: map_set_def list_all_iff filter_empty_conv filter_id_conv)

lemma decode_smap_fields_go_map:
  "decode_smap_fields fs m = Some r \<Longrightarrow> go_map m \<Longrightarrow> go_map r"
  by (induction fs m rule: decode_smap_fields.induct) (auto split: option.splits)

lemma decode_smap_go_map: "decode_smap j = Some r \<Longrightarrow> go_map r"
  by (cases j) (auto dest: decode_smap_fields_go_map)

lemma decode_smap_fields_roundtrip:
  "go_map (m @ m') \<Longrightarrow>
    decode_smap_fields (map (\<lambda>(k, v). (k, JStr v)) m') m = Some (m @ m')"
proof (induction m' arbitrary: m)
  case Nil
  then show ?case by simp
next
  case (Cons kv m')
  obtain k v where kv: "kv = (k, v)" by force
  with Cons.prems have "list_all (\<lambda>(k', v'). k' < k) m"
    by (auto simp: go_map_def sorted_wrt_append list_all_iff)
  then have "map_set k v m = m @ [(k, v)]" by (rule map_set_last)
  with Cons kv show ?case by simp
qed

lemma decode_smap_roundtrip [simp]:
  "go_map m \<Longrightarrow> decode_smap (json_of_string_map m) = Some m"
  using decode_smap_fields_roundtrip [of "[]" m] by (simp add: json_of_string_map_def)

lemma equalStringMaps_refl [simp]: "go_map m \<Longrightarrow> equalStringMaps m m"
  by (auto simp: equalStringMaps_def list_all_iff map_get_def go_map_distinct)

lemma go_map_eqI: "go_map l \<Longrightarrow> go_map r \<Longrightarrow> set l = set r \<Longrightarrow> l = r"
  by (rule map_sorted_distinct_set_unique [of fst])
    (auto simp: go_map_def strict_sorted_iff distinct_map)

text \<open>
  When the left map holds no empty value the comparison is equality of maps.
\<close>

lemma equalStringMaps_eq:
  assumes l: "go_map l" and r: "go_map r" and nb: "\<And>k v. (k, v) \<in> set l \<Longrightarrow> v \<noteq> ''''"
  shows "equalStringMaps l r \<longleftrightarrow> l = r"
proof
  assume eq: "equalStringMaps l r"
  have sub: "set l \<subseteq> set r"
  proof
    fix kv
    assume kv: "kv \<in> set l"
    moreover obtain k v where "kv = (k, v)" by force
    ultimately show "kv \<in> set r" using eq nb
      by (fastforce simp: equalStringMaps_def list_all_iff map_get_def split: option.splits
          dest: map_of_SomeD)
  qed
  have "card (set l) = card (set r)"
    using eq l r by (metis distinct_card distinct_map equalStringMaps_def go_map_distinct)
  with sub have "set l = set r" by (metis List.finite_set card_subset_eq)
  with l r show "l = r" by (rule go_map_eqI)
next
  assume "l = r"
  with l show "equalStringMaps l r" by simp
qed

lemma decode_str_JStr_iff [simp]: "decode_str (JStr s) = Some t \<longleftrightarrow> s = t"
  by simp

lemma get_field_Nil [simp]: "get_field k [] = JNull"
  by (simp add: get_field_def)

lemma get_field_append [simp]:
  "get_field k (xs @ [(k', v)]) = (if k = k' then v else get_field k xs)"
  by (simp add: get_field_def)

section \<open>Totals over a map\<close>

lemma go_map_delete [simp]: "go_map m \<Longrightarrow> go_map (map_delete k m)"
  by (simp add: go_map_def map_delete_def sorted_wrt_map sorted_wrt_filter)

definition map_total :: "('v \<Rightarrow> int) \<Rightarrow> (string \<times> 'v) list \<Rightarrow> int" where
  "map_total f m = sum_list (map (\<lambda>(k, v). f v) m)"

lemma map_total_Nil [simp]: "map_total f [] = 0"
  by (simp add: map_total_def)

lemma map_total_set: "map_total f (map_set k v m) = map_total f (map_delete k m) + f v"
proof -
  have "map_total f (filter (\<lambda>(k', v'). k' < k) m) + map_total f (filter (\<lambda>(k', v'). k < k') m) =
      map_total f (map_delete k m)"
    by (induction m) (auto simp: map_total_def map_delete_def)
  then show ?thesis by (simp add: map_total_def map_set_def)
qed

lemma map_total_delete_absent: "map_of m k = None \<Longrightarrow> map_delete k m = m"
  by (induction m) (auto simp: map_delete_def split: if_splits)

lemma map_total_delete:
  "go_map m \<Longrightarrow> map_of m k = Some v \<Longrightarrow> map_total f (map_delete k m) = map_total f m - f v"
proof (induction m)
  case Nil
  then show ?case by simp
next
  case (Cons kv m)
  obtain k' v' where kv: "kv = (k', v')" by force
  have gm: "go_map m" using Cons.prems(1) by (simp add: go_map_def)
  show ?case
  proof (cases "k' = k")
    case True
    have "k \<notin> fst ` set m" using Cons.prems(1) kv True by (auto simp: go_map_def)
    then have "map_of m k = None" by (simp add: map_of_eq_None_iff)
    from map_total_delete_absent [OF this] Cons.prems(2) kv True show ?thesis
      by (simp add: map_total_def map_delete_def)
  next
    case False
    with Cons.IH [OF gm] Cons.prems(2) kv show ?thesis
      by (simp add: map_total_def map_delete_def)
  qed
qed

lemma map_total_nonneg: "(\<And>k v. (k, v) \<in> set m \<Longrightarrow> 0 \<le> f v) \<Longrightarrow> 0 \<le> map_total f m"
  unfolding map_total_def by (rule sum_list_nonneg_int) auto

lemma map_total_delete_le:
  assumes "go_map m" "\<And>k v. (k, v) \<in> set m \<Longrightarrow> 0 \<le> f v"
  shows "map_total f (map_delete k m) \<le> map_total f m"
proof (cases "map_of m k")
  case None
  then show ?thesis by (simp add: map_total_delete_absent)
next
  case (Some v)
  with assms map_total_delete [OF assms(1) Some, of f] show ?thesis
    by (metis diff_left_mono diff_zero map_of_SomeD)
qed

lemma set_map_set: "set (map_set k v m) \<subseteq> insert (k, v) (set m)"
  by (auto simp: map_set_def)

lemma set_map_delete: "set (map_delete k m) \<subseteq> set m"
  by (auto simp: map_delete_def)

section \<open>Fingerprints of generic JSON\<close>

text \<open>
  \<open>acquisition.Fingerprint\<close> decodes the marshalled value into \<open>any\<close>, drops a top-level
  fingerprint and marshals again: object keys come out sorted at every level. Integers pass
  through \<open>float64\<close> there, which is exact up to \<open>2 ^ 53\<close>; the values that the code
  fingerprints this way are far below that.
\<close>

fun canonical_json :: "json \<Rightarrow> json" where
  "canonical_json (JArr xs) = JArr (map canonical_json xs)"
| "canonical_json (JObj fs) = JObj (sort_key fst (map (\<lambda>(k, v). (k, canonical_json v)) fs))"
| "canonical_json j = j"

definition generic_fingerprint :: "(string \<Rightarrow> string) \<Rightarrow> json \<Rightarrow> string" where
  "generic_fingerprint sha j =
     sha (encode (canonical_json
       (case j of JObj fs \<Rightarrow> JObj (filter (\<lambda>(k, v). k \<noteq> ''fingerprint'') fs) | _ \<Rightarrow> j)))"

section \<open>Slices\<close>

text \<open>
  A Go slice is \<open>None\<close> when it is nil and \<open>Some\<close> of its elements otherwise: the two marshal
  differently.
\<close>

type_synonym 'a slice = "'a list option"

definition slice_list :: "'a slice \<Rightarrow> 'a list" where
  "slice_list s = (case s of None \<Rightarrow> [] | Some xs \<Rightarrow> xs)"

definition slice_append :: "'a slice \<Rightarrow> 'a list \<Rightarrow> 'a slice" where
  "slice_append s xs = (if xs = [] then s else Some (slice_list s @ xs))"

definition json_of_slice :: "('a \<Rightarrow> json) \<Rightarrow> 'a slice \<Rightarrow> json" where
  "json_of_slice f s = (case s of None \<Rightarrow> JNull | Some xs \<Rightarrow> JArr (map f xs))"

lemma slice_list_simps [simp]: "slice_list None = []" "slice_list (Some xs) = xs"
  by (simp_all add: slice_list_def)

lemma slice_list_map [simp]: "slice_list (map_option (map f) s) = map f (slice_list s)"
  by (cases s) simp_all

lemma slice_list_sort [simp]: "slice_list (map_option (sort_key f) s) = sort_key f (slice_list s)"
  by (cases s) simp_all

lemma slice_list_append [simp]: "slice_list (slice_append s xs) = slice_list s @ xs"
  by (cases s) (simp_all add: slice_append_def)

lemma json_of_slice_inj:
  assumes "json_of_slice f s = json_of_slice f t" "\<And>x y. f x = f y \<Longrightarrow> x = y"
  shows "s = t"
proof -
  have "inj f" using assms(2) by (auto intro: injI)
  with assms(1) show ?thesis
    by (auto simp: json_of_slice_def inj_map_eq_map split: option.splits)
qed

end
