(* ===== verification/Orch_Plan.thy ===== *)
theory Orch_Plan
  imports Json_Decode "HOL-Library.Monad_Syntax"
begin

text \<open>
  Run plans of \<open>internal/orchestration/types.go\<close>: budgets, the plan, its JSON encoding in
  field order and its strict decoding, \<open>validateRunPlanFields\<close>, \<open>SealRunPlan\<close> and
  \<open>ValidateRunPlan\<close>. SHA-256 is the parameter \<open>sha\<close>. Integers are Go's 64-bit integers.
\<close>

section \<open>Plans\<close>

definition RunPlanSchemaVersion :: string where
  "RunPlanSchemaVersion = ''mindline-activation-run-plan/v0.1''"

definition RunModeProof :: string where
  "RunModeProof = ''proof''"

definition RunModeExperimentalDrain :: string where
  "RunModeExperimentalDrain = ''experimental_drain''"

definition PrivacyPolicySyntheticOnly :: string where
  "PrivacyPolicySyntheticOnly = ''synthetic_only''"

definition PrivacyPolicyPrivateRuntime :: string where
  "PrivacyPolicyPrivateRuntime = ''private_runtime_authorized''"

record run_budgets =
  MaximumItems :: int
  MaximumBytes :: int
  MaximumAttempts :: int
  MaximumNetworkRequests :: int
  MaximumWallTimeSeconds :: int
  MaximumCostMicrounits :: int
  MaximumRetryAttempts :: int
  ManualSupportTolerance :: int

record run_plan =
  rp_SchemaVersion :: string
  rp_Fingerprint :: string
  SourceScopeFingerprint :: string
  rp_InventoryFingerprint :: string
  StrategyFingerprint :: string
  ComponentVersions :: smap
  PrivacyPolicy :: string
  Mode :: string
  IdempotencyNamespace :: string
  Budgets :: run_budgets

section \<open>Encoding and decoding\<close>

definition json_of_budgets :: "run_budgets \<Rightarrow> json" where
  "json_of_budgets b = JObj
     [(''maximum_items'', JInt (MaximumItems b)),
      (''maximum_bytes'', JInt (MaximumBytes b)),
      (''maximum_attempts'', JInt (MaximumAttempts b)),
      (''maximum_network_requests'', JInt (MaximumNetworkRequests b)),
      (''maximum_wall_time_seconds'', JInt (MaximumWallTimeSeconds b)),
      (''maximum_cost_microunits'', JInt (MaximumCostMicrounits b)),
      (''maximum_retry_attempts'', JInt (MaximumRetryAttempts b)),
      (''manual_support_tolerance'', JInt (ManualSupportTolerance b))]"

definition decode_budgets :: "json \<Rightarrow> run_budgets option" where
  "decode_budgets j = do {
     fs \<leftarrow> strict_fields [''maximum_items'', ''maximum_bytes'', ''maximum_attempts'',
        ''maximum_network_requests'', ''maximum_wall_time_seconds'', ''maximum_cost_microunits'',
        ''maximum_retry_attempts'', ''manual_support_tolerance''] j;
     items \<leftarrow> decode_int (get_field ''maximum_items'' fs);
     bytes \<leftarrow> decode_int (get_field ''maximum_bytes'' fs);
     attempts \<leftarrow> decode_int (get_field ''maximum_attempts'' fs);
     requests \<leftarrow> decode_int (get_field ''maximum_network_requests'' fs);
     wall \<leftarrow> decode_int (get_field ''maximum_wall_time_seconds'' fs);
     cost \<leftarrow> decode_int (get_field ''maximum_cost_microunits'' fs);
     retries \<leftarrow> decode_int (get_field ''maximum_retry_attempts'' fs);
     manual \<leftarrow> decode_int (get_field ''manual_support_tolerance'' fs);
     Some \<lparr>MaximumItems = items, MaximumBytes = bytes, MaximumAttempts = attempts,
           MaximumNetworkRequests = requests, MaximumWallTimeSeconds = wall,
           MaximumCostMicrounits = cost, MaximumRetryAttempts = retries,
           ManualSupportTolerance = manual\<rparr> }"

definition json_of_run_plan :: "run_plan \<Rightarrow> json" where
  "json_of_run_plan p = JObj
     [(''schema_version'', JStr (rp_SchemaVersion p)),
      (''fingerprint'', JStr (rp_Fingerprint p)),
      (''source_scope_fingerprint'', JStr (SourceScopeFingerprint p)),
      (''inventory_fingerprint'', JStr (rp_InventoryFingerprint p)),
      (''strategy_fingerprint'', JStr (StrategyFingerprint p)),
      (''component_versions'', json_of_string_map (ComponentVersions p)),
      (''privacy_policy'', JStr (PrivacyPolicy p)),
      (''mode'', JStr (Mode p)),
      (''idempotency_namespace'', JStr (IdempotencyNamespace p)),
      (''budgets'', json_of_budgets (Budgets p))]"

definition decode_run_plan :: "json \<Rightarrow> run_plan option" where
  "decode_run_plan j = do {
     fs \<leftarrow> strict_fields [''schema_version'', ''fingerprint'', ''source_scope_fingerprint'',
        ''inventory_fingerprint'', ''strategy_fingerprint'', ''component_versions'',
        ''privacy_policy'', ''mode'', ''idempotency_namespace'', ''budgets''] j;
     schema \<leftarrow> decode_str (get_field ''schema_version'' fs);
     fp \<leftarrow> decode_str (get_field ''fingerprint'' fs);
     scope \<leftarrow> decode_str (get_field ''source_scope_fingerprint'' fs);
     inv \<leftarrow> decode_str (get_field ''inventory_fingerprint'' fs);
     strategy \<leftarrow> decode_str (get_field ''strategy_fingerprint'' fs);
     components \<leftarrow> decode_smap (get_field ''component_versions'' fs);
     privacy \<leftarrow> decode_str (get_field ''privacy_policy'' fs);
     mode \<leftarrow> decode_str (get_field ''mode'' fs);
     namespace \<leftarrow> decode_str (get_field ''idempotency_namespace'' fs);
     budgets \<leftarrow> decode_budgets (get_field ''budgets'' fs);
     Some \<lparr>rp_SchemaVersion = schema, rp_Fingerprint = fp, SourceScopeFingerprint = scope,
           rp_InventoryFingerprint = inv, StrategyFingerprint = strategy,
           ComponentVersions = components, PrivacyPolicy = privacy, Mode = mode,
           IdempotencyNamespace = namespace, Budgets = budgets\<rparr> }"

section \<open>Validation and sealing\<close>

definition budgets_valid :: "run_budgets \<Rightarrow> bool" where
  "budgets_valid b \<longleftrightarrow>
     \<not> (MaximumItems b < 0 \<or> MaximumBytes b \<le> 0 \<or> MaximumAttempts b \<le> 0 \<or>
        MaximumNetworkRequests b \<le> 0 \<or> MaximumWallTimeSeconds b \<le> 0 \<or>
        MaximumCostMicrounits b < 0 \<or> MaximumRetryAttempts b < 0 \<or> ManualSupportTolerance b < 0)"

definition validateRunPlanFields :: "run_plan \<Rightarrow> bool" where
  "validateRunPlanFields p \<longleftrightarrow>
     \<not> (rp_SchemaVersion p \<noteq> RunPlanSchemaVersion \<or> blank (SourceScopeFingerprint p) \<or>
        blank (rp_InventoryFingerprint p) \<or> blank (StrategyFingerprint p) \<or>
        (PrivacyPolicy p \<noteq> PrivacyPolicySyntheticOnly \<and>
         PrivacyPolicy p \<noteq> PrivacyPolicyPrivateRuntime) \<or>
        blank (IdempotencyNamespace p)) \<and>
     \<not> (Mode p \<noteq> RunModeProof \<and> Mode p \<noteq> RunModeExperimentalDrain) \<and>
     ComponentVersions p \<noteq> [] \<and> budgets_valid (Budgets p) \<and>
     list_all (\<lambda>(name, version). \<not> blank name \<and> \<not> blank version) (ComponentVersions p)"

definition run_plan_fingerprint :: "(string \<Rightarrow> string) \<Rightarrow> run_plan \<Rightarrow> string" where
  "run_plan_fingerprint sha p =
     prefixed_fingerprint sha (json_of_run_plan (p\<lparr>rp_Fingerprint := ''''\<rparr>))"

definition SealRunPlan :: "(string \<Rightarrow> string) \<Rightarrow> run_plan \<Rightarrow> run_plan option" where
  "SealRunPlan sha p =
     (if validateRunPlanFields (p\<lparr>rp_Fingerprint := ''''\<rparr>)
      then Some (p\<lparr>rp_Fingerprint := run_plan_fingerprint sha p\<rparr>) else None)"

definition ValidateRunPlan :: "(string \<Rightarrow> string) \<Rightarrow> run_plan \<Rightarrow> bool" where
  "ValidateRunPlan sha p \<longleftrightarrow>
     rp_Fingerprint p \<noteq> '''' \<and> validateRunPlanFields (p\<lparr>rp_Fingerprint := ''''\<rparr>) \<and>
     rp_Fingerprint p = run_plan_fingerprint sha p"

section \<open>Facts\<close>

text \<open>Plans as the program holds them: 64-bit integers and a map of component versions.\<close>

definition budgets64 :: "run_budgets \<Rightarrow> bool" where
  "budgets64 b \<longleftrightarrow> in64 (MaximumItems b) \<and> in64 (MaximumBytes b) \<and> in64 (MaximumAttempts b) \<and>
     in64 (MaximumNetworkRequests b) \<and> in64 (MaximumWallTimeSeconds b) \<and>
     in64 (MaximumCostMicrounits b) \<and> in64 (MaximumRetryAttempts b) \<and>
     in64 (ManualSupportTolerance b)"

definition plan_typed :: "run_plan \<Rightarrow> bool" where
  "plan_typed p \<longleftrightarrow> go_map (ComponentVersions p) \<and> budgets64 (Budgets p)"

lemma decode_budgets_roundtrip [simp]:
  "budgets64 b \<Longrightarrow> decode_budgets (json_of_budgets b) = Some b"
  by (simp add: decode_budgets_def json_of_budgets_def strict_fields_def get_field_def budgets64_def)

lemma decode_run_plan_roundtrip [simp]:
  "plan_typed p \<Longrightarrow> decode_run_plan (json_of_run_plan p) = Some p"
  by (simp add: decode_run_plan_def json_of_run_plan_def strict_fields_def get_field_def
      plan_typed_def)

lemma decode_int_in64: "decode_int j = Some i \<Longrightarrow> in64 i"
  by (cases j) (auto split: if_splits)

lemma decode_budgets_typed: "decode_budgets j = Some b \<Longrightarrow> budgets64 b"
  by (auto simp: decode_budgets_def budgets64_def bind_eq_Some_conv dest: decode_int_in64)

lemma decode_run_plan_typed: "decode_run_plan j = Some p \<Longrightarrow> plan_typed p"
  by (auto simp: decode_run_plan_def plan_typed_def bind_eq_Some_conv
      dest: decode_smap_go_map decode_budgets_typed)

lemma json_of_budgets_inject: "json_of_budgets a = json_of_budgets b \<Longrightarrow> a = b"
  by (simp add: json_of_budgets_def)

lemma plan_typed_fingerprint [simp]:
  "plan_typed (p\<lparr>rp_Fingerprint := f\<rparr>) = plan_typed p"
  by (simp add: plan_typed_def)

lemma run_plan_fingerprint_cong [simp]:
  "run_plan_fingerprint sha (p\<lparr>rp_Fingerprint := f\<rparr>) = run_plan_fingerprint sha p"
  by (simp add: run_plan_fingerprint_def)

lemma run_plan_fingerprint_nonempty [simp]: "run_plan_fingerprint sha p \<noteq> ''''"
  by (simp add: run_plan_fingerprint_def)

lemma seal_run_plan_valid: "SealRunPlan sha p = Some q \<Longrightarrow> ValidateRunPlan sha q"
  by (auto simp: SealRunPlan_def ValidateRunPlan_def split: if_splits)

lemma valid_plan_versions:
  "ValidateRunPlan sha p \<Longrightarrow> (k, v) \<in> set (ComponentVersions p) \<Longrightarrow> v \<noteq> ''''"
  by (fastforce simp: ValidateRunPlan_def validateRunPlanFields_def list_all_iff)

lemma valid_plan_versions_nonempty: "ValidateRunPlan sha p \<Longrightarrow> ComponentVersions p \<noteq> []"
  by (simp add: ValidateRunPlan_def validateRunPlanFields_def)

text \<open>Equal fingerprints come from equal plans unless the digest collides.\<close>

lemma run_plan_eqI:
  assumes "ValidateRunPlan sha p" "ValidateRunPlan sha q" "plan_typed p" "plan_typed q"
    and "rp_Fingerprint p = rp_Fingerprint q"
    and "no_collision sha (encode (json_of_run_plan (p\<lparr>rp_Fingerprint := ''''\<rparr>)))
           (encode (json_of_run_plan (q\<lparr>rp_Fingerprint := ''''\<rparr>)))"
  shows "p = q"
proof -
  let ?p = "p\<lparr>rp_Fingerprint := ''''\<rparr>" and ?q = "q\<lparr>rp_Fingerprint := ''''\<rparr>"
  have "json_of_run_plan ?p = json_of_run_plan ?q"
    using assms prefixed_fingerprint_inject [OF assms(6)]
    by (simp add: ValidateRunPlan_def run_plan_fingerprint_def)
  then have "decode_run_plan (json_of_run_plan ?p) = decode_run_plan (json_of_run_plan ?q)"
    by (rule arg_cong)
  with assms have "?p = ?q" by simp
  then have "?p\<lparr>rp_Fingerprint := rp_Fingerprint p\<rparr> = ?q\<lparr>rp_Fingerprint := rp_Fingerprint p\<rparr>"
    by (rule arg_cong)
  with assms(5) show ?thesis by (cases p; cases q) simp
qed

end
