(* ===== verification/Orch_Aggregate.thy ===== *)
theory Orch_Aggregate
  imports Orch_Plan "HOL-Library.Word"
begin

text \<open>
  The activation run of \<open>internal/orchestration/aggregate.go\<close> and \<open>commands.go\<close>: states,
  events with their JSON payloads, the aggregate that is rebuilt from events, and the command
  handler that produces the next event.

  Versions and sequence numbers are 64-bit words. \<open>time.Parse\<close> and \<open>time.Format\<close> with
  \<open>RFC3339Nano\<close> are the parameters \<open>parse_time\<close> (None for an error) and \<open>format_time\<close>;
  instants are integers. \<open>Apply\<close> changes the aggregate only when it succeeds; the model returns
  the new aggregate or the error.
\<close>

section \<open>States\<close>

datatype run_state =
    NoState
  | StateConfigured | StateInventorying | StateInventoryFrozen | StateProofSelected
  | StateProofProcessing | StateProofComplete | StateDrainConfirmed | StateDrainProcessing
  | StateQueueSealed | StatePaused | StateCredentialRequired | StateCancelled
  | OtherState string

fun state_text :: "run_state \<Rightarrow> string" where
  "state_text NoState = ''''"
| "state_text StateConfigured = ''configured''"
| "state_text StateInventorying = ''inventorying''"
| "state_text StateInventoryFrozen = ''inventory_frozen''"
| "state_text StateProofSelected = ''proof_selected''"
| "state_text StateProofProcessing = ''proof_processing''"
| "state_text StateProofComplete = ''proof_complete''"
| "state_text StateDrainConfirmed = ''drain_confirmed''"
| "state_text StateDrainProcessing = ''drain_processing''"
| "state_text StateQueueSealed = ''queue_sealed''"
| "state_text StatePaused = ''paused''"
| "state_text StateCredentialRequired = ''credential_required''"
| "state_text StateCancelled = ''cancelled''"
| "state_text (OtherState s) = s"

definition named_states :: "run_state list" where
  "named_states =
     [NoState, StateConfigured, StateInventorying, StateInventoryFrozen, StateProofSelected,
      StateProofProcessing, StateProofComplete, StateDrainConfirmed, StateDrainProcessing,
      StateQueueSealed, StatePaused, StateCredentialRequired, StateCancelled]"

definition state_of :: "string \<Rightarrow> run_state" where
  "state_of s =
     (case List.find (\<lambda>st. state_text st = s) named_states of None \<Rightarrow> OtherState s | Some st \<Rightarrow> st)"

lemma state_text_of [simp]: "state_text (state_of s) = s"
  by (auto simp: state_of_def find_Some_iff split: option.splits)

lemma state_of_text [simp]: "st \<in> set named_states \<Longrightarrow> state_of (state_text st) = st"
proof -
  have "list_all (\<lambda>st. state_of (state_text st) = st) named_states" by code_simp
  then show "st \<in> set named_states \<Longrightarrow> state_of (state_text st) = st" by (simp add: list_all_iff)
qed

section \<open>Events\<close>

definition EventSchemaVersion :: string where
  "EventSchemaVersion = ''mindline-activation-event/v0.1''"

datatype event_type = EventRunTransition | EventAuthorityReference | OtherEvent string

fun event_type_text :: "event_type \<Rightarrow> string" where
  "event_type_text EventRunTransition = ''run_transition''"
| "event_type_text EventAuthorityReference = ''authority_reference''"
| "event_type_text (OtherEvent s) = s"

record event =
  ev_SchemaVersion :: string
  ev_RunID :: string
  Sequence :: "64 word"
  EventID :: string
  ev_Type :: event_type
  OccurredAt :: string
  PreviousHash :: string
  Payload :: raw_message
  PayloadHash :: string
  EventHash :: string

record transition_payload =
  tp_From :: run_state
  tp_To :: run_state
  tp_PlanFingerprint :: string
  tp_ComponentVersions :: smap
  tp_RunPlan :: "run_plan option"

record authority_payload =
  AuthorityDomain :: string
  ArtifactFingerprint :: string
  ProjectionFingerprint :: string

datatype orch_error =
    ErrInvalidRunPlan | ErrInvalidInventory | ErrConfigurationDrift | ErrVersionConflict
  | ErrIllegalTransition | ErrInvalidEvent | ErrSampleChanged | ErrSampleBudget
  | ErrInvalidReadiness | ErrMissingEventStore

definition json_of_transition :: "transition_payload \<Rightarrow> json" where
  "json_of_transition p = JObj
     (opt_field (tp_From p \<noteq> NoState) ''from'' (JStr (state_text (tp_From p))) @
      [(''to'', JStr (state_text (tp_To p))),
       (''plan_fingerprint'', JStr (tp_PlanFingerprint p)),
       (''component_versions'', json_of_string_map (tp_ComponentVersions p))] @
      (case tp_RunPlan p of None \<Rightarrow> [] | Some plan \<Rightarrow> [(''run_plan'', json_of_run_plan plan)]))"

definition decode_plan_pointer :: "json \<Rightarrow> run_plan option option" where
  "decode_plan_pointer j =
     (if j = JNull then Some None else map_option Some (decode_run_plan j))"

definition decode_transition :: "json \<Rightarrow> transition_payload option" where
  "decode_transition j = do {
     fs \<leftarrow> strict_fields [''from'', ''to'', ''plan_fingerprint'', ''component_versions'',
        ''run_plan''] j;
     source \<leftarrow> decode_str (get_field ''from'' fs);
     target \<leftarrow> decode_str (get_field ''to'' fs);
     fp \<leftarrow> decode_str (get_field ''plan_fingerprint'' fs);
     components \<leftarrow> decode_smap (get_field ''component_versions'' fs);
     plan \<leftarrow> decode_plan_pointer (get_field ''run_plan'' fs);
     Some \<lparr>tp_From = state_of source, tp_To = state_of target, tp_PlanFingerprint = fp,
           tp_ComponentVersions = components, tp_RunPlan = plan\<rparr> }"

definition json_of_authority :: "authority_payload \<Rightarrow> json" where
  "json_of_authority p = JObj
     [(''domain'', JStr (AuthorityDomain p)), (''artifact_fingerprint'', JStr (ArtifactFingerprint p)),
      (''projection_fingerprint'', JStr (ProjectionFingerprint p))]"

definition decode_authority :: "json \<Rightarrow> authority_payload option" where
  "decode_authority j = do {
     fs \<leftarrow> strict_fields [''domain'', ''artifact_fingerprint'', ''projection_fingerprint''] j;
     domain \<leftarrow> decode_str (get_field ''domain'' fs);
     artifact \<leftarrow> decode_str (get_field ''artifact_fingerprint'' fs);
     projection \<leftarrow> decode_str (get_field ''projection_fingerprint'' fs);
     Some \<lparr>AuthorityDomain = domain, ArtifactFingerprint = artifact, ProjectionFingerprint = projection\<rparr> }"

fun decode_raw :: "(json \<Rightarrow> 'a option) \<Rightarrow> raw_message \<Rightarrow> 'a option" where
  "decode_raw d (Raw j) = d j"
| "decode_raw d (Junk s) = None"

type_synonym time_parser = "string \<Rightarrow> int option"

text \<open>The envelope checks that both payload decoders start with.\<close>

definition event_header_ok :: "time_parser \<Rightarrow> event_type \<Rightarrow> event \<Rightarrow> bool" where
  "event_header_ok parse_time kind ev \<longleftrightarrow>
     \<not> (ev_SchemaVersion ev \<noteq> EventSchemaVersion \<or> ev_Type ev \<noteq> kind \<or> ev_RunID ev = '''' \<or>
        Sequence ev = 0 \<or> OccurredAt ev = '''') \<and>
     parse_time (OccurredAt ev) \<noteq> None"

definition DecodeTransitionPayload ::
  "time_parser \<Rightarrow> event \<Rightarrow> (orch_error, transition_payload) result" where
  "DecodeTransitionPayload parse_time ev =
     (if \<not> event_header_ok parse_time EventRunTransition ev then Inl ErrInvalidEvent
      else case decode_raw decode_transition (Payload ev) of
        None \<Rightarrow> Inl ErrInvalidEvent
      | Some p \<Rightarrow>
          if tp_To p = NoState \<or> tp_PlanFingerprint p = '''' \<or> tp_ComponentVersions p = []
          then Inl ErrInvalidEvent else Inr p)"

definition authority_domains :: "string list" where
  "authority_domains =
     [''pre_live_authorization'', ''source_connection'', ''source_window'', ''inventory'',
      ''strategy'', ''destination'', ''queue'', ''processing'', ''review'', ''outbox'',
      ''approval'', ''cancellation'', ''delivery'', ''delivery_resume'', ''founder_review'',
      ''recovery'', ''drain_confirmation'', ''readiness'']"

definition DecodeAuthorityReferencePayload ::
  "time_parser \<Rightarrow> event \<Rightarrow> (orch_error, authority_payload) result" where
  "DecodeAuthorityReferencePayload parse_time ev =
     (if \<not> event_header_ok parse_time EventAuthorityReference ev then Inl ErrInvalidEvent
      else case decode_raw decode_authority (Payload ev) of
        None \<Rightarrow> Inl ErrInvalidEvent
      | Some p \<Rightarrow>
          if blank (AuthorityDomain p) \<or> blank (ArtifactFingerprint p) \<or> blank (ProjectionFingerprint p)
          then Inl ErrInvalidEvent
          else if AuthorityDomain p \<notin> set authority_domains then Inl ErrInvalidEvent else Inr p)"

section \<open>The aggregate\<close>

record aggregate =
  ag_RunID :: string
  Version :: "64 word"
  State :: run_state
  ResumeState :: run_state
  ag_PlanFingerprint :: string
  ag_ComponentVersions :: smap
  AuthorityReferences :: smap
  AuthorityProjectionReferences :: smap
  LatestAuthorityProjection :: string

definition new_aggregate :: "string \<Rightarrow> aggregate" where
  "new_aggregate run =
     \<lparr>ag_RunID = run, Version = 0, State = NoState, ResumeState = NoState,
      ag_PlanFingerprint = '''', ag_ComponentVersions = [], AuthorityReferences = [],
      AuthorityProjectionReferences = [], LatestAuthorityProjection = ''''\<rparr>"

text \<open>The map \<open>expected\<close> of the straight path; a missing key reads as the empty state.\<close>

fun expected_next :: "run_state \<Rightarrow> run_state" where
  "expected_next NoState = StateConfigured"
| "expected_next StateConfigured = StateInventorying"
| "expected_next StateInventorying = StateInventoryFrozen"
| "expected_next StateInventoryFrozen = StateProofSelected"
| "expected_next StateProofSelected = StateProofProcessing"
| "expected_next StateProofProcessing = StateProofComplete"
| "expected_next StateProofComplete = StateDrainConfirmed"
| "expected_next StateDrainConfirmed = StateDrainProcessing"
| "expected_next StateDrainProcessing = StateQueueSealed"
| "expected_next _ = NoState"

definition interrupted :: "run_state \<Rightarrow> bool" where
  "interrupted st \<longleftrightarrow> st = StatePaused \<or> st = StateCredentialRequired"

definition transitionAllowed :: "aggregate \<Rightarrow> run_state \<Rightarrow> bool" where
  "transitionAllowed ag target =
     (if State ag = StateCancelled \<or> State ag = StateQueueSealed then False
      else if target = StateCancelled then State ag \<noteq> NoState
      else if interrupted target then State ag \<noteq> NoState \<and> \<not> interrupted (State ag)
      else if interrupted (State ag) then target = ResumeState ag
      else expected_next (State ag) = target)"

definition apply_authority :: "time_parser \<Rightarrow> aggregate \<Rightarrow> event \<Rightarrow> (orch_error, aggregate) result"
  where
  "apply_authority parse_time ag ev =
     rbind (DecodeAuthorityReferencePayload parse_time ev) (\<lambda>p.
       Inr (ag\<lparr>AuthorityReferences :=
                 map_set (AuthorityDomain p) (ArtifactFingerprint p) (AuthorityReferences ag),
               AuthorityProjectionReferences :=
                 map_set (AuthorityDomain p) (ProjectionFingerprint p) (AuthorityProjectionReferences ag),
               LatestAuthorityProjection := ProjectionFingerprint p,
               Version := Sequence ev\<rparr>))"

text \<open>The plan binding: the first transition carries the plan, later ones repeat its identity.\<close>

definition bind_plan ::
  "(string \<Rightarrow> string) \<Rightarrow> aggregate \<Rightarrow> transition_payload \<Rightarrow> (orch_error, aggregate) result" where
  "bind_plan sha ag p =
     (if ag_PlanFingerprint ag = '''' then
        (case tp_RunPlan p of
           None \<Rightarrow> Inl ErrInvalidEvent
         | Some plan \<Rightarrow>
             if \<not> ValidateRunPlan sha plan \<or> rp_Fingerprint plan \<noteq> tp_PlanFingerprint p
             then Inl ErrInvalidEvent
             else Inr (ag\<lparr>ag_PlanFingerprint := rp_Fingerprint plan,
                          ag_ComponentVersions := ComponentVersions plan\<rparr>))
      else if tp_RunPlan p \<noteq> None \<or> tp_PlanFingerprint p \<noteq> ag_PlanFingerprint ag \<or>
              \<not> equalStringMaps (tp_ComponentVersions p) (ag_ComponentVersions ag)
      then Inl ErrConfigurationDrift else Inr ag)"

definition resume_after :: "aggregate \<Rightarrow> run_state \<Rightarrow> (orch_error, run_state) result" where
  "resume_after ag target =
     (if interrupted target then Inr (State ag)
      else if interrupted (State ag) then
        (if target \<noteq> ResumeState ag then Inl ErrIllegalTransition else Inr NoState)
      else Inr (if target = StateCancelled then NoState else ResumeState ag))"

definition Apply ::
  "(string \<Rightarrow> string) \<Rightarrow> time_parser \<Rightarrow> aggregate \<Rightarrow> event \<Rightarrow> (orch_error, aggregate) result" where
  "Apply sha parse_time ag ev =
     (if ag_RunID ag = '''' \<or> ev_RunID ev \<noteq> ag_RunID ag \<or> Sequence ev \<noteq> Version ag + 1
      then Inl ErrInvalidEvent
      else if ev_Type ev = EventAuthorityReference then apply_authority parse_time ag ev
      else rbind (DecodeTransitionPayload parse_time ev) (\<lambda>p.
        if tp_From p \<noteq> State ag \<or> \<not> transitionAllowed ag (tp_To p) then Inl ErrIllegalTransition
        else rbind (bind_plan sha ag p) (\<lambda>bound.
          rbind (resume_after bound (tp_To p)) (\<lambda>resume.
            Inr (bound\<lparr>ResumeState := resume, State := tp_To p, Version := Sequence ev\<rparr>)))))"

fun apply_all ::
  "(string \<Rightarrow> string) \<Rightarrow> time_parser \<Rightarrow> aggregate \<Rightarrow> event list \<Rightarrow> (orch_error, aggregate) result"
  where
  "apply_all sha parse_time ag [] = Inr ag"
| "apply_all sha parse_time ag (ev # evs) =
     rbind (Apply sha parse_time ag ev) (\<lambda>ag'. apply_all sha parse_time ag' evs)"

definition Rebuild_run ::
  "(string \<Rightarrow> string) \<Rightarrow> time_parser \<Rightarrow> string \<Rightarrow> event list \<Rightarrow> (orch_error, aggregate) result" where
  "Rebuild_run sha parse_time run evs = apply_all sha parse_time (new_aggregate run) evs"

section \<open>Commands\<close>

datatype command_kind =
    CommandConfigure | CommandStartInventory | CommandFreezeInventory | CommandSelectProof
  | CommandStartProof | CommandCompleteProof | CommandConfirmDrain | CommandStartDrain
  | CommandSealQueue | CommandPause | CommandResume | CommandCancel | CommandRequireCredential
  | CommandRestoreCredential | OtherCommand string

record command =
  cmd_Kind :: command_kind
  ExpectedVersion :: "64 word"
  Plan :: "run_plan option"
  Now :: "int option"

text \<open>\<open>Now\<close> is None for Go's zero time.\<close>

definition resume_target :: "aggregate \<Rightarrow> run_state \<Rightarrow> (orch_error, run_state) result" where
  "resume_target ag required =
     (if State ag \<noteq> required \<or> ResumeState ag = NoState then Inl ErrIllegalTransition
      else Inr (ResumeState ag))"

fun commandTarget :: "aggregate \<Rightarrow> command_kind \<Rightarrow> (orch_error, run_state) result" where
  "commandTarget ag CommandConfigure = Inr StateConfigured"
| "commandTarget ag CommandStartInventory = Inr StateInventorying"
| "commandTarget ag CommandFreezeInventory = Inr StateInventoryFrozen"
| "commandTarget ag CommandSelectProof = Inr StateProofSelected"
| "commandTarget ag CommandStartProof = Inr StateProofProcessing"
| "commandTarget ag CommandCompleteProof = Inr StateProofComplete"
| "commandTarget ag CommandConfirmDrain = Inr StateDrainConfirmed"
| "commandTarget ag CommandStartDrain = Inr StateDrainProcessing"
| "commandTarget ag CommandSealQueue = Inr StateQueueSealed"
| "commandTarget ag CommandPause = Inr StatePaused"
| "commandTarget ag CommandResume = resume_target ag StatePaused"
| "commandTarget ag CommandCancel = Inr StateCancelled"
| "commandTarget ag CommandRequireCredential = Inr StateCredentialRequired"
| "commandTarget ag CommandRestoreCredential = resume_target ag StateCredentialRequired"
| "commandTarget ag (OtherCommand _) = Inl ErrIllegalTransition"

definition command_event ::
  "(int \<Rightarrow> string) \<Rightarrow> aggregate \<Rightarrow> command_kind \<Rightarrow> run_plan \<Rightarrow> run_state \<Rightarrow> int \<Rightarrow> event" where
  "command_event format_time ag kind plan target now =
     \<lparr>ev_SchemaVersion = EventSchemaVersion, ev_RunID = ag_RunID ag, Sequence = Version ag + 1,
      EventID = '''', ev_Type = EventRunTransition, OccurredAt = format_time now,
      PreviousHash = '''',
      Payload = Raw (json_of_transition
        \<lparr>tp_From = State ag, tp_To = target, tp_PlanFingerprint = rp_Fingerprint plan,
         tp_ComponentVersions = ComponentVersions plan,
         tp_RunPlan = (if kind = CommandConfigure then Some plan else None)\<rparr>),
      PayloadHash = '''', EventHash = ''''\<rparr>"

definition HandleCommand ::
  "(string \<Rightarrow> string) \<Rightarrow> time_parser \<Rightarrow> (int \<Rightarrow> string) \<Rightarrow> aggregate \<Rightarrow> command
    \<Rightarrow> (orch_error, event) result" where
  "HandleCommand sha parse_time format_time ag cmd =
     (if ag_RunID ag = '''' \<or> ExpectedVersion cmd \<noteq> Version ag then Inl ErrVersionConflict
      else case Plan cmd of
        None \<Rightarrow> Inl ErrInvalidRunPlan
      | Some plan \<Rightarrow>
          if \<not> ValidateRunPlan sha plan then Inl ErrInvalidRunPlan
          else if ag_PlanFingerprint ag \<noteq> '''' \<and>
                  (rp_Fingerprint plan \<noteq> ag_PlanFingerprint ag \<or>
                   \<not> equalStringMaps (ComponentVersions plan) (ag_ComponentVersions ag))
          then Inl ErrConfigurationDrift
          else rbind (commandTarget ag (cmd_Kind cmd)) (\<lambda>target.
            if \<not> transitionAllowed ag target then Inl ErrIllegalTransition
            else case Now cmd of
              None \<Rightarrow> Inl ErrInvalidEvent
            | Some now \<Rightarrow>
                let ev = command_event format_time ag (cmd_Kind cmd) plan target now in
                rbind (DecodeTransitionPayload parse_time ev) (\<lambda>_. Inr ev)))"

end
