(* ===== verification/Orch_Run.thy ===== *)
theory Orch_Run
  imports Orch_Aggregate
begin

text \<open>
  Correctness of the activation run: the invariant of every rebuilt aggregate, the refinement
  of an abstract run (a position on the straight path that can be suspended or cancelled), and
  the exact condition under which the event of a command is accepted by the aggregate.
\<close>

section \<open>One successful step\<close>

lemma state_of_named [simp]: "state_of (state_text NoState) = NoState"
  by (rule state_of_text) (simp add: named_states_def)

lemma Apply_authority:
  "ev_Type ev = EventAuthorityReference \<Longrightarrow> Apply sha pt ag ev = Inr ag' \<Longrightarrow>
    apply_authority pt ag ev = Inr ag'"
  by (simp add: Apply_def split: if_splits)

lemma apply_authority_frame:
  assumes "apply_authority pt ag ev = Inr ag'"
  shows "ag_RunID ag' = ag_RunID ag" "State ag' = State ag" "ResumeState ag' = ResumeState ag"
    "ag_PlanFingerprint ag' = ag_PlanFingerprint ag"
    "ag_ComponentVersions ag' = ag_ComponentVersions ag"
    "Version ag' = Sequence ev"
    "go_map (AuthorityReferences ag) \<Longrightarrow> go_map (AuthorityReferences ag')"
    "go_map (AuthorityProjectionReferences ag) \<Longrightarrow> go_map (AuthorityProjectionReferences ag')"
  using assms by (auto simp: apply_authority_def rbind_Inr_iff)

text \<open>What a successful transition event did, as one rule.\<close>

lemma Apply_transitionE:
  assumes "Apply sha pt ag ev = Inr ag'" "ev_Type ev \<noteq> EventAuthorityReference"
  obtains p bound resume where
    "DecodeTransitionPayload pt ev = Inr p" "tp_From p = State ag"
    "transitionAllowed ag (tp_To p)" "bind_plan sha ag p = Inr bound"
    "resume_after bound (tp_To p) = Inr resume"
    "ag' = bound\<lparr>ResumeState := resume, State := tp_To p, Version := Sequence ev\<rparr>"
  using assms by (auto simp: Apply_def rbind_Inr_iff split: if_splits)

lemma Apply_version: "Apply sha pt ag ev = Inr ag' \<Longrightarrow> Version ag' = Version ag + 1"
  by (cases "ev_Type ev = EventAuthorityReference")
    (auto simp: Apply_def rbind_Inr_iff apply_authority_def split: if_splits)

text \<open>Replay does not look at the metadata that the journal adds to an event.\<close>

definition unsealed :: "event \<Rightarrow> event" where
  "unsealed ev = ev\<lparr>EventID := '''', PreviousHash := '''', PayloadHash := '''', EventHash := ''''\<rparr>"

lemma Apply_unsealed: "unsealed ev = unsealed ev' \<Longrightarrow> Apply sha pt ag ev = Apply sha pt ag ev'"
proof -
  assume "unsealed ev = unsealed ev'"
  then have f: "ev_SchemaVersion ev = ev_SchemaVersion ev'" "ev_RunID ev = ev_RunID ev'"
    "Sequence ev = Sequence ev'" "ev_Type ev = ev_Type ev'" "OccurredAt ev = OccurredAt ev'"
    "Payload ev = Payload ev'"
    by (cases ev; cases ev'; simp add: unsealed_def)+
  show ?thesis
    unfolding Apply_def apply_authority_def DecodeAuthorityReferencePayload_def
      DecodeTransitionPayload_def event_header_ok_def f ..
qed

lemma bind_plan_frame:
  assumes "bind_plan sha ag p = Inr bound"
  shows "State bound = State ag" "ResumeState bound = ResumeState ag"
    "ag_RunID bound = ag_RunID ag" "Version bound = Version ag"
    "AuthorityReferences bound = AuthorityReferences ag"
    "AuthorityProjectionReferences bound = AuthorityProjectionReferences ag"
  using assms by (auto simp: bind_plan_def split: if_splits option.splits)

lemma bind_plan_plan:
  assumes "bind_plan sha ag p = Inr bound"
  shows "if ag_PlanFingerprint ag = ''''
    then \<exists>plan. tp_RunPlan p = Some plan \<and> ValidateRunPlan sha plan \<and>
           ag_PlanFingerprint bound = rp_Fingerprint plan \<and>
           tp_PlanFingerprint p = rp_Fingerprint plan \<and>
           ag_ComponentVersions bound = ComponentVersions plan
    else bound = ag \<and> tp_RunPlan p = None \<and> tp_PlanFingerprint p = ag_PlanFingerprint ag \<and>
         equalStringMaps (tp_ComponentVersions p) (ag_ComponentVersions ag)"
  using assms by (auto simp: bind_plan_def split: if_splits option.splits)

lemma decode_plan_pointer_typed:
  "decode_plan_pointer j = Some (Some plan) \<Longrightarrow> plan_typed plan"
  by (auto simp: decode_plan_pointer_def split: if_splits dest: decode_run_plan_typed)

lemma DecodeTransitionPayload_typed:
  assumes "DecodeTransitionPayload pt ev = Inr p"
  shows "go_map (tp_ComponentVersions p)" "\<And>plan. tp_RunPlan p = Some plan \<Longrightarrow> plan_typed plan"
proof -
  obtain j where "decode_transition j = Some p"
    using assms by (cases "Payload ev")
      (auto simp: DecodeTransitionPayload_def split: if_splits option.splits)
  then show "go_map (tp_ComponentVersions p)"
    "\<And>plan. tp_RunPlan p = Some plan \<Longrightarrow> plan_typed plan"
    by (auto simp: decode_transition_def bind_eq_Some_conv
        dest: decode_smap_go_map decode_plan_pointer_typed)
qed

section \<open>The invariant of a rebuilt run\<close>

definition path_states :: "run_state list" where
  "path_states =
     [StateConfigured, StateInventorying, StateInventoryFrozen, StateProofSelected,
      StateProofProcessing, StateProofComplete, StateDrainConfirmed, StateDrainProcessing,
      StateQueueSealed]"

definition plan_bound :: "aggregate \<Rightarrow> bool" where
  "plan_bound ag \<longleftrightarrow>
     (if State ag = NoState then ag_PlanFingerprint ag = '''' else ag_PlanFingerprint ag \<noteq> '''') \<and>
     go_map (ag_ComponentVersions ag) \<and>
     (\<forall>(k, v)\<in>set (ag_ComponentVersions ag). v \<noteq> '''')"

definition control_ok :: "aggregate \<Rightarrow> bool" where
  "control_ok ag \<longleftrightarrow>
     (if interrupted (State ag)
      then ResumeState ag \<in> set path_states - {StateQueueSealed}
      else ResumeState ag = NoState \<and> State ag \<in> {NoState, StateCancelled} \<union> set path_states)"

definition run_inv :: "aggregate \<Rightarrow> bool" where
  "run_inv ag \<longleftrightarrow> plan_bound ag \<and> control_ok ag \<and> go_map (AuthorityReferences ag) \<and>
     go_map (AuthorityProjectionReferences ag)"

lemma run_inv_new [simp]: "run_inv (new_aggregate run)"
  by (simp add: run_inv_def plan_bound_def control_ok_def new_aggregate_def interrupted_def)

lemma control_ok_cong:
  "State a = State b \<Longrightarrow> ResumeState a = ResumeState b \<Longrightarrow> control_ok a = control_ok b"
  by (simp add: control_ok_def)

lemma transitionAllowed_cong:
  "State a = State b \<Longrightarrow> ResumeState a = ResumeState b \<Longrightarrow>
    transitionAllowed a target = transitionAllowed b target"
  by (simp add: transitionAllowed_def)

lemma control_ok_step:
  assumes "control_ok ag" "transitionAllowed ag target" "target \<noteq> NoState"
    and "resume_after ag target = Inr resume"
  shows "control_ok (ag\<lparr>ResumeState := resume, State := target, Version := n\<rparr>)"
  using assms
  by (cases "State ag") (auto simp: control_ok_def transitionAllowed_def interrupted_def
      path_states_def resume_after_def split: if_splits)

lemma Apply_run_inv:
  assumes inv: "run_inv ag" and ok: "Apply sha pt ag ev = Inr ag'"
  shows "run_inv ag'"
proof (cases "ev_Type ev = EventAuthorityReference")
  case True
  from apply_authority_frame [OF Apply_authority [OF True ok]] inv show ?thesis
    by (auto simp: run_inv_def plan_bound_def control_ok_def split: if_splits)
next
  case False
  from Apply_transitionE [OF ok False] obtain p bound resume where
    dec: "DecodeTransitionPayload pt ev = Inr p" and allowed: "transitionAllowed ag (tp_To p)"
    and bound: "bind_plan sha ag p = Inr bound"
    and resume: "resume_after bound (tp_To p) = Inr resume"
    and ag': "ag' = bound\<lparr>ResumeState := resume, State := tp_To p, Version := Sequence ev\<rparr>"
    by metis
  note fr = bind_plan_frame [OF bound]
  have to: "tp_To p \<noteq> NoState" using dec
    by (auto simp: DecodeTransitionPayload_def split: if_splits option.splits)
  have "control_ok bound" using inv control_ok_cong [OF fr(1,2)] by (simp add: run_inv_def)
  moreover have "transitionAllowed bound (tp_To p)" using allowed transitionAllowed_cong [OF fr(1,2)] by simp
  ultimately have "control_ok ag'" using control_ok_step to resume ag' by blast
  moreover have "plan_bound ag'"
  proof (cases "ag_PlanFingerprint ag = ''''")
    case True
    with bind_plan_plan [OF bound] obtain plan where plan: "tp_RunPlan p = Some plan"
      "ValidateRunPlan sha plan" "ag_PlanFingerprint bound = rp_Fingerprint plan"
      "ag_ComponentVersions bound = ComponentVersions plan" by auto
    moreover have "go_map (ComponentVersions plan)"
      using DecodeTransitionPayload_typed(2) [OF dec plan(1)] by (simp add: plan_typed_def)
    moreover have "\<forall>(k, v)\<in>set (ComponentVersions plan). v \<noteq> ''''"
      using valid_plan_versions [OF plan(2)] by blast
    ultimately show ?thesis using to ag' by (simp add: plan_bound_def ValidateRunPlan_def)
  next
    case False
    with bind_plan_plan [OF bound] have "bound = ag" by simp
    with False inv to ag' show ?thesis by (simp add: run_inv_def plan_bound_def)
  qed
  ultimately show ?thesis using inv fr ag' by (simp add: run_inv_def)
qed

text \<open>Runs as a step relation; \<open>Rebuild\<close> reaches exactly the reachable aggregates.\<close>

inductive run_reachable :: "(string \<Rightarrow> string) \<Rightarrow> time_parser \<Rightarrow> string \<Rightarrow> aggregate \<Rightarrow> bool"
  for sha pt run where
  start: "run_reachable sha pt run (new_aggregate run)"
| step: "run_reachable sha pt run ag \<Longrightarrow> Apply sha pt ag ev = Inr ag' \<Longrightarrow> run_reachable sha pt run ag'"

lemma run_reachable_inv: "run_reachable sha pt run ag \<Longrightarrow> run_inv ag"
  by (induction rule: run_reachable.induct) (auto intro: Apply_run_inv)

lemma apply_all_append:
  "apply_all sha pt ag (xs @ ys) = rbind (apply_all sha pt ag xs) (\<lambda>a. apply_all sha pt a ys)"
  by (induction xs arbitrary: ag) (auto simp: rbind_def split: sum.splits)

lemma apply_all_reachable:
  "apply_all sha pt ag evs = Inr ag' \<Longrightarrow> run_reachable sha pt run ag \<Longrightarrow> run_reachable sha pt run ag'"
  by (induction evs arbitrary: ag) (auto simp: rbind_Inr_iff intro: run_reachable.step)

lemma apply_all_version:
  "apply_all sha pt ag evs = Inr ag' \<Longrightarrow> Version ag' = Version ag + of_nat (length evs)"
  by (induction evs arbitrary: ag) (auto simp: rbind_Inr_iff dest: Apply_version)

lemma rebuild_reachable: "Rebuild_run sha pt run evs = Inr ag \<Longrightarrow> run_reachable sha pt run ag"
  by (simp add: Rebuild_run_def apply_all_reachable run_reachable.start)

section \<open>Payload round trip\<close>

definition payload_typed :: "transition_payload \<Rightarrow> bool" where
  "payload_typed p \<longleftrightarrow>
     tp_From p \<in> set named_states \<and> tp_To p \<in> set named_states \<and>
     go_map (tp_ComponentVersions p) \<and> (\<forall>plan\<in>set_option (tp_RunPlan p). plan_typed plan)"

lemma json_of_run_plan_not_null [simp]: "json_of_run_plan p \<noteq> JNull"
  by (simp add: json_of_run_plan_def)

lemma decode_transition_roundtrip:
  assumes "payload_typed p"
  shows "decode_transition (json_of_transition p) = Some p"
proof -
  have "state_of (state_text (tp_From p)) = tp_From p" "state_of (state_text (tp_To p)) = tp_To p"
    using assms by (auto simp: payload_typed_def)
  then show ?thesis
    using assms
    by (cases "tp_RunPlan p"; cases "tp_From p = NoState")
      (auto simp: payload_typed_def decode_transition_def json_of_transition_def opt_field_def
        strict_fields_def get_field_def decode_plan_pointer_def)
qed

lemma decode_authority_roundtrip [simp]: "decode_authority (json_of_authority p) = Some p"
  by (simp add: decode_authority_def json_of_authority_def strict_fields_def get_field_def)

section \<open>The event of a command\<close>

lemma run_inv_named:
  assumes "run_inv ag"
  shows "State ag \<in> set named_states" "ResumeState ag \<in> set named_states"
  using assms
  by (auto simp: run_inv_def control_ok_def path_states_def named_states_def interrupted_def
      split: if_splits)

lemma commandTarget_named:
  assumes "run_inv ag" "commandTarget ag kind = Inr target"
  shows "target \<in> set named_states - {NoState}"
  using assms run_inv_named(2) [OF assms(1)]
  by (cases kind) (auto simp: resume_target_def named_states_def split: if_splits)

lemma HandleCommandE:
  assumes "HandleCommand sha pt ft ag cmd = Inr ev"
  obtains plan target now where
    "ag_RunID ag \<noteq> ''''" "ExpectedVersion cmd = Version ag" "Plan cmd = Some plan"
    "ValidateRunPlan sha plan"
    "ag_PlanFingerprint ag = '''' \<or> (rp_Fingerprint plan = ag_PlanFingerprint ag \<and>
       equalStringMaps (ComponentVersions plan) (ag_ComponentVersions ag))"
    "commandTarget ag (cmd_Kind cmd) = Inr target" "transitionAllowed ag target"
    "Now cmd = Some now" "ev = command_event ft ag (cmd_Kind cmd) plan target now"
    "is_ok (DecodeTransitionPayload pt ev)"
  using assms
  by (auto simp: HandleCommand_def rbind_Inr_iff Let_def split: if_splits option.splits)

lemma decode_command_event:
  assumes "is_ok (DecodeTransitionPayload pt (command_event ft ag kind plan target now))"
    and "run_inv ag" "target \<in> set named_states" "plan_typed plan"
  shows "DecodeTransitionPayload pt (command_event ft ag kind plan target now) =
    Inr \<lparr>tp_From = State ag, tp_To = target, tp_PlanFingerprint = rp_Fingerprint plan,
         tp_ComponentVersions = ComponentVersions plan,
         tp_RunPlan = (if kind = CommandConfigure then Some plan else None)\<rparr>"
    (is "_ = Inr ?p")
proof -
  have "payload_typed ?p"
    using assms run_inv_named(1) [OF assms(2)] by (simp add: payload_typed_def plan_typed_def)
  from decode_transition_roundtrip [OF this] assms(1) show ?thesis
    by (auto simp: DecodeTransitionPayload_def command_event_def split: if_splits)
qed

text \<open>What the aggregate answers to the event of a command that was handled.\<close>

definition command_result ::
  "aggregate \<Rightarrow> command_kind \<Rightarrow> run_plan \<Rightarrow> run_state \<Rightarrow> (orch_error, aggregate) result" where
  "command_result ag kind plan target =
     (if interrupted (State ag) \<and> kind = CommandConfigure then Inl ErrConfigurationDrift
      else if interrupted (State ag) \<and> target = StateCancelled then Inl ErrIllegalTransition
      else Inr (ag\<lparr>ag_PlanFingerprint := rp_Fingerprint plan,
                   ag_ComponentVersions := ComponentVersions plan,
                   ResumeState := if interrupted target then State ag else NoState,
                   State := target, Version := Version ag + 1\<rparr>))"

lemma Apply_command_event:
  assumes inv: "run_inv ag" and ok: "HandleCommand sha pt ft ag cmd = Inr ev"
    and typed: "\<And>plan. Plan cmd = Some plan \<Longrightarrow> plan_typed plan"
  obtains plan target where "Plan cmd = Some plan" "commandTarget ag (cmd_Kind cmd) = Inr target"
    "transitionAllowed ag target"
    "Apply sha pt ag ev = command_result ag (cmd_Kind cmd) plan target"
proof -
  from HandleCommandE [OF ok] obtain plan target now where h:
    "ag_RunID ag \<noteq> ''''" "Plan cmd = Some plan" "ValidateRunPlan sha plan"
    "ag_PlanFingerprint ag = '''' \<or> (rp_Fingerprint plan = ag_PlanFingerprint ag \<and>
       equalStringMaps (ComponentVersions plan) (ag_ComponentVersions ag))"
    "commandTarget ag (cmd_Kind cmd) = Inr target" "transitionAllowed ag target"
    "ev = command_event ft ag (cmd_Kind cmd) plan target now"
    "is_ok (DecodeTransitionPayload pt ev)"
    by metis
  have "target \<in> set named_states" using commandTarget_named [OF inv h(5)] by simp
  note dec = decode_command_event [OF h(8) [unfolded h(7)] inv this typed [OF h(2)]]
  have same: "ag_PlanFingerprint ag \<noteq> '''' \<Longrightarrow>
      ag\<lparr>ag_PlanFingerprint := rp_Fingerprint plan, ag_ComponentVersions := ComponentVersions plan\<rparr> = ag"
  proof -
    assume "ag_PlanFingerprint ag \<noteq> ''''"
    with h(4) have "rp_Fingerprint plan = ag_PlanFingerprint ag"
      and "equalStringMaps (ComponentVersions plan) (ag_ComponentVersions ag)" by auto
    moreover from this have "ComponentVersions plan = ag_ComponentVersions ag"
      using equalStringMaps_eq [of "ComponentVersions plan" "ag_ComponentVersions ag"]
        typed [OF h(2)] inv valid_plan_versions [OF h(3)]
      by (simp add: plan_typed_def run_inv_def plan_bound_def)
    ultimately show ?thesis by simp
  qed
  have ev: "ev_RunID ev = ag_RunID ag" "Sequence ev = Version ag + 1"
    "ev_Type ev = EventRunTransition"
    using h(7) by (simp_all add: command_event_def)
  have unbound: "State ag = NoState \<longleftrightarrow> ag_PlanFingerprint ag = ''''"
    using inv by (auto simp: run_inv_def plan_bound_def split: if_splits)
  have "Apply sha pt ag ev = command_result ag (cmd_Kind cmd) plan target" (is "?A = ?R")
  proof (cases "State ag = NoState")
    case True
    with h(5,6) have "target = StateConfigured" "cmd_Kind cmd = CommandConfigure"
      by (cases "cmd_Kind cmd"; auto simp: transitionAllowed_def interrupted_def resume_target_def
          split: if_splits)+
    moreover have "ResumeState ag = NoState"
      using inv True by (simp add: run_inv_def control_ok_def interrupted_def)
    ultimately show ?thesis
      using True h(1,3,6,7) unbound dec ev
      by (simp add: Apply_def bind_plan_def resume_after_def interrupted_def command_result_def)
  next
    case False
    with h(4) unbound have eqs: "rp_Fingerprint plan = ag_PlanFingerprint ag"
      "equalStringMaps (ComponentVersions plan) (ag_ComponentVersions ag)" by auto
    have conf: "interrupted (State ag)" if "cmd_Kind cmd = CommandConfigure"
      using that False h(5,6)
      by (cases "State ag") (auto simp: transitionAllowed_def interrupted_def split: if_splits)
    have res: "target = ResumeState ag" if "interrupted (State ag)" "target \<noteq> StateCancelled"
      using that h(6) by (auto simp: transitionAllowed_def split: if_splits)
    have idle: "ResumeState ag = NoState" if "\<not> interrupted (State ag)"
      using inv that by (simp add: run_inv_def control_ok_def)
    have live: "ResumeState ag \<noteq> StateCancelled \<and> \<not> interrupted (ResumeState ag)"
      if "interrupted (State ag)"
      using inv that
      by (auto simp: run_inv_def control_ok_def path_states_def interrupted_def split: if_splits)
    have bind: "bind_plan sha ag
        \<lparr>tp_From = State ag, tp_To = target, tp_PlanFingerprint = rp_Fingerprint plan,
         tp_ComponentVersions = ComponentVersions plan,
         tp_RunPlan = (if cmd_Kind cmd = CommandConfigure then Some plan else None)\<rparr> =
        (if cmd_Kind cmd = CommandConfigure then Inl ErrConfigurationDrift else Inr ag)"
      using False unbound eqs by (simp add: bind_plan_def)
    have A: "?A = (if cmd_Kind cmd = CommandConfigure then Inl ErrConfigurationDrift
        else rbind (resume_after ag target) (\<lambda>resume.
          Inr (ag\<lparr>ResumeState := resume, State := target, Version := Version ag + 1\<rparr>)))"
      using h(1,6,7) dec ev by (simp add: Apply_def bind)
    have upd: "ag\<lparr>ag_PlanFingerprint := rp_Fingerprint plan,
        ag_ComponentVersions := ComponentVersions plan, ResumeState := r, State := t, Version := v\<rparr> =
        ag\<lparr>ResumeState := r, State := t, Version := v\<rparr>" for r t v
      using same False unbound by (metis (full_types))
    show ?thesis
      unfolding A command_result_def upd using conf res idle live
      by (cases "interrupted (State ag)"; cases "target = StateCancelled")
        (auto simp: resume_after_def interrupted_def)
  qed
  with that h(2,5,6) show ?thesis by blast
qed

end
