(* ===== verification/Orch_Demo.thy ===== *)
theory Orch_Demo
  imports Orch_Run
begin

text \<open>
  A concrete run for the witnesses: a sealed plan under a constant digest, the commands that
  drive it, and the aggregates it reaches.
\<close>

section \<open>A concrete run\<close>

definition orch_sha :: "string \<Rightarrow> string" where
  "orch_sha s = ''d''"

definition demo_parse :: time_parser where
  "demo_parse s = (if s = ''t'' then Some 0 else None)"

definition demo_format :: "int \<Rightarrow> string" where
  "demo_format n = ''t''"

definition demo_plan :: run_plan where
  "demo_plan =
     \<lparr>rp_SchemaVersion = RunPlanSchemaVersion, rp_Fingerprint = ''sha256:d'',
      SourceScopeFingerprint = ''s'', rp_InventoryFingerprint = ''i'',
      StrategyFingerprint = ''g'', ComponentVersions = [(''slack'', ''1'')],
      PrivacyPolicy = PrivacyPolicySyntheticOnly, Mode = RunModeProof,
      IdempotencyNamespace = ''n'',
      Budgets = \<lparr>MaximumItems = 1, MaximumBytes = 1, MaximumAttempts = 1,
        MaximumNetworkRequests = 1, MaximumWallTimeSeconds = 1, MaximumCostMicrounits = 0,
        MaximumRetryAttempts = 0, ManualSupportTolerance = 0\<rparr>\<rparr>"

definition demo_command :: "aggregate \<Rightarrow> command_kind \<Rightarrow> command" where
  "demo_command ag kind =
     \<lparr>cmd_Kind = kind, ExpectedVersion = Version ag, Plan = Some demo_plan, Now = Some 0\<rparr>"

fun demo_history :: "aggregate \<Rightarrow> command_kind list \<Rightarrow> event list" where
  "demo_history ag [] = []"
| "demo_history ag (kind # kinds) =
     (case HandleCommand orch_sha demo_parse demo_format ag (demo_command ag kind) of
        Inl _ \<Rightarrow> []
      | Inr ev \<Rightarrow>
          ev # (case Apply orch_sha demo_parse ag ev of
                  Inl _ \<Rightarrow> [] | Inr ag' \<Rightarrow> demo_history ag' kinds))"

definition demo_run :: "command_kind list \<Rightarrow> event list" where
  "demo_run kinds = demo_history (new_aggregate ''r'') kinds"

definition demo_aggregate :: "run_state \<Rightarrow> run_state \<Rightarrow> 64 word \<Rightarrow> aggregate" where
  "demo_aggregate st resume n =
     (new_aggregate ''r'')\<lparr>State := st, ResumeState := resume, Version := n,
        ag_PlanFingerprint := ''sha256:d'', ag_ComponentVersions := [(''slack'', ''1'')]\<rparr>"

lemma demo_plan_typed [simp]: "plan_typed demo_plan"
  by (simp add: plan_typed_def demo_plan_def go_map_def budgets64_def in64_def)

lemma demo_two_stages:
  "Rebuild_run orch_sha demo_parse ''r'' (demo_run [CommandConfigure, CommandStartInventory]) =
     Inr (demo_aggregate StateInventorying NoState 2)"
  by code_simp

lemma demo_paused:
  "Rebuild_run orch_sha demo_parse ''r'' (demo_run [CommandConfigure, CommandPause]) =
     Inr (demo_aggregate StatePaused StateConfigured 2)"
  by code_simp

definition demo_event :: "aggregate \<Rightarrow> command_kind \<Rightarrow> event" where
  "demo_event ag kind =
     projr (HandleCommand orch_sha demo_parse demo_format ag (demo_command ag kind))"

definition demo_drift_payload :: transition_payload where
  "demo_drift_payload =
     \<lparr>tp_From = StateConfigured, tp_To = StateInventorying, tp_PlanFingerprint = ''sha256:d'',
      tp_ComponentVersions = [(''other'', '''')], tp_RunPlan = None\<rparr>"

definition demo_drift_event :: event where
  "demo_drift_event =
     (demo_event (demo_aggregate StateConfigured NoState 1) CommandStartInventory)
       \<lparr>Payload := Raw (json_of_transition demo_drift_payload)\<rparr>"

lemma demo_configured:
  "Rebuild_run orch_sha demo_parse ''r'' (demo_run [CommandConfigure]) =
     Inr (demo_aggregate StateConfigured NoState 1)"
  by code_simp

lemma demo_drift_decoded:
  "DecodeTransitionPayload demo_parse demo_drift_event = Inr demo_drift_payload"
  by code_simp

lemma demo_third_stage:
  "Apply orch_sha demo_parse (demo_aggregate StateInventorying NoState 2)
     (demo_event (demo_aggregate StateInventorying NoState 2) CommandFreezeInventory) =
   Inr (demo_aggregate StateInventoryFrozen NoState 3)"
  by code_simp

lemma demo_drift_applied:
  "Apply orch_sha demo_parse (demo_aggregate StateConfigured NoState 1) demo_drift_event =
   Inr (demo_aggregate StateInventorying NoState 2)"
  by code_simp

lemma demo_handled:
  "HandleCommand orch_sha demo_parse demo_format (demo_aggregate StateInventorying NoState 2)
     (demo_command (demo_aggregate StateInventorying NoState 2) CommandFreezeInventory) =
   Inr (demo_event (demo_aggregate StateInventorying NoState 2) CommandFreezeInventory)"
  by code_simp

lemma demo_cancel_handled:
  "HandleCommand orch_sha demo_parse demo_format (demo_aggregate StatePaused StateConfigured 2)
     (demo_command (demo_aggregate StatePaused StateConfigured 2) CommandCancel) =
   Inr (demo_event (demo_aggregate StatePaused StateConfigured 2) CommandCancel)"
  by code_simp

lemma demo_event_type:
  "ev_Type (demo_event (demo_aggregate StateInventorying NoState 2) CommandFreezeInventory) =
     EventRunTransition"
  by code_simp

end
