(* ===== verification/Orch_Properties.thy ===== *)
theory Orch_Properties
  imports Orch_Demo
begin

text \<open>
  The properties of activation runs: refinement of an abstract run, the order of the stages,
  the fate of the events that the command handler emits, and how the run is bound to its plan.
\<close>

section \<open>The abstract run\<close>

text \<open>
  A run is not configured yet, at one of the nine stages of the straight path, suspended at a
  stage before the last, or cancelled.
\<close>

datatype abstract_run = Unconfigured | AtStage nat | Suspended run_state nat | Abandoned

inductive abstract_step :: "abstract_run \<Rightarrow> abstract_run \<Rightarrow> bool" where
  configure: "abstract_step Unconfigured (AtStage 0)"
| advance: "n < 8 \<Longrightarrow> abstract_step (AtStage n) (AtStage (Suc n))"
| suspend: "n < 8 \<Longrightarrow> interrupted kind \<Longrightarrow> abstract_step (AtStage n) (Suspended kind n)"
| resume: "abstract_step (Suspended kind n) (AtStage n)"
| abandon: "n < 8 \<Longrightarrow> abstract_step (AtStage n) Abandoned"

inductive_cases abstract_step_Abandoned [elim!]: "abstract_step Abandoned r"
inductive_cases abstract_step_Unconfigured [elim!]: "abstract_step Unconfigured r"
inductive_simps abstract_step_AtStage: "abstract_step (AtStage n) r"
inductive_simps abstract_step_Suspended: "abstract_step (Suspended kind n) r"

fun stage_index :: "run_state \<Rightarrow> nat" where
  "stage_index StateConfigured = 0"
| "stage_index StateInventorying = 1"
| "stage_index StateInventoryFrozen = 2"
| "stage_index StateProofSelected = 3"
| "stage_index StateProofProcessing = 4"
| "stage_index StateProofComplete = 5"
| "stage_index StateDrainConfirmed = 6"
| "stage_index StateDrainProcessing = 7"
| "stage_index _ = 8"

definition abstract_of :: "aggregate \<Rightarrow> abstract_run" where
  "abstract_of ag =
     (if State ag = NoState then Unconfigured
      else if State ag = StateCancelled then Abandoned
      else if interrupted (State ag) then Suspended (State ag) (stage_index (ResumeState ag))
      else AtStage (stage_index (State ag)))"

fun stages_done :: "abstract_run \<Rightarrow> nat" where
  "stages_done Unconfigured = 0"
| "stages_done (AtStage n) = Suc n"
| "stages_done (Suspended kind n) = Suc n"
| "stages_done Abandoned = 0"

lemma abstract_step_stages:
  "abstract_step r r' \<Longrightarrow> stages_done r' \<le> Suc (stages_done r)"
  by (induction rule: abstract_step.induct) auto

lemma abstract_step_new_stage:
  "abstract_step r r' \<Longrightarrow> stages_done r < stages_done r' \<Longrightarrow> r' = AtStage (stages_done r)"
  by (induction rule: abstract_step.induct) auto

lemma path_state_plain:
  "st \<in> set path_states \<Longrightarrow> st \<noteq> NoState \<and> st \<noteq> StateCancelled \<and> \<not> interrupted st"
  by (auto simp: path_states_def interrupted_def)

lemma open_stage:
  "st \<in> set path_states - {StateQueueSealed} \<Longrightarrow>
    stage_index st < 8 \<and> expected_next st \<in> set path_states \<and>
    stage_index (expected_next st) = Suc (stage_index st)"
  by (auto simp: path_states_def)

lemma abstract_of_path:
  "State ag \<in> set path_states \<Longrightarrow> abstract_of ag = AtStage (stage_index (State ag))"
  by (simp add: abstract_of_def path_state_plain)

lemma control_ok_cases:
  assumes "control_ok ag"
  obtains (unconfigured) "State ag = NoState" "ResumeState ag = NoState"
  | (path) "State ag \<in> set path_states" "ResumeState ag = NoState"
  | (suspended) "interrupted (State ag)" "ResumeState ag \<in> set path_states - {StateQueueSealed}"
  | (cancelled) "State ag = StateCancelled"
  using assms by (auto simp: control_ok_def split: if_splits)

lemma transition_abstract_step:
  assumes "control_ok ag" "transitionAllowed ag target" "target \<noteq> NoState"
    "resume_after ag target = Inr resume"
  shows "abstract_step (abstract_of ag)
    (abstract_of (ag\<lparr>ResumeState := resume, State := target, Version := n\<rparr>))"
  using assms(1)
proof (cases rule: control_ok_cases)
  case unconfigured
  with assms have "target = StateConfigured"
    by (auto simp: transitionAllowed_def interrupted_def split: if_splits)
  with unconfigured show ?thesis
    by (simp add: abstract_of_def interrupted_def abstract_step.configure)
next
  case path
  let ?k = "stage_index (State ag)"
  note plain = path_state_plain [OF path(1)]
  from assms(2) have notsealed: "State ag \<noteq> StateQueueSealed"
    by (auto simp: transitionAllowed_def)
  with path have st: "State ag \<in> set path_states - {StateQueueSealed}" by simp
  consider "target = StateCancelled" | "interrupted target" "target \<noteq> StateCancelled"
    | "target = expected_next (State ag)"
    using assms(2) plain notsealed by (auto simp: transitionAllowed_def split: if_splits)
  then show ?thesis
  proof cases
    case 1
    with abstract_of_path [OF path(1)] open_stage [OF st] show ?thesis
      by (simp add: abstract_of_def abstract_step.abandon)
  next
    case 2
    with assms(4) have "resume = State ag" by (simp add: resume_after_def)
    with 2 assms(3) abstract_of_path [OF path(1)] open_stage [OF st] show ?thesis
      by (simp add: abstract_of_def abstract_step.suspend)
  next
    case 3
    with abstract_of_path [OF path(1)] open_stage [OF st] show ?thesis
      by (simp add: abstract_of_path abstract_step.advance)
  qed
next
  case suspended
  note plain = path_state_plain [of "ResumeState ag"]
  from suspended assms(2,4) plain have "target = ResumeState ag"
    by (auto simp: transitionAllowed_def resume_after_def interrupted_def split: if_splits)
  with suspended plain show ?thesis
    by (auto simp: abstract_of_def interrupted_def intro: abstract_step.resume)
next
  case cancelled
  with assms(2) show ?thesis by (simp add: transitionAllowed_def)
qed

lemma abstract_of_cong:
  "State a = State b \<Longrightarrow> ResumeState a = ResumeState b \<Longrightarrow> abstract_of a = abstract_of b"
  by (simp add: abstract_of_def)

text \<open>One applied event is one abstract step, or an authority reference that leaves it alone.\<close>

lemma Apply_abstract:
  assumes inv: "run_inv ag" and ok: "Apply sha pt ag ev = Inr ag'"
  shows "if ev_Type ev = EventAuthorityReference then abstract_of ag' = abstract_of ag
    else abstract_step (abstract_of ag) (abstract_of ag')"
proof (cases "ev_Type ev = EventAuthorityReference")
  case True
  from abstract_of_cong [OF apply_authority_frame(2,3) [OF Apply_authority [OF True ok]]] True
  show ?thesis by simp
next
  case False
  from Apply_transitionE [OF ok False] obtain p bound resume where
    dec: "DecodeTransitionPayload pt ev = Inr p" and allowed: "transitionAllowed ag (tp_To p)"
    and bound: "bind_plan sha ag p = Inr bound"
    and resume: "resume_after bound (tp_To p) = Inr resume"
    and ag': "ag' = bound\<lparr>ResumeState := resume, State := tp_To p, Version := Sequence ev\<rparr>"
    by metis
  note fr = bind_plan_frame [OF bound]
  have "tp_To p \<noteq> NoState" using dec
    by (auto simp: DecodeTransitionPayload_def split: if_splits option.splits)
  moreover have "control_ok bound" "transitionAllowed bound (tp_To p)"
    using inv allowed control_ok_cong [OF fr(1,2)] transitionAllowed_cong [OF fr(1,2)]
    by (simp_all add: run_inv_def)
  ultimately have "abstract_step (abstract_of bound) (abstract_of ag')"
    unfolding ag' using resume by (intro transition_abstract_step)
  then show ?thesis using False abstract_of_cong [OF fr(1,2)] by simp
qed

lemma control_ok_stage:
  assumes "control_ok ag"
  shows "abstract_of ag = AtStage n \<Longrightarrow> n < 9 \<and> State ag = path_states ! n"
  using assms
  by (cases "State ag") (auto simp: abstract_of_def control_ok_def path_states_def interrupted_def)

section \<open>Properties\<close>

text \<open>C15: Replaying a journal refines the abstract run: from any rebuilt
  aggregate, an accepted authority reference leaves the abstract run as it is, and every other
  accepted event is one abstract step (configure, advance by exactly one stage, suspend, resume
  at the stage that was suspended, or abandon).\<close>

theorem run_refines_path:
  assumes "Rebuild_run sha pt run evs = Inr ag" and "Apply sha pt ag ev = Inr ag'"
  shows "if ev_Type ev = EventAuthorityReference then abstract_of ag' = abstract_of ag
    else abstract_step (abstract_of ag) (abstract_of ag')"
  using Apply_abstract [OF run_reachable_inv [OF rebuild_reachable [OF assms(1)]] assms(2)] .

text \<open>
  The stages already done in an aggregate have each been the state of an earlier aggregate of
  the same run.
\<close>

lemma apply_all_stages:
  assumes "apply_all sha pt ag evs = Inr ag'" "run_inv ag" "m < stages_done (abstract_of ag')"
    "stages_done (abstract_of ag) \<le> m"
  shows "\<exists>k\<le>length evs. \<exists>mid. apply_all sha pt ag (take k evs) = Inr mid \<and> State mid = path_states ! m"
  using assms
proof (induction evs arbitrary: ag)
  case Nil
  then show ?case by simp
next
  case (Cons ev evs)
  from Cons.prems(1) obtain ag1 where step: "Apply sha pt ag ev = Inr ag1"
    and rest: "apply_all sha pt ag1 evs = Inr ag'"
    by (auto simp: rbind_Inr_iff)
  have inv1: "run_inv ag1" using Apply_run_inv [OF Cons.prems(2) step] .
  show ?case
  proof (cases "stages_done (abstract_of ag1) \<le> m")
    case True
    from Cons.IH [OF rest inv1 Cons.prems(3) True] obtain k mid where
      "k \<le> length evs" "apply_all sha pt ag1 (take k evs) = Inr mid" "State mid = path_states ! m"
      by blast
    with step show ?thesis by (intro exI [of _ "Suc k"]) simp
  next
    case False
    with Cons.prems(4) Apply_abstract [OF Cons.prems(2) step]
    have st: "abstract_step (abstract_of ag) (abstract_of ag1)"
      and grow: "stages_done (abstract_of ag) < stages_done (abstract_of ag1)"
      by (auto split: if_splits)
    have "m = stages_done (abstract_of ag)"
      using abstract_step_stages [OF st] False Cons.prems(4) by simp
    with abstract_step_new_stage [OF st grow] have "abstract_of ag1 = AtStage m" by simp
    with inv1 have "State ag1 = path_states ! m"
      using control_ok_stage by (auto simp: run_inv_def)
    with step show ?thesis by (intro exI [of _ 1]) simp
  qed
qed

text \<open>C16: No stage is skipped: a run that stands at a stage, or is suspended there,
  was at every earlier stage after some prefix of its journal. In particular draining is never
  confirmed for a run whose proof was not complete before.\<close>

theorem stage_order:
  assumes "Rebuild_run sha pt run evs = Inr ag" and "m < stages_done (abstract_of ag)"
  shows "\<exists>k\<le>length evs. \<exists>mid. Rebuild_run sha pt run (take k evs) = Inr mid \<and>
           State mid = path_states ! m"
proof -
  have "stages_done (abstract_of (new_aggregate run)) = 0"
    by (simp add: abstract_of_def new_aggregate_def)
  with apply_all_stages [of sha pt "new_aggregate run" evs ag m] assms show ?thesis
    by (simp add: Rebuild_run_def)
qed

text \<open>C13: The event that the handler emits for a rebuilt run is accepted by the
  aggregate and moves it to the target of the command with the version increased by one,
  unless the run is paused or waits for a credential and the command is cancel or configure.
  Exactly then the aggregate rejects the event that was emitted for it.\<close>

theorem command_accepted:
  assumes "Rebuild_run sha pt run evs = Inr ag"
    and "HandleCommand sha pt ft ag cmd = Inr ev"
    and "\<And>plan. Plan cmd = Some plan \<Longrightarrow> plan_typed plan"
  shows "(\<exists>ag'. Apply sha pt ag ev = Inr ag' \<and> commandTarget ag (cmd_Kind cmd) = Inr (State ag') \<and>
            Version ag' = Version ag + 1) \<longleftrightarrow>
         \<not> (interrupted (State ag) \<and> cmd_Kind cmd \<in> {CommandConfigure, CommandCancel})"
proof -
  have inv: "run_inv ag" using run_reachable_inv [OF rebuild_reachable [OF assms(1)]] .
  have live: "ResumeState ag \<noteq> StateCancelled" if "interrupted (State ag)"
    using inv that by (auto simp: run_inv_def control_ok_def path_states_def split: if_splits)
  from Apply_command_event [OF inv assms(2,3)] obtain plan target where
    t: "commandTarget ag (cmd_Kind cmd) = Inr target" and
    A: "Apply sha pt ag ev = command_result ag (cmd_Kind cmd) plan target"
    by metis
  have "target = StateCancelled \<longleftrightarrow> cmd_Kind cmd = CommandCancel" if "interrupted (State ag)"
    using t live [OF that] by (cases "cmd_Kind cmd") (auto simp: resume_target_def split: if_splits)
  then show ?thesis
    unfolding A command_result_def using t
    by (cases "interrupted (State ag)"; cases "cmd_Kind cmd = CommandConfigure";
        cases "cmd_Kind cmd = CommandCancel") simp_all
qed

text \<open>C14: Cancelling a paused run: for a rebuilt run that is paused or waits
  for a credential, the handler emits a cancel event, and a journal that holds this event, with
  whatever sealing metadata the store adds and whatever events follow, can never be rebuilt
  again.\<close>

theorem cancel_poisons_run:
  assumes "Rebuild_run sha pt run evs = Inr ag" "interrupted (State ag)"
    and "HandleCommand sha pt ft ag cmd = Inr ev" "cmd_Kind cmd = CommandCancel"
    and "\<And>plan. Plan cmd = Some plan \<Longrightarrow> plan_typed plan"
  shows "Rebuild_run sha pt run (evs @ ev\<lparr>EventID := i, PreviousHash := p, PayloadHash := h,
           EventHash := e\<rparr> # rest) = Inl ErrIllegalTransition"
proof -
  have inv: "run_inv ag" using run_reachable_inv [OF rebuild_reachable [OF assms(1)]] .
  from Apply_command_event [OF inv assms(3,5)] assms(2,4)
  have "Apply sha pt ag ev = Inl ErrIllegalTransition" by (auto simp: command_result_def)
  moreover have "Apply sha pt ag (ev\<lparr>EventID := i, PreviousHash := p, PayloadHash := h,
      EventHash := e\<rparr>) = Apply sha pt ag ev"
    by (rule Apply_unsealed) (simp add: unsealed_def)
  ultimately show ?thesis using assms(1) by (simp add: Rebuild_run_def apply_all_append)
qed

text \<open>
  A configured run is pinned to its plan: an accepted event leaves the plan
  fingerprint and the component versions as they are, an accepted transition repeats the
  fingerprint and carries no plan of its own, and its component versions are those of the plan
  whenever none of them is empty.\<close>

theorem plan_pinned:
  assumes "Rebuild_run sha pt run evs = Inr ag" "State ag \<noteq> NoState"
    and "Apply sha pt ag ev = Inr ag'"
  shows "ag_PlanFingerprint ag' = ag_PlanFingerprint ag \<and>
    ag_ComponentVersions ag' = ag_ComponentVersions ag \<and>
    (ev_Type ev \<noteq> EventAuthorityReference \<longrightarrow>
      (\<exists>p. DecodeTransitionPayload pt ev = Inr p \<and> tp_RunPlan p = None \<and>
          tp_PlanFingerprint p = ag_PlanFingerprint ag \<and>
          ('''' \<notin> snd ` set (tp_ComponentVersions p) \<longrightarrow>
           tp_ComponentVersions p = ag_ComponentVersions ag)))"
proof -
  have inv: "run_inv ag" using run_reachable_inv [OF rebuild_reachable [OF assms(1)]] .
  then have bound: "ag_PlanFingerprint ag \<noteq> ''''" and gm: "go_map (ag_ComponentVersions ag)"
    using assms(2) by (simp_all add: run_inv_def plan_bound_def)
  show ?thesis
  proof (cases "ev_Type ev = EventAuthorityReference")
    case True
    with apply_authority_frame(4,5) [OF Apply_authority [OF True assms(3)]] show ?thesis by simp
  next
    case False
    from Apply_transitionE [OF assms(3) False] obtain p b resume where
      dec: "DecodeTransitionPayload pt ev = Inr p" and b: "bind_plan sha ag p = Inr b"
      and ag': "ag' = b\<lparr>ResumeState := resume, State := tp_To p, Version := Sequence ev\<rparr>"
      by metis
    from bind_plan_plan [OF b] bound have same: "b = ag" "tp_RunPlan p = None"
      "tp_PlanFingerprint p = ag_PlanFingerprint ag"
      "equalStringMaps (tp_ComponentVersions p) (ag_ComponentVersions ag)" by auto
    moreover have "tp_ComponentVersions p = ag_ComponentVersions ag"
      if "'''' \<notin> snd ` set (tp_ComponentVersions p)"
      using equalStringMaps_eq [OF DecodeTransitionPayload_typed(1) [OF dec] gm] same(4) that
      by force
    ultimately show ?thesis using dec ag' by auto
  qed
qed

text \<open>The comparison of component versions reads a missing key as the empty
  version, so a run whose plan pins one component accepts a transition that names another
  component with an empty version instead.\<close>

theorem drift_blind_spot:
  "\<exists>ag ev p ag'. Rebuild_run orch_sha demo_parse ''r'' (demo_run [CommandConfigure]) = Inr ag \<and>
     Apply orch_sha demo_parse ag ev = Inr ag' \<and> State ag' = StateInventorying \<and>
     DecodeTransitionPayload demo_parse ev = Inr p \<and>
     ag_ComponentVersions ag = [(''slack'', ''1'')] \<and>
     tp_ComponentVersions p = [(''other'', '''')]"
  using demo_configured demo_drift_applied demo_drift_decoded
  by (intro exI [of _ "demo_aggregate StateConfigured NoState 1"] exI [of _ demo_drift_event]
      exI [of _ demo_drift_payload] exI [of _ "demo_aggregate StateInventorying NoState 2"])
    (simp add: demo_aggregate_def demo_drift_payload_def)



theorem run_refines_path_witness:
  "abstract_step (abstract_of (demo_aggregate StateInventorying NoState 2))
     (abstract_of (demo_aggregate StateInventoryFrozen NoState 3))"
  using run_refines_path [OF demo_two_stages demo_third_stage] by (simp add: demo_event_type)

theorem stage_order_witness:
  "\<exists>k\<le>length (demo_run [CommandConfigure, CommandStartInventory]).
     \<exists>mid. Rebuild_run orch_sha demo_parse ''r''
       (take k (demo_run [CommandConfigure, CommandStartInventory])) = Inr mid \<and>
       State mid = StateConfigured"
  using stage_order [OF demo_two_stages, of 0]
  by (simp add: abstract_of_def demo_aggregate_def interrupted_def path_states_def)

theorem command_accepted_witness:
  "\<exists>ag'. Apply orch_sha demo_parse (demo_aggregate StateInventorying NoState 2)
     (demo_event (demo_aggregate StateInventorying NoState 2) CommandFreezeInventory) = Inr ag' \<and>
     State ag' = StateInventoryFrozen"
  using command_accepted [OF demo_two_stages demo_handled]
  by (auto simp: demo_command_def demo_aggregate_def interrupted_def)

theorem cancel_poisons_run_witness:
  "Rebuild_run orch_sha demo_parse ''r'' (demo_run [CommandConfigure, CommandPause] @
     [(demo_event (demo_aggregate StatePaused StateConfigured 2) CommandCancel)
        \<lparr>EventID := ''x'', PreviousHash := ''y'', PayloadHash := ''z'', EventHash := ''h''\<rparr>]) =
   Inl ErrIllegalTransition"
  by (rule cancel_poisons_run [OF demo_paused _ demo_cancel_handled])
    (simp_all add: demo_command_def demo_aggregate_def interrupted_def)

theorem plan_pinned_witness:
  "ag_PlanFingerprint (demo_aggregate StateInventoryFrozen NoState 3) =
     ag_PlanFingerprint (demo_aggregate StateInventorying NoState 2)"
  by (rule plan_pinned [OF demo_two_stages _ demo_third_stage, THEN conjunct1])
    (simp add: demo_aggregate_def)

end
