(* ===== verification/Run_Journal.thy ===== *)
theory Run_Journal
  imports Orch_Aggregate Private_IO
begin

text \<open>
  The run journal of \<open>internal/runjournal\<close> (\<open>events.go\<close>, \<open>store.go\<close>, \<open>projection.go\<close>): events
  sealed into a hash chain, the journal document, and the store that loads, appends and
  projects under the run's lock.

  A run directory holds the journal, projection and lease files. \<open>rd_stray\<close> says that
  \<open>validateRunDirectory\<close> would find an unknown entry, \<open>rd_bad_mode\<close> that it would find an entry
  that is not a private regular file. The lock and the calls of the operating system succeed or
  fail as the \<open>journal_env\<close> says; under the lock no other operation interferes. The size of a
  file is that of the indented document, and \<open>sha\<close> is SHA-256 in hexadecimal.
\<close>

section \<open>Sealed events\<close>

definition JournalSchemaVersion :: string where
  "JournalSchemaVersion = ''mindline-activation-run-journal/v0.1''"

definition ProjectionSchemaVersion :: string where
  "ProjectionSchemaVersion = ''mindline-activation-run-projection/v0.1''"

definition genesisHash :: string where
  "genesisHash = ''genesis''"

datatype journal_error =
    ErrJournalCorrupt | ErrJournalTooLarge | ErrEventTooLarge | ErrUnknownRunFile | ErrInvalidRunID
  | ErrLeaseHeld | ErrLeaseExpired | ErrLeaseMismatch | ErrLeaseNotFound
  | NoEvents | NotExist | IoFailure | JournalVersionConflict | ReplayFailed orch_error

record journal =
  jn_SchemaVersion :: string
  jn_Fingerprint :: string
  jn_RunID :: string
  Events :: "event list"

definition hashBytes :: "(string \<Rightarrow> string) \<Rightarrow> string \<Rightarrow> string" where
  "hashBytes sha bytes = ''sha256:'' @ sha bytes"

fun raw_json :: "raw_message \<Rightarrow> json" where
  "raw_json (Raw j) = j"
| "raw_json (Junk s) = JNull"

definition json_of_event :: "event \<Rightarrow> json" where
  "json_of_event ev = JObj
     ([(''schema_version'', JStr (ev_SchemaVersion ev)), (''run_id'', JStr (ev_RunID ev)),
       (''sequence'', JInt (uint (Sequence ev)))] @
      opt_field (EventID ev \<noteq> '''') ''event_id'' (JStr (EventID ev)) @
      [(''type'', JStr (event_type_text (ev_Type ev))), (''occurred_at'', JStr (OccurredAt ev))] @
      opt_field (PreviousHash ev \<noteq> '''') ''previous_hash'' (JStr (PreviousHash ev)) @
      [(''payload'', raw_json (Payload ev))] @
      opt_field (PayloadHash ev \<noteq> '''') ''payload_hash'' (JStr (PayloadHash ev)) @
      opt_field (EventHash ev \<noteq> '''') ''event_hash'' (JStr (EventHash ev)))"

definition validateEventPayload :: "time_parser \<Rightarrow> event \<Rightarrow> bool" where
  "validateEventPayload pt ev =
     (case ev_Type ev of
        EventRunTransition \<Rightarrow> is_ok (DecodeTransitionPayload pt ev)
      | EventAuthorityReference \<Rightarrow> is_ok (DecodeAuthorityReferencePayload pt ev)
      | OtherEvent _ \<Rightarrow> False)"

text \<open>The text under the event id: run, sequence, type and payload hash, separated by NUL.\<close>

definition event_id_text :: "event \<Rightarrow> string" where
  "event_id_text ev =
     ev_RunID ev @ [CHR 0x00] @ int_text (uint (Sequence ev)) @ [CHR 0x00] @
     event_type_text (ev_Type ev) @ [CHR 0x00] @ PayloadHash ev"

definition event_fingerprint :: "(string \<Rightarrow> string) \<Rightarrow> event \<Rightarrow> string" where
  "event_fingerprint sha ev = prefixed_fingerprint sha (json_of_event (ev\<lparr>EventHash := ''''\<rparr>))"

definition seal_fields :: "(string \<Rightarrow> string) \<Rightarrow> event \<Rightarrow> string \<Rightarrow> event" where
  "seal_fields sha ev previous =
     (let e1 = ev\<lparr>PreviousHash := previous, PayloadHash := hashBytes sha (raw_bytes (Payload ev))\<rparr>;
          e2 = e1\<lparr>EventID := hashBytes sha (event_id_text e1)\<rparr>
      in e2\<lparr>EventHash := event_fingerprint sha e2\<rparr>)"

definition sealEvent ::
  "(string \<Rightarrow> string) \<Rightarrow> time_parser \<Rightarrow> event \<Rightarrow> 64 word \<Rightarrow> string \<Rightarrow> (journal_error, event) result"
  where
  "sealEvent sha pt ev sequence previous =
     (if Sequence ev \<noteq> sequence \<or> EventID ev \<noteq> '''' \<or> PayloadHash ev \<noteq> '''' \<or>
         EventHash ev \<noteq> '''' \<or> PreviousHash ev \<noteq> ''''
      then Inl ErrJournalCorrupt
      else if \<not> validateEventPayload pt ev then Inl ErrJournalCorrupt
      else case Payload ev of
        Junk _ \<Rightarrow> Inl ErrJournalCorrupt
      | Raw j \<Rightarrow> Inr (seal_fields sha ev previous))"

text \<open>
  A journal file is indented, and \<open>json.RawMessage\<close> keeps the bytes of the file: the payload that
  \<open>validateEvent\<close> measures when a journal is read is the indented one, three levels deep, while
  \<open>Append\<close> measures the payload it is given.
\<close>

definition stored_payload_size :: "event \<Rightarrow> int" where
  "stored_payload_size ev =
     (case Payload ev of Raw j \<Rightarrow> int (length (encode_indent 3 j)) | Junk s \<Rightarrow> int (length s))"

definition validateEvent ::
  "(string \<Rightarrow> string) \<Rightarrow> time_parser \<Rightarrow> event \<Rightarrow> string \<Rightarrow> 64 word \<Rightarrow> string \<Rightarrow> int \<Rightarrow> bool" where
  "validateEvent sha pt ev run sequence previous max_event \<longleftrightarrow>
     \<not> (ev_RunID ev \<noteq> run \<or> Sequence ev \<noteq> sequence \<or> PreviousHash ev \<noteq> previous \<or>
        stored_payload_size ev > max_event) \<and>
     (case Payload ev of Junk _ \<Rightarrow> False | Raw _ \<Rightarrow> True) \<and>
     validateEventPayload pt ev \<and>
     PayloadHash ev = hashBytes sha (raw_bytes (Payload ev)) \<and>
     EventID ev = hashBytes sha (event_id_text ev) \<and>
     EventHash ev \<noteq> '''' \<and> EventHash ev = event_fingerprint sha ev"

section \<open>The journal document\<close>

definition json_of_journal :: "journal \<Rightarrow> json" where
  "json_of_journal jn = JObj
     [(''schema_version'', JStr (jn_SchemaVersion jn)), (''fingerprint'', JStr (jn_Fingerprint jn)),
      (''run_id'', JStr (jn_RunID jn)), (''events'', JArr (map json_of_event (Events jn)))]"

definition journal_fingerprint :: "(string \<Rightarrow> string) \<Rightarrow> journal \<Rightarrow> string" where
  "journal_fingerprint sha jn =
     prefixed_fingerprint sha (json_of_journal (jn\<lparr>jn_Fingerprint := ''''\<rparr>))"

definition sealJournal :: "(string \<Rightarrow> string) \<Rightarrow> journal \<Rightarrow> journal" where
  "sealJournal sha jn = jn\<lparr>jn_Fingerprint := journal_fingerprint sha jn\<rparr>"

fun valid_chain ::
  "(string \<Rightarrow> string) \<Rightarrow> time_parser \<Rightarrow> string \<Rightarrow> int \<Rightarrow> nat \<Rightarrow> string \<Rightarrow> event list \<Rightarrow> bool" where
  "valid_chain sha pt run max_event index previous [] = True"
| "valid_chain sha pt run max_event index previous (ev # evs) =
     (validateEvent sha pt ev run (of_nat (index + 1)) previous max_event \<and>
      valid_chain sha pt run max_event (index + 1) (EventHash ev) evs)"

definition validateJournal ::
  "(string \<Rightarrow> string) \<Rightarrow> time_parser \<Rightarrow> journal \<Rightarrow> string \<Rightarrow> int \<Rightarrow> bool" where
  "validateJournal sha pt jn run max_event \<longleftrightarrow>
     \<not> (jn_SchemaVersion jn \<noteq> JournalSchemaVersion \<or> jn_RunID jn \<noteq> run \<or> jn_Fingerprint jn = '''') \<and>
     jn_Fingerprint jn = journal_fingerprint sha jn \<and>
     valid_chain sha pt run max_event 0 genesisHash (Events jn)"

definition journal_size :: "journal blob \<Rightarrow> int" where
  "journal_size b =
     (case b of Doc jn \<Rightarrow> int (length (encode_indent 0 (json_of_journal jn))) + 1
              | Garbled s \<Rightarrow> int (length s))"

section \<open>Run directories\<close>

record projection =
  pj_SchemaVersion :: string
  pj_Fingerprint :: string
  pj_RunID :: string
  JournalFingerprint :: string
  pj_Version :: "64 word"
  pj_State :: run_state
  pj_ResumeState :: run_state
  pj_PlanFingerprint :: string
  pj_ComponentVersions :: smap
  pj_AuthorityReferences :: smap
  pj_AuthorityProjectionReferences :: smap
  pj_LatestAuthorityProjection :: string

record lease =
  ls_SchemaVersion :: string
  ls_Fingerprint :: string
  ls_RunID :: string
  OwnerID :: string
  Token :: string
  Generation :: "64 word"
  AcquiredAt :: string
  ExpiresAt :: string

record run_dir =
  journal_file :: "journal blob option"
  projection_file :: "projection blob option"
  lease_file :: "lease blob option"
  rd_stray :: bool
  rd_bad_mode :: bool

definition empty_dir :: run_dir where
  "empty_dir = \<lparr>journal_file = None, projection_file = None, lease_file = None,
     rd_stray = False, rd_bad_mode = False\<rparr>"

text \<open>The runs below a root; a run whose directory does not exist is not in the map.\<close>

type_synonym run_root = "string \<rightharpoonup> run_dir"

record journal_env =
  je_prepare_fails :: bool
  je_lstat_fails :: bool
  je_not_a_dir :: bool
  je_lock_fails :: bool
  je_contained_fails :: bool
  je_read_fails :: bool
  je_remove_fails :: bool
  je_io :: io_env

definition quiet_journal_env :: journal_env where
  "quiet_journal_env = \<lparr>je_prepare_fails = False, je_lstat_fails = False, je_not_a_dir = False,
     je_lock_fails = False, je_contained_fails = False, je_read_fails = False,
     je_remove_fails = False, je_io = quiet_env\<rparr>"

record journal_limits =
  maximumJournalBytes :: int
  maximumEventBytes :: int

definition defaultMaximumJournalBytes :: int where
  "defaultMaximumJournalBytes = 16777216"

definition defaultMaximumEventBytes :: int where
  "defaultMaximumEventBytes = 65536"

text \<open>\<open>NewStore\<close>: options that are not positive take their defaults.\<close>

definition NewJournalStore :: "int \<Rightarrow> int \<Rightarrow> journal_limits option" where
  "NewJournalStore journal_bytes event_bytes =
     (let j = (if journal_bytes \<le> 0 then defaultMaximumJournalBytes else journal_bytes);
          e = (if event_bytes \<le> 0 then defaultMaximumEventBytes else event_bytes)
      in if e > j then None else Some \<lparr>maximumJournalBytes = j, maximumEventBytes = e\<rparr>)"

text \<open>\<open>safeRunID\<close>: a letter or digit, then up to 127 letters, digits, dots, underscores, dashes.\<close>

definition run_id_start :: "char \<Rightarrow> bool" where
  "run_id_start c \<longleftrightarrow>
     (let n = (of_char c :: nat) in
        (48 \<le> n \<and> n \<le> 57) \<or> (65 \<le> n \<and> n \<le> 90) \<or> (97 \<le> n \<and> n \<le> 122))"

definition validRunID :: "string \<Rightarrow> bool" where
  "validRunID s =
     (case s of [] \<Rightarrow> False
      | c # cs \<Rightarrow> run_id_start c \<and> length cs \<le> 127 \<and>
          list_all (\<lambda>d. run_id_start d \<or> d = CHR ''.'' \<or> d = CHR ''_'' \<or> d = CHR ''-'') cs)"

definition prepareRunDir ::
  "journal_env \<Rightarrow> run_root \<Rightarrow> string \<Rightarrow> run_root \<times> (journal_error, run_dir) result" where
  "prepareRunDir env root run =
     (if \<not> validRunID run then (root, Inl ErrInvalidRunID)
      else if je_prepare_fails env then (root, Inl IoFailure)
      else case root run of
        Some d \<Rightarrow> (root, Inr d)
      | None \<Rightarrow> (root(run \<mapsto> empty_dir), Inr empty_dir))"

definition existingRunDir ::
  "journal_env \<Rightarrow> run_root \<Rightarrow> string \<Rightarrow> (journal_error, run_dir) result" where
  "existingRunDir env root run =
     (if \<not> validRunID run then Inl ErrInvalidRunID
      else case root run of
        None \<Rightarrow> Inl NotExist
      | Some d \<Rightarrow>
          if je_lstat_fails env then Inl IoFailure
          else if je_not_a_dir env then Inl ErrJournalCorrupt else Inr d)"

text \<open>\<open>withRunLock\<close> runs its action only when the directory is contained and the lock is taken
  before the context ends.\<close>

definition withRunLock ::
  "journal_env \<Rightarrow> (journal_error, 'a) result \<Rightarrow> (journal_error, 'a) result" where
  "withRunLock env action =
     (if je_contained_fails env \<or> je_lock_fails env then Inl IoFailure else action)"

definition validateRunDirectory :: "journal_env \<Rightarrow> run_dir \<Rightarrow> (journal_error, unit) result" where
  "validateRunDirectory env d =
     (if je_contained_fails env then Inl IoFailure
      else if rd_stray d then Inl ErrUnknownRunFile
      else if rd_bad_mode d then Inl ErrJournalCorrupt else Inr ())"

section \<open>The store\<close>

definition new_journal :: "(string \<Rightarrow> string) \<Rightarrow> string \<Rightarrow> journal" where
  "new_journal sha run =
     sealJournal sha \<lparr>jn_SchemaVersion = JournalSchemaVersion, jn_Fingerprint = '''',
       jn_RunID = run, Events = []\<rparr>"

definition loadJournalUnlocked ::
  "(string \<Rightarrow> string) \<Rightarrow> time_parser \<Rightarrow> journal_limits \<Rightarrow> journal_env \<Rightarrow> string \<Rightarrow> run_dir
    \<Rightarrow> (journal_error, journal) result" where
  "loadJournalUnlocked sha pt limits env run d =
     (case journal_file d of
        None \<Rightarrow> Inr (new_journal sha run)
      | Some b \<Rightarrow>
          if je_read_fails env then Inl IoFailure
          else if journal_size b > maximumJournalBytes limits then Inl ErrJournalTooLarge
          else case b of
            Garbled _ \<Rightarrow> Inl ErrJournalCorrupt
          | Doc jn \<Rightarrow>
              if validateJournal sha pt jn run (maximumEventBytes limits) then Inr jn
              else Inl ErrJournalCorrupt)"

definition journal_load ::
  "(string \<Rightarrow> string) \<Rightarrow> time_parser \<Rightarrow> journal_limits \<Rightarrow> journal_env \<Rightarrow> run_root \<Rightarrow> string
    \<Rightarrow> (journal_error, event list) result" where
  "journal_load sha pt limits env root run =
     (case existingRunDir env root run of
        Inl NotExist \<Rightarrow> Inr []
      | Inl e \<Rightarrow> Inl e
      | Inr d \<Rightarrow> withRunLock env
          (rbind (validateRunDirectory env d) (\<lambda>_.
             rbind (loadJournalUnlocked sha pt limits env run d) (\<lambda>jn. Inr (Events jn)))))"

text \<open>The loop of \<open>Append\<close>: each event is checked, sealed and chained to the one before.\<close>

fun seal_all ::
  "(string \<Rightarrow> string) \<Rightarrow> time_parser \<Rightarrow> int \<Rightarrow> string \<Rightarrow> nat \<Rightarrow> string \<Rightarrow> event list
    \<Rightarrow> (journal_error, event list) result" where
  "seal_all sha pt max_event run index previous [] = Inr []"
| "seal_all sha pt max_event run index previous (ev # evs) =
     (if ev_RunID ev \<noteq> run \<or> int (length (raw_bytes (Payload ev))) > max_event then
        (if int (length (raw_bytes (Payload ev))) > max_event then Inl ErrEventTooLarge
         else Inl ErrJournalCorrupt)
      else rbind (sealEvent sha pt ev (of_nat (index + 1)) previous) (\<lambda>sealed.
        rbind (seal_all sha pt max_event run (index + 1) (EventHash sealed) evs) (\<lambda>rest.
          Inr (sealed # rest))))"

definition last_hash :: "event list \<Rightarrow> string" where
  "last_hash evs = (if evs = [] then genesisHash else EventHash (last evs))"

definition appended_journal ::
  "(string \<Rightarrow> string) \<Rightarrow> time_parser \<Rightarrow> journal_limits \<Rightarrow> journal_env \<Rightarrow> string \<Rightarrow> 64 word
    \<Rightarrow> event list \<Rightarrow> run_dir \<Rightarrow> (journal_error, journal) result" where
  "appended_journal sha pt limits env run expected evs d =
     rbind (validateRunDirectory env d) (\<lambda>_.
       rbind (loadJournalUnlocked sha pt limits env run d) (\<lambda>jn.
         if expected \<noteq> of_nat (length (Events jn)) then Inl JournalVersionConflict
         else rbind (seal_all sha pt (maximumEventBytes limits) run (length (Events jn))
                (last_hash (Events jn)) evs) (\<lambda>sealed.
           let next = sealJournal sha (jn\<lparr>Events := Events jn @ sealed\<rparr>) in
           if journal_size (Doc next) > maximumJournalBytes limits then Inl ErrJournalTooLarge
           else Inr next)))"

definition journal_append ::
  "(string \<Rightarrow> string) \<Rightarrow> time_parser \<Rightarrow> journal_limits \<Rightarrow> journal_env \<Rightarrow> run_root \<Rightarrow> string
    \<Rightarrow> 64 word \<Rightarrow> event list \<Rightarrow> run_root \<times> journal_error option" where
  "journal_append sha pt limits env root run expected evs =
     (if evs = [] then (root, Some NoEvents)
      else case prepareRunDir env root run of
        (root', Inl e) \<Rightarrow> (root', Some e)
      | (root', Inr d) \<Rightarrow>
          (case withRunLock env (appended_journal sha pt limits env run expected evs d) of
             Inl e \<Rightarrow> (root', Some e)
           | Inr next \<Rightarrow>
               (case WriteFile (je_io env) False (Doc next) (journal_file d) of
                  (slot, err) \<Rightarrow>
                    (root'(run \<mapsto> d\<lparr>journal_file := slot\<rparr>), map_option (\<lambda>_. IoFailure) err))))"

section \<open>Projections\<close>

definition json_of_projection :: "projection \<Rightarrow> json" where
  "json_of_projection p = JObj
     ([(''schema_version'', JStr (pj_SchemaVersion p)), (''fingerprint'', JStr (pj_Fingerprint p)),
       (''run_id'', JStr (pj_RunID p)), (''journal_fingerprint'', JStr (JournalFingerprint p)),
       (''version'', JInt (uint (pj_Version p))), (''state'', JStr (state_text (pj_State p)))] @
      opt_field (pj_ResumeState p \<noteq> NoState) ''resume_state'' (JStr (state_text (pj_ResumeState p))) @
      [(''plan_fingerprint'', JStr (pj_PlanFingerprint p)),
       (''component_versions'', json_of_string_map (pj_ComponentVersions p))] @
      opt_field (pj_AuthorityReferences p \<noteq> []) ''authority_references''
        (json_of_string_map (pj_AuthorityReferences p)) @
      opt_field (pj_AuthorityProjectionReferences p \<noteq> []) ''authority_projection_references''
        (json_of_string_map (pj_AuthorityProjectionReferences p)) @
      opt_field (pj_LatestAuthorityProjection p \<noteq> '''') ''latest_authority_projection''
        (JStr (pj_LatestAuthorityProjection p)))"

definition project :: "(string \<Rightarrow> string) \<Rightarrow> journal \<Rightarrow> aggregate \<Rightarrow> projection" where
  "project sha jn ag =
     (let p = \<lparr>pj_SchemaVersion = ProjectionSchemaVersion, pj_Fingerprint = '''',
            pj_RunID = ag_RunID ag, JournalFingerprint = jn_Fingerprint jn, pj_Version = Version ag,
            pj_State = State ag, pj_ResumeState = ResumeState ag,
            pj_PlanFingerprint = ag_PlanFingerprint ag,
            pj_ComponentVersions = ag_ComponentVersions ag,
            pj_AuthorityReferences = AuthorityReferences ag,
            pj_AuthorityProjectionReferences = AuthorityProjectionReferences ag,
            pj_LatestAuthorityProjection = LatestAuthorityProjection ag\<rparr>
      in p\<lparr>pj_Fingerprint := prefixed_fingerprint sha (json_of_projection p)\<rparr>)"

definition RebuildProjection ::
  "(string \<Rightarrow> string) \<Rightarrow> time_parser \<Rightarrow> journal_limits \<Rightarrow> journal_env \<Rightarrow> run_root \<Rightarrow> string
    \<Rightarrow> run_root \<times> (journal_error, projection) result" where
  "RebuildProjection sha pt limits env root run =
     (case existingRunDir env root run of
        Inl e \<Rightarrow> (root, Inl e)
      | Inr d \<Rightarrow>
          (case withRunLock env
             (rbind (validateRunDirectory env d) (\<lambda>_.
                rbind (loadJournalUnlocked sha pt limits env run d) (\<lambda>jn.
                  case Rebuild_run sha pt run (Events jn) of
                    Inl e \<Rightarrow> Inl (ReplayFailed e)
                  | Inr ag \<Rightarrow> Inr (project sha jn ag)))) of
             Inl e \<Rightarrow> (root, Inl e)
           | Inr p \<Rightarrow>
               (case WriteFile (je_io env) False (Doc p) (projection_file d) of
                  (slot, err) \<Rightarrow>
                    (root(run \<mapsto> d\<lparr>projection_file := slot\<rparr>),
                     case err of None \<Rightarrow> Inr p | Some _ \<Rightarrow> Inl IoFailure))))"

section \<open>Facts about quiet runs\<close>

lemma quiet_journal_env_simps [simp]:
  "je_prepare_fails quiet_journal_env = False" "je_lstat_fails quiet_journal_env = False"
  "je_not_a_dir quiet_journal_env = False" "je_lock_fails quiet_journal_env = False"
  "je_contained_fails quiet_journal_env = False" "je_read_fails quiet_journal_env = False"
  "je_remove_fails quiet_journal_env = False" "je_io quiet_journal_env = quiet_env"
  by (simp_all add: quiet_journal_env_def)

lemma empty_dir_simps [simp]:
  "journal_file empty_dir = None" "projection_file empty_dir = None" "lease_file empty_dir = None"
  "\<not> rd_stray empty_dir" "\<not> rd_bad_mode empty_dir"
  by (simp_all add: empty_dir_def)

end
