(* ===== verification/Orch_Service.thy ===== *)
theory Orch_Service
  imports Orch_Run
begin

text \<open>
  The application service of \<open>internal/orchestration/service.go\<close>: load the events of a run,
  rebuild the aggregate, handle one command or one authority reference, append the event, and
  return the aggregate after it. The event store is the consumer's interface \<open>EventStore\<close>; its
  contract is the locale \<open>event_store\<close>, and what the service promises is proved from it.
\<close>

section \<open>The service\<close>

record ('s, 'e) event_store_ops =
  es_load :: "'s \<Rightarrow> string \<Rightarrow> ('e, event list) result"
  es_append :: "'s \<Rightarrow> string \<Rightarrow> 64 word \<Rightarrow> event list \<Rightarrow> 's \<times> 'e option"

datatype 'e service_error = ServiceError orch_error | StoreError 'e

definition lift_orch :: "(orch_error, 'a) result \<Rightarrow> ('e service_error, 'a) result" where
  "lift_orch r = (case r of Inl e \<Rightarrow> Inl (ServiceError e) | Inr x \<Rightarrow> Inr x)"

definition GetRun ::
  "(string \<Rightarrow> string) \<Rightarrow> time_parser \<Rightarrow> ('s, 'e) event_store_ops option \<Rightarrow> 's \<Rightarrow> string
    \<Rightarrow> ('e service_error, aggregate) result" where
  "GetRun sha pt ops s run =
     (case ops of
        None \<Rightarrow> Inl (ServiceError ErrMissingEventStore)
      | Some store \<Rightarrow>
          (case es_load store s run of
             Inl e \<Rightarrow> Inl (StoreError e)
           | Inr evs \<Rightarrow> lift_orch (Rebuild_run sha pt run evs)))"

text \<open>Appending the event a handler produced, then applying it to the aggregate in hand.\<close>

definition append_and_apply ::
  "(string \<Rightarrow> string) \<Rightarrow> time_parser \<Rightarrow> ('s, 'e) event_store_ops \<Rightarrow> 's \<Rightarrow> string \<Rightarrow> aggregate
    \<Rightarrow> event \<Rightarrow> 's \<times> ('e service_error, aggregate) result" where
  "append_and_apply sha pt store s run ag ev =
     (case es_append store s run (Version ag) [ev] of
        (s', Some e) \<Rightarrow> (s', Inl (StoreError e))
      | (s', None) \<Rightarrow> (s', lift_orch (Apply sha pt ag ev)))"

definition Execute ::
  "(string \<Rightarrow> string) \<Rightarrow> time_parser \<Rightarrow> (int \<Rightarrow> string) \<Rightarrow> ('s, 'e) event_store_ops option
    \<Rightarrow> int option \<Rightarrow> 's \<Rightarrow> string \<Rightarrow> command \<Rightarrow> 's \<times> ('e service_error, aggregate) result" where
  "Execute sha pt ft ops clock s run cmd =
     (case GetRun sha pt ops s run of
        Inl e \<Rightarrow> (s, Inl e)
      | Inr ag \<Rightarrow>
          (case HandleCommand sha pt ft ag
                  (if Now cmd = None then cmd\<lparr>Now := clock\<rparr> else cmd) of
             Inl e \<Rightarrow> (s, Inl (ServiceError e))
           | Inr ev \<Rightarrow> append_and_apply sha pt (the ops) s run ag ev))"

definition authority_event ::
  "(int \<Rightarrow> string) \<Rightarrow> string \<Rightarrow> aggregate \<Rightarrow> int \<Rightarrow> authority_payload \<Rightarrow> event" where
  "authority_event ft run ag now p =
     \<lparr>ev_SchemaVersion = EventSchemaVersion, ev_RunID = run, Sequence = Version ag + 1,
      EventID = '''', ev_Type = EventAuthorityReference, OccurredAt = ft now, PreviousHash = '''',
      Payload = Raw (json_of_authority p), PayloadHash = '''', EventHash = ''''\<rparr>"

definition RecordAuthority ::
  "(string \<Rightarrow> string) \<Rightarrow> time_parser \<Rightarrow> (int \<Rightarrow> string) \<Rightarrow> ('s, 'e) event_store_ops option
    \<Rightarrow> int \<Rightarrow> 's \<Rightarrow> string \<Rightarrow> authority_payload \<Rightarrow> 's \<times> ('e service_error, aggregate) result" where
  "RecordAuthority sha pt ft ops clock s run p =
     (case GetRun sha pt ops s run of
        Inl e \<Rightarrow> (s, Inl e)
      | Inr ag \<Rightarrow>
          let ev = authority_event ft run ag clock p in
          (case DecodeAuthorityReferencePayload pt ev of
             Inl e \<Rightarrow> (s, Inl (ServiceError e))
           | Inr _ \<Rightarrow> append_and_apply sha pt (the ops) s run ag ev))"

section \<open>The contract of an event store\<close>

lemma apply_all_unsealed:
  "map unsealed xs = map unsealed ys \<Longrightarrow> apply_all sha pt ag xs = apply_all sha pt ag ys"
proof (induction xs arbitrary: ag ys)
  case Nil
  then show ?case by simp
next
  case (Cons x xs)
  then obtain y ys' where ys: "ys = y # ys'" "unsealed x = unsealed y"
    "map unsealed xs = map unsealed ys'" by (cases ys) auto
  have "apply_all sha pt ag' xs = apply_all sha pt ag' ys'" for ag'
    using Cons.IH [OF ys(3)] .
  with Apply_unsealed [OF ys(2)] ys(1) show ?case by simp
qed

text \<open>
  For events that the store can read back (\<open>readable\<close>): a successful append saw exactly the
  expected number of events and added the given ones, up to sealing metadata; a failed one added
  them or left the run as it was. No append touches another run.
\<close>

locale event_store =
  fixes load :: "'s \<Rightarrow> string \<Rightarrow> ('e, event list) result"
    and append_events :: "'s \<Rightarrow> string \<Rightarrow> 64 word \<Rightarrow> event list \<Rightarrow> 's \<times> 'e option"
    and readable :: "event \<Rightarrow> bool"
  assumes append_ok: "append_events s run v evs = (s', None) \<Longrightarrow> list_all readable evs \<Longrightarrow>
      \<exists>old new. load s run = Inr old \<and> of_nat (length old) = v \<and> load s' run = Inr (old @ new) \<and>
        map unsealed new = map unsealed evs"
    and append_err: "append_events s run v evs = (s', Some e) \<Longrightarrow> list_all readable evs \<Longrightarrow>
      load s' run = load s run \<or>
      (\<exists>old new. load s run = Inr old \<and> load s' run = Inr (old @ new) \<and>
        map unsealed new = map unsealed evs)"
    and append_frame: "append_events s run v evs = (s', r) \<Longrightarrow> run' \<noteq> run \<Longrightarrow> load s' run' = load s run'"
begin

abbreviation ops :: "('s, 'e) event_store_ops option" where
  "ops \<equiv> Some \<lparr>es_load = load, es_append = append_events\<rparr>"

lemma GetRun_Inr:
  "GetRun sha pt ops s run = Inr ag \<longleftrightarrow>
    (\<exists>evs. load s run = Inr evs \<and> Rebuild_run sha pt run evs = Inr ag)"
  by (auto simp: GetRun_def lift_orch_def split: sum.splits)

lemma append_and_apply_durable:
  assumes "append_and_apply sha pt \<lparr>es_load = load, es_append = append_events\<rparr> s run ag ev = (s', Inr ag')"
    and "GetRun sha pt ops s run = Inr ag" and r: "readable ev"
  shows "GetRun sha pt ops s' run = Inr ag'"
proof -
  from assms(1) have app: "append_events s run (Version ag) [ev] = (s', None)"
    and ap: "Apply sha pt ag ev = Inr ag'"
    by (auto simp: append_and_apply_def lift_orch_def split: prod.splits option.splits sum.splits)
  from append_ok [OF app] r obtain old new where l: "load s run = Inr old"
    "load s' run = Inr (old @ new)" and new: "map unsealed new = map unsealed [ev]"
    by auto
  from assms(2) l(1) have "apply_all sha pt (new_aggregate run) old = Inr ag"
    by (simp add: GetRun_Inr Rebuild_run_def)
  moreover have "apply_all sha pt ag new = Inr ag'"
    using apply_all_unsealed [OF new] ap by simp
  ultimately show ?thesis
    using l(2) by (simp add: GetRun_Inr Rebuild_run_def apply_all_append)
qed

text \<open>Whatever the outcome, a call changes at most the run it names.\<close>

lemma append_and_apply_frame:
  assumes "append_and_apply sha pt \<lparr>es_load = load, es_append = append_events\<rparr> s run ag ev = (s', r)"
    and "run' \<noteq> run"
  shows "load s' run' = load s run'"
  using assms append_frame [of s run "Version ag" "[ev]"]
  by (auto simp: append_and_apply_def split: prod.splits option.splits)

lemma ExecuteE:
  assumes "Execute sha pt ft ops clock s run cmd = (s', Inr ag')"
  obtains ag ev where "GetRun sha pt ops s run = Inr ag"
    "HandleCommand sha pt ft ag (if Now cmd = None then cmd\<lparr>Now := clock\<rparr> else cmd) = Inr ev"
    "append_and_apply sha pt \<lparr>es_load = load, es_append = append_events\<rparr> s run ag ev = (s', Inr ag')"
  using assms by (auto simp: Execute_def split: sum.splits)

lemma Execute_durable:
  assumes "Execute sha pt ft ops clock s run cmd = (s', Inr ag')"
    and "\<And>ag ev. GetRun sha pt ops s run = Inr ag \<Longrightarrow>
      HandleCommand sha pt ft ag (if Now cmd = None then cmd\<lparr>Now := clock\<rparr> else cmd) = Inr ev \<Longrightarrow>
      readable ev"
  shows "GetRun sha pt ops s' run = Inr ag'"
proof (rule ExecuteE [OF assms(1)])
  fix ag ev
  assume g: "GetRun sha pt ops s run = Inr ag"
    and h: "HandleCommand sha pt ft ag (if Now cmd = None then cmd\<lparr>Now := clock\<rparr> else cmd) = Inr ev"
    and a: "append_and_apply sha pt \<lparr>es_load = load, es_append = append_events\<rparr> s run ag ev =
      (s', Inr ag')"
  show ?thesis by (rule append_and_apply_durable [OF a g assms(2) [OF g h]])
qed

lemma RecordAuthority_durable:
  assumes "RecordAuthority sha pt ft ops clock s run p = (s', Inr ag')"
    and "\<And>ag. readable (authority_event ft run ag clock p)"
  shows "GetRun sha pt ops s' run = Inr ag'"
  using assms append_and_apply_durable
  by (auto simp: RecordAuthority_def Let_def split: sum.splits)

lemma Execute_frame:
  "Execute sha pt ft ops clock s run cmd = (s', r) \<Longrightarrow> run' \<noteq> run \<Longrightarrow> load s' run' = load s run'"
  using append_and_apply_frame by (auto simp: Execute_def split: sum.splits)

text \<open>
  A command that succeeded cannot take effect again: it names the version it was decided on.
\<close>

lemma Execute_once:
  assumes "Execute sha pt ft ops clock s run cmd = (s', Inr ag')"
    and "\<And>ag ev. GetRun sha pt ops s run = Inr ag \<Longrightarrow>
      HandleCommand sha pt ft ag (if Now cmd = None then cmd\<lparr>Now := clock\<rparr> else cmd) = Inr ev \<Longrightarrow>
      readable ev"
  shows "Execute sha pt ft ops clock' s' run cmd = (s', Inl (ServiceError ErrVersionConflict))"
proof -
  from ExecuteE [OF assms(1)] obtain ag ev where
    h: "HandleCommand sha pt ft ag (if Now cmd = None then cmd\<lparr>Now := clock\<rparr> else cmd) = Inr ev"
    and a: "append_and_apply sha pt \<lparr>es_load = load, es_append = append_events\<rparr> s run ag ev = (s', Inr ag')"
    by metis
  from h have v: "ExpectedVersion cmd = Version ag"
    by (auto simp: HandleCommand_def split: if_splits)
  from a have "Apply sha pt ag ev = Inr ag'"
    by (auto simp: append_and_apply_def lift_orch_def split: prod.splits option.splits sum.splits)
  then have "Version ag' = Version ag + 1" by (rule Apply_version)
  with v have "ExpectedVersion cmd \<noteq> Version ag'" by simp
  then have "HandleCommand sha pt ft ag' (if Now cmd = None then cmd\<lparr>Now := clock'\<rparr> else cmd) =
      Inl ErrVersionConflict"
    by (simp add: HandleCommand_def)
  with Execute_durable [where clock = clock, OF assms] show ?thesis by (simp add: Execute_def)
qed

text \<open>
  When the aggregate rejects the event that was appended, the run is lost: no later call on it
  succeeds, whatever it appends.
\<close>

lemma rejected_event_loses_run:
  assumes "GetRun sha pt ops s run = Inr ag"
    and "append_events s run (Version ag) [ev] = (s', None)"
    and "Apply sha pt ag ev = Inl e" "readable ev"
  shows "GetRun sha pt ops s' run = Inl (ServiceError e)"
proof -
  from append_ok [OF assms(2)] assms(4) obtain old new where l: "load s run = Inr old"
    "load s' run = Inr (old @ new)" and new: "map unsealed new = map unsealed [ev]"
    by auto
  from assms(1) l(1) have "apply_all sha pt (new_aggregate run) old = Inr ag"
    by (simp add: GetRun_Inr Rebuild_run_def)
  with apply_all_unsealed [OF new, of sha pt ag] assms(3) l(2) show ?thesis
    by (simp add: GetRun_def Rebuild_run_def apply_all_append lift_orch_def)
qed

end

end
