(* ===== verification/Journal_Properties.thy ===== *)
theory Journal_Properties
  imports Run_Journal Orch_Service Orch_Demo
begin

text \<open>
  Correctness of the run journal: appending keeps journals valid, the journal store satisfies
  the contract of an event store under every failure, and the hash chain makes a journal
  tamper evident.
\<close>

section \<open>Sealed events validate\<close>

lemma seal_fields_simps [simp]:
  "ev_RunID (seal_fields sha ev p) = ev_RunID ev" "Sequence (seal_fields sha ev p) = Sequence ev"
  "Payload (seal_fields sha ev p) = Payload ev" "PreviousHash (seal_fields sha ev p) = p"
  by (simp_all add: seal_fields_def Let_def)

lemma unsealed_seal_fields [simp]: "unsealed (seal_fields sha ev p) = unsealed ev"
  by (simp add: unsealed_def seal_fields_def Let_def)

lemma validateEventPayload_cong:
  assumes "unsealed ev = unsealed ev'"
  shows "validateEventPayload pt ev = validateEventPayload pt ev'"
proof -
  have f: "ev_SchemaVersion ev = ev_SchemaVersion ev'" "ev_RunID ev = ev_RunID ev'"
    "Sequence ev = Sequence ev'" "ev_Type ev = ev_Type ev'" "OccurredAt ev = OccurredAt ev'"
    "Payload ev = Payload ev'"
    using assms by (cases ev; cases ev'; simp add: unsealed_def)+
  show ?thesis
    unfolding validateEventPayload_def DecodeTransitionPayload_def
      DecodeAuthorityReferencePayload_def event_header_ok_def f ..
qed

lemma event_fingerprint_cong [simp]:
  "event_fingerprint sha (ev\<lparr>EventHash := h\<rparr>) = event_fingerprint sha ev"
  by (simp add: event_fingerprint_def)

lemma event_fingerprint_nonempty [simp]: "event_fingerprint sha ev \<noteq> ''''"
  by (simp add: event_fingerprint_def)

lemma seal_fields_hashes:
  "PayloadHash (seal_fields sha ev p) = hashBytes sha (raw_bytes (Payload ev))"
  "EventID (seal_fields sha ev p) = hashBytes sha (event_id_text (seal_fields sha ev p))"
  "EventHash (seal_fields sha ev p) = event_fingerprint sha (seal_fields sha ev p)"
  by (simp_all add: seal_fields_def Let_def event_id_text_def)

text \<open>An event that its journal file can be read back with.\<close>

definition readable_event :: "int \<Rightarrow> event \<Rightarrow> bool" where
  "readable_event m ev \<longleftrightarrow> stored_payload_size ev \<le> m"

lemma readable_event_cong:
  assumes "unsealed ev = unsealed ev'"
  shows "readable_event m ev = readable_event m ev'"
proof -
  have "Payload ev = Payload ev'" using assms by (cases ev; cases ev'; simp add: unsealed_def)
  then show ?thesis by (simp add: readable_event_def stored_payload_size_def)
qed

lemma readable_events_cong:
  "map unsealed xs = map unsealed ys \<Longrightarrow> list_all (readable_event m) xs = list_all (readable_event m) ys"
proof (induction xs arbitrary: ys)
  case Nil
  then show ?case by simp
next
  case (Cons x xs)
  then obtain y ys' where "ys = y # ys'" "unsealed x = unsealed y" "map unsealed xs = map unsealed ys'"
    by (cases ys) auto
  with Cons.IH readable_event_cong [of x y m] show ?case by simp
qed

lemma sealEvent_valid:
  assumes "sealEvent sha pt ev n previous = Inr sealed" "ev_RunID ev = run"
  shows "validateEvent sha pt sealed run n previous max_event \<longleftrightarrow> readable_event max_event sealed"
    and "unsealed sealed = unsealed ev"
proof -
  from assms obtain j where j: "Payload ev = Raw j" "sealed = seal_fields sha ev previous"
    "Sequence ev = n" "validateEventPayload pt ev" "EventID ev = ''''" "PayloadHash ev = ''''"
    by (auto simp: sealEvent_def split: if_splits raw_message.splits)
  then show "unsealed sealed = unsealed ev" by simp
  show "validateEvent sha pt sealed run n previous max_event \<longleftrightarrow> readable_event max_event sealed"
    using assms j validateEventPayload_cong [OF unsealed_seal_fields [of sha ev previous], of pt]
    by (auto simp: validateEvent_def seal_fields_hashes readable_event_def)
qed

lemma seal_all_valid:
  "seal_all sha pt m run i previous evs = Inr sealed \<Longrightarrow>
    (valid_chain sha pt run m i previous sealed \<longleftrightarrow> list_all (readable_event m) sealed) \<and>
    map unsealed sealed = map unsealed evs"
proof (induction evs arbitrary: i previous sealed)
  case Nil
  then show ?case by simp
next
  case (Cons ev evs)
  from Cons.prems obtain s rest where s: "sealEvent sha pt ev (of_nat (i + 1)) previous = Inr s"
    "seal_all sha pt m run (i + 1) (EventHash s) evs = Inr rest" "sealed = s # rest"
    "ev_RunID ev = run"
    by (auto simp: rbind_Inr_iff split: if_splits)
  with sealEvent_valid [OF s(1,4)] Cons.IH [OF s(2)] show ?case by simp
qed

lemma valid_chain_append:
  "valid_chain sha pt run m i previous (xs @ ys) \<longleftrightarrow>
    valid_chain sha pt run m i previous xs \<and>
    valid_chain sha pt run m (i + length xs) (if xs = [] then previous else EventHash (last xs)) ys"
  by (induction xs arbitrary: i previous) auto

lemma journal_fingerprint_cong [simp]:
  "journal_fingerprint sha (jn\<lparr>jn_Fingerprint := f\<rparr>) = journal_fingerprint sha jn"
  by (simp add: journal_fingerprint_def)

lemma journal_fingerprint_nonempty [simp]: "journal_fingerprint sha jn \<noteq> ''''"
  by (simp add: journal_fingerprint_def)

lemma validate_sealed_journal:
  "validateJournal sha pt (sealJournal sha jn) run m \<longleftrightarrow>
    jn_SchemaVersion jn = JournalSchemaVersion \<and> jn_RunID jn = run \<and>
    valid_chain sha pt run m 0 genesisHash (Events jn)"
  by (auto simp: validateJournal_def sealJournal_def)

lemma new_journal_valid: "validateJournal sha pt (new_journal sha run) run m"
  by (simp add: new_journal_def validate_sealed_journal)

section \<open>Loading and appending\<close>

lemma loadJournalUnlocked_valid:
  assumes "loadJournalUnlocked sha pt limits env run d = Inr jn"
  shows "validateJournal sha pt jn run (maximumEventBytes limits)"
  using assms new_journal_valid
  by (auto simp: loadJournalUnlocked_def split: option.splits if_splits blob.splits)

lemma loadJournalUnlocked_quiet:
  assumes "loadJournalUnlocked sha pt limits env run d = Inr jn"
  shows "loadJournalUnlocked sha pt limits quiet_journal_env run d = Inr jn"
  using assms
  by (auto simp: loadJournalUnlocked_def split: option.splits if_splits blob.splits)

lemma appended_journalE:
  assumes "appended_journal sha pt limits env run v evs d = Inr nxt"
  obtains jn sealed where
    "\<not> rd_stray d" "\<not> rd_bad_mode d"
    "loadJournalUnlocked sha pt limits quiet_journal_env run d = Inr jn"
    "v = of_nat (length (Events jn))" "map unsealed sealed = map unsealed evs"
    "Events nxt = Events jn @ sealed"
    "validateJournal sha pt nxt run (maximumEventBytes limits) \<longleftrightarrow>
       list_all (readable_event (maximumEventBytes limits)) evs"
    "journal_size (Doc nxt) \<le> maximumJournalBytes limits"
proof -
  from assms obtain jn sealed where jn: "loadJournalUnlocked sha pt limits env run d = Inr jn"
    and v: "v = of_nat (length (Events jn))"
    and sealed: "seal_all sha pt (maximumEventBytes limits) run (length (Events jn))
      (last_hash (Events jn)) evs = Inr sealed"
    and nxt: "nxt = sealJournal sha (jn\<lparr>Events := Events jn @ sealed\<rparr>)"
    and size: "journal_size (Doc nxt) \<le> maximumJournalBytes limits"
    and dir: "validateRunDirectory env d = Inr ()"
    by (auto simp: appended_journal_def rbind_Inr_iff Let_def split: if_splits)
  have val: "validateJournal sha pt jn run (maximumEventBytes limits)"
    using loadJournalUnlocked_valid [OF jn] .
  note s = seal_all_valid [OF sealed]
  show ?thesis
  proof (rule that)
    show "\<not> rd_stray d" "\<not> rd_bad_mode d"
      using dir by (auto simp: validateRunDirectory_def split: if_splits)
    show "loadJournalUnlocked sha pt limits quiet_journal_env run d = Inr jn"
      using loadJournalUnlocked_quiet [OF jn] .
    show "v = of_nat (length (Events jn))" by (rule v)
    show "map unsealed sealed = map unsealed evs" using s by simp
    show "Events nxt = Events jn @ sealed" using nxt by (simp add: sealJournal_def)
    show "validateJournal sha pt nxt run (maximumEventBytes limits) \<longleftrightarrow>
        list_all (readable_event (maximumEventBytes limits)) evs"
      unfolding nxt validate_sealed_journal
      using val s readable_events_cong [of sealed evs "maximumEventBytes limits"]
      by (auto simp: validateJournal_def valid_chain_append last_hash_def)
    show "journal_size (Doc nxt) \<le> maximumJournalBytes limits" by (rule size)
  qed
qed

abbreviation clean_load ::
  "(string \<Rightarrow> string) \<Rightarrow> time_parser \<Rightarrow> journal_limits \<Rightarrow> run_root \<Rightarrow> string
    \<Rightarrow> (journal_error, event list) result" where
  "clean_load sha pt limits root run \<equiv> journal_load sha pt limits quiet_journal_env root run"

lemma clean_load_Some:
  assumes "validRunID run" "root run = Some d"
  shows "clean_load sha pt limits root run =
    (if rd_stray d then Inl ErrUnknownRunFile else if rd_bad_mode d then Inl ErrJournalCorrupt
     else rbind (loadJournalUnlocked sha pt limits quiet_journal_env run d) (\<lambda>jn. Inr (Events jn)))"
  using assms
  by (simp add: journal_load_def existingRunDir_def withRunLock_def validateRunDirectory_def)

lemma clean_load_None:
  "validRunID run \<Longrightarrow> root run = None \<Longrightarrow> clean_load sha pt limits root run = Inr []"
  by (simp add: journal_load_def existingRunDir_def)

lemma clean_load_other:
  assumes "x \<noteq> run"
  shows "clean_load sha pt limits (root(run \<mapsto> d)) x = clean_load sha pt limits root x"
proof -
  have e: "(root(run \<mapsto> d)) x = root x" using assms by simp
  show ?thesis unfolding journal_load_def existingRunDir_def e ..
qed

lemma clean_load_invalid:
  "\<not> validRunID run \<Longrightarrow> clean_load sha pt limits root run = Inl ErrInvalidRunID"
  by (simp add: journal_load_def existingRunDir_def)

lemma prepareRunDir_load:
  assumes "prepareRunDir env root run = (root', r)"
  shows "clean_load sha pt limits root' run' = clean_load sha pt limits root run'"
proof (cases "validRunID run \<and> \<not> je_prepare_fails env \<and> root run = None")
  case True
  with assms have r': "root' = root(run \<mapsto> empty_dir)" by (simp add: prepareRunDir_def)
  have "clean_load sha pt limits root' run = Inr []"
    using True clean_load_Some [of run root' empty_dir sha pt limits] r'
    by (simp add: loadJournalUnlocked_def new_journal_def sealJournal_def)
  with True r' show ?thesis
    by (cases "run' = run")
      (simp_all add: clean_load_None clean_load_other)
next
  case False
  with assms have "root' = root" by (auto simp: prepareRunDir_def split: if_splits option.splits)
  then show ?thesis by simp
qed

text \<open>
  What an append that reached the write leaves behind: the events are there when they can be
  read back, and otherwise the journal is unreadable.
\<close>

definition after_append :: "int \<Rightarrow> event list \<Rightarrow> event list \<Rightarrow> event list
    \<Rightarrow> (journal_error, event list) result" where
  "after_append m evs old new =
     (if list_all (readable_event m) evs then Inr (old @ new) else Inl ErrJournalCorrupt)"

lemma load_written:
  assumes "validRunID run" "appended_journal sha pt limits env run v evs d = Inr nxt"
  obtains old new where
    "clean_load sha pt limits (root(run \<mapsto> d)) run = Inr old" "v = of_nat (length old)"
    "map unsealed new = map unsealed evs"
    "clean_load sha pt limits (root(run \<mapsto> d\<lparr>journal_file := Some (Doc nxt)\<rparr>)) run =
       after_append (maximumEventBytes limits) evs old new"
proof -
  from appended_journalE [OF assms(2)] obtain jn sealed where a:
    "\<not> rd_stray d" "\<not> rd_bad_mode d"
    "loadJournalUnlocked sha pt limits quiet_journal_env run d = Inr jn"
    "v = of_nat (length (Events jn))" "map unsealed sealed = map unsealed evs"
    "Events nxt = Events jn @ sealed"
    "validateJournal sha pt nxt run (maximumEventBytes limits) \<longleftrightarrow>
       list_all (readable_event (maximumEventBytes limits)) evs"
    "journal_size (Doc nxt) \<le> maximumJournalBytes limits"
    by metis
  show ?thesis
  proof (rule that [of "Events jn" sealed])
    show "clean_load sha pt limits (root(run \<mapsto> d)) run = Inr (Events jn)"
      using assms(1) a by (simp add: clean_load_Some)
    show "clean_load sha pt limits (root(run \<mapsto> d\<lparr>journal_file := Some (Doc nxt)\<rparr>)) run =
        after_append (maximumEventBytes limits) evs (Events jn) sealed"
      using assms(1) a
      by (simp add: clean_load_Some loadJournalUnlocked_def after_append_def)
  qed (use a in simp_all)
qed

lemma journal_appendE:
  assumes "journal_append sha pt limits env root run v evs = (root', r)"
  obtains
    (refused) e where "r = Some e" "\<And>x. clean_load sha pt limits root' x = clean_load sha pt limits root x"
  | (written) old new where
      "clean_load sha pt limits root run = Inr old" "v = of_nat (length old)"
      "map unsealed new = map unsealed evs"
      "clean_load sha pt limits root' run \<in>
         {Inr old, after_append (maximumEventBytes limits) evs old new}"
      "r = None \<Longrightarrow> clean_load sha pt limits root' run =
         after_append (maximumEventBytes limits) evs old new"
      "\<And>x. x \<noteq> run \<Longrightarrow> clean_load sha pt limits root' x = clean_load sha pt limits root x"
proof (cases "evs = []")
  case True
  with assms refused [of NoEvents] show ?thesis by (simp add: journal_append_def)
next
  case False
  obtain root1 p where p: "prepareRunDir env root run = (root1, p)" by (cases "prepareRunDir env root run")
  note same = prepareRunDir_load [OF p]
  show ?thesis
  proof (cases p)
    case (Inl e)
    with assms p False same refused [of e] show ?thesis by (simp add: journal_append_def)
  next
    case p': (Inr d)
    with p have ok: "validRunID run" and d: "root1 run = Some d"
      by (auto simp: prepareRunDir_def split: if_splits option.splits)
    show ?thesis
    proof (cases "withRunLock env (appended_journal sha pt limits env run v evs d)")
      case (Inl e)
      with assms p p' False same refused [of e] show ?thesis by (simp add: journal_append_def)
    next
      case w: (Inr nxt)
      then have ap: "appended_journal sha pt limits env run v evs d = Inr nxt"
        by (auto simp: withRunLock_def split: if_splits)
      obtain slot err where wf: "WriteFile (je_io env) False (Doc nxt) (journal_file d) = (slot, err)"
        by (cases "WriteFile (je_io env) False (Doc nxt) (journal_file d)")
      have r: "root' = root1(run \<mapsto> d\<lparr>journal_file := slot\<rparr>)" "r = map_option (\<lambda>_. IoFailure) err"
        using assms p p' False w wf by (simp_all add: journal_append_def)
      from load_written [OF ok ap, of root1] obtain old new where l:
        "clean_load sha pt limits (root1(run \<mapsto> d)) run = Inr old" "v = of_nat (length old)"
        "map unsealed new = map unsealed evs"
        "clean_load sha pt limits (root1(run \<mapsto> d\<lparr>journal_file := Some (Doc nxt)\<rparr>)) run =
           after_append (maximumEventBytes limits) evs old new"
        by metis
      have triv: "root1(run \<mapsto> d) = root1" "d\<lparr>journal_file := journal_file d\<rparr> = d"
        using d by (auto simp: fun_upd_idem_iff)
      have slot: "slot = journal_file d \<or> slot = Some (Doc nxt)"
        using WriteFile_slot [of "je_io env" False "Doc nxt" "journal_file d"] wf by simp
      show ?thesis
      proof (rule written [of old new])
        show "clean_load sha pt limits root run = Inr old" using l(1) same triv by simp
        show "clean_load sha pt limits root' run \<in>
            {Inr old, after_append (maximumEventBytes limits) evs old new}"
          using slot r l(1,4) triv by auto
        show "clean_load sha pt limits root' run =
            after_append (maximumEventBytes limits) evs old new" if "r = None"
          using that r l(4) wf
            WriteFile_ok [of "je_io env" False "Doc nxt" "journal_file d" slot]
          by (cases err) auto
        show "clean_load sha pt limits root' x = clean_load sha pt limits root x" if "x \<noteq> run" for x
          using that r same [of sha pt limits x]
          by (simp add: clean_load_other)
      qed (use l in simp_all)
    qed
  qed
qed

lemma journal_append_document:
  assumes "journal_append sha pt limits env root run v evs = (root', None)"
  shows "\<exists>d jn. root' run = Some d \<and> journal_file d = Some (Doc jn) \<and>
    (list_all (readable_event (maximumEventBytes limits)) evs \<longrightarrow>
      validateJournal sha pt jn run (maximumEventBytes limits))"
proof -
  from assms obtain d nxt slot where
    "appended_journal sha pt limits env run v evs d = Inr nxt"
    "WriteFile (je_io env) False (Doc nxt) (journal_file d) = (slot, None)"
    "root' run = Some (d\<lparr>journal_file := slot\<rparr>)"
    by (auto simp: journal_append_def withRunLock_def split: if_splits prod.splits sum.splits)
  with WriteFile_ok [OF this(2)] show ?thesis by (metis appended_journalE run_dir.select_convs(1)
      run_dir.surjective run_dir.update_convs(1))
qed

text \<open>The journal store is an event store, whatever its file operations do.\<close>

interpretation run_journal: event_store "clean_load sha pt limits"
  "\<lambda>root. journal_append sha pt limits env root" "readable_event (maximumEventBytes limits)"
  for sha pt limits env
proof (unfold_locales, goal_cases)
  case (1 s run v evs s')
  from 1(1) show ?case by (rule journal_appendE) (use 1(2) in \<open>auto simp: after_append_def\<close>)
next
  case (2 s run v evs s' e)
  from 2(1) show ?case by (rule journal_appendE) (use 2(2) in \<open>auto simp: after_append_def\<close>)
next
  case (3 s run v evs s' r run')
  from 3(1) show ?case by (rule journal_appendE) (use 3(2) in auto)
qed

section \<open>The hash chain\<close>

lemma event_type_text_inj:
  assumes "validateEventPayload pt a" "validateEventPayload pt b"
    and "event_type_text (ev_Type a) = event_type_text (ev_Type b)"
  shows "ev_Type a = ev_Type b"
  using assms by (cases "ev_Type a"; cases "ev_Type b") (simp_all add: validateEventPayload_def)

lemma validateEvent_fields:
  assumes "validateEvent sha pt ev run n previous m"
  shows "ev_RunID ev = run" "Sequence ev = n" "PreviousHash ev = previous"
    "EventID ev \<noteq> ''''" "PayloadHash ev \<noteq> ''''" "EventHash ev \<noteq> ''''"
    "EventHash ev = event_fingerprint sha ev" "validateEventPayload pt ev"
    "Payload ev = Raw (raw_json (Payload ev))"
  using assms by (auto simp: validateEvent_def hashBytes_def split: raw_message.splits)

text \<open>Two validated events with the same digested document are the same event.\<close>

lemma json_of_event_inj:
  assumes a: "validateEvent sha pt a run n p m" and b: "validateEvent sha pt b run' n' p' m'"
    and pa: "p \<noteq> ''''" and pb: "p' \<noteq> ''''"
    and eq: "json_of_event (a\<lparr>EventHash := ''''\<rparr>) = json_of_event (b\<lparr>EventHash := ''''\<rparr>)"
  shows "a = b"
proof -
  note fa = validateEvent_fields [OF a] and fb = validateEvent_fields [OF b]
  have "event_fingerprint sha a = event_fingerprint sha b"
    unfolding event_fingerprint_def eq ..
  then have "EventHash a = EventHash b" using fa(7) fb(7) by simp
  moreover have "uint (Sequence a) = uint (Sequence b)"
    using eq fa fb pa pb by (simp add: json_of_event_def opt_field_def)
  then have "Sequence a = Sequence b" by (rule word_uint_eqI)
  moreover have e: "ev_SchemaVersion a = ev_SchemaVersion b" "ev_RunID a = ev_RunID b"
    "EventID a = EventID b"
    "event_type_text (ev_Type a) = event_type_text (ev_Type b)" "OccurredAt a = OccurredAt b"
    "PreviousHash a = PreviousHash b" "raw_json (Payload a) = raw_json (Payload b)"
    "PayloadHash a = PayloadHash b"
    using eq fa fb pa pb by (simp_all add: json_of_event_def opt_field_def)
  moreover have "ev_Type a = ev_Type b" using event_type_text_inj [OF fa(8) fb(8) e(4)] .
  moreover have "Payload a = Payload b" using fa(9) fb(9) e(7) by metis
  ultimately show ?thesis by (cases a; cases b) simp
qed

definition digested :: "event \<Rightarrow> string" where
  "digested ev = encode (json_of_event (ev\<lparr>EventHash := ''''\<rparr>))"

lemma valid_chain_last_hash:
  "valid_chain sha pt run m 0 genesisHash evs \<Longrightarrow> last_hash evs \<noteq> ''''"
proof (induction evs rule: rev_induct)
  case Nil
  then show ?case by (simp add: last_hash_def genesisHash_def)
next
  case (snoc x xs)
  then show ?case by (auto simp: last_hash_def valid_chain_append dest: validateEvent_fields(6))
qed

lemma valid_chain_snoc:
  "valid_chain sha pt run m 0 genesisHash (xs @ [x]) \<longleftrightarrow>
    valid_chain sha pt run m 0 genesisHash xs \<and>
    validateEvent sha pt x run (of_nat (length xs + 1)) (last_hash xs) m"
  by (simp add: valid_chain_append last_hash_def)

lemma genesis_not_event_hash: "event_fingerprint sha ev \<noteq> genesisHash"
  by (simp add: event_fingerprint_def prefixed_fingerprint_def genesisHash_def)

lemma chain_determined:
  assumes "valid_chain sha pt run m 0 genesisHash xs" "valid_chain sha pt run m' 0 genesisHash ys"
    and "last_hash xs = last_hash ys"
    and "\<And>a b. a \<in> set xs \<Longrightarrow> b \<in> set ys \<Longrightarrow> no_collision sha (digested a) (digested b)"
  shows "xs = ys"
  using assms
proof (induction xs arbitrary: ys rule: rev_induct)
  case Nil
  show ?case
  proof (cases ys rule: rev_cases)
    case (snoc ys' y)
    with Nil.prems(2) have
      "validateEvent sha pt y run (of_nat (length ys' + 1)) (last_hash ys') m'"
      by (simp add: valid_chain_snoc)
    from validateEvent_fields(7) [OF this] Nil.prems(3) snoc genesis_not_event_hash [of sha y]
    show ?thesis by (simp add: last_hash_def)
  qed simp
next
  case (snoc x xs)
  have vx: "validateEvent sha pt x run (of_nat (length xs + 1)) (last_hash xs) m"
    and cx: "valid_chain sha pt run m 0 genesisHash xs"
    using snoc.prems(1) by (simp_all add: valid_chain_snoc)
  show ?case
  proof (cases ys rule: rev_cases)
    case Nil
    with snoc.prems(3) validateEvent_fields(7) [OF vx] genesis_not_event_hash [of sha x]
    show ?thesis by (simp add: last_hash_def)
  next
    case ys: (snoc ys' y)
    have vy: "validateEvent sha pt y run (of_nat (length ys' + 1)) (last_hash ys') m'"
      and cy: "valid_chain sha pt run m' 0 genesisHash ys'"
      using snoc.prems(2) ys by (simp_all add: valid_chain_snoc)
    have "event_fingerprint sha x = event_fingerprint sha y"
      using snoc.prems(3) ys validateEvent_fields(7) [OF vx] validateEvent_fields(7) [OF vy]
      by (simp add: last_hash_def)
    moreover have "no_collision sha (digested x) (digested y)" using snoc.prems(4) ys by simp
    ultimately have "json_of_event (x\<lparr>EventHash := ''''\<rparr>) = json_of_event (y\<lparr>EventHash := ''''\<rparr>)"
      using prefixed_fingerprint_inject
      by (simp add: event_fingerprint_def digested_def)
    from json_of_event_inj [OF vx vy _ _ this] valid_chain_last_hash [OF cx]
      valid_chain_last_hash [OF cy]
    have xy: "x = y" by blast
    moreover from xy have "last_hash xs = last_hash ys'"
      using validateEvent_fields(3) [OF vx] validateEvent_fields(3) [OF vy] by simp
    then have "xs = ys'" using snoc.IH [OF cx cy] snoc.prems(4) ys by simp
    ultimately show ?thesis using ys by simp
  qed
qed

section \<open>Properties\<close>

lemma append_atomic_aux:
  assumes "journal_append sha pt limits env root run v evs = (root', None)"
  shows "\<exists>old new. clean_load sha pt limits root run = Inr old \<and> of_nat (length old) = v \<and>
    map unsealed new = map unsealed evs \<and>
    clean_load sha pt limits root' run = after_append (maximumEventBytes limits) evs old new"
  using assms by (rule journal_appendE) auto


text \<open>
  The size limits of writing and reading disagree: an event that
  \<open>Append\<close> accepts, because its payload is within the limit, but whose payload is over the limit
  once the journal file indents it, makes the journal unreadable: every later load fails as
  corrupt and every later append is refused.\<close>

theorem oversized_event_corrupts:
  assumes "journal_append sha pt limits env root run v [ev] = (root1, None)"
    and "stored_payload_size ev > maximumEventBytes limits"
  shows "int (length (raw_bytes (Payload ev))) \<le> maximumEventBytes limits \<and>
    clean_load sha pt limits root1 run = Inl ErrJournalCorrupt \<and>
    snd (journal_append sha pt limits env' root1 run v' evs') \<noteq> None"
proof -
  from assms obtain old new where l: "clean_load sha pt limits root1 run = Inl ErrJournalCorrupt"
    using append_atomic_aux [OF assms(1)] by (auto simp: after_append_def readable_event_def)
  have "snd (journal_append sha pt limits env' root1 run v' evs') \<noteq> None"
  proof -
    obtain root2 r where j: "journal_append sha pt limits env' root1 run v' evs' = (root2, r)"
      by force
    then have "r \<noteq> None" by (rule journal_appendE) (use l in auto)
    with j show ?thesis by simp
  qed
  moreover have "int (length (raw_bytes (Payload ev))) \<le> maximumEventBytes limits"
    using assms(1)
    by (auto simp: journal_append_def withRunLock_def appended_journal_def rbind_Inr_iff Let_def
        split: if_splits prod.splits sum.splits)
  ultimately show ?thesis using l by simp
qed

text \<open>
  No lost update: after a successful append, an append decided on
  the same expected version is refused and leaves the journal as it is.\<close>

theorem stale_append_rejected:
  assumes "journal_append sha pt limits env root run v evs = (root1, None)"
    and "length evs < 2 ^ 64"
    and "journal_append sha pt limits env' root1 run v evs' = (root2, r)"
  shows "r \<noteq> None \<and> clean_load sha pt limits root2 run = clean_load sha pt limits root1 run"
  using assms(3)
proof (cases rule: journal_appendE)
  case (refused e)
  then show ?thesis by simp
next
  case w2: (written old2 new2)
  from append_atomic_aux [OF assms(1)] obtain old new where o: "of_nat (length old) = v"
    "clean_load sha pt limits root1 run = after_append (maximumEventBytes limits) evs old new"
    "map unsealed new = map unsealed evs" by blast
  have "length new = length evs" using map_eq_imp_length_eq [OF o(3)] .
  moreover have "old2 = old @ new" using w2(1) o(2) by (simp add: after_append_def split: if_splits)
  ultimately have "v = v + of_nat (length evs)" using w2(2) o(1) by simp
  then have "(of_nat (length evs) :: 64 word) = 0" by (metis add_cancel_left_right)
  then have "2 ^ 64 dvd length evs" by (simp add: word_of_nat_eq_0_iff)
  moreover have "evs \<noteq> []" using assms(1) by (auto simp: journal_append_def)
  ultimately have False using assms(2) by (auto dest: dvd_imp_le)
  then show ?thesis ..
qed

text \<open>C21: The last event hash pins the whole journal: two valid journals of
  a run with the same last hash hold the same events, unless the digest collides on two of their
  event documents.\<close>

theorem journal_tamper_evident:
  assumes "validateJournal sha pt j1 run m" "validateJournal sha pt j2 run m'"
    and "last_hash (Events j1) = last_hash (Events j2)"
    and "\<And>a b. a \<in> set (Events j1) \<Longrightarrow> b \<in> set (Events j2) \<Longrightarrow>
           no_collision sha (digested a) (digested b)"
  shows "Events j1 = Events j2"
  using chain_determined [of sha pt run m "Events j1" m' "Events j2"] assms
  by (simp add: validateJournal_def)


section \<open>A concrete journal\<close>

definition demo_limits :: journal_limits where
  "demo_limits = \<lparr>maximumJournalBytes = 4096, maximumEventBytes = 2048\<rparr>"

definition first_append :: "run_root \<times> journal_error option" where
  "first_append = journal_append orch_sha demo_parse demo_limits quiet_journal_env Map.empty ''r'' 0
     (demo_run [CommandConfigure])"

definition demo_journal :: journal where
  "demo_journal = (case fst first_append ''r'' of Some d \<Rightarrow> (case journal_file d of
     Some (Doc jn) \<Rightarrow> jn | _ \<Rightarrow> new_journal orch_sha ''r'') | None \<Rightarrow> new_journal orch_sha ''r'')"

lemma first_append_ok: "snd first_append = None"
  by code_simp

lemma demo_event_sizes:
  "map (\<lambda>ev. (length (raw_bytes (Payload ev)), stored_payload_size ev)) (demo_run [CommandConfigure]) =
     [(585, 930)]"
  by code_simp

lemma demo_first_event:
  "HandleCommand orch_sha demo_parse demo_format (new_aggregate ''r'')
     (demo_command (new_aggregate ''r'') CommandConfigure) =
   Inr (demo_event (new_aggregate ''r'') CommandConfigure)"
  by code_simp

lemma demo_run_first:
  "demo_run [CommandConfigure] = [demo_event (new_aggregate ''r'') CommandConfigure]"
  using demo_first_event by (simp add: demo_run_def split: sum.splits)

lemma demo_first_size:
  "stored_payload_size (demo_event (new_aggregate ''r'') CommandConfigure) = 930"
  using demo_event_sizes by (simp add: demo_run_first)

lemma demo_readable: "list_all (readable_event 2048) (demo_run [CommandConfigure])"
  by (simp add: demo_run_first readable_event_def demo_first_size)

definition tight_limits :: journal_limits where
  "tight_limits = \<lparr>maximumJournalBytes = 4096, maximumEventBytes = 600\<rparr>"

definition tight_append :: "run_root \<times> journal_error option" where
  "tight_append = journal_append orch_sha demo_parse tight_limits quiet_journal_env Map.empty ''r'' 0
     (demo_run [CommandConfigure])"

lemma tight_append_ok: "snd tight_append = None"
  by code_simp

lemma demo_journal_events: "length (Events demo_journal) = 1"
  by code_simp

lemma demo_journal_valid: "validateJournal orch_sha demo_parse demo_journal ''r'' 2048"
proof -
  have "first_append = (fst first_append, None)" using first_append_ok by (metis prod.collapse)
  from journal_append_document [OF this [unfolded first_append_def], folded first_append_def]
  show ?thesis using demo_readable by (auto simp: demo_journal_def demo_limits_def)
qed

definition demo_execute :: "run_root \<times> (journal_error service_error, aggregate) result" where
  "demo_execute = Execute orch_sha demo_parse demo_format
     (Some \<lparr>es_load = clean_load orch_sha demo_parse demo_limits,
        es_append = \<lambda>root. journal_append orch_sha demo_parse demo_limits quiet_journal_env root\<rparr>)
     None Map.empty ''r'' (demo_command (new_aggregate ''r'') CommandConfigure)"

lemma demo_execute_ok: "is_ok (snd demo_execute)"
  by code_simp


theorem oversized_event_corrupts_witness:
  "clean_load orch_sha demo_parse tight_limits (fst tight_append) ''r'' = Inl ErrJournalCorrupt"
proof -
  have "tight_append = (fst tight_append, None)" using tight_append_ok by (metis prod.collapse)
  from oversized_event_corrupts [OF this [unfolded tight_append_def demo_run_first],
      folded demo_run_first tight_append_def] show ?thesis
    by (simp add: demo_first_size tight_limits_def)
qed

theorem stale_append_rejected_witness:
  "\<exists>e. snd (journal_append orch_sha demo_parse demo_limits quiet_journal_env (fst first_append)
     ''r'' 0 (demo_run [CommandConfigure])) = Some e"
proof -
  let ?second = "journal_append orch_sha demo_parse demo_limits quiet_journal_env (fst first_append)
     ''r'' 0 (demo_run [CommandConfigure])"
  have first: "first_append = (fst first_append, None)" using first_append_ok by (metis prod.collapse)
  have "length (demo_run [CommandConfigure]) < 2 ^ 64" by (simp add: demo_run_first)
  from stale_append_rejected [OF first [unfolded first_append_def] this, folded first_append_def,
      of quiet_journal_env "demo_run [CommandConfigure]" "fst ?second" "snd ?second"]
  show ?thesis by simp
qed

theorem journal_tamper_evident_witness:
  "Events demo_journal = Events (sealJournal orch_sha (demo_journal\<lparr>jn_Fingerprint := ''x''\<rparr>))"
proof (rule journal_tamper_evident [of orch_sha demo_parse _ "''r''" 2048 _ 2048])
  show "validateJournal orch_sha demo_parse demo_journal ''r'' 2048" by (rule demo_journal_valid)
  then show "validateJournal orch_sha demo_parse
      (sealJournal orch_sha (demo_journal\<lparr>jn_Fingerprint := ''x''\<rparr>)) ''r'' 2048"
    by (simp add: validate_sealed_journal) (simp add: validateJournal_def)
  show "last_hash (Events demo_journal) =
      last_hash (Events (sealJournal orch_sha (demo_journal\<lparr>jn_Fingerprint := ''x''\<rparr>)))"
    by (simp add: sealJournal_def)
  obtain e where "Events demo_journal = [e]"
    using demo_journal_events by (cases "Events demo_journal") auto
  then show "no_collision orch_sha (digested a) (digested b)"
    if "a \<in> set (Events demo_journal)"
      "b \<in> set (Events (sealJournal orch_sha (demo_journal\<lparr>jn_Fingerprint := ''x''\<rparr>)))" for a b
    using that by (simp add: sealJournal_def no_collision_def)
qed


end
