(* ===== verification/Run_Lease.thy ===== *)
theory Run_Lease
  imports Run_Journal
begin

text \<open>
  Run leases of \<open>internal/runjournal/lease.go\<close>: acquire, renew, validate and release under the
  run lock, over the lease file of the run directory. Instants are integers; \<open>parse_time\<close> and
  \<open>format_time\<close> are \<open>time.Parse\<close> and \<open>time.Format\<close> with \<open>RFC3339Nano\<close>. Each call of the clock is
  a parameter (\<open>now1\<close> for the expiry check, \<open>now2\<close> for the new lease), and so is the random
  token, None when the random source fails.
\<close>

section \<open>The operations\<close>

definition LeaseSchemaVersion :: string where
  "LeaseSchemaVersion = ''mindline-activation-run-lease/v0.1''"

definition maximumLeaseBytes :: int where
  "maximumLeaseBytes = 16384"

definition json_of_lease :: "lease \<Rightarrow> json" where
  "json_of_lease l = JObj
     [(''schema_version'', JStr (ls_SchemaVersion l)), (''fingerprint'', JStr (ls_Fingerprint l)),
      (''run_id'', JStr (ls_RunID l)), (''owner_id'', JStr (OwnerID l)), (''token'', JStr (Token l)),
      (''generation'', JInt (uint (Generation l))), (''acquired_at'', JStr (AcquiredAt l)),
      (''expires_at'', JStr (ExpiresAt l))]"

definition lease_fingerprint :: "(string \<Rightarrow> string) \<Rightarrow> lease \<Rightarrow> string" where
  "lease_fingerprint sha l = prefixed_fingerprint sha (json_of_lease (l\<lparr>ls_Fingerprint := ''''\<rparr>))"

definition sealLease :: "(string \<Rightarrow> string) \<Rightarrow> lease \<Rightarrow> lease" where
  "sealLease sha l = l\<lparr>ls_Fingerprint := lease_fingerprint sha l\<rparr>"

definition sameLease :: "lease \<Rightarrow> lease \<Rightarrow> bool" where
  "sameLease a b \<longleftrightarrow> ls_RunID a = ls_RunID b \<and> OwnerID a = OwnerID b \<and> Token a = Token b \<and>
     Generation a = Generation b \<and> ls_Fingerprint a = ls_Fingerprint b"

definition lease_wellformed :: "(string \<Rightarrow> string) \<Rightarrow> lease \<Rightarrow> bool" where
  "lease_wellformed sha l \<longleftrightarrow>
     \<not> (ls_SchemaVersion l \<noteq> LeaseSchemaVersion \<or> ls_RunID l = '''' \<or> OwnerID l = '''' \<or>
        Token l = '''' \<or> Generation l = 0 \<or> ls_Fingerprint l = '''' \<or>
        ls_Fingerprint l \<noteq> lease_fingerprint sha l)"

definition lease_size :: "lease blob \<Rightarrow> int" where
  "lease_size b =
     (case b of Doc l \<Rightarrow> int (length (encode_indent 0 (json_of_lease l))) + 1
              | Garbled s \<Rightarrow> int (length s))"

definition loadLease ::
  "(string \<Rightarrow> string) \<Rightarrow> journal_env \<Rightarrow> run_dir \<Rightarrow> (journal_error, lease) result" where
  "loadLease sha env d =
     (case lease_file d of
        None \<Rightarrow> Inl ErrLeaseNotFound
      | Some b \<Rightarrow>
          if je_read_fails env \<or> lease_size b > maximumLeaseBytes then Inl IoFailure
          else case b of
            Garbled _ \<Rightarrow> Inl IoFailure
          | Doc l \<Rightarrow> if lease_wellformed sha l then Inr l else Inl ErrJournalCorrupt)"

definition write_lease ::
  "journal_env \<Rightarrow> run_root \<Rightarrow> string \<Rightarrow> run_dir \<Rightarrow> lease \<Rightarrow> run_root \<times> (journal_error, lease) result"
  where
  "write_lease env root run d l =
     (case WriteFile (je_io env) False (Doc l) (lease_file d) of
        (slot, err) \<Rightarrow>
          (root(run \<mapsto> d\<lparr>lease_file := slot\<rparr>),
           case err of None \<Rightarrow> Inr l | Some _ \<Rightarrow> Inl IoFailure))"

text \<open>The new lease of \<open>Acquire\<close>, or why the run cannot be leased now.\<close>

definition previous_generation ::
  "(string \<Rightarrow> string) \<Rightarrow> time_parser \<Rightarrow> journal_env \<Rightarrow> int \<Rightarrow> run_dir
    \<Rightarrow> (journal_error, 64 word) result" where
  "previous_generation sha pt env now1 d =
     (case loadLease sha env d of
        Inr existing \<Rightarrow>
          (case pt (ExpiresAt existing) of
             None \<Rightarrow> Inl ErrJournalCorrupt
           | Some expires \<Rightarrow>
               if now1 < expires then Inl ErrLeaseHeld else Inr (Generation existing))
      | Inl e \<Rightarrow> if e = ErrLeaseNotFound then Inr 0 else Inl e)"

definition new_lease ::
  "(string \<Rightarrow> string) \<Rightarrow> (int \<Rightarrow> string) \<Rightarrow> string \<Rightarrow> string \<Rightarrow> int \<Rightarrow> string \<Rightarrow> 64 word \<Rightarrow> int \<Rightarrow> lease"
  where
  "new_lease sha ft run owner ttl tok previous now2 = sealLease sha
     \<lparr>ls_SchemaVersion = LeaseSchemaVersion, ls_Fingerprint = '''', ls_RunID = run,
      OwnerID = owner, Token = tok, Generation = (if previous > 0 then previous + 1 else 1),
      AcquiredAt = ft now2, ExpiresAt = ft (now2 + ttl)\<rparr>"

definition acquired_lease ::
  "(string \<Rightarrow> string) \<Rightarrow> time_parser \<Rightarrow> (int \<Rightarrow> string) \<Rightarrow> journal_env \<Rightarrow> string \<Rightarrow> string \<Rightarrow> int
    \<Rightarrow> string option \<Rightarrow> int \<Rightarrow> int \<Rightarrow> run_dir \<Rightarrow> (journal_error, lease) result" where
  "acquired_lease sha pt ft env run owner ttl token now1 now2 d =
     rbind (validateRunDirectory env d) (\<lambda>_.
       rbind (previous_generation sha pt env now1 d) (\<lambda>previous.
         case token of
           None \<Rightarrow> Inl IoFailure
         | Some tok \<Rightarrow> Inr (new_lease sha ft run owner ttl tok previous now2)))"

definition AcquireLease ::
  "(string \<Rightarrow> string) \<Rightarrow> time_parser \<Rightarrow> (int \<Rightarrow> string) \<Rightarrow> journal_env \<Rightarrow> run_root \<Rightarrow> string \<Rightarrow> string
    \<Rightarrow> int \<Rightarrow> string option \<Rightarrow> int \<Rightarrow> int \<Rightarrow> run_root \<times> (journal_error, lease) result" where
  "AcquireLease sha pt ft env root run owner ttl token now1 now2 =
     (if \<not> validRunID run \<or> owner = '''' \<or> ttl \<le> 0 then (root, Inl ErrLeaseMismatch)
      else case prepareRunDir env root run of
        (root', Inl e) \<Rightarrow> (root', Inl e)
      | (root', Inr d) \<Rightarrow>
          (case withRunLock env
             (acquired_lease sha pt ft env run owner ttl token now1 now2 d) of
             Inl e \<Rightarrow> (root', Inl e)
           | Inr l \<Rightarrow> write_lease env root' run d l))"

text \<open>The run directory of a lease that is presented, and the stored lease if it is the same.\<close>

definition lease_dir ::
  "journal_env \<Rightarrow> run_root \<Rightarrow> lease \<Rightarrow> (journal_error, run_dir) result" where
  "lease_dir env root l =
     (if \<not> validRunID (ls_RunID l) then Inl ErrLeaseMismatch
      else case existingRunDir env root (ls_RunID l) of
        Inl NotExist \<Rightarrow> Inl ErrLeaseNotFound
      | r \<Rightarrow> r)"

definition current_lease ::
  "(string \<Rightarrow> string) \<Rightarrow> journal_env \<Rightarrow> run_dir \<Rightarrow> lease \<Rightarrow> (journal_error, lease) result" where
  "current_lease sha env d l =
     withRunLock env
       (rbind (loadLease sha env d) (\<lambda>current.
          if \<not> sameLease current l then Inl ErrLeaseMismatch else Inr current))"

definition RenewLease ::
  "(string \<Rightarrow> string) \<Rightarrow> time_parser \<Rightarrow> (int \<Rightarrow> string) \<Rightarrow> journal_env \<Rightarrow> run_root \<Rightarrow> lease \<Rightarrow> int
    \<Rightarrow> int \<Rightarrow> int \<Rightarrow> run_root \<times> (journal_error, lease) result" where
  "RenewLease sha pt ft env root l ttl now1 now2 =
     (if ttl \<le> 0 then (root, Inl ErrLeaseMismatch)
      else case lease_dir env root l of
        Inl e \<Rightarrow> (root, Inl e)
      | Inr d \<Rightarrow>
          (case current_lease sha env d l of
             Inl e \<Rightarrow> (root, Inl e)
           | Inr current \<Rightarrow>
               (case pt (ExpiresAt current) of
                  None \<Rightarrow> (root, Inl ErrLeaseExpired)
                | Some expires \<Rightarrow>
                    if now1 \<ge> expires then (root, Inl ErrLeaseExpired)
                    else write_lease env root (ls_RunID l) d
                      (sealLease sha (current\<lparr>Generation := Generation current + 1,
                         ExpiresAt := ft (now2 + ttl)\<rparr>)))))"

definition ValidateLease ::
  "(string \<Rightarrow> string) \<Rightarrow> time_parser \<Rightarrow> journal_env \<Rightarrow> run_root \<Rightarrow> lease \<Rightarrow> int \<Rightarrow> journal_error option"
  where
  "ValidateLease sha pt env root l now =
     (case lease_dir env root l of
        Inl e \<Rightarrow> Some e
      | Inr d \<Rightarrow>
          (case current_lease sha env d l of
             Inl e \<Rightarrow> Some e
           | Inr current \<Rightarrow>
               (case pt (ExpiresAt current) of
                  None \<Rightarrow> Some ErrJournalCorrupt
                | Some expires \<Rightarrow> if now \<ge> expires then Some ErrLeaseExpired else None)))"

definition ReleaseLease ::
  "(string \<Rightarrow> string) \<Rightarrow> journal_env \<Rightarrow> run_root \<Rightarrow> lease \<Rightarrow> run_root \<times> journal_error option" where
  "ReleaseLease sha env root l =
     (case lease_dir env root l of
        Inl e \<Rightarrow> (root, Some e)
      | Inr d \<Rightarrow>
          (case current_lease sha env d l of
             Inl e \<Rightarrow> (root, Some e)
           | Inr current \<Rightarrow>
               if je_remove_fails env then (root, Some IoFailure)
               else (root(ls_RunID l \<mapsto> d\<lparr>lease_file := None\<rparr>),
                     if os_fails (je_io env) False OsDirOpen \<or> os_fails (je_io env) False OsDirSync
                     then Some IoFailure else None)))"

section \<open>Who holds a run\<close>

definition stored_lease :: "run_root \<Rightarrow> string \<Rightarrow> lease blob option" where
  "stored_lease root run = (case root run of None \<Rightarrow> None | Some d \<Rightarrow> lease_file d)"

text \<open>A lease that is stored, readable and well-formed.\<close>

definition holds :: "(string \<Rightarrow> string) \<Rightarrow> run_root \<Rightarrow> lease \<Rightarrow> bool" where
  "holds sha root l \<longleftrightarrow> stored_lease root (ls_RunID l) = Some (Doc l) \<and> validRunID (ls_RunID l) \<and>
     lease_size (Doc l) \<le> maximumLeaseBytes \<and> lease_wellformed sha l"

datatype lease_op =
    AcquireOp journal_env string string int "string option" int int
  | RenewOp journal_env lease int int int
  | ReleaseOp journal_env lease
  | ValidateOp journal_env lease int

fun lease_step ::
  "(string \<Rightarrow> string) \<Rightarrow> time_parser \<Rightarrow> (int \<Rightarrow> string) \<Rightarrow> run_root \<Rightarrow> lease_op \<Rightarrow> run_root" where
  "lease_step sha pt ft root (AcquireOp env run owner ttl token now1 now2) =
     fst (AcquireLease sha pt ft env root run owner ttl token now1 now2)"
| "lease_step sha pt ft root (RenewOp env l ttl now1 now2) =
     fst (RenewLease sha pt ft env root l ttl now1 now2)"
| "lease_step sha pt ft root (ReleaseOp env l) = fst (ReleaseLease sha env root l)"
| "lease_step sha pt ft root (ValidateOp env l now) = root"

text \<open>What others may do before the lease expires: acquire early, or present another lease.\<close>

fun contends :: "lease \<Rightarrow> int \<Rightarrow> lease_op \<Rightarrow> bool" where
  "contends l expires (AcquireOp env run owner ttl token now1 now2) = (run = ls_RunID l \<longrightarrow> now1 < expires)"
| "contends l expires (RenewOp env l' ttl now1 now2) = (\<not> sameLease l l')"
| "contends l expires (ReleaseOp env l') = (\<not> sameLease l l')"
| "contends l expires (ValidateOp env l' now) = True"

lemma holds_loadLease:
  assumes "holds sha root l" "root (ls_RunID l) = Some d"
  shows "loadLease sha env d = (if je_read_fails env then Inl IoFailure else Inr l)"
  using assms by (simp add: holds_def stored_lease_def loadLease_def)

lemma write_lease_other:
  "fst (write_lease env root run d l) = root(run \<mapsto> d\<lparr>lease_file :=
     fst (WriteFile (je_io env) False (Doc l) (lease_file d))\<rparr>)"
  by (simp add: write_lease_def split: prod.splits)

lemma stored_lease_upd:
  "stored_lease (root(run \<mapsto> d)) x = (if x = run then lease_file d else stored_lease root x)"
  by (simp add: stored_lease_def)

lemma prepareRunDir_stored:
  "prepareRunDir env root run = (root', r) \<Longrightarrow> stored_lease root' x = stored_lease root x"
  by (auto simp: prepareRunDir_def stored_lease_def empty_dir_def split: if_splits option.splits)

lemma lease_dirD: "lease_dir env root l = Inr d \<Longrightarrow> root (ls_RunID l) = Some d"
  by (auto simp: lease_dir_def existingRunDir_def split: if_splits option.splits sum.splits
      journal_error.splits)

lemma current_leaseD:
  "current_lease sha env d l = Inr c \<Longrightarrow> loadLease sha env d = Inr c \<and> sameLease c l"
  by (auto simp: current_lease_def withRunLock_def rbind_Inr_iff split: if_splits)

lemma sameLease_run: "sameLease a b \<Longrightarrow> ls_RunID a = ls_RunID b"
  by (simp add: sameLease_def)

lemma loadLease_stored: "loadLease sha env d = Inr c \<Longrightarrow> lease_file d = Some (Doc c)"
  by (auto simp: loadLease_def split: option.splits if_splits blob.splits)

text \<open>A step of a contender leaves the stored lease as it is.\<close>

lemma Acquire_keeps:
  assumes h: "holds sha root l" and e: "pt (ExpiresAt l) = Some expires"
    and c: "run = ls_RunID l \<longrightarrow> now1 < expires"
  shows "stored_lease (fst (AcquireLease sha pt ft env root run owner ttl token now1 now2))
    (ls_RunID l) = stored_lease root (ls_RunID l)"
proof (cases "\<not> validRunID run \<or> owner = '''' \<or> ttl \<le> 0")
  case True
  then show ?thesis by (simp add: AcquireLease_def)
next
  case ok: False
  obtain root' r where p: "prepareRunDir env root run = (root', r)" by force
  note same = prepareRunDir_stored [OF p]
  show ?thesis
  proof (cases r)
    case (Inl e)
    with ok p same show ?thesis by (simp add: AcquireLease_def)
  next
    case r: (Inr d)
    show ?thesis
    proof (cases "withRunLock env (acquired_lease sha pt ft env run owner ttl token now1 now2 d)")
      case (Inl e)
      with ok p r same show ?thesis by (simp add: AcquireLease_def)
    next
      case new: (Inr l')
      have "run \<noteq> ls_RunID l"
      proof
        assume run: "run = ls_RunID l"
        from p r have "root run = Some d"
          using h run by (auto simp: prepareRunDir_def holds_def stored_lease_def
              split: if_splits option.splits)
        with h run have "loadLease sha env d = (if je_read_fails env then Inl IoFailure else Inr l)"
          using holds_loadLease by simp
        with new e c run show False
          by (auto simp: withRunLock_def acquired_lease_def previous_generation_def rbind_Inr_iff
              split: if_splits)
      qed
      with ok p r new same show ?thesis
        by (simp add: AcquireLease_def write_lease_other stored_lease_upd)
    qed
  qed
qed

lemma presented_other:
  assumes h: "holds sha root l" and n: "\<not> sameLease l l'"
    and d: "lease_dir env root l' = Inr d" and c: "current_lease sha env d l' = Inr cur"
  shows "ls_RunID l' \<noteq> ls_RunID l"
proof
  assume eq: "ls_RunID l' = ls_RunID l"
  with lease_dirD [OF d] h have "lease_file d = Some (Doc l)"
    by (simp add: holds_def stored_lease_def)
  moreover have "lease_file d = Some (Doc cur)" "sameLease cur l'"
    using current_leaseD [OF c] loadLease_stored by blast+
  ultimately show False using n by simp
qed

lemma Renew_keeps:
  assumes "holds sha root l" "\<not> sameLease l l'"
  shows "stored_lease (fst (RenewLease sha pt ft env root l' ttl now1 now2)) (ls_RunID l) =
    stored_lease root (ls_RunID l)"
  using presented_other [OF assms]
  by (fastforce simp: RenewLease_def write_lease_other stored_lease_upd
      split: sum.splits option.splits)

lemma Release_keeps:
  assumes "holds sha root l" "\<not> sameLease l l'"
  shows "stored_lease (fst (ReleaseLease sha env root l')) (ls_RunID l) =
    stored_lease root (ls_RunID l)"
  using presented_other [OF assms]
  by (fastforce simp: ReleaseLease_def stored_lease_upd split: sum.splits)

lemma contender_keeps:
  assumes "holds sha root l" "pt (ExpiresAt l) = Some expires" "contends l expires op"
  shows "holds sha (lease_step sha pt ft root op) l"
proof -
  have "stored_lease (lease_step sha pt ft root op) (ls_RunID l) = stored_lease root (ls_RunID l)"
  proof (cases op)
    case (AcquireOp env run owner ttl token now1 now2)
    with assms(3) Acquire_keeps [where pt = pt, OF assms(1,2)] show ?thesis by simp
  next
    case (RenewOp env l' ttl now1 now2)
    with assms(3) Renew_keeps [OF assms(1)] show ?thesis by simp
  next
    case (ReleaseOp env l')
    with assms(3) Release_keeps [OF assms(1)] show ?thesis by simp
  qed simp
  with assms(1) show ?thesis by (simp add: holds_def)
qed

lemma contenders_keep:
  assumes "holds sha root l" "pt (ExpiresAt l) = Some expires" "list_all (contends l expires) ops"
  shows "holds sha (foldl (lease_step sha pt ft) root ops) l"
  using assms
  by (induction ops arbitrary: root) (simp_all add: contender_keeps [where pt = pt])

lemma holder_validates:
  assumes "holds sha root l" "pt (ExpiresAt l) = Some expires"
  shows "ValidateLease sha pt quiet_journal_env root l now =
    (if now < expires then None else Some ErrLeaseExpired)"
proof -
  from assms(1) obtain d where d: "root (ls_RunID l) = Some d" "lease_file d = Some (Doc l)"
    by (auto simp: holds_def stored_lease_def split: option.splits)
  have "lease_dir quiet_journal_env root l = Inr d"
    using assms(1) d by (simp add: lease_dir_def existingRunDir_def holds_def)
  moreover have "current_lease sha quiet_journal_env d l = Inr l"
    using holds_loadLease [OF assms(1) d(1)]
    by (simp add: current_lease_def withRunLock_def sameLease_def)
  ultimately show ?thesis using assms(2) by (simp add: ValidateLease_def)
qed

lemma other_token_rejected:
  assumes h: "holds sha root l" and "ls_RunID l' = ls_RunID l" "Token l' \<noteq> Token l"
  shows "ValidateLease sha pt env root l' now \<noteq> None"
    and "RenewLease sha pt ft env root l' ttl now1 now2 = (root, r) \<Longrightarrow> \<not> is_ok r"
    and "fst (RenewLease sha pt ft env root l' ttl now1 now2) = root"
    and "fst (ReleaseLease sha env root l') = root"
proof -
  have n: "\<not> sameLease l l'" using assms(3) by (simp add: sameLease_def)
  have "\<not> (\<exists>cur d. lease_dir env root l' = Inr d \<and> current_lease sha env d l' = Inr cur)"
    using presented_other [OF h n] assms(2) by blast
  then consider e where "lease_dir env root l' = Inl e"
    | d e where "lease_dir env root l' = Inr d" "current_lease sha env d l' = Inl e"
    by (metis sum.exhaust)
  then show "ValidateLease sha pt env root l' now \<noteq> None"
    and "RenewLease sha pt ft env root l' ttl now1 now2 = (root, r) \<Longrightarrow> \<not> is_ok r"
    and "fst (RenewLease sha pt ft env root l' ttl now1 now2) = root"
    and "fst (ReleaseLease sha env root l') = root"
    by (cases; auto simp: ValidateLease_def RenewLease_def ReleaseLease_def split: if_splits)+
qed

text \<open>What a successful acquisition leaves behind.\<close>

lemma Acquire_holds:
  assumes "AcquireLease sha pt ft env root run owner ttl token now1 now2 = (root', Inr l)"
    and "lease_size (Doc l) \<le> maximumLeaseBytes" "token \<noteq> Some ''''"
    and "\<And>prior. stored_lease root run = Some (Doc prior) \<Longrightarrow> Generation prior \<noteq> - 1"
  shows "holds sha root' l \<and> ls_RunID l = run \<and> OwnerID l = owner \<and> Some (Token l) = token \<and>
    ExpiresAt l = ft (now2 + ttl)"
proof -
  obtain root1 r where p: "prepareRunDir env root run = (root1, r)" by force
  with assms(1) obtain d where ok: "validRunID run" "owner \<noteq> ''''" and d: "r = Inr d"
    and acq: "acquired_lease sha pt ft env run owner ttl token now1 now2 d = Inr l"
    and w: "write_lease env root1 run d l = (root', Inr l)"
    by (auto simp: AcquireLease_def withRunLock_def write_lease_def
        split: if_splits sum.splits prod.splits option.splits)
  from p d have "root1 run = Some d" by (auto simp: prepareRunDir_def split: if_splits option.splits)
  with prepareRunDir_stored [OF p, of run] have stored: "lease_file d = stored_lease root run"
    by (simp add: stored_lease_def)
  from acq obtain tok previous where l: "token = Some tok"
      "l = new_lease sha ft run owner ttl tok previous now2"
    and prev: "previous_generation sha pt env now1 d = Inr previous"
    by (auto simp: acquired_lease_def rbind_Inr_iff split: option.splits)
  have "previous \<noteq> - 1"
    using prev assms(4) stored loadLease_stored [of sha env d]
    by (auto simp: previous_generation_def split: sum.splits option.splits if_splits)
  then have "(if previous > 0 then previous + 1 else 1) \<noteq> 0"
    by (simp add: eq_neg_iff_add_eq_0)
  moreover have "run \<noteq> ''''" using ok(1) by (auto simp: validRunID_def)
  ultimately have "lease_wellformed sha l"
    using l assms(3) ok
    by (simp add: lease_wellformed_def new_lease_def sealLease_def lease_fingerprint_def)
  moreover have "stored_lease root' run = Some (Doc l)"
    using w WriteFile_ok
    by (fastforce simp: write_lease_def stored_lease_upd split: prod.splits option.splits)
  ultimately show ?thesis
    using l ok assms(2) by (simp add: holds_def new_lease_def sealLease_def)
qed

section \<open>Properties\<close>

text \<open>C20: A run has one holder: after an acquisition, whatever acquisitions others
  try before the expiry and whatever other leases they present, under every failure of their
  file operations, the acquired lease validates exactly until it expires, while every lease with
  another token fails to validate and changes nothing when it is renewed or released.\<close>

theorem lease_exclusive:
  assumes "AcquireLease sha pt ft env root run owner ttl token now1 now2 = (root', Inr l)"
    and "lease_size (Doc l) \<le> maximumLeaseBytes" "token \<noteq> Some ''''"
    and "\<And>prior. stored_lease root run = Some (Doc prior) \<Longrightarrow> Generation prior \<noteq> - 1"
    and "pt (ft (now2 + ttl)) = Some (now2 + ttl)"
    and "list_all (contends l (now2 + ttl)) ops"
    and "final = foldl (lease_step sha pt ft) root' ops"
  shows "ValidateLease sha pt quiet_journal_env final l now =
      (if now < now2 + ttl then None else Some ErrLeaseExpired) \<and>
    (\<forall>l'. ls_RunID l' = run \<longrightarrow> Some (Token l') \<noteq> token \<longrightarrow>
       ValidateLease sha pt env' final l' now' \<noteq> None \<and>
       fst (RenewLease sha pt ft env' final l' ttl' now' now'') = final \<and>
       fst (ReleaseLease sha env' final l') = final)"
proof -
  from Acquire_holds [OF assms(1-4)] have h: "holds sha root' l" and l: "ls_RunID l = run"
    "Some (Token l) = token" "ExpiresAt l = ft (now2 + ttl)" by auto
  have e: "pt (ExpiresAt l) = Some (now2 + ttl)" using l assms(5) by simp
  have f: "holds sha final l" unfolding assms(7) by (rule contenders_keep [where pt = pt, OF h e assms(6)])
  have "ValidateLease sha pt env' final l' now' \<noteq> None \<and>
       fst (RenewLease sha pt ft env' final l' ttl' now' now'') = final \<and>
       fst (ReleaseLease sha env' final l') = final"
    if "ls_RunID l' = run" "Some (Token l') \<noteq> token" for l'
    using other_token_rejected [OF f, of l'] that l by auto
  with holder_validates [where pt = pt, OF f e] show ?thesis by blast
qed

definition lease_sha :: "string \<Rightarrow> string" where
  "lease_sha s = ''d''"

definition lease_parse :: time_parser where
  "lease_parse s = (if s = ''e'' then Some 10 else None)"

definition lease_format :: "int \<Rightarrow> string" where
  "lease_format t = (if t = 10 then ''e'' else ''x'')"

definition demo_lease :: lease where
  "demo_lease =
     \<lparr>ls_SchemaVersion = LeaseSchemaVersion, ls_Fingerprint = ''sha256:d'', ls_RunID = ''r'',
      OwnerID = ''a'', Token = ''k'', Generation = 1, AcquiredAt = ''x'', ExpiresAt = ''e''\<rparr>"

lemma demo_acquire:
  "AcquireLease lease_sha lease_parse lease_format quiet_journal_env Map.empty ''r'' ''a'' 5
     (Some ''k'') 5 5 = ([''r'' \<mapsto> empty_dir\<lparr>lease_file := Some (Doc demo_lease)\<rparr>], Inr demo_lease)"
  by (simp add: AcquireLease_def validRunID_def run_id_start_def prepareRunDir_def withRunLock_def
      acquired_lease_def validateRunDirectory_def previous_generation_def loadLease_def
      new_lease_def sealLease_def lease_fingerprint_def prefixed_fingerprint_def lease_sha_def
      lease_format_def write_lease_def demo_lease_def)

lemma demo_lease_size: "lease_size (Doc demo_lease) \<le> maximumLeaseBytes"
  by code_simp

theorem lease_exclusive_witness:
  "ValidateLease lease_sha lease_parse quiet_journal_env
     (lease_step lease_sha lease_parse lease_format
       [''r'' \<mapsto> empty_dir\<lparr>lease_file := Some (Doc demo_lease)\<rparr>]
       (AcquireOp quiet_journal_env ''r'' ''b'' 5 (Some ''other'') 7 7)) demo_lease 9 = None"
  using lease_exclusive [OF demo_acquire demo_lease_size, of
      "[AcquireOp quiet_journal_env ''r'' ''b'' 5 (Some ''other'') 7 7]" _ 9]
  by (simp add: stored_lease_def lease_parse_def lease_format_def)

end
