(* ===== verification/Slack_Budget.thy ===== *)
theory Slack_Budget
  imports Json_Decode Private_IO
begin

text \<open>
  The request budget of the Slack client, \<open>internal/acquisition/slack/budget.go\<close>: reserving a
  request with its worst-case items and bytes, settling it with what was used, reserving a
  retry, and the two stores that keep the usage (in memory, and in a validated file).

  Integers wrap at 64 bits. Instants count nanoseconds from Go's zero time; \<open>parse_time\<close> and
  \<open>format_time\<close> are \<open>time.Parse\<close> and \<open>time.Format\<close> with \<open>RFC3339Nano\<close>. SHA-256 is \<open>sha\<close>. A slot of
  the file store holds the usage document, and the calls of the operating system that can fail
  are flags of \<open>slack_env\<close>.
\<close>

section \<open>Usage and budgets\<close>

definition slackBudgetSchema :: string where
  "slackBudgetSchema = ''slack_http_budget/v1''"

definition maximumSlackBudgetBytes :: int where
  "maximumSlackBudgetBytes = 4194304"

record slack_scope =
  WorkspaceID :: string
  ChannelID :: string
  Oldest :: string
  Latest :: string

record slack_budgets =
  sb_MaximumRequests :: int
  sb_MaximumItems :: int
  sb_MaximumBytes :: int
  sb_MaximumRetries :: int
  sb_MaximumRetryAfter :: int
  sb_MaximumWallTime :: int
  sb_MaximumCostMicrounits :: int

record slack_reservation =
  rs_MaximumItems :: int
  rs_MaximumBytes :: int

record slack_usage =
  su_SchemaVersion :: string
  su_Fingerprint :: string
  su_Scope :: slack_scope
  BudgetFingerprint :: string
  StartedAt :: string
  su_Sequence :: int
  Requests :: int
  Items :: int
  Bytes :: int
  Retries :: int
  CostMicrounits :: int
  Pending :: "(string \<times> slack_reservation) list"

datatype slack_error =
    ErrSlackBudgetExceeded | ErrSlackRateLimited | SlackAuthorityMismatch
  | SlackReservationMismatch | SlackSettlementMismatch | SlackInvalidScope | SlackInvalidBudgets
  | SlackIoFailure

definition json_of_scope :: "slack_scope \<Rightarrow> json" where
  "json_of_scope s = JObj
     [(''workspace_id'', JStr (WorkspaceID s)), (''channel_id'', JStr (ChannelID s)),
      (''oldest'', JStr (Oldest s)), (''latest'', JStr (Latest s))]"

definition json_of_slack_budgets :: "slack_budgets \<Rightarrow> json" where
  "json_of_slack_budgets b = JObj
     [(''MaximumRequests'', JInt (sb_MaximumRequests b)), (''MaximumItems'', JInt (sb_MaximumItems b)),
      (''MaximumBytes'', JInt (sb_MaximumBytes b)), (''MaximumRetries'', JInt (sb_MaximumRetries b)),
      (''MaximumRetryAfter'', JInt (sb_MaximumRetryAfter b)),
      (''MaximumWallTime'', JInt (sb_MaximumWallTime b)),
      (''MaximumCostMicrounits'', JInt (sb_MaximumCostMicrounits b))]"

definition json_of_reservation :: "slack_reservation \<Rightarrow> json" where
  "json_of_reservation r = JObj
     [(''maximum_items'', JInt (rs_MaximumItems r)), (''maximum_bytes'', JInt (rs_MaximumBytes r))]"

definition json_of_usage :: "slack_usage \<Rightarrow> json" where
  "json_of_usage u = JObj
     ([(''schema_version'', JStr (su_SchemaVersion u)), (''fingerprint'', JStr (su_Fingerprint u)),
       (''scope'', json_of_scope (su_Scope u)), (''budget_fingerprint'', JStr (BudgetFingerprint u)),
       (''started_at'', JStr (StartedAt u)), (''sequence'', JInt (su_Sequence u)),
       (''requests'', JInt (Requests u)), (''items'', JInt (Items u)), (''bytes'', JInt (Bytes u)),
       (''retries'', JInt (Retries u)), (''cost_microunits'', JInt (CostMicrounits u))] @
      opt_field (Pending u \<noteq> []) ''pending_reservations''
        (JObj (map (\<lambda>(k, r). (k, json_of_reservation r)) (Pending u))))"

type_synonym sha_fun = "string \<Rightarrow> string"
type_synonym instant_parser = "string \<Rightarrow> int option"

definition validateSlackHTTPBudgets :: "slack_budgets \<Rightarrow> bool" where
  "validateSlackHTTPBudgets b \<longleftrightarrow>
     \<not> (sb_MaximumRequests b \<le> 0 \<or> sb_MaximumItems b \<le> 0 \<or> sb_MaximumBytes b \<le> 0 \<or>
        sb_MaximumRetries b < 0 \<or> sb_MaximumRetryAfter b \<le> 0 \<or> sb_MaximumWallTime b \<le> 0 \<or>
        sb_MaximumCostMicrounits b \<le> 0)"

definition usage_fingerprint :: "sha_fun \<Rightarrow> slack_usage \<Rightarrow> string" where
  "usage_fingerprint sha u = generic_fingerprint sha (json_of_usage (u\<lparr>su_Fingerprint := ''''\<rparr>))"

definition sealSlackBudgetUsage :: "sha_fun \<Rightarrow> slack_usage \<Rightarrow> slack_usage" where
  "sealSlackBudgetUsage sha u =
     (let v = u\<lparr>su_SchemaVersion := slackBudgetSchema\<rparr>
      in v\<lparr>su_Fingerprint := usage_fingerprint sha v\<rparr>)"

text \<open>The sums of the reservation check, with the wrap-around of the accumulator.\<close>

definition pending_sum :: "(slack_reservation \<Rightarrow> int) \<Rightarrow> slack_usage \<Rightarrow> int" where
  "pending_sum f u = foldl (\<lambda>acc (k, r). i64_add acc (f r)) 0 (Pending u)"

definition usage_authority_ok ::
  "sha_fun \<Rightarrow> instant_parser \<Rightarrow> slack_scope \<Rightarrow> slack_budgets \<Rightarrow> slack_usage \<Rightarrow> bool" where
  "usage_authority_ok sha pt scope b u \<longleftrightarrow>
     \<not> (su_SchemaVersion u \<noteq> slackBudgetSchema \<or> su_Fingerprint u = '''' \<or>
        su_Fingerprint u \<noteq> usage_fingerprint sha u \<or> su_Scope u \<noteq> scope \<or>
        BudgetFingerprint u \<noteq> generic_fingerprint sha (json_of_slack_budgets b) \<or>
        (case pt (StartedAt u) of None \<Rightarrow> True | Some t \<Rightarrow> t = 0) \<or>
        su_Sequence u < 0 \<or> Requests u < 0 \<or> Items u < 0 \<or> Bytes u < 0 \<or> Retries u < 0 \<or>
        CostMicrounits u < 0 \<or> Requests u > sb_MaximumRequests b \<or> Items u > sb_MaximumItems b \<or>
        Bytes u > sb_MaximumBytes b \<or> Retries u > sb_MaximumRetries b \<or>
        CostMicrounits u > sb_MaximumCostMicrounits b)"

definition validateSlackBudgetUsage ::
  "sha_fun \<Rightarrow> instant_parser \<Rightarrow> slack_scope \<Rightarrow> slack_budgets \<Rightarrow> slack_usage \<Rightarrow> slack_error option"
  where
  "validateSlackBudgetUsage sha pt scope b u =
     (if \<not> usage_authority_ok sha pt scope b u then Some SlackAuthorityMismatch
      else if list_ex (\<lambda>(k, r). length k \<noteq> 64 \<or> rs_MaximumItems r < 0 \<or> rs_MaximumBytes r \<le> 0)
                (Pending u)
      then Some SlackReservationMismatch
      else if pending_sum rs_MaximumItems u > Items u \<or> pending_sum rs_MaximumBytes u > Bytes u \<or>
              int (length (Pending u)) > su_Sequence u
      then Some SlackReservationMismatch
      else None)"

definition newSlackBudgetUsage ::
  "sha_fun \<Rightarrow> (int \<Rightarrow> string) \<Rightarrow> slack_scope \<Rightarrow> slack_budgets \<Rightarrow> int \<Rightarrow> slack_usage" where
  "newSlackBudgetUsage sha ft scope b started = sealSlackBudgetUsage sha
     \<lparr>su_SchemaVersion = '''', su_Fingerprint = '''', su_Scope = scope,
      BudgetFingerprint = generic_fingerprint sha (json_of_slack_budgets b),
      StartedAt = ft started, su_Sequence = 0, Requests = 0, Items = 0, Bytes = 0, Retries = 0,
      CostMicrounits = 0, Pending = []\<rparr>"

section \<open>Reserving and settling\<close>

definition reservation_id :: "sha_fun \<Rightarrow> slack_scope \<Rightarrow> int \<Rightarrow> string" where
  "reservation_id sha scope n =
     generic_fingerprint sha (JObj [(''scope'', json_of_scope scope), (''sequence'', JInt n)])"

text \<open>The wall-clock window that both reservations check.\<close>

definition outside_window :: "instant_parser \<Rightarrow> slack_budgets \<Rightarrow> slack_usage \<Rightarrow> int \<Rightarrow> bool" where
  "outside_window pt b u now \<longleftrightarrow>
     (case pt (StartedAt u) of
        None \<Rightarrow> True
      | Some started \<Rightarrow> now < started \<or> now \<ge> started + sb_MaximumWallTime b)"

definition reserveSlackRequest ::
  "sha_fun \<Rightarrow> instant_parser \<Rightarrow> slack_budgets \<Rightarrow> int \<Rightarrow> int \<Rightarrow> int \<Rightarrow> slack_usage
    \<Rightarrow> (slack_error, slack_usage \<times> string) result" where
  "reserveSlackRequest sha pt b now max_items max_bytes u =
     (if outside_window pt b u now \<or> max_items < 0 \<or> max_bytes \<le> 0 \<or>
         i64_add (Requests u) 1 > sb_MaximumRequests b \<or>
         i64_add (Items u) max_items > sb_MaximumItems b \<or>
         i64_add (Bytes u) max_bytes > sb_MaximumBytes b \<or>
         i64_add (CostMicrounits u) 1 > sb_MaximumCostMicrounits b
      then Inl ErrSlackBudgetExceeded
      else
        let n = i64_add (su_Sequence u) 1; rid = reservation_id sha (su_Scope u) n
        in Inr (u\<lparr>su_Sequence := n,
                  Pending := map_set rid
                    \<lparr>rs_MaximumItems = max_items, rs_MaximumBytes = max_bytes\<rparr> (Pending u),
                  Requests := i64_add (Requests u) 1, Items := i64_add (Items u) max_items,
                  Bytes := i64_add (Bytes u) max_bytes,
                  CostMicrounits := i64_add (CostMicrounits u) 1\<rparr>, rid))"

definition settleSlackRequest ::
  "string \<Rightarrow> int \<Rightarrow> int \<Rightarrow> slack_usage \<Rightarrow> (slack_error, slack_usage) result" where
  "settleSlackRequest rid items bytes u =
     (case map_of (Pending u) rid of
        None \<Rightarrow> Inl SlackSettlementMismatch
      | Some r \<Rightarrow>
          if items < 0 \<or> bytes < 0 \<or> items > rs_MaximumItems r \<or> bytes > rs_MaximumBytes r
          then Inl SlackSettlementMismatch
          else Inr (u\<lparr>Items := i64_sub (Items u) (i64_sub (rs_MaximumItems r) items),
                      Bytes := i64_sub (Bytes u) (i64_sub (rs_MaximumBytes r) bytes),
                      Pending := map_delete rid (Pending u)\<rparr>))"

definition reserveSlackRetry ::
  "instant_parser \<Rightarrow> slack_budgets \<Rightarrow> int \<Rightarrow> slack_usage \<Rightarrow> (slack_error, slack_usage) result" where
  "reserveSlackRetry pt b now u =
     (if outside_window pt b u now \<or> i64_add (Retries u) 1 > sb_MaximumRetries b
      then Inl ErrSlackRateLimited
      else Inr (u\<lparr>Retries := i64_add (Retries u) 1\<rparr>))"

section \<open>The memory store\<close>

definition ephemeral_scope :: slack_scope where
  "ephemeral_scope = \<lparr>WorkspaceID = ''ephemeral'', ChannelID = ''ephemeral'',
     Oldest = ''ephemeral'', Latest = ''ephemeral''\<rparr>"

definition newMemorySlackBudgetStore ::
  "sha_fun \<Rightarrow> (int \<Rightarrow> string) \<Rightarrow> slack_budgets \<Rightarrow> int \<Rightarrow> slack_usage" where
  "newMemorySlackBudgetStore sha ft b started = newSlackBudgetUsage sha ft ephemeral_scope b started"

text \<open>Every call seals the usage again, also when the transition refused.\<close>

definition memory_call ::
  "sha_fun \<Rightarrow> (slack_usage \<Rightarrow> (slack_error, slack_usage \<times> 'a) result) \<Rightarrow> slack_usage
    \<Rightarrow> slack_usage \<times> (slack_error, 'a) result" where
  "memory_call sha f u =
     (case f u of
        Inl e \<Rightarrow> (sealSlackBudgetUsage sha u, Inl e)
      | Inr (v, x) \<Rightarrow> (sealSlackBudgetUsage sha v, Inr x))"

definition with_unit :: "(slack_usage \<Rightarrow> (slack_error, slack_usage) result)
    \<Rightarrow> slack_usage \<Rightarrow> (slack_error, slack_usage \<times> unit) result" where
  "with_unit f u = rbind (f u) (\<lambda>v. Inr (v, ()))"

definition usage_deadline ::
  "instant_parser \<Rightarrow> slack_budgets \<Rightarrow> slack_usage \<Rightarrow> (slack_error, slack_usage \<times> int) result" where
  "usage_deadline pt b u =
     (case pt (StartedAt u) of
        None \<Rightarrow> Inl SlackAuthorityMismatch
      | Some started \<Rightarrow> Inr (u, started + sb_MaximumWallTime b))"

section \<open>The file store\<close>

record slack_env =
  sk_lock_fails :: bool
  sk_read_fails :: bool
  sk_io :: io_env

definition slack_size :: "slack_usage blob \<Rightarrow> int" where
  "slack_size f =
     (case f of Doc u \<Rightarrow> int (length (encode_indent 0 (json_of_usage u))) + 1
              | Garbled s \<Rightarrow> int (length s))"

record slack_config =
  sc_scope :: slack_scope
  sc_budgets :: slack_budgets

definition loaded_usage ::
  "sha_fun \<Rightarrow> instant_parser \<Rightarrow> (int \<Rightarrow> string) \<Rightarrow> slack_config \<Rightarrow> slack_env \<Rightarrow> int
    \<Rightarrow> slack_usage blob option \<Rightarrow> (slack_error, slack_usage) result" where
  "loaded_usage sha pt ft cfg env started slot =
     (case slot of
        None \<Rightarrow> Inr (newSlackBudgetUsage sha ft (sc_scope cfg) (sc_budgets cfg) started)
      | Some f \<Rightarrow>
          if sk_read_fails env \<or> slack_size f > maximumSlackBudgetBytes then Inl SlackIoFailure
          else case f of
            Garbled _ \<Rightarrow> Inl SlackIoFailure
          | Doc u \<Rightarrow>
              (case validateSlackBudgetUsage sha pt (sc_scope cfg) (sc_budgets cfg) u of
                 Some e \<Rightarrow> Inl e | None \<Rightarrow> Inr u))"

definition transact ::
  "sha_fun \<Rightarrow> instant_parser \<Rightarrow> (int \<Rightarrow> string) \<Rightarrow> slack_config \<Rightarrow> slack_env
    \<Rightarrow> (slack_usage \<Rightarrow> (slack_error, slack_usage \<times> 'a) result) \<Rightarrow> int \<Rightarrow> slack_usage blob option
    \<Rightarrow> slack_usage blob option \<times> (slack_error, 'a) result" where
  "transact sha pt ft cfg env update started slot =
     (if sk_lock_fails env then (slot, Inl SlackIoFailure)
      else case rbind (loaded_usage sha pt ft cfg env started slot) (\<lambda>u.
             rbind (update u) (\<lambda>(v, x).
               let sealed = sealSlackBudgetUsage sha v in
               case validateSlackBudgetUsage sha pt (sc_scope cfg) (sc_budgets cfg) sealed of
                 Some e \<Rightarrow> Inl e | None \<Rightarrow> Inr (sealed, x))) of
        Inl e \<Rightarrow> (slot, Inl e)
      | Inr (sealed, x) \<Rightarrow>
          (case WriteFile (sk_io env) False (Doc sealed) slot of
             (slot', err) \<Rightarrow> (slot', case err of None \<Rightarrow> Inr x | Some _ \<Rightarrow> Inl SlackIoFailure)))"

definition NewFileSlackBudgetStore ::
  "sha_fun \<Rightarrow> instant_parser \<Rightarrow> (int \<Rightarrow> string) \<Rightarrow> slack_config \<Rightarrow> slack_env \<Rightarrow> bool \<Rightarrow> string \<Rightarrow> int
    \<Rightarrow> slack_usage blob option \<Rightarrow> slack_usage blob option \<times> (slack_error, unit) result" where
  "NewFileSlackBudgetStore sha pt ft cfg env prepare_fails root started slot =
     (if blank root \<or> blank (WorkspaceID (sc_scope cfg)) \<or> blank (ChannelID (sc_scope cfg)) \<or>
         blank (Oldest (sc_scope cfg)) \<or> blank (Latest (sc_scope cfg)) \<or> started = 0
      then (slot, Inl SlackInvalidScope)
      else if \<not> validateSlackHTTPBudgets (sc_budgets cfg) then (slot, Inl SlackInvalidBudgets)
      else if prepare_fails then (slot, Inl SlackIoFailure)
      else transact sha pt ft cfg env (\<lambda>u. Inr (u, ())) started slot)"

definition file_ReserveRequest ::
  "sha_fun \<Rightarrow> instant_parser \<Rightarrow> (int \<Rightarrow> string) \<Rightarrow> slack_config \<Rightarrow> slack_env \<Rightarrow> int \<Rightarrow> int \<Rightarrow> int
    \<Rightarrow> slack_usage blob option \<Rightarrow> slack_usage blob option \<times> (slack_error, string) result" where
  "file_ReserveRequest sha pt ft cfg env now max_items max_bytes =
     transact sha pt ft cfg env
       (reserveSlackRequest sha pt (sc_budgets cfg) now max_items max_bytes) now"

definition file_SettleRequest ::
  "sha_fun \<Rightarrow> instant_parser \<Rightarrow> (int \<Rightarrow> string) \<Rightarrow> slack_config \<Rightarrow> slack_env \<Rightarrow> string \<Rightarrow> int \<Rightarrow> int
    \<Rightarrow> int \<Rightarrow> slack_usage blob option \<Rightarrow> slack_usage blob option \<times> (slack_error, unit) result" where
  "file_SettleRequest sha pt ft cfg env rid items bytes clock =
     transact sha pt ft cfg env (with_unit (settleSlackRequest rid items bytes)) clock"

definition file_ReserveRetry ::
  "sha_fun \<Rightarrow> instant_parser \<Rightarrow> (int \<Rightarrow> string) \<Rightarrow> slack_config \<Rightarrow> slack_env \<Rightarrow> int
    \<Rightarrow> slack_usage blob option \<Rightarrow> slack_usage blob option \<times> (slack_error, unit) result" where
  "file_ReserveRetry sha pt ft cfg env now =
     transact sha pt ft cfg env (with_unit (reserveSlackRetry pt (sc_budgets cfg) now)) now"

definition file_Deadline ::
  "sha_fun \<Rightarrow> instant_parser \<Rightarrow> (int \<Rightarrow> string) \<Rightarrow> slack_config \<Rightarrow> slack_env \<Rightarrow> int
    \<Rightarrow> slack_usage blob option \<Rightarrow> slack_usage blob option \<times> (slack_error, int) result" where
  "file_Deadline sha pt ft cfg env clock =
     transact sha pt ft cfg env (usage_deadline pt (sc_budgets cfg)) clock"

definition file_Snapshot ::
  "sha_fun \<Rightarrow> instant_parser \<Rightarrow> (int \<Rightarrow> string) \<Rightarrow> slack_config \<Rightarrow> slack_env \<Rightarrow> int
    \<Rightarrow> slack_usage blob option \<Rightarrow> slack_usage blob option \<times> (slack_error, slack_usage) result" where
  "file_Snapshot sha pt ft cfg env clock = transact sha pt ft cfg env (\<lambda>u. Inr (u, u)) clock"

end
