(* ===== verification/Slack_Ledger.thy ===== *)
theory Slack_Ledger
  imports Slack_Budget
begin

text \<open>
  What the Slack budget promises: however reservations, settlements and retries interleave, and
  whatever the lock, the reads and the writes of the file store do, the requests granted and
  the items and bytes settled stay within the budget. The argument is the same for every
  counter and both stores: the locale \<open>ledger\<close> states it once.
\<close>

section \<open>Ledgers\<close>

text \<open>
  A level that every operation raises by at least what it hands out, and that never passes the
  cap, bounds what is handed out in total.
\<close>

locale ledger =
  fixes ok :: "'s \<Rightarrow> bool" and legal :: "'op \<Rightarrow> bool"
    and step :: "'op \<Rightarrow> 's \<Rightarrow> 's" and gain :: "'op \<Rightarrow> 's \<Rightarrow> int"
    and level :: "'s \<Rightarrow> int" and cap :: int
  assumes ok_step: "ok s \<Longrightarrow> legal op \<Longrightarrow> ok (step op s)"
    and level_step: "ok s \<Longrightarrow> legal op \<Longrightarrow> level s + gain op s \<le> level (step op s)"
    and level_cap: "ok s \<Longrightarrow> level s \<le> cap"
begin

fun total :: "'op list \<Rightarrow> 's \<Rightarrow> int" where
  "total [] s = 0"
| "total (op # ops) s = gain op s + total ops (step op s)"

lemma total_le: "ok s \<Longrightarrow> list_all legal ops \<Longrightarrow> total ops s \<le> cap - level s"
proof (induction ops arbitrary: s)
  case Nil
  then show ?case using level_cap by simp
next
  case (Cons op ops)
  from Cons.IH [of "step op s"] Cons.prems ok_step [of s op] level_step [of s op] show ?case
    by simp
qed

end

section \<open>The invariant of a usage\<close>

definition usage_inv :: "slack_budgets \<Rightarrow> slack_usage \<Rightarrow> bool" where
  "usage_inv b u \<longleftrightarrow>
     0 \<le> Requests u \<and> Requests u \<le> sb_MaximumRequests b \<and>
     0 \<le> Items u \<and> Items u \<le> sb_MaximumItems b \<and>
     0 \<le> Bytes u \<and> Bytes u \<le> sb_MaximumBytes b \<and>
     go_map (Pending u) \<and>
     (\<forall>(k, r)\<in>set (Pending u). 0 \<le> rs_MaximumItems r \<and> 0 \<le> rs_MaximumBytes r) \<and>
     map_total rs_MaximumItems (Pending u) \<le> Items u \<and>
     map_total rs_MaximumBytes (Pending u) \<le> Bytes u"

definition budgets_typed :: "slack_budgets \<Rightarrow> bool" where
  "budgets_typed b \<longleftrightarrow> in64 (sb_MaximumRequests b) \<and> in64 (sb_MaximumItems b) \<and>
     in64 (sb_MaximumBytes b) \<and> 0 \<le> sb_MaximumRequests b \<and> 0 \<le> sb_MaximumItems b \<and>
     0 \<le> sb_MaximumBytes b"

text \<open>What has been settled: the usage without what is only reserved.\<close>

definition settled :: "(slack_usage \<Rightarrow> int) \<Rightarrow> (slack_reservation \<Rightarrow> int) \<Rightarrow> slack_usage \<Rightarrow> int" where
  "settled used reserved u = used u - map_total reserved (Pending u)"

lemma seal_fields [simp]:
  "Requests (sealSlackBudgetUsage sha u) = Requests u"
  "Items (sealSlackBudgetUsage sha u) = Items u" "Bytes (sealSlackBudgetUsage sha u) = Bytes u"
  "Pending (sealSlackBudgetUsage sha u) = Pending u" "Retries (sealSlackBudgetUsage sha u) = Retries u"
  "su_Sequence (sealSlackBudgetUsage sha u) = su_Sequence u"
  "CostMicrounits (sealSlackBudgetUsage sha u) = CostMicrounits u"
  by (simp_all add: sealSlackBudgetUsage_def Let_def)

lemma seal_usage_inv [simp]: "usage_inv b (sealSlackBudgetUsage sha u) = usage_inv b u"
  by (simp add: usage_inv_def)

lemma seal_settled [simp]:
  "settled Items rs_MaximumItems (sealSlackBudgetUsage sha u) = settled Items rs_MaximumItems u"
  "settled Bytes rs_MaximumBytes (sealSlackBudgetUsage sha u) = settled Bytes rs_MaximumBytes u"
  by (simp_all add: settled_def)

lemma usage_inv_map_nonneg:
  assumes "usage_inv b u"
  shows "\<And>k r. (k, r) \<in> set (Pending u) \<Longrightarrow> 0 \<le> rs_MaximumItems r"
    and "\<And>k r. (k, r) \<in> set (Pending u) \<Longrightarrow> 0 \<le> rs_MaximumBytes r"
  using assms by (auto simp: usage_inv_def)

text \<open>One pure transition, as far as the budget is concerned.\<close>

definition fair_step :: "slack_budgets \<Rightarrow> slack_usage \<Rightarrow> slack_usage \<Rightarrow> int \<Rightarrow> int \<Rightarrow> int \<Rightarrow> bool" where
  "fair_step b u v requests items bytes \<longleftrightarrow>
     usage_inv b v \<and> Requests u + requests \<le> Requests v \<and>
     settled Items rs_MaximumItems u + items \<le> settled Items rs_MaximumItems v \<and>
     settled Bytes rs_MaximumBytes u + bytes \<le> settled Bytes rs_MaximumBytes v"

lemma fair_refl: "usage_inv b u \<Longrightarrow> fair_step b u u 0 0 0"
  by (simp add: fair_step_def)

text \<open>The counters of a transition that passed the validation of the store did not wrap.\<close>

definition counters_valid :: "slack_budgets \<Rightarrow> slack_usage \<Rightarrow> bool" where
  "counters_valid b u \<longleftrightarrow> 0 \<le> Requests u \<and> 0 \<le> Items u \<and> 0 \<le> Bytes u \<and>
     Requests u \<le> sb_MaximumRequests b \<and> Items u \<le> sb_MaximumItems b \<and> Bytes u \<le> sb_MaximumBytes b"

lemma validated_counters:
  "validateSlackBudgetUsage sha pt scope b u = None \<Longrightarrow> counters_valid b u"
  by (auto simp: validateSlackBudgetUsage_def usage_authority_ok_def counters_valid_def
      split: if_splits)

lemma i64_add_up:
  assumes "0 \<le> a" "a \<le> c" "in64 c" "0 \<le> b" "in64 b" "0 \<le> i64_add a b"
  shows "i64_add a b = a + b"
  using i64_add_nonneg_cases [of a b] assms by (auto simp: in64_def)

lemma reserve_fair:
  assumes inv: "usage_inv b u" and b: "budgets_typed b"
    and args: "in64 max_items" "in64 max_bytes"
    and res: "reserveSlackRequest sha pt b now max_items max_bytes u = Inr (v, rid)"
    and val: "counters_valid b v"
  shows "fair_step b u v 1 0 0"
proof -
  let ?r = "\<lparr>rs_MaximumItems = max_items, rs_MaximumBytes = max_bytes\<rparr>"
  have nn: "0 \<le> max_items" "0 < max_bytes"
    and v: "Requests v = i64_add (Requests u) 1" "Items v = i64_add (Items u) max_items"
      "Bytes v = i64_add (Bytes u) max_bytes" "Pending v = map_set rid ?r (Pending u)"
    using res by (auto simp: reserveSlackRequest_def Let_def split: if_splits)
  have ex: "Requests v = Requests u + 1" "Items v = Items u + max_items"
    "Bytes v = Bytes u + max_bytes"
    using inv b args nn v val
      i64_add_up [of "Requests u" "sb_MaximumRequests b" 1]
      i64_add_up [of "Items u" "sb_MaximumItems b" max_items]
      i64_add_up [of "Bytes u" "sb_MaximumBytes b" max_bytes]
    by (auto simp: usage_inv_def budgets_typed_def counters_valid_def)
  have del: "map_total rs_MaximumItems (map_delete rid (Pending u)) \<le> map_total rs_MaximumItems (Pending u)"
    "map_total rs_MaximumBytes (map_delete rid (Pending u)) \<le> map_total rs_MaximumBytes (Pending u)"
    using inv usage_inv_map_nonneg [OF inv] by (auto simp: usage_inv_def intro!: map_total_delete_le)
  have "\<forall>(k, r)\<in>set (Pending v). 0 \<le> rs_MaximumItems r \<and> 0 \<le> rs_MaximumBytes r"
    using set_map_set [of rid ?r "Pending u"] inv nn v(4) by (fastforce simp: usage_inv_def)
  with inv val ex del v(4) show ?thesis
    by (auto simp: fair_step_def usage_inv_def counters_valid_def settled_def map_total_set)
qed

lemma settle_fair:
  assumes inv: "usage_inv b u" and b: "budgets_typed b"
    and res: "settleSlackRequest rid items bytes u = Inr v"
  shows "fair_step b u v 0 items bytes"
proof -
  from res obtain r where r: "map_of (Pending u) rid = Some r" "0 \<le> items" "0 \<le> bytes"
    "items \<le> rs_MaximumItems r" "bytes \<le> rs_MaximumBytes r"
    and v: "v = u\<lparr>Items := i64_sub (Items u) (i64_sub (rs_MaximumItems r) items),
        Bytes := i64_sub (Bytes u) (i64_sub (rs_MaximumBytes r) bytes),
        Pending := map_delete rid (Pending u)\<rparr>"
    by (auto simp: settleSlackRequest_def split: option.splits if_splits)
  have gm: "go_map (Pending u)" using inv by (simp add: usage_inv_def)
  note del = map_total_delete [OF gm r(1), of rs_MaximumItems]
    map_total_delete [OF gm r(1), of rs_MaximumBytes]
  have sub: "\<And>k s. (k, s) \<in> set (map_delete rid (Pending u)) \<Longrightarrow>
      0 \<le> rs_MaximumItems s \<and> 0 \<le> rs_MaximumBytes s"
    using set_map_delete [of rid "Pending u"] usage_inv_map_nonneg [OF inv] by blast
  have nn: "0 \<le> map_total rs_MaximumItems (map_delete rid (Pending u))"
    "0 \<le> map_total rs_MaximumBytes (map_delete rid (Pending u))"
    using sub by (auto intro!: map_total_nonneg)
  have le: "rs_MaximumItems r \<le> Items u" "rs_MaximumBytes r \<le> Bytes u"
    using nn del inv by (auto simp: usage_inv_def)
  have in64s: "in64 (Items u)" "in64 (Bytes u)" "in64 (rs_MaximumItems r)" "in64 (rs_MaximumBytes r)"
    using inv b le r by (auto simp: usage_inv_def budgets_typed_def in64_def)
  have "Items v = Items u - (rs_MaximumItems r - items)" "Bytes v = Bytes u - (rs_MaximumBytes r - bytes)"
    using v r le in64s by (simp_all add: i64_sub_nonneg)
  moreover have "Pending v = map_delete rid (Pending u)" "Requests v = Requests u"
    using v by simp_all
  ultimately show ?thesis
    using inv del r le sub nn
    by (auto simp: fair_step_def usage_inv_def settled_def)
qed

lemma retry_fair:
  "usage_inv b u \<Longrightarrow> reserveSlackRetry pt b now u = Inr v \<Longrightarrow> fair_step b u v 0 0 0"
  by (auto simp: reserveSlackRetry_def fair_step_def usage_inv_def settled_def split: if_splits)

section \<open>The file store\<close>

datatype slack_op =
    ReserveOp slack_env int int int
  | SettleOp slack_env string int int int
  | RetryOp slack_env int
  | DeadlineOp slack_env int
  | SnapshotOp slack_env int

type_synonym usage_slot = "slack_usage blob option"

fun file_step ::
  "sha_fun \<Rightarrow> instant_parser \<Rightarrow> (int \<Rightarrow> string) \<Rightarrow> slack_config \<Rightarrow> slack_op \<Rightarrow> usage_slot \<Rightarrow> usage_slot"
  where
  "file_step sha pt ft cfg (ReserveOp env now i n) s = fst (file_ReserveRequest sha pt ft cfg env now i n s)"
| "file_step sha pt ft cfg (SettleOp env rid i n clock) s =
     fst (file_SettleRequest sha pt ft cfg env rid i n clock s)"
| "file_step sha pt ft cfg (RetryOp env now) s = fst (file_ReserveRetry sha pt ft cfg env now s)"
| "file_step sha pt ft cfg (DeadlineOp env clock) s = fst (file_Deadline sha pt ft cfg env clock s)"
| "file_step sha pt ft cfg (SnapshotOp env clock) s = fst (file_Snapshot sha pt ft cfg env clock s)"

text \<open>What a call hands out when it reports success: a request, settled items, settled bytes.\<close>

fun file_gain ::
  "sha_fun \<Rightarrow> instant_parser \<Rightarrow> (int \<Rightarrow> string) \<Rightarrow> slack_config \<Rightarrow> slack_op \<Rightarrow> usage_slot
    \<Rightarrow> int \<times> int \<times> int" where
  "file_gain sha pt ft cfg (ReserveOp env now i n) s =
     (if is_ok (snd (file_ReserveRequest sha pt ft cfg env now i n s)) then (1, 0, 0) else (0, 0, 0))"
| "file_gain sha pt ft cfg (SettleOp env rid i n clock) s =
     (if is_ok (snd (file_SettleRequest sha pt ft cfg env rid i n clock s)) then (0, i, n) else (0, 0, 0))"
| "file_gain sha pt ft cfg _ s = (0, 0, 0)"

fun op_typed :: "slack_op \<Rightarrow> bool" where
  "op_typed (ReserveOp env now i n) \<longleftrightarrow> in64 i \<and> in64 n"
| "op_typed _ \<longleftrightarrow> True"

definition slot_usage :: "usage_slot \<Rightarrow> slack_usage option" where
  "slot_usage s = (case s of Some (Doc u) \<Rightarrow> Some u | _ \<Rightarrow> None)"

definition slot_ok :: "slack_budgets \<Rightarrow> usage_slot \<Rightarrow> bool" where
  "slot_ok b s \<longleftrightarrow> budgets_typed b \<and> (\<forall>u\<in>set_option (slot_usage s). usage_inv b u)"

definition slot_level :: "(slack_usage \<Rightarrow> int) \<Rightarrow> usage_slot \<Rightarrow> int" where
  "slot_level f s = (case slot_usage s of None \<Rightarrow> 0 | Some u \<Rightarrow> f u)"

text \<open>The three levels together: a slot may only move along fair steps.\<close>

definition slot_fair :: "slack_budgets \<Rightarrow> usage_slot \<Rightarrow> usage_slot \<Rightarrow> int \<times> int \<times> int \<Rightarrow> bool" where
  "slot_fair b s s' g \<longleftrightarrow> slot_ok b s' \<and>
     slot_level Requests s + fst g \<le> slot_level Requests s' \<and>
     slot_level (settled Items rs_MaximumItems) s + fst (snd g) \<le>
       slot_level (settled Items rs_MaximumItems) s' \<and>
     slot_level (settled Bytes rs_MaximumBytes) s + snd (snd g) \<le>
       slot_level (settled Bytes rs_MaximumBytes) s'"

lemma slot_fair_refl: "slot_ok b s \<Longrightarrow> slot_fair b s s (0, 0, 0)"
  by (simp add: slot_fair_def)

lemma new_usage_inv:
  "budgets_typed b \<Longrightarrow> usage_inv b (newSlackBudgetUsage sha ft scope b started)"
  by (simp add: newSlackBudgetUsage_def usage_inv_def budgets_typed_def)

lemma loaded_usage_level:
  assumes "loaded_usage sha pt ft cfg env started s = Inr u" "slot_ok (sc_budgets cfg) s"
  shows "usage_inv (sc_budgets cfg) u" "slot_level Requests s = Requests u"
    "slot_level (settled Items rs_MaximumItems) s = settled Items rs_MaximumItems u"
    "slot_level (settled Bytes rs_MaximumBytes) s = settled Bytes rs_MaximumBytes u"
  using assms new_usage_inv
  by (auto simp: loaded_usage_def slot_ok_def slot_level_def slot_usage_def newSlackBudgetUsage_def
      settled_def split: option.splits if_splits blob.splits)

lemma transact_fair:
  assumes tr: "transact sha pt ft cfg env update started s = (s', r)"
    and ok: "slot_ok (sc_budgets cfg) s"
    and fair: "\<And>u v x. usage_inv (sc_budgets cfg) u \<Longrightarrow> update u = Inr (v, x) \<Longrightarrow>
      counters_valid (sc_budgets cfg) v \<Longrightarrow> fair_step (sc_budgets cfg) u v q i n"
    and nn: "0 \<le> q" "0 \<le> i" "0 \<le> n"
  shows "slot_fair (sc_budgets cfg) s s' (if is_ok r then (q, i, n) else (0, 0, 0))"
proof (cases "(s', r) = (s, r) \<and> \<not> is_ok r")
  case True
  with ok show ?thesis by (simp add: slot_fair_refl)
next
  case False
  with tr obtain u v x err where l: "loaded_usage sha pt ft cfg env started s = Inr u"
    and up: "update u = Inr (v, x)"
    and val: "validateSlackBudgetUsage sha pt (sc_scope cfg) (sc_budgets cfg)
      (sealSlackBudgetUsage sha v) = None"
    and w: "WriteFile (sk_io env) False (Doc (sealSlackBudgetUsage sha v)) s = (s', err)"
    and r: "r = (case err of None \<Rightarrow> Inr x | Some _ \<Rightarrow> Inl SlackIoFailure)"
    by (auto simp: transact_def rbind_Inr_iff Let_def split: if_splits sum.splits option.splits prod.splits)
  note lv = loaded_usage_level [OF l ok]
  have "counters_valid (sc_budgets cfg) v"
    using validated_counters [OF val] by (simp add: counters_valid_def)
  note f = fair [OF lv(1) up this]
  have slot: "s' = s \<or> s' = Some (Doc (sealSlackBudgetUsage sha v))"
    using WriteFile_slot [of "sk_io env" False "Doc (sealSlackBudgetUsage sha v)" s] w by simp
  have new: "slot_fair (sc_budgets cfg) s (Some (Doc (sealSlackBudgetUsage sha v))) (q, i, n)"
    using f lv ok
    by (simp add: slot_fair_def slot_ok_def slot_level_def slot_usage_def fair_step_def)
  show ?thesis
  proof (cases "is_ok r")
    case True
    with r have "err = None" by (auto split: option.splits)
    with w have "s' = Some (Doc (sealSlackBudgetUsage sha v))" using WriteFile_ok by metis
    with new True show ?thesis by simp
  next
    case no: False
    from new nn have "slot_fair (sc_budgets cfg) s (Some (Doc (sealSlackBudgetUsage sha v))) (0, 0, 0)"
      by (simp add: slot_fair_def)
    with slot slot_fair_refl [OF ok] no show ?thesis by auto
  qed
qed


section \<open>Every operation is fair\<close>

lemma with_unit_Inr: "with_unit f u = Inr (v, x) \<longleftrightarrow> f u = Inr v"
  by (auto simp: with_unit_def rbind_Inr_iff)

lemma usage_deadline_Inr: "usage_deadline pt b u = Inr (v, t) \<Longrightarrow> v = u"
  by (auto simp: usage_deadline_def split: option.splits)

lemmas file_call_defs = file_ReserveRequest_def file_SettleRequest_def file_ReserveRetry_def
  file_Deadline_def file_Snapshot_def

lemma slot_fair_weaken:
  "slot_fair b s s' (if c then (q, i, n) else (0, 0, 0)) \<Longrightarrow> 0 \<le> q \<Longrightarrow> 0 \<le> i \<Longrightarrow> 0 \<le> n \<Longrightarrow>
    slot_fair b s s' (0, 0, 0)"
  by (auto simp: slot_fair_def split: if_splits)

lemma transact_ok_update:
  assumes "is_ok (snd (transact sha pt ft cfg env update started s))"
  shows "\<exists>u v x. update u = Inr (v, x)"
  using assms
  by (cases "loaded_usage sha pt ft cfg env started s") (auto simp: transact_def rbind_def Let_def
      split: if_splits sum.splits)

lemma settle_success_nonneg:
  assumes "is_ok (snd (file_SettleRequest sha pt ft cfg env rid i n clock s))"
  shows "0 \<le> i" "0 \<le> n"
  using transact_ok_update [OF assms [unfolded file_SettleRequest_def]]
  by (auto simp: with_unit_Inr settleSlackRequest_def split: if_splits option.splits)

lemma file_step_fair:
  assumes ok: "slot_ok (sc_budgets cfg) s" and legal: "op_typed op"
  shows "slot_fair (sc_budgets cfg) s (file_step sha pt ft cfg op s) (file_gain sha pt ft cfg op s)"
proof -
  let ?b = "sc_budgets cfg"
  have b: "budgets_typed ?b" using ok by (simp add: slot_ok_def)
  show ?thesis
  proof (cases op)
    case (ReserveOp env now i n)
    obtain s' r where c: "file_ReserveRequest sha pt ft cfg env now i n s = (s', r)" by fastforce
    have "slot_fair ?b s s' (if is_ok r then (1, 0, 0) else (0, 0, 0))"
    proof (rule transact_fair [OF _ ok])
      show "transact sha pt ft cfg env (reserveSlackRequest sha pt ?b now i n) now s = (s', r)"
        using c by (simp add: file_call_defs)
      show "fair_step ?b u v 1 0 0" if "usage_inv ?b u" "reserveSlackRequest sha pt ?b now i n u = Inr (v, x)"
        "counters_valid ?b v" for u v x
        using reserve_fair [OF that(1) b _ _ that(2,3)] legal ReserveOp by simp
    qed simp_all
    with c ReserveOp show ?thesis by simp
  next
    case (SettleOp env rid i n clock)
    obtain s' r where c: "file_SettleRequest sha pt ft cfg env rid i n clock s = (s', r)" by fastforce
    have tr: "transact sha pt ft cfg env (with_unit (settleSlackRequest rid i n)) clock s = (s', r)"
      using c by (simp add: file_call_defs)
    show ?thesis
    proof (cases "0 \<le> i \<and> 0 \<le> n")
      case True
      have "slot_fair ?b s s' (if is_ok r then (0, i, n) else (0, 0, 0))"
        using transact_fair [OF tr ok, of 0 i n] settle_fair [OF _ b] True by (simp add: with_unit_Inr)
      with c SettleOp show ?thesis by simp
    next
      case False
      then have "\<not> is_ok r" using settle_success_nonneg [of sha pt ft cfg env rid i n clock s] c by auto
      moreover have "slot_fair ?b s s' (if is_ok r then (0, 0, 0) else (0, 0, 0))"
        by (rule transact_fair [OF tr ok])
          (use False in \<open>auto simp: with_unit_Inr settleSlackRequest_def split: option.splits if_splits\<close>)
      ultimately show ?thesis using c SettleOp by simp
    qed
  next
    case (RetryOp env now)
    have "slot_fair ?b s (fst (file_ReserveRetry sha pt ft cfg env now s))
        (if is_ok (snd (file_ReserveRetry sha pt ft cfg env now s)) then (0, 0, 0) else (0, 0, 0))"
      by (rule transact_fair [OF _ ok])
        (auto simp: file_call_defs with_unit_Inr intro: retry_fair)
    with RetryOp show ?thesis by simp
  next
    case (DeadlineOp env clock)
    have "slot_fair ?b s (fst (file_Deadline sha pt ft cfg env clock s))
        (if is_ok (snd (file_Deadline sha pt ft cfg env clock s)) then (0, 0, 0) else (0, 0, 0))"
      by (rule transact_fair [OF _ ok])
        (auto simp: file_call_defs dest!: usage_deadline_Inr intro: fair_refl)
    with DeadlineOp show ?thesis by simp
  next
    case (SnapshotOp env clock)
    have "slot_fair ?b s (fst (file_Snapshot sha pt ft cfg env clock s))
        (if is_ok (snd (file_Snapshot sha pt ft cfg env clock s)) then (0, 0, 0) else (0, 0, 0))"
      by (rule transact_fair [OF _ ok]) (auto simp: file_call_defs intro: fair_refl)
    with SnapshotOp show ?thesis by simp
  qed
qed

section \<open>The file store is a ledger\<close>

lemma slot_caps:
  assumes "slot_ok b s"
  shows "slot_level Requests s \<le> sb_MaximumRequests b"
    and "slot_level (settled Items rs_MaximumItems) s \<le> sb_MaximumItems b"
    and "slot_level (settled Bytes rs_MaximumBytes) s \<le> sb_MaximumBytes b"
proof -
  have nn: "0 \<le> map_total rs_MaximumItems (Pending u) \<and> 0 \<le> map_total rs_MaximumBytes (Pending u)"
    if "usage_inv b u" for u
    using usage_inv_map_nonneg [OF that] by (auto intro!: map_total_nonneg)
  show "slot_level Requests s \<le> sb_MaximumRequests b"
    "slot_level (settled Items rs_MaximumItems) s \<le> sb_MaximumItems b"
    "slot_level (settled Bytes rs_MaximumBytes) s \<le> sb_MaximumBytes b"
    using assms nn
    by (force simp: slot_ok_def slot_level_def settled_def usage_inv_def budgets_typed_def
        split: option.splits)+
qed

definition cfg_slot_ok :: "slack_config \<Rightarrow> usage_slot \<Rightarrow> bool" where
  "cfg_slot_ok cfg = slot_ok (sc_budgets cfg)"

lemma file_step_levels:
  assumes "cfg_slot_ok cfg s" "op_typed op"
  shows "cfg_slot_ok cfg (file_step sha pt ft cfg op s)"
    and "slot_level Requests s + fst (file_gain sha pt ft cfg op s)
      \<le> slot_level Requests (file_step sha pt ft cfg op s)"
    and "slot_level (settled Items rs_MaximumItems) s + fst (snd (file_gain sha pt ft cfg op s))
      \<le> slot_level (settled Items rs_MaximumItems) (file_step sha pt ft cfg op s)"
    and "slot_level (settled Bytes rs_MaximumBytes) s + snd (snd (file_gain sha pt ft cfg op s))
      \<le> slot_level (settled Bytes rs_MaximumBytes) (file_step sha pt ft cfg op s)"
  using file_step_fair [of cfg s op sha pt ft] assms by (simp_all add: cfg_slot_ok_def slot_fair_def)

interpretation requests: ledger "cfg_slot_ok cfg" op_typed "file_step sha pt ft cfg"
  "\<lambda>op s. fst (file_gain sha pt ft cfg op s)" "slot_level Requests" "sb_MaximumRequests (sc_budgets cfg)"
  for sha pt ft cfg
  by unfold_locales (simp_all add: file_step_levels, simp add: cfg_slot_ok_def slot_caps)

interpretation items: ledger "cfg_slot_ok cfg" op_typed "file_step sha pt ft cfg"
  "\<lambda>op s. fst (snd (file_gain sha pt ft cfg op s))" "slot_level (settled Items rs_MaximumItems)"
  "sb_MaximumItems (sc_budgets cfg)"
  for sha pt ft cfg
  by unfold_locales (simp_all add: file_step_levels, simp add: cfg_slot_ok_def slot_caps)

interpretation bytes: ledger "cfg_slot_ok cfg" op_typed "file_step sha pt ft cfg"
  "\<lambda>op s. snd (snd (file_gain sha pt ft cfg op s))" "slot_level (settled Bytes rs_MaximumBytes)"
  "sb_MaximumBytes (sc_budgets cfg)"
  for sha pt ft cfg
  by unfold_locales (simp_all add: file_step_levels, simp add: cfg_slot_ok_def slot_caps)

fun file_gains ::
  "sha_fun \<Rightarrow> instant_parser \<Rightarrow> (int \<Rightarrow> string) \<Rightarrow> slack_config \<Rightarrow> slack_op list \<Rightarrow> usage_slot
    \<Rightarrow> (int \<times> int \<times> int) list" where
  "file_gains sha pt ft cfg [] s = []"
| "file_gains sha pt ft cfg (op # ops) s =
     file_gain sha pt ft cfg op s # file_gains sha pt ft cfg ops (file_step sha pt ft cfg op s)"

lemma sum_gains:
  "sum_list (map fst (file_gains sha pt ft cfg ops s)) = requests.total sha pt ft cfg ops s"
  "sum_list (map (fst \<circ> snd) (file_gains sha pt ft cfg ops s)) = items.total sha pt ft cfg ops s"
  "sum_list (map (snd \<circ> snd) (file_gains sha pt ft cfg ops s)) = bytes.total sha pt ft cfg ops s"
  by (induction ops arbitrary: s) simp_all


section \<open>The budget is never exceeded\<close>

text \<open>C22: Whatever the callers reserve, settle and retry on the file store, in
  whatever order and at whatever times, and whichever lock, read or write of the operating
  system fails: the requests that were granted, and the items and bytes that were settled
  successfully, stay within the request, item and byte budgets in total.\<close>

theorem slack_budget_bounded:
  assumes "budgets_typed (sc_budgets cfg)" "list_all op_typed ops"
  shows "list_all2 (\<le>)
      (map (\<lambda>count. sum_list (map count (file_gains sha pt ft cfg ops None)))
        [fst, fst \<circ> snd, snd \<circ> snd])
      [sb_MaximumRequests (sc_budgets cfg), sb_MaximumItems (sc_budgets cfg),
       sb_MaximumBytes (sc_budgets cfg)]"
proof -
  have empty: "cfg_slot_ok cfg None"
    using assms(1) by (simp add: cfg_slot_ok_def slot_ok_def slot_usage_def)
  show ?thesis
    using requests.total_le [OF empty assms(2), of sha pt ft] items.total_le [OF empty assms(2), of sha pt ft]
      bytes.total_le [OF empty assms(2), of sha pt ft]
    by (simp add: sum_gains slot_level_def slot_usage_def)
qed

definition slack_demo_sha :: sha_fun where
  "slack_demo_sha s = replicate 64 (CHR ''a'')"

definition slack_demo_cfg :: slack_config where
  "slack_demo_cfg = \<lparr>sc_scope = ephemeral_scope, sc_budgets =
     \<lparr>sb_MaximumRequests = 2, sb_MaximumItems = 10, sb_MaximumBytes = 100, sb_MaximumRetries = 1,
      sb_MaximumRetryAfter = 1, sb_MaximumWallTime = 50, sb_MaximumCostMicrounits = 5\<rparr>\<rparr>"

definition slack_demo_env :: slack_env where
  "slack_demo_env = \<lparr>sk_lock_fails = False, sk_read_fails = False, sk_io = quiet_env\<rparr>"

definition slack_demo_usage :: slack_usage where
  "slack_demo_usage = \<lparr>su_SchemaVersion = slackBudgetSchema, su_Fingerprint = slack_demo_sha '''',
     su_Scope = sc_scope slack_demo_cfg, BudgetFingerprint = slack_demo_sha '''', StartedAt = ''t'',
     su_Sequence = 1, Requests = 1, Items = 6, Bytes = 60, Retries = 0, CostMicrounits = 1,
     Pending = [(slack_demo_sha '''', \<lparr>rs_MaximumItems = 6, rs_MaximumBytes = 60\<rparr>)]\<rparr>"

lemma slack_demo_sha: "slack_demo_sha s = slack_demo_sha ''''" "length (slack_demo_sha s) = 64"
  "slack_demo_sha s \<noteq> ''''"
  by (simp_all add: slack_demo_sha_def)

lemma slack_demo_fingerprint: "generic_fingerprint slack_demo_sha j = slack_demo_sha ''''"
  unfolding generic_fingerprint_def by (rule slack_demo_sha)

lemma slack_demo_size: "slack_size (Doc slack_demo_usage) \<le> maximumSlackBudgetBytes"
  by code_simp

lemmas slack_demo_simps = slack_demo_fingerprint slack_demo_sha(2,3) slack_demo_size slack_demo_env_def
  file_call_defs transact_def loaded_usage_def rbind_def with_unit_def Let_def
  validateSlackBudgetUsage_def usage_authority_ok_def sealSlackBudgetUsage_def usage_fingerprint_def
  pending_sum_def outside_window_def map_set_def map_delete_def i64_add_def i64_sub_def wrap64_def

lemma slack_demo_reserved:
  "file_ReserveRequest slack_demo_sha (\<lambda>_. Some 20) (\<lambda>_. ''t'') slack_demo_cfg slack_demo_env 20 6 60 None
   = (Some (Doc slack_demo_usage), Inr (slack_demo_sha ''''))"
  by (simp add: slack_demo_simps newSlackBudgetUsage_def reserveSlackRequest_def reservation_id_def
      slack_demo_cfg_def slack_demo_usage_def)

lemma slack_demo_loaded:
  "loaded_usage slack_demo_sha (\<lambda>_. Some 20) (\<lambda>_. ''t'') slack_demo_cfg slack_demo_env t
     (Some (Doc slack_demo_usage)) = Inr slack_demo_usage"
proof -
  have "validateSlackBudgetUsage slack_demo_sha (\<lambda>_. Some 20) (sc_scope slack_demo_cfg)
      (sc_budgets slack_demo_cfg) slack_demo_usage = None"
    by (simp add: slack_demo_simps slack_demo_usage_def slack_demo_cfg_def)
  then show ?thesis
    using slack_demo_size by (simp add: loaded_usage_def slack_demo_env_def)
qed

lemma slack_demo_settled:
  "is_ok (snd (file_SettleRequest slack_demo_sha (\<lambda>_. Some 20) (\<lambda>_. ''t'') slack_demo_cfg slack_demo_env
     (slack_demo_sha '''') 2 30 22 (Some (Doc slack_demo_usage))))"
  unfolding file_SettleRequest_def transact_def slack_demo_loaded
  by (simp add: slack_demo_simps slack_demo_usage_def slack_demo_cfg_def settleSlackRequest_def)

definition slack_demo_ops :: "slack_op list" where
  "slack_demo_ops =
     [ReserveOp slack_demo_env 20 6 60, SettleOp slack_demo_env (slack_demo_sha '''') 2 30 22]"

definition slack_demo_gains :: "(int \<times> int \<times> int) list" where
  "slack_demo_gains = file_gains slack_demo_sha (\<lambda>_. Some 20) (\<lambda>_. ''t'') slack_demo_cfg slack_demo_ops None"

theorem slack_budget_bounded_witness:
  "slack_demo_gains = [(1, 0, 0), (0, 2, 30)] \<and>
   list_all2 (\<le>) (map (\<lambda>count. sum_list (map count slack_demo_gains)) [fst, fst \<circ> snd, snd \<circ> snd])
     [2, 10, 100]"
proof
  show "slack_demo_gains = [(1, 0, 0), (0, 2, 30)]"
    using slack_demo_settled by (simp add: slack_demo_gains_def slack_demo_ops_def slack_demo_reserved)
  have "budgets_typed (sc_budgets slack_demo_cfg)" "list_all op_typed slack_demo_ops"
    by (simp_all add: slack_demo_cfg_def slack_demo_ops_def budgets_typed_def in64_def)
  from slack_budget_bounded [OF this, of slack_demo_sha "\<lambda>_. Some 20" "\<lambda>_. ''t''"]
  show "list_all2 (\<le>)
      (map (\<lambda>count. sum_list (map count slack_demo_gains)) [fst, fst \<circ> snd, snd \<circ> snd]) [2, 10, 100]"
    by (simp add: slack_demo_gains_def slack_demo_cfg_def)
qed

end
