(* ===== verification/Orch_Inventory.thy ===== *)
theory Orch_Inventory
  imports Orch_Aggregate
begin

text \<open>
  Inventory snapshots of \<open>internal/orchestration/types.go\<close>: source records, URL occurrences and
  canonical items, their canonical order, the cross-checks of \<open>validateInventoryFields\<close>, the
  strata, and \<open>SealInventorySnapshot\<close> and \<open>ValidateInventorySnapshot\<close>.

  Nil and empty slices are distinguished. \<open>sort.Slice\<close> is a stable sort here; on the slices that pass the validation the
  keys are distinct, so any sort gives the same result (the names of the completeness checks are
  the exception: the code does not require them to be distinct).
\<close>

section \<open>Snapshots\<close>

definition InventorySchemaVersion :: string where
  "InventorySchemaVersion = ''mindline-activation-inventory/v0.2''"

record source_record =
  sr_SourceRecordID :: string
  NativeMessageID :: string
  NativeTimestamp :: string
  sr_ContentFingerprint :: string
  URLOccurrenceIDs :: "string slice"
  EditDeleteState :: string
  ThreadParentID :: string

record url_occurrence =
  URLOccurrenceID :: string
  uo_SourceRecordID :: string
  SourceOrdinal :: int
  ObservedURL :: string
  uo_CanonicalItemID :: string
  SanitizationState :: string

record inventory_item =
  CanonicalItemID :: string
  CanonicalURL :: string
  RetrievalStrategyID :: string
  FormatVariant :: string
  OccurrenceIDs :: "string slice"
  AccessState :: string
  CompletenessStatus :: string

record stratum_count =
  sc_RetrievalStrategyID :: string
  sc_FormatVariant :: string
  CanonicalCount :: int

record evidence_check =
  ec_Name :: string
  ec_Status :: string
  ec_EvidenceFingerprint :: string

record inventory_snapshot =
  is_SchemaVersion :: string
  is_Fingerprint :: string
  SourceIdentity :: string
  Watermark :: string
  OccurrenceCount :: int
  is_CanonicalCount :: int
  SourceRecords :: "source_record slice"
  URLOccurrences :: "url_occurrence slice"
  CanonicalItems :: "inventory_item slice"
  Strata :: "stratum_count slice"
  Completeness :: "evidence_check slice"

definition json_of_record :: "source_record \<Rightarrow> json" where
  "json_of_record r = JObj
     ([(''source_record_id'', JStr (sr_SourceRecordID r)),
       (''native_message_id'', JStr (NativeMessageID r)),
       (''native_timestamp'', JStr (NativeTimestamp r)),
       (''content_fingerprint'', JStr (sr_ContentFingerprint r)),
       (''url_occurrence_ids'', json_of_slice JStr (URLOccurrenceIDs r))] @
      opt_field (EditDeleteState r \<noteq> '''') ''edit_delete_state'' (JStr (EditDeleteState r)) @
      opt_field (ThreadParentID r \<noteq> '''') ''thread_parent_id'' (JStr (ThreadParentID r)))"

definition json_of_occurrence :: "url_occurrence \<Rightarrow> json" where
  "json_of_occurrence x = JObj
     ([(''url_occurrence_id'', JStr (URLOccurrenceID x)),
       (''source_record_id'', JStr (uo_SourceRecordID x)),
       (''source_ordinal'', JInt (SourceOrdinal x))] @
      opt_field (ObservedURL x \<noteq> '''') ''observed_url'' (JStr (ObservedURL x)) @
      [(''canonical_item_id'', JStr (uo_CanonicalItemID x))] @
      opt_field (SanitizationState x \<noteq> '''') ''sanitization_state'' (JStr (SanitizationState x)))"

definition json_of_inventory_item :: "inventory_item \<Rightarrow> json" where
  "json_of_inventory_item i = JObj
     ([(''canonical_item_id'', JStr (CanonicalItemID i)), (''canonical_url'', JStr (CanonicalURL i)),
       (''retrieval_strategy_id'', JStr (RetrievalStrategyID i)),
       (''format_variant'', JStr (FormatVariant i)),
       (''occurrence_ids'', json_of_slice JStr (OccurrenceIDs i))] @
      opt_field (AccessState i \<noteq> '''') ''access_state'' (JStr (AccessState i)) @
      opt_field (CompletenessStatus i \<noteq> '''') ''completeness_status'' (JStr (CompletenessStatus i)))"

definition json_of_stratum_count :: "stratum_count \<Rightarrow> json" where
  "json_of_stratum_count c = JObj
     [(''retrieval_strategy_id'', JStr (sc_RetrievalStrategyID c)),
      (''format_variant'', JStr (sc_FormatVariant c)), (''canonical_count'', JInt (CanonicalCount c))]"

definition json_of_evidence_check :: "evidence_check \<Rightarrow> json" where
  "json_of_evidence_check c = JObj
     ([(''name'', JStr (ec_Name c)), (''status'', JStr (ec_Status c))] @
      opt_field (ec_EvidenceFingerprint c \<noteq> '''') ''evidence_fingerprint''
        (JStr (ec_EvidenceFingerprint c)))"

definition json_of_inventory :: "inventory_snapshot \<Rightarrow> json" where
  "json_of_inventory s = JObj
     [(''schema_version'', JStr (is_SchemaVersion s)), (''fingerprint'', JStr (is_Fingerprint s)),
      (''source_identity'', JStr (SourceIdentity s)), (''watermark'', JStr (Watermark s)),
      (''occurrence_count'', JInt (OccurrenceCount s)),
      (''canonical_count'', JInt (is_CanonicalCount s)),
      (''source_records'', json_of_slice json_of_record (SourceRecords s)),
      (''url_occurrences'', json_of_slice json_of_occurrence (URLOccurrences s)),
      (''canonical_items'', json_of_slice json_of_inventory_item (CanonicalItems s)),
      (''strata'', json_of_slice json_of_stratum_count (Strata s)),
      (''completeness'', json_of_slice json_of_evidence_check (Completeness s))]"

section \<open>The canonical order\<close>

definition sort_record_refs :: "source_record \<Rightarrow> source_record" where
  "sort_record_refs r = r\<lparr>URLOccurrenceIDs := map_option sort (URLOccurrenceIDs r)\<rparr>"

definition sort_item_refs :: "inventory_item \<Rightarrow> inventory_item" where
  "sort_item_refs i = i\<lparr>OccurrenceIDs := map_option sort (OccurrenceIDs i)\<rparr>"

definition canonicalizeInventory :: "inventory_snapshot \<Rightarrow> inventory_snapshot" where
  "canonicalizeInventory s = s\<lparr>
     SourceRecords := map_option (sort_key sr_SourceRecordID)
       (map_option (map sort_record_refs) (SourceRecords s)),
     URLOccurrences := map_option (sort_key URLOccurrenceID) (URLOccurrences s),
     CanonicalItems := map_option (sort_key CanonicalItemID)
       (map_option (map sort_item_refs) (CanonicalItems s)),
     Completeness := map_option (sort_key ec_Name) (Completeness s)\<rparr>"

section \<open>The cross-checks\<close>

definition record_refs :: "source_record list \<Rightarrow> string list" where
  "record_refs rs = concat (map (\<lambda>r. slice_list (URLOccurrenceIDs r)) rs)"

definition item_refs :: "inventory_item list \<Rightarrow> string list" where
  "item_refs is = concat (map (\<lambda>i. slice_list (OccurrenceIDs i)) is)"

definition refs_ok :: "string list \<Rightarrow> bool" where
  "refs_ok xs \<longleftrightarrow> \<not> (list_ex (\<lambda>x. x = '''') xs \<or> has_dup xs)"

definition records_ok :: "source_record list \<Rightarrow> bool" where
  "records_ok rs \<longleftrightarrow>
     list_all (\<lambda>r. \<not> (sr_SourceRecordID r = '''' \<or> NativeMessageID r = '''' \<or>
         NativeTimestamp r = '''' \<or> sr_ContentFingerprint r = '''') \<and>
       refs_ok (slice_list (URLOccurrenceIDs r))) rs \<and>
     \<not> has_dup (map sr_SourceRecordID rs)"

definition access_ok :: "inventory_item \<Rightarrow> bool" where
  "access_ok i \<longleftrightarrow>
     (if AccessState i = ''sensitive_redacted''
      then \<not> (CanonicalURL i \<noteq> '''' \<or> RetrievalStrategyID i \<noteq> ''manual_support'' \<or>
              FormatVariant i \<noteq> ''sensitive_redacted'')
      else \<not> (AccessState i \<noteq> '''' \<or> CanonicalURL i = ''''))"

definition items_ok :: "inventory_item list \<Rightarrow> bool" where
  "items_ok is \<longleftrightarrow>
     list_all (\<lambda>i. \<not> (CanonicalItemID i = '''' \<or> RetrievalStrategyID i = '''' \<or>
         FormatVariant i = '''' \<or> slice_list (OccurrenceIDs i) = []) \<and> access_ok i \<and>
       refs_ok (slice_list (OccurrenceIDs i))) is \<and>
     \<not> has_dup (map CanonicalItemID is)"

text \<open>A lookup in \<open>items\<close>; a missing key has the empty access state of the zero item.\<close>

definition item_access :: "inventory_item list \<Rightarrow> string \<Rightarrow> string" where
  "item_access is k =
     (case map_of (map (\<lambda>i. (CanonicalItemID i, AccessState i)) is) k of None \<Rightarrow> '''' | Some a \<Rightarrow> a)"

definition ordinal_key :: "url_occurrence \<Rightarrow> string" where
  "ordinal_key x = uo_SourceRecordID x @ CHR 0x00 # int_text (SourceOrdinal x)"

definition occurrence_ok ::
  "source_record list \<Rightarrow> inventory_item list \<Rightarrow> url_occurrence \<Rightarrow> bool" where
  "occurrence_ok rs is x \<longleftrightarrow>
     \<not> (SourceOrdinal x < 0 \<or> URLOccurrenceID x = '''' \<or> uo_SourceRecordID x = '''' \<or>
        uo_CanonicalItemID x = '''') \<and>
     (SanitizationState x = ''sensitive_redacted'') =
       (item_access is (uo_CanonicalItemID x) = ''sensitive_redacted'') \<and>
     (if SanitizationState x = ''sensitive_redacted'' then ObservedURL x = ''''
      else \<not> (ObservedURL x = '''' \<or>
        SanitizationState x \<noteq> '''' \<and> SanitizationState x \<noteq> ''non_semantic_components_removed'')) \<and>
     uo_SourceRecordID x \<in> set (map sr_SourceRecordID rs) \<and>
     uo_CanonicalItemID x \<in> set (map CanonicalItemID is)"

definition occurrences_ok ::
  "source_record list \<Rightarrow> inventory_item list \<Rightarrow> url_occurrence list \<Rightarrow> bool" where
  "occurrences_ok rs is xs \<longleftrightarrow>
     list_all (occurrence_ok rs is) xs \<and> \<not> has_dup (map ordinal_key xs) \<and>
     \<not> has_dup (map URLOccurrenceID xs)"

definition refs_match :: "string list \<Rightarrow> string list \<Rightarrow> bool" where
  "refs_match refs ids \<longleftrightarrow>
     list_all (\<lambda>k. count_list refs k = 1) ids \<and> length (remdups refs) = length (remdups ids)"

definition validateInventoryFields :: "inventory_snapshot \<Rightarrow> bool" where
  "validateInventoryFields s \<longleftrightarrow>
     (let rs = slice_list (SourceRecords s); is = slice_list (CanonicalItems s);
          xs = slice_list (URLOccurrences s); ids = map URLOccurrenceID xs
      in \<not> (is_SchemaVersion s \<noteq> InventorySchemaVersion \<or> blank (SourceIdentity s) \<or>
            blank (Watermark s)) \<and>
         records_ok rs \<and> items_ok is \<and> occurrences_ok rs is xs \<and>
         refs_match (record_refs rs) ids \<and> refs_match (item_refs is) ids)"

section \<open>Strata\<close>

definition stratum_key :: "inventory_item \<Rightarrow> string" where
  "stratum_key i = RetrievalStrategyID i @ CHR 0x00 # FormatVariant i"

text \<open>\<open>parts[key]\<close> is written for every item of the stratum: the last one stays.\<close>

definition stratum_items :: "inventory_item list \<Rightarrow> string \<Rightarrow> inventory_item list" where
  "stratum_items is k = filter (\<lambda>i. stratum_key i = k) is"

definition stratum_keys :: "inventory_item list \<Rightarrow> string list" where
  "stratum_keys is = sort (remdups (map stratum_key is))"

definition inventoryStrata :: "inventory_item list \<Rightarrow> stratum_count list" where
  "inventoryStrata is = map (\<lambda>k.
     \<lparr>sc_RetrievalStrategyID = RetrievalStrategyID (last (stratum_items is k)),
      sc_FormatVariant = FormatVariant (last (stratum_items is k)),
      CanonicalCount = int (length (stratum_items is k))\<rparr>) (stratum_keys is)"

definition equalStrata :: "stratum_count slice \<Rightarrow> stratum_count slice \<Rightarrow> bool" where
  "equalStrata a b \<longleftrightarrow>
     encode (json_of_slice json_of_stratum_count a) = encode (json_of_slice json_of_stratum_count b)"

section \<open>Sealing and validating\<close>

definition inventory_fingerprint :: "(string \<Rightarrow> string) \<Rightarrow> inventory_snapshot \<Rightarrow> string" where
  "inventory_fingerprint sha s =
     prefixed_fingerprint sha (json_of_inventory (s\<lparr>is_Fingerprint := ''''\<rparr>))"

definition SealInventorySnapshot ::
  "(string \<Rightarrow> string) \<Rightarrow> inventory_snapshot \<Rightarrow> (orch_error, inventory_snapshot) result" where
  "SealInventorySnapshot sha s =
     (let c = canonicalizeInventory s
      in if \<not> validateInventoryFields c then Inl ErrInvalidInventory
         else
           let t = c\<lparr>OccurrenceCount := int (length (slice_list (URLOccurrences c))),
                     is_CanonicalCount := int (length (slice_list (CanonicalItems c))),
                     Strata := Some (inventoryStrata (slice_list (CanonicalItems c)))\<rparr>
           in Inr (t\<lparr>is_Fingerprint := inventory_fingerprint sha t\<rparr>))"

definition ValidateInventorySnapshot :: "(string \<Rightarrow> string) \<Rightarrow> inventory_snapshot \<Rightarrow> bool" where
  "ValidateInventorySnapshot sha s \<longleftrightarrow>
     (let c = canonicalizeInventory s
      in is_Fingerprint s \<noteq> '''' \<and> validateInventoryFields c \<and>
         \<not> (OccurrenceCount c \<noteq> int (length (slice_list (URLOccurrences c))) \<or>
            is_CanonicalCount c \<noteq> int (length (slice_list (CanonicalItems c))) \<or>
            \<not> equalStrata (Strata c) (Some (inventoryStrata (slice_list (CanonicalItems c))))) \<and>
         is_Fingerprint s = inventory_fingerprint sha c)"


section \<open>Facts\<close>

text \<open>The reference counts say that every occurrence is listed once, and nothing else is.\<close>

lemma refs_match_mset:
  assumes "refs_match refs ids" "distinct ids"
  shows "mset refs = mset ids"
proof -
  have one: "count_list refs k = 1" if "k \<in> set ids" for k
    using assms(1) that by (auto simp: refs_match_def list_all_iff)
  have len: "card (set refs) = card (set ids)"
    using assms(1) by (simp add: refs_match_def length_remdups_card_conv)
  have "set ids \<subseteq> set refs" using one by (metis count_notin subsetI zero_neq_one)
  then have set: "set refs = set ids" using len by (metis List.finite_set card_subset_eq)
  show ?thesis
  proof (rule multiset_eqI)
    fix k
    show "count (mset refs) k = count (mset ids) k"
    proof (cases "k \<in> set ids")
      case True
      then have "count (mset refs) k = 1" using one by (simp add: count_mset)
      with True assms(2) show ?thesis by (simp add: distinct_count_atmost_1)
    next
      case False
      with set show ?thesis by (simp add: count_mset)
    qed
  qed
qed

lemma valid_inventory_refs:
  assumes "validateInventoryFields s"
  shows "mset (record_refs (slice_list (SourceRecords s))) =
      mset (map URLOccurrenceID (slice_list (URLOccurrences s)))"
    and "mset (item_refs (slice_list (CanonicalItems s))) =
      mset (map URLOccurrenceID (slice_list (URLOccurrences s)))"
  using assms
  by (auto simp: validateInventoryFields_def Let_def occurrences_ok_def simp del: mset_map
      intro!: refs_match_mset)

lemma valid_inventory_distinct:
  assumes "validateInventoryFields s"
  shows "distinct (map CanonicalItemID (slice_list (CanonicalItems s)))"
    and "distinct (map URLOccurrenceID (slice_list (URLOccurrences s)))"
    and "distinct (map sr_SourceRecordID (slice_list (SourceRecords s)))"
  using assms by (auto simp: validateInventoryFields_def Let_def items_ok_def occurrences_ok_def records_ok_def)

lemma sort_refs_idem [simp]:
  "sort_record_refs (sort_record_refs r) = sort_record_refs r"
  "sort_item_refs (sort_item_refs i) = sort_item_refs i"
  by (simp_all add: sort_record_refs_def sort_item_refs_def option.map_comp comp_def)

lemma sort_map_idem:
  assumes "\<And>x. g (g x) = g x"
  shows "sort_key f (map g (sort_key f (map g xs))) = sort_key f (map g xs)"
proof -
  have "map g (sort_key f (map g xs)) = sort_key f (map g xs)"
    using assms by (intro map_idI) auto
  then show ?thesis by simp
qed

lemma canonicalize_idem [simp]: "canonicalizeInventory (canonicalizeInventory s) = canonicalizeInventory s"
  by (simp add: canonicalizeInventory_def option.map_comp comp_def sort_map_idem)

lemma canonicalize_counts [simp]:
  "canonicalizeInventory (s\<lparr>OccurrenceCount := a\<rparr>) = (canonicalizeInventory s)\<lparr>OccurrenceCount := a\<rparr>"
  "canonicalizeInventory (s\<lparr>is_CanonicalCount := b\<rparr>) = (canonicalizeInventory s)\<lparr>is_CanonicalCount := b\<rparr>"
  "canonicalizeInventory (s\<lparr>Strata := c\<rparr>) = (canonicalizeInventory s)\<lparr>Strata := c\<rparr>"
  "canonicalizeInventory (s\<lparr>is_Fingerprint := d\<rparr>) = (canonicalizeInventory s)\<lparr>is_Fingerprint := d\<rparr>"
  by (simp_all add: canonicalizeInventory_def)

lemma validate_counts [simp]:
  "validateInventoryFields (s\<lparr>OccurrenceCount := a\<rparr>) = validateInventoryFields s"
  "validateInventoryFields (s\<lparr>is_CanonicalCount := b\<rparr>) = validateInventoryFields s"
  "validateInventoryFields (s\<lparr>Strata := c\<rparr>) = validateInventoryFields s"
  "validateInventoryFields (s\<lparr>is_Fingerprint := d\<rparr>) = validateInventoryFields s"
  by (simp_all add: validateInventoryFields_def)

lemma inventory_fingerprint_cong [simp]:
  "inventory_fingerprint sha (s\<lparr>is_Fingerprint := d\<rparr>) = inventory_fingerprint sha s"
  by (simp add: inventory_fingerprint_def)

lemma inventory_fingerprint_nonempty [simp]: "inventory_fingerprint sha s \<noteq> ''''"
  by (simp add: inventory_fingerprint_def prefixed_fingerprint_def)

lemma seal_inventory_valid:
  "SealInventorySnapshot sha s = Inr t \<Longrightarrow> ValidateInventorySnapshot sha t"
  by (auto simp: SealInventorySnapshot_def ValidateInventorySnapshot_def equalStrata_def Let_def
      split: if_splits)

lemma stratum_keys_props [simp]:
  "distinct (stratum_keys is)" "sorted (stratum_keys is)"
  "set (stratum_keys is) = stratum_key ` set is"
  by (simp_all add: stratum_keys_def)

lemma stratum_items_nonempty: "k \<in> set (stratum_keys is) \<Longrightarrow> stratum_items is k \<noteq> []"
  by (auto simp: stratum_items_def filter_empty_conv)

lemma stratum_last_key:
  "k \<in> set (stratum_keys is) \<Longrightarrow>
    RetrievalStrategyID (last (stratum_items is k)) @ CHR 0x00 # FormatVariant (last (stratum_items is k)) = k"
  using last_in_set [OF stratum_items_nonempty, of k "is"]
  by (auto simp: stratum_items_def stratum_key_def)

lemma stratum_items_partition:
  "mset (concat (map (stratum_items is) (stratum_keys is))) = mset is"
  unfolding stratum_items_def by (rule mset_concat_filter) simp_all

end
