(* ===== verification/Orch_Sample.thy ===== *)
theory Orch_Sample
  imports Orch_Inventory "HOL-Library.Product_Lexorder"
begin

text \<open>
  The proof sample of an inventory, \<open>internal/orchestration/sampling.go\<close>: at most three items of
  every stratum, in an order that a hash decides. SHA-256, printed in hexadecimal, is \<open>sha\<close>.

  \<open>ValidateInventorySnapshot\<close> sorts the slices of its argument in place, and the caller's
  snapshot shares them: \<open>SelectProofSample\<close> reads the canonical items.
\<close>

section \<open>Manifests\<close>

definition MaximumProofItemsPerStratum :: nat where
  "MaximumProofItemsPerStratum = 3"

definition MaximumProofStrata :: nat where
  "MaximumProofStrata = 128"

definition MaximumProofSelectedItems :: nat where
  "MaximumProofSelectedItems = 192"

definition SampleManifestSchemaVersion :: string where
  "SampleManifestSchemaVersion = ''mindline-activation-sample/v0.1''"

record stratum_sample =
  ss_RetrievalStrategyID :: string
  ss_FormatVariant :: string
  ss_CanonicalCount :: int
  ss_SelectedItemIDs :: "string slice"
  ss_UnselectedItemIDs :: "string slice"

record sample_manifest =
  sm_SchemaVersion :: string
  sm_Fingerprint :: string
  sm_InventoryFingerprint :: string
  OrderingVersion :: string
  sm_SelectedItemIDs :: "string slice"
  sm_Strata :: "stratum_sample slice"

definition json_of_stratum_sample :: "stratum_sample \<Rightarrow> json" where
  "json_of_stratum_sample s = JObj
     [(''retrieval_strategy_id'', JStr (ss_RetrievalStrategyID s)),
      (''format_variant'', JStr (ss_FormatVariant s)),
      (''canonical_count'', JInt (ss_CanonicalCount s)),
      (''selected_item_ids'', json_of_slice JStr (ss_SelectedItemIDs s)),
      (''unselected_item_ids'', json_of_slice JStr (ss_UnselectedItemIDs s))]"

definition json_of_manifest :: "sample_manifest \<Rightarrow> json" where
  "json_of_manifest m = JObj
     [(''schema_version'', JStr (sm_SchemaVersion m)), (''fingerprint'', JStr (sm_Fingerprint m)),
      (''inventory_fingerprint'', JStr (sm_InventoryFingerprint m)),
      (''ordering_version'', JStr (OrderingVersion m)),
      (''selected_item_ids'', json_of_slice JStr (sm_SelectedItemIDs m)),
      (''strata'', json_of_slice json_of_stratum_sample (sm_Strata m))]"

section \<open>Selecting\<close>

definition sampleOrderKey ::
  "(string \<Rightarrow> string) \<Rightarrow> string \<Rightarrow> string \<Rightarrow> string \<Rightarrow> string \<Rightarrow> string" where
  "sampleOrderKey sha version strategy format item_id =
     sha (version @ CHR 0x00 # strategy @ CHR 0x00 # format @ CHR 0x00 # item_id)"

definition minimum :: "nat \<Rightarrow> nat \<Rightarrow> nat" where
  "minimum a b = (if a < b then a else b)"

definition ordered_ids ::
  "(string \<Rightarrow> string) \<Rightarrow> string \<Rightarrow> string \<Rightarrow> string \<Rightarrow> inventory_item list \<Rightarrow> string list" where
  "ordered_ids sha version strategy format is = map CanonicalItemID
     (sort_key (\<lambda>i. (sampleOrderKey sha version strategy format (CanonicalItemID i), CanonicalItemID i))
       is)"

definition stratum_sample_of ::
  "(string \<Rightarrow> string) \<Rightarrow> string \<Rightarrow> inventory_item list \<Rightarrow> string \<Rightarrow> stratum_sample" where
  "stratum_sample_of sha version is key =
     (let members = stratum_items is key; strategy = RetrievalStrategyID (last members);
          format = FormatVariant (last members);
          ids = ordered_ids sha version strategy format members
      in \<lparr>ss_RetrievalStrategyID = strategy, ss_FormatVariant = format,
          ss_CanonicalCount = int (length members),
          ss_SelectedItemIDs = slice_append None (take MaximumProofItemsPerStratum ids),
          ss_UnselectedItemIDs = slice_append None (drop MaximumProofItemsPerStratum ids)\<rparr>)"

definition manifest_fingerprint :: "(string \<Rightarrow> string) \<Rightarrow> sample_manifest \<Rightarrow> string" where
  "manifest_fingerprint sha m = prefixed_fingerprint sha (json_of_manifest (m\<lparr>sm_Fingerprint := ''''\<rparr>))"

definition sample_of :: "(string \<Rightarrow> string) \<Rightarrow> inventory_snapshot \<Rightarrow> string \<Rightarrow> sample_manifest" where
  "sample_of sha s version =
     (let is = slice_list (CanonicalItems (canonicalizeInventory s));
          strata = map (stratum_sample_of sha version is) (stratum_keys is);
          m = \<lparr>sm_SchemaVersion = SampleManifestSchemaVersion, sm_Fingerprint = '''',
               sm_InventoryFingerprint = is_Fingerprint s, OrderingVersion = version,
               sm_SelectedItemIDs =
                 slice_append None (concat (map (\<lambda>st. slice_list (ss_SelectedItemIDs st)) strata)),
               sm_Strata = slice_append None strata\<rparr>
      in m\<lparr>sm_Fingerprint := manifest_fingerprint sha m\<rparr>)"

definition SelectProofSample ::
  "(string \<Rightarrow> string) \<Rightarrow> inventory_snapshot \<Rightarrow> string \<Rightarrow> (orch_error, sample_manifest) result" where
  "SelectProofSample sha s version =
     (if \<not> ValidateInventorySnapshot sha s \<or> blank version then Inl ErrInvalidInventory
      else
        let is = slice_list (CanonicalItems (canonicalizeInventory s)); keys = stratum_keys is
        in if length keys > MaximumProofStrata then Inl ErrSampleBudget
           else if sum_list (map (\<lambda>k. minimum (length (stratum_items is k)) MaximumProofItemsPerStratum)
                     keys) > MaximumProofSelectedItems
           then Inl ErrSampleBudget
           else Inr (sample_of sha s version))"

definition ValidateSampleManifest ::
  "(string \<Rightarrow> string) \<Rightarrow> inventory_snapshot \<Rightarrow> sample_manifest \<Rightarrow> (orch_error, unit) result" where
  "ValidateSampleManifest sha s m =
     (if sm_SchemaVersion m \<noteq> SampleManifestSchemaVersion \<or> sm_Fingerprint m = '''' \<or>
         sm_InventoryFingerprint m \<noteq> is_Fingerprint s
      then Inl ErrSampleChanged
      else rbind (SelectProofSample sha s (OrderingVersion m)) (\<lambda>want.
        if encode (json_of_manifest m) \<noteq> encode (json_of_manifest want) then Inl ErrSampleChanged
        else Inr ()))"

section \<open>Facts\<close>

lemma json_of_stratum_sample_inj: "json_of_stratum_sample s = json_of_stratum_sample t \<Longrightarrow> s = t"
  by (auto simp: json_of_stratum_sample_def dest!: json_of_slice_inj)

lemma json_of_manifest_inj: "json_of_manifest m = json_of_manifest n \<Longrightarrow> m = n"
  by (auto simp: json_of_manifest_def dest!: json_of_slice_inj intro: json_of_stratum_sample_inj)

lemma sample_of_fields [simp]:
  "sm_SchemaVersion (sample_of sha s v) = SampleManifestSchemaVersion"
  "sm_InventoryFingerprint (sample_of sha s v) = is_Fingerprint s"
  "OrderingVersion (sample_of sha s v) = v" "sm_Fingerprint (sample_of sha s v) \<noteq> ''''"
  by (simp_all add: sample_of_def Let_def manifest_fingerprint_def prefixed_fingerprint_def)

lemma SelectProofSample_Inr:
  "SelectProofSample sha s v = Inr m \<Longrightarrow> m = sample_of sha s v \<and> ValidateInventorySnapshot sha s"
  by (auto simp: SelectProofSample_def Let_def split: if_splits)

text \<open>C24: \<open>ValidateSampleManifest\<close> accepts a manifest exactly when it is, field for field,
  the sample that \<open>SelectProofSample\<close> computes for the inventory and the manifest's ordering
  version. No manifest with an item swapped, added or left out passes.\<close>

theorem manifest_pinned:
  "ValidateSampleManifest sha s m = Inr () \<longleftrightarrow> SelectProofSample sha s (OrderingVersion m) = Inr m"
  (is "?l \<longleftrightarrow> ?r")
proof
  assume ?l
  then obtain want where "SelectProofSample sha s (OrderingVersion m) = Inr want"
    "json_of_manifest m = json_of_manifest want"
    by (auto simp: ValidateSampleManifest_def rbind_Inr_iff split: if_splits)
  then show ?r using json_of_manifest_inj by metis
next
  assume ?r
  then have "m = sample_of sha s (OrderingVersion m)" using SelectProofSample_Inr by blast
  then have "sm_SchemaVersion m = SampleManifestSchemaVersion" "sm_Fingerprint m \<noteq> ''''"
    "sm_InventoryFingerprint m = is_Fingerprint s"
    by (metis sample_of_fields)+
  with \<open>?r\<close> show ?l by (simp add: ValidateSampleManifest_def)
qed

section \<open>What a sample contains\<close>

definition stratum_ids :: "stratum_sample \<Rightarrow> string list" where
  "stratum_ids st = slice_list (ss_SelectedItemIDs st) @ slice_list (ss_UnselectedItemIDs st)"

definition sample_strata :: "sample_manifest \<Rightarrow> stratum_sample list" where
  "sample_strata m = slice_list (sm_Strata m)"

text \<open>
  A stratum selects the least three of its items, or all of them: its items in hash order
  (ties by identifier), cut after the third.
\<close>

definition stratum_fair :: "(string \<Rightarrow> string) \<Rightarrow> string \<Rightarrow> inventory_item list \<Rightarrow> stratum_sample \<Rightarrow> bool" where
  "stratum_fair sha version is st \<longleftrightarrow>
     length (slice_list (ss_SelectedItemIDs st)) = min 3 (length (stratum_ids st)) \<and>
     ss_CanonicalCount st = int (length (stratum_ids st)) \<and>
     sorted (map (\<lambda>x. (sampleOrderKey sha version (ss_RetrievalStrategyID st) (ss_FormatVariant st) x, x))
       (stratum_ids st)) \<and>
     mset (stratum_ids st) = mset (map CanonicalItemID (stratum_items is
       (ss_RetrievalStrategyID st @ CHR 0x00 # ss_FormatVariant st)))"

lemma ordered_ids_props:
  "mset (ordered_ids sha v strategy format is) = mset (map CanonicalItemID is)"
  "length (ordered_ids sha v strategy format is) = length is"
  "sorted (map (\<lambda>x. (sampleOrderKey sha v strategy format x, x)) (ordered_ids sha v strategy format is))"
proof -
  let ?k = "\<lambda>i. (sampleOrderKey sha v strategy format (CanonicalItemID i), CanonicalItemID i)"
  have "sorted (map ?k (sort_key ?k is))" by (rule sorted_sort_key)
  then show "sorted (map (\<lambda>x. (sampleOrderKey sha v strategy format x, x)) (ordered_ids sha v strategy format is))"
    by (simp add: ordered_ids_def comp_def)
qed (simp_all add: ordered_ids_def)

lemma stratum_sample_ids [simp]:
  "stratum_ids (stratum_sample_of sha v is k) =
     ordered_ids sha v (RetrievalStrategyID (last (stratum_items is k)))
       (FormatVariant (last (stratum_items is k))) (stratum_items is k)"
  by (simp add: stratum_ids_def stratum_sample_of_def Let_def)

lemma stratum_sample_fair:
  assumes "k \<in> set (stratum_keys is)"
  shows "stratum_fair sha v is (stratum_sample_of sha v is k)"
  unfolding stratum_fair_def stratum_sample_ids
  using ordered_ids_props [of sha v _ _ "stratum_items is k"] stratum_last_key [OF assms]
  by (auto simp: stratum_sample_of_def Let_def MaximumProofItemsPerStratum_def)

lemma sample_of_strata:
  "sample_strata (sample_of sha s v) = map (stratum_sample_of sha v (slice_list (CanonicalItems
     (canonicalizeInventory s)))) (stratum_keys (slice_list (CanonicalItems (canonicalizeInventory s))))"
  by (simp add: sample_strata_def sample_of_def Let_def)

lemma canonical_items_mset [simp]:
  "mset (map CanonicalItemID (slice_list (CanonicalItems (canonicalizeInventory s)))) =
   mset (map CanonicalItemID (slice_list (CanonicalItems s)))"
proof -
  have "CanonicalItemID (sort_item_refs i) = CanonicalItemID i" for i
    by (simp add: sort_item_refs_def)
  then show ?thesis
    by (cases "CanonicalItems s") (simp_all add: canonicalizeInventory_def image_mset.compositionality comp_def)
qed

lemma sample_ids_all:
  "mset (concat (map stratum_ids (sample_strata (sample_of sha s v)))) =
   mset (map CanonicalItemID (slice_list (CanonicalItems s)))"
proof -
  define "is" where "is = slice_list (CanonicalItems (canonicalizeInventory s))"
  have "mset (concat (map (\<lambda>k. stratum_ids (stratum_sample_of sha v is k)) ks)) =
      mset (map CanonicalItemID (concat (map (stratum_items is) ks)))" for ks
    by (induction ks) (simp_all add: ordered_ids_props(1))
  from this [of "stratum_keys is"]
  have "mset (concat (map stratum_ids (sample_strata (sample_of sha s v)))) =
      image_mset CanonicalItemID (mset (concat (map (stratum_items is) (stratum_keys is))))"
    by (simp add: sample_of_strata is_def comp_def)
  then show ?thesis
    using canonical_items_mset [of s] by (simp only: stratum_items_partition is_def mset_map)
qed

lemma sample_of_selected:
  "slice_list (sm_SelectedItemIDs (sample_of sha s v)) =
   concat (map (\<lambda>st. slice_list (ss_SelectedItemIDs st)) (sample_strata (sample_of sha s v)))"
  by (simp add: sample_strata_def sample_of_def Let_def)

lemma selected_length:
  "length (concat (map (\<lambda>st. slice_list (ss_SelectedItemIDs st)) (map (stratum_sample_of sha v is) ks))) =
   sum_list (map (\<lambda>k. minimum (length (stratum_items is k)) MaximumProofItemsPerStratum) ks)"
  by (induction ks) (auto simp: stratum_sample_of_def Let_def minimum_def ordered_ids_props(2))

text \<open>C23: The strata of a proof sample partition the canonical items of the inventory;
  every stratum selects its least three items in hash order, or all if there are fewer, and
  reports its size; the selected items of the manifest are those of the strata, at most 192.\<close>

theorem sample_exact:
  assumes "SelectProofSample sha s version = Inr m"
  shows "mset (concat (map stratum_ids (sample_strata m))) =
      mset (map CanonicalItemID (slice_list (CanonicalItems s))) \<and>
    list_all (stratum_fair sha version (slice_list (CanonicalItems (canonicalizeInventory s))))
      (sample_strata m) \<and>
    slice_list (sm_SelectedItemIDs m) =
      concat (map (\<lambda>st. slice_list (ss_SelectedItemIDs st)) (sample_strata m)) \<and>
    length (slice_list (sm_SelectedItemIDs m)) \<le> MaximumProofSelectedItems"
proof -
  define "is" where "is = slice_list (CanonicalItems (canonicalizeInventory s))"
  have m: "m = sample_of sha s version" using SelectProofSample_Inr [OF assms] by simp
  have "sum_list (map (\<lambda>k. minimum (length (stratum_items is k)) MaximumProofItemsPerStratum)
      (stratum_keys is)) \<le> MaximumProofSelectedItems"
    using assms by (simp add: SelectProofSample_def Let_def is_def split: if_splits)
  then have "length (slice_list (sm_SelectedItemIDs m)) \<le> MaximumProofSelectedItems"
    unfolding m sample_of_selected sample_of_strata is_def [symmetric] selected_length .
  moreover have "list_all (stratum_fair sha version is) (sample_strata m)"
    unfolding m sample_of_strata is_def [symmetric] by (auto simp: list_all_iff stratum_sample_fair)
  ultimately show ?thesis
    using sample_ids_all [of sha s version] sample_of_selected [of sha s version]
    by (simp add: m is_def)
qed

section \<open>A concrete inventory\<close>

definition sample_demo_sha :: "string \<Rightarrow> string" where
  "sample_demo_sha s = ''d''"

definition sample_demo_item :: "string \<Rightarrow> string \<Rightarrow> inventory_item" where
  "sample_demo_item x occ = \<lparr>CanonicalItemID = x, CanonicalURL = ''u'', RetrievalStrategyID = ''s'',
     FormatVariant = ''f'', OccurrenceIDs = Some [occ], AccessState = '''', CompletenessStatus = ''''\<rparr>"

definition sample_demo_occurrence :: "string \<Rightarrow> string \<Rightarrow> int \<Rightarrow> url_occurrence" where
  "sample_demo_occurrence occ x n = \<lparr>URLOccurrenceID = occ, uo_SourceRecordID = ''r'', SourceOrdinal = n,
     ObservedURL = ''u'', uo_CanonicalItemID = x, SanitizationState = ''''\<rparr>"

definition sample_demo_raw :: inventory_snapshot where
  "sample_demo_raw = \<lparr>is_SchemaVersion = InventorySchemaVersion, is_Fingerprint = '''',
     SourceIdentity = ''i'', Watermark = ''w'', OccurrenceCount = 0, is_CanonicalCount = 0,
     SourceRecords = Some [\<lparr>sr_SourceRecordID = ''r'', NativeMessageID = ''m'', NativeTimestamp = ''t'',
       sr_ContentFingerprint = ''c'', URLOccurrenceIDs = Some [''p'', ''o'', ''n'', ''q''],
       EditDeleteState = '''', ThreadParentID = ''''\<rparr>],
     URLOccurrences = Some [sample_demo_occurrence ''n'' ''a'' 0, sample_demo_occurrence ''o'' ''d'' 1,
       sample_demo_occurrence ''p'' ''b'' 2, sample_demo_occurrence ''q'' ''c'' 3],
     CanonicalItems = Some [sample_demo_item ''d'' ''o'', sample_demo_item ''c'' ''q'',
       sample_demo_item ''b'' ''p'', sample_demo_item ''a'' ''n''],
     Strata = None, Completeness = None\<rparr>"

definition sample_demo :: inventory_snapshot where
  "sample_demo = projr (SealInventorySnapshot sample_demo_sha sample_demo_raw)"

lemma sample_demo_fields: "validateInventoryFields (canonicalizeInventory sample_demo_raw)"
  by code_simp

lemma sample_demo_sealed: "SealInventorySnapshot sample_demo_sha sample_demo_raw = Inr sample_demo"
  using sample_demo_fields by (simp add: sample_demo_def SealInventorySnapshot_def Let_def)

lemma sample_demo_items:
  "slice_list (CanonicalItems (canonicalizeInventory sample_demo)) =
   [sample_demo_item ''a'' ''n'', sample_demo_item ''b'' ''p'', sample_demo_item ''c'' ''q'',
    sample_demo_item ''d'' ''o'']"
proof -
  have "slice_list (CanonicalItems (canonicalizeInventory sample_demo)) =
      slice_list (CanonicalItems (canonicalizeInventory sample_demo_raw))"
    using sample_demo_fields by (simp add: sample_demo_def SealInventorySnapshot_def Let_def)
  then show ?thesis by simp code_simp
qed

lemma sample_demo_selected:
  "SelectProofSample sample_demo_sha sample_demo ''v'' = Inr (sample_of sample_demo_sha sample_demo ''v'')"
proof -
  have "\<not> blank ''v''" by code_simp
  moreover have "stratum_keys (slice_list (CanonicalItems (canonicalizeInventory sample_demo))) = [[CHR ''s'', CHR 0x00, CHR ''f'']]"
    unfolding sample_demo_items by code_simp
  ultimately show ?thesis
    using seal_inventory_valid [OF sample_demo_sealed]
    by (simp add: SelectProofSample_def Let_def MaximumProofStrata_def MaximumProofSelectedItems_def
        MaximumProofItemsPerStratum_def minimum_def)
qed

theorem sample_exact_witness:
  "slice_list (sm_SelectedItemIDs (sample_of sample_demo_sha sample_demo ''v'')) = [''a'', ''b'', ''c''] \<and>
   mset (concat (map stratum_ids (sample_strata (sample_of sample_demo_sha sample_demo ''v'')))) =
     mset (map CanonicalItemID (slice_list (CanonicalItems sample_demo)))"
proof
  show "slice_list (sm_SelectedItemIDs (sample_of sample_demo_sha sample_demo ''v'')) = [''a'', ''b'', ''c'']"
    unfolding sample_of_selected sample_of_strata sample_demo_items by code_simp
qed (use sample_exact [OF sample_demo_selected] in blast)

end
