(* ===== verification/Orch_Readiness.thy ===== *)
theory Orch_Readiness
  imports Go_Json
begin

text \<open>
  Readiness verdicts, \<open>internal/orchestration/readiness.go\<close>: the contributions, their required
  checks, and \<open>EvaluateReadiness\<close>. The order in which Go ranges over the map of checks does not
  matter: blockers and conditions are sorted before they are reported.
\<close>

section \<open>Stages, checks and verdicts\<close>

definition readiness_stages :: "string list" where
  "readiness_stages =
     [''READY_TO_INVENTORY'', ''READY_TO_PROCESS'', ''READY_TO_EXPERIMENTAL_DRAIN'', ''READY_TO_DELIVER'']"

definition CheckPass :: string where "CheckPass = ''pass''"
definition CheckFail :: string where "CheckFail = ''fail''"
definition CheckPending :: string where "CheckPending = ''pending''"
definition CheckNA :: string where "CheckNA = ''n/a''"

datatype verdict_value = VerdictReady | VerdictConditional | VerdictBlocked

primrec verdict_text :: "verdict_value \<Rightarrow> string" where
  "verdict_text VerdictReady = ''READY''"
| "verdict_text VerdictConditional = ''CONDITIONAL''"
| "verdict_text VerdictBlocked = ''BLOCKED''"

record readiness_check =
  rc_Name :: string
  rc_Status :: string
  rc_EvidenceFingerprint :: string
  NARationale :: string
  ContractAllowsNA :: bool

record readiness_contribution =
  ContributorID :: string
  rc_Version :: string
  RequiredChecks :: "string list"
  Checks :: "readiness_check list"

record readiness_verdict =
  Stage :: string
  Verdict :: verdict_value
  rv_EvidenceFingerprint :: string
  Blockers :: "string list"
  Conditions :: "string list"

definition json_of_verdict :: "readiness_verdict \<Rightarrow> json" where
  "json_of_verdict v = JObj
     ([(''stage'', JStr (Stage v)), (''verdict'', JStr (verdict_text (Verdict v))),
       (''evidence_fingerprint'', JStr (rv_EvidenceFingerprint v))] @
      opt_field (Blockers v \<noteq> []) ''blockers'' (json_of_strings (Blockers v)) @
      opt_field (Conditions v \<noteq> []) ''conditions'' (json_of_strings (Conditions v)))"

definition seal_verdict :: "(string \<Rightarrow> string) \<Rightarrow> readiness_verdict \<Rightarrow> readiness_verdict" where
  "seal_verdict sha v = v\<lparr>rv_EvidenceFingerprint := prefixed_fingerprint sha (json_of_verdict v)\<rparr>"

definition validReadinessStage :: "string \<Rightarrow> bool" where
  "validReadinessStage stage \<longleftrightarrow> stage \<in> set readiness_stages"

section \<open>One contribution\<close>

definition reason :: "string \<Rightarrow> string \<Rightarrow> string \<Rightarrow> string" where
  "reason prefix name what = prefix @ '':'' @ name @ '':'' @ what"

text \<open>The map \<open>required\<close>, filled while the duplicates and empty names are reported.\<close>

fun required_loop :: "string \<Rightarrow> string list \<Rightarrow> string list \<Rightarrow> string list \<times> string list" where
  "required_loop prefix [] required = ([], required)"
| "required_loop prefix (name # names) required =
     (case required_loop prefix names (List.insert name required) of
        (blockers, r) \<Rightarrow>
          (if name = '''' \<or> name \<in> set required
           then (reason prefix name ''invalid_required_set'' # blockers, r) else (blockers, r)))"

text \<open>
  The maps \<open>checks\<close> and \<open>duplicates\<close>: the first check of a name is kept, a nameless check and every
  further one of the name are marked as duplicates.
\<close>

fun checks_loop ::
  "readiness_check list \<Rightarrow> readiness_check list \<Rightarrow> string list \<Rightarrow> readiness_check list \<times> string list"
  where
  "checks_loop [] kept duplicates = (kept, duplicates)"
| "checks_loop (c # cs) kept duplicates =
     (if rc_Name c = '''' \<or> rc_Name c \<in> set (map rc_Name kept)
      then checks_loop cs kept (rc_Name c # duplicates)
      else checks_loop cs (kept @ [c]) duplicates)"

definition check_outcome :: "string \<Rightarrow> string \<Rightarrow> readiness_check \<Rightarrow> string list \<times> string list" where
  "check_outcome prefix name c =
     (if rc_Status c = CheckPass
      then (if rc_EvidenceFingerprint c = '''' then [reason prefix name ''missing_evidence''] else [], [])
      else if rc_Status c = CheckFail then ([reason prefix name ''failed''], [])
      else if rc_Status c = CheckPending then ([], [reason prefix name ''pending''])
      else if rc_Status c = CheckNA
      then (if \<not> ContractAllowsNA c \<or> blank (NARationale c)
            then [reason prefix name ''na_not_authorized''] else [], [])
      else ([reason prefix name ''invalid_status''], []))"

definition required_outcome ::
  "string \<Rightarrow> readiness_check list \<Rightarrow> string list \<Rightarrow> string \<Rightarrow> string list \<times> string list" where
  "required_outcome prefix kept duplicates name =
     (case List.find (\<lambda>c. rc_Name c = name) kept of
        None \<Rightarrow> ([reason prefix name ''missing''], [])
      | Some c \<Rightarrow>
          if name \<in> set duplicates then ([reason prefix name ''duplicate''], [])
          else check_outcome prefix name c)"

definition join_outcomes :: "(string list \<times> string list) list \<Rightarrow> string list \<times> string list" where
  "join_outcomes os = (concat (map fst os), concat (map snd os))"

definition contribution_outcome :: "string \<Rightarrow> readiness_contribution \<Rightarrow> string list \<times> string list" where
  "contribution_outcome prefix c =
     (case required_loop prefix (RequiredChecks c) [] of (invalid, required) \<Rightarrow>
        case checks_loop (Checks c) [] [] of (kept, duplicates) \<Rightarrow>
          join_outcomes ((invalid, []) #
            map (\<lambda>k. (if rc_Name k \<in> set required then [] else [reason prefix (rc_Name k) ''undeclared''], []))
              kept @
            map (required_outcome prefix kept duplicates) (RequiredChecks c)))"

section \<open>The verdict\<close>

fun contributions_loop ::
  "readiness_contribution list \<Rightarrow> string list \<Rightarrow> (string list \<times> string list) list" where
  "contributions_loop [] seen = []"
| "contributions_loop (c # cs) seen =
     (let prefix = trim_space (ContributorID c)
      in if prefix = '''' \<or> rc_Version c = '''' \<or> prefix \<in> set seen
         then ([prefix @ '':invalid_contributor''], []) # contributions_loop cs seen
         else contribution_outcome prefix c # contributions_loop cs (prefix # seen))"

definition verdict_of :: "string list \<Rightarrow> string list \<Rightarrow> verdict_value" where
  "verdict_of blockers conditions =
     (if blockers \<noteq> [] then VerdictBlocked
      else if conditions \<noteq> [] then VerdictConditional else VerdictReady)"

definition EvaluateReadiness ::
  "(string \<Rightarrow> string) \<Rightarrow> string \<Rightarrow> readiness_contribution list \<Rightarrow> readiness_verdict" where
  "EvaluateReadiness sha stage cs = seal_verdict sha
     (if \<not> validReadinessStage stage \<or> cs = []
      then \<lparr>Stage = stage, Verdict = VerdictBlocked, rv_EvidenceFingerprint = '''',
            Blockers = [''readiness_evidence:missing''], Conditions = []\<rparr>
      else case join_outcomes (contributions_loop cs []) of (blockers, conditions) \<Rightarrow>
        \<lparr>Stage = stage, Verdict = verdict_of blockers conditions, rv_EvidenceFingerprint = '''',
         Blockers = sort blockers, Conditions = sort conditions\<rparr>)"

section \<open>When a run is ready\<close>

definition check_satisfied :: "readiness_check \<Rightarrow> bool" where
  "check_satisfied c \<longleftrightarrow>
     rc_Status c = CheckPass \<and> rc_EvidenceFingerprint c \<noteq> '''' \<or>
     rc_Status c = CheckNA \<and> ContractAllowsNA c \<and> \<not> blank (NARationale c)"

definition contribution_satisfied :: "readiness_contribution \<Rightarrow> bool" where
  "contribution_satisfied c \<longleftrightarrow>
     distinct (RequiredChecks c) \<and> '''' \<notin> set (RequiredChecks c) \<and>
     list_all (\<lambda>k. rc_Name k = '''' \<or> rc_Name k \<in> set (RequiredChecks c)) (Checks c) \<and>
     list_all (\<lambda>name. case filter (\<lambda>k. rc_Name k = name) (Checks c) of
         [k] \<Rightarrow> check_satisfied k | _ \<Rightarrow> False) (RequiredChecks c)"

definition contributors_valid :: "readiness_contribution list \<Rightarrow> bool" where
  "contributors_valid cs \<longleftrightarrow> distinct (map (\<lambda>c. trim_space (ContributorID c)) cs) \<and>
     list_all (\<lambda>c. \<not> blank (ContributorID c) \<and> rc_Version c \<noteq> '''') cs"

lemma required_loop_props:
  "fst (required_loop p names r) = [] \<longleftrightarrow> '''' \<notin> set names \<and> distinct names \<and> set names \<inter> set r = {}"
  "set (snd (required_loop p names r)) = set names \<union> set r"
  by (induction names arbitrary: r) (auto simp: case_prod_unfold)

lemma join_outcomes_Nil: "join_outcomes os = ([], []) \<longleftrightarrow> list_all (\<lambda>q. q = ([], [])) os"
  by (induction os) (auto simp: join_outcomes_def prod_eq_iff)

lemma check_outcome_Nil: "check_outcome p n c = ([], []) \<longleftrightarrow> check_satisfied c"
  by (auto simp: check_outcome_def check_satisfied_def CheckPass_def CheckFail_def CheckPending_def
      CheckNA_def)


text \<open>The loop keeps the first check of every name and marks exactly the repeated names.\<close>

abbreviation named :: "string \<Rightarrow> readiness_check \<Rightarrow> bool" where
  "named n \<equiv> \<lambda>c. rc_Name c = n"

lemma checks_loop_names:
  "'''' \<notin> rc_Name ` set kept \<Longrightarrow>
    rc_Name ` set (fst (checks_loop cs kept dups)) = rc_Name ` set kept \<union> (rc_Name ` set cs - {''''})"
proof (induction cs kept dups rule: checks_loop.induct)
  case (2 c cs kept dups)
  then show ?case by (cases "rc_Name c = ''''") (auto simp: insert_Diff_if insert_absorb)
qed simp

lemma find_named_append:
  "List.find (named n) (xs @ ys) =
     (if n \<in> rc_Name ` set xs then List.find (named n) xs else List.find (named n) ys)"
  by (induction xs) auto

lemma checks_loop_find:
  "n \<noteq> '''' \<Longrightarrow> List.find (named n) (fst (checks_loop cs kept dups)) = List.find (named n) (kept @ cs)"
proof (induction cs kept dups rule: checks_loop.induct)
  case (2 c cs kept dups)
  then show ?case by (auto simp: find_named_append)
qed simp

lemma filter_named_distinct:
  "distinct (map rc_Name xs) \<Longrightarrow> length (filter (named n) xs) = of_bool (n \<in> rc_Name ` set xs)"
  by (induction xs) auto

lemma checks_loop_dups:
  "distinct (map rc_Name kept) \<Longrightarrow> n \<noteq> '''' \<Longrightarrow>
    n \<in> set (snd (checks_loop cs kept dups)) \<longleftrightarrow>
      n \<in> set dups \<or> 2 \<le> length (filter (named n) (kept @ cs))"
proof (induction cs kept dups rule: checks_loop.induct)
  case (1 kept dups)
  then show ?case by (simp add: filter_named_distinct)
next
  case (2 c cs kept dups)
  then show ?case by (auto simp: filter_named_distinct)
qed

lemma find_filter: "List.find P xs = (case filter P xs of [] \<Rightarrow> None | x # _ \<Rightarrow> Some x)"
  by (induction xs) auto

definition satisfied_once :: "readiness_check list \<Rightarrow> string \<Rightarrow> bool" where
  "satisfied_once cs n \<longleftrightarrow> (case filter (named n) cs of [k] \<Rightarrow> check_satisfied k | _ \<Rightarrow> False)"

lemma required_outcome_Nil:
  assumes "n \<noteq> ''''" "checks_loop cs [] [] = (kept, dups)"
  shows "required_outcome p kept dups n = ([], []) \<longleftrightarrow> satisfied_once cs n"
proof -
  have "List.find (named n) kept = List.find (named n) cs"
    using checks_loop_find [OF assms(1), of cs "[]" "[]"] assms(2) by simp
  moreover have "n \<in> set dups \<longleftrightarrow> 2 \<le> length (filter (named n) cs)"
    using checks_loop_dups [of "[]" n cs "[]"] assms by simp
  ultimately show ?thesis
    by (auto simp: required_outcome_def satisfied_once_def find_filter check_outcome_Nil
        split: list.splits)
qed

lemma contribution_satisfied_alt:
  "contribution_satisfied c \<longleftrightarrow> distinct (RequiredChecks c) \<and> '''' \<notin> set (RequiredChecks c) \<and>
     rc_Name ` set (Checks c) - {''''} \<subseteq> set (RequiredChecks c) \<and>
     list_all (satisfied_once (Checks c)) (RequiredChecks c)"
  by (auto simp: contribution_satisfied_def list_all_iff satisfied_once_def)

lemma contribution_outcome_Nil: "contribution_outcome p c = ([], []) \<longleftrightarrow> contribution_satisfied c"
proof -
  obtain kept dups where l: "checks_loop (Checks c) [] [] = (kept, dups)" by fastforce
  have names: "rc_Name ` set kept = rc_Name ` set (Checks c) - {''''}"
    using checks_loop_names [of "[]" "Checks c" "[]"] l by simp
  obtain invalid required where r: "required_loop p (RequiredChecks c) [] = (invalid, required)" by fastforce
  have inv: "invalid = [] \<longleftrightarrow> '''' \<notin> set (RequiredChecks c) \<and> distinct (RequiredChecks c)"
    and req: "set required = set (RequiredChecks c)"
    using required_loop_props [of p "RequiredChecks c" "[]"] r by simp_all
  show ?thesis
  proof (cases "invalid = []")
    case True
    with inv have "list_all (\<lambda>n. required_outcome p kept dups n = ([], [])) (RequiredChecks c) \<longleftrightarrow>
        list_all (satisfied_once (Checks c)) (RequiredChecks c)"
      by (intro list.pred_cong refl required_outcome_Nil [OF _ l]) (use True in auto)
    moreover have "list_all (\<lambda>k. rc_Name k \<in> set required) kept \<longleftrightarrow>
        rc_Name ` set (Checks c) - {''''} \<subseteq> set (RequiredChecks c)"
      unfolding names [symmetric] req by (auto simp: list_all_iff)
    ultimately show ?thesis
      using True inv
      by (simp add: contribution_outcome_def l r join_outcomes_Nil list.pred_map comp_def
          contribution_satisfied_alt)
  next
    case False
    with inv show ?thesis
      by (auto simp: contribution_outcome_def l r join_outcomes_Nil contribution_satisfied_alt)
  qed
qed

lemma contributions_loop_Nil:
  "list_all (\<lambda>q. q = ([], [])) (contributions_loop cs seen) \<longleftrightarrow>
     contributors_valid cs \<and> (\<lambda>c. trim_space (ContributorID c)) ` set cs \<inter> set seen = {} \<and>
     list_all contribution_satisfied cs"
  by (induction cs arbitrary: seen)
    (auto simp: contributors_valid_def Let_def contribution_outcome_Nil blank_def)

text \<open>C25: A stage is \<open>READY\<close> exactly when it is one of the four stages, there is at least
  one contribution, the contributors are versioned and distinct, no contribution reports a check
  that it does not require, and every required check was reported exactly once and either passed
  with evidence or is not applicable by contract with a rationale.\<close>

theorem readiness_ready_iff:
  "Verdict (EvaluateReadiness sha stage cs) = VerdictReady \<longleftrightarrow>
     stage \<in> set readiness_stages \<and> cs \<noteq> [] \<and> contributors_valid cs \<and> list_all contribution_satisfied cs"
proof -
  have "Verdict (EvaluateReadiness sha stage cs) = VerdictReady \<longleftrightarrow>
      stage \<in> set readiness_stages \<and> cs \<noteq> [] \<and> join_outcomes (contributions_loop cs []) = ([], [])"
    by (auto simp: EvaluateReadiness_def seal_verdict_def validReadinessStage_def verdict_of_def
        split: prod.splits)
  then show ?thesis by (simp add: join_outcomes_Nil contributions_loop_Nil)
qed

end
