(* ===== verification/PB_Outbox.thy ===== *)
theory PB_Outbox
  imports Json_Decode
begin

text \<open>
  What the Product Brain delivery works on, \<open>internal/productbrain/\<close>: delivery profiles
  (\<open>delivery_profile.go\<close>), outboxes with their operations (\<open>outbox.go\<close>), preflight artifacts and
  collection contracts (\<open>preflight.go\<close>), and the readback comparisons of \<open>delivery.go\<close>.

  SHA-256, printed in hexadecimal, is \<open>sha\<close>. Values of type \<open>any\<close> are \<open>json\<close> values; their numbers are
  integers. The review context of an outbox is its marshalled form: the checks that
  \<open>ValidateOutbox\<close> makes of it, and its scan for private values, are the parameter \<open>review_ok\<close>,
  about which nothing is assumed.
\<close>

section \<open>Hashing\<close>

fun strip_fingerprint :: "json \<Rightarrow> json" where
  "strip_fingerprint (JArr xs) = JArr (map strip_fingerprint xs)"
| "strip_fingerprint (JObj fs) =
     JObj (filter (\<lambda>(k, v). k \<noteq> ''fingerprint'') (map (\<lambda>(k, v). (k, strip_fingerprint v)) fs))"
| "strip_fingerprint j = j"

definition hash_value :: "(string \<Rightarrow> string) \<Rightarrow> json \<Rightarrow> string" where
  "hash_value sha j = sha (encode (canonical_json (strip_fingerprint j)))"

text \<open>\<open>canonicalEqual\<close> of two values of type \<open>any\<close>: maps are marshalled with sorted keys.\<close>

definition canonical_equal :: "json \<Rightarrow> json \<Rightarrow> bool" where
  "canonical_equal a b \<longleftrightarrow> encode (canonical_json a) = encode (canonical_json b)"

section \<open>Delivery profiles\<close>

definition ProductionGatewayOrigin :: string where
  "ProductionGatewayOrigin = ''https://gateway.productbrain.io''"

definition DeliveryProfileSchema :: string where
  "DeliveryProfileSchema = ''productbrain-delivery-profile/v0.1''"

record role_mapping =
  rm_CollectionSlug :: string
  rm_IDPrefix :: string

record review_policy =
  CredentialLifecycle :: string
  PrivateRuntimeLifecycle :: string

record delivery_profile =
  dp_SchemaVersion :: string
  dp_ProfileID :: string
  dp_ExpectedID :: string
  dp_ExpectedSlug :: string
  dp_Kind :: string
  dp_BaseURL :: string
  dp_APIPath :: string
  dp_Provider :: string
  dp_Name :: string
  dp_ExpectedKeyID :: string
  dp_RoleMappings :: "(string \<times> role_mapping) list"
  dp_RelationMappings :: smap
  dp_DraftOnly :: bool
  dp_ReviewPolicy :: "review_policy option"

definition json_of_role_mappings :: "(string \<times> role_mapping) list \<Rightarrow> json" where
  "json_of_role_mappings m = JObj (map (\<lambda>(k, r). (k, JObj
     [(''collection_slug'', JStr (rm_CollectionSlug r)), (''id_prefix'', JStr (rm_IDPrefix r))]))
     (sort_key fst m))"

definition json_of_review_policy :: "review_policy option \<Rightarrow> (string \<times> json) list" where
  "json_of_review_policy p = (case p of None \<Rightarrow> [] | Some r \<Rightarrow> [(''review_policy'', JObj
     [(''credential_lifecycle'', JStr (CredentialLifecycle r)),
      (''private_runtime_lifecycle'', JStr (PrivateRuntimeLifecycle r))])])"

definition json_of_delivery_profile :: "delivery_profile \<Rightarrow> json" where
  "json_of_delivery_profile p = JObj
     ([(''schema_version'', JStr (dp_SchemaVersion p)), (''profile_id'', JStr (dp_ProfileID p)),
       (''workspace'', JObj [(''expected_id'', JStr (dp_ExpectedID p)),
          (''expected_slug'', JStr (dp_ExpectedSlug p))]),
       (''transport'', JObj [(''kind'', JStr (dp_Kind p)), (''base_url'', JStr (dp_BaseURL p)),
          (''api_path'', JStr (dp_APIPath p))]),
       (''credential'', JObj [(''provider'', JStr (dp_Provider p)), (''name'', JStr (dp_Name p)),
          (''expected_key_id'', JStr (dp_ExpectedKeyID p))]),
       (''role_mappings'', json_of_role_mappings (dp_RoleMappings p)),
       (''relation_mappings'', json_of_string_map (dp_RelationMappings p)),
       (''draft_only'', JBool (dp_DraftOnly p))] @ json_of_review_policy (dp_ReviewPolicy p))"

definition allowed_roles :: "string list" where
  "allowed_roles = [''external_entity'', ''evidence_backed_finding'', ''unresolved_tension'']"

definition review_policy_ok :: "review_policy option \<Rightarrow> bool" where
  "review_policy_ok p = (case p of None \<Rightarrow> True | Some r \<Rightarrow>
     \<not> (CredentialLifecycle r \<noteq> ''persistent'' \<and> CredentialLifecycle r \<noteq> ''retire_after_review'') \<and>
     \<not> (PrivateRuntimeLifecycle r \<noteq> ''retain'' \<and> PrivateRuntimeLifecycle r \<noteq> ''cleanup_after_review''))"

definition relation_mappings_ok :: "smap \<Rightarrow> bool" where
  "relation_mappings_ok m \<longleftrightarrow> length m = 1 \<and> map_get m ''related_to'' = ''related_to''"

definition ValidateDeliveryProfile :: "delivery_profile \<Rightarrow> bool" where
  "ValidateDeliveryProfile p \<longleftrightarrow>
     \<not> (dp_SchemaVersion p \<noteq> DeliveryProfileSchema \<or> blank (dp_ProfileID p)) \<and>
     \<not> (dp_ExpectedID p = '''' \<or> dp_ExpectedSlug p = '''' \<or> dp_ExpectedKeyID p = '''') \<and>
     \<not> (dp_Kind p \<noteq> ''aki'' \<or> dp_APIPath p \<noteq> ''/api/aki'') \<and>
     \<not> (dp_Provider p \<noteq> ''environment'' \<or> dp_Name p \<noteq> ''MINDLINE_PRODUCT_BRAIN_API_KEY'') \<and>
     dp_DraftOnly p \<and> review_policy_ok (dp_ReviewPolicy p) \<and>
     length (dp_RoleMappings p) = length allowed_roles \<and>
     list_all (\<lambda>(role, m). \<not> (role \<notin> set allowed_roles \<or> rm_CollectionSlug m = '''' \<or>
       rm_IDPrefix m = '''')) (dp_RoleMappings p) \<and>
     relation_mappings_ok (dp_RelationMappings p)"

section \<open>Outboxes\<close>

record profile_snapshot =
  ps_ProfileID :: string
  ps_TransportKind :: string
  ps_TransportAPIPath :: string
  ps_ExpectedOrigin :: string
  ps_ExpectedWorkspaceID :: string
  ps_ExpectedWorkspaceSlug :: string
  ps_ExpectedKeyID :: string
  ps_DraftOnly :: bool
  ps_RoleMappings :: "(string \<times> role_mapping) list"
  ps_RelationMappings :: smap
  ps_ReviewPolicy :: "review_policy option"

record entry_operation =
  en_CollectionSlug :: string
  en_EntryID :: string
  en_Name :: string
  en_Data :: json
  en_SourceRef :: string
  en_SourceExcerpt :: string
  en_CreatedBy :: string
  en_ForceDraft :: bool

record relation_operation =
  re_RelationIdentity :: string
  re_FromEntryID :: string
  re_ToEntryID :: string
  re_Type :: string
  re_Metadata :: json
  re_IfMissing :: bool

record outbox_operation =
  oo_OperationID :: string
  oo_Kind :: string
  oo_Dependencies :: "string slice"
  oo_PayloadFingerprint :: string
  oo_Entry :: "entry_operation option"
  oo_Relation :: "relation_operation option"

record outbox =
  ob_SchemaVersion :: string
  ob_Fingerprint :: string
  ob_RoutingFingerprint :: string
  ob_ProfileFingerprint :: string
  ob_ProfileSnapshot :: profile_snapshot
  ob_ReviewContext :: json
  ob_Operations :: "outbox_operation slice"
  ob_PrivacyFindings :: json
  ob_OperatorJudged :: bool
  ob_HeldOut :: bool
  ob_Generalizable :: bool
  ob_AutonomyClaim :: bool

definition json_of_snapshot :: "profile_snapshot \<Rightarrow> json" where
  "json_of_snapshot s = JObj
     ([(''profile_id'', JStr (ps_ProfileID s))] @
      opt_field (ps_TransportKind s \<noteq> '''') ''transport_kind'' (JStr (ps_TransportKind s)) @
      opt_field (ps_TransportAPIPath s \<noteq> '''') ''transport_api_path'' (JStr (ps_TransportAPIPath s)) @
      [(''expected_origin'', JStr (ps_ExpectedOrigin s)),
       (''expected_workspace_id'', JStr (ps_ExpectedWorkspaceID s)),
       (''expected_workspace_slug'', JStr (ps_ExpectedWorkspaceSlug s)),
       (''expected_key_id'', JStr (ps_ExpectedKeyID s)), (''draft_only'', JBool (ps_DraftOnly s)),
       (''role_mappings'', json_of_role_mappings (ps_RoleMappings s)),
       (''relation_mappings'', json_of_string_map (ps_RelationMappings s))] @
      json_of_review_policy (ps_ReviewPolicy s))"

definition json_of_entry :: "entry_operation \<Rightarrow> json" where
  "json_of_entry e = JObj
     [(''collection_slug'', JStr (en_CollectionSlug e)), (''entry_id'', JStr (en_EntryID e)),
      (''name'', JStr (en_Name e)), (''data'', en_Data e), (''source_ref'', JStr (en_SourceRef e)),
      (''source_excerpt'', JStr (en_SourceExcerpt e)), (''created_by'', JStr (en_CreatedBy e)),
      (''force_draft'', JBool (en_ForceDraft e))]"

definition json_of_relation :: "relation_operation \<Rightarrow> json" where
  "json_of_relation r = JObj
     [(''relation_identity'', JStr (re_RelationIdentity r)), (''from_entry_id'', JStr (re_FromEntryID r)),
      (''to_entry_id'', JStr (re_ToEntryID r)), (''type'', JStr (re_Type r)),
      (''metadata'', re_Metadata r), (''if_missing'', JBool (re_IfMissing r))]"

definition json_of_outbox_operation :: "outbox_operation \<Rightarrow> json" where
  "json_of_outbox_operation x = JObj
     ([(''operation_id'', JStr (oo_OperationID x)), (''kind'', JStr (oo_Kind x)),
       (''dependencies'', json_of_slice JStr (oo_Dependencies x)),
       (''payload_fingerprint'', JStr (oo_PayloadFingerprint x))] @
      (case oo_Entry x of None \<Rightarrow> [] | Some e \<Rightarrow> [(''entry'', json_of_entry e)]) @
      (case oo_Relation x of None \<Rightarrow> [] | Some r \<Rightarrow> [(''relation'', json_of_relation r)]))"

definition json_of_outbox :: "outbox \<Rightarrow> json" where
  "json_of_outbox b = JObj
     [(''schema_version'', JStr (ob_SchemaVersion b)), (''fingerprint'', JStr (ob_Fingerprint b)),
      (''routing_fingerprint'', JStr (ob_RoutingFingerprint b)),
      (''profile_fingerprint'', JStr (ob_ProfileFingerprint b)),
      (''delivery_profile_snapshot'', json_of_snapshot (ob_ProfileSnapshot b)),
      (''review_context'', ob_ReviewContext b),
      (''operations'', json_of_slice json_of_outbox_operation (ob_Operations b)),
      (''privacy_findings'', ob_PrivacyFindings b), (''operator_judged'', JBool (ob_OperatorJudged b)),
      (''held_out'', JBool (ob_HeldOut b)), (''generalizable'', JBool (ob_Generalizable b)),
      (''autonomy_claim'', JBool (ob_AutonomyClaim b))]"

abbreviation operations :: "outbox \<Rightarrow> outbox_operation list" where
  "operations b \<equiv> slice_list (ob_Operations b)"

definition OutboxSchema :: string where
  "OutboxSchema = ''productbrain-outbox/v0.1''"

definition ExpectedCreatedBy :: string where
  "ExpectedCreatedBy = ''mindline:agent-operator''"

definition legacyDeliveredOutboxFingerprint :: string where
  "legacyDeliveredOutboxFingerprint =
     ''4dabd8cc6b0c67f3b19173b0a80c425c2ee4ec3ab8b1fe80ea16959baf1f5020''"

definition outboxOperationFingerprint :: "(string \<Rightarrow> string) \<Rightarrow> outbox_operation \<Rightarrow> string" where
  "outboxOperationFingerprint sha x =
     hash_value sha (json_of_outbox_operation (x\<lparr>oo_PayloadFingerprint := ''''\<rparr>))"

definition DeliveryProfileFromSnapshot :: "profile_snapshot \<Rightarrow> delivery_profile" where
  "DeliveryProfileFromSnapshot s =
     \<lparr>dp_SchemaVersion = DeliveryProfileSchema, dp_ProfileID = ps_ProfileID s,
      dp_ExpectedID = ps_ExpectedWorkspaceID s, dp_ExpectedSlug = ps_ExpectedWorkspaceSlug s,
      dp_Kind = (if ps_TransportKind s = '''' then ''aki'' else ps_TransportKind s),
      dp_BaseURL = ps_ExpectedOrigin s,
      dp_APIPath = (if ps_TransportAPIPath s = '''' then ''/api/aki'' else ps_TransportAPIPath s),
      dp_Provider = ''environment'', dp_Name = ''MINDLINE_PRODUCT_BRAIN_API_KEY'',
      dp_ExpectedKeyID = ps_ExpectedKeyID s, dp_RoleMappings = ps_RoleMappings s,
      dp_RelationMappings = ps_RelationMappings s, dp_DraftOnly = ps_DraftOnly s,
      dp_ReviewPolicy = ps_ReviewPolicy s\<rparr>"

definition validateProfileSnapshot :: "profile_snapshot \<Rightarrow> string \<Rightarrow> bool" where
  "validateProfileSnapshot s outbox_fingerprint \<longleftrightarrow>
     \<not> (ps_ProfileID s = '''' \<or> ps_ExpectedOrigin s \<noteq> ProductionGatewayOrigin \<or>
        ps_ExpectedWorkspaceID s = '''' \<or> ps_ExpectedWorkspaceSlug s = '''' \<or>
        ps_ExpectedKeyID s = '''' \<or> \<not> ps_DraftOnly s) \<and>
     (ps_TransportKind s = ''aki'' \<and> ps_TransportAPIPath s = ''/api/aki'' \<or>
      ps_TransportKind s = '''' \<and> ps_TransportAPIPath s = '''' \<and>
        outbox_fingerprint = legacyDeliveredOutboxFingerprint) \<and>
     length (ps_RoleMappings s) = length allowed_roles \<and>
     list_all (\<lambda>(role, m). \<not> (role \<notin> set allowed_roles \<or> blank (rm_CollectionSlug m) \<or>
       blank (rm_IDPrefix m))) (ps_RoleMappings s) \<and>
     \<not> has_dup (map (\<lambda>(role, m). rm_CollectionSlug m) (ps_RoleMappings s)) \<and>
     relation_mappings_ok (ps_RelationMappings s) \<and> review_policy_ok (ps_ReviewPolicy s)"

text \<open>\<open>fmt.Sprint\<close> of a value that is no string is never blank.\<close>

definition sprint_blank :: "json \<Rightarrow> bool" where
  "sprint_blank j = (case j of JStr s \<Rightarrow> blank s | _ \<Rightarrow> False)"

definition validStringList :: "json \<Rightarrow> bool" where
  "validStringList j = (case j of JArr xs \<Rightarrow>
     xs \<noteq> [] \<and> list_all (\<lambda>x. case x of JStr s \<Rightarrow> \<not> blank s | _ \<Rightarrow> False) xs \<and> \<not> has_dup xs | _ \<Rightarrow> False)"

definition metadata_keys :: "string list" where
  "metadata_keys = [''evidence_refs'', ''lens_refs'', ''rationale'', ''initiator_type'',
     ''judgment_method'', ''credential_key_id'']"

definition json_fields :: "json \<Rightarrow> (string \<times> json) list" where
  "json_fields j = (case j of JObj fs \<Rightarrow> fs | _ \<Rightarrow> [])"

definition json_key :: "string \<Rightarrow> json \<Rightarrow> json" where
  "json_key k j = (case map_of (json_fields j) k of None \<Rightarrow> JNull | Some v \<Rightarrow> v)"

definition validRelationMetadata :: "json \<Rightarrow> string \<Rightarrow> bool" where
  "validRelationMetadata m key_id \<longleftrightarrow>
     length (json_fields m) = length metadata_keys \<and>
     list_all (\<lambda>(k, v). k \<in> set metadata_keys) (json_fields m) \<and>
     \<not> (json_key ''initiator_type'' m \<noteq> JStr ''agent_operator'' \<or>
        json_key ''judgment_method'' m \<noteq> JStr ''operator_agent_review'' \<or>
        json_key ''credential_key_id'' m \<noteq> JStr key_id \<or> sprint_blank (json_key ''rationale'' m)) \<and>
     validStringList (json_key ''evidence_refs'' m) \<and> validStringList (json_key ''lens_refs'' m)"


section \<open>Validation of outboxes\<close>

definition relation_identity :: "(string \<Rightarrow> string) \<Rightarrow> string \<Rightarrow> string \<Rightarrow> string \<Rightarrow> string" where
  "relation_identity sha from typ to =
     sha (''mindline/relation/v0.1|'' @ from @ ''|'' @ typ @ ''|'' @ to)"

definition entry_operation_ok :: "outbox_operation \<Rightarrow> bool" where
  "entry_operation_ok x = (case oo_Entry x of None \<Rightarrow> False | Some e \<Rightarrow>
     \<not> (oo_Relation x \<noteq> None \<or> slice_list (oo_Dependencies x) \<noteq> [] \<or> en_CollectionSlug e = '''' \<or>
        en_EntryID e = '''' \<or> en_Name e = '''' \<or> en_CreatedBy e \<noteq> ExpectedCreatedBy \<or>
        \<not> en_ForceDraft e))"

definition relation_operation_ok :: "(string \<Rightarrow> string) \<Rightarrow> string \<Rightarrow> outbox_operation \<Rightarrow> bool" where
  "relation_operation_ok sha key_id x = (case oo_Relation x of None \<Rightarrow> False | Some r \<Rightarrow>
     \<not> (oo_Entry x \<noteq> None \<or> length (slice_list (oo_Dependencies x)) \<noteq> 2 \<or>
        re_RelationIdentity r = '''' \<or> re_FromEntryID r = '''' \<or> re_ToEntryID r = '''' \<or>
        re_Type r = '''' \<or> \<not> re_IfMissing r \<or> \<not> validRelationMetadata (re_Metadata r) key_id) \<and>
     re_RelationIdentity r = relation_identity sha (re_FromEntryID r) (re_Type r) (re_ToEntryID r) \<and>
     oo_OperationID x = ''op-relation-'' @ re_RelationIdentity r)"

definition operation_ok :: "(string \<Rightarrow> string) \<Rightarrow> string \<Rightarrow> outbox_operation \<Rightarrow> bool" where
  "operation_ok sha key_id x \<longleftrightarrow>
     \<not> (oo_OperationID x = '''' \<or> oo_PayloadFingerprint x = '''' \<or>
        oo_PayloadFingerprint x \<noteq> outboxOperationFingerprint sha x) \<and>
     (if oo_Kind x = ''entry'' then entry_operation_ok x
      else if oo_Kind x = ''relation'' then relation_operation_ok sha key_id x else False)"

definition entry_id_of :: "outbox_operation \<Rightarrow> string" where
  "entry_id_of x = (case oo_Entry x of None \<Rightarrow> '''' | Some e \<Rightarrow> en_EntryID e)"

definition entry_operations :: "outbox_operation list \<Rightarrow> outbox_operation list" where
  "entry_operations ops = filter (\<lambda>x. oo_Kind x = ''entry'') ops"

text \<open>\<open>entryOperationByEntryID[id]\<close>, with the empty string for a missing key.\<close>

definition operation_of_entry :: "outbox_operation list \<Rightarrow> string \<Rightarrow> string" where
  "operation_of_entry ops entry_id =
     (case map_of (map (\<lambda>x. (entry_id_of x, oo_OperationID x)) (entry_operations ops)) entry_id of
        None \<Rightarrow> '''' | Some k \<Rightarrow> k)"

definition dependencies_ok :: "outbox_operation list \<Rightarrow> outbox_operation \<Rightarrow> bool" where
  "dependencies_ok ops x \<longleftrightarrow>
     list_all (\<lambda>k. \<not> (k = '''' \<or> k \<notin> set (map oo_OperationID (entry_operations ops))))
       (slice_list (oo_Dependencies x)) \<and>
     \<not> has_dup (slice_list (oo_Dependencies x)) \<and>
     (if oo_Kind x = ''relation''
      then (case oo_Relation x of None \<Rightarrow> False | Some r \<Rightarrow>
        let expected = sort [operation_of_entry ops (re_FromEntryID r),
                             operation_of_entry ops (re_ToEntryID r)]
        in \<not> (hd expected = '''' \<or> last expected = '''') \<and> expected = sort (slice_list (oo_Dependencies x)))
      else True)"

definition ValidateOutbox :: "(string \<Rightarrow> string) \<Rightarrow> (outbox \<Rightarrow> bool) \<Rightarrow> outbox \<Rightarrow> bool" where
  "ValidateOutbox sha review_ok b \<longleftrightarrow>
     \<not> (ob_SchemaVersion b \<noteq> OutboxSchema \<or> ob_Fingerprint b = '''' \<or>
        ob_Fingerprint b \<noteq> hash_value sha (json_of_outbox b)) \<and>
     \<not> (ob_RoutingFingerprint b = '''' \<or> ob_ProfileFingerprint b = '''' \<or>
        \<not> validateProfileSnapshot (ob_ProfileSnapshot b) (ob_Fingerprint b) \<or>
        \<not> ob_OperatorJudged b \<or> ob_HeldOut b \<or> ob_Generalizable b \<or> ob_AutonomyClaim b) \<and>
     (let profile = DeliveryProfileFromSnapshot (ob_ProfileSnapshot b)
      in ValidateDeliveryProfile profile \<and>
         ob_ProfileFingerprint b = hash_value sha (json_of_delivery_profile profile)) \<and>
     list_all (operation_ok sha (ps_ExpectedKeyID (ob_ProfileSnapshot b))) (operations b) \<and>
     \<not> has_dup (map oo_OperationID (operations b)) \<and>
     \<not> has_dup (map entry_id_of (entry_operations (operations b))) \<and>
     list_all (dependencies_ok (operations b)) (operations b) \<and> review_ok b"

section \<open>Collection contracts and preflight\<close>

record collection_field =
  cf_Key :: string
  cf_Type :: string
  cf_Required :: bool
  cf_Options :: "string list"

record collection_capability =
  cc_Found :: bool
  cc_Slug :: string
  cc_Fields :: "collection_field list"

record workspace_capability =
  wc_ID :: string
  wc_Slug :: string
  wc_GovernanceMode :: string
  wc_KeyScope :: string
  wc_KeyID :: string

record preflight_gate =
  pg_Name :: string
  pg_Verdict :: string
  pg_Actual :: string

record preflight_artifact =
  pa_SchemaVersion :: string
  pa_Fingerprint :: string
  pa_OutboxFingerprint :: string
  pa_ProfileFingerprint :: string
  pa_ExpectedOrigin :: string
  pa_Workspace :: workspace_capability
  pa_CollectionContracts :: "(string \<times> string) slice" \<comment> \<open>slug and fingerprint\<close>
  pa_Gates :: "preflight_gate slice"
  pa_MutationCalls :: int
  pa_Verdict :: string

definition json_of_collection_field :: "collection_field \<Rightarrow> json" where
  "json_of_collection_field f = JObj
     ([(''key'', JStr (cf_Key f)), (''type'', JStr (cf_Type f)), (''required'', JBool (cf_Required f))] @
      opt_field (cf_Options f \<noteq> []) ''options'' (json_of_strings (cf_Options f)))"

definition json_of_collection :: "collection_capability \<Rightarrow> json" where
  "json_of_collection c = JObj
     ([(''found'', JBool (cc_Found c))] @
      opt_field (cc_Slug c \<noteq> '''') ''slug'' (JStr (cc_Slug c)) @
      opt_field (cc_Fields c \<noteq> []) ''fields'' (JArr (map json_of_collection_field (cc_Fields c))))"

definition json_of_workspace :: "workspace_capability \<Rightarrow> json" where
  "json_of_workspace w = JObj
     [(''id'', JStr (wc_ID w)), (''slug'', JStr (wc_Slug w)),
      (''governance_mode'', JStr (wc_GovernanceMode w)), (''key_scope'', JStr (wc_KeyScope w)),
      (''key_id'', JStr (wc_KeyID w))]"

definition json_of_gate :: "preflight_gate \<Rightarrow> json" where
  "json_of_gate g = JObj
     ([(''name'', JStr (pg_Name g)), (''verdict'', JStr (pg_Verdict g))] @
      opt_field (pg_Actual g \<noteq> '''') ''actual'' (JStr (pg_Actual g)))"

definition json_of_preflight :: "preflight_artifact \<Rightarrow> json" where
  "json_of_preflight p = JObj
     [(''schema_version'', JStr (pa_SchemaVersion p)), (''fingerprint'', JStr (pa_Fingerprint p)),
      (''outbox_fingerprint'', JStr (pa_OutboxFingerprint p)),
      (''profile_fingerprint'', JStr (pa_ProfileFingerprint p)),
      (''expected_origin'', JStr (pa_ExpectedOrigin p)),
      (''workspace'', json_of_workspace (pa_Workspace p)),
      (''collection_contracts'', json_of_slice (\<lambda>(slug, fp). JObj
         [(''slug'', JStr slug), (''fingerprint'', JStr fp)]) (pa_CollectionContracts p)),
      (''gates'', json_of_slice json_of_gate (pa_Gates p)),
      (''mutation_calls'', JInt (pa_MutationCalls p)), (''verdict'', JStr (pa_Verdict p))]"

definition PreflightSchema :: string where
  "PreflightSchema = ''productbrain-preflight/v0.1''"

definition validGovernanceMode :: "string \<Rightarrow> bool" where
  "validGovernanceMode v \<longleftrightarrow> v = ''open'' \<or> v = ''consensus'' \<or> v = ''role''"

definition outboxCollectionSlugs :: "outbox \<Rightarrow> string list" where
  "outboxCollectionSlugs b = sort (remdups (concat (map (\<lambda>x.
     case oo_Entry x of None \<Rightarrow> [] | Some e \<Rightarrow> [en_CollectionSlug e]) (operations b))))"

definition supportedCollectionFieldType :: "string \<Rightarrow> bool" where
  "supportedCollectionFieldType t \<longleftrightarrow>
     t \<in> set [''select'', ''string'', ''text'', ''date'', ''number'', ''boolean'', ''person'']"

definition validCollectionFieldOptions :: "collection_field \<Rightarrow> bool" where
  "validCollectionFieldOptions f =
     (if cf_Type f \<noteq> ''select'' then cf_Options f = []
      else cf_Options f \<noteq> [] \<and> list_all (\<lambda>x. \<not> blank x) (cf_Options f) \<and>
        sorted_wrt (<) (cf_Options f))"

definition collectionFieldValueValid :: "collection_field \<Rightarrow> json \<Rightarrow> bool" where
  "collectionFieldValueValid f v =
     (if cf_Type f = ''select'' then (case v of JStr s \<Rightarrow> s \<in> set (cf_Options f) | _ \<Rightarrow> False)
      else if cf_Type f \<in> set [''string'', ''text'', ''date'', ''person'']
      then (case v of JStr _ \<Rightarrow> True | _ \<Rightarrow> False)
      else if cf_Type f = ''number'' then (case v of JInt _ \<Rightarrow> True | _ \<Rightarrow> False)
      else if cf_Type f = ''boolean'' then (case v of JBool _ \<Rightarrow> True | _ \<Rightarrow> False)
      else False)"


definition entry_data_ok :: "collection_field list \<Rightarrow> entry_operation \<Rightarrow> bool" where
  "entry_data_ok flds e \<longleftrightarrow>
     list_all (\<lambda>(k, v). case List.find (\<lambda>f. cf_Key f = k) flds of
         None \<Rightarrow> False | Some f \<Rightarrow> collectionFieldValueValid f v) (json_fields (en_Data e)) \<and>
     list_all (\<lambda>f. cf_Required f \<longrightarrow> (case map_of (json_fields (en_Data e)) (cf_Key f) of
         None \<Rightarrow> False
       | Some v \<Rightarrow> collectionFieldValueValid f v \<and>
           \<not> ((cf_Type f = ''string'' \<or> cf_Type f = ''text'') \<and> sprint_blank v))) flds"

definition validateOutboxCollectionContract :: "outbox \<Rightarrow> string \<Rightarrow> collection_capability \<Rightarrow> bool" where
  "validateOutboxCollectionContract b slug c \<longleftrightarrow>
     \<not> (\<not> cc_Found c \<or> cc_Slug c \<noteq> slug) \<and>
     list_all (\<lambda>f. \<not> (blank (cf_Key f) \<or> \<not> supportedCollectionFieldType (cf_Type f) \<or>
       \<not> validCollectionFieldOptions f)) (cc_Fields c) \<and>
     \<not> has_dup (map cf_Key (cc_Fields c)) \<and>
     list_all (\<lambda>x. case oo_Entry x of
         None \<Rightarrow> True
       | Some e \<Rightarrow> en_CollectionSlug e = slug \<longrightarrow> entry_data_ok (cc_Fields c) e) (operations b)"

definition expected_gates :: "preflight_artifact \<Rightarrow> (string \<times> string) list" where
  "expected_gates p =
     [(''trusted_origin'', pa_ExpectedOrigin p), (''runtime_secret_scan'', ''zero findings''),
      (''workspace_id'', wc_ID (pa_Workspace p)), (''workspace_slug'', wc_Slug (pa_Workspace p)),
      (''governance_mode'', wc_GovernanceMode (pa_Workspace p)),
      (''key_scope'', wc_KeyScope (pa_Workspace p)), (''key_id'', wc_KeyID (pa_Workspace p))] @
     map (\<lambda>(slug, fp). (''collection_contract:'' @ slug, fp)) (slice_list (pa_CollectionContracts p))"

definition validatePreflightGateSet :: "preflight_artifact \<Rightarrow> bool" where
  "validatePreflightGateSet p \<longleftrightarrow>
     (let w = pa_Workspace p; contracts = slice_list (pa_CollectionContracts p);
          gates = slice_list (pa_Gates p)
      in \<not> (pa_ExpectedOrigin p \<noteq> ProductionGatewayOrigin \<or> wc_ID w = '''' \<or> wc_Slug w = '''' \<or>
            wc_KeyID w = '''' \<or> wc_KeyScope w \<noteq> ''readwrite'' \<or>
            \<not> validGovernanceMode (wc_GovernanceMode w)) \<and>
         list_all (\<lambda>(slug, fp). \<not> (slug = '''' \<or> fp = '''')) contracts \<and>
         sorted_wrt (<) (map fst contracts) \<and>
         contracts \<noteq> [] \<and> length gates = length (expected_gates p) \<and>
         list_all (\<lambda>g. map_of (expected_gates p) (pg_Name g) = Some (pg_Actual g) \<and>
           pg_Verdict g = ''pass'') gates \<and>
         \<not> has_dup (map pg_Name gates))"

datatype pb_error =
    ErrApprovedDeliveryCancelled | ErrApprovedDeliveryAmbiguous | ErrApprovalExpired
  | ErrAttemptBudgetExhausted | ErrWriteBudgetExhausted | ErrNotExist
  | PbError string \<comment> \<open>the text of \<open>errors.New\<close>\<close>
  | TransportError string bool \<comment> \<open>category, and whether the call may have committed\<close>
  | LocalIOError | HookError

definition ValidatePreflight ::
  "(string \<Rightarrow> string) \<Rightarrow> (outbox \<Rightarrow> bool) \<Rightarrow> preflight_artifact \<Rightarrow> outbox \<Rightarrow> delivery_profile
    \<Rightarrow> pb_error option" where
  "ValidatePreflight sha review_ok p b profile =
     (let w = pa_Workspace p; slugs = outboxCollectionSlugs b;
          contracts = slice_list (pa_CollectionContracts p)
      in if \<not> ValidateOutbox sha review_ok b then Some (PbError ''invalid outbox'')
         else if \<not> ValidateDeliveryProfile profile \<or> pa_SchemaVersion p \<noteq> PreflightSchema \<or>
              pa_Fingerprint p \<noteq> hash_value sha (json_of_preflight p) \<or> \<not> validatePreflightGateSet p
         then Some (PbError ''invalid preflight artifact'')
         else if pa_OutboxFingerprint p \<noteq> ob_Fingerprint b \<or>
              pa_ProfileFingerprint p \<noteq> hash_value sha (json_of_delivery_profile profile) \<or>
              pa_ExpectedOrigin p \<noteq> dp_BaseURL profile \<or> wc_ID w \<noteq> dp_ExpectedID profile \<or>
              wc_Slug w \<noteq> dp_ExpectedSlug profile \<or> wc_KeyID w \<noteq> dp_ExpectedKeyID profile \<or>
              wc_KeyScope w \<noteq> ''readwrite'' \<or> \<not> validGovernanceMode (wc_GovernanceMode w)
         then Some (PbError ''outbox_state_mismatch'')
         else if pa_MutationCalls p \<noteq> 0 \<or> pa_Verdict p \<noteq> ''pass''
         then Some (PbError ''capability_missing'')
         else if length contracts \<noteq> length slugs \<or>
              \<not> list_all2 (\<lambda>(slug, fp) expected. \<not> (slug \<noteq> expected \<or> fp = '''')) contracts slugs
         then Some (PbError ''collection_contract_mismatch'')
         else None)"

definition checkCapability :: "workspace_capability \<Rightarrow> delivery_profile \<Rightarrow> pb_error option" where
  "checkCapability w p =
     (if wc_ID w \<noteq> dp_ExpectedID p \<or> wc_Slug w \<noteq> dp_ExpectedSlug p \<or> wc_KeyScope w \<noteq> ''readwrite'' \<or>
         wc_KeyID w \<noteq> dp_ExpectedKeyID p
      then Some (PbError ''workspace_mismatch'')
      else if validGovernanceMode (wc_GovernanceMode w) then None
      else Some (PbError ''capability_missing''))"

section \<open>Readbacks\<close>

record entry_readback =
  er_Found :: bool
  er_DocID :: string
  er_EntryID :: string
  er_CollectionSlug :: string
  er_Name :: string
  er_Status :: string
  er_Data :: json
  er_SourceRef :: string
  er_SourceExcerpt :: string
  er_CreatedBy :: string

record relation_readback =
  rr_RelationID :: string
  rr_FromDocID :: string
  rr_ToDocID :: string
  rr_Type :: string
  rr_Metadata :: json

definition json_of_readback :: "entry_readback \<Rightarrow> json" where
  "json_of_readback e = JObj
     ([(''found'', JBool (er_Found e))] @
      opt_field (er_DocID e \<noteq> '''') ''doc_id'' (JStr (er_DocID e)) @
      opt_field (er_EntryID e \<noteq> '''') ''entry_id'' (JStr (er_EntryID e)) @
      opt_field (er_CollectionSlug e \<noteq> '''') ''collection_slug'' (JStr (er_CollectionSlug e)) @
      opt_field (er_Name e \<noteq> '''') ''name'' (JStr (er_Name e)) @
      opt_field (er_Status e \<noteq> '''') ''status'' (JStr (er_Status e)) @
      opt_field (json_fields (er_Data e) \<noteq> []) ''data'' (er_Data e) @
      opt_field (er_SourceRef e \<noteq> '''') ''source_ref'' (JStr (er_SourceRef e)) @
      opt_field (er_SourceExcerpt e \<noteq> '''') ''source_excerpt'' (JStr (er_SourceExcerpt e)) @
      opt_field (er_CreatedBy e \<noteq> '''') ''created_by'' (JStr (er_CreatedBy e)))"

definition compareEntry :: "entry_readback \<Rightarrow> entry_operation \<Rightarrow> bool" where
  "compareEntry a e \<longleftrightarrow>
     \<not> (\<not> er_Found a \<or> er_EntryID a \<noteq> en_EntryID e \<or> er_CollectionSlug a \<noteq> en_CollectionSlug e \<or>
        er_Name a \<noteq> en_Name e \<or> er_Status a \<noteq> ''draft'' \<or> er_SourceRef a \<noteq> en_SourceRef e \<or>
        er_SourceExcerpt a \<noteq> en_SourceExcerpt e \<or> er_CreatedBy a \<noteq> en_CreatedBy e \<or>
        \<not> canonical_equal (er_Data a) (en_Data e))"

text \<open>The relations of the expected identity, and whether exactly one of them matches.\<close>

definition same_relation :: "string \<Rightarrow> string \<Rightarrow> relation_operation \<Rightarrow> relation_readback \<Rightarrow> bool" where
  "same_relation from_doc to_doc r x \<longleftrightarrow>
     rr_FromDocID x = from_doc \<and> rr_ToDocID x = to_doc \<and> rr_Type x = re_Type r"

definition findRelation ::
  "relation_readback list \<Rightarrow> string \<Rightarrow> string \<Rightarrow> relation_operation \<Rightarrow> bool \<times> string \<times> bool" where
  "findRelation xs from_doc to_doc r =
     (let same = filter (same_relation from_doc to_doc r) xs;
          matches = filter (\<lambda>x. canonical_equal (rr_Metadata x) (re_Metadata r)) same
      in if length same = 1 \<and> length matches = 1 then (True, rr_RelationID (last matches), False)
         else (False, '''', length same > 0))"

end
