(* ===== verification/PB_Approval.thy ===== *)
theory PB_Approval
  imports PB_Outbox Private_IO
begin

text \<open>
  Approvals of Product Brain deliveries and the durable delivery state,
  \<open>internal/productbrain/approved_delivery.go\<close> and \<open>approved_delivery_store.go\<close>: the batch with its
  human approval, the state with its operations and mutation attempts, and their validation.

  \<open>pt\<close> is \<open>time.Parse\<close> with \<open>RFC3339Nano\<close> and gives nanoseconds since Go's zero time; \<open>ft\<close> formats.
  Counters are integers: they are bounded by the number of operations and never come near a
  machine limit.
\<close>

section \<open>Approvals\<close>

definition DeliveryApprovalSchema :: string where
  "DeliveryApprovalSchema = ''productbrain-delivery-approval/v0.1''"
definition HumanInitiationEvidenceSchema :: string where
  "HumanInitiationEvidenceSchema = ''productbrain-human-initiation-evidence/v0.1''"
definition ApprovedDeliveryAuthoritySchema :: string where
  "ApprovedDeliveryAuthoritySchema = ''productbrain-approved-delivery-authority/v0.2''"
definition ApprovedDeliveryRunSchema :: string where
  "ApprovedDeliveryRunSchema = ''productbrain-approved-delivery-run/v0.2''"
definition ApprovedDeliveryStateSchema :: string where
  "ApprovedDeliveryStateSchema = ''productbrain-approved-delivery-state/v0.2''"
definition ApprovedDeliveryHistorySchema :: string where
  "ApprovedDeliveryHistorySchema = ''productbrain-approved-delivery-history/v0.2''"
definition ApprovedDeliveryCancellationSchema :: string where
  "ApprovedDeliveryCancellationSchema = ''productbrain-approved-delivery-cancellation/v0.2''"
definition ApprovedDeliveryReceiptSchema :: string where
  "ApprovedDeliveryReceiptSchema = ''productbrain-approved-delivery-receipt/v0.2''"

definition maximumApprovedAttemptsPerOperation :: int where
  "maximumApprovedAttemptsPerOperation = 4"

record human_evidence =
  he_SchemaVersion :: string
  he_Fingerprint :: string
  he_SessionFingerprint :: string
  he_ReviewNonceFingerprint :: string
  he_PreviewEvidenceFingerprint :: string
  he_BatchFingerprint :: string
  he_DestinationWorkspaceID :: string
  he_DestinationKeyID :: string
  he_OrderedOperationFingerprints :: "string slice"
  he_MaximumDestinationWrites :: int
  he_MaximumMutationAttempts :: int
  he_IssuedAt :: string
  he_ExpiresAt :: string
  he_HumanGesture :: bool
  he_ServerDerived :: bool

record delivery_approval =
  da_SchemaVersion :: string
  da_Fingerprint :: string
  da_BatchFingerprint :: string
  da_OutboxFingerprint :: string
  da_PreflightFingerprint :: string
  da_PrivacyFingerprint :: string
  da_DestinationWorkspaceID :: string
  da_DestinationKeyID :: string
  da_OrderedOperationFingerprints :: "string slice"
  da_MaximumDestinationWrites :: int
  da_MaximumMutationAttempts :: int
  da_HumanInitiationEvidenceFingerprint :: string
  da_ApprovedAt :: string
  da_ExpiresAt :: string

record approved_batch =
  ab_BatchFingerprint :: string
  ab_Outbox :: outbox
  ab_Profile :: delivery_profile
  ab_Preflight :: preflight_artifact
  ab_PrivacyFingerprint :: string
  ab_Approval :: delivery_approval
  ab_Evidence :: human_evidence

record delivery_authority =
  au_SchemaVersion :: string
  au_Fingerprint :: string
  au_Approval :: delivery_approval
  au_Evidence :: human_evidence

definition json_of_evidence :: "human_evidence \<Rightarrow> json" where
  "json_of_evidence e = JObj
     [(''schema_version'', JStr (he_SchemaVersion e)), (''fingerprint'', JStr (he_Fingerprint e)),
      (''session_fingerprint'', JStr (he_SessionFingerprint e)),
      (''review_nonce_fingerprint'', JStr (he_ReviewNonceFingerprint e)),
      (''preview_evidence_fingerprint'', JStr (he_PreviewEvidenceFingerprint e)),
      (''batch_fingerprint'', JStr (he_BatchFingerprint e)),
      (''destination_workspace_id'', JStr (he_DestinationWorkspaceID e)),
      (''destination_key_id'', JStr (he_DestinationKeyID e)),
      (''ordered_operation_fingerprints'', json_of_slice JStr (he_OrderedOperationFingerprints e)),
      (''maximum_destination_writes'', JInt (he_MaximumDestinationWrites e)),
      (''maximum_mutation_attempts'', JInt (he_MaximumMutationAttempts e)),
      (''issued_at'', JStr (he_IssuedAt e)), (''expires_at'', JStr (he_ExpiresAt e)),
      (''human_gesture'', JBool (he_HumanGesture e)), (''server_derived'', JBool (he_ServerDerived e))]"

definition json_of_approval :: "delivery_approval \<Rightarrow> json" where
  "json_of_approval a = JObj
     [(''schema_version'', JStr (da_SchemaVersion a)), (''fingerprint'', JStr (da_Fingerprint a)),
      (''batch_fingerprint'', JStr (da_BatchFingerprint a)),
      (''outbox_fingerprint'', JStr (da_OutboxFingerprint a)),
      (''preflight_fingerprint'', JStr (da_PreflightFingerprint a)),
      (''privacy_fingerprint'', JStr (da_PrivacyFingerprint a)),
      (''destination_workspace_id'', JStr (da_DestinationWorkspaceID a)),
      (''destination_key_id'', JStr (da_DestinationKeyID a)),
      (''ordered_operation_fingerprints'', json_of_slice JStr (da_OrderedOperationFingerprints a)),
      (''maximum_destination_writes'', JInt (da_MaximumDestinationWrites a)),
      (''maximum_mutation_attempts'', JInt (da_MaximumMutationAttempts a)),
      (''human_initiation_evidence_fingerprint'', JStr (da_HumanInitiationEvidenceFingerprint a)),
      (''approved_at'', JStr (da_ApprovedAt a)), (''expires_at'', JStr (da_ExpiresAt a))]"

definition json_of_authority_document :: "delivery_authority \<Rightarrow> json" where
  "json_of_authority_document a = JObj
     [(''schema_version'', JStr (au_SchemaVersion a)), (''fingerprint'', JStr (au_Fingerprint a)),
      (''approval'', json_of_approval (au_Approval a)),
      (''human_initiation_evidence'', json_of_evidence (au_Evidence a))]"

definition SealHumanInitiationEvidence :: "(string \<Rightarrow> string) \<Rightarrow> human_evidence \<Rightarrow> human_evidence" where
  "SealHumanInitiationEvidence sha e = e\<lparr>he_Fingerprint := hash_value sha (json_of_evidence e)\<rparr>"

definition SealDeliveryApproval :: "(string \<Rightarrow> string) \<Rightarrow> delivery_approval \<Rightarrow> delivery_approval" where
  "SealDeliveryApproval sha a = a\<lparr>da_Fingerprint := hash_value sha (json_of_approval a)\<rparr>"

definition DeliveryPrivacyFingerprint :: "(string \<Rightarrow> string) \<Rightarrow> outbox \<Rightarrow> string" where
  "DeliveryPrivacyFingerprint sha b = hash_value sha (JObj
     [(''outbox_fingerprint'', JStr (ob_Fingerprint b)), (''privacy_findings'', ob_PrivacyFindings b)])"

definition OrderedDeliveryOperationFingerprints :: "outbox \<Rightarrow> string list" where
  "OrderedDeliveryOperationFingerprints b = map oo_PayloadFingerprint (operations b)"

definition DeliveryBatchFingerprint ::
  "(string \<Rightarrow> string) \<Rightarrow> outbox \<Rightarrow> preflight_artifact \<Rightarrow> string \<Rightarrow> string" where
  "DeliveryBatchFingerprint sha b p privacy = hash_value sha (JObj
     [(''outbox_fingerprint'', JStr (ob_Fingerprint b)),
      (''preflight_fingerprint'', JStr (pa_Fingerprint p)), (''privacy_fingerprint'', JStr privacy),
      (''destination_workspace_id'', JStr (ps_ExpectedWorkspaceID (ob_ProfileSnapshot b))),
      (''destination_key_id'', JStr (ps_ExpectedKeyID (ob_ProfileSnapshot b))),
      (''ordered_operation_fingerprints'',
        json_of_strings (OrderedDeliveryOperationFingerprints b))])"

definition validateApprovedBatch ::
  "(string \<Rightarrow> string) \<Rightarrow> (string \<Rightarrow> int option) \<Rightarrow> (outbox \<Rightarrow> bool) \<Rightarrow> approved_batch \<Rightarrow> pb_error option"
  where
  "validateApprovedBatch sha pt review_ok batch =
     (let b = ab_Outbox batch; p = ab_Profile batch; a = ab_Approval batch; e = ab_Evidence batch;
          privacy = DeliveryPrivacyFingerprint sha b; ops = OrderedDeliveryOperationFingerprints b;
          expected = DeliveryBatchFingerprint sha b (ab_Preflight batch) privacy;
          n = int (length (operations b))
      in if \<not> ValidateOutbox sha review_ok b then Some (PbError ''invalid outbox'')
         else if \<not> ValidateDeliveryProfile p \<or>
              ob_ProfileFingerprint b \<noteq> hash_value sha (json_of_delivery_profile p)
         then Some (PbError ''outbox_state_mismatch'')
         else case ValidatePreflight sha review_ok (ab_Preflight batch) b p of
           Some err \<Rightarrow> Some err
         | None \<Rightarrow>
         if ab_PrivacyFingerprint batch \<noteq> privacy \<or> ab_BatchFingerprint batch \<noteq> expected \<or>
            da_SchemaVersion a \<noteq> DeliveryApprovalSchema \<or>
            da_Fingerprint a \<noteq> hash_value sha (json_of_approval a) \<or>
            he_SchemaVersion e \<noteq> HumanInitiationEvidenceSchema \<or>
            he_Fingerprint e \<noteq> hash_value sha (json_of_evidence e)
         then Some (PbError ''approval_fingerprint_mismatch'')
         else if da_BatchFingerprint a \<noteq> expected \<or> da_OutboxFingerprint a \<noteq> ob_Fingerprint b \<or>
            da_PreflightFingerprint a \<noteq> pa_Fingerprint (ab_Preflight batch) \<or>
            da_PrivacyFingerprint a \<noteq> privacy \<or> da_DestinationWorkspaceID a \<noteq> dp_ExpectedID p \<or>
            da_DestinationKeyID a \<noteq> dp_ExpectedKeyID p \<or>
            da_HumanInitiationEvidenceFingerprint a \<noteq> he_Fingerprint e
         then Some (PbError ''approval_binding_mismatch'')
         else if slice_list (da_OrderedOperationFingerprints a) \<noteq> ops \<or>
            da_MaximumDestinationWrites a \<noteq> n \<or> da_MaximumMutationAttempts a < n \<or>
            da_MaximumMutationAttempts a > n * maximumApprovedAttemptsPerOperation
         then Some (PbError ''approval_budget_mismatch'')
         else if he_BatchFingerprint e \<noteq> expected \<or>
            he_DestinationWorkspaceID e \<noteq> da_DestinationWorkspaceID a \<or>
            he_DestinationKeyID e \<noteq> da_DestinationKeyID a \<or>
            slice_list (he_OrderedOperationFingerprints e) \<noteq> ops \<or>
            he_MaximumDestinationWrites e \<noteq> da_MaximumDestinationWrites a \<or>
            he_MaximumMutationAttempts e \<noteq> da_MaximumMutationAttempts a \<or>
            he_ExpiresAt e \<noteq> da_ExpiresAt a
         then Some (PbError ''human_initiation_binding_mismatch'')
         else if blank (he_SessionFingerprint e) \<or> length (he_ReviewNonceFingerprint e) \<noteq> 64 \<or>
            blank (he_PreviewEvidenceFingerprint e) \<or> \<not> he_HumanGesture e \<or> \<not> he_ServerDerived e
         then Some (PbError ''invalid human initiation evidence'')
         else case pt (da_ApprovedAt a) of
           None \<Rightarrow> Some (PbError ''invalid approval time'')
         | Some approved \<Rightarrow> (case pt (he_IssuedAt e) of
             None \<Rightarrow> Some (PbError ''invalid human initiation time'')
           | Some issued \<Rightarrow> (case pt (da_ExpiresAt a) of
               None \<Rightarrow> Some (PbError ''invalid approval time'')
             | Some expires \<Rightarrow>
                 if issued > approved \<or> approved > expires \<or> approved = 0 \<or> expires = 0
                 then Some (PbError ''invalid approval time'') else None)))"

definition approvalValidAt :: "(string \<Rightarrow> int option) \<Rightarrow> delivery_approval \<Rightarrow> int \<Rightarrow> pb_error option" where
  "approvalValidAt pt a now =
     (case pt (da_ApprovedAt a) of
        None \<Rightarrow> Some (PbError ''approval_not_active'')
      | Some approved \<Rightarrow>
          if now < approved then Some (PbError ''approval_not_active'')
          else case pt (da_ExpiresAt a) of
            None \<Rightarrow> Some ErrApprovalExpired
          | Some expires \<Rightarrow> if \<not> now < expires then Some ErrApprovalExpired else None)"

end
