(* ===== verification/PB_Delivery_State.thy ===== *)
theory PB_Delivery_State
  imports PB_Approval
begin

text \<open>
  The durable state of an approved delivery, \<open>internal/productbrain/approved_delivery_store.go\<close>:
  operations with their mutation attempts, validation, initialisation and binding to the batch,
  and the state changes of \<open>approved_delivery_runtime.go\<close> that touch no file.
\<close>

section \<open>States\<close>

record mutation_attempt =
  at_AttemptNumber :: int
  at_AttemptID :: string
  at_RunSequence :: int
  at_OperationID :: string
  at_OperationFingerprint :: string
  at_ReservedAt :: string
  at_Outcome :: string
  at_ResponseReceived :: bool
  at_MayHaveCommitted :: bool
  at_ReadbackFingerprint :: string

record operation_state =
  os_OperationID :: string
  os_Kind :: string
  os_OperationFingerprint :: string
  os_EntryID :: string
  os_State :: string
  os_UniqueWriteReserved :: bool
  os_Attempts :: "mutation_attempt list"
  os_EntryDocID :: string
  os_RemoteObjectID :: string
  os_ReadbackFingerprint :: string
  os_SafeCategory :: string

record delivery_state =
  ds_SchemaVersion :: string
  ds_Fingerprint :: string
  ds_ApprovalFingerprint :: string
  ds_HumanInitiationEvidenceFingerprint :: string
  ds_BatchFingerprint :: string
  ds_OutboxFingerprint :: string
  ds_ProfileFingerprint :: string
  ds_PreflightFingerprint :: string
  ds_PrivacyFingerprint :: string
  ds_DestinationWorkspaceID :: string
  ds_DestinationKeyID :: string
  ds_OrderedOperationFingerprints :: "string list"
  ds_MaximumDestinationWrites :: int
  ds_MaximumMutationAttempts :: int
  ds_UniqueWriteReservations :: int
  ds_MutationAttempts :: int
  ds_LatestRunSequence :: int
  ds_CancellationFingerprint :: string
  ds_Status :: string
  ds_Operations :: "operation_state list"

definition json_of_attempt :: "mutation_attempt \<Rightarrow> json" where
  "json_of_attempt a = JObj
     ([(''attempt_number'', JInt (at_AttemptNumber a)), (''attempt_id'', JStr (at_AttemptID a)),
       (''run_sequence'', JInt (at_RunSequence a)), (''operation_id'', JStr (at_OperationID a)),
       (''operation_fingerprint'', JStr (at_OperationFingerprint a)),
       (''reserved_at'', JStr (at_ReservedAt a)), (''outcome'', JStr (at_Outcome a)),
       (''response_received'', JBool (at_ResponseReceived a)),
       (''may_have_committed'', JBool (at_MayHaveCommitted a))] @
      opt_field (at_ReadbackFingerprint a \<noteq> '''') ''readback_fingerprint''
        (JStr (at_ReadbackFingerprint a)))"

definition json_of_operation_state :: "operation_state \<Rightarrow> json" where
  "json_of_operation_state x = JObj
     ([(''operation_id'', JStr (os_OperationID x)), (''kind'', JStr (os_Kind x)),
       (''operation_fingerprint'', JStr (os_OperationFingerprint x))] @
      opt_field (os_EntryID x \<noteq> '''') ''entry_id'' (JStr (os_EntryID x)) @
      [(''state'', JStr (os_State x)), (''unique_write_reserved'', JBool (os_UniqueWriteReserved x)),
       (''attempts'', JArr (map json_of_attempt (os_Attempts x)))] @
      opt_field (os_EntryDocID x \<noteq> '''') ''entry_doc_id'' (JStr (os_EntryDocID x)) @
      opt_field (os_RemoteObjectID x \<noteq> '''') ''remote_object_id'' (JStr (os_RemoteObjectID x)) @
      opt_field (os_ReadbackFingerprint x \<noteq> '''') ''readback_fingerprint''
        (JStr (os_ReadbackFingerprint x)) @
      opt_field (os_SafeCategory x \<noteq> '''') ''safe_category'' (JStr (os_SafeCategory x)))"

definition json_of_delivery_state :: "delivery_state \<Rightarrow> json" where
  "json_of_delivery_state s = JObj
     ([(''schema_version'', JStr (ds_SchemaVersion s)), (''fingerprint'', JStr (ds_Fingerprint s)),
       (''approval_fingerprint'', JStr (ds_ApprovalFingerprint s)),
       (''human_initiation_evidence_fingerprint'', JStr (ds_HumanInitiationEvidenceFingerprint s)),
       (''batch_fingerprint'', JStr (ds_BatchFingerprint s)),
       (''outbox_fingerprint'', JStr (ds_OutboxFingerprint s)),
       (''profile_fingerprint'', JStr (ds_ProfileFingerprint s)),
       (''preflight_fingerprint'', JStr (ds_PreflightFingerprint s)),
       (''privacy_fingerprint'', JStr (ds_PrivacyFingerprint s)),
       (''destination_workspace_id'', JStr (ds_DestinationWorkspaceID s)),
       (''destination_key_id'', JStr (ds_DestinationKeyID s)),
       (''ordered_operation_fingerprints'', json_of_strings (ds_OrderedOperationFingerprints s)),
       (''maximum_destination_writes'', JInt (ds_MaximumDestinationWrites s)),
       (''maximum_mutation_attempts'', JInt (ds_MaximumMutationAttempts s)),
       (''unique_write_reservations'', JInt (ds_UniqueWriteReservations s)),
       (''mutation_attempts'', JInt (ds_MutationAttempts s)),
       (''latest_run_sequence'', JInt (ds_LatestRunSequence s))] @
      opt_field (ds_CancellationFingerprint s \<noteq> '''') ''cancellation_fingerprint''
        (JStr (ds_CancellationFingerprint s)) @
      [(''status'', JStr (ds_Status s)),
       (''operations'', JArr (map json_of_operation_state (ds_Operations s)))])"

definition state_hash :: "(string \<Rightarrow> string) \<Rightarrow> delivery_state \<Rightarrow> string" where
  "state_hash sha s = hash_value sha (json_of_delivery_state s)"

definition attempt_id :: "(string \<Rightarrow> string) \<Rightarrow> string \<Rightarrow> string \<Rightarrow> int \<Rightarrow> string" where
  "attempt_id sha approval operation n = sha (approval @ ''|'' @ operation @ ''|'' @ int_text n)"

section \<open>Validation\<close>

definition attempt_valid :: "(string \<Rightarrow> string) \<Rightarrow> string \<Rightarrow> operation_state \<Rightarrow> mutation_attempt \<Rightarrow> bool" where
  "attempt_valid sha approval x a \<longleftrightarrow>
     \<not> (at_AttemptNumber a \<le> 0 \<or> at_AttemptID a = '''' \<or> at_RunSequence a \<le> 0 \<or>
        at_OperationID a \<noteq> os_OperationID x \<or> at_OperationFingerprint a \<noteq> os_OperationFingerprint x) \<and>
     at_AttemptID a = attempt_id sha approval (os_OperationID x) (at_AttemptNumber a) \<and>
     at_Outcome a \<in> set [''reserved'', ''not_observed'', ''ambiguous'', ''acknowledged'', ''rejected'']"

definition operation_valid :: "(string \<Rightarrow> string) \<Rightarrow> string \<Rightarrow> string \<Rightarrow> operation_state \<Rightarrow> bool" where
  "operation_valid sha approval fp x \<longleftrightarrow>
     \<not> (os_OperationID x = '''' \<or> os_OperationFingerprint x \<noteq> fp \<or>
        os_Kind x \<noteq> ''entry'' \<and> os_Kind x \<noteq> ''relation'' \<or>
        os_Kind x = ''entry'' \<and> os_EntryID x = '''' \<or> os_Kind x = ''relation'' \<and> os_EntryID x \<noteq> '''') \<and>
     os_State x \<in> set [''pending'', ''reserved'', ''not_observed'', ''ambiguous'', ''acknowledged'', ''blocked''] \<and>
     \<not> (os_State x = ''acknowledged'' \<and> (os_ReadbackFingerprint x = '''' \<or> os_RemoteObjectID x = '''')) \<and>
     list_all (attempt_valid sha approval x) (os_Attempts x)"

definition all_attempts :: "delivery_state \<Rightarrow> mutation_attempt list" where
  "all_attempts s = concat (map os_Attempts (ds_Operations s))"

definition attempt_budget_ok :: "delivery_state \<Rightarrow> bool" where
  "attempt_budget_ok s \<longleftrightarrow>
     (let n = int (length (ds_Operations s))
      in \<not> (ds_MaximumDestinationWrites s \<noteq> n \<or> ds_MaximumMutationAttempts s < n \<or>
            ds_MaximumMutationAttempts s > n * maximumApprovedAttemptsPerOperation \<or>
            ds_UniqueWriteReservations s < 0 \<or> ds_MutationAttempts s < 0 \<or>
            ds_UniqueWriteReservations s > ds_MaximumDestinationWrites s \<or>
            ds_MutationAttempts s > ds_MaximumMutationAttempts s))"

definition validateApprovedState :: "(string \<Rightarrow> string) \<Rightarrow> delivery_state \<Rightarrow> bool" where
  "validateApprovedState sha s \<longleftrightarrow>
     (let n = length (ds_Operations s); attempts = all_attempts s
      in \<not> (ds_SchemaVersion s \<noteq> ApprovedDeliveryStateSchema \<or> ds_Fingerprint s \<noteq> state_hash sha s \<or>
            n = 0 \<or> length (ds_OrderedOperationFingerprints s) \<noteq> n) \<and> attempt_budget_ok s \<and>
         ds_Status s \<in> set [''approved'', ''delivering'', ''ambiguous'', ''completed'', ''cancelled'', ''blocked''] \<and>
         list_all2 (operation_valid sha (ds_ApprovalFingerprint s))
           (ds_OrderedOperationFingerprints s) (ds_Operations s) \<and>
         \<not> has_dup (map os_OperationID (ds_Operations s)) \<and>
         \<not> has_dup (map at_AttemptNumber attempts) \<and>
         list_all (\<lambda>k. k \<in> set (map at_AttemptNumber attempts)) [1..int (length attempts)] \<and>
         int (length (filter os_UniqueWriteReserved (ds_Operations s))) = ds_UniqueWriteReservations s \<and>
         int (length attempts) = ds_MutationAttempts s)"

section \<open>Initialisation and binding\<close>

definition initial_operation :: "outbox_operation \<Rightarrow> operation_state" where
  "initial_operation x =
     \<lparr>os_OperationID = oo_OperationID x, os_Kind = oo_Kind x,
      os_OperationFingerprint = oo_PayloadFingerprint x, os_EntryID = entry_id_of x,
      os_State = ''pending'', os_UniqueWriteReserved = False, os_Attempts = [], os_EntryDocID = '''',
      os_RemoteObjectID = '''', os_ReadbackFingerprint = '''', os_SafeCategory = ''''\<rparr>"

definition initial_state :: "(string \<Rightarrow> string) \<Rightarrow> approved_batch \<Rightarrow> delivery_state" where
  "initial_state sha b =
     \<lparr>ds_SchemaVersion = ApprovedDeliveryStateSchema, ds_Fingerprint = '''',
      ds_ApprovalFingerprint = da_Fingerprint (ab_Approval b),
      ds_HumanInitiationEvidenceFingerprint = he_Fingerprint (ab_Evidence b),
      ds_BatchFingerprint = ab_BatchFingerprint b, ds_OutboxFingerprint = ob_Fingerprint (ab_Outbox b),
      ds_ProfileFingerprint = hash_value sha (json_of_delivery_profile (ab_Profile b)),
      ds_PreflightFingerprint = pa_Fingerprint (ab_Preflight b),
      ds_PrivacyFingerprint = ab_PrivacyFingerprint b,
      ds_DestinationWorkspaceID = dp_ExpectedID (ab_Profile b),
      ds_DestinationKeyID = dp_ExpectedKeyID (ab_Profile b),
      ds_OrderedOperationFingerprints = slice_list (da_OrderedOperationFingerprints (ab_Approval b)),
      ds_MaximumDestinationWrites = da_MaximumDestinationWrites (ab_Approval b),
      ds_MaximumMutationAttempts = da_MaximumMutationAttempts (ab_Approval b),
      ds_UniqueWriteReservations = 0, ds_MutationAttempts = 0, ds_LatestRunSequence = 0,
      ds_CancellationFingerprint = '''', ds_Status = ''approved'',
      ds_Operations = map initial_operation (operations (ab_Outbox b))\<rparr>"

definition operation_bound :: "outbox_operation \<Rightarrow> operation_state \<Rightarrow> bool" where
  "operation_bound x p \<longleftrightarrow>
     \<not> (os_OperationID p \<noteq> oo_OperationID x \<or> os_Kind p \<noteq> oo_Kind x \<or>
        os_OperationFingerprint p \<noteq> oo_PayloadFingerprint x \<or> os_EntryID p \<noteq> entry_id_of x)"

definition validateStateBinding :: "(string \<Rightarrow> string) \<Rightarrow> delivery_state \<Rightarrow> approved_batch \<Rightarrow> bool" where
  "validateStateBinding sha s b \<longleftrightarrow>
     \<not> (ds_ApprovalFingerprint s \<noteq> da_Fingerprint (ab_Approval b) \<or>
        ds_HumanInitiationEvidenceFingerprint s \<noteq> he_Fingerprint (ab_Evidence b) \<or>
        ds_BatchFingerprint s \<noteq> ab_BatchFingerprint b \<or>
        ds_OutboxFingerprint s \<noteq> ob_Fingerprint (ab_Outbox b) \<or>
        ds_ProfileFingerprint s \<noteq> hash_value sha (json_of_delivery_profile (ab_Profile b)) \<or>
        ds_PreflightFingerprint s \<noteq> pa_Fingerprint (ab_Preflight b) \<or>
        ds_PrivacyFingerprint s \<noteq> ab_PrivacyFingerprint b \<or>
        ds_DestinationWorkspaceID s \<noteq> dp_ExpectedID (ab_Profile b) \<or>
        ds_DestinationKeyID s \<noteq> dp_ExpectedKeyID (ab_Profile b) \<or>
        ds_OrderedOperationFingerprints s \<noteq> slice_list (da_OrderedOperationFingerprints (ab_Approval b)) \<or>
        ds_MaximumDestinationWrites s \<noteq> da_MaximumDestinationWrites (ab_Approval b) \<or>
        ds_MaximumMutationAttempts s \<noteq> da_MaximumMutationAttempts (ab_Approval b)) \<and>
     list_all2 operation_bound (operations (ab_Outbox b)) (ds_Operations s)"

end
