(* ===== verification/PB_Delivery_Store.thy ===== *)
theory PB_Delivery_Store
  imports PB_Delivery_State
begin

text \<open>
  The authority directory of an approved delivery and everything that reads or writes it,
  \<open>internal/productbrain/approved_delivery_store.go\<close>: state, authority, cancellation, the active run,
  the sealed runs with their history, and the receipt.

  A step maps a world to a world and a result. Time, failing calls and crashes are indexed by the
  number of the step (\<open>dw_tick\<close>), so that every call can behave differently. From tick \<open>de_crash\<close>
  on the process is dead: no file and no remote object changes any more, whatever the rest of
  the function computes. \<open>dw_mem\<close> is the \<open>state\<close> variable of the running delivery; \<open>dw_log\<close> records
  the calls that mutate the destination and what the reconciliations saw.
\<close>

section \<open>Steps\<close>

definition bind_step ::
  "('w \<Rightarrow> 'w \<times> ('e, 'a) result) \<Rightarrow> ('a \<Rightarrow> 'w \<Rightarrow> 'w \<times> ('e, 'b) result) \<Rightarrow> 'w \<Rightarrow> 'w \<times> ('e, 'b) result"
  where
  "bind_step m k w = (case m w of (w', Inl e) \<Rightarrow> (w', Inl e) | (w', Inr x) \<Rightarrow> k x w')"

definition return_step :: "'a \<Rightarrow> 'w \<Rightarrow> 'w \<times> ('e, 'a) result" where
  "return_step x w = (w, Inr x)"

definition fail_step :: "'e \<Rightarrow> 'w \<Rightarrow> 'w \<times> ('e, 'a) result" where
  "fail_step e w = (w, Inl e)"

text \<open>Steps that go on with the error as a value.\<close>

definition catch_step :: "('w \<Rightarrow> 'w \<times> ('e, 'a) result) \<Rightarrow> 'w \<Rightarrow> 'w \<times> ('f, ('e, 'a) result) result" where
  "catch_step m w = (case m w of (w', r) \<Rightarrow> (w', Inr r))"

definition require :: "bool \<Rightarrow> 'e \<Rightarrow> 'w \<Rightarrow> 'w \<times> ('e, unit) result" where
  "require b e w = (w, if b then Inr () else Inl e)"

definition modify_step :: "('w \<Rightarrow> 'w) \<Rightarrow> 'w \<Rightarrow> 'w \<times> ('e, unit) result" where
  "modify_step f w = (f w, Inr ())"

definition gets_step :: "('w \<Rightarrow> 'a) \<Rightarrow> 'w \<Rightarrow> 'w \<times> ('e, 'a) result" where
  "gets_step f w = (w, Inr (f w))"

section \<open>The directory\<close>

record delivery_run =
  dr_SchemaVersion :: string
  dr_Fingerprint :: string
  dr_Sequence :: int
  dr_InvocationID :: string
  dr_ApprovalFingerprint :: string
  dr_BatchFingerprint :: string
  dr_StartedAt :: string
  dr_EndedAt :: string
  dr_Outcome :: string
  dr_AttemptIDs :: "string slice"

record delivery_history =
  dh_SchemaVersion :: string
  dh_Fingerprint :: string
  dh_ApprovalFingerprint :: string
  dh_BatchFingerprint :: string
  dh_RunRefs :: "string list"
  dh_Runs :: "delivery_run list"

record cancellation_receipt =
  cr_SchemaVersion :: string
  cr_Fingerprint :: string
  cr_ApprovalFingerprint :: string
  cr_BatchFingerprint :: string
  cr_CancelledAt :: string

record delivery_receipt =
  rc_SchemaVersion :: string
  rc_Fingerprint :: string
  rc_ApprovalFingerprint :: string
  rc_BatchFingerprint :: string
  rc_StateFingerprint :: string
  rc_HistoryFingerprint :: string
  rc_Status :: string
  rc_AcknowledgedOperations :: int
  rc_UniqueWriteReservations :: int
  rc_MutationAttempts :: int
  rc_RemoteObjectIDs :: "string slice"
  rc_CancellationFingerprint :: string

record create_entry_request =
  ce_CollectionSlug :: string
  ce_EntryID :: string
  ce_Name :: string
  ce_Data :: json
  ce_SourceRef :: string
  ce_SourceExcerpt :: string
  ce_CreatedBy :: string
  ce_ForceDraft :: bool

record create_relation_request =
  cl_FromEntryID :: string
  cl_ToEntryID :: string
  cl_Type :: string
  cl_Metadata :: json
  cl_IfMissing :: bool

datatype mutation = MutEntry create_entry_request | MutRelation create_relation_request

datatype delivery_event =
    Absent nat \<comment> \<open>a reconciliation did not observe the operation, nor a conflict\<close>
  | Confirmed nat \<comment> \<open>a reconciliation observed the operation exactly as approved\<close>
  | Mutation nat mutation \<comment> \<open>a call that mutates the destination\<close>

record 'r delivery_world =
  dw_state :: "delivery_state blob option"
  dw_authority :: "delivery_authority blob option"
  dw_cancellation :: "cancellation_receipt blob option"
  dw_active :: "delivery_run blob option"
  dw_runs :: "(string \<times> delivery_run blob) list"
  dw_history :: "delivery_history blob option"
  dw_receipt :: "delivery_receipt blob option"
  dw_remote :: 'r
  dw_mem :: delivery_state
  dw_log :: "delivery_event list"
  dw_tick :: nat

record delivery_env =
  de_crash :: nat
  de_clock :: "nat \<Rightarrow> int"
  de_fails :: "nat \<Rightarrow> bool" \<comment> \<open>reads, locks, directories, removals\<close>
  de_hooks :: "nat \<Rightarrow> bool" \<comment> \<open>a test hook of the options returns an error\<close>
  de_io :: "nat \<Rightarrow> io_env"
  de_cancel :: "nat \<Rightarrow> (string \<times> string) option" \<comment> \<open>a concurrent \<open>CancelApproved\<close>\<close>

text \<open>The functions of the Go runtime and of SHA-256 that the code relies on.\<close>

record runtime =
  rt_sha :: "string \<Rightarrow> string"
  rt_parse :: "string \<Rightarrow> int option"
  rt_format :: "int \<Rightarrow> string"

definition alive :: "delivery_env \<Rightarrow> 'r delivery_world \<Rightarrow> bool" where
  "alive env w \<longleftrightarrow> dw_tick w < de_crash env"

definition next_tick :: "'r delivery_world \<Rightarrow> 'r delivery_world" where
  "next_tick w = w\<lparr>dw_tick := Suc (dw_tick w)\<rparr>"

text \<open>A call of the operating system that only can fail: preparing a directory, locking.\<close>

definition os_step :: "delivery_env \<Rightarrow> pb_error \<Rightarrow> 'r delivery_world \<Rightarrow> 'r delivery_world \<times> (pb_error, unit) result"
  where
  "os_step env e w = (next_tick w, if de_fails env (dw_tick w) then Inl e else Inr ())"

definition hook_step :: "delivery_env \<Rightarrow> 'r delivery_world \<Rightarrow> 'r delivery_world \<times> (pb_error, unit) result" where
  "hook_step env w = (next_tick w, if de_hooks env (dw_tick w) then Inl HookError else Inr ())"

definition clock_step :: "delivery_env \<Rightarrow> 'r delivery_world \<Rightarrow> 'r delivery_world \<times> (pb_error, int) result" where
  "clock_step env w = (next_tick w, Inr (de_clock env (dw_tick w)))"

text \<open>\<open>ReadJSONStrictBounded\<close>, with \<open>None\<close> for \<open>os.IsNotExist\<close>.\<close>

definition blob_size :: "('d \<Rightarrow> json) \<Rightarrow> 'd blob \<Rightarrow> int" where
  "blob_size f b = (case b of Doc d \<Rightarrow> int (length (encode_indent 0 (f d))) + 1
                            | Garbled s \<Rightarrow> int (length s))"

definition read_file ::
  "delivery_env \<Rightarrow> ('d \<Rightarrow> json) \<Rightarrow> int \<Rightarrow> ('r delivery_world \<Rightarrow> 'd blob option) \<Rightarrow> 'r delivery_world
    \<Rightarrow> 'r delivery_world \<times> (pb_error, 'd option) result" where
  "read_file env f max_bytes slot w =
     (next_tick w,
      if de_fails env (dw_tick w) then Inl LocalIOError
      else case slot w of
        None \<Rightarrow> Inr None
      | Some b \<Rightarrow>
          if blob_size f b > max_bytes then Inl LocalIOError
          else (case b of Garbled _ \<Rightarrow> Inl LocalIOError | Doc d \<Rightarrow> Inr (Some d)))"

text \<open>\<open>WriteJSON\<close> and \<open>WriteJSONNoReplace\<close>; \<open>put\<close> stores the slot.\<close>

definition write_file ::
  "delivery_env \<Rightarrow> bool \<Rightarrow> 'd \<Rightarrow> ('r delivery_world \<Rightarrow> 'd blob option)
    \<Rightarrow> ('d blob option \<Rightarrow> 'r delivery_world \<Rightarrow> 'r delivery_world) \<Rightarrow> 'r delivery_world
    \<Rightarrow> 'r delivery_world \<times> (pb_error, unit) result" where
  "write_file env no_replace d slot put w =
     (if \<not> alive env w then (next_tick w, Inl LocalIOError)
      else case WriteFile (de_io env (dw_tick w)) no_replace (Doc d) (slot w) of
        (b, err) \<Rightarrow> (next_tick (put b w), case err of None \<Rightarrow> Inr () | Some _ \<Rightarrow> Inl LocalIOError))"

definition put_state :: "delivery_state blob option \<Rightarrow> 'r delivery_world \<Rightarrow> 'r delivery_world" where
  "put_state b w = w\<lparr>dw_state := b\<rparr>"
definition put_authority :: "delivery_authority blob option \<Rightarrow> 'r delivery_world \<Rightarrow> 'r delivery_world" where
  "put_authority b w = w\<lparr>dw_authority := b\<rparr>"
definition put_cancellation :: "cancellation_receipt blob option \<Rightarrow> 'r delivery_world \<Rightarrow> 'r delivery_world" where
  "put_cancellation b w = w\<lparr>dw_cancellation := b\<rparr>"
definition put_active :: "delivery_run blob option \<Rightarrow> 'r delivery_world \<Rightarrow> 'r delivery_world" where
  "put_active b w = w\<lparr>dw_active := b\<rparr>"
definition put_history :: "delivery_history blob option \<Rightarrow> 'r delivery_world \<Rightarrow> 'r delivery_world" where
  "put_history b w = w\<lparr>dw_history := b\<rparr>"
definition put_receipt :: "delivery_receipt blob option \<Rightarrow> 'r delivery_world \<Rightarrow> 'r delivery_world" where
  "put_receipt b w = w\<lparr>dw_receipt := b\<rparr>"
definition put_run :: "string \<Rightarrow> delivery_run blob option \<Rightarrow> 'r delivery_world \<Rightarrow> 'r delivery_world" where
  "put_run name b w = (case b of None \<Rightarrow> w | Some r \<Rightarrow> w\<lparr>dw_runs := AList.update name r (dw_runs w)\<rparr>)"

section \<open>Documents\<close>

definition json_of_run :: "delivery_run \<Rightarrow> json" where
  "json_of_run r = JObj
     ([(''schema_version'', JStr (dr_SchemaVersion r)), (''fingerprint'', JStr (dr_Fingerprint r)),
       (''sequence'', JInt (dr_Sequence r)), (''invocation_id'', JStr (dr_InvocationID r)),
       (''approval_fingerprint'', JStr (dr_ApprovalFingerprint r)),
       (''batch_fingerprint'', JStr (dr_BatchFingerprint r)), (''started_at'', JStr (dr_StartedAt r))] @
      opt_field (dr_EndedAt r \<noteq> '''') ''ended_at'' (JStr (dr_EndedAt r)) @
      [(''outcome'', JStr (dr_Outcome r)),
       (''attempt_ids'', json_of_slice JStr (dr_AttemptIDs r))])"

definition json_of_history :: "delivery_history \<Rightarrow> json" where
  "json_of_history h = JObj
     [(''schema_version'', JStr (dh_SchemaVersion h)), (''fingerprint'', JStr (dh_Fingerprint h)),
      (''approval_fingerprint'', JStr (dh_ApprovalFingerprint h)),
      (''batch_fingerprint'', JStr (dh_BatchFingerprint h)),
      (''run_refs'', json_of_strings (dh_RunRefs h)), (''runs'', JArr (map json_of_run (dh_Runs h)))]"

definition json_of_cancellation :: "cancellation_receipt \<Rightarrow> json" where
  "json_of_cancellation c = JObj
     [(''schema_version'', JStr (cr_SchemaVersion c)), (''fingerprint'', JStr (cr_Fingerprint c)),
      (''approval_fingerprint'', JStr (cr_ApprovalFingerprint c)),
      (''batch_fingerprint'', JStr (cr_BatchFingerprint c)),
      (''cancelled_at'', JStr (cr_CancelledAt c))]"

definition json_of_receipt :: "delivery_receipt \<Rightarrow> json" where
  "json_of_receipt r = JObj
     ([(''schema_version'', JStr (rc_SchemaVersion r)), (''fingerprint'', JStr (rc_Fingerprint r)),
       (''approval_fingerprint'', JStr (rc_ApprovalFingerprint r)),
       (''batch_fingerprint'', JStr (rc_BatchFingerprint r)),
       (''state_fingerprint'', JStr (rc_StateFingerprint r))] @
      opt_field (rc_HistoryFingerprint r \<noteq> '''') ''history_fingerprint'' (JStr (rc_HistoryFingerprint r)) @
      [(''status'', JStr (rc_Status r)),
       (''acknowledged_operations'', JInt (rc_AcknowledgedOperations r)),
       (''unique_write_reservations'', JInt (rc_UniqueWriteReservations r)),
       (''mutation_attempts'', JInt (rc_MutationAttempts r)),
       (''remote_object_ids'', json_of_slice JStr (rc_RemoteObjectIDs r))] @
      opt_field (rc_CancellationFingerprint r \<noteq> '''') ''cancellation_fingerprint''
        (JStr (rc_CancellationFingerprint r)))"

section \<open>State and authority\<close>

definition maximumApprovedStateBytes :: int where "maximumApprovedStateBytes = 67108864"
definition maximumApprovedAuthorityBytes :: int where "maximumApprovedAuthorityBytes = 67108864"
definition maximumApprovedCancellationBytes :: int where "maximumApprovedCancellationBytes = 65536"
definition maximumApprovedHistoryBytes :: int where "maximumApprovedHistoryBytes = 67108864"
definition maximumApprovedRunBytes :: int where "maximumApprovedRunBytes = 16777216"
definition maximumApprovedReceiptBytes :: int where "maximumApprovedReceiptBytes = 16777216"

type_synonym ('r, 'a) delivery_step = "'r delivery_world \<Rightarrow> 'r delivery_world \<times> (pb_error, 'a) result"

definition set_mem :: "delivery_state \<Rightarrow> 'r delivery_world \<Rightarrow> 'r delivery_world" where
  "set_mem s w = w\<lparr>dw_mem := s\<rparr>"

definition seal_mem :: "runtime \<Rightarrow> 'r delivery_world \<Rightarrow> 'r delivery_world" where
  "seal_mem rt w = set_mem ((dw_mem w)\<lparr>ds_Fingerprint := state_hash (rt_sha rt) (dw_mem w)\<rparr>) w"

definition writeApprovedState :: "runtime \<Rightarrow> delivery_env \<Rightarrow> ('r, unit) delivery_step" where
  "writeApprovedState rt env w =
     (let w' = seal_mem rt w in write_file env False (dw_mem w') dw_state put_state w')"

definition loadApprovedState :: "runtime \<Rightarrow> delivery_env \<Rightarrow> ('r, delivery_state option) delivery_step" where
  "loadApprovedState rt env =
     bind_step (read_file env json_of_delivery_state maximumApprovedStateBytes dw_state) (\<lambda>r.
       case r of
         None \<Rightarrow> return_step None
       | Some s \<Rightarrow>
           if validateApprovedState (rt_sha rt) s then return_step (Some s)
           else fail_step (PbError ''approved delivery state mismatch''))"

definition cancellation_valid :: "runtime \<Rightarrow> cancellation_receipt \<Rightarrow> bool" where
  "cancellation_valid rt c \<longleftrightarrow>
     \<not> (cr_SchemaVersion c \<noteq> ApprovedDeliveryCancellationSchema \<or>
        cr_Fingerprint c \<noteq> hash_value (rt_sha rt) (json_of_cancellation c) \<or>
        cr_ApprovalFingerprint c = '''' \<or> cr_BatchFingerprint c = '''') \<and>
     rt_parse rt (cr_CancelledAt c) \<noteq> None"

definition loadCancellation :: "runtime \<Rightarrow> delivery_env \<Rightarrow> ('r, cancellation_receipt option) delivery_step" where
  "loadCancellation rt env =
     bind_step (read_file env json_of_cancellation maximumApprovedCancellationBytes dw_cancellation) (\<lambda>r.
       case r of
         None \<Rightarrow> return_step None
       | Some c \<Rightarrow>
           if cancellation_valid rt c then return_step (Some c)
           else fail_step (PbError ''invalid approved delivery cancellation''))"

definition same_binding :: "cancellation_receipt \<Rightarrow> string \<Rightarrow> string \<Rightarrow> bool" where
  "same_binding c approval batch \<longleftrightarrow> cr_ApprovalFingerprint c = approval \<and> cr_BatchFingerprint c = batch"

definition initializeApprovedState ::
  "runtime \<Rightarrow> delivery_env \<Rightarrow> approved_batch \<Rightarrow> ('r, unit) delivery_step" where
  "initializeApprovedState rt env b =
     bind_step (modify_step (set_mem (initial_state (rt_sha rt) b))) (\<lambda>_.
     bind_step (loadCancellation rt env) (\<lambda>c.
     bind_step (case c of
         None \<Rightarrow> return_step ()
       | Some c \<Rightarrow>
           bind_step (require (same_binding c (da_Fingerprint (ab_Approval b)) (ab_BatchFingerprint b))
             (PbError ''cancellation binding mismatch'')) (\<lambda>_.
           modify_step (\<lambda>w. set_mem ((dw_mem w)\<lparr>ds_CancellationFingerprint := cr_Fingerprint c,
             ds_Status := ''cancelled''\<rparr>) w))) (\<lambda>_.
     writeApprovedState rt env)))"

definition authority_of :: "runtime \<Rightarrow> approved_batch \<Rightarrow> delivery_authority" where
  "authority_of rt b =
     (let a = \<lparr>au_SchemaVersion = ApprovedDeliveryAuthoritySchema, au_Fingerprint = '''',
               au_Approval = ab_Approval b, au_Evidence = ab_Evidence b\<rparr>
      in a\<lparr>au_Fingerprint := hash_value (rt_sha rt) (json_of_authority_document a)\<rparr>)"

definition authority_valid :: "runtime \<Rightarrow> delivery_authority \<Rightarrow> bool" where
  "authority_valid rt a \<longleftrightarrow>
     \<not> (au_SchemaVersion a \<noteq> ApprovedDeliveryAuthoritySchema \<or>
        au_Fingerprint a \<noteq> hash_value (rt_sha rt) (json_of_authority_document a) \<or>
        da_Fingerprint (au_Approval a) \<noteq> hash_value (rt_sha rt) (json_of_approval (au_Approval a)) \<or>
        he_Fingerprint (au_Evidence a) \<noteq> hash_value (rt_sha rt) (json_of_evidence (au_Evidence a)))"

definition loadApprovedAuthority :: "runtime \<Rightarrow> delivery_env \<Rightarrow> ('r, delivery_authority option) delivery_step" where
  "loadApprovedAuthority rt env =
     bind_step (read_file env json_of_authority_document maximumApprovedAuthorityBytes dw_authority) (\<lambda>r.
       case r of
         None \<Rightarrow> return_step None
       | Some a \<Rightarrow>
           if authority_valid rt a then return_step (Some a)
           else fail_step (PbError ''approved delivery authority mismatch''))"

text \<open>\<open>canonicalEqual\<close> of two structs: their encodings are equal.\<close>

definition same_document :: "('d \<Rightarrow> json) \<Rightarrow> 'd \<Rightarrow> 'd \<Rightarrow> bool" where
  "same_document f a b \<longleftrightarrow> encode (f a) = encode (f b)"

definition sealApprovedAuthority ::
  "runtime \<Rightarrow> delivery_env \<Rightarrow> approved_batch \<Rightarrow> ('r, unit) delivery_step" where
  "sealApprovedAuthority rt env b =
     bind_step (loadApprovedAuthority rt env) (\<lambda>r.
       case r of
         Some a \<Rightarrow> require (same_document json_of_authority_document a (authority_of rt b))
           (PbError ''immutable approval snapshot mismatch'')
       | None \<Rightarrow> write_file env True (authority_of rt b) dw_authority put_authority)"

definition snapshots_match :: "runtime \<Rightarrow> approved_batch \<Rightarrow> delivery_state \<Rightarrow> delivery_authority \<Rightarrow> bool" where
  "snapshots_match rt b s a \<longleftrightarrow>
     \<not> (da_Fingerprint (au_Approval a) \<noteq> hash_value (rt_sha rt) (json_of_approval (au_Approval a)) \<or>
        he_Fingerprint (au_Evidence a) \<noteq> hash_value (rt_sha rt) (json_of_evidence (au_Evidence a)) \<or>
        \<not> same_document json_of_approval (au_Approval a) (ab_Approval b) \<or>
        \<not> same_document json_of_evidence (au_Evidence a) (ab_Evidence b) \<or>
        ds_ApprovalFingerprint s \<noteq> da_Fingerprint (au_Approval a) \<or>
        ds_HumanInitiationEvidenceFingerprint s \<noteq> he_Fingerprint (au_Evidence a))"

definition validateApprovedSnapshots ::
  "runtime \<Rightarrow> delivery_env \<Rightarrow> approved_batch \<Rightarrow> delivery_state \<Rightarrow> ('r, unit) delivery_step" where
  "validateApprovedSnapshots rt env b s =
     bind_step (loadApprovedAuthority rt env) (\<lambda>r.
       case r of
         None \<Rightarrow> fail_step (PbError ''approved delivery authority missing'')
       | Some a \<Rightarrow> require (snapshots_match rt b s a) (PbError ''immutable approval snapshot mismatch''))"

section \<open>Cancelling\<close>

definition cancellation_of :: "runtime \<Rightarrow> string \<Rightarrow> string \<Rightarrow> int \<Rightarrow> cancellation_receipt" where
  "cancellation_of rt approval batch now =
     (let c = \<lparr>cr_SchemaVersion = ApprovedDeliveryCancellationSchema, cr_Fingerprint = '''',
               cr_ApprovalFingerprint = approval, cr_BatchFingerprint = batch,
               cr_CancelledAt = rt_format rt now\<rparr>
      in c\<lparr>cr_Fingerprint := hash_value (rt_sha rt) (json_of_cancellation c)\<rparr>)"

definition CancelApproved ::
  "runtime \<Rightarrow> delivery_env \<Rightarrow> string \<times> string \<Rightarrow> ('r, cancellation_receipt) delivery_step" where
  "CancelApproved rt env ref = (case ref of (approval, batch) \<Rightarrow>
     bind_step (os_step env LocalIOError) (\<lambda>_. \<comment> \<open>the context is not done\<close>
     bind_step (require (length approval = 64 \<and> length batch = 64) (PbError ''invalid approval reference'')) (\<lambda>_.
     bind_step (os_step env LocalIOError) (\<lambda>_. \<comment> \<open>the directory\<close>
     bind_step (os_step env LocalIOError) (\<lambda>_. \<comment> \<open>the ordering lock\<close>
     bind_step (loadCancellation rt env) (\<lambda>r.
       case r of
         Some existing \<Rightarrow>
           if same_binding existing approval batch then return_step existing
           else fail_step (PbError ''cancellation binding mismatch'')
       | None \<Rightarrow>
           bind_step (loadApprovedState rt env) (\<lambda>s.
           bind_step (require (case s of None \<Rightarrow> True | Some s \<Rightarrow>
               ds_ApprovalFingerprint s = approval \<and> ds_BatchFingerprint s = batch)
             (PbError ''cancellation binding mismatch'')) (\<lambda>_.
           bind_step (clock_step env) (\<lambda>now.
           let receipt = cancellation_of rt approval batch now in
           bind_step (catch_step (write_file env True receipt dw_cancellation put_cancellation)) (\<lambda>written.
             case written of
               Inr _ \<Rightarrow> return_step receipt
             | Inl e \<Rightarrow>
                 bind_step (catch_step (loadCancellation rt env)) (\<lambda>again.
                   case again of
                     Inr (Some existing) \<Rightarrow>
                       if same_binding existing approval batch then return_step existing else fail_step e
                   | _ \<Rightarrow> fail_step e)))))))))))"

definition ReadApprovedCancellation :: "runtime \<Rightarrow> delivery_env \<Rightarrow> ('r, cancellation_receipt) delivery_step" where
  "ReadApprovedCancellation rt env =
     bind_step (loadCancellation rt env) (\<lambda>r. case r of None \<Rightarrow> fail_step ErrNotExist | Some c \<Rightarrow> return_step c)"

definition refreshApprovedCancellation :: "runtime \<Rightarrow> delivery_env \<Rightarrow> ('r, unit) delivery_step" where
  "refreshApprovedCancellation rt env =
     bind_step (loadCancellation rt env) (\<lambda>r.
       case r of
         None \<Rightarrow> return_step ()
       | Some c \<Rightarrow>
           bind_step (gets_step dw_mem) (\<lambda>s.
           bind_step (require (same_binding c (ds_ApprovalFingerprint s) (ds_BatchFingerprint s))
             (PbError ''cancellation binding mismatch'')) (\<lambda>_.
           modify_step (set_mem (s\<lparr>ds_CancellationFingerprint := cr_Fingerprint c,
             ds_Status := (if ds_Status s \<noteq> ''completed'' then ''cancelled'' else ds_Status s)\<rparr>)))))"


section \<open>Runs and their history\<close>

definition validApprovedRunOutcome :: "string \<Rightarrow> bool" where
  "validApprovedRunOutcome x \<longleftrightarrow>
     x \<in> set [''completed'', ''failed'', ''ambiguous'', ''interrupted'', ''cancelled'', ''reconciled'']"

definition approvedAttemptIDsForRun :: "delivery_state \<Rightarrow> int \<Rightarrow> string slice" where
  "approvedAttemptIDsForRun s n = slice_append None
     (map at_AttemptID (filter (\<lambda>a. at_RunSequence a = n) (all_attempts s)))"

definition run_file_name :: "int \<Rightarrow> string \<Rightarrow> string" where
  "run_file_name n invocation =
     (let digits = int_text n
      in replicate (6 - length digits) (CHR ''0'') @ digits @ ''-'' @ invocation @ ''.json'')"

definition run_ref :: "string \<Rightarrow> string" where
  "run_ref name = ''runs/'' @ name"

definition run_hash :: "runtime \<Rightarrow> delivery_run \<Rightarrow> string" where
  "run_hash rt r = hash_value (rt_sha rt) (json_of_run r)"

definition history_hash :: "runtime \<Rightarrow> delivery_history \<Rightarrow> string" where
  "history_hash rt h = hash_value (rt_sha rt) (json_of_history h)"

definition empty_history :: "string \<Rightarrow> string \<Rightarrow> delivery_history" where
  "empty_history approval batch =
     \<lparr>dh_SchemaVersion = ApprovedDeliveryHistorySchema, dh_Fingerprint = '''',
      dh_ApprovalFingerprint = approval, dh_BatchFingerprint = batch, dh_RunRefs = [], dh_Runs = []\<rparr>"

definition append_run :: "string \<Rightarrow> delivery_run \<Rightarrow> delivery_history \<Rightarrow> delivery_history" where
  "append_run name r h = h\<lparr>dh_RunRefs := dh_RunRefs h @ [run_ref name], dh_Runs := dh_Runs h @ [r]\<rparr>"

definition run_valid :: "runtime \<Rightarrow> delivery_history \<Rightarrow> string \<Rightarrow> delivery_run \<Rightarrow> bool" where
  "run_valid rt h name r \<longleftrightarrow>
     (let n = int (length (dh_Runs h)) + 1
      in \<not> (name \<noteq> run_file_name n (dr_InvocationID r) \<or> dr_SchemaVersion r \<noteq> ApprovedDeliveryRunSchema \<or>
            dr_Sequence r \<noteq> n \<or> dr_Fingerprint r \<noteq> run_hash rt r \<or>
            dr_ApprovalFingerprint r \<noteq> dh_ApprovalFingerprint h \<or>
            dr_BatchFingerprint r \<noteq> dh_BatchFingerprint h \<or>
            \<not> validApprovedRunOutcome (dr_Outcome r)))"

fun read_runs ::
  "runtime \<Rightarrow> delivery_env \<Rightarrow> (string \<times> delivery_run blob) list \<Rightarrow> delivery_history
    \<Rightarrow> ('r, delivery_history) delivery_step" where
  "read_runs rt env [] h = return_step h"
| "read_runs rt env ((name, b) # rs) h =
     bind_step (read_file env json_of_run maximumApprovedRunBytes (\<lambda>_. Some b)) (\<lambda>r.
       case r of
         None \<Rightarrow> fail_step LocalIOError
       | Some r \<Rightarrow>
           if run_valid rt h name r then read_runs rt env rs (append_run name r h)
           else fail_step (PbError ''approved delivery history mismatch''))"

definition projection_matches :: "runtime \<Rightarrow> delivery_history \<Rightarrow> delivery_history \<Rightarrow> bool" where
  "projection_matches rt p h \<longleftrightarrow>
     \<not> (dh_Fingerprint p \<noteq> history_hash rt p \<or> dh_ApprovalFingerprint p \<noteq> dh_ApprovalFingerprint h \<or>
        dh_BatchFingerprint p \<noteq> dh_BatchFingerprint h \<or> length (dh_Runs p) > length (dh_Runs h) \<or>
        length (dh_RunRefs p) \<noteq> length (dh_Runs p)) \<and>
     dh_RunRefs p = take (length (dh_Runs p)) (dh_RunRefs h) \<and>
     list_all2 (same_document json_of_run) (dh_Runs p) (take (length (dh_Runs p)) (dh_Runs h))"

definition loadApprovedHistory ::
  "runtime \<Rightarrow> delivery_env \<Rightarrow> string \<Rightarrow> string \<Rightarrow> ('r, delivery_history) delivery_step" where
  "loadApprovedHistory rt env approval batch =
     bind_step (os_step env LocalIOError) (\<lambda>_. \<comment> \<open>\<open>os.ReadDir\<close>\<close>
     bind_step (gets_step dw_runs) (\<lambda>files.
     if files = [] then return_step (empty_history approval batch) \<comment> \<open>the directory does not exist yet\<close>
     else
       bind_step (read_runs rt env (sort_key fst files) (empty_history approval batch)) (\<lambda>h0.
       let h = h0\<lparr>dh_Fingerprint := history_hash rt h0\<rparr> in
       bind_step (read_file env json_of_history maximumApprovedHistoryBytes dw_history) (\<lambda>p.
         case p of
           None \<Rightarrow> return_step h
         | Some p \<Rightarrow>
             bind_step (require (projection_matches rt p h)
               (PbError ''approved delivery history projection mismatch'')) (\<lambda>_.
             if length (dh_Runs p) < length (dh_Runs h)
             then bind_step (write_file env False h dw_history put_history) (\<lambda>_. return_step h)
             else return_step h)))))"

definition remove_active :: "delivery_env \<Rightarrow> ('r, unit) delivery_step" where
  "remove_active env w =
     (if de_fails env (dw_tick w) then (next_tick w, Inl LocalIOError)
      else (next_tick (if alive env w then put_active None w else w), Inr ()))"

definition sealApprovedRun ::
  "runtime \<Rightarrow> delivery_env \<Rightarrow> delivery_history \<Rightarrow> delivery_run \<Rightarrow> ('r, delivery_history) delivery_step" where
  "sealApprovedRun rt env h r0 =
     bind_step (require (\<not> (dr_Sequence r0 \<noteq> int (length (dh_Runs h)) + 1 \<or> dr_Outcome r0 = ''running'' \<or>
         dr_ApprovalFingerprint r0 \<noteq> dh_ApprovalFingerprint h \<or>
         dr_BatchFingerprint r0 \<noteq> dh_BatchFingerprint h))
       (PbError ''approved delivery run sequence mismatch'')) (\<lambda>_.
     let r = r0\<lparr>dr_Fingerprint := run_hash rt r0\<rparr>; name = run_file_name (dr_Sequence r) (dr_InvocationID r);
         h1 = append_run name r h; h2 = h1\<lparr>dh_Fingerprint := history_hash rt h1\<rparr> in
     bind_step (os_step env LocalIOError) (\<lambda>_. \<comment> \<open>the directory of the runs\<close>
     bind_step (write_file env True r (\<lambda>w. map_of (dw_runs w) name) (put_run name)) (\<lambda>_.
     bind_step (write_file env False h2 dw_history put_history) (\<lambda>_.
     bind_step (remove_active env) (\<lambda>_. return_step h2)))))"

text \<open>A run of this delivery that the history holds already: only its marker was left.\<close>

definition already_sealed :: "runtime \<Rightarrow> delivery_state \<Rightarrow> delivery_history \<Rightarrow> delivery_run \<Rightarrow> bool" where
  "already_sealed rt s h r \<longleftrightarrow>
     dr_SchemaVersion r = ApprovedDeliveryRunSchema \<and> dr_Fingerprint r = run_hash rt r \<and>
     dr_Sequence r > 0 \<and> dr_Sequence r \<le> int (length (dh_Runs h)) \<and>
     dr_ApprovalFingerprint r = ds_ApprovalFingerprint s \<and> dr_BatchFingerprint r = ds_BatchFingerprint s \<and>
     dr_Outcome r = ''running'' \<and>
     dr_InvocationID (dh_Runs h ! nat (dr_Sequence r - 1)) = dr_InvocationID r"

definition active_matches :: "runtime \<Rightarrow> delivery_state \<Rightarrow> delivery_history \<Rightarrow> delivery_run \<Rightarrow> bool" where
  "active_matches rt s h r \<longleftrightarrow>
     \<not> (dr_SchemaVersion r \<noteq> ApprovedDeliveryRunSchema \<or> dr_Fingerprint r \<noteq> run_hash rt r \<or>
        dr_Sequence r \<noteq> int (length (dh_Runs h)) + 1 \<or>
        dr_ApprovalFingerprint r \<noteq> ds_ApprovalFingerprint s \<or>
        dr_BatchFingerprint r \<noteq> ds_BatchFingerprint s \<or> dr_Outcome r \<noteq> ''running'')"

definition sealInterruptedApprovedRun ::
  "runtime \<Rightarrow> delivery_env \<Rightarrow> delivery_history \<Rightarrow> int \<Rightarrow> ('r, delivery_history) delivery_step" where
  "sealInterruptedApprovedRun rt env h ended =
     bind_step (read_file env json_of_run maximumApprovedRunBytes dw_active) (\<lambda>r.
       case r of
         None \<Rightarrow> return_step h
       | Some r \<Rightarrow>
           bind_step (gets_step dw_mem) (\<lambda>s.
           if active_matches rt s h r then
             sealApprovedRun rt env h (r\<lparr>dr_AttemptIDs := approvedAttemptIDsForRun s (dr_Sequence r),
               dr_Outcome := ''interrupted'', dr_EndedAt := rt_format rt ended\<rparr>)
           else if already_sealed rt s h r then bind_step (remove_active env) (\<lambda>_. return_step h)
           else fail_step (PbError ''active approved delivery run mismatch'')))"

definition unix_nano :: "int \<Rightarrow> int" where
  "unix_nano t = t - 62135596800000000000"

definition new_run :: "runtime \<Rightarrow> delivery_state \<Rightarrow> int \<Rightarrow> int \<Rightarrow> delivery_run" where
  "new_run rt s n now =
     (let r = \<lparr>dr_SchemaVersion = ApprovedDeliveryRunSchema, dr_Fingerprint = '''', dr_Sequence = n,
               dr_InvocationID = take 20 (rt_sha rt (ds_ApprovalFingerprint s @ ''|'' @ int_text n @
                 ''|'' @ int_text (unix_nano now))),
               dr_ApprovalFingerprint = ds_ApprovalFingerprint s, dr_BatchFingerprint = ds_BatchFingerprint s,
               dr_StartedAt = rt_format rt now, dr_EndedAt = '''', dr_Outcome = ''running'',
               dr_AttemptIDs = Some []\<rparr>
      in r\<lparr>dr_Fingerprint := run_hash rt r\<rparr>)"

definition delivering :: "int \<Rightarrow> delivery_state \<Rightarrow> delivery_state" where
  "delivering n s = s\<lparr>ds_LatestRunSequence := n,
     ds_Status := (if ds_Status s \<noteq> ''cancelled'' \<and> ds_Status s \<noteq> ''completed'' then ''delivering''
                   else ds_Status s)\<rparr>"

definition update_mem :: "(delivery_state \<Rightarrow> delivery_state) \<Rightarrow> 'r delivery_world \<Rightarrow> 'r delivery_world" where
  "update_mem f w = set_mem (f (dw_mem w)) w"

definition startApprovedRun ::
  "runtime \<Rightarrow> delivery_env \<Rightarrow> int \<Rightarrow> ('r, delivery_history \<times> delivery_run) delivery_step" where
  "startApprovedRun rt env now =
     bind_step (gets_step dw_mem) (\<lambda>s.
     bind_step (loadApprovedHistory rt env (ds_ApprovalFingerprint s) (ds_BatchFingerprint s)) (\<lambda>h0.
     bind_step (sealInterruptedApprovedRun rt env h0 now) (\<lambda>h.
     let n = int (length (dh_Runs h)) + 1; run = new_run rt s n now in
     bind_step (write_file env False run dw_active put_active) (\<lambda>_.
     bind_step (modify_step (update_mem (delivering n))) (\<lambda>_.
     bind_step (writeApprovedState rt env) (\<lambda>_. return_step (h, run)))))))"

definition finishApprovedRun ::
  "runtime \<Rightarrow> delivery_env \<Rightarrow> delivery_history \<Rightarrow> delivery_run \<Rightarrow> string \<Rightarrow> int
    \<Rightarrow> ('r, delivery_history) delivery_step" where
  "finishApprovedRun rt env h run outcome now =
     bind_step (gets_step dw_mem) (\<lambda>s.
     sealApprovedRun rt env h (run\<lparr>dr_AttemptIDs := approvedAttemptIDsForRun s (dr_Sequence run),
       dr_Outcome := outcome, dr_EndedAt := rt_format rt now\<rparr>))"

definition approvedReceiptValue :: "runtime \<Rightarrow> delivery_state \<Rightarrow> delivery_history \<Rightarrow> delivery_receipt" where
  "approvedReceiptValue rt s h =
     (let acked = filter (\<lambda>x. os_State x = ''acknowledged'') (ds_Operations s);
          r = \<lparr>rc_SchemaVersion = ApprovedDeliveryReceiptSchema, rc_Fingerprint = '''',
               rc_ApprovalFingerprint = ds_ApprovalFingerprint s, rc_BatchFingerprint = ds_BatchFingerprint s,
               rc_StateFingerprint = ds_Fingerprint s, rc_HistoryFingerprint = dh_Fingerprint h,
               rc_Status = ds_Status s, rc_AcknowledgedOperations = int (length acked),
               rc_UniqueWriteReservations = ds_UniqueWriteReservations s,
               rc_MutationAttempts = ds_MutationAttempts s,
               rc_RemoteObjectIDs = slice_append None (sort (map os_RemoteObjectID
                 (filter (\<lambda>x. \<not> blank (os_RemoteObjectID x)) acked))),
               rc_CancellationFingerprint = ds_CancellationFingerprint s\<rparr>
      in r\<lparr>rc_Fingerprint := hash_value (rt_sha rt) (json_of_receipt r)\<rparr>)"

definition buildApprovedReceipt ::
  "runtime \<Rightarrow> delivery_env \<Rightarrow> delivery_history \<Rightarrow> ('r, delivery_receipt) delivery_step" where
  "buildApprovedReceipt rt env h =
     bind_step (gets_step dw_mem) (\<lambda>s.
     let r = approvedReceiptValue rt s h in
     bind_step (write_file env False r dw_receipt put_receipt) (\<lambda>_. return_step r))"

definition ReadApprovedDeliveryState :: "runtime \<Rightarrow> delivery_env \<Rightarrow> ('r, delivery_state) delivery_step" where
  "ReadApprovedDeliveryState rt env =
     bind_step (loadApprovedState rt env) (\<lambda>s. case s of None \<Rightarrow> fail_step ErrNotExist | Some s \<Rightarrow> return_step s)"

definition ReadApprovedDeliveryHistory :: "runtime \<Rightarrow> delivery_env \<Rightarrow> ('r, delivery_history) delivery_step" where
  "ReadApprovedDeliveryHistory rt env =
     bind_step (ReadApprovedDeliveryState rt env) (\<lambda>s.
     loadApprovedHistory rt env (ds_ApprovalFingerprint s) (ds_BatchFingerprint s))"

definition ReadApprovedDeliveryReceipt :: "runtime \<Rightarrow> delivery_env \<Rightarrow> ('r, delivery_receipt) delivery_step" where
  "ReadApprovedDeliveryReceipt rt env =
     bind_step (read_file env json_of_receipt maximumApprovedReceiptBytes dw_receipt) (\<lambda>r.
       case r of
         None \<Rightarrow> fail_step ErrNotExist
       | Some r \<Rightarrow>
           bind_step (require (\<not> (rc_SchemaVersion r \<noteq> ApprovedDeliveryReceiptSchema \<or>
               rc_Fingerprint r \<noteq> hash_value (rt_sha rt) (json_of_receipt r)))
             (PbError ''approved delivery receipt mismatch'')) (\<lambda>_.
           bind_step (loadApprovedState rt env) (\<lambda>s.
             case s of
               None \<Rightarrow> fail_step (PbError ''approved delivery receipt mismatch'')
             | Some s \<Rightarrow>
                 bind_step (loadApprovedHistory rt env (ds_ApprovalFingerprint s) (ds_BatchFingerprint s)) (\<lambda>h.
                 if same_document json_of_receipt r (approvedReceiptValue rt s h) then return_step r
                 else fail_step (PbError ''approved delivery receipt is stale'')))))"

end
