(* ===== verification/PB_Delivery_Run.thy ===== *)
theory PB_Delivery_Run
  imports PB_Delivery_Store
begin

text \<open>
  Running an approved delivery, \<open>internal/productbrain/approved_delivery_runtime.go\<close>: reserving a
  mutation attempt, mutating the destination, reconciling with what it shows, and the whole run
  behind \<open>DeliverApproved\<close> and \<open>ReconcileApproved\<close>.

  The destination is a transport over an arbitrary remote state. Its operations may answer and
  change that state in any way. \<open>ordering_lock\<close> is also the place where a concurrent
  \<open>CancelApproved\<close> takes effect: the run reads the cancellation only at its start and under this
  lock, so every other interleaving is equivalent to one of these.
\<close>

section \<open>The transport\<close>

record 'r transport =
  tr_ResolveWorkspace :: "'r \<Rightarrow> 'r \<times> (pb_error, workspace_capability) result"
  tr_SecretScanner :: bool \<comment> \<open>implements \<open>RuntimeSecretScanner\<close>\<close>
  tr_SecretFindings :: "outbox \<Rightarrow> 'r \<Rightarrow> 'r \<times> bool" \<comment> \<open>whether there are findings\<close>
  tr_GetCollectionFields :: "string \<Rightarrow> 'r \<Rightarrow> 'r \<times> (pb_error, collection_capability) result"
  tr_GetEntry :: "string \<Rightarrow> 'r \<Rightarrow> 'r \<times> (pb_error, entry_readback) result"
  tr_SearchEntries :: "string \<Rightarrow> string \<Rightarrow> 'r \<Rightarrow> 'r \<times> (pb_error, string list) result"
  tr_CreateEntry :: "create_entry_request \<Rightarrow> 'r \<Rightarrow> 'r \<times> pb_error option"
  tr_ListEntryRelations :: "string \<Rightarrow> 'r \<Rightarrow> 'r \<times> (pb_error, relation_readback list) result"
  tr_CreateEntryRelation :: "create_relation_request \<Rightarrow> 'r \<Rightarrow> 'r \<times> pb_error option"

definition put_remote :: "'r \<Rightarrow> 'r delivery_world \<Rightarrow> 'r delivery_world" where
  "put_remote r w = w\<lparr>dw_remote := r\<rparr>"

definition log_event :: "delivery_event \<Rightarrow> 'r delivery_world \<Rightarrow> 'r delivery_world" where
  "log_event e w = w\<lparr>dw_log := dw_log w @ [e]\<rparr>"

text \<open>What a reconciliation saw is recorded, by a process that is still alive.\<close>

definition note_event :: "delivery_env \<Rightarrow> delivery_event \<Rightarrow> 'r delivery_world \<Rightarrow> 'r delivery_world" where
  "note_event env e w = (if alive env w then log_event e w else w)"

definition ask :: "delivery_env \<Rightarrow> ('r \<Rightarrow> 'r \<times> (pb_error, 'a) result) \<Rightarrow> ('r, 'a) delivery_step" where
  "ask env f w = (case f (dw_remote w) of
     (r, x) \<Rightarrow> (next_tick (if alive env w then put_remote r w else w), x))"

text \<open>A mutating call: it is logged when it is made, and returns its error as a value.\<close>

definition mutate ::
  "delivery_env \<Rightarrow> delivery_event \<Rightarrow> ('r \<Rightarrow> 'r \<times> pb_error option) \<Rightarrow> ('r, pb_error option) delivery_step"
  where
  "mutate env e f w = (case f (dw_remote w) of
     (r, x) \<Rightarrow> (next_tick (if alive env w then log_event e (put_remote r w) else w), Inr x))"

section \<open>Operations of the state\<close>

definition operation_at :: "nat \<Rightarrow> 'r delivery_world \<Rightarrow> operation_state" where
  "operation_at i w = ds_Operations (dw_mem w) ! i"

definition update_operation ::
  "nat \<Rightarrow> (operation_state \<Rightarrow> operation_state) \<Rightarrow> delivery_state \<Rightarrow> delivery_state" where
  "update_operation i f s = s\<lparr>ds_Operations := (ds_Operations s)[i := f (ds_Operations s ! i)]\<rparr>"

definition set_op_state :: "nat \<Rightarrow> string \<Rightarrow> delivery_state \<Rightarrow> delivery_state" where
  "set_op_state i x = update_operation i (\<lambda>p. p\<lparr>os_State := x\<rparr>)"

definition set_status :: "string \<Rightarrow> delivery_state \<Rightarrow> delivery_state" where
  "set_status x s = s\<lparr>ds_Status := x\<rparr>"

definition update_latest :: "(mutation_attempt \<Rightarrow> mutation_attempt) \<Rightarrow> operation_state \<Rightarrow> operation_state" where
  "update_latest f p = (if os_Attempts p = [] then p
     else p\<lparr>os_Attempts := butlast (os_Attempts p) @ [f (last (os_Attempts p))]\<rparr>)"

definition markApprovedAttemptAcknowledged :: "nat \<Rightarrow> delivery_state \<Rightarrow> delivery_state" where
  "markApprovedAttemptAcknowledged i = update_operation i (\<lambda>p. update_latest (\<lambda>a.
     a\<lparr>at_Outcome := ''acknowledged'', at_MayHaveCommitted := True,
       at_ReadbackFingerprint := os_ReadbackFingerprint p\<rparr>) p)"

definition markApprovedAttemptAmbiguous :: "nat \<Rightarrow> delivery_state \<Rightarrow> delivery_state" where
  "markApprovedAttemptAmbiguous i s = set_op_state i ''ambiguous'' (update_operation i (update_latest (\<lambda>a.
     a\<lparr>at_Outcome := ''ambiguous'', at_MayHaveCommitted := True\<rparr>)) s)"

definition markApprovedAttemptNotObserved :: "nat \<Rightarrow> delivery_state \<Rightarrow> delivery_state" where
  "markApprovedAttemptNotObserved i s = set_op_state i ''not_observed'' (update_operation i (update_latest (\<lambda>a.
     a\<lparr>at_Outcome := ''not_observed''\<rparr>)) s)"

definition recorded_attempt :: "pb_error option \<Rightarrow> mutation_attempt \<Rightarrow> mutation_attempt" where
  "recorded_attempt err a =
     (case err of
        None \<Rightarrow> a\<lparr>at_ResponseReceived := True, at_MayHaveCommitted := True, at_Outcome := ''ambiguous''\<rparr>
      | Some e \<Rightarrow>
          let b = (case e of TransportError _ c \<Rightarrow> a\<lparr>at_MayHaveCommitted := c\<rparr> | _ \<Rightarrow> a)
          in b\<lparr>at_Outcome := (if at_MayHaveCommitted b then ''ambiguous'' else ''rejected'')\<rparr>)"

definition recordApprovedMutationResult :: "nat \<Rightarrow> pb_error option \<Rightarrow> delivery_state \<Rightarrow> delivery_state" where
  "recordApprovedMutationResult i err = update_operation i (\<lambda>p.
     if os_Attempts p = [] then p
     else
       let a = recorded_attempt err (last (os_Attempts p))
       in (update_latest (\<lambda>_. a) p)\<lparr>os_State :=
            (if at_Outcome a = ''ambiguous'' then ''ambiguous'' else ''not_observed'')\<rparr>)"

section \<open>Reserving an attempt\<close>

definition new_attempt ::
  "runtime \<Rightarrow> delivery_state \<Rightarrow> operation_state \<Rightarrow> int \<Rightarrow> int \<Rightarrow> mutation_attempt" where
  "new_attempt rt s p run_sequence now =
     (let n = ds_MutationAttempts s + 1
      in \<lparr>at_AttemptNumber = n,
          at_AttemptID = attempt_id (rt_sha rt) (ds_ApprovalFingerprint s) (os_OperationID p) n,
          at_RunSequence = run_sequence, at_OperationID = os_OperationID p,
          at_OperationFingerprint = os_OperationFingerprint p, at_ReservedAt = rt_format rt now,
          at_Outcome = ''reserved'', at_ResponseReceived = False, at_MayHaveCommitted = False,
          at_ReadbackFingerprint = ''''\<rparr>)"

definition reserve_write :: "nat \<Rightarrow> delivery_state \<Rightarrow> delivery_state" where
  "reserve_write i s =
     (if os_UniqueWriteReserved (ds_Operations s ! i) then s
      else (update_operation i (\<lambda>p. p\<lparr>os_UniqueWriteReserved := True\<rparr>) s)
        \<lparr>ds_UniqueWriteReservations := ds_UniqueWriteReservations s + 1\<rparr>)"

definition add_attempt :: "runtime \<Rightarrow> nat \<Rightarrow> int \<Rightarrow> int \<Rightarrow> delivery_state \<Rightarrow> delivery_state" where
  "add_attempt rt i run_sequence now s =
     (update_operation i (\<lambda>p. p\<lparr>os_Attempts := os_Attempts p @ [new_attempt rt s p run_sequence now],
        os_State := ''reserved''\<rparr>) s)
      \<lparr>ds_MutationAttempts := ds_MutationAttempts s + 1, ds_Status := ''delivering''\<rparr>"

definition reserveApprovedAttempt ::
  "runtime \<Rightarrow> delivery_env \<Rightarrow> nat \<Rightarrow> int \<Rightarrow> int \<Rightarrow> ('r, unit) delivery_step" where
  "reserveApprovedAttempt rt env i run_sequence now =
     bind_step (gets_step dw_mem) (\<lambda>s.
     bind_step (require (os_UniqueWriteReserved (ds_Operations s ! i) \<or>
         \<not> ds_UniqueWriteReservations s \<ge> ds_MaximumDestinationWrites s) ErrWriteBudgetExhausted) (\<lambda>_.
     bind_step (modify_step (update_mem (reserve_write i))) (\<lambda>_.
     bind_step (require (\<not> ds_MutationAttempts s \<ge> ds_MaximumMutationAttempts s) ErrAttemptBudgetExhausted) (\<lambda>_.
     bind_step (modify_step (update_mem (add_attempt rt i run_sequence now))) (\<lambda>_.
     writeApprovedState rt env)))))"

section \<open>Mutating\<close>

definition entry_request :: "entry_operation \<Rightarrow> create_entry_request" where
  "entry_request e = \<lparr>ce_CollectionSlug = en_CollectionSlug e, ce_EntryID = en_EntryID e,
     ce_Name = en_Name e, ce_Data = en_Data e, ce_SourceRef = en_SourceRef e,
     ce_SourceExcerpt = en_SourceExcerpt e, ce_CreatedBy = en_CreatedBy e,
     ce_ForceDraft = en_ForceDraft e\<rparr>"

definition relation_request :: "relation_operation \<Rightarrow> create_relation_request" where
  "relation_request r = \<lparr>cl_FromEntryID = re_FromEntryID r, cl_ToEntryID = re_ToEntryID r,
     cl_Type = re_Type r, cl_Metadata = re_Metadata r, cl_IfMissing = re_IfMissing r\<rparr>"

text \<open>The request of an operation; a missing payload would panic and is excluded by the validation.\<close>

definition mutation_of :: "outbox_operation \<Rightarrow> mutation option" where
  "mutation_of x =
     (if oo_Kind x = ''entry'' then map_option (\<lambda>e. MutEntry (entry_request e)) (oo_Entry x)
      else if oo_Kind x = ''relation'' then map_option (\<lambda>r. MutRelation (relation_request r)) (oo_Relation x)
      else None)"

definition send :: "'r transport \<Rightarrow> mutation \<Rightarrow> 'r \<Rightarrow> 'r \<times> pb_error option" where
  "send tr m = (case m of MutEntry q \<Rightarrow> tr_CreateEntry tr q | MutRelation q \<Rightarrow> tr_CreateEntryRelation tr q)"

definition mutateApprovedOperation ::
  "delivery_env \<Rightarrow> 'r transport \<Rightarrow> nat \<Rightarrow> outbox_operation \<Rightarrow> ('r, pb_error option) delivery_step" where
  "mutateApprovedOperation env tr i x =
     (case mutation_of x of
        None \<Rightarrow> return_step (Some (PbError ''invalid approved delivery operation''))
      | Some m \<Rightarrow> mutate env (Mutation i m) (send tr m))"

section \<open>Reconciling\<close>

definition block_operation :: "nat \<Rightarrow> string \<Rightarrow> delivery_state \<Rightarrow> delivery_state" where
  "block_operation i category s =
     set_status ''blocked'' (update_operation i (\<lambda>p. p\<lparr>os_State := ''blocked'', os_SafeCategory := category\<rparr>) s)"

definition blocked :: "nat \<Rightarrow> string \<Rightarrow> pb_error \<Rightarrow> ('r, 'a) delivery_step" where
  "blocked i category e =
     bind_step (modify_step (update_mem (block_operation i category))) (\<lambda>_. fail_step e)"

definition acknowledge :: "delivery_env \<Rightarrow> nat \<Rightarrow> string \<Rightarrow> string \<Rightarrow> string \<Rightarrow> ('r, bool) delivery_step" where
  "acknowledge env i doc remote fp =
     bind_step (modify_step (update_mem (update_operation i (\<lambda>p.
       p\<lparr>os_State := ''acknowledged'', os_EntryDocID := doc, os_RemoteObjectID := remote,
         os_ReadbackFingerprint := fp, os_SafeCategory := ''''\<rparr>)))) (\<lambda>_.
     bind_step (modify_step (note_event env (Confirmed i))) (\<lambda>_. return_step True))"

definition not_observed :: "delivery_env \<Rightarrow> nat \<Rightarrow> ('r, bool) delivery_step" where
  "not_observed env i =
     bind_step (modify_step (update_mem (update_operation i (\<lambda>p.
       p\<lparr>os_State := (if os_Attempts p \<noteq> [] then ''not_observed'' else ''pending'')\<rparr>)))) (\<lambda>_.
     bind_step (modify_step (note_event env (Absent i))) (\<lambda>_. return_step False))"

definition reconcile_entry ::
  "runtime \<Rightarrow> delivery_env \<Rightarrow> 'r transport \<Rightarrow> nat \<Rightarrow> entry_operation \<Rightarrow> ('r, bool) delivery_step" where
  "reconcile_entry rt env tr i e =
     bind_step (ask env (tr_GetEntry tr (en_EntryID e))) (\<lambda>found.
     if er_Found found then
       (if compareEntry found e
        then acknowledge env i (er_DocID found) (er_EntryID found)
          (hash_value (rt_sha rt) (json_of_readback found))
        else blocked i ''readback_mismatch'' (PbError ''readback_mismatch''))
     else
       bind_step (ask env (tr_SearchEntries tr (en_Name e) (en_CollectionSlug e))) (\<lambda>matches.
       if list_ex (\<lambda>k. k \<noteq> en_EntryID e) matches
       then blocked i ''destination_name_conflict'' (PbError ''destination_name_conflict'')
       else not_observed env i))"

definition approvedEntryStateByEntryID :: "delivery_state \<Rightarrow> string \<Rightarrow> operation_state option" where
  "approvedEntryStateByEntryID s k =
     List.find (\<lambda>p. os_Kind p = ''entry'' \<and> os_EntryID p = k) (ds_Operations s)"

definition acknowledged :: "operation_state option \<Rightarrow> bool" where
  "acknowledged p = (case p of None \<Rightarrow> False | Some p \<Rightarrow> os_State p = ''acknowledged'')"

definition relation_readback_hash :: "runtime \<Rightarrow> string \<Rightarrow> relation_operation \<Rightarrow> string" where
  "relation_readback_hash rt rid r = hash_value (rt_sha rt) (JObj
     [(''identity'', JStr (re_RelationIdentity r)), (''metadata'', re_Metadata r),
      (''relation_id'', JStr rid)])"

definition reconcile_relation ::
  "runtime \<Rightarrow> delivery_env \<Rightarrow> 'r transport \<Rightarrow> nat \<Rightarrow> relation_operation \<Rightarrow> ('r, bool) delivery_step" where
  "reconcile_relation rt env tr i r =
     bind_step (gets_step dw_mem) (\<lambda>s.
     let from = approvedEntryStateByEntryID s (re_FromEntryID r);
         to = approvedEntryStateByEntryID s (re_ToEntryID r) in
     if \<not> (acknowledged from \<and> acknowledged to) then fail_step (PbError ''dependency_not_acknowledged'')
     else
       bind_step (ask env (tr_ListEntryRelations tr (re_FromEntryID r))) (\<lambda>xs.
       case findRelation xs (os_EntryDocID (the from)) (os_EntryDocID (the to)) r of
         (matched, rid, conflict) \<Rightarrow>
           if conflict then blocked i ''readback_mismatch'' (PbError ''readback_mismatch'')
           else if matched
           then acknowledge env i (os_EntryDocID (ds_Operations s ! i)) rid (relation_readback_hash rt rid r)
           else not_observed env i))"

definition reconcileApprovedOperation ::
  "runtime \<Rightarrow> delivery_env \<Rightarrow> 'r transport \<Rightarrow> nat \<Rightarrow> outbox_operation \<Rightarrow> ('r, bool) delivery_step" where
  "reconcileApprovedOperation rt env tr i x =
     (if oo_Kind x = ''entry'' then
        (case oo_Entry x of None \<Rightarrow> fail_step (PbError ''nil entry'') | Some e \<Rightarrow> reconcile_entry rt env tr i e)
      else if oo_Kind x = ''relation'' then
        (case oo_Relation x of None \<Rightarrow> fail_step (PbError ''nil relation'')
                             | Some r \<Rightarrow> reconcile_relation rt env tr i r)
      else fail_step (PbError ''invalid approved delivery operation''))"


section \<open>The run\<close>

fun check_contracts ::
  "runtime \<Rightarrow> delivery_env \<Rightarrow> 'r transport \<Rightarrow> outbox \<Rightarrow> (string \<times> string) list \<Rightarrow> string list
    \<Rightarrow> ('r, unit) delivery_step" where
  "check_contracts rt env tr b expected [] = return_step ()"
| "check_contracts rt env tr b expected (slug # slugs) =
     bind_step (ask env (tr_GetCollectionFields tr slug)) (\<lambda>c.
     bind_step (require (validateOutboxCollectionContract b slug c \<and>
         (case map_of expected slug of None \<Rightarrow> False
          | Some fp \<Rightarrow> fp \<noteq> '''' \<and> fp = hash_value (rt_sha rt) (json_of_collection c)))
       (PbError ''collection_contract_mismatch'')) (\<lambda>_.
     check_contracts rt env tr b expected slugs))"

text \<open>The map of the expected fingerprints keeps the last reference of a slug.\<close>

definition validateLiveCollectionContracts ::
  "runtime \<Rightarrow> delivery_env \<Rightarrow> 'r transport \<Rightarrow> outbox \<Rightarrow> preflight_artifact \<Rightarrow> ('r, unit) delivery_step" where
  "validateLiveCollectionContracts rt env tr b p =
     check_contracts rt env tr b (rev (slice_list (pa_CollectionContracts p))) (outboxCollectionSlugs b)"

definition validateApprovedLivePreconditions ::
  "runtime \<Rightarrow> delivery_env \<Rightarrow> 'r transport \<Rightarrow> approved_batch \<Rightarrow> ('r, unit) delivery_step" where
  "validateApprovedLivePreconditions rt env tr b =
     bind_step (ask env (tr_ResolveWorkspace tr)) (\<lambda>capability.
     case checkCapability capability (ab_Profile b) of
       Some e \<Rightarrow> fail_step e
     | None \<Rightarrow>
         bind_step (require (tr_SecretScanner tr) (PbError ''unsafe_outbound_value'')) (\<lambda>_.
         bind_step (ask env (\<lambda>r. case tr_SecretFindings tr (ab_Outbox b) r of (r', found) \<Rightarrow>
             (r', if found then Inl (PbError ''unsafe_outbound_value'') else Inr ()))) (\<lambda>_.
         validateLiveCollectionContracts rt env tr (ab_Outbox b) (ab_Preflight b))))"

datatype loop_end = NextOperation | FinishRun string "pb_error option"

definition finish_with :: "string \<Rightarrow> pb_error \<Rightarrow> ('r, loop_end) delivery_step" where
  "finish_with outcome e = return_step (FinishRun outcome (Some e))"

definition mem_status :: "string \<Rightarrow> ('r, unit) delivery_step" where
  "mem_status x = modify_step (update_mem (set_status x))"

definition ordering_lock :: "runtime \<Rightarrow> delivery_env \<Rightarrow> ('r, unit) delivery_step" where
  "ordering_lock rt env w =
     (case de_cancel env (dw_tick w) of
        None \<Rightarrow> os_step env LocalIOError w
      | Some ref \<Rightarrow> os_step env LocalIOError (fst (CancelApproved rt env ref w)))"

text \<open>The reservation under the ordering lock; \<open>Some\<close> ends the run.\<close>

definition reserve_under_lock ::
  "runtime \<Rightarrow> delivery_env \<Rightarrow> approved_batch \<Rightarrow> int \<Rightarrow> nat \<Rightarrow> ('r, loop_end option) delivery_step" where
  "reserve_under_lock rt env b run_sequence i =
     bind_step (catch_step (ordering_lock rt env)) (\<lambda>locked.
     case locked of Inl e \<Rightarrow> return_step (Some (FinishRun ''failed'' (Some e))) | Inr _ \<Rightarrow>
     bind_step (catch_step (refreshApprovedCancellation rt env)) (\<lambda>refreshed.
     case refreshed of Inl e \<Rightarrow> return_step (Some (FinishRun ''failed'' (Some e))) | Inr _ \<Rightarrow>
     bind_step (gets_step dw_mem) (\<lambda>s.
     if ds_CancellationFingerprint s \<noteq> '''' then
       bind_step (mem_status ''cancelled'') (\<lambda>_.
       return_step (Some (FinishRun ''cancelled'' (Some ErrApprovedDeliveryCancelled))))
     else
       bind_step (clock_step env) (\<lambda>now.
       case approvalValidAt (rt_parse rt) (ab_Approval b) now of
         Some e \<Rightarrow> return_step (Some (FinishRun ''failed'' (Some e)))
       | None \<Rightarrow>
           bind_step (clock_step env) (\<lambda>now'.
           bind_step (catch_step (reserveApprovedAttempt rt env i run_sequence now')) (\<lambda>reserved.
           case reserved of
             Inr _ \<Rightarrow> return_step None
           | Inl e \<Rightarrow>
               bind_step (modify_step (update_mem (set_op_state i ''blocked'' \<circ> set_status ''blocked''))) (\<lambda>_.
               return_step (Some (FinishRun ''failed'' (Some e))))))))))"

definition confirm ::
  "runtime \<Rightarrow> delivery_env \<Rightarrow> nat \<Rightarrow> ('r, loop_end) delivery_step" where
  "confirm rt env i =
     bind_step (modify_step (update_mem (markApprovedAttemptAcknowledged i))) (\<lambda>_.
     bind_step (writeApprovedState rt env) (\<lambda>_. return_step NextOperation))"

text \<open>After the reservation: mutate, record, reconcile.\<close>

definition mutate_and_settle ::
  "runtime \<Rightarrow> delivery_env \<Rightarrow> 'r transport \<Rightarrow> nat \<Rightarrow> outbox_operation \<Rightarrow> ('r, loop_end) delivery_step" where
  "mutate_and_settle rt env tr i x =
     bind_step (hook_step env) (\<lambda>_.
     bind_step (mutateApprovedOperation env tr i x) (\<lambda>mutation_err.
     bind_step (hook_step env) (\<lambda>_.
     bind_step (modify_step (update_mem (recordApprovedMutationResult i mutation_err))) (\<lambda>_.
     bind_step (writeApprovedState rt env) (\<lambda>_.
     bind_step (catch_step (reconcileApprovedOperation rt env tr i x)) (\<lambda>observed.
     case observed of
       Inl e \<Rightarrow>
         bind_step (gets_step (operation_at i)) (\<lambda>p.
         if os_State p = ''blocked'' then bind_step (mem_status ''blocked'') (\<lambda>_. finish_with ''failed'' e)
         else
           bind_step (modify_step (update_mem (set_status ''ambiguous'' \<circ> markApprovedAttemptAmbiguous i))) (\<lambda>_.
           finish_with ''ambiguous'' ErrApprovedDeliveryAmbiguous))
     | Inr True \<Rightarrow> confirm rt env i
     | Inr False \<Rightarrow>
         bind_step (modify_step (update_mem (markApprovedAttemptNotObserved i))) (\<lambda>_.
         case mutation_err of
           Some e \<Rightarrow> bind_step (mem_status ''approved'') (\<lambda>_. finish_with ''failed'' e)
         | None \<Rightarrow> bind_step (mem_status ''ambiguous'') (\<lambda>_.
             finish_with ''ambiguous'' ErrApprovedDeliveryAmbiguous))))))))"

definition write_operation ::
  "runtime \<Rightarrow> delivery_env \<Rightarrow> 'r transport \<Rightarrow> approved_batch \<Rightarrow> int \<Rightarrow> nat \<Rightarrow> outbox_operation
    \<Rightarrow> ('r, loop_end) delivery_step" where
  "write_operation rt env tr b run_sequence i x =
     bind_step (hook_step env) (\<lambda>_.
     bind_step (reserve_under_lock rt env b run_sequence i) (\<lambda>r.
     case r of
       Some stop \<Rightarrow> return_step stop
     | None \<Rightarrow> mutate_and_settle rt env tr i x))"

text \<open>What follows the first reconciliation of an operation, whose state is then \<open>p\<close>.\<close>

definition after_reconciliation ::
  "runtime \<Rightarrow> delivery_env \<Rightarrow> 'r transport \<Rightarrow> approved_batch \<Rightarrow> bool \<Rightarrow> bool \<Rightarrow> int \<Rightarrow> nat \<Rightarrow> outbox_operation
    \<Rightarrow> (pb_error, bool) result \<Rightarrow> operation_state \<Rightarrow> ('r, loop_end) delivery_step" where
  "after_reconciliation rt env tr b allow cancelled run_sequence i x observed p =
     (case observed of
        Inl e \<Rightarrow>
          if os_State p = ''blocked'' then bind_step (mem_status ''blocked'') (\<lambda>_. finish_with ''failed'' e)
          else
            bind_step (if os_Attempts p = [] then return_step ()
              else modify_step (update_mem (set_status ''ambiguous'' \<circ> set_op_state i ''ambiguous''))) (\<lambda>_.
            finish_with ''ambiguous'' ErrApprovedDeliveryAmbiguous)
      | Inr True \<Rightarrow> confirm rt env i
      | Inr False \<Rightarrow>
          if cancelled then return_step NextOperation
          else if \<not> allow then
            (if os_Attempts p = [] then return_step NextOperation
             else bind_step (mem_status ''ambiguous'') (\<lambda>_.
               finish_with ''reconciled'' ErrApprovedDeliveryAmbiguous))
          else write_operation rt env tr b run_sequence i x)"

definition deliver_operation ::
  "runtime \<Rightarrow> delivery_env \<Rightarrow> 'r transport \<Rightarrow> approved_batch \<Rightarrow> bool \<Rightarrow> bool \<Rightarrow> int \<Rightarrow> nat \<Rightarrow> outbox_operation
    \<Rightarrow> ('r, loop_end) delivery_step" where
  "deliver_operation rt env tr b allow cancelled run_sequence i x =
     bind_step (gets_step (operation_at i)) (\<lambda>p0.
     if (cancelled \<or> \<not> allow) \<and> os_Attempts p0 = [] then return_step NextOperation
     else
       bind_step (catch_step (reconcileApprovedOperation rt env tr i x)) (\<lambda>observed.
       bind_step (gets_step (operation_at i)) (\<lambda>p.
       after_reconciliation rt env tr b allow cancelled run_sequence i x observed p)))"

fun deliver_loop ::
  "runtime \<Rightarrow> delivery_env \<Rightarrow> 'r transport \<Rightarrow> approved_batch \<Rightarrow> bool \<Rightarrow> bool \<Rightarrow> int \<Rightarrow> nat
    \<Rightarrow> outbox_operation list \<Rightarrow> ('r, loop_end) delivery_step" where
  "deliver_loop rt env tr b allow cancelled run_sequence i [] = return_step NextOperation"
| "deliver_loop rt env tr b allow cancelled run_sequence i (x # xs) =
     bind_step (deliver_operation rt env tr b allow cancelled run_sequence i x) (\<lambda>e.
     case e of
       NextOperation \<Rightarrow> deliver_loop rt env tr b allow cancelled run_sequence (Suc i) xs
     | FinishRun outcome cause \<Rightarrow> return_step e)"


record 'r delivery_options =
  op_Verifier :: "(human_evidence \<Rightarrow> 'r \<Rightarrow> 'r \<times> (pb_error, unit) result) option"
    \<comment> \<open>\<open>HumanInitiationVerifier.VerifyAndConsume\<close>; it may share the remote state\<close>
  op_ReviewOk :: "outbox \<Rightarrow> bool" \<comment> \<open>the part of \<open>ValidateOutbox\<close> that is not modelled\<close>

definition verify_human ::
  "delivery_env \<Rightarrow> 'r delivery_options \<Rightarrow> approved_batch \<Rightarrow> pb_error \<Rightarrow> pb_error \<Rightarrow> ('r, unit) delivery_step"
  where
  "verify_human env opts b missing rejected =
     (case op_Verifier opts of
        None \<Rightarrow> fail_step missing
      | Some v \<Rightarrow>
          bind_step (catch_step (ask env (v (ab_Evidence b)))) (\<lambda>r.
          case r of Inl _ \<Rightarrow> fail_step rejected | Inr _ \<Rightarrow> return_step ()))"

text \<open>The authority: an existing one must be the batch's own, a new one needs the human.\<close>

definition establish_authority ::
  "runtime \<Rightarrow> delivery_env \<Rightarrow> 'r delivery_options \<Rightarrow> approved_batch \<Rightarrow> bool \<Rightarrow> ('r, bool) delivery_step" where
  "establish_authority rt env opts b allow =
     bind_step (loadApprovedAuthority rt env) (\<lambda>a.
     case a of
       Some a \<Rightarrow>
         bind_step (require (same_document json_of_authority_document a (authority_of rt b))
           (PbError ''immutable approval snapshot mismatch'')) (\<lambda>_. return_step True)
     | None \<Rightarrow>
         bind_step (require allow ErrNotExist) (\<lambda>_.
         bind_step (clock_step env) (\<lambda>now.
         case approvalValidAt (rt_parse rt) (ab_Approval b) now of
           Some e \<Rightarrow> fail_step e
         | None \<Rightarrow>
             bind_step (verify_human env opts b (PbError ''human initiation verifier missing'')
               (PbError ''human initiation rejected'')) (\<lambda>_.
             bind_step (sealApprovedAuthority rt env b) (\<lambda>_.
             bind_step (hook_step env) (\<lambda>_. return_step False))))))"

text \<open>Loads or initialises the state; the result says whether the authority existed before.\<close>

definition open_state ::
  "runtime \<Rightarrow> delivery_env \<Rightarrow> 'r delivery_options \<Rightarrow> approved_batch \<Rightarrow> bool \<Rightarrow> ('r, bool) delivery_step" where
  "open_state rt env opts b allow =
     bind_step (loadApprovedState rt env) (\<lambda>s.
     case s of
       None \<Rightarrow>
         bind_step (establish_authority rt env opts b allow) (\<lambda>preexisting.
         bind_step (initializeApprovedState rt env b) (\<lambda>_. return_step preexisting))
     | Some s \<Rightarrow>
         bind_step (require (validateStateBinding (rt_sha rt) s b)
           (PbError ''approved delivery binding mismatch'')) (\<lambda>_.
         bind_step (validateApprovedSnapshots rt env b s) (\<lambda>_.
         bind_step (modify_step (set_mem s)) (\<lambda>_. return_step True))))"

definition finish_run ::
  "runtime \<Rightarrow> delivery_env \<Rightarrow> delivery_history \<Rightarrow> delivery_run \<Rightarrow> string \<Rightarrow> pb_error option
    \<Rightarrow> ('r, delivery_receipt \<times> pb_error option) delivery_step" where
  "finish_run rt env h run outcome cause =
     bind_step (writeApprovedState rt env) (\<lambda>_.
     bind_step (clock_step env) (\<lambda>now.
     bind_step (finishApprovedRun rt env h run outcome now) (\<lambda>h'.
     bind_step (buildApprovedReceipt rt env h') (\<lambda>receipt. return_step (receipt, cause)))))"

text \<open>What the run does when every operation was passed.\<close>

definition loop_outcome :: "bool \<Rightarrow> bool \<Rightarrow> ('r, string \<times> pb_error option) delivery_step" where
  "loop_outcome allow cancelled =
     bind_step (gets_step dw_mem) (\<lambda>s.
     if cancelled then
       bind_step (mem_status ''cancelled'') (\<lambda>_. return_step (''cancelled'', Some ErrApprovedDeliveryCancelled))
     else if list_all (\<lambda>p. os_State p = ''acknowledged'') (ds_Operations s) then
       bind_step (mem_status ''completed'') (\<lambda>_. return_step (if allow then ''completed'' else ''reconciled'', None))
     else bind_step (mem_status ''approved'') (\<lambda>_. return_step (''reconciled'', None)))"

definition needs_reconciliation :: "delivery_state \<Rightarrow> bool" where
  "needs_reconciliation s \<longleftrightarrow>
     list_ex (\<lambda>p. os_Attempts p \<noteq> [] \<and> os_State p \<noteq> ''acknowledged'') (ds_Operations s)"

text \<open>From the start of the run to its outcome.\<close>

definition run_operations ::
  "runtime \<Rightarrow> delivery_env \<Rightarrow> 'r transport \<Rightarrow> approved_batch \<Rightarrow> bool \<Rightarrow> int
    \<Rightarrow> ('r, string \<times> pb_error option) delivery_step" where
  "run_operations rt env tr b allow run_sequence =
     bind_step (gets_step dw_mem) (\<lambda>s.
     let cancelled = ds_CancellationFingerprint s \<noteq> '''' in
     if cancelled \<and> ds_Status s = ''completed'' then return_step (''completed'', None)
     else if cancelled \<and> \<not> needs_reconciliation s then
       bind_step (mem_status ''cancelled'') (\<lambda>_. return_step (''cancelled'', Some ErrApprovedDeliveryCancelled))
     else
       bind_step (catch_step (validateApprovedLivePreconditions rt env tr b)) (\<lambda>live.
       case live of
         Inl e \<Rightarrow> return_step (''failed'', Some e)
       | Inr _ \<Rightarrow>
           bind_step (deliver_loop rt env tr b allow cancelled run_sequence 0 (operations (ab_Outbox b))) (\<lambda>e.
           case e of
             FinishRun outcome cause \<Rightarrow> return_step (outcome, cause)
           | NextOperation \<Rightarrow> loop_outcome allow cancelled)))"

definition runApprovedDelivery ::
  "runtime \<Rightarrow> delivery_env \<Rightarrow> 'r delivery_options \<Rightarrow> 'r transport option \<Rightarrow> approved_batch \<Rightarrow> bool
    \<Rightarrow> ('r, delivery_receipt \<times> pb_error option) delivery_step" where
  "runApprovedDelivery rt env opts transport b allow =
     (case transport of
        None \<Rightarrow> fail_step (PbError ''missing Product Brain transport'')
      | Some tr \<Rightarrow>
     (case validateApprovedBatch (rt_sha rt) (rt_parse rt) (op_ReviewOk opts) b of
        Some e \<Rightarrow> fail_step e
      | None \<Rightarrow>
     bind_step (os_step env LocalIOError) (\<lambda>_. \<comment> \<open>\<open>outDir\<close>\<close>
     bind_step (os_step env LocalIOError) (\<lambda>_. \<comment> \<open>the authority directory\<close>
     bind_step (os_step env (PbError ''delivery_locked'')) (\<lambda>_.
     bind_step (open_state rt env opts b allow) (\<lambda>preexisting.
     bind_step (gets_step dw_mem) (\<lambda>s.
     bind_step (if allow \<and> preexisting \<and> ds_Status s \<noteq> ''completed'' \<and> ds_Status s \<noteq> ''cancelled''
       then verify_human env opts b (PbError ''human resume initiation rejected'')
         (PbError ''human resume initiation rejected'')
       else return_step ()) (\<lambda>_.
     bind_step (refreshApprovedCancellation rt env) (\<lambda>_.
     bind_step (clock_step env) (\<lambda>now.
     bind_step (startApprovedRun rt env now) (\<lambda>started.
     case started of (h, run) \<Rightarrow>
     bind_step (run_operations rt env tr b allow (dr_Sequence run)) (\<lambda>ended.
     case ended of (outcome, cause) \<Rightarrow> finish_run rt env h run outcome cause))))))))))))"

definition DeliverApproved ::
  "runtime \<Rightarrow> delivery_env \<Rightarrow> 'r delivery_options \<Rightarrow> 'r transport option \<Rightarrow> approved_batch
    \<Rightarrow> ('r, delivery_receipt \<times> pb_error option) delivery_step" where
  "DeliverApproved rt env opts tr b = runApprovedDelivery rt env opts tr b True"

definition ReconcileApproved ::
  "runtime \<Rightarrow> delivery_env \<Rightarrow> 'r delivery_options \<Rightarrow> 'r transport option \<Rightarrow> approved_batch
    \<Rightarrow> ('r, delivery_receipt \<times> pb_error option) delivery_step" where
  "ReconcileApproved rt env opts tr b = runApprovedDelivery rt env opts tr b False"

end
