(* ===== verification/PB_Delivery_Logic.thy ===== *)
theory PB_Delivery_Logic
  imports PB_Delivery_Run
begin

text \<open>
  Invariants of the approved delivery. \<open>keeps I m\<close> says that the step \<open>m\<close> preserves \<open>I\<close>, however it
  ends; \<open>triple P m Q E\<close> also speaks of the result. The locale \<open>slot_frame\<close> is the contract of an
  invariant that does not depend on the files beside the state; \<open>run_frame\<close> adds the state in
  memory and on disk; \<open>delivery_run\<close> adds the events of a run. Inside them the lemmas on the store and
  the run are proved once; the properties interpret them.
\<close>

section \<open>Steps that keep an invariant\<close>

definition keeps :: "('w \<Rightarrow> bool) \<Rightarrow> ('w \<Rightarrow> 'w \<times> ('e, 'a) result) \<Rightarrow> bool" where
  "keeps I m \<longleftrightarrow> (\<forall>w. I w \<longrightarrow> I (fst (m w)))"

definition triple ::
  "('w \<Rightarrow> bool) \<Rightarrow> ('w \<Rightarrow> 'w \<times> ('e, 'a) result) \<Rightarrow> ('a \<Rightarrow> 'w \<Rightarrow> bool) \<Rightarrow> ('w \<Rightarrow> bool) \<Rightarrow> bool" where
  "triple P m Q E \<longleftrightarrow>
     (\<forall>w. P w \<longrightarrow> (case m w of (w', Inl _) \<Rightarrow> E w' | (w', Inr x) \<Rightarrow> Q x w'))"

lemma keepsD: "keeps I m \<Longrightarrow> I w \<Longrightarrow> I (fst (m w))"
  by (simp add: keeps_def)

lemma tripleI:
  assumes "\<And>w w' x. P w \<Longrightarrow> m w = (w', Inr x) \<Longrightarrow> Q x w'"
    and "\<And>w w' e. P w \<Longrightarrow> m w = (w', Inl e) \<Longrightarrow> E w'"
  shows "triple P m Q E"
  using assms by (auto simp: triple_def split: prod.split sum.split)

lemma triple_ok: "triple P m Q E \<Longrightarrow> P w \<Longrightarrow> m w = (w', Inr x) \<Longrightarrow> Q x w'"
  unfolding triple_def by (drule spec [of _ w]) simp

lemma triple_err: "triple P m Q E \<Longrightarrow> P w \<Longrightarrow> m w = (w', Inl e) \<Longrightarrow> E w'"
  unfolding triple_def by (drule spec [of _ w]) simp

lemma keeps_triple: "keeps I m \<longleftrightarrow> triple I m (\<lambda>_. I) I"
  by (auto simp: keeps_def triple_def split: prod.split sum.split)
     (metis fst_conv sum.exhaust surj_pair)

lemma triple_keeps: "triple I m (\<lambda>_. I) I \<Longrightarrow> keeps I m"
  by (simp add: keeps_triple)

lemma keeps_to_triple: "keeps I m \<Longrightarrow> triple I m (\<lambda>_. I) I"
  by (simp add: keeps_triple)

lemma triple_weaken:
  assumes "triple P m Q E" and "\<And>w. P' w \<Longrightarrow> P w" and "\<And>x w. Q x w \<Longrightarrow> Q' x w" and "\<And>w. E w \<Longrightarrow> E' w"
  shows "triple P' m Q' E'"
proof (rule tripleI)
  show "Q' x w'" if "P' w" and "m w = (w', Inr x)" for w w' x
    using assms(3) [OF triple_ok [OF assms(1) assms(2) [OF that(1)] that(2)]] .
  show "E' w'" if "P' w" and "m w = (w', Inl e)" for w w' e
    using assms(4) [OF triple_err [OF assms(1) assms(2) [OF that(1)] that(2)]] .
qed

lemma triple_if: "(b \<Longrightarrow> triple P m Q E) \<Longrightarrow> (\<not> b \<Longrightarrow> triple P n Q E) \<Longrightarrow> triple P (if b then m else n) Q E"
  by simp

lemma triple_pure: "(phi \<Longrightarrow> triple P m Q E) \<Longrightarrow> triple (\<lambda>w. P w \<and> phi) m Q E"
  by (simp add: triple_def)

lemma triple_bind:
  assumes "triple P m Q E" and "\<And>x. triple (Q x) (k x) R E"
  shows "triple P (bind_step m k) R E"
  unfolding triple_def
proof (intro allI impI)
  fix w assume p: "P w"
  obtain w' r where m: "m w = (w', r)" by force
  show "case bind_step m k w of (w', Inl _) \<Rightarrow> E w' | (w', Inr x) \<Rightarrow> R x w'"
  proof (cases r)
    case (Inl e)
    then show ?thesis using triple_err [OF assms(1) p] m by (simp add: bind_step_def)
  next
    case (Inr x)
    then have "Q x w'" using triple_ok [OF assms(1) p] m by simp
    then show ?thesis using assms(2) [of x] m Inr by (simp add: bind_step_def triple_def)
  qed
qed

lemma triple_return: "(\<And>w. P w \<Longrightarrow> Q x w) \<Longrightarrow> triple P (return_step x) Q E"
  by (simp add: triple_def return_step_def)

lemma triple_fail: "(\<And>w. P w \<Longrightarrow> E w) \<Longrightarrow> triple P (fail_step e) Q E"
  by (simp add: triple_def fail_step_def)

lemma triple_catch:
  assumes "triple P m (\<lambda>x. Q (Inr x)) (\<lambda>w. \<forall>e. Q (Inl e) w)"
  shows "triple P (catch_step m) Q E"
  unfolding triple_def
proof (intro allI impI)
  fix w assume p: "P w"
  obtain w' r where m: "m w = (w', r)" by force
  have "Q r w'"
    using triple_ok [OF assms p] triple_err [OF assms p] m by (cases r) auto
  then show "case catch_step m w of (w', Inl _) \<Rightarrow> E w' | (w', Inr x) \<Rightarrow> Q x w'"
    by (simp add: catch_step_def m)
qed

lemma triple_require: "(\<And>w. P w \<Longrightarrow> if b then Q () w else E w) \<Longrightarrow> triple P (require b e) Q E"
  by (auto simp: triple_def require_def)

lemma triple_modify: "(\<And>w. P w \<Longrightarrow> Q () (f w)) \<Longrightarrow> triple P (modify_step f) Q E"
  by (simp add: triple_def modify_step_def)

lemma triple_gets: "(\<And>w. P w \<Longrightarrow> Q (f w) w) \<Longrightarrow> triple P (gets_step f) Q E"
  by (simp add: triple_def gets_step_def)

lemma bind_modify: "bind_step (modify_step f) k w = k () (f w)"
  by (simp add: bind_step_def modify_step_def)

lemma bind_gets: "bind_step (gets_step f) k w = k (f w) w"
  by (simp add: bind_step_def gets_step_def)

lemma triple_read:
  assumes "\<And>x. triple (\<lambda>w. P w \<and> f w = x) (k x) Q E"
  shows "triple P (bind_step (gets_step f) k) Q E"
  using assms by (simp add: triple_def bind_gets)

named_theorems keeps_rules \<open>structural rules of keeps\<close>

lemma keeps_bind [keeps_rules]:
  assumes "keeps I m" and "\<And>x. keeps I (k x)"
  shows "keeps I (bind_step m k)"
  using assms unfolding keeps_triple by (rule triple_bind)

lemma keeps_simple [keeps_rules]:
  "keeps I (return_step x)" "keeps I (fail_step e)" "keeps I (require b e)" "keeps I (gets_step f)"
  by (simp_all add: keeps_def return_step_def fail_step_def require_def gets_step_def)

lemma keeps_catch [keeps_rules]: "keeps I m \<Longrightarrow> keeps I (catch_step m)"
  by (simp add: keeps_def catch_step_def case_prod_unfold)

lemma keeps_modify: "(\<And>w. I w \<Longrightarrow> I (f w)) \<Longrightarrow> keeps I (modify_step f)"
  by (simp add: keeps_def modify_step_def)

text \<open>Reading the world and going on with what was read.\<close>

lemma keeps_read:
  assumes "\<And>w. I w \<Longrightarrow> I (fst (k (f w) w))"
  shows "keeps I (bind_step (gets_step f) k)"
  using assms by (simp add: keeps_def bind_step_def gets_step_def)

section \<open>Invariants and the files beside the state\<close>

locale slot_frame =
  fixes I :: "'r delivery_world \<Rightarrow> bool"
  assumes tick: "I w \<Longrightarrow> I (next_tick w)"
    and authority: "I w \<Longrightarrow> I (put_authority (Some a) w)"
    and cancellation: "I w \<Longrightarrow> I (put_cancellation (Some c) w)"
    and active: "I w \<Longrightarrow> I (put_active x w)"
    and runs: "I w \<Longrightarrow> I (put_run name y w)"
    and history: "I w \<Longrightarrow> I (put_history h w)"
    and receipt: "I w \<Longrightarrow> I (put_receipt s w)"
    and remote: "I w \<Longrightarrow> I (put_remote r w)"
begin

lemma keeps_os: "keeps I (os_step env e)" "keeps I (hook_step env)" "keeps I (clock_step env)"
  by (simp_all add: keeps_def os_step_def hook_step_def clock_step_def tick)

lemma keeps_read_file: "keeps I (read_file env f n slot)"
  by (simp add: keeps_def read_file_def tick)

lemma keeps_ask: "keeps I (ask env f)"
  by (auto simp: keeps_def ask_def tick remote split: prod.split)

lemma keeps_write:
  assumes "\<And>w b. I w \<Longrightarrow> I (put (Some b) w)" and "\<And>w. I w \<Longrightarrow> I (put (slot w) w)"
  shows "keeps I (write_file env nr d slot put)"
proof -
  have "I (put (fst (WriteFile io nr (Doc d) (slot w))) w)" if "I w" for w io
    using WriteFile_slot [of io nr "Doc d" "slot w"] assms that by auto
  then show ?thesis
    by (auto simp: keeps_def write_file_def case_prod_unfold tick)
qed

lemma put_same:
  "put_authority (dw_authority w) w = w" "put_cancellation (dw_cancellation w) w = w"
  by (simp_all add: put_authority_def put_cancellation_def)

lemma keeps_writes:
  "keeps I (write_file env nr d1 dw_authority put_authority)"
  "keeps I (write_file env nr d2 dw_cancellation put_cancellation)"
  "keeps I (write_file env nr d3 dw_active put_active)"
  "keeps I (write_file env nr d4 dw_history put_history)"
  "keeps I (write_file env nr d5 dw_receipt put_receipt)"
  "keeps I (write_file env nr d6 (\<lambda>w. map_of (dw_runs w) name) (put_run name))"
  by (auto intro!: keeps_write simp: put_same authority cancellation active runs history receipt)

lemma keeps_remove_active: "keeps I (remove_active env)"
  by (simp add: keeps_def remove_active_def tick active)

lemmas store_rules = keeps_rules keeps_os keeps_read_file keeps_ask keeps_writes keeps_remove_active

lemma keeps_loads:
  "keeps I (loadApprovedState rt env)" "keeps I (loadCancellation rt env)"
  "keeps I (loadApprovedAuthority rt env)"
  by (auto simp: loadApprovedState_def loadCancellation_def loadApprovedAuthority_def
      intro!: store_rules split: option.split)

lemma keeps_authority:
  "keeps I (sealApprovedAuthority rt env b)" "keeps I (validateApprovedSnapshots rt env b s)"
  by (auto simp: sealApprovedAuthority_def validateApprovedSnapshots_def
      intro!: store_rules keeps_loads split: option.split)

lemma keeps_cancel: "keeps I (CancelApproved rt env ref)"
  by (auto simp: CancelApproved_def Let_def intro!: store_rules keeps_loads
      split: option.split sum.split prod.split)

lemma keeps_read_runs: "keeps I (read_runs rt env rs h)"
  by (induction rs arbitrary: h) (auto intro!: store_rules split: option.split)

lemma keeps_history: "keeps I (loadApprovedHistory rt env approval batch)"
  by (auto simp: loadApprovedHistory_def Let_def intro!: store_rules keeps_read_runs split: option.split)

lemma keeps_seal_run: "keeps I (sealApprovedRun rt env h r)"
  by (auto simp: sealApprovedRun_def Let_def intro!: store_rules)

lemma keeps_interrupted: "keeps I (sealInterruptedApprovedRun rt env h n)"
  by (auto simp: sealInterruptedApprovedRun_def intro!: store_rules keeps_seal_run split: option.split)

lemma keeps_finish: "keeps I (finishApprovedRun rt env h run outcome now)"
  by (auto simp: finishApprovedRun_def intro!: store_rules keeps_seal_run)

lemma keeps_receipt: "keeps I (buildApprovedReceipt rt env h)"
  by (auto simp: buildApprovedReceipt_def Let_def intro!: store_rules)

lemma keeps_contracts: "keeps I (check_contracts rt env tr b expected slugs)"
  by (induction slugs) (auto intro!: store_rules)

lemma keeps_live: "keeps I (validateApprovedLivePreconditions rt env tr b)"
  by (auto simp: validateApprovedLivePreconditions_def validateLiveCollectionContracts_def
      intro!: store_rules keeps_contracts split: option.split)

lemma keeps_human: "keeps I (verify_human env opts b e1 e2)"
  by (auto simp: verify_human_def intro!: store_rules split: option.split sum.split)

lemma keeps_establish: "keeps I (establish_authority rt env opts b allow)"
  by (auto simp: establish_authority_def intro!: store_rules keeps_loads keeps_authority keeps_human
      split: option.split)

lemma keeps_lock: "keeps I (ordering_lock rt env)"
  using keepsD [OF keeps_os(1)] keepsD [OF keeps_cancel]
  by (auto simp: keeps_def ordering_lock_def split: option.split)

end

end
