(* ===== verification/PB_Delivery_Invariant.thy ===== *)
theory PB_Delivery_Invariant
  imports PB_Delivery_Logic
begin

text \<open>
  What the run does to the state in memory: \<open>state_ok\<close> is the validation of the stored state
  without its fingerprint, \<open>bookkeeping\<close> a change that leaves the attempts and budgets alone, and
  every change of the run is bookkeeping but the two that reserve. The locales \<open>run_frame\<close> and
  \<open>delivery_run\<close> extend the contract of an invariant to the whole run.
\<close>

section \<open>States up to their fingerprint\<close>

definition state_ok :: "(string \<Rightarrow> string) \<Rightarrow> delivery_state \<Rightarrow> bool" where
  "state_ok sha s \<longleftrightarrow> validateApprovedState sha (s\<lparr>ds_Fingerprint := state_hash sha s\<rparr>)"

definition attempt_numbers :: "delivery_state \<Rightarrow> int list" where
  "attempt_numbers s = concat (map (\<lambda>p. map at_AttemptNumber (os_Attempts p)) (ds_Operations s))"

definition allowed_statuses :: "string list" where
  "allowed_statuses = [''approved'', ''delivering'', ''ambiguous'', ''completed'', ''cancelled'', ''blocked'']"

definition numbers_ok :: "int list \<Rightarrow> int \<Rightarrow> bool" where
  "numbers_ok xs k \<longleftrightarrow> distinct xs \<and> (\<forall>j\<in>{1..int (length xs)}. j \<in> set xs) \<and> int (length xs) = k"

lemma state_hash_fingerprint [simp]:
  "state_hash sha (s\<lparr>ds_Fingerprint := x\<rparr>) = state_hash sha s"
  by (simp add: state_hash_def hash_value_def json_of_delivery_state_def)

lemma attempt_numbers_all: "map at_AttemptNumber (all_attempts s) = attempt_numbers s"
  by (simp add: all_attempts_def attempt_numbers_def map_concat comp_def)

lemma length_attempts: "length (all_attempts s) = length (attempt_numbers s)"
  by (simp add: attempt_numbers_all [symmetric])

lemma state_ok_iff:
  "state_ok sha s \<longleftrightarrow>
     ds_SchemaVersion s = ApprovedDeliveryStateSchema \<and> ds_Operations s \<noteq> [] \<and> attempt_budget_ok s \<and>
     ds_Status s \<in> set allowed_statuses \<and>
     list_all2 (operation_valid sha (ds_ApprovalFingerprint s))
       (ds_OrderedOperationFingerprints s) (ds_Operations s) \<and>
     distinct (map os_OperationID (ds_Operations s)) \<and>
     numbers_ok (attempt_numbers s) (ds_MutationAttempts s) \<and>
     int (length (filter id (map os_UniqueWriteReserved (ds_Operations s)))) = ds_UniqueWriteReservations s"
  (is "_ = ?rhs")
proof -
  have [simp]: "attempt_numbers (s\<lparr>ds_Fingerprint := x\<rparr>) = attempt_numbers s"
    "all_attempts (s\<lparr>ds_Fingerprint := x\<rparr>) = all_attempts s"
    "attempt_budget_ok (s\<lparr>ds_Fingerprint := x\<rparr>) = attempt_budget_ok s" for x
    by (simp_all add: attempt_numbers_def all_attempts_def attempt_budget_ok_def)
  show ?thesis
    by (auto simp: state_ok_def validateApprovedState_def Let_def attempt_numbers_all length_attempts
        allowed_statuses_def numbers_ok_def list_all_iff filter_map comp_def
        simp del: set_map dest: list_all2_lengthD)
qed

lemma valid_state_ok: "validateApprovedState sha s \<longleftrightarrow> state_ok sha s \<and> ds_Fingerprint s = state_hash sha s"
proof -
  have "s\<lparr>ds_Fingerprint := state_hash sha s\<rparr> = s" if "ds_Fingerprint s = state_hash sha s"
    by (simp flip: that)
  moreover have "ds_Fingerprint s = state_hash sha s" if "validateApprovedState sha s"
    using that by (simp add: validateApprovedState_def Let_def)
  ultimately show ?thesis by (metis state_ok_def)
qed

section \<open>Bookkeeping\<close>

definition operation_kept :: "bool \<Rightarrow> (string \<Rightarrow> string) \<Rightarrow> string \<Rightarrow> operation_state \<Rightarrow> operation_state \<Rightarrow> bool" where
  "operation_kept h sha approval p q \<longleftrightarrow>
     os_OperationID q = os_OperationID p \<and> os_UniqueWriteReserved q = os_UniqueWriteReserved p \<and>
     map at_AttemptNumber (os_Attempts q) = map at_AttemptNumber (os_Attempts p) \<and>
     (h \<longrightarrow> (\<forall>fp. operation_valid sha approval fp p \<longrightarrow> operation_valid sha approval fp q))"

definition bookkeeping :: "bool \<Rightarrow> (string \<Rightarrow> string) \<Rightarrow> delivery_state \<Rightarrow> delivery_state \<Rightarrow> bool" where
  "bookkeeping h sha s t \<longleftrightarrow>
     ds_MaximumMutationAttempts t = ds_MaximumMutationAttempts s \<and>
     ds_MaximumDestinationWrites t = ds_MaximumDestinationWrites s \<and>
     ds_UniqueWriteReservations t = ds_UniqueWriteReservations s \<and>
     ds_MutationAttempts t = ds_MutationAttempts s \<and>
     length (ds_Operations t) = length (ds_Operations s) \<and>
     ds_ApprovalFingerprint t = ds_ApprovalFingerprint s \<and>
     (h \<longrightarrow> state_ok sha s \<longrightarrow> state_ok sha t)"

lemma bookkeeping_refl: "bookkeeping h sha s s"
  by (simp add: bookkeeping_def)

lemma bookkeeping_trans: "bookkeeping h sha s t \<Longrightarrow> bookkeeping h sha t u \<Longrightarrow> bookkeeping h sha s u"
  by (simp add: bookkeeping_def)

lemma kept_list:
  assumes "i < length xs \<Longrightarrow> g y = g (xs ! i)"
  shows "map g (xs[i := y]) = map g xs"
  using assms by (cases "i < length xs") (simp_all add: map_update list_update_same_conv list_update_beyond)

lemma bookkeeping_update:
  assumes "i < length (ds_Operations s) \<Longrightarrow>
    operation_kept h sha (ds_ApprovalFingerprint s) (ds_Operations s ! i) (f (ds_Operations s ! i))"
  shows "bookkeeping h sha s (update_operation i f s)"
proof -
  let ?t = "update_operation i f s"
  have maps: "map os_OperationID (ds_Operations ?t) = map os_OperationID (ds_Operations s)"
    "map os_UniqueWriteReserved (ds_Operations ?t) = map os_UniqueWriteReserved (ds_Operations s)"
    using assms by (auto simp: update_operation_def operation_kept_def intro!: kept_list)
  have "attempt_numbers ?t = attempt_numbers s"
    unfolding attempt_numbers_def
    using assms by (auto simp: update_operation_def operation_kept_def intro!: arg_cong [of _ _ concat] kept_list)
  moreover have "list_all2 (operation_valid sha (ds_ApprovalFingerprint s)) fps (ds_Operations ?t)"
    if "h" "list_all2 (operation_valid sha (ds_ApprovalFingerprint s)) fps (ds_Operations s)" for fps
    using that assms
    by (cases "i < length (ds_Operations s)")
       (simp_all add: update_operation_def operation_kept_def list_all2_conv_all_nth nth_list_update
         list_update_beyond)
  moreover have "attempt_budget_ok ?t = attempt_budget_ok s"
    by (simp add: attempt_budget_ok_def update_operation_def)
  ultimately show ?thesis
    unfolding bookkeeping_def state_ok_iff maps
    by (auto simp: update_operation_def)
qed

lemma bookkeeping_fields:
  assumes "x \<in> set allowed_statuses \<or> x = ds_Status s"
  shows "bookkeeping h sha s (s\<lparr>ds_Status := x, ds_CancellationFingerprint := c, ds_LatestRunSequence := n,
    ds_Fingerprint := f\<rparr>)"
  using assms by (auto simp: bookkeeping_def state_ok_iff attempt_numbers_def attempt_budget_ok_def)


named_theorems kept_intros \<open>changes of one operation that keep it\<close>

lemma kept_refl [kept_intros]: "operation_kept h sha approval p p"
  by (simp add: operation_kept_def)

lemma kept_trans: "operation_kept h sha approval p q \<Longrightarrow> operation_kept h sha approval q r \<Longrightarrow>
    operation_kept h sha approval p r"
  by (simp add: operation_kept_def)

lemma attempt_valid_op [simp]:
  "attempt_valid sha approval (p\<lparr>os_State := x\<rparr>) = attempt_valid sha approval p"
  "attempt_valid sha approval (p\<lparr>os_SafeCategory := c\<rparr>) = attempt_valid sha approval p"
  "attempt_valid sha approval (p\<lparr>os_EntryDocID := d\<rparr>) = attempt_valid sha approval p"
  "attempt_valid sha approval (p\<lparr>os_RemoteObjectID := y\<rparr>) = attempt_valid sha approval p"
  "attempt_valid sha approval (p\<lparr>os_ReadbackFingerprint := z\<rparr>) = attempt_valid sha approval p"
  "attempt_valid sha approval (p\<lparr>os_Attempts := as\<rparr>) = attempt_valid sha approval p"
  "attempt_valid sha approval (p\<lparr>os_UniqueWriteReserved := u\<rparr>) = attempt_valid sha approval p"
  by (rule ext, simp add: attempt_valid_def)+

definition open_states :: "string list" where
  "open_states = [''pending'', ''reserved'', ''not_observed'', ''ambiguous'', ''blocked'']"

lemma kept_state [kept_intros]:
  "x \<in> set open_states \<Longrightarrow> operation_kept h sha approval p (p\<lparr>os_State := x\<rparr>)"
  by (auto simp: operation_kept_def operation_valid_def open_states_def)

lemma kept_category [kept_intros]: "operation_kept h sha approval p (p\<lparr>os_SafeCategory := c\<rparr>)"
  by (auto simp: operation_kept_def operation_valid_def)

lemma kept_acknowledged:
  assumes "h \<Longrightarrow> remote \<noteq> '''' \<and> fp \<noteq> ''''"
  shows "operation_kept h sha approval p (p\<lparr>os_State := ''acknowledged'', os_EntryDocID := doc,
    os_RemoteObjectID := remote, os_ReadbackFingerprint := fp, os_SafeCategory := c\<rparr>)"
  using assms by (auto simp: operation_kept_def operation_valid_def)

definition attempt_kept :: "mutation_attempt \<Rightarrow> mutation_attempt \<Rightarrow> bool" where
  "attempt_kept a b \<longleftrightarrow>
     at_AttemptNumber b = at_AttemptNumber a \<and> at_AttemptID b = at_AttemptID a \<and>
     at_RunSequence b = at_RunSequence a \<and> at_OperationID b = at_OperationID a \<and>
     at_OperationFingerprint b = at_OperationFingerprint a \<and>
     at_Outcome b \<in> set [''reserved'', ''not_observed'', ''ambiguous'', ''acknowledged'', ''rejected'']"

lemma attempt_valid_kept: "attempt_kept a b \<Longrightarrow> attempt_valid sha approval p a \<Longrightarrow> attempt_valid sha approval p b"
  by (simp add: attempt_kept_def attempt_valid_def) metis

lemma kept_latest [kept_intros]:
  assumes "\<And>a. attempt_kept a (f a)"
  shows "operation_kept h sha approval p (update_latest f p)"
proof (cases "os_Attempts p" rule: rev_cases)
  case Nil
  then show ?thesis by (simp add: update_latest_def kept_refl)
next
  case (snoc as a)
  have "at_AttemptNumber (f a) = at_AttemptNumber a"
    using assms [of a] by (simp add: attempt_kept_def)
  then show ?thesis
    using attempt_valid_kept [OF assms [of a]]
    by (simp add: update_latest_def operation_kept_def operation_valid_def snoc)
qed

lemma attempt_kept_marks [kept_intros]:
  "attempt_kept a (a\<lparr>at_Outcome := ''acknowledged'', at_MayHaveCommitted := c, at_ReadbackFingerprint := f\<rparr>)"
  "attempt_kept a (a\<lparr>at_Outcome := ''ambiguous'', at_MayHaveCommitted := c\<rparr>)"
  "attempt_kept a (a\<lparr>at_Outcome := ''not_observed''\<rparr>)"
  "attempt_kept a (recorded_attempt err a)"
  by (simp_all add: attempt_kept_def recorded_attempt_def Let_def split: option.split pb_error.split)

lemma bookkeeping_status: "x \<in> set allowed_statuses \<Longrightarrow> bookkeeping h sha s (set_status x s)"
  by (auto simp: set_status_def bookkeeping_def state_ok_iff attempt_numbers_def attempt_budget_ok_def)

lemma bookkeeping_delivering: "bookkeeping h sha s (delivering n s)"
  by (auto simp: delivering_def bookkeeping_def state_ok_iff attempt_numbers_def attempt_budget_ok_def
      allowed_statuses_def)

lemma bookkeeping_cancelled:
  "x \<in> set allowed_statuses \<or> x = ds_Status s \<Longrightarrow>
    bookkeeping h sha s (s\<lparr>ds_CancellationFingerprint := c, ds_Status := x\<rparr>)"
  by (auto simp: bookkeeping_def state_ok_iff attempt_numbers_def attempt_budget_ok_def)

lemma bookkeeping_seal: "bookkeeping h sha s (s\<lparr>ds_Fingerprint := f\<rparr>)"
  by (auto simp: bookkeeping_def state_ok_iff attempt_numbers_def attempt_budget_ok_def)

lemma bookkeeping_op_state: "x \<in> set open_states \<Longrightarrow> bookkeeping h sha s (set_op_state i x s)"
  unfolding set_op_state_def by (intro bookkeeping_update kept_intros)

lemma bookkeeping_marks:
  "bookkeeping h sha s (markApprovedAttemptAcknowledged i s)"
  "bookkeeping h sha s (markApprovedAttemptAmbiguous i s)"
  "bookkeeping h sha s (markApprovedAttemptNotObserved i s)"
  "bookkeeping h sha s (block_operation i c s)"
proof -
  show "bookkeeping h sha s (markApprovedAttemptAcknowledged i s)"
    unfolding markApprovedAttemptAcknowledged_def by (intro bookkeeping_update kept_intros)
  show "bookkeeping h sha s (markApprovedAttemptAmbiguous i s)"
    unfolding markApprovedAttemptAmbiguous_def
    by (rule bookkeeping_trans [OF bookkeeping_update bookkeeping_op_state])
       (auto intro!: kept_intros simp: open_states_def)
  show "bookkeeping h sha s (markApprovedAttemptNotObserved i s)"
    unfolding markApprovedAttemptNotObserved_def
    by (rule bookkeeping_trans [OF bookkeeping_update bookkeeping_op_state])
       (auto intro!: kept_intros simp: open_states_def)
  show "bookkeeping h sha s (block_operation i c s)"
    unfolding block_operation_def
    by (rule bookkeeping_trans [OF bookkeeping_update bookkeeping_status])
       (auto intro!: kept_trans [OF kept_state kept_category] simp: open_states_def allowed_statuses_def)
qed

lemma bookkeeping_record: "bookkeeping h sha s (recordApprovedMutationResult i err s)"
  unfolding recordApprovedMutationResult_def
proof (rule bookkeeping_update)
  let ?p = "ds_Operations s ! i"
  have latest: "operation_kept h sha ap ?p (update_latest (\<lambda>_. recorded_attempt err (last (os_Attempts ?p))) ?p)" for ap
  proof -
    have "update_latest (\<lambda>_. recorded_attempt err (last (os_Attempts ?p))) ?p = update_latest (recorded_attempt err) ?p"
      by (simp add: update_latest_def)
    then show ?thesis by (simp add: kept_latest attempt_kept_marks)
  qed
  show "operation_kept h sha (ds_ApprovalFingerprint s) ?p
    (if os_Attempts ?p = [] then ?p
     else let a = recorded_attempt err (last (os_Attempts ?p))
          in (update_latest (\<lambda>_. a) ?p)\<lparr>os_State :=
               (if at_Outcome a = ''ambiguous'' then ''ambiguous'' else ''not_observed'')\<rparr>)"
    by (auto simp: Let_def open_states_def intro!: kept_refl kept_trans [OF latest kept_state])
qed

lemma bookkeeping_absent:
  "bookkeeping h sha s (update_operation i (\<lambda>p. p\<lparr>os_State :=
     (if os_Attempts p \<noteq> [] then ''not_observed'' else ''pending'')\<rparr>) s)"
  by (auto intro!: bookkeeping_update kept_state simp: open_states_def)

lemma bookkeeping_acknowledge:
  assumes "h \<Longrightarrow> remote \<noteq> '''' \<and> fp \<noteq> ''''"
  shows "bookkeeping h sha s (update_operation i (\<lambda>p. p\<lparr>os_State := ''acknowledged'', os_EntryDocID := doc,
    os_RemoteObjectID := remote, os_ReadbackFingerprint := fp, os_SafeCategory := c\<rparr>) s)"
  using assms by (auto intro!: bookkeeping_update kept_acknowledged)

lemmas bookkeeping_rules = bookkeeping_refl bookkeeping_status bookkeeping_delivering bookkeeping_cancelled
  bookkeeping_seal bookkeeping_op_state bookkeeping_marks bookkeeping_record bookkeeping_absent


section \<open>Invariants of the state\<close>

locale run_frame = slot_frame I for I :: "'r delivery_world \<Rightarrow> bool" +
  fixes rt :: runtime and h :: bool
  assumes mem: "I w \<Longrightarrow> bookkeeping h (rt_sha rt) (dw_mem w) s' \<Longrightarrow> I (set_mem s' w)"
    and store: "I w \<Longrightarrow> ds_Fingerprint (dw_mem w) = state_hash (rt_sha rt) (dw_mem w) \<Longrightarrow>
      I (put_state (Some (Doc (dw_mem w))) w)"
begin

lemma keeps_update:
  assumes "\<And>s. bookkeeping h (rt_sha rt) s (f s)"
  shows "keeps I (modify_step (update_mem f))"
  by (rule keeps_modify) (simp add: update_mem_def mem assms)

lemma keeps_status: "x \<in> set allowed_statuses \<Longrightarrow> keeps I (mem_status x)"
  unfolding mem_status_def by (intro keeps_update bookkeeping_rules)

lemma keeps_write_state: "keeps I (writeApprovedState rt env)"
  unfolding keeps_def
proof (intro allI impI)
  fix w assume w: "I w"
  let ?w = "seal_mem rt w"
  have "I ?w" unfolding seal_mem_def by (intro mem w bookkeeping_seal)
  moreover have "I (put_state (Some (Doc (dw_mem ?w))) ?w)"
    by (rule store [OF \<open>I ?w\<close>]) (simp add: seal_mem_def set_mem_def)
  moreover have "put_state (dw_state ?w) ?w = ?w" by (simp add: put_state_def)
  ultimately have "I (put_state (fst (WriteFile io nr (Doc (dw_mem ?w)) (dw_state ?w))) ?w)" for io nr
    using WriteFile_slot [of io nr "Doc (dw_mem ?w)" "dw_state ?w"] by auto
  then show "I (fst (writeApprovedState rt env w))"
    using tick [OF \<open>I ?w\<close>]
    by (auto simp: writeApprovedState_def write_file_def Let_def case_prod_unfold tick)
qed

lemma keeps_refresh: "keeps I (refreshApprovedCancellation rt env)"
  unfolding refreshApprovedCancellation_def
proof (rule keeps_bind [OF keeps_loads(2)])
  fix r :: "cancellation_receipt option"
  have cancelled: "I (set_mem ((dw_mem w)\<lparr>ds_CancellationFingerprint := f, ds_Status := ''cancelled''\<rparr>) w)"
    and unchanged: "ds_Status (dw_mem w) = ''completed'' \<Longrightarrow>
      I (set_mem ((dw_mem w)\<lparr>ds_CancellationFingerprint := f, ds_Status := ''completed''\<rparr>) w)"
    if "I w" for w f
    using that by (intro mem bookkeeping_cancelled; simp add: allowed_statuses_def)+
  show "keeps I (case r of None \<Rightarrow> return_step ()
      | Some c \<Rightarrow> bind_step (gets_step dw_mem) (\<lambda>s.
          bind_step (require (same_binding c (ds_ApprovalFingerprint s) (ds_BatchFingerprint s))
            (PbError ''cancellation binding mismatch'')) (\<lambda>_.
          modify_step (set_mem (s\<lparr>ds_CancellationFingerprint := cr_Fingerprint c,
            ds_Status := (if ds_Status s \<noteq> ''completed'' then ''cancelled'' else ds_Status s)\<rparr>)))))"
    by (auto intro!: keeps_rules keeps_read cancelled unchanged split: option.split
        simp: bind_step_def require_def modify_step_def)
qed

lemma keeps_start: "keeps I (startApprovedRun rt env now)"
  unfolding startApprovedRun_def Let_def
  by (intro store_rules keeps_history keeps_interrupted keeps_write_state keeps_update bookkeeping_rules)

lemma keeps_finish_run: "keeps I (finish_run rt env hist run outcome cause)"
  unfolding finish_run_def by (intro store_rules keeps_write_state keeps_finish keeps_receipt)

lemma keeps_blocked: "keeps I (blocked i c e)"
  unfolding blocked_def by (intro keeps_rules keeps_update bookkeeping_rules)

lemma keeps_confirm: "keeps I (confirm rt env i)"
  unfolding confirm_def by (intro keeps_rules keeps_update keeps_write_state bookkeeping_rules)

lemma keeps_loop_outcome: "keeps I (loop_outcome allow cancelled)"
  unfolding loop_outcome_def by (auto intro!: keeps_rules keeps_status simp: allowed_statuses_def)

lemma initialized:
  assumes "I (set_mem (initial_state (rt_sha rt) b) w)"
  shows "I (fst (initializeApprovedState rt env b w))"
proof -
  have "keeps I (bind_step (loadCancellation rt env) (\<lambda>c.
     bind_step (case c of
         None \<Rightarrow> return_step ()
       | Some c \<Rightarrow>
           bind_step (require (same_binding c (da_Fingerprint (ab_Approval b)) (ab_BatchFingerprint b))
             (PbError ''cancellation binding mismatch'')) (\<lambda>_.
           modify_step (\<lambda>w. set_mem ((dw_mem w)\<lparr>ds_CancellationFingerprint := cr_Fingerprint c,
             ds_Status := ''cancelled''\<rparr>) w))) (\<lambda>_.
     writeApprovedState rt env)))"
    by (auto intro!: keeps_rules keeps_loads keeps_write_state keeps_modify mem bookkeeping_cancelled
        split: option.split simp: allowed_statuses_def)
  from keepsD [OF this assms] show ?thesis
    unfolding initializeApprovedState_def bind_modify .
qed

end

end
