(* ===== verification/PB_Delivery_Contract.thy ===== *)
theory PB_Delivery_Contract
  imports PB_Delivery_Invariant
begin

text \<open>
  The contract of an invariant of whole deliveries. \<open>D\<close> holds between the commands and \<open>I\<close> inside
  one; \<open>A i\<close> holds from the moment the destination was seen without operation \<open>i\<close>, \<open>B i\<close> once it
  was seen with it, and \<open>C i\<close> is the credit that a successful reservation gives for one call that mutates it.
\<close>

definition honest_transport :: "'r transport \<Rightarrow> bool" where
  "honest_transport tr \<longleftrightarrow>
     (\<forall>e r r' xs. tr_ListEntryRelations tr e r = (r', Inr xs) \<longrightarrow> (\<forall>x\<in>set xs. rr_RelationID x \<noteq> ''''))"

definition named_entries :: "approved_batch \<Rightarrow> bool" where
  "named_entries b \<longleftrightarrow> (\<forall>x\<in>set (operations (ab_Outbox b)). \<forall>e.
     oo_Kind x = ''entry'' \<and> oo_Entry x = Some e \<longrightarrow> en_EntryID e \<noteq> '''')"

text \<open>What an invariant may assume of the world outside, when \<open>h\<close> says so.\<close>

definition trusted :: "runtime \<Rightarrow> approved_batch \<Rightarrow> 'r transport \<Rightarrow> bool" where
  "trusted rt b tr \<longleftrightarrow> (\<forall>x. rt_sha rt x \<noteq> '''') \<and> named_entries b \<and> honest_transport tr"

definition credited :: "(nat \<Rightarrow> 'w \<Rightarrow> bool) \<Rightarrow> ('w \<Rightarrow> bool) \<Rightarrow> nat \<Rightarrow> loop_end option \<Rightarrow> 'w \<Rightarrow> bool" where
  "credited C I i r w \<longleftrightarrow> (case r of None \<Rightarrow> C i w | Some _ \<Rightarrow> I w)"

lemma triple_ask:
  assumes "slot_frame I"
  shows "triple I (ask env f) (\<lambda>x w. I w \<and> (\<exists>r r'. f r = (r', Inr x))) I"
  using slot_frame.tick [OF assms] slot_frame.remote [OF assms]
  by (auto simp: triple_def ask_def split: prod.split sum.split)

lemma slot_frame_state: "slot_frame D \<Longrightarrow> slot_frame (\<lambda>w. D w \<and> dw_state w = x)"
  unfolding slot_frame_def
  by (simp add: next_tick_def put_authority_def put_cancellation_def put_active_def put_run_def
      put_history_def put_receipt_def put_remote_def split: option.split)

text \<open>An invariant that only reads the state, its log, and whether there is a cancellation.\<close>

lemma slot_frame_fields:
  assumes "\<And>w w'. I w \<Longrightarrow> dw_log w' = dw_log w \<Longrightarrow> dw_state w' = dw_state w \<Longrightarrow> dw_mem w' = dw_mem w \<Longrightarrow>
    dw_tick w \<le> dw_tick w' \<Longrightarrow> (dw_cancellation w \<noteq> None \<longrightarrow> dw_cancellation w' \<noteq> None) \<Longrightarrow> I w'"
  shows "slot_frame I"
  by unfold_locales
     (erule assms; simp add: next_tick_def put_authority_def put_cancellation_def put_active_def put_run_def
       put_history_def put_receipt_def put_remote_def split: option.split)+

text \<open>What a valid batch says of its operations.\<close>

lemma valid_batch_entries:
  assumes "validateApprovedBatch sha pt ok b = None"
  shows "named_entries b"
proof -
  have "ValidateOutbox sha ok (ab_Outbox b)"
    using assms(1) by (auto simp: validateApprovedBatch_def Let_def split: if_splits)
  then have "list_all (operation_ok sha (ps_ExpectedKeyID (ob_ProfileSnapshot (ab_Outbox b))))
      (operations (ab_Outbox b))"
    by (simp add: ValidateOutbox_def)
  then show ?thesis
    by (auto simp: named_entries_def list_all_iff operation_ok_def entry_operation_ok_def)
qed

locale delivery_run = run_frame I rt h for I :: "'r delivery_world \<Rightarrow> bool" and rt h +
  fixes D :: "'r delivery_world \<Rightarrow> bool" and A B C :: "nat \<Rightarrow> 'r delivery_world \<Rightarrow> bool"
    and env :: delivery_env and b :: approved_batch and tr :: "'r transport" and allow :: bool
  assumes trust: "h \<Longrightarrow> trusted rt b tr"
    and disk_frame: "slot_frame D"
    and enter: "D w \<Longrightarrow> dw_state w = Some (Doc s) \<Longrightarrow> validateApprovedState (rt_sha rt) s \<Longrightarrow>
      validateStateBinding (rt_sha rt) s b \<Longrightarrow> I (set_mem s w)"
    and fresh: "validateApprovedBatch (rt_sha rt) (rt_parse rt) ok b = None \<Longrightarrow> D w \<Longrightarrow> dw_state w = None \<Longrightarrow> I (set_mem (initial_state (rt_sha rt) b) w)"
    and leave: "I w \<Longrightarrow> D w"
    and confirmed: "I w \<Longrightarrow> B i (note_event env (Confirmed i) w)"
    and confirmed_keeps: "B i w \<Longrightarrow> I w"
    and absent: "I w \<Longrightarrow> A i (note_event env (Absent i) w)"
    and absent_frame: "slot_frame (A i)"
    and absent_keeps: "A i w \<Longrightarrow> I w"
    and reserved: "allow \<Longrightarrow> 0 < n \<Longrightarrow> i < length (operations (ab_Outbox b)) \<Longrightarrow>
      triple (A i) (reserve_under_lock rt env b n i) (credited C I i) I"
    and credit_frame: "slot_frame (C i)"
    and credit_keeps: "C i w \<Longrightarrow> I w"
    and spend: "C i w \<Longrightarrow> alive env w \<Longrightarrow> i < length (operations (ab_Outbox b)) \<Longrightarrow>
      mutation_of (operations (ab_Outbox b) ! i) = Some m \<Longrightarrow>
      I (log_event (Mutation i m) (put_remote r w))"
begin

lemma triple_acknowledge:
  assumes "h \<Longrightarrow> remote \<noteq> '''' \<and> fp \<noteq> ''''"
  shows "triple I (acknowledge env i doc remote fp) (\<lambda>seen. if seen then B i else A i) I"
  unfolding acknowledge_def
proof (rule triple_bind)
  show "triple I (modify_step (update_mem (update_operation i (\<lambda>p. p\<lparr>os_State := ''acknowledged'',
      os_EntryDocID := doc, os_RemoteObjectID := remote, os_ReadbackFingerprint := fp,
      os_SafeCategory := ''''\<rparr>)))) (\<lambda>_. I) I"
    by (intro keeps_to_triple keeps_update bookkeeping_acknowledge assms)
  show "triple I (bind_step (modify_step (note_event env (Confirmed i))) (\<lambda>_. return_step True))
      (\<lambda>seen. if seen then B i else A i) I"
    by (rule triple_bind [where Q = "\<lambda>_. B i"])
       (auto intro!: triple_modify triple_return confirmed confirmed_keeps)
qed

lemma triple_not_observed: "triple I (not_observed env i) (\<lambda>seen. if seen then B i else A i) I"
  unfolding not_observed_def
proof (rule triple_bind)
  show "triple I (modify_step (update_mem (update_operation i (\<lambda>p. p\<lparr>os_State :=
      (if os_Attempts p \<noteq> [] then ''not_observed'' else ''pending'')\<rparr>)))) (\<lambda>_. I) I"
    by (intro keeps_to_triple keeps_update bookkeeping_rules)
  show "triple I (bind_step (modify_step (note_event env (Absent i))) (\<lambda>_. return_step False))
      (\<lambda>seen. if seen then B i else A i) I"
    by (rule triple_bind [where Q = "\<lambda>_. A i"]) (auto intro!: triple_modify triple_return absent)
qed

lemma triple_blocked: "triple I (blocked i c e) Q I"
  using keeps_to_triple [OF keeps_blocked [of i c e]]
  by (auto simp: triple_def blocked_def bind_step_def modify_step_def fail_step_def)

lemma hash_nonempty: "h \<Longrightarrow> hash_value (rt_sha rt) j \<noteq> ''''"
  using trust by (simp add: hash_value_def trusted_def)

lemma triple_reconcile_entry:
  assumes "h \<Longrightarrow> en_EntryID e \<noteq> ''''"
  shows "triple I (reconcile_entry rt env tr i e) (\<lambda>seen. if seen then B i else A i) I"
  unfolding reconcile_entry_def
proof (rule triple_bind [OF keeps_to_triple [OF keeps_ask]])
  fix found :: entry_readback
  have id: "er_EntryID found \<noteq> ''''" if "h" "compareEntry found e"
    using that assms by (simp add: compareEntry_def)
  show "triple I (if er_Found found then
       (if compareEntry found e
        then acknowledge env i (er_DocID found) (er_EntryID found)
          (hash_value (rt_sha rt) (json_of_readback found))
        else blocked i ''readback_mismatch'' (PbError ''readback_mismatch''))
     else
       bind_step (ask env (tr_SearchEntries tr (en_Name e) (en_CollectionSlug e))) (\<lambda>matches.
       if list_ex (\<lambda>k. k \<noteq> en_EntryID e) matches
       then blocked i ''destination_name_conflict'' (PbError ''destination_name_conflict'')
       else not_observed env i)) (\<lambda>seen. if seen then B i else A i) I"
    using id
    by (auto intro!: triple_acknowledge triple_blocked triple_not_observed hash_nonempty
        triple_bind [OF keeps_to_triple [OF keeps_ask]])
qed

lemma found_relation:
  assumes "findRelation xs f t r = (True, rid, c)"
  shows "\<exists>x\<in>set xs. rr_RelationID x = rid"
proof -
  let ?ms = "filter (\<lambda>x. canonical_equal (rr_Metadata x) (re_Metadata r)) (filter (same_relation f t r) xs)"
  have "length ?ms = 1" and rid: "rr_RelationID (last ?ms) = rid"
    using assms by (auto simp: findRelation_def Let_def split: if_splits)
  then have "last ?ms \<in> set ?ms" by (intro last_in_set) auto
  then show ?thesis using rid by auto
qed

lemma triple_reconcile_relation:
  "triple I (reconcile_relation rt env tr i r) (\<lambda>seen. if seen then B i else A i) I"
  unfolding reconcile_relation_def Let_def
proof (rule triple_bind [where Q = "\<lambda>_. I"])
  show "triple I (gets_step dw_mem) (\<lambda>_. I) I" by (rule triple_gets)
  fix s :: delivery_state
  let ?from = "approvedEntryStateByEntryID s (re_FromEntryID r)"
  let ?to = "approvedEntryStateByEntryID s (re_ToEntryID r)"
  have settle: "triple (\<lambda>w. I w \<and> (\<exists>q q'. tr_ListEntryRelations tr (re_FromEntryID r) q = (q', Inr xs)))
      (case findRelation xs (os_EntryDocID (the ?from)) (os_EntryDocID (the ?to)) r of
         (matched, rid, conflict) \<Rightarrow>
           if conflict then blocked i ''readback_mismatch'' (PbError ''readback_mismatch'')
           else if matched
           then acknowledge env i (os_EntryDocID (ds_Operations s ! i)) rid (relation_readback_hash rt rid r)
           else not_observed env i) (\<lambda>seen. if seen then B i else A i) I" for xs
  proof (cases "findRelation xs (os_EntryDocID (the ?from)) (os_EntryDocID (the ?to)) r")
    case (fields matched rid conflict)
    have "triple I (if conflict then blocked i ''readback_mismatch'' (PbError ''readback_mismatch'')
           else if matched
           then acknowledge env i (os_EntryDocID (ds_Operations s ! i)) rid (relation_readback_hash rt rid r)
           else not_observed env i) (\<lambda>seen. if seen then B i else A i) I"
      if "tr_ListEntryRelations tr (re_FromEntryID r) q = (q', Inr xs)" for q q'
    proof -
      have "rid \<noteq> ''''" if h matched
        using found_relation [of xs _ _ r rid conflict] fields trust that
          \<open>tr_ListEntryRelations tr (re_FromEntryID r) q = (q', Inr xs)\<close>
        by (auto simp: honest_transport_def trusted_def)
      then show ?thesis
        by (auto intro!: triple_acknowledge triple_blocked triple_not_observed hash_nonempty
            simp: relation_readback_hash_def)
    qed
    then show ?thesis unfolding fields prod.case by (intro triple_pure) (elim exE)
  qed
  show "triple I (if \<not> (acknowledged ?from \<and> acknowledged ?to)
      then fail_step (PbError ''dependency_not_acknowledged'')
      else bind_step (ask env (tr_ListEntryRelations tr (re_FromEntryID r))) (\<lambda>xs.
        case findRelation xs (os_EntryDocID (the ?from)) (os_EntryDocID (the ?to)) r of
         (matched, rid, conflict) \<Rightarrow>
           if conflict then blocked i ''readback_mismatch'' (PbError ''readback_mismatch'')
           else if matched
           then acknowledge env i (os_EntryDocID (ds_Operations s ! i)) rid (relation_readback_hash rt rid r)
           else not_observed env i)) (\<lambda>seen. if seen then B i else A i) I"
    using settle by (auto intro!: triple_fail triple_bind [OF triple_ask [OF slot_frame_axioms]])
qed

lemma triple_reconcile:
  assumes "x \<in> set (operations (ab_Outbox b))"
  shows "triple I (reconcileApprovedOperation rt env tr i x) (\<lambda>seen. if seen then B i else A i) I"
  unfolding reconcileApprovedOperation_def
  using trust assms
  by (auto simp: trusted_def named_entries_def intro!: triple_fail triple_reconcile_entry triple_reconcile_relation split: option.split)


text \<open>Mutating: the credit is spent on the one call.\<close>

lemma triple_mutate:
  assumes "i < length (operations (ab_Outbox b))" and "x = operations (ab_Outbox b) ! i"
  shows "triple (C i) (mutateApprovedOperation env tr i x) (\<lambda>_. I) I"
proof (cases "mutation_of x")
  case None
  then show ?thesis by (simp add: mutateApprovedOperation_def triple_return credit_keeps)
next
  case (Some m)
  then have "I (next_tick (if alive env w then log_event (Mutation i m) (put_remote r w) else w))"
    if "C i w" for w r
    using that spend [OF that] assms credit_keeps [OF that] by (auto intro!: tick)
  then show ?thesis
    by (auto simp: mutateApprovedOperation_def Some triple_def mutate_def split: prod.split)
qed

lemma triple_credit_hook: "triple (C i) (hook_step env) (\<lambda>_. C i) I"
  by (rule triple_weaken [OF keeps_to_triple [OF slot_frame.keeps_os(2) [OF credit_frame]]])
     (auto intro: credit_keeps)

lemma keeps_reconcile:
  assumes "x \<in> set (operations (ab_Outbox b))"
  shows "keeps I (reconcileApprovedOperation rt env tr i x)"
  by (rule triple_keeps [OF triple_weaken [OF triple_reconcile [OF assms]]])
     (auto split: if_splits intro: absent_keeps confirmed_keeps)

lemma bookkeeping_blocked_status:
  "bookkeeping h (rt_sha rt) s ((set_op_state i ''blocked'' \<circ> set_status ''blocked'') s)"
  "bookkeeping h (rt_sha rt) s ((set_status ''ambiguous'' \<circ> markApprovedAttemptAmbiguous i) s)"
  "bookkeeping h (rt_sha rt) s ((set_status ''ambiguous'' \<circ> set_op_state i ''ambiguous'') s)"
  unfolding comp_def
  by (rule bookkeeping_trans [OF bookkeeping_status bookkeeping_op_state]
           bookkeeping_trans [OF bookkeeping_marks(2) bookkeeping_status]
           bookkeeping_trans [OF bookkeeping_op_state bookkeeping_status];
      simp add: allowed_statuses_def open_states_def)+

lemma keeps_finish_with: "keeps I (finish_with outcome e)"
  unfolding finish_with_def by (intro keeps_rules)

lemmas run_rules = store_rules keeps_status keeps_confirm keeps_finish_with keeps_write_state
  keeps_update bookkeeping_rules bookkeeping_blocked_status

lemma triple_settle:
  assumes "i < length (operations (ab_Outbox b))" and "x = operations (ab_Outbox b) ! i"
  shows "triple (C i) (mutate_and_settle rt env tr i x) (\<lambda>_. I) I"
  unfolding mutate_and_settle_def
  by (rule triple_bind [OF triple_credit_hook], rule triple_bind [OF triple_mutate [OF assms]],
      rule keeps_to_triple)
     (auto intro!: run_rules keeps_reconcile nth_mem split: sum.split bool.split option.split
       simp: assms allowed_statuses_def)

lemma triple_write_operation:
  assumes "allow" and "0 < n" and "i < length (operations (ab_Outbox b))" and "x = operations (ab_Outbox b) ! i"
  shows "triple (A i) (write_operation rt env tr b n i x) (\<lambda>_. I) I"
  unfolding write_operation_def
proof (rule triple_bind)
  show "triple (A i) (hook_step env) (\<lambda>_. A i) I"
    by (rule triple_weaken [OF keeps_to_triple [OF slot_frame.keeps_os(2) [OF absent_frame]]])
       (auto intro: absent_keeps)
  show "triple (A i) (bind_step (reserve_under_lock rt env b n i) (\<lambda>r.
      case r of Some stop \<Rightarrow> return_step stop | None \<Rightarrow> mutate_and_settle rt env tr i x)) (\<lambda>_. I) I"
    by (rule triple_bind [OF reserved [OF assms(1-3)]])
       (auto simp: credited_def intro!: triple_return triple_weaken [OF triple_settle [OF assms(3,4)]]
         split: option.split)
qed

lemma triple_after_reconciliation:
  assumes "0 < n" and "i < length (operations (ab_Outbox b))" and "x = operations (ab_Outbox b) ! i"
  shows "triple (case r of Inl _ \<Rightarrow> I | Inr seen \<Rightarrow> if seen then B i else A i)
    (after_reconciliation rt env tr b allow cancelled n i x r p) (\<lambda>_. I) I"
proof -
  have absent: "triple (A i) m (\<lambda>_. I) I" if "keeps I m" for m :: "('r, loop_end) delivery_step"
    by (rule triple_weaken [OF keeps_to_triple [OF that]]) (auto intro: absent_keeps)
  have seen: "triple (B i) m (\<lambda>_. I) I" if "keeps I m" for m :: "('r, loop_end) delivery_step"
    by (rule triple_weaken [OF keeps_to_triple [OF that]]) (auto intro: confirmed_keeps)
  show ?thesis
  proof (cases "r = Inr False \<and> allow \<and> \<not> cancelled")
    case True
    then show ?thesis by (simp add: after_reconciliation_def triple_write_operation assms)
  next
    case False
    then show ?thesis
      unfolding after_reconciliation_def
      by (auto intro!: seen keeps_to_triple run_rules absent split: sum.split bool.split
          simp: allowed_statuses_def)
  qed
qed

lemma keeps_deliver_operation:
  assumes "0 < n" and "i < length (operations (ab_Outbox b))" and "x = operations (ab_Outbox b) ! i"
  shows "keeps I (deliver_operation rt env tr b allow cancelled n i x)"
proof -
  have observe: "triple I (catch_step (reconcileApprovedOperation rt env tr i x))
      (\<lambda>r. case r of Inl _ \<Rightarrow> I | Inr seen \<Rightarrow> if seen then B i else A i) I"
    using triple_reconcile [of x i] assms by (auto intro!: triple_catch)
  have "keeps I (bind_step (catch_step (reconcileApprovedOperation rt env tr i x)) (\<lambda>observed.
      bind_step (gets_step (operation_at i)) (\<lambda>p.
      after_reconciliation rt env tr b allow cancelled n i x observed p)))"
    by (rule triple_keeps, rule triple_bind [OF observe],
        rule triple_bind [OF triple_gets triple_after_reconciliation [OF assms]])
  then show ?thesis
    unfolding deliver_operation_def by (auto intro!: keeps_rules)
qed

lemma keeps_deliver_loop:
  assumes n: "0 < n" and "xs = drop i (operations (ab_Outbox b))"
  shows "keeps I (deliver_loop rt env tr b allow cancelled n i xs)"
  using assms(2)
proof (induction xs arbitrary: i)
  case Nil
  then show ?case by (auto intro!: keeps_rules)
next
  case (Cons x xs)
  have i: "i < length (operations (ab_Outbox b))"
    using Cons.prems by (metis drop_eq_Nil linorder_not_le list.distinct(1))
  have x: "x = operations (ab_Outbox b) ! i" and xs: "xs = drop (Suc i) (operations (ab_Outbox b))"
    using Cons.prems Cons_nth_drop_Suc [OF i] by (metis list.inject)+
  show ?case
    using Cons.IH [OF xs]
    by (auto intro!: keeps_rules keeps_deliver_operation [OF n i x] split: loop_end.split)
qed

lemma keeps_run_operations: "0 < n \<Longrightarrow> keeps I (run_operations rt env tr b allow n)"
  unfolding run_operations_def Let_def
  by (auto intro!: run_rules keeps_live keeps_deliver_loop keeps_loop_outcome
      split: sum.split loop_end.split simp: allowed_statuses_def)

text \<open>Opening the state: the one on disk, once it is bound to the batch, or the initial one.\<close>

lemma triple_load_state:
  "triple D (loadApprovedState rt env)
     (\<lambda>r w. D w \<and> dw_state w = map_option Doc r \<and>
       (case r of None \<Rightarrow> True | Some s \<Rightarrow> validateApprovedState (rt_sha rt) s)) D"
  using slot_frame.tick [OF disk_frame]
  by (auto simp: triple_def loadApprovedState_def bind_step_def read_file_def return_step_def
      fail_step_def next_tick_def blob_size_def split: option.split blob.split)

lemma triple_open_state:
  assumes "validateApprovedBatch (rt_sha rt) (rt_parse rt) ok b = None"
  shows "triple D (open_state rt env opts b allow) (\<lambda>_. I) D"
  unfolding open_state_def
proof (rule triple_bind [OF triple_load_state])
  fix r :: "delivery_state option"
  let ?P = "\<lambda>w. D w \<and> dw_state w = map_option Doc r"
  note frame = slot_frame_state [OF disk_frame, of "map_option Doc r"]
  have down: "triple P m Q D" if "triple P m Q ?P" for P m and Q :: "'x \<Rightarrow> 'r delivery_world \<Rightarrow> bool"
    by (rule triple_weaken [OF that]) auto
  have initial: "triple ?P (initializeApprovedState rt env b) (\<lambda>_. I) D" if "r = None"
    using initialized fresh [OF assms] leave that
    by (auto simp: triple_def split: prod.split sum.split) (metis fst_conv)+
  have create: "triple ?P (bind_step (establish_authority rt env opts b allow) (\<lambda>preexisting.
      bind_step (initializeApprovedState rt env b) (\<lambda>_. return_step preexisting))) (\<lambda>_. I) D" if "r = None"
    by (rule triple_bind [OF down [OF keeps_to_triple [OF slot_frame.keeps_establish [OF frame]]]],
        rule triple_bind [OF initial [OF that]]) (simp add: triple_return)
  have resume: "triple ?P (bind_step (require (validateStateBinding (rt_sha rt) s b)
        (PbError ''approved delivery binding mismatch'')) (\<lambda>_.
      bind_step (validateApprovedSnapshots rt env b s) (\<lambda>_.
      bind_step (modify_step (set_mem s)) (\<lambda>_. return_step True)))) (\<lambda>_. I) D"
    if r: "r = Some s" and s: "validateApprovedState (rt_sha rt) s" for s
  proof (rule triple_bind [where Q = "\<lambda>_ w. ?P w \<and> validateStateBinding (rt_sha rt) s b"])
    show "triple ?P (require (validateStateBinding (rt_sha rt) s b)
        (PbError ''approved delivery binding mismatch''))
      (\<lambda>_ w. ?P w \<and> validateStateBinding (rt_sha rt) s b) D"
      by (rule triple_require) auto
    show "triple (\<lambda>w. ?P w \<and> validateStateBinding (rt_sha rt) s b)
      (bind_step (validateApprovedSnapshots rt env b s) (\<lambda>_.
       bind_step (modify_step (set_mem s)) (\<lambda>_. return_step True))) (\<lambda>_. I) D"
    proof (rule triple_pure, rule triple_bind
        [OF down [OF keeps_to_triple [OF slot_frame.keeps_authority(2) [OF frame]]]])
      assume "validateStateBinding (rt_sha rt) s b"
      then show "triple ?P (bind_step (modify_step (set_mem s)) (\<lambda>_. return_step True)) (\<lambda>_. I) D"
        by (auto simp: r intro!: triple_bind [where Q = "\<lambda>_. I"] triple_modify triple_return enter s)
    qed
  qed
  show "triple (\<lambda>w. D w \<and> dw_state w = map_option Doc r \<and>
       (case r of None \<Rightarrow> True | Some s \<Rightarrow> validateApprovedState (rt_sha rt) s))
     (case r of
        None \<Rightarrow> bind_step (establish_authority rt env opts b allow) (\<lambda>preexisting.
          bind_step (initializeApprovedState rt env b) (\<lambda>_. return_step preexisting))
      | Some s \<Rightarrow> bind_step (require (validateStateBinding (rt_sha rt) s b)
            (PbError ''approved delivery binding mismatch'')) (\<lambda>_.
          bind_step (validateApprovedSnapshots rt env b s) (\<lambda>_.
          bind_step (modify_step (set_mem s)) (\<lambda>_. return_step True)))) (\<lambda>_. I) D"
    using create resume by (cases r) (auto simp: triple_def)
qed

theorem keeps_delivery: "keeps D (runApprovedDelivery rt env opts (Some tr) b allow)"
proof (cases "validateApprovedBatch (rt_sha rt) (rt_parse rt) (op_ReviewOk opts) b")
  case (Some e)
  then show ?thesis by (simp add: runApprovedDelivery_def keeps_simple)
next
  case None
  have os: "triple D (os_step env e) (\<lambda>_. D) D" for e
    by (rule keeps_to_triple [OF slot_frame.keeps_os(1) [OF disk_frame]])
  have inside: "triple I m (\<lambda>_. D) D" if "keeps I m" for m :: "('r, 'x) delivery_step"
    by (rule triple_weaken [OF keeps_to_triple [OF that]]) (auto intro: leave)
  have started: "triple I (startApprovedRun rt env now) (\<lambda>r w. I w \<and> 0 < dr_Sequence (snd r)) I" for now
  proof -
    note step = triple_bind [OF keeps_to_triple]
    show ?thesis
      unfolding startApprovedRun_def Let_def
      by (rule triple_bind [OF triple_gets], assumption, rule step [OF keeps_history],
          rule step [OF keeps_interrupted], rule step [OF keeps_writes(3)],
          rule step [OF keeps_update [OF bookkeeping_delivering]], rule step [OF keeps_write_state])
         (simp add: triple_return new_run_def Let_def)
  qed
  have operate: "triple (\<lambda>w. I w \<and> 0 < dr_Sequence (snd st)) (case st of (hist, run) \<Rightarrow>
     bind_step (run_operations rt env tr b allow (dr_Sequence run)) (\<lambda>ended.
     case ended of (outcome, cause) \<Rightarrow> finish_run rt env hist run outcome cause)) (\<lambda>_. D) D" for st
    by (rule triple_pure)
       (auto intro!: inside run_rules keeps_run_operations keeps_finish_run split: prod.split)
  have rest: "triple I (bind_step (gets_step dw_mem) (\<lambda>s.
     bind_step (if allow \<and> pre \<and> ds_Status s \<noteq> ''completed'' \<and> ds_Status s \<noteq> ''cancelled''
       then verify_human env opts b (PbError ''human resume initiation rejected'')
         (PbError ''human resume initiation rejected'')
       else return_step ()) (\<lambda>_.
     bind_step (refreshApprovedCancellation rt env) (\<lambda>_.
     bind_step (clock_step env) (\<lambda>now.
     bind_step (startApprovedRun rt env now) (\<lambda>started.
     case started of (hist, run) \<Rightarrow>
     bind_step (run_operations rt env tr b allow (dr_Sequence run)) (\<lambda>ended.
     case ended of (outcome, cause) \<Rightarrow> finish_run rt env hist run outcome cause))))))) (\<lambda>_. D) D" for pre
  proof (rule triple_bind [where Q = "\<lambda>_. I"])
    show "triple I (gets_step dw_mem) (\<lambda>_. I) D" by (rule triple_gets)
    fix s :: delivery_state
    have step: "triple I m (\<lambda>_. I) D" if "keeps I m" for m :: "('r, 'x) delivery_step"
      by (rule triple_weaken [OF keeps_to_triple [OF that]]) (auto intro: leave)
    have start: "triple I (startApprovedRun rt env now) (\<lambda>r w. I w \<and> 0 < dr_Sequence (snd r)) D" for now
      by (rule triple_weaken [OF started]) (auto intro: leave)
    show "triple I (bind_step (if allow \<and> pre \<and> ds_Status s \<noteq> ''completed'' \<and> ds_Status s \<noteq> ''cancelled''
         then verify_human env opts b (PbError ''human resume initiation rejected'')
           (PbError ''human resume initiation rejected'')
         else return_step ()) (\<lambda>_.
       bind_step (refreshApprovedCancellation rt env) (\<lambda>_.
       bind_step (clock_step env) (\<lambda>now.
       bind_step (startApprovedRun rt env now) (\<lambda>started.
       case started of (hist, run) \<Rightarrow>
       bind_step (run_operations rt env tr b allow (dr_Sequence run)) (\<lambda>ended.
       case ended of (outcome, cause) \<Rightarrow> finish_run rt env hist run outcome cause)))))) (\<lambda>_. D) D"
      by (intro triple_bind [OF step] triple_bind [OF start] operate)
         (auto intro!: run_rules keeps_human keeps_refresh)
  qed
  show ?thesis
    unfolding runApprovedDelivery_def option.case None
    by (rule triple_keeps, (rule triple_bind [OF os])+, rule triple_bind [OF triple_open_state [OF None]], rule rest)
qed

end

end
