(* ===== verification/PB_Delivery_Ledger.thy ===== *)
theory PB_Delivery_Ledger
  imports PB_Delivery_Contract
begin

text \<open>
  The ledger of mutation attempts: what reserving does to the state, and the first interpretation of
  \<open>delivery_run\<close>. From it: the destination is mutated at most as often as was approved, only
  right after it was seen without the object, and every state that is written validates.
\<close>

section \<open>Reserving\<close>

lemma numbers_set:
  assumes "numbers_ok xs k"
  shows "set xs = {1..k}"
proof -
  have "{1..k} \<subseteq> set xs" using assms by (auto simp: numbers_ok_def)
  moreover have "card (set xs) = card {1..k}"
    using assms by (auto simp: numbers_ok_def distinct_card)
  ultimately show ?thesis using card_subset_eq [of "set xs" "{1..k}"] by simp
qed

lemma numbers_ok_insert:
  assumes "numbers_ok xs k" and "mset ys = add_mset (k + 1) (mset xs)"
  shows "numbers_ok ys (k + 1)"
proof -
  have perm: "mset ys = mset ((k + 1) # xs)" using assms(2) by simp
  have set: "set ys = insert (k + 1) {1..k}"
    using mset_eq_setD [OF perm] numbers_set [OF assms(1)] by simp
  have len: "int (length ys) = k + 1"
    using mset_eq_length [OF perm] assms(1) by (simp add: numbers_ok_def)
  have "distinct xs" using assms(1) by (simp add: numbers_ok_def)
  moreover have "k + 1 \<notin> set xs" by (simp add: numbers_set [OF assms(1)])
  ultimately have "distinct ys" using mset_eq_imp_distinct_iff [OF perm] by simp
  moreover have "\<forall>j\<in>{1..k + 1}. j \<in> set ys" unfolding set by auto
  ultimately show ?thesis unfolding numbers_ok_def len by blast
qed

lemma mset_concat_snoc:
  assumes "i < length xss"
  shows "mset (concat (xss[i := xss ! i @ [y]])) = add_mset y (mset (concat xss))"
  using assms
proof (induction xss arbitrary: i)
  case (Cons xs xss)
  then show ?case by (cases i) auto
qed simp

lemma count_update:
  assumes "i < length xs" and "\<not> g (xs ! i)" and "g y"
  shows "length (filter id (map g (xs[i := y]))) = Suc (length (filter id (map g xs)))"
  using assms
proof (induction xs arbitrary: i)
  case (Cons x xs)
  then show ?case by (cases i) auto
qed simp

lemma attempt_numbers_add:
  assumes "i < length (ds_Operations s)"
  shows "mset (attempt_numbers (add_attempt rt i n now s)) =
    add_mset (ds_MutationAttempts s + 1) (mset (attempt_numbers s))"
  using mset_concat_snoc [of i "map (\<lambda>p. map at_AttemptNumber (os_Attempts p)) (ds_Operations s)"
      "ds_MutationAttempts s + 1"] assms
  by (simp add: attempt_numbers_def add_attempt_def update_operation_def map_update new_attempt_def Let_def)

lemma valid_update:
  assumes "list_all2 V fps ops" and "i < length ops" and "V (fps ! i) (ops ! i) \<Longrightarrow> V (fps ! i) q"
  shows "list_all2 V fps (ops[i := q])"
  using assms by (auto simp: list_all2_conv_all_nth nth_list_update)

lemma new_attempt_valid:
  assumes "\<And>x. rt_sha rt x \<noteq> ''''" and "0 < n" and "0 \<le> ds_MutationAttempts s"
  shows "attempt_valid (rt_sha rt) (ds_ApprovalFingerprint s) p (new_attempt rt s p n now)"
  using assms by (simp add: attempt_valid_def new_attempt_def Let_def attempt_id_def)

lemma state_ok_add:
  assumes s: "state_ok (rt_sha rt) s" and i: "i < length (ds_Operations s)"
    and n: "0 < n" and sha: "\<And>x. rt_sha rt x \<noteq> ''''"
    and room: "ds_MutationAttempts s < ds_MaximumMutationAttempts s"
  shows "state_ok (rt_sha rt) (add_attempt rt i n now s)"
proof -
  let ?t = "add_attempt rt i n now s"
  let ?p = "ds_Operations s ! i"
  let ?q = "?p\<lparr>os_Attempts := os_Attempts ?p @ [new_attempt rt s ?p n now], os_State := ''reserved''\<rparr>"
  note ok = s [unfolded state_ok_iff]
  have ops: "ds_Operations ?t = (ds_Operations s)[i := ?q]"
    by (simp add: add_attempt_def update_operation_def)
  have budget: "attempt_budget_ok ?t" and nonneg: "0 \<le> ds_MutationAttempts s"
    using ok room by (auto simp: attempt_budget_ok_def add_attempt_def update_operation_def Let_def)
  have q: "operation_valid (rt_sha rt) (ds_ApprovalFingerprint s) fp ?q"
    if "operation_valid (rt_sha rt) (ds_ApprovalFingerprint s) fp ?p" for fp
    using that new_attempt_valid [OF sha n nonneg] by (simp add: operation_valid_def)
  have "list_all2 (operation_valid (rt_sha rt) (ds_ApprovalFingerprint s))
      (ds_OrderedOperationFingerprints s) (ds_Operations ?t)"
    unfolding ops using ok i q by (intro valid_update) auto
  moreover have "numbers_ok (attempt_numbers ?t) (ds_MutationAttempts s + 1)"
    using ok attempt_numbers_add [OF i] by (intro numbers_ok_insert) auto
  moreover have "map os_OperationID (ds_Operations ?t) = map os_OperationID (ds_Operations s)"
    "map os_UniqueWriteReserved (ds_Operations ?t) = map os_UniqueWriteReserved (ds_Operations s)"
    unfolding ops by (auto intro!: kept_list)
  ultimately show ?thesis
    unfolding state_ok_iff using ok budget
    by (simp add: allowed_statuses_def) (simp add: add_attempt_def update_operation_def)
qed

lemma state_ok_reserve:
  assumes s: "state_ok sha s" and i: "i < length (ds_Operations s)"
    and room: "os_UniqueWriteReserved (ds_Operations s ! i) \<or>
      ds_UniqueWriteReservations s < ds_MaximumDestinationWrites s"
  shows "state_ok sha (reserve_write i s)"
proof (cases "os_UniqueWriteReserved (ds_Operations s ! i)")
  case True
  then show ?thesis using s by (simp add: reserve_write_def)
next
  case False
  let ?t = "reserve_write i s"
  let ?q = "(ds_Operations s ! i)\<lparr>os_UniqueWriteReserved := True\<rparr>"
  note ok = s [unfolded state_ok_iff]
  have t: "?t = (update_operation i (\<lambda>p. p\<lparr>os_UniqueWriteReserved := True\<rparr>) s)
      \<lparr>ds_UniqueWriteReservations := ds_UniqueWriteReservations s + 1\<rparr>"
    using False by (simp add: reserve_write_def)
  have ops: "ds_Operations ?t = (ds_Operations s)[i := ?q]"
    by (simp add: t update_operation_def)
  have budget: "attempt_budget_ok ?t"
    using ok room False by (auto simp: attempt_budget_ok_def t update_operation_def Let_def)
  have "operation_valid sha (ds_ApprovalFingerprint s) fp ?q"
    if "operation_valid sha (ds_ApprovalFingerprint s) fp (ds_Operations s ! i)" for fp
    using that by (simp add: operation_valid_def)
  then have "list_all2 (operation_valid sha (ds_ApprovalFingerprint s))
      (ds_OrderedOperationFingerprints s) (ds_Operations ?t)"
    unfolding ops using ok i by (intro valid_update) auto
  moreover have "attempt_numbers ?t = attempt_numbers s"
    unfolding attempt_numbers_def ops by (auto intro!: arg_cong [of _ _ concat] kept_list)
  moreover have "map os_OperationID (ds_Operations ?t) = map os_OperationID (ds_Operations s)"
    unfolding ops by (auto intro!: kept_list)
  moreover have "length (filter id (map os_UniqueWriteReserved (ds_Operations ?t))) =
      Suc (length (filter id (map os_UniqueWriteReserved (ds_Operations s))))"
    unfolding ops using i False by (intro count_update) auto
  ultimately show ?thesis
    unfolding state_ok_iff using ok budget
    by simp (simp add: t update_operation_def)
qed


section \<open>The initial state\<close>

lemma valid_batch_facts:
  assumes "validateApprovedBatch sha pt ok b = None"
  shows "ValidateOutbox sha ok (ab_Outbox b)"
    and "ValidatePreflight sha ok (ab_Preflight b) (ab_Outbox b) (ab_Profile b) = None"
    and "slice_list (da_OrderedOperationFingerprints (ab_Approval b)) =
      map oo_PayloadFingerprint (operations (ab_Outbox b))"
    and "da_MaximumDestinationWrites (ab_Approval b) = int (length (operations (ab_Outbox b)))"
    and "da_MaximumMutationAttempts (ab_Approval b) \<ge> int (length (operations (ab_Outbox b)))"
    and "da_MaximumMutationAttempts (ab_Approval b) \<le> int (length (operations (ab_Outbox b))) *
      maximumApprovedAttemptsPerOperation"
  using assms
  by (auto simp: validateApprovedBatch_def Let_def OrderedDeliveryOperationFingerprints_def
      split: if_splits option.splits)

lemma valid_batch_nonempty:
  assumes "validateApprovedBatch sha pt ok b = None"
  shows "operations (ab_Outbox b) \<noteq> []"
proof
  assume empty: "operations (ab_Outbox b) = []"
  have "outboxCollectionSlugs (ab_Outbox b) = []" by (simp add: outboxCollectionSlugs_def empty)
  moreover have "validatePreflightGateSet (ab_Preflight b)"
    and "length (slice_list (pa_CollectionContracts (ab_Preflight b))) =
      length (outboxCollectionSlugs (ab_Outbox b))"
    using valid_batch_facts(2) [OF assms] by (auto simp: ValidatePreflight_def Let_def split: if_splits)
  ultimately show False by (simp add: validatePreflightGateSet_def Let_def)
qed

lemma initial_operation_valid:
  assumes "operation_ok sha key x"
  shows "operation_valid sha approval (oo_PayloadFingerprint x) (initial_operation x)"
  using assms
  by (auto simp: operation_ok_def operation_valid_def initial_operation_def entry_operation_ok_def
      relation_operation_ok_def entry_id_of_def split: if_splits option.splits)

lemma initial_state_ok:
  assumes "validateApprovedBatch sha pt ok b = None"
  shows "state_ok sha (initial_state sha b)"
proof -
  let ?ops = "operations (ab_Outbox b)"
  note facts = valid_batch_facts [OF assms]
  have ops: "list_all (operation_ok sha (ps_ExpectedKeyID (ob_ProfileSnapshot (ab_Outbox b)))) ?ops"
    and ids: "distinct (map oo_OperationID ?ops)"
    using facts(1) by (simp_all add: ValidateOutbox_def)
  have "list_all2 (operation_valid sha approval) (map oo_PayloadFingerprint ?ops) (map initial_operation ?ops)"
    for approval
    using ops initial_operation_valid by (auto simp: list_all2_conv_all_nth list_all_length)
  moreover have [simp]: "os_OperationID \<circ> initial_operation = oo_OperationID"
    "(\<lambda>p. map at_AttemptNumber (os_Attempts p)) \<circ> initial_operation = (\<lambda>_. [])"
    "os_UniqueWriteReserved \<circ> initial_operation = (\<lambda>_. False)"
    by (simp_all add: initial_operation_def comp_def)
  moreover have [simp]: "concat (map (\<lambda>_. []) xs) = []" and [simp]: "filter id (map (\<lambda>_. False) xs) = []"
    for xs :: "outbox_operation list"
    by (induction xs) auto
  moreover have "attempt_budget_ok (initial_state sha b)"
    using facts(4-6) by (simp add: attempt_budget_ok_def initial_state_def Let_def)
  ultimately show ?thesis
    using ids valid_batch_nonempty [OF assms] facts(3)
    unfolding state_ok_iff attempt_numbers_def
    by (simp add: initial_state_def allowed_statuses_def numbers_ok_def)
qed

section \<open>The ledger\<close>

fun is_mutation :: "delivery_event \<Rightarrow> bool" where
  "is_mutation (Mutation _ _) = True"
| "is_mutation _ = False"

definition mutations :: "'r delivery_world \<Rightarrow> int" where
  "mutations w = int (length (filter is_mutation (dw_log w)))"

text \<open>Every mutation is the request of its operation and follows on an observation of its absence.\<close>

definition guarded :: "approved_batch \<Rightarrow> delivery_event list \<Rightarrow> bool" where
  "guarded b es \<longleftrightarrow>
     (\<forall>k < length es. \<forall>i m. es ! k = Mutation i m \<longrightarrow>
        0 < k \<and> es ! (k - 1) = Absent i \<and> i < length (operations (ab_Outbox b)) \<and>
        mutation_of (operations (ab_Outbox b) ! i) = Some m)"

definition within_budget :: "approved_batch \<Rightarrow> int \<Rightarrow> delivery_state \<Rightarrow> bool" where
  "within_budget b n s \<longleftrightarrow>
     n \<le> ds_MutationAttempts s \<and> ds_MutationAttempts s \<le> ds_MaximumMutationAttempts s \<and>
     ds_MaximumMutationAttempts s = da_MaximumMutationAttempts (ab_Approval b)"

definition ledger :: "bool \<Rightarrow> runtime \<Rightarrow> approved_batch \<Rightarrow> 'r delivery_world \<Rightarrow> bool" where
  "ledger h rt b w \<longleftrightarrow> guarded b (dw_log w) \<and>
     (case dw_state w of
        None \<Rightarrow> mutations w = 0
      | Some (Garbled _) \<Rightarrow> False
      | Some (Doc s) \<Rightarrow> within_budget b (mutations w) s \<and> (h \<longrightarrow> validateApprovedState (rt_sha rt) s))"

definition in_run :: "bool \<Rightarrow> runtime \<Rightarrow> approved_batch \<Rightarrow> 'r delivery_world \<Rightarrow> bool" where
  "in_run h rt b w \<longleftrightarrow> ledger h rt b w \<and> within_budget b (mutations w) (dw_mem w) \<and>
     length (ds_Operations (dw_mem w)) = length (operations (ab_Outbox b)) \<and>
     (h \<longrightarrow> state_ok (rt_sha rt) (dw_mem w))"

definition saw_absent :: "delivery_env \<Rightarrow> nat \<Rightarrow> 'r delivery_world \<Rightarrow> bool" where
  "saw_absent env i w \<longleftrightarrow> (alive env w \<longrightarrow> dw_log w \<noteq> [] \<and> last (dw_log w) = Absent i)"

definition has_credit :: "delivery_env \<Rightarrow> approved_batch \<Rightarrow> 'r delivery_world \<Rightarrow> bool" where
  "has_credit env b w \<longleftrightarrow> (alive env w \<longrightarrow>
     within_budget b (mutations w + 1) (dw_mem w) \<and>
     (\<exists>s. dw_state w = Some (Doc s) \<and> within_budget b (mutations w + 1) s))"

lemma guarded_snoc:
  assumes "guarded b es"
  shows "\<not> is_mutation e \<Longrightarrow> guarded b (es @ [e])"
    and "es \<noteq> [] \<Longrightarrow> last es = Absent i \<Longrightarrow> i < length (operations (ab_Outbox b)) \<Longrightarrow>
      mutation_of (operations (ab_Outbox b) ! i) = Some m \<Longrightarrow> guarded b (es @ [Mutation i m])"
proof -
  have old: "(es @ [e]) ! k = Mutation i m \<Longrightarrow> k < length es \<Longrightarrow>
      0 < k \<and> (es @ [e]) ! (k - 1) = Absent i \<and> i < length (operations (ab_Outbox b)) \<and>
      mutation_of (operations (ab_Outbox b) ! i) = Some m" for k i m e
    using assms by (auto simp: guarded_def nth_append)
  show "guarded b (es @ [e])" if "\<not> is_mutation e"
    unfolding guarded_def using old that by (auto simp: less_Suc_eq)
  show "guarded b (es @ [Mutation i m])" if "es \<noteq> []" "last es = Absent i"
    "i < length (operations (ab_Outbox b))" "mutation_of (operations (ab_Outbox b) ! i) = Some m"
    unfolding guarded_def using old that by (auto simp: less_Suc_eq nth_append last_conv_nth)
qed

lemmas world_simps = next_tick_def put_authority_def put_cancellation_def put_active_def put_run_def
  put_history_def put_receipt_def put_remote_def set_mem_def put_state_def log_event_def

lemma ledger_cong:
  assumes "dw_log w' = dw_log w" and "dw_state w' = dw_state w"
  shows "ledger h rt b w' = ledger h rt b w"
proof -
  have "mutations w' = mutations w" by (simp add: mutations_def assms)
  then show ?thesis unfolding ledger_def assms by (rule ssubst) (rule refl)
qed

lemma in_run_cong:
  assumes "dw_log w' = dw_log w" and "dw_state w' = dw_state w" and "dw_mem w' = dw_mem w"
  shows "in_run h rt b w' = in_run h rt b w"
proof -
  have "mutations w' = mutations w" by (simp add: mutations_def assms)
  then show ?thesis unfolding in_run_def assms ledger_cong [OF assms(1,2)] by simp
qed

lemma saw_absent_mono:
  "saw_absent env i w \<Longrightarrow> dw_log w' = dw_log w \<Longrightarrow> dw_tick w \<le> dw_tick w' \<Longrightarrow> saw_absent env i w'"
  by (auto simp: saw_absent_def alive_def)

lemma has_credit_mono:
  "has_credit env b w \<Longrightarrow> dw_log w' = dw_log w \<Longrightarrow> dw_state w' = dw_state w \<Longrightarrow> dw_mem w' = dw_mem w \<Longrightarrow>
    dw_tick w \<le> dw_tick w' \<Longrightarrow> has_credit env b w'"
  by (auto simp: has_credit_def alive_def mutations_def)

lemma slot_frame_ledger: "slot_frame (ledger h rt b)"
  by (rule slot_frame_fields) (blast intro: ledger_cong [THEN iffD2])

lemma slot_frame_run: "slot_frame (in_run h rt b)"
  by (rule slot_frame_fields) (blast intro: in_run_cong [THEN iffD2])

lemma slot_frame_absent: "slot_frame (\<lambda>w. in_run h rt b w \<and> saw_absent env i w)"
  by (rule slot_frame_fields) (blast intro: in_run_cong [THEN iffD2] saw_absent_mono)

lemma slot_frame_credit: "slot_frame (\<lambda>w. in_run h rt b w \<and> saw_absent env i w \<and> has_credit env b w)"
  by (rule slot_frame_fields) (blast intro: in_run_cong [THEN iffD2] saw_absent_mono has_credit_mono)


section \<open>The ledger inside a run\<close>

lemma in_run_set_mem:
  assumes "in_run h rt b w" and "within_budget b (mutations w) s"
    and "length (ds_Operations s) = length (operations (ab_Outbox b))" and "h \<Longrightarrow> state_ok (rt_sha rt) s"
  shows "in_run h rt b (set_mem s w)"
proof -
  have "mutations (set_mem s w) = mutations w" by (simp add: mutations_def set_mem_def)
  moreover have "ledger h rt b (set_mem s w)"
    using assms(1) ledger_cong [of "set_mem s w" w h rt b] by (simp add: in_run_def set_mem_def)
  ultimately show ?thesis using assms(2-4) by (simp add: in_run_def set_mem_def)
qed

lemma in_run_mem:
  assumes "in_run h rt b w" and "bookkeeping h (rt_sha rt) (dw_mem w) s"
  shows "in_run h rt b (set_mem s w)"
  using assms
  by (intro in_run_set_mem) (auto simp: in_run_def bookkeeping_def within_budget_def)

lemma in_run_store:
  assumes "in_run h rt b w" and "ds_Fingerprint (dw_mem w) = state_hash (rt_sha rt) (dw_mem w)"
  shows "in_run h rt b (put_state (Some (Doc (dw_mem w))) w)"
proof -
  have "mutations (put_state x w) = mutations w" for x by (simp add: mutations_def put_state_def)
  moreover have "h \<Longrightarrow> validateApprovedState (rt_sha rt) (dw_mem w)"
    using assms by (simp add: in_run_def) (rule valid_state_ok [THEN iffD2], simp)
  ultimately show ?thesis
    using assms(1) by (simp add: in_run_def ledger_def) (simp add: put_state_def)
qed

lemma saw_absent_fields [simp]:
  "saw_absent env i (set_mem s w) = saw_absent env i w"
  "saw_absent env i (put_state x w) = saw_absent env i w"
  by (simp_all add: saw_absent_def alive_def set_mem_def put_state_def)

lemma run_frame_run: "run_frame (in_run h rt b) rt h"
  by (intro run_frame.intro run_frame_axioms.intro slot_frame_run in_run_mem in_run_store)

lemma run_frame_absent: "run_frame (\<lambda>w. in_run h rt b w \<and> saw_absent env i w) rt h"
  by (intro run_frame.intro run_frame_axioms.intro slot_frame_absent)
     (simp_all add: in_run_mem in_run_store)

lemma writeApprovedState_ok:
  assumes "writeApprovedState rt env w = (w', Inr u)"
  shows "alive env w" and "w' = next_tick (put_state (Some (Doc (dw_mem (seal_mem rt w)))) (seal_mem rt w))"
  using assms
  by (auto simp: writeApprovedState_def write_file_def Let_def alive_def seal_mem_def set_mem_def
      dest!: WriteFile_ok split: if_splits prod.splits option.splits)

lemma reserve_write_fields [simp]:
  "ds_MutationAttempts (reserve_write i s) = ds_MutationAttempts s"
  "ds_MaximumMutationAttempts (reserve_write i s) = ds_MaximumMutationAttempts s"
  "length (ds_Operations (reserve_write i s)) = length (ds_Operations s)"
  by (simp_all add: reserve_write_def update_operation_def)

lemma add_attempt_fields [simp]:
  "ds_MutationAttempts (add_attempt rt i n now s) = ds_MutationAttempts s + 1"
  "ds_MaximumMutationAttempts (add_attempt rt i n now s) = ds_MaximumMutationAttempts s"
  "length (ds_Operations (add_attempt rt i n now s)) = length (ds_Operations s)"
  by (simp_all add: add_attempt_def update_operation_def)

lemma triple_reserve_attempt:
  fixes env :: delivery_env
  assumes n: "0 < n" and i: "i < length (operations (ab_Outbox b))" and sha: "h \<Longrightarrow> \<forall>x. rt_sha rt x \<noteq> ''''"
  defines "A \<equiv> (\<lambda>w :: 'r delivery_world. in_run h rt b w \<and> saw_absent env i w)"
  shows "triple A (reserveApprovedAttempt rt env i n now) (\<lambda>_ w. A w \<and> has_credit env b w) A"
  unfolding reserveApprovedAttempt_def
proof (rule triple_read)
  fix s :: delivery_state
  let ?room = "os_UniqueWriteReserved (ds_Operations s ! i) \<or>
         \<not> ds_UniqueWriteReservations s \<ge> ds_MaximumDestinationWrites s"
  let ?B = "\<lambda>w. A w \<and> dw_mem w = reserve_write i s"
  let ?left = "ds_MutationAttempts s < ds_MaximumMutationAttempts s"
  let ?C = "\<lambda>w. A w \<and> within_budget b (mutations w + 1) (dw_mem w)"
  have muts: "mutations (set_mem t w) = mutations w" for t and w :: "'r delivery_world"
    by (simp add: mutations_def set_mem_def)
  have s1: "triple (\<lambda>w. A w \<and> dw_mem w = s) (require ?room ErrWriteBudgetExhausted)
      (\<lambda>_ w. (A w \<and> dw_mem w = s) \<and> ?room) A"
    by (rule triple_require) auto
  have s2: "triple (\<lambda>w. (A w \<and> dw_mem w = s) \<and> ?room) (modify_step (update_mem (reserve_write i))) (\<lambda>_. ?B) A"
  proof (rule triple_modify)
    fix w assume w: "(A w \<and> dw_mem w = s) \<and> ?room"
    have "in_run h rt b (set_mem (reserve_write i s) w)"
      using w i by (intro in_run_set_mem) (auto simp: A_def in_run_def within_budget_def intro!: state_ok_reserve)
    then show "?B (update_mem (reserve_write i) w)"
      using w by (simp add: A_def update_mem_def) (simp add: set_mem_def)
  qed
  have s3: "triple ?B (require (\<not> ds_MutationAttempts s \<ge> ds_MaximumMutationAttempts s) ErrAttemptBudgetExhausted)
      (\<lambda>_ w. ?B w \<and> ?left) A"
    by (rule triple_require) auto
  have s4: "triple (\<lambda>w. ?B w \<and> ?left) (modify_step (update_mem (add_attempt rt i n now))) (\<lambda>_. ?C) A"
  proof (rule triple_modify)
    fix w assume w: "?B w \<and> ?left"
    let ?t = "add_attempt rt i n now (reserve_write i s)"
    have budget: "within_budget b (mutations w + 1) ?t"
      using w by (auto simp: A_def in_run_def within_budget_def)
    have "in_run h rt b (set_mem ?t w)"
      using w i n sha budget
      by (intro in_run_set_mem) (auto simp: A_def in_run_def within_budget_def intro!: state_ok_add)
    then show "?C (update_mem (add_attempt rt i n now) w)"
      using w budget by (simp add: A_def update_mem_def muts) (simp add: set_mem_def)
  qed
  have s5: "triple ?C (writeApprovedState rt env) (\<lambda>_ w. A w \<and> has_credit env b w) A"
  proof (rule tripleI)
    have keeps: "keeps A (writeApprovedState rt env)"
      unfolding A_def by (rule run_frame.keeps_write_state [OF run_frame_absent])
    show "A w'" if "?C w" "writeApprovedState rt env w = (w', Inl e)" for w w' e
      using keepsD [OF keeps, of w] that by simp
    show "A w' \<and> has_credit env b w'" if "?C w" "writeApprovedState rt env w = (w', Inr x)" for w w' x
    proof
      show "A w'" using keepsD [OF keeps, of w] that by simp
      show "has_credit env b w'"
        using that(1) unfolding writeApprovedState_ok(2) [OF that(2)]
        by (simp add: has_credit_def within_budget_def mutations_def next_tick_def put_state_def
            seal_mem_def set_mem_def)
    qed
  qed
  show "triple (\<lambda>w. A w \<and> dw_mem w = s)
     (bind_step (require ?room ErrWriteBudgetExhausted) (\<lambda>_.
     bind_step (modify_step (update_mem (reserve_write i))) (\<lambda>_.
     bind_step (require (\<not> ds_MutationAttempts s \<ge> ds_MaximumMutationAttempts s) ErrAttemptBudgetExhausted) (\<lambda>_.
     bind_step (modify_step (update_mem (add_attempt rt i n now))) (\<lambda>_.
     writeApprovedState rt env))))) (\<lambda>_ w. A w \<and> has_credit env b w) A"
    by (rule triple_bind [OF s1], rule triple_bind [OF s2], rule triple_bind [OF s3],
        rule triple_bind [OF s4], rule s5)
qed


lemma triple_reserve_under_lock:
  fixes env :: delivery_env
  assumes n: "0 < n" and i: "i < length (operations (ab_Outbox b))" and sha: "h \<Longrightarrow> \<forall>x. rt_sha rt x \<noteq> ''''"
  defines "A \<equiv> (\<lambda>w :: 'r delivery_world. in_run h rt b w \<and> saw_absent env i w)"
  shows "triple A (reserve_under_lock rt env b n i)
    (credited (\<lambda>_ w. A w \<and> has_credit env b w) (in_run h rt b) i) (in_run h rt b)"
proof -
  have frame: "run_frame A rt h" and slots: "slot_frame A"
    unfolding A_def by (rule run_frame_absent, rule slot_frame_absent)
  have stop: "triple A m (credited (\<lambda>_ w. A w \<and> has_credit env b w) (in_run h rt b) i) (in_run h rt b)"
    if "triple A m (\<lambda>r w. r \<noteq> None \<and> A w) A" for m
    by (rule triple_weaken [OF that]) (auto simp: credited_def A_def)
  have stopped: "triple A (return_step (Some e)) (\<lambda>r w. r \<noteq> None \<and> A w) A" for e :: loop_end
    by (rule triple_return) simp
  have then_stopped: "triple A (bind_step m (\<lambda>_. return_step (Some e))) (\<lambda>r w. r \<noteq> None \<and> A w) A"
    if "keeps A m" for m :: "'r delivery_world \<Rightarrow> 'r delivery_world \<times> (pb_error, unit) result" and e :: loop_end
    by (rule triple_bind [OF keeps_to_triple [OF that] stopped])
  have caught: "triple A (catch_step m) (\<lambda>_. A) (in_run h rt b)" if "keeps A m" for m :: "('r, unit) delivery_step"
    using keeps_to_triple [OF that] by (intro triple_catch) auto
  have clock: "triple A (clock_step env) (\<lambda>_. A) (in_run h rt b)"
    by (rule triple_weaken [OF keeps_to_triple [OF slot_frame.keeps_os(3) [OF slots]]]) (auto simp: A_def)
  have attempt: "triple A (catch_step (reserveApprovedAttempt rt env i n now))
      (\<lambda>r w. A w \<and> (r = Inr () \<longrightarrow> has_credit env b w)) (in_run h rt b)" for now
    using triple_reserve_attempt [OF n i sha, where env = env and now = now]
    unfolding A_def by (intro triple_catch) (auto elim: triple_weaken)
  have mem: "triple A (gets_step dw_mem) (\<lambda>_. A) (in_run h rt b)" by (rule triple_gets)
  have blocked: "keeps A (modify_step (update_mem (set_op_state i ''blocked'' \<circ> set_status ''blocked'')))"
    by (rule run_frame.keeps_update [OF frame])
       (auto simp: allowed_statuses_def open_states_def
         intro!: bookkeeping_trans [OF bookkeeping_status bookkeeping_op_state])
  have status: "keeps A (mem_status ''cancelled'')"
    by (rule run_frame.keeps_status [OF frame]) (simp add: allowed_statuses_def)
  have reserved: "triple (\<lambda>w. A w \<and> (r = Inr () \<longrightarrow> has_credit env b w))
      ((case r of Inr _ \<Rightarrow> return_step None
       | Inl e \<Rightarrow> bind_step (modify_step (update_mem (set_op_state i ''blocked'' \<circ> set_status ''blocked''))) (\<lambda>_.
           return_step (Some (FinishRun ''failed'' (Some e))))) :: ('r, loop_end option) delivery_step)
      (credited (\<lambda>_ w. A w \<and> has_credit env b w) (in_run h rt b) i) (in_run h rt b)"
    for r :: "(pb_error, unit) result"
  proof (cases r)
    case (Inl e)
    then show ?thesis using stop [OF then_stopped [OF blocked]] by simp
  next
    case (Inr u)
    then show ?thesis by (auto intro!: triple_return simp: credited_def)
  qed
  show ?thesis
    unfolding reserve_under_lock_def
    by (auto intro!: triple_bind [OF caught [OF slot_frame.keeps_lock [OF slots]]]
        triple_bind [OF caught [OF run_frame.keeps_refresh [OF frame]]] triple_bind [OF mem]
        triple_bind [OF clock] triple_bind [OF attempt] reserved
        stop [OF stopped] stop [OF then_stopped [OF status]] split: sum.split option.split)
qed


lemma ledger_log:
  assumes "ledger h rt b w" and "\<not> is_mutation e"
  shows "ledger h rt b (log_event e w)" and "mutations (log_event e w) = mutations w"
proof -
  show m: "mutations (log_event e w) = mutations w" using assms(2) by (simp add: mutations_def log_event_def)
  have "guarded b (dw_log w @ [e])" using assms guarded_snoc(1) by (simp add: ledger_def)
  then show "ledger h rt b (log_event e w)"
    using assms(1) unfolding ledger_def m by (simp add: log_event_def)
qed

lemma in_run_note:
  assumes "in_run h rt b w" and "\<not> is_mutation e"
  shows "in_run h rt b (note_event env e w)"
  using assms ledger_log [OF _ assms(2), of h rt b w]
  by (simp add: note_event_def in_run_def) (simp add: log_event_def)

lemma in_run_spend:
  assumes w: "in_run h rt b w" "saw_absent env i w" "has_credit env b w" and "alive env w"
    and "i < length (operations (ab_Outbox b))" and "mutation_of (operations (ab_Outbox b) ! i) = Some m"
  shows "in_run h rt b (log_event (Mutation i m) (put_remote r w))"
proof -
  let ?w = "log_event (Mutation i m) (put_remote r w)"
  have m: "mutations ?w = mutations w + 1"
    by (simp add: mutations_def log_event_def put_remote_def)
  have fields: "dw_state ?w = dw_state w" "dw_mem ?w = dw_mem w" "dw_log ?w = dw_log w @ [Mutation i m]"
    by (simp_all add: log_event_def put_remote_def)
  have "guarded b (dw_log w @ [Mutation i m])"
    using assms guarded_snoc(2) [of b "dw_log w" i m] by (simp add: in_run_def ledger_def saw_absent_def)
  then show ?thesis
    using assms unfolding in_run_def ledger_def m fields by (auto simp: has_credit_def)
qed

lemma ledger_enter:
  assumes "ledger h rt b w" and "dw_state w = Some (Doc s)" and "validateApprovedState (rt_sha rt) s"
    and "validateStateBinding (rt_sha rt) s b"
  shows "in_run h rt b (set_mem s w)"
proof -
  have "length (ds_Operations s) = length (operations (ab_Outbox b))"
    using assms(4) by (auto simp: validateStateBinding_def dest: list_all2_lengthD)
  moreover have "state_ok (rt_sha rt) s" using assms(3) by (simp add: valid_state_ok)
  moreover have "mutations (set_mem s w) = mutations w" by (simp add: mutations_def set_mem_def)
  moreover have "ledger h rt b (set_mem s w)"
    using assms(1) by (rule ledger_cong [THEN iffD2, rotated 2]) (simp_all add: set_mem_def)
  ultimately show ?thesis
    using assms(1,2) by (simp add: in_run_def ledger_def) (simp add: set_mem_def)
qed

lemma ledger_fresh:
  assumes "validateApprovedBatch (rt_sha rt) pt ok b = None" and "ledger h rt b w" and "dw_state w = None"
  shows "in_run h rt b (set_mem (initial_state (rt_sha rt) b) w)"
proof -
  have "within_budget b (mutations w) (initial_state (rt_sha rt) b)"
    using assms(2,3) valid_batch_facts(5) [OF assms(1)]
    by (simp add: within_budget_def ledger_def initial_state_def)
  moreover have "mutations (set_mem s w) = mutations w" for s by (simp add: mutations_def set_mem_def)
  moreover have "ledger h rt b (set_mem (initial_state (rt_sha rt) b) w)"
    using assms(2) by (rule ledger_cong [THEN iffD2, rotated 2]) (simp_all add: set_mem_def)
  ultimately show ?thesis
    using initial_state_ok [OF assms(1)]
    by (simp add: in_run_def) (simp add: set_mem_def initial_state_def)
qed

lemma delivery_run_ledger:
  fixes tr :: "'r transport" and h rt b
  defines "g \<equiv> h \<and> trusted rt b tr"
  shows "delivery_run (in_run g rt b) rt g (ledger g rt b)
    (\<lambda>i w. in_run g rt b w \<and> saw_absent env i w) (\<lambda>_. in_run g rt b)
    (\<lambda>i w. (in_run g rt b w \<and> saw_absent env i w) \<and> has_credit env b w) env b tr allow"
proof (intro delivery_run.intro delivery_run_axioms.intro)
  have sha: "g \<Longrightarrow> \<forall>x. rt_sha rt x \<noteq> ''''" by (simp add: g_def trusted_def)
  show "g \<Longrightarrow> trusted rt b tr" by (simp add: g_def)
  show "in_run g rt b w \<Longrightarrow> ledger g rt b w" for w by (simp add: in_run_def)
  show "run_frame (in_run g rt b) rt g" by (rule run_frame_run)
  show "slot_frame (ledger g rt b)" by (rule slot_frame_ledger)
  show "slot_frame (\<lambda>w. in_run g rt b w \<and> saw_absent env i w)" for i by (rule slot_frame_absent)
  show "slot_frame (\<lambda>w. (in_run g rt b w \<and> saw_absent env i w) \<and> has_credit env b w)" for i
    using slot_frame_credit by (simp add: conj_assoc)
  show "in_run g rt b (note_event env (Confirmed i) w)" if "in_run g rt b w" for i w
    by (rule in_run_note [OF that]) simp
  show "in_run g rt b (note_event env (Absent i) w) \<and> saw_absent env i (note_event env (Absent i) w)"
    if "in_run g rt b w" for i w
    by (simp add: in_run_note [OF that]) (simp add: saw_absent_def note_event_def log_event_def)
  show "triple (\<lambda>w. in_run g rt b w \<and> saw_absent env i w) (reserve_under_lock rt env b n i)
      (credited (\<lambda>i w. (in_run g rt b w \<and> saw_absent env i w) \<and> has_credit env b w) (in_run g rt b) i)
      (in_run g rt b)" if "0 < n" "i < length (operations (ab_Outbox b))" for i n
    using triple_reserve_under_lock [OF that sha, where env = env] unfolding credited_def .
qed (auto intro: ledger_enter ledger_fresh in_run_spend)

end
