(* ===== verification/PB_Delivery_Demo.thy ===== *)
theory PB_Delivery_Demo
  imports PB_Delivery_Run
begin

text \<open>
  A concrete approved delivery, used by the witnesses: one draft entry, a destination that stores at
  most one entry, and a hash that is the same for every document.
\<close>

definition hx :: string where
  "hx = replicate 64 (CHR ''a'')"

definition demo_rt :: runtime where
  "demo_rt = \<lparr>rt_sha = (\<lambda>_. hx),
     rt_parse = (\<lambda>s. if s = ''t1'' then Some 1 else if s = ''t9'' then Some 9 else None),
     rt_format = (\<lambda>_. ''t1'')\<rparr>"

definition demo_entry :: entry_operation where
  "demo_entry = \<lparr>en_CollectionSlug = ''c'', en_EntryID = ''E-1'', en_Name = ''n'', en_Data = JObj [],
     en_SourceRef = ''s'', en_SourceExcerpt = ''x'', en_CreatedBy = ExpectedCreatedBy, en_ForceDraft = True\<rparr>"

definition demo_operation :: outbox_operation where
  "demo_operation = \<lparr>oo_OperationID = ''op-1'', oo_Kind = ''entry'', oo_Dependencies = Some [],
     oo_PayloadFingerprint = hx, oo_Entry = Some demo_entry, oo_Relation = None\<rparr>"

definition demo_roles :: "(string \<times> role_mapping) list" where
  "demo_roles = [(''external_entity'', \<lparr>rm_CollectionSlug = ''c'', rm_IDPrefix = ''E''\<rparr>),
     (''evidence_backed_finding'', \<lparr>rm_CollectionSlug = ''d'', rm_IDPrefix = ''F''\<rparr>),
     (''unresolved_tension'', \<lparr>rm_CollectionSlug = ''e'', rm_IDPrefix = ''T''\<rparr>)]"

definition demo_snapshot :: profile_snapshot where
  "demo_snapshot = \<lparr>ps_ProfileID = ''p'', ps_TransportKind = ''aki'', ps_TransportAPIPath = ''/api/aki'',
     ps_ExpectedOrigin = ProductionGatewayOrigin, ps_ExpectedWorkspaceID = ''w'',
     ps_ExpectedWorkspaceSlug = ''ws'', ps_ExpectedKeyID = ''k'', ps_DraftOnly = True,
     ps_RoleMappings = demo_roles, ps_RelationMappings = [(''related_to'', ''related_to'')],
     ps_ReviewPolicy = None\<rparr>"

definition demo_outbox :: outbox where
  "demo_outbox = \<lparr>ob_SchemaVersion = OutboxSchema, ob_Fingerprint = hx, ob_RoutingFingerprint = ''r'',
     ob_ProfileFingerprint = hx, ob_ProfileSnapshot = demo_snapshot, ob_ReviewContext = JNull,
     ob_Operations = Some [demo_operation], ob_PrivacyFindings = JNull, ob_OperatorJudged = True,
     ob_HeldOut = False, ob_Generalizable = False, ob_AutonomyClaim = False\<rparr>"

definition demo_profile :: delivery_profile where
  "demo_profile = DeliveryProfileFromSnapshot demo_snapshot"

definition demo_workspace :: workspace_capability where
  "demo_workspace = \<lparr>wc_ID = ''w'', wc_Slug = ''ws'', wc_GovernanceMode = ''open'',
     wc_KeyScope = ''readwrite'', wc_KeyID = ''k''\<rparr>"

definition demo_preflight :: preflight_artifact where
  "demo_preflight = \<lparr>pa_SchemaVersion = PreflightSchema, pa_Fingerprint = hx, pa_OutboxFingerprint = hx,
     pa_ProfileFingerprint = hx, pa_ExpectedOrigin = ProductionGatewayOrigin, pa_Workspace = demo_workspace,
     pa_CollectionContracts = Some [(''c'', hx)],
     pa_Gates = Some (map (\<lambda>(n, a). \<lparr>pg_Name = n, pg_Verdict = ''pass'', pg_Actual = a\<rparr>)
       [(''trusted_origin'', ProductionGatewayOrigin), (''runtime_secret_scan'', ''zero findings''),
        (''workspace_id'', ''w''), (''workspace_slug'', ''ws''), (''governance_mode'', ''open''),
        (''key_scope'', ''readwrite''), (''key_id'', ''k''), (''collection_contract:c'', hx)]),
     pa_MutationCalls = 0, pa_Verdict = ''pass''\<rparr>"

definition demo_evidence :: human_evidence where
  "demo_evidence = \<lparr>he_SchemaVersion = HumanInitiationEvidenceSchema, he_Fingerprint = hx,
     he_SessionFingerprint = ''s'', he_ReviewNonceFingerprint = hx, he_PreviewEvidenceFingerprint = ''v'',
     he_BatchFingerprint = hx, he_DestinationWorkspaceID = ''w'', he_DestinationKeyID = ''k'',
     he_OrderedOperationFingerprints = Some [hx], he_MaximumDestinationWrites = 1,
     he_MaximumMutationAttempts = 2, he_IssuedAt = ''t1'', he_ExpiresAt = ''t9'',
     he_HumanGesture = True, he_ServerDerived = True\<rparr>"

definition demo_approval :: delivery_approval where
  "demo_approval = \<lparr>da_SchemaVersion = DeliveryApprovalSchema, da_Fingerprint = hx, da_BatchFingerprint = hx,
     da_OutboxFingerprint = hx, da_PreflightFingerprint = hx, da_PrivacyFingerprint = hx,
     da_DestinationWorkspaceID = ''w'', da_DestinationKeyID = ''k'',
     da_OrderedOperationFingerprints = Some [hx], da_MaximumDestinationWrites = 1,
     da_MaximumMutationAttempts = 2, da_HumanInitiationEvidenceFingerprint = hx,
     da_ApprovedAt = ''t1'', da_ExpiresAt = ''t9''\<rparr>"

definition demo_batch :: approved_batch where
  "demo_batch = \<lparr>ab_BatchFingerprint = hx, ab_Outbox = demo_outbox, ab_Profile = demo_profile,
     ab_Preflight = demo_preflight, ab_PrivacyFingerprint = hx, ab_Approval = demo_approval,
     ab_Evidence = demo_evidence\<rparr>"

lemma demo_hash [simp]: "hash_value (rt_sha demo_rt) j = hx"
  by (simp add: hash_value_def demo_rt_def)

lemma hx_facts [simp]: "hx \<noteq> ''''" "length hx = 64"
  by (simp_all add: hx_def)

type_synonym demo_remote = "create_entry_request option"

definition demo_readback :: "create_entry_request \<Rightarrow> entry_readback" where
  "demo_readback q = \<lparr>er_Found = True, er_DocID = ''d'', er_EntryID = ce_EntryID q,
     er_CollectionSlug = ce_CollectionSlug q, er_Name = ce_Name q, er_Status = ''draft'',
     er_Data = ce_Data q, er_SourceRef = ce_SourceRef q, er_SourceExcerpt = ce_SourceExcerpt q,
     er_CreatedBy = ce_CreatedBy q\<rparr>"

definition missing_entry :: entry_readback where
  "missing_entry = \<lparr>er_Found = False, er_DocID = '''', er_EntryID = '''', er_CollectionSlug = '''',
     er_Name = '''', er_Status = '''', er_Data = JNull, er_SourceRef = '''', er_SourceExcerpt = '''',
     er_CreatedBy = ''''\<rparr>"

definition demo_transport :: "demo_remote transport" where
  "demo_transport = \<lparr>tr_ResolveWorkspace = (\<lambda>r. (r, Inr demo_workspace)), tr_SecretScanner = True,
     tr_SecretFindings = (\<lambda>_ r. (r, False)),
     tr_GetCollectionFields = (\<lambda>slug r. (r, Inr \<lparr>cc_Found = True, cc_Slug = slug, cc_Fields = []\<rparr>)),
     tr_GetEntry = (\<lambda>_ r. (r, Inr (case r of None \<Rightarrow> missing_entry | Some q \<Rightarrow> demo_readback q))),
     tr_SearchEntries = (\<lambda>_ _ r. (r, Inr [])),
     tr_CreateEntry = (\<lambda>q _. (Some q, None)),
     tr_ListEntryRelations = (\<lambda>_ r. (r, Inr [])),
     tr_CreateEntryRelation = (\<lambda>_ r. (r, None))\<rparr>"

definition demo_options :: "demo_remote delivery_options" where
  "demo_options = \<lparr>op_Verifier = Some (\<lambda>_ r. (r, Inr ())), op_ReviewOk = (\<lambda>_. True)\<rparr>"

definition demo_env :: delivery_env where
  "demo_env = \<lparr>de_crash = 1000, de_clock = (\<lambda>_. 2), de_fails = (\<lambda>_. False), de_hooks = (\<lambda>_. False),
     de_io = (\<lambda>_. quiet_env), de_cancel = (\<lambda>_. None)\<rparr>"

definition demo_directory :: "demo_remote \<Rightarrow> demo_remote delivery_world" where
  "demo_directory r = \<lparr>dw_state = None, dw_authority = None, dw_cancellation = None, dw_active = None,
     dw_runs = [], dw_history = None, dw_receipt = None, dw_remote = r,
     dw_mem = initial_state (rt_sha demo_rt) demo_batch, dw_log = [], dw_tick = 0\<rparr>"

lemmas demo_defs = demo_batch_def demo_outbox_def demo_profile_def demo_preflight_def demo_evidence_def
  demo_approval_def demo_operation_def demo_entry_def demo_snapshot_def demo_workspace_def demo_roles_def

lemma demo_parse [simp]: "rt_parse demo_rt ''t1'' = Some 1" "rt_parse demo_rt ''t9'' = Some 9"
  by (simp_all add: demo_rt_def)

lemma demo_names [simp]: "\<not> blank ''c''" "\<not> blank ''d''" "\<not> blank ''e''" "\<not> blank ''E''" "\<not> blank ''F''"
    "\<not> blank ''T''" "\<not> blank ''p''" "\<not> blank ''s''" "\<not> blank ''v''"
  by code_simp+

lemmas profile_defs = ValidateDeliveryProfile_def DeliveryProfileFromSnapshot_def allowed_roles_def
  relation_mappings_ok_def review_policy_ok_def map_get_def DeliveryProfileSchema_def

lemma demo_outbox_valid: "ValidateOutbox (rt_sha demo_rt) (op_ReviewOk demo_options) demo_outbox"
  by (simp add: demo_defs profile_defs ValidateOutbox_def validateProfileSnapshot_def
      operation_ok_def entry_operation_ok_def outboxOperationFingerprint_def
      dependencies_ok_def entry_operations_def entry_id_of_def demo_options_def Let_def)

lemma demo_delivery_profile_valid: "ValidateDeliveryProfile demo_profile"
  by (simp add: demo_defs profile_defs)

lemma demo_preflight_valid:
  "ValidatePreflight (rt_sha demo_rt) (op_ReviewOk demo_options) demo_preflight demo_outbox demo_profile = None"
proof -
  have "outboxCollectionSlugs demo_outbox = [''c'']"
    by (simp add: outboxCollectionSlugs_def demo_defs)
  then show ?thesis
    using demo_outbox_valid demo_delivery_profile_valid
    by (simp add: ValidatePreflight_def) (simp add: demo_defs profile_defs validatePreflightGateSet_def expected_gates_def
      validGovernanceMode_def Let_def)
qed

lemma demo_batch_valid:
  "validateApprovedBatch (rt_sha demo_rt) (rt_parse demo_rt) (op_ReviewOk demo_options) demo_batch = None"
  using demo_outbox_valid demo_delivery_profile_valid demo_preflight_valid
  by (simp add: validateApprovedBatch_def demo_batch_def Let_def)
     (simp add: demo_defs DeliveryPrivacyFingerprint_def DeliveryBatchFingerprint_def DeliveryProfileFromSnapshot_def
       OrderedDeliveryOperationFingerprints_def maximumApprovedAttemptsPerOperation_def)

section \<open>Running it\<close>

lemmas step_defs = bind_step_def return_step_def fail_step_def catch_step_def require_def modify_step_def gets_step_def
  os_step_def hook_step_def clock_step_def read_file_def write_file_def next_tick_def alive_def ask_def mutate_def
  put_state_def put_authority_def put_cancellation_def put_active_def put_history_def put_receipt_def put_run_def
  put_remote_def set_mem_def update_mem_def remove_active_def note_event_def log_event_def
lemmas store_defs = loadApprovedState_def loadApprovedAuthority_def loadCancellation_def sealApprovedAuthority_def
  writeApprovedState_def seal_mem_def initializeApprovedState_def refreshApprovedCancellation_def
  startApprovedRun_def loadApprovedHistory_def sealInterruptedApprovedRun_def finishApprovedRun_def sealApprovedRun_def
  buildApprovedReceipt_def

lemma demo_env_simps [simp]: "de_crash demo_env = 1000" "de_clock demo_env t = 2" "de_fails demo_env t = False"
  "de_hooks demo_env t = False" "de_io demo_env t = quiet_env" "de_cancel demo_env t = None"
  by (simp_all add: demo_env_def)
lemma WriteFile_new [simp]: "WriteFile quiet_env True data None = (Some data, None)"
  by (simp add: WriteFile_def quiet_env_def)
lemma demo_fields [simp]: "ab_Approval demo_batch = demo_approval" "ab_Evidence demo_batch = demo_evidence"
  "ab_Outbox demo_batch = demo_outbox" "operations demo_outbox = [demo_operation]" "ab_Profile demo_batch = demo_profile"
  "ab_Preflight demo_batch = demo_preflight" "da_ApprovedAt demo_approval = ''t1''" "da_ExpiresAt demo_approval = ''t9''"
  "da_MaximumDestinationWrites demo_approval = 1" "da_MaximumMutationAttempts demo_approval = 2" "da_Fingerprint demo_approval = hx"
  by (simp_all add: demo_batch_def demo_approval_def demo_outbox_def)
lemma same_document_refl [simp]: "same_document f a a" by (simp add: same_document_def)
lemma state_hash_demo [simp]: "state_hash (rt_sha demo_rt) s = hx" "run_hash demo_rt r = hx" "history_hash demo_rt h = hx"
  by (simp_all add: state_hash_def run_hash_def history_hash_def)



lemma demo_verifier [simp]: "op_Verifier demo_options = Some (\<lambda>_ r. (r, Inr ()))" by (simp add: demo_options_def)

lemmas run_defs = DeliverApproved_def runApprovedDelivery_def open_state_def establish_authority_def verify_human_def
  approvalValidAt_def new_run_def delivering_def Let_def run_operations_def
lemmas loop_defs =
  deliver_operation_def operation_at_def reconcileApprovedOperation_def reconcile_entry_def not_observed_def
  after_reconciliation_def write_operation_def reserve_under_lock_def ordering_lock_def reserveApprovedAttempt_def
  mutate_and_settle_def mutateApprovedOperation_def confirm_def acknowledge_def mem_status_def loop_outcome_def
  finish_run_def


lemma demo_live [simp]: "validateApprovedLivePreconditions demo_rt demo_env demo_transport demo_batch w =
  (w\<lparr>dw_tick := dw_tick w + 3\<rparr>, Inr ())"
proof -
  have "outboxCollectionSlugs demo_outbox = [''c'']"
    by (simp add: outboxCollectionSlugs_def demo_operation_def demo_entry_def)
  moreover have "validateOutboxCollectionContract demo_outbox ''c'' \<lparr>cc_Found = True, cc_Slug = ''c'', cc_Fields = []\<rparr>"
    by (simp add: validateOutboxCollectionContract_def demo_operation_def demo_entry_def entry_data_ok_def json_fields_def)
  moreover have "slice_list (pa_CollectionContracts demo_preflight) = [(''c'', hx)]" by (simp add: demo_preflight_def)
  moreover have "checkCapability demo_workspace demo_profile = None"
    by (simp add: checkCapability_def demo_workspace_def demo_profile_def demo_snapshot_def DeliveryProfileFromSnapshot_def validGovernanceMode_def)
  ultimately show ?thesis
    by (cases w) (simp add: validateApprovedLivePreconditions_def validateLiveCollectionContracts_def step_defs demo_transport_def numeral_3_eq_3)
qed

lemma demo_operation_fields [simp]: "oo_Kind demo_operation = ''entry''" "oo_Entry demo_operation = Some demo_entry"
 by (simp_all add: demo_operation_def)

lemma demo_get [simp]: "tr_GetEntry demo_transport k r = (r, Inr (case r of None \<Rightarrow> missing_entry | Some q \<Rightarrow> demo_readback q))"
  "tr_SearchEntries demo_transport n c r = (r, Inr [])" "tr_CreateEntry demo_transport q r = (Some q, None)"
  by (simp_all add: demo_transport_def)
lemma demo_found [simp]: "er_Found missing_entry = False" "er_Found (demo_readback q) = True"
   "compareEntry (demo_readback (entry_request demo_entry)) demo_entry"
  by (simp_all add: missing_entry_def demo_readback_def compareEntry_def entry_request_def demo_entry_def canonical_equal_def)
lemma demo_initial [simp]: "ds_Operations (initial_state sha demo_batch) = [initial_operation demo_operation]"
  by (simp add: initial_state_def)
lemma demo_mutation [simp]: "mutation_of demo_operation = Some (MutEntry (entry_request demo_entry))"
  by (simp add: mutation_of_def)

lemmas mark_defs = reserve_write_def add_attempt_def update_operation_def new_attempt_def
  recordApprovedMutationResult_def recorded_attempt_def update_latest_def
  markApprovedAttemptAcknowledged_def set_status_def

text \<open>The first delivery looks for the entry, creates it, and sees it.\<close>

lemma demo_delivered:
  "\<exists>w receipt. DeliverApproved demo_rt demo_env demo_options (Some demo_transport) demo_batch
      (demo_directory None) = (w, Inr (receipt, None)) \<and>
    dw_log w = [Absent 0, Mutation 0 (MutEntry (entry_request demo_entry)), Confirmed 0] \<and>
    dw_remote w = Some (entry_request demo_entry) \<and> rc_CancellationFingerprint receipt = '''' \<and>
    rc_Status receipt = ''completed''"
  by (simp add: run_defs demo_batch_valid step_defs store_defs demo_directory_def initial_state_def
      loop_defs mark_defs empty_history_def initial_operation_def send_def approvedReceiptValue_def
      numeral_3_eq_3)

end
