(* ===== verification/PB_Delivery_Properties.thy ===== *)
theory PB_Delivery_Properties
  imports PB_Delivery_Ledger PB_Delivery_Demo
begin

text \<open>
  What any sequence of \<open>DeliverApproved\<close>, \<open>ReconcileApproved\<close> and \<open>CancelApproved\<close> does to the
  destination, under arbitrary failures, crashes and answers: three interpretations of
  \<open>delivery_run\<close> (the ledger, the cancelled directory, the read-only run) and the properties.
\<close>

section \<open>Commands\<close>

datatype 'r delivery_command =
    Deliver delivery_env "'r delivery_options" "'r transport option" approved_batch
  | Reconcile delivery_env "'r delivery_options" "'r transport option" approved_batch
  | Cancel delivery_env "string \<times> string"

primrec run_command :: "runtime \<Rightarrow> 'r delivery_command \<Rightarrow> 'r delivery_world \<Rightarrow> 'r delivery_world" where
  "run_command rt (Deliver env opts tr b) w = fst (DeliverApproved rt env opts tr b w)"
| "run_command rt (Reconcile env opts tr b) w = fst (ReconcileApproved rt env opts tr b w)"
| "run_command rt (Cancel env ref) w = fst (CancelApproved rt env ref w)"

definition run_commands :: "runtime \<Rightarrow> 'r delivery_command list \<Rightarrow> 'r delivery_world \<Rightarrow> 'r delivery_world" where
  "run_commands rt cs w = fold (run_command rt) cs w"

primrec for_batch :: "approved_batch \<Rightarrow> 'r delivery_command \<Rightarrow> bool" where
  "for_batch b (Deliver env opts tr b') = (b' = b)"
| "for_batch b (Reconcile env opts tr b') = (b' = b)"
| "for_batch b (Cancel env ref) = True"

text \<open>The destination gives every relation an identity.\<close>

primrec names_relations :: "'r delivery_command \<Rightarrow> bool" where
  "names_relations (Deliver env opts tr b) = (case tr of None \<Rightarrow> True | Some tr \<Rightarrow> honest_transport tr)"
| "names_relations (Reconcile env opts tr b) = (case tr of None \<Rightarrow> True | Some tr \<Rightarrow> honest_transport tr)"
| "names_relations (Cancel env ref) = True"

primrec reads_only :: "'r delivery_command \<Rightarrow> bool" where
  "reads_only (Deliver env opts tr b) = False"
| "reads_only (Reconcile env opts tr b) = True"
| "reads_only (Cancel env ref) = True"

definition no_delivery_yet :: "'r delivery_world \<Rightarrow> bool" where
  "no_delivery_yet w \<longleftrightarrow> dw_state w = None \<and> dw_log w = []"

lemma fold_invariant:
  assumes "\<And>c w. c \<in> set cs \<Longrightarrow> D w \<Longrightarrow> D (run_command rt c w)" and "D w"
  shows "D (run_commands rt cs w)"
  using assms unfolding run_commands_def by (induction cs arbitrary: w) auto

section \<open>Interpretations\<close>

interpretation ledger_slots: slot_frame "ledger h rt b" for h :: bool and rt :: runtime and b :: approved_batch
  by (rule slot_frame_ledger)

interpretation ledger_run: delivery_run "in_run (h \<and> trusted rt b tr) rt b" rt "h \<and> trusted rt b tr"
    "ledger (h \<and> trusted rt b tr) rt b" "\<lambda>i w. in_run (h \<and> trusted rt b tr) rt b w \<and> saw_absent env i w"
    "\<lambda>_. in_run (h \<and> trusted rt b tr) rt b" "\<lambda>i w. (in_run (h \<and> trusted rt b tr) rt b w \<and> saw_absent env i w) \<and> has_credit env b w" env b tr allow
  for h :: bool and rt :: runtime and b :: approved_batch and tr :: "'r transport"
    and env :: delivery_env and allow :: bool
  by (rule delivery_run_ledger)

definition stopped_at :: "runtime \<Rightarrow> int \<Rightarrow> 'r delivery_world \<Rightarrow> bool" where
  "stopped_at rt k w \<longleftrightarrow> (\<forall>x. rt_sha rt x \<noteq> '''') \<and> dw_cancellation w \<noteq> None \<and> mutations w = k"

definition mutated :: "int \<Rightarrow> 'r delivery_world \<Rightarrow> bool" where
  "mutated k w \<longleftrightarrow> mutations w = k"

lemma run_frame_stopped: "run_frame (stopped_at rt k) rt False"
proof (intro run_frame.intro run_frame_axioms.intro)
  show "slot_frame (stopped_at rt k :: 'r delivery_world \<Rightarrow> bool)"
    by (rule slot_frame_fields) (simp add: stopped_at_def mutations_def)
qed (simp_all add: stopped_at_def mutations_def set_mem_def put_state_def)

lemma run_frame_mutated: "run_frame (mutated k) rt False"
proof (intro run_frame.intro run_frame_axioms.intro)
  show "slot_frame (mutated k :: 'r delivery_world \<Rightarrow> bool)"
    by (rule slot_frame_fields) (simp add: mutated_def mutations_def)
qed (simp_all add: mutated_def mutations_def set_mem_def put_state_def)

interpretation stopped: run_frame "stopped_at rt k" rt False for rt :: runtime and k :: int
  by (rule run_frame_stopped)

interpretation quiet: run_frame "mutated k" rt False for rt :: runtime and k :: int
  by (rule run_frame_mutated)

lemma triple_refresh_stopped:
  "triple (stopped_at rt k) (refreshApprovedCancellation rt env)
     (\<lambda>_ w. stopped_at rt k w \<and> ds_CancellationFingerprint (dw_mem w) \<noteq> '''') (stopped_at rt k)"
proof (rule tripleI)
  show "stopped_at rt k w'" if "stopped_at rt k w" "refreshApprovedCancellation rt env w = (w', Inl e)" for w w' e
    using keepsD [OF stopped.keeps_refresh that(1), of env] that(2) by simp
  show "stopped_at rt k w' \<and> ds_CancellationFingerprint (dw_mem w') \<noteq> ''''"
    if "stopped_at rt k w" "refreshApprovedCancellation rt env w = (w', Inr x)" for w w' x
    using keepsD [OF stopped.keeps_refresh that(1), of env] that
    by (auto simp: stopped_at_def refreshApprovedCancellation_def loadCancellation_def read_file_def
        bind_step_def gets_step_def require_def modify_step_def return_step_def fail_step_def set_mem_def
        next_tick_def cancellation_valid_def hash_value_def
        split: if_splits option.splits blob.splits)
qed

lemma triple_reserve_stopped:
  fixes env :: delivery_env
  shows "triple (stopped_at rt k) (reserve_under_lock rt env b n i)
    (\<lambda>r w. r \<noteq> None \<and> stopped_at rt k w) (stopped_at rt k)"
proof -
  have lock: "triple (stopped_at rt k) (catch_step (ordering_lock rt env)) (\<lambda>_. stopped_at rt k) (stopped_at rt k)"
    by (intro keeps_to_triple keeps_rules stopped.keeps_lock)
  have refreshed: "triple (stopped_at rt k) (catch_step (refreshApprovedCancellation rt env))
     (\<lambda>r w. stopped_at rt k w \<and> (r = Inr () \<longrightarrow> ds_CancellationFingerprint (dw_mem w) \<noteq> '''')) (stopped_at rt k)"
    by (rule triple_catch) (auto intro: triple_weaken [OF triple_refresh_stopped])
  have cancel: "triple (stopped_at rt k) (bind_step (mem_status ''cancelled'') (\<lambda>_.
      return_step (Some (FinishRun ''cancelled'' (Some ErrApprovedDeliveryCancelled)))))
     (\<lambda>r w. r \<noteq> None \<and> stopped_at rt k w) (stopped_at rt k)"
    by (rule triple_bind [OF keeps_to_triple [OF stopped.keeps_status]])
       (auto simp: allowed_statuses_def intro!: triple_return)
  have stop: "triple (\<lambda>w. stopped_at rt k w \<and> ds_CancellationFingerprint (dw_mem w) \<noteq> '''')
     (bind_step (gets_step dw_mem) (\<lambda>s. if ds_CancellationFingerprint s \<noteq> '''' then
       bind_step (mem_status ''cancelled'') (\<lambda>_.
       return_step (Some (FinishRun ''cancelled'' (Some ErrApprovedDeliveryCancelled)))) else K s))
     (\<lambda>r w. r \<noteq> None \<and> stopped_at rt k w) (stopped_at rt k)" for K
    using cancel by (auto simp: triple_def bind_gets)
  show ?thesis
    unfolding reserve_under_lock_def
    by (auto intro!: triple_bind [OF lock] triple_return triple_bind [OF refreshed] stop [THEN triple_weaken]
        split: sum.split)
qed

lemma delivery_run_stopped:
  "delivery_run (stopped_at rt k) rt False (stopped_at rt k) (\<lambda>_. stopped_at rt k)
    (\<lambda>_. stopped_at rt k) (\<lambda>_ _. False) env b tr allow"
proof (intro delivery_run.intro delivery_run_axioms.intro run_frame_stopped)
  show "slot_frame (stopped_at rt k :: 'a delivery_world \<Rightarrow> bool)" by (rule stopped.slot_frame_axioms)
  then show "slot_frame (stopped_at rt k :: 'a delivery_world \<Rightarrow> bool)" .
  show "slot_frame (\<lambda>_ :: 'a delivery_world. False)" by (simp add: slot_frame_def)
  show "triple (stopped_at rt k) (reserve_under_lock rt env b n i)
      (credited (\<lambda>_ _. False) (stopped_at rt k) i) (stopped_at rt k)" for i n
    by (rule triple_weaken [OF triple_reserve_stopped]) (auto simp: credited_def)
qed (auto simp: stopped_at_def mutations_def set_mem_def note_event_def log_event_def)

lemma delivery_run_quiet:
  "delivery_run (mutated k) rt False (mutated k) (\<lambda>_. mutated k) (\<lambda>_. mutated k) (\<lambda>_ _. False) env b tr False"
proof (intro delivery_run.intro delivery_run_axioms.intro run_frame_mutated)
  show "slot_frame (mutated k :: 'a delivery_world \<Rightarrow> bool)" by (rule quiet.slot_frame_axioms)
  then show "slot_frame (mutated k :: 'a delivery_world \<Rightarrow> bool)" .
  show "slot_frame (\<lambda>_ :: 'a delivery_world. False)" by (simp add: slot_frame_def)
qed (auto simp: mutated_def mutations_def set_mem_def note_event_def log_event_def)

interpretation stopped_run: delivery_run "stopped_at rt k" rt False "stopped_at rt k" "\<lambda>_. stopped_at rt k"
    "\<lambda>_. stopped_at rt k" "\<lambda>_ _. False" env b tr allow
  for rt :: runtime and k :: int and env :: delivery_env and b :: approved_batch
    and tr :: "'r transport" and allow :: bool
  by (rule delivery_run_stopped)

interpretation quiet_run: delivery_run "mutated k" rt False "mutated k" "\<lambda>_. mutated k"
    "\<lambda>_. mutated k" "\<lambda>_ _. False"
    env b tr False
  for rt :: runtime and k :: int and env :: delivery_env and b :: approved_batch and tr :: "'r transport"
  by (rule delivery_run_quiet)

section \<open>Commands keep the invariants\<close>

lemma run_without_transport [simp]: "runApprovedDelivery rt env opts None b allow w = (w, Inl e)
    \<longleftrightarrow> e = PbError ''missing Product Brain transport''"
  by (auto simp: runApprovedDelivery_def fail_step_def)

lemma no_transport_world: "fst (runApprovedDelivery rt env opts None b allow w) = w"
  by (simp add: runApprovedDelivery_def fail_step_def)

lemmas command_defs = DeliverApproved_def ReconcileApproved_def

lemma invalid_batch_world:
  "validateApprovedBatch (rt_sha rt) (rt_parse rt) (op_ReviewOk opts) b \<noteq> None \<Longrightarrow>
    fst (runApprovedDelivery rt env opts tr b allow w) = w"
  by (auto simp: runApprovedDelivery_def fail_step_def split: option.split)

lemma ledger_run_any:
  assumes "h \<Longrightarrow> trusted rt b tr" and "ledger h rt b w"
  shows "ledger h rt b (fst (runApprovedDelivery rt env opts (Some tr) b allow w))"
proof -
  have "h \<and> trusted rt b tr \<longleftrightarrow> h" using assms(1) by blast
  then show ?thesis
    using keepsD [OF ledger_run.keeps_delivery, of h rt b tr w env opts allow] assms(2) by simp
qed

lemma ledger_run_batch:
  assumes "h \<Longrightarrow> (\<forall>x. rt_sha rt x \<noteq> '''') \<and> (case tr of None \<Rightarrow> True | Some tr \<Rightarrow> honest_transport tr)"
    and "ledger h rt b w"
  shows "ledger h rt b (fst (runApprovedDelivery rt env opts tr b allow w))"
proof (cases tr)
  case None
  then show ?thesis using assms(2) by (simp add: no_transport_world)
next
  case (Some t)
  show ?thesis
  proof (cases "validateApprovedBatch (rt_sha rt) (rt_parse rt) (op_ReviewOk opts) b")
    case None
    then have "h \<Longrightarrow> trusted rt b t"
      using assms(1) valid_batch_entries Some by (auto simp: trusted_def)
    then show ?thesis unfolding Some by (rule ledger_run_any) (simp_all add: assms(2))
  next
    case (Some e)
    then show ?thesis using assms(2) by (simp add: invalid_batch_world)
  qed
qed

lemma ledger_commands:
  fixes w :: "'r delivery_world"
  assumes "\<forall>c\<in>set cs. for_batch b c" and "h \<Longrightarrow> (\<forall>x. rt_sha rt x \<noteq> '''') \<and> (\<forall>c\<in>set cs. names_relations c)"
    and "no_delivery_yet w"
  shows "ledger h rt b (run_commands rt cs w)"
proof (rule fold_invariant)
  show "ledger h rt b w"
    using assms(3) by (simp add: no_delivery_yet_def ledger_def guarded_def mutations_def)
  fix c and w :: "'r delivery_world" assume c: "c \<in> set cs" and w: "ledger h rt b w"
  have "for_batch b c" and "h \<Longrightarrow> (\<forall>x. rt_sha rt x \<noteq> '''') \<and> names_relations c"
    using assms(1,2) c by auto
  then show "ledger h rt b (run_command rt c w)"
    using keepsD [OF ledger_slots.keeps_cancel w]
    by (cases c) (auto simp: command_defs intro!: ledger_run_batch w)
qed

lemma stopped_commands:
  fixes w :: "'r delivery_world"
  assumes "stopped_at rt k w"
  shows "stopped_at rt k (run_commands rt cs w)"
proof (rule fold_invariant)
  show "stopped_at rt k w" by (rule assms)
  fix c and w :: "'r delivery_world" assume w: "stopped_at rt k w"
  have "stopped_at rt k (fst (runApprovedDelivery rt env opts tr b allow w))" for env opts tr b allow
    using keepsD [OF stopped_run.keeps_delivery w] w by (cases tr) (simp_all add: no_transport_world)
  then show "stopped_at rt k (run_command rt c w)"
    using keepsD [OF stopped.keeps_cancel w] by (cases c) (simp_all add: command_defs)
qed

lemma quiet_commands:
  fixes w :: "'r delivery_world"
  assumes "\<forall>c\<in>set cs. reads_only c" and "mutated k w"
  shows "mutated k (run_commands rt cs w)"
proof (rule fold_invariant)
  show "mutated k w" by (rule assms(2))
  fix c and w :: "'r delivery_world" assume c: "c \<in> set cs" and w: "mutated k w"
  have "mutated k (fst (runApprovedDelivery rt env opts tr b False w))" for env opts tr b
    using keepsD [OF quiet_run.keeps_delivery w] w by (cases tr) (simp_all add: no_transport_world)
  then show "mutated k (run_command rt c w)"
    using keepsD [OF quiet.keeps_cancel w] assms(1) c by (cases c) (auto simp: command_defs)
qed


section \<open>Properties\<close>

text \<open>C26: Start with a directory in which no delivery has begun and let any commands run
  on it for one approved batch: deliveries, reconciliations and cancellations, with any failing call,
  any answers of the destination, and processes that die at any point and are started again. The
  calls that mutate the destination are never more than the mutation attempts that were approved, and
  each of them is accounted for in the state on disk.\<close>

theorem approved_mutations_bounded:
  assumes "no_delivery_yet w" and "\<forall>c\<in>set cs. for_batch b c"
  shows "mutations (run_commands rt cs w) \<le> max 0 (da_MaximumMutationAttempts (ab_Approval b)) \<and>
    (\<forall>s. dw_state (run_commands rt cs w) = Some (Doc s) \<longrightarrow>
       mutations (run_commands rt cs w) \<le> ds_MutationAttempts s)"
  using ledger_commands [where h = False and rt = rt, OF assms(2) _ assms(1)]
  by (auto simp: ledger_def within_budget_def split: option.splits blob.splits)

abbreviation demo_command :: "demo_remote delivery_command" where
  "demo_command \<equiv> Deliver demo_env demo_options (Some demo_transport) demo_batch"

lemma demo_commands: "no_delivery_yet (demo_directory None)" "\<forall>c\<in>set [demo_command]. for_batch demo_batch c"
  by (simp_all add: no_delivery_yet_def demo_directory_def)

lemma demo_log:
  "dw_log (run_commands demo_rt [demo_command] (demo_directory None)) =
     [Absent 0, Mutation 0 (MutEntry (entry_request demo_entry)), Confirmed 0]"
  using demo_delivered by (auto simp: run_commands_def)

theorem approved_mutations_bounded_witness:
  "mutations (run_commands demo_rt [demo_command] (demo_directory None)) = 1 \<and>
    mutations (run_commands demo_rt [demo_command] (demo_directory None)) \<le> 2"
  using approved_mutations_bounded [OF demo_commands, of demo_rt]
  by (simp add: demo_log mutations_def)

text \<open>C27: Every call that mutates the destination is the request of an operation of the batch,
  and comes right after a reconciliation in which the destination did not show that operation: nothing
  is created twice without having looked in between.\<close>

theorem mutation_after_absence:
  assumes "no_delivery_yet w" and "\<forall>c\<in>set cs. for_batch b c"
    and "k < length (dw_log (run_commands rt cs w))" and "dw_log (run_commands rt cs w) ! k = Mutation i m"
  shows "0 < k \<and> dw_log (run_commands rt cs w) ! (k - 1) = Absent i \<and>
    i < length (operations (ab_Outbox b)) \<and> mutation_of (operations (ab_Outbox b) ! i) = Some m"
  using ledger_commands [where h = False and rt = rt, OF assms(2) _ assms(1)] assms(3,4)
  by (simp add: ledger_def guarded_def)

theorem mutation_after_absence_witness:
  "dw_log (run_commands demo_rt [demo_command] (demo_directory None)) ! 1 =
      Mutation 0 (MutEntry (entry_request demo_entry)) \<and>
    dw_log (run_commands demo_rt [demo_command] (demo_directory None)) ! 0 = Absent 0"
  using mutation_after_absence [OF demo_commands, of 1 demo_rt 0 "MutEntry (entry_request demo_entry)"]
  by (simp add: demo_log)

text \<open>C28: Every state that the commands leave on disk passes the validation it will meet when it is
  loaded, if the hash is never empty and the destination gives every relation an identity.\<close>

theorem stored_state_valid:
  assumes "no_delivery_yet w" and "\<forall>c\<in>set cs. for_batch b c \<and> names_relations c"
    and "\<forall>x. rt_sha rt x \<noteq> ''''"
  shows "dw_state (run_commands rt cs w) = None \<or>
    (\<exists>s. dw_state (run_commands rt cs w) = Some (Doc s) \<and> validateApprovedState (rt_sha rt) s)"
  using ledger_commands [OF _ _ assms(1), of cs b True rt] assms(2,3)
  by (auto simp: ledger_def split: option.splits blob.splits)

theorem stored_state_valid_witness:
  "\<exists>w. w = run_commands demo_rt [demo_command] (demo_directory None) \<and>
    (dw_state w = None \<or> (\<exists>s. dw_state w = Some (Doc s) \<and> validateApprovedState (rt_sha demo_rt) s))"
  using stored_state_valid [OF demo_commands(1), of "[demo_command]" demo_batch demo_rt]
  by (simp add: demo_transport_def honest_transport_def demo_rt_def)

lemma cancelled_slot:
  "triple (\<lambda>w. mutations w = k) (CancelApproved rt env ref)
     (\<lambda>_ w. dw_cancellation w \<noteq> None \<and> mutations w = k) (\<lambda>_. True)"
proof (rule tripleI)
  fix w w' :: "'r delivery_world" and c
  assume w: "mutations w = k" and run: "CancelApproved rt env ref w = (w', Inr c)"
  have "mutations w' = k"
    using keepsD [OF quiet.keeps_cancel, of k w rt env ref] w run by (simp add: mutated_def)
  moreover have "dw_cancellation w' \<noteq> None"
    using run
    by (auto simp: CancelApproved_def Let_def bind_step_def os_step_def require_def loadCancellation_def
        loadApprovedState_def read_file_def catch_step_def clock_step_def write_file_def return_step_def
        fail_step_def next_tick_def put_cancellation_def WriteFile_def
        split: if_splits option.splits blob.splits prod.splits sum.splits)
  ultimately show "dw_cancellation w' \<noteq> None \<and> mutations w' = k" by simp
qed simp

text \<open>C29: Once \<open>CancelApproved\<close> has answered with a receipt, no command for any batch in that
  directory mutates the destination again, whatever fails and whatever the destination answers (the
  hash is never empty, since an empty fingerprint means "not cancelled").\<close>

theorem cancel_stops_mutations:
  assumes "\<forall>x. rt_sha rt x \<noteq> ''''" and "CancelApproved rt env ref w = (w', Inr receipt)"
  shows "mutations (run_commands rt cs w') = mutations w"
proof -
  have "stopped_at rt (mutations w) w'"
    using triple_ok [OF cancelled_slot refl assms(2)] assms(1) by (simp add: stopped_at_def)
  from stopped_commands [OF this] show ?thesis by (simp add: stopped_at_def)
qed

theorem cancel_stops_mutations_witness:
  "\<exists>w' receipt. CancelApproved demo_rt demo_env (hx, hx) (demo_directory None) = (w', Inr receipt) \<and>
    mutations (run_commands demo_rt [demo_command] w') = 0"
proof -
  obtain w' receipt where cancel: "CancelApproved demo_rt demo_env (hx, hx) (demo_directory None) = (w', Inr receipt)"
    by (simp add: CancelApproved_def step_defs store_defs demo_directory_def Let_def)
  have "\<forall>x. rt_sha demo_rt x \<noteq> ''''" by (simp add: demo_rt_def)
  from cancel_stops_mutations [OF this cancel] cancel show ?thesis
    by (auto simp: demo_directory_def mutations_def)
qed

text \<open>
  \<open>ReconcileApproved\<close> never mutates the destination, and neither does \<open>CancelApproved\<close>.\<close>

theorem reconcile_reads_only:
  assumes "\<forall>c\<in>set cs. reads_only c"
  shows "mutations (run_commands rt cs w) = mutations w"
  using quiet_commands [OF assms, of "mutations w" w rt] by (simp add: mutated_def)

theorem reconcile_reads_only_witness:
  "mutations (run_commands demo_rt [Reconcile demo_env demo_options (Some demo_transport) demo_batch]
     (demo_directory None)) = 0"
  using reconcile_reads_only [of "[Reconcile demo_env demo_options (Some demo_transport) demo_batch]" demo_rt
      "demo_directory None"]
  by (simp add: mutations_def) (simp add: demo_directory_def)

end
