(* ===== verification/PB_Delivery_Outcome.thy ===== *)
theory PB_Delivery_Outcome
  imports PB_Delivery_Properties
begin

text \<open>
  What a delivery that reports success has done: in that very run every operation of the batch was
  read back from the destination, exactly as approved. The invariant \<open>observed\<close> is another
  interpretation of \<open>delivery_run\<close>.
\<close>

section \<open>Invariants that do not read the state in memory\<close>

locale mem_frame = run_frame I rt h for I :: "'r delivery_world \<Rightarrow> bool" and rt h +
  assumes any_mem: "I w \<Longrightarrow> I (set_mem s w)"
begin

lemma keeps_any_update: "keeps I (modify_step (update_mem f))"
  by (rule keeps_modify) (simp add: update_mem_def any_mem)

lemma keeps_reserve_attempt: "keeps I (reserveApprovedAttempt rt env i n now)"
  unfolding reserveApprovedAttempt_def by (intro keeps_rules keeps_any_update keeps_write_state)

lemma keeps_reserve_under_lock: "keeps I (reserve_under_lock rt env b n i)"
  unfolding reserve_under_lock_def mem_status_def
  by (auto intro!: store_rules keeps_any_update keeps_lock keeps_refresh keeps_reserve_attempt
      split: sum.split option.split)

end

definition observed :: "delivery_env \<Rightarrow> nat \<Rightarrow> nat set \<Rightarrow> 'r delivery_world \<Rightarrow> bool" where
  "observed env k X w \<longleftrightarrow> k \<le> length (dw_log w) \<and>
     (alive env w \<longrightarrow> (\<forall>j\<in>X. Confirmed j \<in> set (drop k (dw_log w))))"

lemma observed_log: "observed env k X w \<Longrightarrow> observed env k X (log_event e w)"
  by (auto simp: observed_def log_event_def alive_def)

lemma observed_confirmed:
  "observed env k X w \<Longrightarrow> observed env k (insert i X) (note_event env (Confirmed i) w)"
  by (auto simp: observed_def note_event_def log_event_def alive_def)

lemma mem_frame_observed: "mem_frame (observed env k X) rt False"
proof (intro mem_frame.intro mem_frame_axioms.intro run_frame.intro run_frame_axioms.intro)
  show "slot_frame (observed env k X :: 'r delivery_world \<Rightarrow> bool)"
    by (rule slot_frame_fields) (auto simp: observed_def alive_def)
qed (simp_all add: observed_def alive_def set_mem_def put_state_def)

interpretation observed: mem_frame "observed env k X" rt False
  for env :: delivery_env and k :: nat and X :: "nat set" and rt :: runtime
  by (rule mem_frame_observed)

lemma delivery_run_observed:
  "delivery_run (observed env k X) rt False (observed env k X) (\<lambda>_. observed env k X)
    (\<lambda>i. observed env k (insert i X)) (\<lambda>_. observed env k X) env b tr allow"
proof (intro delivery_run.intro delivery_run_axioms.intro)
  show "run_frame (observed env k X :: 'a delivery_world \<Rightarrow> bool) rt False"
    by (rule observed.run_frame_axioms)
  show "slot_frame (observed env k X :: 'a delivery_world \<Rightarrow> bool)" by (rule observed.slot_frame_axioms)
  then show "slot_frame (observed env k X :: 'a delivery_world \<Rightarrow> bool)" .
  then show "slot_frame (observed env k X :: 'a delivery_world \<Rightarrow> bool)" .
  show "triple (observed env k X) (reserve_under_lock rt env b n i)
      (credited (\<lambda>_. observed env k X) (observed env k X) i) (observed env k X)" for n i
    by (rule triple_weaken [OF keeps_to_triple [OF observed.keeps_reserve_under_lock]])
       (auto simp: credited_def split: option.split)
  show "observed env k X (note_event env (Absent i) w)" if "observed env k X w" for i and w :: "'a delivery_world"
    using that by (simp add: note_event_def observed_log)
  show "observed env k X (log_event (Mutation i m) (put_remote r w))" if "observed env k X w"
    for i m r and w :: "'a delivery_world"
    by (intro observed_log observed.remote that)
qed (auto simp: observed.any_mem observed_confirmed, auto simp: observed_def)

interpretation observed_run: delivery_run "observed env k X" rt False "observed env k X" "\<lambda>_. observed env k X"
    "\<lambda>i. observed env k (insert i X)" "\<lambda>_. observed env k X" env b tr allow
  for env :: delivery_env and k :: nat and X :: "nat set" and rt :: runtime and b :: approved_batch
    and tr :: "'r transport" and allow :: bool
  by (rule delivery_run_observed)

section \<open>Passing an operation means to have read it back\<close>

definition passed :: "delivery_env \<Rightarrow> nat \<Rightarrow> nat set \<Rightarrow> nat set \<Rightarrow> loop_end \<Rightarrow> 'r delivery_world \<Rightarrow> bool" where
  "passed env k X Y e w \<longleftrightarrow>
     (case e of NextOperation \<Rightarrow> observed env k Y w | FinishRun outcome cause \<Rightarrow> cause \<noteq> None \<and> observed env k X w)"

lemma observed_mono: "observed env k Y w \<Longrightarrow> X \<subseteq> Y \<Longrightarrow> observed env k X w"
  by (auto simp: observed_def)

lemma triple_confirm:
  "triple (observed env k Y) (confirm rt env i) (\<lambda>e w. e = NextOperation \<and> observed env k Y w) (observed env k Y)"
  unfolding confirm_def
  by (rule triple_bind [OF keeps_to_triple [OF observed.keeps_any_update]],
      rule triple_bind [OF keeps_to_triple [OF observed.keeps_write_state]]) (simp add: triple_return)

lemma triple_finish_with:
  "triple (observed env k X) (finish_with outcome e) (passed env k X Y) E"
  unfolding finish_with_def by (simp add: triple_return passed_def)

text \<open>A reservation that does not succeed ends the run with a cause.\<close>

definition stopping :: "loop_end option \<Rightarrow> bool" where
  "stopping r \<longleftrightarrow> (case r of Some (FinishRun outcome None) \<Rightarrow> False | Some NextOperation \<Rightarrow> False | _ \<Rightarrow> True)"

lemma triple_stop:
  assumes "keeps P m"
  shows "triple P (bind_step m (\<lambda>_. return_step (Some (FinishRun outcome (Some e)))))
    (\<lambda>r w. stopping r \<and> P w) P"
  by (rule triple_bind [OF keeps_to_triple [OF assms]]) (simp add: triple_return stopping_def)

lemma triple_reserve_stopping:
  "triple (observed env k X) (reserve_under_lock rt env b n i)
     (\<lambda>r w. stopping r \<and> observed env k X w) (observed env k X)"
proof -
  note steps = triple_bind [OF keeps_to_triple [OF keeps_catch]] triple_bind [OF keeps_to_triple [OF keeps_simple(4)]]
    triple_bind [OF keeps_to_triple [OF observed.keeps_os(3)]]
  have stop: "triple (observed env k X) (return_step (Some (FinishRun outcome (Some e))))
      (\<lambda>r w. stopping r \<and> observed env k X w) (observed env k X)" for outcome e
    by (simp add: triple_return stopping_def)
  have go: "triple (observed env k X) (return_step None)
      (\<lambda>r w. stopping r \<and> observed env k X w) (observed env k X)"
    by (simp add: triple_return stopping_def)
  show ?thesis
    unfolding reserve_under_lock_def mem_status_def
    by (auto intro!: steps triple_stop stop go observed.keeps_lock observed.keeps_refresh
        observed.keeps_reserve_attempt observed.keeps_any_update split: sum.split option.split)
qed

lemma triple_observe:
  fixes b :: approved_batch
  assumes "x \<in> set (operations (ab_Outbox b))"
  shows "triple (observed env k X) (catch_step (reconcileApprovedOperation rt env tr i x))
    (\<lambda>r. observed env k (if r = Inr True then insert i X else X)) E"
  by (rule triple_catch, rule triple_weaken [OF observed_run.triple_reconcile [OF assms]])
     (auto split: if_splits)

lemma triple_confirm_passed:
  "triple (observed env k (insert i X)) (confirm rt env i) (passed env k X (insert i X)) (observed env k X)"
  by (rule triple_weaken [OF triple_confirm [where Y = "insert i X"]]) (auto simp: passed_def intro: observed_mono)

lemma triple_settle_observed:
  fixes b :: approved_batch
  assumes "i < length (operations (ab_Outbox b))" and "x = operations (ab_Outbox b) ! i"
  shows "triple (observed env k X) (mutate_and_settle rt env tr i x) (passed env k X (insert i X)) (observed env k X)"
proof -
  have x: "x \<in> set (operations (ab_Outbox b))" using assms by simp
  note keep = triple_bind [OF keeps_to_triple]
  have tail: "triple (observed env k (if r = Inr True then insert i X else X))
     (case r of
       Inl e \<Rightarrow>
         bind_step (gets_step (operation_at i)) (\<lambda>p.
         if os_State p = ''blocked'' then bind_step (mem_status ''blocked'') (\<lambda>_. finish_with ''failed'' e)
         else
           bind_step (modify_step (update_mem (set_status ''ambiguous'' \<circ> markApprovedAttemptAmbiguous i))) (\<lambda>_.
           finish_with ''ambiguous'' ErrApprovedDeliveryAmbiguous))
     | Inr True \<Rightarrow> confirm rt env i
     | Inr False \<Rightarrow>
         bind_step (modify_step (update_mem (markApprovedAttemptNotObserved i))) (\<lambda>_.
         case err of
           Some e \<Rightarrow> bind_step (mem_status ''approved'') (\<lambda>_. finish_with ''failed'' e)
         | None \<Rightarrow> bind_step (mem_status ''ambiguous'') (\<lambda>_.
             finish_with ''ambiguous'' ErrApprovedDeliveryAmbiguous)))
     (passed env k X (insert i X)) (observed env k X)" for r :: "(pb_error, bool) result" and err
    unfolding mem_status_def
    by (cases "r = Inr True")
       (auto intro!: triple_confirm_passed triple_finish_with keep [OF keeps_simple(4)]
         keep [OF observed.keeps_any_update] split: sum.split bool.split option.split)
  show ?thesis
    unfolding mutate_and_settle_def
    by (intro keep [OF observed.keeps_os(2)] triple_bind [OF observed_run.triple_mutate [OF assms]]
        keep [OF observed.keeps_any_update] keep [OF observed.keeps_write_state]
        triple_bind [OF triple_observe [OF x]] tail)
qed

lemma triple_write_observed:
  fixes b :: approved_batch
  assumes "i < length (operations (ab_Outbox b))" and "x = operations (ab_Outbox b) ! i"
  shows "triple (observed env k X) (write_operation rt env tr b n i x) (passed env k X (insert i X)) (observed env k X)"
  unfolding write_operation_def
proof (rule triple_bind [OF keeps_to_triple [OF observed.keeps_os(2)]], rule triple_bind [OF triple_reserve_stopping])
  fix r :: "loop_end option"
  have "triple (\<lambda>w. stopping r \<and> observed env k X w) (return_step e)
      (passed env k X (insert i X)) (observed env k X)" if "r = Some e" for e
    by (rule triple_return) (auto simp: that stopping_def passed_def split: loop_end.splits option.splits)
  then show "triple (\<lambda>w. stopping r \<and> observed env k X w)
      (case r of Some stop \<Rightarrow> return_step stop | None \<Rightarrow> mutate_and_settle rt env tr i x)
      (passed env k X (insert i X)) (observed env k X)"
    by (auto intro: triple_weaken [OF triple_settle_observed [OF assms]] split: option.split)
qed

lemma triple_confirm_any:
  "Y \<subseteq> insert i X \<Longrightarrow>
    triple (observed env k (insert i X)) (confirm rt env i) (passed env k X Y) (observed env k X)"
  by (rule triple_weaken [OF triple_confirm [where Y = "insert i X"]])
     (auto simp: passed_def intro: observed_mono)

lemma triple_deliver_observed:
  fixes b :: approved_batch and cancelled :: bool
  assumes "i < length (operations (ab_Outbox b))" and "x = operations (ab_Outbox b) ! i"
  defines "Y \<equiv> (\<lambda>X. if cancelled then X else insert i X)"
  shows "triple (observed env k X) (deliver_operation rt env tr b True cancelled n i x)
    (passed env k X (Y X)) (observed env k X)"
proof -
  have x: "x \<in> set (operations (ab_Outbox b))" using assms by simp
  note keep = triple_bind [OF keeps_to_triple]
  have skip: "triple (observed env k X) (return_step NextOperation) (passed env k X X) E" for E
    by (simp add: triple_return passed_def)
  have after: "triple (observed env k (if r = Inr True then insert i X else X))
      (after_reconciliation rt env tr b True cancelled n i x r p) (passed env k X (Y X)) (observed env k X)" for r p
    unfolding after_reconciliation_def mem_status_def Y_def
    by (cases "r = Inr True")
       (auto intro!: triple_confirm_any triple_finish_with triple_write_observed assms(1,2) skip
         keep [OF keeps_simple(1)] keep [OF observed.keeps_any_update] split: sum.split bool.split)
  have main: "triple (observed env k X) (bind_step (catch_step (reconcileApprovedOperation rt env tr i x)) (\<lambda>r.
      bind_step (gets_step (operation_at i)) (\<lambda>p. after_reconciliation rt env tr b True cancelled n i x r p)))
      (passed env k X (Y X)) (observed env k X)"
    by (rule triple_bind [OF triple_observe [OF x]], rule triple_bind [OF triple_gets after], assumption)
  have skipped: "triple (observed env k X) (return_step NextOperation) (passed env k X (Y X)) (observed env k X)"
    if cancelled using skip that by (simp add: Y_def)
  show ?thesis
    unfolding deliver_operation_def
    by (rule keep [OF keeps_simple(4)]) (auto intro!: main skipped)
qed

lemma triple_loop_observed:
  fixes b :: approved_batch and cancelled :: bool
  assumes "xs = drop i (operations (ab_Outbox b))"
  shows "triple (observed env k (if cancelled then {} else {..<i})) (deliver_loop rt env tr b True cancelled n i xs)
    (passed env k {} (if cancelled then {} else {..<length (operations (ab_Outbox b))})) (observed env k {})"
  using assms
proof (induction xs arbitrary: i)
  case Nil
  then have "{..<length (operations (ab_Outbox b))} \<subseteq> {..<i}" by auto
  then show ?case by (auto intro!: triple_return simp: passed_def intro: observed_mono)
next
  case (Cons x xs)
  let ?X = "if cancelled then {} else {..<i}"
  have i: "i < length (operations (ab_Outbox b))"
    using Cons.prems by (metis drop_eq_Nil linorder_not_le list.distinct(1))
  have x: "x = operations (ab_Outbox b) ! i" and xs: "xs = drop (Suc i) (operations (ab_Outbox b))"
    using Cons.prems Cons_nth_drop_Suc [OF i] by (metis list.inject)+
  have Y: "(if cancelled then ?X else insert i ?X) = (if cancelled then {} else {..<Suc i})"
    by (auto simp: lessThan_Suc)
  have first: "triple (observed env k ?X) (deliver_operation rt env tr b True cancelled n i x)
      (passed env k ?X (if cancelled then {} else {..<Suc i})) (observed env k {})"
    by (rule triple_weaken [OF triple_deliver_observed [OF i x, where X = ?X and cancelled = cancelled]])
       (auto simp: Y intro: observed_mono)
  have rest: "triple (passed env k ?X (if cancelled then {} else {..<Suc i}) e)
      (case e of NextOperation \<Rightarrow> deliver_loop rt env tr b True cancelled n (Suc i) xs
       | FinishRun outcome cause \<Rightarrow> return_step e)
      (passed env k {} (if cancelled then {} else {..<length (operations (ab_Outbox b))})) (observed env k {})" for e
  proof (cases e)
    case NextOperation
    have passed: "passed env k ?X Y NextOperation = observed env k Y" for Y
      by (simp add: passed_def fun_eq_iff)
    show ?thesis unfolding NextOperation passed loop_end.case by (rule Cons.IH [OF xs])
  next
    case (FinishRun outcome cause)
    then show ?thesis by (auto simp: passed_def intro!: triple_return intro: observed_mono)
  qed
  show ?case unfolding deliver_loop.simps by (rule triple_bind [OF first rest])
qed


section \<open>The whole run\<close>

text \<open>When the outcome has no cause: all operations were read back, or there is a cancellation.\<close>

definition settled :: "delivery_env \<Rightarrow> nat \<Rightarrow> approved_batch \<Rightarrow> 'r delivery_world \<Rightarrow> bool" where
  "settled env k b w \<longleftrightarrow> observed env k {..<length (operations (ab_Outbox b))} w \<or>
     ds_CancellationFingerprint (dw_mem w) \<noteq> ''''"

lemma slot_frame_settled: "slot_frame (settled env k b)"
  by (rule slot_frame_fields) (auto simp: settled_def observed_def alive_def)

lemma keeps_settled_write: "keeps (settled env k b) (writeApprovedState rt env')"
proof -
  have "settled env k b (next_tick (put_state x (seal_mem rt w))) \<and> settled env k b (next_tick (seal_mem rt w))"
    if "settled env k b w" for x w
    using that
    by (auto simp: settled_def observed_def alive_def next_tick_def put_state_def seal_mem_def set_mem_def)
  then show ?thesis
    by (auto simp: keeps_def writeApprovedState_def write_file_def Let_def split: prod.split)
qed

lemma triple_receipt_settled:
  "triple (settled env k b) (buildApprovedReceipt rt env h)
     (\<lambda>r w. rc_CancellationFingerprint r \<noteq> '''' \<or>
       (\<forall>j<length (operations (ab_Outbox b)). Confirmed j \<in> set (drop k (dw_log w)))) (\<lambda>_. True)"
proof (rule tripleI)
  fix w w' :: "'r delivery_world" and r
  assume w: "settled env k b w" and run: "buildApprovedReceipt rt env h w = (w', Inr r)"
  have "r = approvedReceiptValue rt (dw_mem w) h" and "alive env w" and "dw_log w' = dw_log w"
    using run
    by (auto simp: buildApprovedReceipt_def Let_def bind_step_def gets_step_def write_file_def return_step_def
        next_tick_def put_receipt_def split: if_splits prod.splits option.splits)
  then show "rc_CancellationFingerprint r \<noteq> '''' \<or>
      (\<forall>j<length (operations (ab_Outbox b)). Confirmed j \<in> set (drop k (dw_log w')))"
    using w by (auto simp: settled_def observed_def approvedReceiptValue_def Let_def)
qed simp

lemma triple_finish_settled:
  "triple (\<lambda>w. cause = None \<longrightarrow> settled env k b w) (finish_run rt env h run outcome cause)
     (\<lambda>(r, c) w. c = None \<longrightarrow> rc_CancellationFingerprint r \<noteq> '''' \<or>
       (\<forall>j<length (operations (ab_Outbox b)). Confirmed j \<in> set (drop k (dw_log w)))) (\<lambda>_. True)"
proof (cases cause)
  case None
  have weak: "triple (settled env k b) m (\<lambda>_. settled env k b) (\<lambda>_. True)" if "keeps (settled env k b) m"
    for m :: "('r, 'x) delivery_step"
    by (rule triple_weaken [OF keeps_to_triple [OF that]]) auto
  show ?thesis
    unfolding finish_run_def None
    by (simp, rule triple_bind [OF weak [OF keeps_settled_write]],
        rule triple_bind [OF weak [OF slot_frame.keeps_os(3) [OF slot_frame_settled]]],
        rule triple_bind [OF weak [OF slot_frame.keeps_finish [OF slot_frame_settled]]],
        rule triple_bind [OF triple_receipt_settled])
       (auto intro!: triple_return)
next
  case (Some e)
  have "snd x = Some e" if "finish_run rt env h run outcome cause w = (w', Inr x)" for w w' x
    using that Some
    by (auto simp: finish_run_def bind_step_def return_step_def split: prod.splits sum.splits)
  then show ?thesis by (intro tripleI) fastforce+
qed

lemma triple_loop_outcome:
  "triple (observed env k (if cancelled then {} else {..<length (operations (ab_Outbox b))})) (loop_outcome allow cancelled)
     (\<lambda>(outcome, cause) w. cause = None \<longrightarrow> settled env k b w) (\<lambda>_. True)"
proof -
  have status: "triple (observed env k X) (mem_status x) (\<lambda>_. observed env k X) (\<lambda>_. True)" for X x
    unfolding mem_status_def
    by (rule triple_weaken [OF keeps_to_triple [OF observed.keeps_any_update]]) auto
  have gets: "triple (observed env k X) (gets_step f) (\<lambda>_. observed env k X) (\<lambda>_. True)" for X and f :: "_ \<Rightarrow> 'y"
    by (rule triple_gets)
  show ?thesis
    unfolding loop_outcome_def
    by (auto intro!: triple_bind [OF gets] triple_bind [OF status] triple_return simp: settled_def)
qed

lemma triple_operations_settled:
  fixes b :: approved_batch
  shows "triple (observed env k {}) (run_operations rt env tr b True n)
    (\<lambda>(outcome, cause) w. cause = None \<longrightarrow> settled env k b w) (\<lambda>_. True)"
  unfolding run_operations_def Let_def
proof (rule triple_read)
  fix s :: delivery_state
  let ?c = "ds_CancellationFingerprint s \<noteq> ''''"
  let ?n = "length (operations (ab_Outbox b))"
  let ?Q = "\<lambda>(outcome, cause) w. cause = None \<longrightarrow> settled env k b w"
  have status: "triple (observed env k {}) (mem_status x) (\<lambda>_. observed env k {}) (\<lambda>_. True)" for x
    unfolding mem_status_def
    by (rule triple_weaken [OF keeps_to_triple [OF observed.keeps_any_update]]) auto
  have live: "triple (observed env k {}) (catch_step (validateApprovedLivePreconditions rt env tr b))
      (\<lambda>_. observed env k {}) (\<lambda>_. True)"
    by (rule triple_weaken [OF keeps_to_triple [OF keeps_catch [OF observed.keeps_live]]]) auto
  have loop: "triple (observed env k {}) (deliver_loop rt env tr b True ?c n 0 (operations (ab_Outbox b)))
      (passed env k {} (if ?c then {} else {..<?n})) (\<lambda>_. True)"
    by (rule triple_weaken [OF triple_loop_observed [where i = 0 and cancelled = ?c]]) auto
  have next_step: "triple (passed env k {} (if ?c then {} else {..<?n}) e)
      (case e of FinishRun outcome cause \<Rightarrow> return_step (outcome, cause) | NextOperation \<Rightarrow> loop_outcome True ?c)
      ?Q (\<lambda>_. True)" for e
  proof (cases e)
    case NextOperation
    have passed: "passed env k {} Y NextOperation = observed env k Y" for Y by (simp add: passed_def fun_eq_iff)
    show ?thesis unfolding NextOperation passed loop_end.case by (rule triple_loop_outcome)
  qed (auto intro!: triple_return simp: passed_def)
  have rest: "triple (observed env k {}) (bind_step (catch_step (validateApprovedLivePreconditions rt env tr b)) (\<lambda>live.
       case live of
         Inl e \<Rightarrow> return_step (''failed'', Some e)
       | Inr _ \<Rightarrow>
           bind_step (deliver_loop rt env tr b True ?c n 0 (operations (ab_Outbox b))) (\<lambda>e.
           case e of
             FinishRun outcome cause \<Rightarrow> return_step (outcome, cause)
           | NextOperation \<Rightarrow> loop_outcome True ?c))) ?Q (\<lambda>_. True)"
    by (auto intro!: triple_bind [OF live] triple_bind [OF loop next_step] triple_return split: sum.split)
  have early: "triple (\<lambda>w. observed env k {} w \<and> dw_mem w = s) (return_step (''completed'', None)) ?Q (\<lambda>_. True)" if ?c
    using that by (auto intro!: triple_return simp: settled_def)
  have cancel: "triple (observed env k {}) (bind_step (mem_status ''cancelled'') (\<lambda>_.
      return_step (''cancelled'', Some ErrApprovedDeliveryCancelled))) ?Q (\<lambda>_. True)"
    by (rule triple_bind [OF status]) (auto intro!: triple_return)
  show "triple (\<lambda>w. observed env k {} w \<and> dw_mem w = s)
     (if ?c \<and> ds_Status s = ''completed'' then return_step (''completed'', None)
      else if ?c \<and> \<not> needs_reconciliation s then
        bind_step (mem_status ''cancelled'') (\<lambda>_. return_step (''cancelled'', Some ErrApprovedDeliveryCancelled))
      else bind_step (catch_step (validateApprovedLivePreconditions rt env tr b)) (\<lambda>live.
       case live of
         Inl e \<Rightarrow> return_step (''failed'', Some e)
       | Inr _ \<Rightarrow>
           bind_step (deliver_loop rt env tr b True ?c n 0 (operations (ab_Outbox b))) (\<lambda>e.
           case e of
             FinishRun outcome cause \<Rightarrow> return_step (outcome, cause)
           | NextOperation \<Rightarrow> loop_outcome True ?c))) ?Q (\<lambda>_. True)"
  proof (intro triple_if)
    show "triple (\<lambda>w. observed env k {} w \<and> dw_mem w = s) (return_step (''completed'', None)) ?Q (\<lambda>_. True)"
      if "?c \<and> ds_Status s = ''completed''" using that by (intro early) simp
  qed (rule triple_weaken [OF cancel] triple_weaken [OF rest]; simp)+
qed


lemma triple_delivery_settled:
  "triple (observed env k {}) (runApprovedDelivery rt env opts tr b True)
     (\<lambda>(r, c) w. c = None \<longrightarrow> rc_CancellationFingerprint r \<noteq> '''' \<or>
       (\<forall>j<length (operations (ab_Outbox b)). Confirmed j \<in> set (drop k (dw_log w)))) (\<lambda>_. True)"
  (is "triple _ _ ?Q _")
proof (cases "tr = None \<or> validateApprovedBatch (rt_sha rt) (rt_parse rt) (op_ReviewOk opts) b \<noteq> None")
  case True
  then show ?thesis
    unfolding runApprovedDelivery_def by (auto intro!: triple_fail split: option.split)
next
  case False
  then obtain t where tr: "tr = Some t"
    and valid: "validateApprovedBatch (rt_sha rt) (rt_parse rt) (op_ReviewOk opts) b = None" by auto
  have step: "triple (observed env k {}) m (\<lambda>_. observed env k {}) (\<lambda>_. True)" if "keeps (observed env k {}) m"
    for m :: "('r, 'x) delivery_step"
    by (rule triple_weaken [OF keeps_to_triple [OF that]]) auto
  have opened: "triple (observed env k {}) (open_state rt env opts b True) (\<lambda>_. observed env k {}) (\<lambda>_. True)"
    by (rule triple_weaken [OF observed_run.triple_open_state [OF valid]]) auto
  have ended: "triple ((\<lambda>(outcome, cause) w. cause = None \<longrightarrow> settled env k b w) e)
      (case e of (outcome, cause) \<Rightarrow> finish_run rt env h run outcome cause) ?Q (\<lambda>_. True)" for e h run
    using triple_finish_settled by (cases e) auto
  have operate: "triple (observed env k {}) (case st of (h, run) \<Rightarrow>
      bind_step (run_operations rt env t b True (dr_Sequence run)) (\<lambda>e.
      case e of (outcome, cause) \<Rightarrow> finish_run rt env h run outcome cause)) ?Q (\<lambda>_. True)" for st
  proof (cases st)
    case (Pair h run)
    then show ?thesis using triple_bind [OF triple_operations_settled ended] by simp
  qed
  have resume: "keeps (observed env k {}) (if True \<and> pre \<and> ds_Status s \<noteq> ''completed'' \<and> ds_Status s \<noteq> ''cancelled''
       then verify_human env opts b e1 e2 else return_step ())" for pre s e1 e2
    by (auto intro!: keeps_rules observed.keeps_human)
  have gets: "triple (observed env k {}) (gets_step f) (\<lambda>_. observed env k {}) (\<lambda>_. True)" for f :: "_ \<Rightarrow> 'y"
    by (rule triple_gets)
  show ?thesis
    unfolding runApprovedDelivery_def tr option.case valid
    by (rule triple_bind [OF step [OF observed.keeps_os(1)]])+
       (rule triple_bind [OF opened], rule triple_bind [OF gets], rule triple_bind [OF step [OF resume]],
        rule triple_bind [OF step [OF observed.keeps_refresh]],
        rule triple_bind [OF step [OF observed.keeps_os(3)]],
        rule triple_bind [OF step [OF observed.keeps_start] operate])
qed



end
