(* ===== verification/Session_Registry.thy ===== *)
theory Session_Registry
  imports Mindline_Prelude "HOL-Library.Word" "HOL-Library.Product_Lexorder"
begin

text \<open>
  The process-local session leases of \<open>internal/integrations/session_registry.go\<close>. The registry
  maps references to lease entries; entries are pointers in the code and indices into a store
  here, so that the pointer comparison at the end of \<open>Use\<close> is the comparison of two indices. An
  entry's context is its flag \<open>le_cancelled\<close>; a call context is cancelled when its parent or
  its lease is. \<open>Use\<close> drops the mutex while the callback runs: the model has one operation for
  the part before the callback and one for the part after it, and every interleaving of them
  with the other operations is a run of \<open>registry_step\<close> (theory \<open>Session_Properties\<close>).
\<close>

section \<open>Identities, options and entries\<close>

record verified_identity =
  vi_Provider :: string
  vi_WorkspaceID :: string
  vi_ChannelID :: string
  vi_KeyID :: string
  vi_CapabilityVersion :: string

definition no_identity :: verified_identity where
  "no_identity = \<lparr>vi_Provider = '''', vi_WorkspaceID = '''', vi_ChannelID = '''', vi_KeyID = '''',
     vi_CapabilityVersion = ''''\<rparr>"

definition valid_identity :: "verified_identity \<Rightarrow> bool" where
  "valid_identity i \<longleftrightarrow> vi_Provider i \<noteq> '''' \<and> vi_WorkspaceID i \<noteq> '''' \<and>
     vi_CapabilityVersion i \<noteq> ''''"

definition identity_key :: "verified_identity \<Rightarrow> string" where
  "identity_key i = vi_Provider i @ [CHR 0x00] @ vi_WorkspaceID i @ [CHR 0x00] @ vi_ChannelID i @
     [CHR 0x00] @ vi_KeyID i @ [CHR 0x00] @ vi_CapabilityVersion i"

definition sameIdentity :: "verified_identity \<Rightarrow> verified_identity \<Rightarrow> bool" where
  "sameIdentity l r \<longleftrightarrow> length (identity_key l) = length (identity_key r) \<and>
     identity_key l = identity_key r"

record connection_snapshot =
  cs_Kind :: string
  cs_Identity :: verified_identity

record lease_options =
  lo_Kind :: string
  lo_Secret :: "8 word list"
  lo_Identity :: verified_identity

record lease_entry =
  le_kind :: string
  le_secret :: "8 word list"
  le_identity :: verified_identity
  le_revoked :: bool
  le_cancelled :: bool

record session_registry =
  sr_maximum :: int
  sr_closed :: bool
  sr_entries :: "(string \<times> nat) list"
  sr_store :: "lease_entry list"

datatype session_error =
    SessionLeaseNotFound | SessionLeaseRevoked | RegistryClosed | IdentityMismatch
  | IdentityNotPinned | InvalidLeaseOptions | MissingCallback | NoSessionReference
  | ReferenceCollision

definition defaultMaximumSecretBytes :: int where
  "defaultMaximumSecretBytes = 16 * 1024"

definition handleBytes :: nat where
  "handleBytes = 32"

definition NewSessionRegistry :: "int \<Rightarrow> session_registry" where
  "NewSessionRegistry maximum =
     \<lparr>sr_maximum = (if maximum \<le> 0 then defaultMaximumSecretBytes else maximum),
      sr_closed = False, sr_entries = [], sr_store = []\<rparr>"

section \<open>References\<close>

text \<open>
  \<open>base64.RawURLEncoding\<close>: groups of three bytes become four characters, a last group of one or
  two bytes becomes two or three characters, without padding.
\<close>

definition base64_alphabet :: string where
  "base64_alphabet =
     ''ABCDEFGHIJKLMNOPQRSTUVWXYZabcdefghijklmnopqrstuvwxyz0123456789-_''"

definition base64_digit :: "nat \<Rightarrow> char" where
  "base64_digit n = base64_alphabet ! (n mod 64)"

fun raw_url_base64 :: "8 word list \<Rightarrow> string" where
  "raw_url_base64 (a # b # c # rest) =
     (let n = unat a * 65536 + unat b * 256 + unat c in
      [base64_digit (n div 262144), base64_digit (n div 4096), base64_digit (n div 64),
       base64_digit n] @ raw_url_base64 rest)"
| "raw_url_base64 [a, b] =
     (let n = unat a * 1024 + unat b * 4 in
      [base64_digit (n div 4096), base64_digit (n div 64), base64_digit n])"
| "raw_url_base64 [a] =
     (let n = unat a * 16 in [base64_digit (n div 64), base64_digit n])"
| "raw_url_base64 [] = []"

text \<open>
  \<open>randomID\<close>: the random source answers with the buffer as it left it and the number of bytes
  it says it filled, or with an error (None).
\<close>

type_synonym random_answer = "(8 word list \<times> int) option"

definition randomID :: "random_answer \<Rightarrow> (session_error, string) result" where
  "randomID answer =
     (case answer of
        None \<Rightarrow> Inl NoSessionReference
      | Some (buffer, n) \<Rightarrow>
          if n \<noteq> int handleBytes then Inl NoSessionReference
          else Inr (raw_url_base64 buffer))"

section \<open>Operations under the mutex\<close>

definition snapshot :: "lease_entry \<Rightarrow> connection_snapshot" where
  "snapshot e = \<lparr>cs_Kind = le_kind e, cs_Identity = le_identity e\<rparr>"

definition entry_at :: "session_registry \<Rightarrow> nat \<Rightarrow> lease_entry" where
  "entry_at r p = sr_store r ! p"

definition update_entry ::
  "nat \<Rightarrow> (lease_entry \<Rightarrow> lease_entry) \<Rightarrow> session_registry \<Rightarrow> session_registry" where
  "update_entry p f r = r\<lparr>sr_store := (sr_store r)[p := f (sr_store r ! p)]\<rparr>"

definition revoked_entry :: "lease_entry \<Rightarrow> lease_entry" where
  "revoked_entry e =
     (if le_revoked e then e else e\<lparr>le_revoked := True, le_cancelled := True, le_secret := []\<rparr>)"

definition revokeLocked :: "nat \<Rightarrow> session_registry \<Rightarrow> session_registry" where
  "revokeLocked p = update_entry p revoked_entry"

definition usableLocked :: "session_registry \<Rightarrow> string \<Rightarrow> (session_error, nat) result" where
  "usableLocked r ref =
     (if sr_closed r then Inl RegistryClosed
      else case map_of (sr_entries r) ref of
        None \<Rightarrow> Inl SessionLeaseNotFound
      | Some p \<Rightarrow> if le_revoked (entry_at r p) then Inl SessionLeaseRevoked else Inr p)"

definition Register ::
  "random_answer \<Rightarrow> lease_options \<Rightarrow> session_registry
    \<Rightarrow> session_registry \<times> (session_error, string \<times> connection_snapshot) result" where
  "Register answer opts r =
     (if lo_Kind opts = '''' \<or> length (lo_Secret opts) = 0 \<or>
         int (length (lo_Secret opts)) > sr_maximum r then (r, Inl InvalidLeaseOptions)
      else if lo_Identity opts \<noteq> no_identity \<and> \<not> valid_identity (lo_Identity opts)
      then (r, Inl InvalidLeaseOptions)
      else case randomID answer of
        Inl e \<Rightarrow> (r, Inl e)
      | Inr ref \<Rightarrow>
          let entry = \<lparr>le_kind = lo_Kind opts, le_secret = lo_Secret opts,
                       le_identity = lo_Identity opts, le_revoked = False, le_cancelled = False\<rparr> in
          if sr_closed r then (r, Inl RegistryClosed)
          else if map_of (sr_entries r) ref \<noteq> None then (r, Inl ReferenceCollision)
          else (r\<lparr>sr_entries := (ref, length (sr_store r)) # sr_entries r,
                  sr_store := sr_store r @ [entry]\<rparr>,
                Inr (ref, snapshot entry)))"

definition PinIdentity ::
  "string \<Rightarrow> verified_identity \<Rightarrow> session_registry
    \<Rightarrow> session_registry \<times> (session_error, connection_snapshot) result" where
  "PinIdentity ref identity r =
     (case usableLocked r ref of
        Inl e \<Rightarrow> (r, Inl e)
      | Inr p \<Rightarrow>
          if \<not> valid_identity identity then (revokeLocked p r, Inl IdentityMismatch)
          else if le_identity (entry_at r p) = no_identity then
            let r' = update_entry p (\<lambda>e. e\<lparr>le_identity := identity\<rparr>) r in
            (r', Inr (snapshot (entry_at r' p)))
          else if \<not> sameIdentity (le_identity (entry_at r p)) identity
          then (revokeLocked p r, Inl IdentityMismatch)
          else (r, Inr (snapshot (entry_at r p))))"

definition Snapshot ::
  "string \<Rightarrow> session_registry \<Rightarrow> (session_error, connection_snapshot) result" where
  "Snapshot ref r = rbind (usableLocked r ref) (\<lambda>p. Inr (snapshot (entry_at r p)))"

definition Revoke ::
  "string \<Rightarrow> session_registry \<Rightarrow> session_registry \<times> session_error option" where
  "Revoke ref r =
     (case map_of (sr_entries r) ref of
        None \<Rightarrow> (r, Some SessionLeaseNotFound)
      | Some p \<Rightarrow> (revokeLocked p r, None))"

definition Disconnect ::
  "string \<Rightarrow> session_registry \<Rightarrow> session_registry \<times> session_error option" where
  "Disconnect ref r = Revoke ref r"

definition Shutdown :: "session_registry \<Rightarrow> session_registry" where
  "Shutdown r =
     (if sr_closed r then r
      else fold (\<lambda>(ref, p). revokeLocked p) (sr_entries r) (r\<lparr>sr_closed := True\<rparr>))"

section \<open>Use\<close>

text \<open>
  A call that \<open>Use\<close> has started: the reference and the entry it captured, the copy of the
  secret handed to the callback, the identity it was started for, and whether the context of the
  caller is cancelled.
\<close>

record lease_call =
  lc_ref :: string
  lc_entry :: nat
  lc_secret :: "8 word list"
  lc_identity :: verified_identity
  lc_parent_cancelled :: bool

definition begin_use ::
  "string \<Rightarrow> verified_identity \<Rightarrow> bool \<Rightarrow> bool \<Rightarrow> session_registry
    \<Rightarrow> session_registry \<times> (session_error, lease_call) result" where
  "begin_use ref expected callback parent_cancelled r =
     (if \<not> callback then (r, Inl MissingCallback)
      else case usableLocked r ref of
        Inl e \<Rightarrow> (r, Inl e)
      | Inr p \<Rightarrow>
          if le_identity (entry_at r p) = no_identity then (r, Inl IdentityNotPinned)
          else if \<not> valid_identity expected \<or>
                  \<not> sameIdentity (le_identity (entry_at r p)) expected
          then (revokeLocked p r, Inl IdentityMismatch)
          else (r, Inr \<lparr>lc_ref = ref, lc_entry = p, lc_secret = le_secret (entry_at r p),
                        lc_identity = expected, lc_parent_cancelled = parent_cancelled\<rparr>))"

definition call_cancelled :: "session_registry \<Rightarrow> lease_call \<Rightarrow> bool" where
  "call_cancelled r c \<longleftrightarrow> lc_parent_cancelled c \<or> le_cancelled (entry_at r (lc_entry c))"

definition zeroed :: "8 word list \<Rightarrow> 8 word list" where
  "zeroed value = map (\<lambda>_. 0) value"

text \<open>
  The part after the callback: \<open>rejected\<close> says whether its error is (or wraps)
  \<open>ErrCredentialRejected\<close>; the copy of the secret is zeroed on the way out.
\<close>

definition end_use :: "lease_call \<Rightarrow> bool \<Rightarrow> session_registry \<Rightarrow> session_registry \<times> lease_call" where
  "end_use c rejected r =
     ((if rejected \<and> map_of (sr_entries r) (lc_ref c) = Some (lc_entry c)
       then revokeLocked (lc_entry c) r else r),
      c\<lparr>lc_secret := zeroed (lc_secret c)\<rparr>)"

end
