(* ===== verification/Trace_System.thy ===== *)
theory Trace_System
  imports Main
begin

text \<open>
  The contract of a labelled transition system with finite runs, and what holds of the runs of
  every such system: they compose, they keep what every step keeps, and once a run enters a set
  of states that no step leaves and in which certain events cannot happen, those events do not
  happen any more.
\<close>

locale traced =
  fixes step :: "'s \<Rightarrow> 'e \<Rightarrow> 's \<Rightarrow> bool"
    and run :: "'s \<Rightarrow> 'e list \<Rightarrow> 's \<Rightarrow> bool"
  assumes run_Nil: "run s [] t \<longleftrightarrow> t = s"
    and run_Cons: "run s (e # es) t \<longleftrightarrow> (\<exists>u. step s e u \<and> run u es t)"
begin

lemma run_append: "run s (xs @ ys) t \<longleftrightarrow> (\<exists>u. run s xs u \<and> run u ys t)"
  by (induction xs arbitrary: s) (auto simp: run_Nil run_Cons)

lemma run_invariant:
  assumes "\<And>s e t. I s \<Longrightarrow> step s e t \<Longrightarrow> I t"
  shows "run s es t \<Longrightarrow> I s \<Longrightarrow> I t"
  by (induction es arbitrary: s) (auto simp: run_Nil run_Cons dest: assms)

lemma run_absorbed:
  assumes "\<And>s e t. I s \<Longrightarrow> step s e t \<Longrightarrow> I t"
    and "\<And>s e t. I s \<Longrightarrow> G s \<Longrightarrow> step s e t \<Longrightarrow> G t \<and> P e"
  shows "run s es t \<Longrightarrow> I s \<Longrightarrow> G s \<Longrightarrow> G t \<and> (\<forall>e \<in> set es. P e)"
  by (induction es arbitrary: s) (auto simp: run_Nil run_Cons dest: assms)

lemma run_absorbed_after:
  assumes "\<And>s e t. I s \<Longrightarrow> step s e t \<Longrightarrow> I t"
    and "\<And>s e t. I s \<Longrightarrow> G s \<Longrightarrow> step s e t \<Longrightarrow> G t \<and> P e"
    and "\<And>s t. I s \<Longrightarrow> step s ev t \<Longrightarrow> G t"
    and "run s (pre @ ev # post) t" and "I s"
  shows "I t \<and> G t \<and> (\<forall>e \<in> set post. P e)"
proof -
  from assms(4) obtain u v where runs: "run s pre u" "step u ev v" "run v post t"
    by (auto simp: run_append run_Cons)
  have "I u" by (rule run_invariant [where I = I, OF assms(1) runs(1) assms(5)])
  with runs(2) assms(1,3) have v: "I v" "G v" by blast+
  have "G t \<and> (\<forall>e \<in> set post. P e)"
    by (rule run_absorbed [where I = I and G = G, OF _ _ runs(3) v]) (fact assms)+
  moreover have "I t" by (rule run_invariant [where I = I, OF _ runs(3) v(1)]) (fact assms)
  ultimately show ?thesis by blast
qed

end

end
