(* ===== verification/Session_Properties.thy ===== *)
theory Session_Properties
  imports Session_Registry Trace_System
begin

text \<open>
  Runs of the session registry: every operation is a step, a callback is running between the
  step that starts it and the step that ends it, and any other steps may happen in between. The
  abstract life of a lease (unknown, unpinned, pinned, dead) is refined by every step; the
  invariant of the registry and of the calls it has started is proved by induction on runs.
\<close>

section \<open>Identities\<close>

definition nul_free :: "verified_identity \<Rightarrow> bool" where
  "nul_free i \<longleftrightarrow> (\<forall>f \<in> {vi_Provider, vi_WorkspaceID, vi_ChannelID, vi_KeyID, vi_CapabilityVersion}.
     CHR 0x00 \<notin> set (f i))"

lemma split_at_separator:
  assumes "u \<notin> set a" and "u \<notin> set b" and "a @ u # x = b @ u # y"
  shows "a = b \<and> x = y"
  using assms by (induction a arbitrary: b) (auto simp: Cons_eq_append_conv)

lemma identity_key_inj:
  assumes "nul_free l" and "nul_free r" and "identity_key l = identity_key r"
  shows "l = r"
  using assms
  by (cases l; cases r)
     (auto simp: identity_key_def nul_free_def dest!: split_at_separator [rotated 2])

lemma sameIdentity_iff [simp]: "sameIdentity l r \<longleftrightarrow> identity_key l = identity_key r"
  by (auto simp: sameIdentity_def)

section \<open>Steps and runs\<close>

datatype session_event =
    EvRegister lease_options "(session_error, string \<times> connection_snapshot) result"
  | EvPin string verified_identity "(session_error, connection_snapshot) result"
  | EvRevoke string "session_error option"
  | EvShutdown
  | EvRefused string verified_identity session_error
  | EvBegin nat string verified_identity
  | EvCancel nat
  | EvEnd nat string bool

record session_state =
  ss_registry :: session_registry
  ss_calls :: "(lease_call \<times> bool) list"

inductive session_step :: "session_state \<Rightarrow> session_event \<Rightarrow> session_state \<Rightarrow> bool" where
  register: "Register answer opts (ss_registry s) = (r, res) \<Longrightarrow>
    session_step s (EvRegister opts res) (s\<lparr>ss_registry := r\<rparr>)"
| pin: "PinIdentity ref identity (ss_registry s) = (r, res) \<Longrightarrow>
    session_step s (EvPin ref identity res) (s\<lparr>ss_registry := r\<rparr>)"
| revoke: "Revoke ref (ss_registry s) = (r, res) \<Longrightarrow>
    session_step s (EvRevoke ref res) (s\<lparr>ss_registry := r\<rparr>)"
| disconnect: "Disconnect ref (ss_registry s) = (r, res) \<Longrightarrow>
    session_step s (EvRevoke ref res) (s\<lparr>ss_registry := r\<rparr>)"
| shutdown: "session_step s EvShutdown (s\<lparr>ss_registry := Shutdown (ss_registry s)\<rparr>)"
| refused: "begin_use ref expected callback parent (ss_registry s) = (r, Inl e) \<Longrightarrow>
    session_step s (EvRefused ref expected e) (s\<lparr>ss_registry := r\<rparr>)"
| started: "begin_use ref expected callback parent (ss_registry s) = (r, Inr c) \<Longrightarrow>
    session_step s (EvBegin (length (ss_calls s)) ref expected)
      (s\<lparr>ss_registry := r, ss_calls := ss_calls s @ [(c, True)]\<rparr>)"
| parent_cancelled: "n < length (ss_calls s) \<Longrightarrow> ss_calls s ! n = (c, running) \<Longrightarrow>
    session_step s (EvCancel n)
      (s\<lparr>ss_calls := (ss_calls s)[n := (c\<lparr>lc_parent_cancelled := True\<rparr>, running)]\<rparr>)"
| finished: "n < length (ss_calls s) \<Longrightarrow> ss_calls s ! n = (c, True) \<Longrightarrow>
    end_use c rejected (ss_registry s) = (r, c') \<Longrightarrow>
    session_step s (EvEnd n (lc_ref c) rejected)
      (s\<lparr>ss_registry := r, ss_calls := (ss_calls s)[n := (c', False)]\<rparr>)"

inductive session_run :: "session_state \<Rightarrow> session_event list \<Rightarrow> session_state \<Rightarrow> bool" where
  run_empty: "session_run s [] s"
| run_more: "session_step s ev s' \<Longrightarrow> session_run s' evs t \<Longrightarrow> session_run s (ev # evs) t"

inductive_cases session_run_NilE [elim!]: "session_run s [] t"
inductive_cases session_run_ConsE [elim!]: "session_run s (ev # evs) t"

definition new_session :: "int \<Rightarrow> session_state" where
  "new_session maximum = \<lparr>ss_registry = NewSessionRegistry maximum, ss_calls = []\<rparr>"

interpretation sessions: traced session_step session_run
  by unfold_locales (auto intro: run_empty run_more)

section \<open>The invariant\<close>

definition entry_ok :: "int \<Rightarrow> lease_entry \<Rightarrow> bool" where
  "entry_ok maximum e \<longleftrightarrow> le_kind e \<noteq> '''' \<and> le_cancelled e = le_revoked e \<and>
     (if le_revoked e then le_secret e = []
      else le_secret e \<noteq> [] \<and> int (length (le_secret e)) \<le> maximum) \<and>
     (le_identity e = no_identity \<or> valid_identity (le_identity e))"

definition registry_ok :: "session_registry \<Rightarrow> bool" where
  "registry_ok r \<longleftrightarrow> distinct (map fst (sr_entries r)) \<and>
     map snd (sr_entries r) = rev [0..<length (sr_store r)] \<and>
     (\<forall>e \<in> set (sr_store r). entry_ok (sr_maximum r) e \<and> (sr_closed r \<longrightarrow> le_revoked e))"

definition call_ok :: "session_registry \<Rightarrow> lease_call \<Rightarrow> bool \<Rightarrow> bool" where
  "call_ok r c running \<longleftrightarrow> map_of (sr_entries r) (lc_ref c) = Some (lc_entry c) \<and>
     lc_entry c < length (sr_store r) \<and> valid_identity (lc_identity c) \<and>
     identity_key (le_identity (entry_at r (lc_entry c))) = identity_key (lc_identity c) \<and>
     valid_identity (le_identity (entry_at r (lc_entry c))) \<and>
     (if running then call_cancelled r c \<or> lc_secret c = le_secret (entry_at r (lc_entry c))
      else set (lc_secret c) \<subseteq> {0})"

definition session_ok :: "session_state \<Rightarrow> bool" where
  "session_ok s \<longleftrightarrow> registry_ok (ss_registry s) \<and>
     (\<forall>(c, running) \<in> set (ss_calls s). call_ok (ss_registry s) c running)"

section \<open>The life of a lease\<close>

datatype lease_phase = Unknown | Unpinned | PinnedTo string | Dead

definition entry_phase :: "lease_entry \<Rightarrow> lease_phase" where
  "entry_phase e =
     (if le_revoked e then Dead
      else if le_identity e = no_identity then Unpinned
      else PinnedTo (identity_key (le_identity e)))"

definition phase :: "session_registry \<Rightarrow> string \<Rightarrow> lease_phase" where
  "phase r ref =
     (case map_of (sr_entries r) ref of
        None \<Rightarrow> Unknown
      | Some p \<Rightarrow> entry_phase (entry_at r p))"

inductive phase_step :: "lease_phase \<Rightarrow> lease_phase \<Rightarrow> bool" where
  stays: "phase_step p p"
| registered: "phase_step Unknown Unpinned"
| registered_pinned: "phase_step Unknown (PinnedTo k)"
| first_use: "phase_step Unpinned (PinnedTo k)"
| dies: "p \<noteq> Unknown \<Longrightarrow> phase_step p Dead"

inductive_simps phase_step_Dead [simp]: "phase_step Dead p"
inductive_simps phase_step_PinnedTo: "phase_step (PinnedTo k) p"
declare phase_step.intros [intro]

text \<open>What an update of one entry does to the rest.\<close>

lemma update_entry_simps [simp]:
  "sr_entries (update_entry p f r) = sr_entries r"
  "sr_closed (update_entry p f r) = sr_closed r"
  "sr_maximum (update_entry p f r) = sr_maximum r"
  "length (sr_store (update_entry p f r)) = length (sr_store r)"
  by (simp_all add: update_entry_def)

lemma entry_at_update:
  "p < length (sr_store r) \<Longrightarrow>
     entry_at (update_entry p f r) q = (if q = p then f (entry_at r p) else entry_at r q)"
  by (simp add: entry_at_def update_entry_def nth_list_update)

lemma revoked_entry_simps [simp]:
  "le_revoked (revoked_entry e)" "le_identity (revoked_entry e) = le_identity e"
  "le_kind (revoked_entry e) = le_kind e"
  by (auto simp: revoked_entry_def)

lemma entry_ok_revoked: "entry_ok m e \<Longrightarrow> entry_ok m (revoked_entry e)"
  by (auto simp: entry_ok_def revoked_entry_def)

lemma registry_entry_index:
  assumes "registry_ok r" and "map_of (sr_entries r) ref = Some p"
  shows "p < length (sr_store r)"
proof -
  from assms(2) have "p \<in> set (map snd (sr_entries r))"
    by (force dest: map_of_SomeD)
  with assms(1) show ?thesis by (simp add: registry_ok_def del: set_map)
qed

lemma registry_entry_unique:
  assumes "registry_ok r" and "map_of (sr_entries r) a = Some p"
    and "map_of (sr_entries r) b = Some p"
  shows "a = b"
proof -
  from assms(1) have "distinct (map snd (sr_entries r))" by (simp add: registry_ok_def)
  then have "inj_on snd (set (sr_entries r))" by (simp add: distinct_map)
  from inj_onD [OF this _ map_of_SomeD [OF assms(2)] map_of_SomeD [OF assms(3)]]
  show ?thesis by simp
qed

lemma registry_ok_update:
  assumes "registry_ok r" and "p < length (sr_store r)"
    and "entry_ok (sr_maximum r) (entry_at r p) \<Longrightarrow> entry_ok (sr_maximum r) (f (entry_at r p))"
    and "le_revoked (entry_at r p) \<Longrightarrow> le_revoked (f (entry_at r p))"
  shows "registry_ok (update_entry p f r)"
  using assms
  by (auto simp: registry_ok_def update_entry_def entry_at_def dest!: subsetD [OF set_update_subset_insert])


section \<open>Every operation advances the registry\<close>

text \<open>
  A registry advances when the invariant holds after, entries are only added, and every entry
  that was there is the same, is revoked, or gets its first identity.
\<close>

definition entry_advances :: "lease_entry \<Rightarrow> lease_entry \<Rightarrow> bool" where
  "entry_advances e e' \<longleftrightarrow> (le_revoked e \<longrightarrow> e' = e) \<and>
     (\<not> le_revoked e' \<longrightarrow> le_secret e' = le_secret e) \<and>
     (le_identity e' = le_identity e \<or> le_identity e = no_identity)"

definition advances :: "session_registry \<Rightarrow> session_registry \<Rightarrow> bool" where
  "advances r r' \<longleftrightarrow> registry_ok r' \<and> (sr_closed r \<longrightarrow> sr_closed r') \<and>
     length (sr_store r) \<le> length (sr_store r') \<and>
     (\<exists>fresh. sr_entries r' = fresh @ sr_entries r) \<and>
     (\<forall>p < length (sr_store r). entry_advances (entry_at r p) (entry_at r' p)) \<and>
     (\<forall>p < length (sr_store r'). length (sr_store r) \<le> p \<longrightarrow> \<not> le_revoked (entry_at r' p))"

lemma advances_refl [intro]: "registry_ok r \<Longrightarrow> advances r r"
  by (auto simp: advances_def entry_advances_def)

lemma registry_ok_entry:
  "registry_ok r \<Longrightarrow> p < length (sr_store r) \<Longrightarrow> entry_ok (sr_maximum r) (entry_at r p)"
  by (auto simp: registry_ok_def entry_at_def)

lemma advances_update:
  assumes "registry_ok r" and "p < length (sr_store r)"
    and "entry_ok (sr_maximum r) (f (entry_at r p))"
    and "entry_advances (entry_at r p) (f (entry_at r p))"
  shows "advances r (update_entry p f r)"
proof -
  have "registry_ok (update_entry p f r)"
    using assms by (intro registry_ok_update) (auto simp: entry_advances_def)
  then show ?thesis
    using assms by (auto simp: advances_def entry_at_update entry_advances_def)
qed

lemma advances_revokeLocked:
  assumes "registry_ok r" and "p < length (sr_store r)"
  shows "advances r (revokeLocked p r)"
  unfolding revokeLocked_def using assms entry_ok_revoked [OF registry_ok_entry [OF assms]]
  by (intro advances_update) (auto simp: entry_advances_def revoked_entry_def)

lemma usableLocked_Inr:
  "usableLocked r ref = Inr p \<longleftrightarrow> \<not> sr_closed r \<and> map_of (sr_entries r) ref = Some p \<and>
     \<not> le_revoked (entry_at r p)"
  by (auto simp: usableLocked_def split: option.splits)

lemma map_of_lookup_advances:
  assumes "advances r r'" and "map_of (sr_entries r) ref = Some p"
  shows "map_of (sr_entries r') ref = Some p"
proof -
  from assms(1) obtain fresh where *: "sr_entries r' = fresh @ sr_entries r"
    and "distinct (map fst (sr_entries r'))"
    by (auto simp: advances_def registry_ok_def)
  moreover from assms(2) have "(ref, p) \<in> set (sr_entries r')"
    by (auto simp: * dest: map_of_SomeD)
  ultimately show ?thesis by (intro map_of_is_SomeI)
qed

lemma advances_Register:
  assumes "registry_ok r" and "Register answer opts r = (r', res)"
  shows "advances r r'"
proof (cases "r' = r")
  case True
  with assms(1) show ?thesis by auto
next
  case False
  define e where "e = \<lparr>le_kind = lo_Kind opts, le_secret = lo_Secret opts,
    le_identity = lo_Identity opts, le_revoked = False, le_cancelled = False\<rparr>"
  from assms(2) False obtain ref where
    new: "r' = r\<lparr>sr_entries := (ref, length (sr_store r)) # sr_entries r,
                 sr_store := sr_store r @ [e]\<rparr>"
    and "map_of (sr_entries r) ref = None" and "\<not> sr_closed r" and "entry_ok (sr_maximum r) e"
    by (auto simp: Register_def Let_def e_def entry_ok_def split: if_splits sum.splits)
  then have "registry_ok r'"
    using assms(1) by (auto simp: registry_ok_def map_of_eq_None_iff)
  then show ?thesis
    by (auto simp: new advances_def entry_at_def entry_advances_def nth_append e_def)
qed

lemma advances_PinIdentity:
  assumes "registry_ok r" and "PinIdentity ref identity r = (r', res)"
  shows "advances r r'"
proof (cases "usableLocked r ref")
  case (Inl e)
  with assms show ?thesis by (auto simp: PinIdentity_def)
next
  case (Inr p)
  then have p: "p < length (sr_store r)" "\<not> le_revoked (entry_at r p)"
    using registry_entry_index [OF assms(1)] by (auto simp: usableLocked_Inr)
  have "entry_ok (sr_maximum r) (entry_at r p)" using registry_ok_entry [OF assms(1) p(1)] .
  with assms Inr p show ?thesis
    by (auto simp: PinIdentity_def Let_def entry_ok_def entry_advances_def
        intro!: advances_update advances_revokeLocked split: if_splits)
qed

lemma advances_Revoke:
  "registry_ok r \<Longrightarrow> Revoke ref r = (r', res) \<Longrightarrow> advances r r'"
  by (auto simp: Revoke_def intro!: advances_revokeLocked registry_entry_index split: option.splits)

lemma advances_begin_use:
  "registry_ok r \<Longrightarrow> begin_use ref expected callback parent r = (r', res) \<Longrightarrow> advances r r'"
  by (auto simp: begin_use_def usableLocked_Inr intro!: advances_revokeLocked
      registry_entry_index split: if_splits sum.splits)

lemma advances_end_use:
  "registry_ok r \<Longrightarrow> end_use c rejected r = (r', c') \<Longrightarrow> advances r r'"
  by (auto simp: end_use_def intro!: advances_revokeLocked registry_entry_index split: if_splits)

lemma fold_revokeLocked:
  assumes "\<forall>(ref, p) \<in> set xs. p < length (sr_store r)"
  shows "fold (\<lambda>(ref, p). revokeLocked p) xs r =
    r\<lparr>sr_store := map (\<lambda>p. if p \<in> snd ` set xs then revoked_entry (entry_at r p)
                           else entry_at r p) [0..<length (sr_store r)]\<rparr>"
  using assms
proof (induction xs arbitrary: r)
  case Nil
  then show ?case by (simp add: entry_at_def map_nth)
next
  case (Cons x xs)
  obtain ref p where x: "x = (ref, p)" by force
  have twice: "revoked_entry (revoked_entry e) = revoked_entry e" for e
    by (simp add: revoked_entry_def)
  have "fold (\<lambda>(ref, p). revokeLocked p) xs (revokeLocked p r) =
    (revokeLocked p r)\<lparr>sr_store := map (\<lambda>q. if q \<in> snd ` set xs
         then revoked_entry (entry_at (revokeLocked p r) q)
         else entry_at (revokeLocked p r) q) [0..<length (sr_store r)]\<rparr>"
    using Cons by (simp add: revokeLocked_def)
  moreover have "entry_at (revokeLocked p r) q = (if q = p then revoked_entry (entry_at r p)
      else entry_at r q)" for q
    using Cons.prems x by (simp add: revokeLocked_def entry_at_update)
  moreover have "(revokeLocked p r)\<lparr>sr_store := st\<rparr> = r\<lparr>sr_store := st\<rparr>" for st
    by (simp add: revokeLocked_def update_entry_def)
  ultimately show ?case
    by (auto simp: x twice cong: if_cong intro!: arg_cong [where f = "\<lambda>st. r\<lparr>sr_store := st\<rparr>"])
qed

lemma Shutdown_store:
  assumes "registry_ok r" and "\<not> sr_closed r"
  shows "Shutdown r = r\<lparr>sr_closed := True, sr_store := map revoked_entry (sr_store r)\<rparr>"
proof -
  have snds: "snd ` set (sr_entries r) = {0..<length (sr_store r)}"
    using assms(1) by (metis registry_ok_def set_map set_rev set_upt)
  then have "\<forall>(ref, p) \<in> set (sr_entries r). p < length (sr_store (r\<lparr>sr_closed := True\<rparr>))"
    by force
  moreover have "map (\<lambda>p. if p < length (sr_store r) then revoked_entry (sr_store r ! p)
      else sr_store r ! p) [0..<length (sr_store r)] = map revoked_entry (sr_store r)"
    by (rule nth_equalityI) auto
  ultimately show ?thesis
    using assms(2) by (simp add: Shutdown_def fold_revokeLocked snds entry_at_def cong: if_cong)
qed

lemma advances_Shutdown:
  assumes "registry_ok r"
  shows "advances r (Shutdown r)"
proof (cases "sr_closed r")
  case True
  with assms show ?thesis by (auto simp: Shutdown_def)
next
  case False
  from assms have "registry_ok (Shutdown r)"
    by (auto simp: Shutdown_store [OF assms False] registry_ok_def entry_ok_revoked)
  then show ?thesis
    by (auto simp: Shutdown_store [OF assms False] advances_def entry_at_def entry_advances_def
        revoked_entry_def)
qed

lemmas operations_advance = advances_Register advances_PinIdentity advances_Revoke
  advances_begin_use advances_end_use advances_Shutdown

lemma step_advances:
  assumes "session_step s ev s'" and "registry_ok (ss_registry s)"
  shows "advances (ss_registry s) (ss_registry s')"
  using assms by cases (auto simp: Disconnect_def intro: operations_advance)


section \<open>The invariant holds in every run\<close>

lemma valid_not_empty [simp]: "\<not> valid_identity no_identity"
  by (simp add: valid_identity_def no_identity_def)

lemma call_ok_advances:
  assumes "call_ok r c running" and "registry_ok r" and "advances r r'"
  shows "call_ok r' c running"
proof -
  let ?e = "entry_at r (lc_entry c)" and ?e' = "entry_at r' (lc_entry c)"
  from assms(1) have p: "lc_entry c < length (sr_store r)" by (simp add: call_ok_def)
  with assms(3) have p': "lc_entry c < length (sr_store r')" and adv: "entry_advances ?e ?e'"
    and "registry_ok r'" by (auto simp: advances_def)
  then have "le_cancelled ?e' = le_revoked ?e'" and "le_cancelled ?e = le_revoked ?e"
    using registry_ok_entry assms(2) p by (auto simp: entry_ok_def)
  moreover have "le_identity ?e' = le_identity ?e"
    using adv assms(1) by (auto simp: entry_advances_def call_ok_def)
  moreover have "map_of (sr_entries r') (lc_ref c) = Some (lc_entry c)"
    using assms(1) map_of_lookup_advances [OF assms(3)] by (simp add: call_ok_def)
  ultimately show ?thesis
    using assms(1) adv p' by (auto simp: call_ok_def call_cancelled_def entry_advances_def)
qed

lemma begin_use_Inr:
  assumes "begin_use ref expected callback parent r = (r', Inr c)"
  obtains p where "r' = r" and "usableLocked r ref = Inr p" and "valid_identity expected"
    and "le_identity (entry_at r p) \<noteq> no_identity"
    and "identity_key (le_identity (entry_at r p)) = identity_key expected"
    and "c = \<lparr>lc_ref = ref, lc_entry = p, lc_secret = le_secret (entry_at r p),
              lc_identity = expected, lc_parent_cancelled = parent\<rparr>"
  using assms by (auto simp: begin_use_def split: if_splits sum.splits)

lemma call_ok_started:
  assumes "registry_ok r" and "begin_use ref expected callback parent r = (r', Inr c)"
  shows "r' = r \<and> call_ok r c True"
  using assms(2)
proof (rule begin_use_Inr)
  fix p
  assume *: "r' = r" "usableLocked r ref = Inr p" "valid_identity expected"
    "le_identity (entry_at r p) \<noteq> no_identity"
    "identity_key (le_identity (entry_at r p)) = identity_key expected"
    "c = \<lparr>lc_ref = ref, lc_entry = p, lc_secret = le_secret (entry_at r p),
          lc_identity = expected, lc_parent_cancelled = parent\<rparr>"
  then have "p < length (sr_store r)"
    using registry_entry_index [OF assms(1)] by (auto simp: usableLocked_Inr)
  moreover from registry_ok_entry [OF assms(1) this] *(4)
  have "valid_identity (le_identity (entry_at r p))" by (simp add: entry_ok_def)
  ultimately show ?thesis using * by (simp add: call_ok_def usableLocked_Inr)
qed

lemma call_ok_finished:
  assumes "registry_ok r" and "call_ok r c running" and "end_use c rejected r = (r', c')"
  shows "call_ok r' c' False"
proof -
  have "call_ok r' c running"
    using call_ok_advances [OF assms(2,1) advances_end_use [OF assms(1,3)]] .
  with assms(3) show ?thesis
    by (auto simp: end_use_def call_ok_def zeroed_def split: if_splits)
qed

lemma session_ok_step:
  assumes "session_ok s" and "session_step s ev s'"
  shows "session_ok s'"
proof -
  from assms(1) have ok: "registry_ok (ss_registry s)" by (simp add: session_ok_def)
  from step_advances [OF assms(2) ok] have adv: "advances (ss_registry s) (ss_registry s')" .
  have kept: "\<forall>(c, running) \<in> set (ss_calls s). call_ok (ss_registry s') c running"
    using assms(1) call_ok_advances [OF _ ok adv] by (auto simp: session_ok_def)
  have here: "call_ok (ss_registry s') c running"
    if "n < length (ss_calls s)" "ss_calls s ! n = (c, running)" for n c running
    using kept nth_mem [OF that(1)] that(2) by auto
  have ok': "registry_ok (ss_registry s')" using adv by (simp add: advances_def)
  from assms(2) show ?thesis
  proof cases
    case (started ref expected callback parent r c)
    then show ?thesis
      using call_ok_started [OF ok started(3)] kept ok' by (auto simp: session_ok_def)
  next
    case (parent_cancelled n c running)
    have "call_ok (ss_registry s) (c\<lparr>lc_parent_cancelled := True\<rparr>) running"
      using here [OF parent_cancelled(3,4)] parent_cancelled(2)
      by (auto simp: call_ok_def call_cancelled_def)
    then show ?thesis
      using parent_cancelled(2) kept ok'
      by (auto simp: session_ok_def dest!: subsetD [OF set_update_subset_insert])
  next
    case (finished n c rejected r c')
    have "call_ok (ss_registry s) c True"
      using assms(1) nth_mem [OF finished(3)] finished(4) by (auto simp: session_ok_def)
    then have "call_ok r c' False" using call_ok_finished [OF ok _ finished(5)] by simp
    then show ?thesis
      using finished kept ok'
      by (auto simp: session_ok_def dest!: subsetD [OF set_update_subset_insert])
  qed (use kept ok' in \<open>simp_all add: session_ok_def\<close>)
qed

lemma session_ok_new: "session_ok (new_session maximum)"
  by (simp add: session_ok_def new_session_def NewSessionRegistry_def registry_ok_def)

lemma session_ok_run: "session_run s evs t \<Longrightarrow> session_ok s \<Longrightarrow> session_ok t"
  by (rule sessions.run_invariant [OF session_ok_step])


section \<open>The life of a lease, abstractly\<close>

text \<open>
  What the registry promises of one lease: the result of pinning, using and revoking it and its
  next phase are functions of whether the registry is closed and of the phase of the lease.
\<close>

definition phase_error :: "bool \<Rightarrow> lease_phase \<Rightarrow> session_error option" where
  "phase_error closed ph =
     (if closed then Some RegistryClosed
      else case ph of
        Unknown \<Rightarrow> Some SessionLeaseNotFound
      | Dead \<Rightarrow> Some SessionLeaseRevoked
      | _ \<Rightarrow> None)"

definition abstract_use ::
  "bool \<Rightarrow> lease_phase \<Rightarrow> verified_identity \<Rightarrow> session_error option \<times> lease_phase" where
  "abstract_use closed ph expected =
     (case phase_error closed ph of
        Some e \<Rightarrow> (Some e, ph)
      | None \<Rightarrow>
          if ph = Unpinned then (Some IdentityNotPinned, ph)
          else if valid_identity expected \<and> ph = PinnedTo (identity_key expected) then (None, ph)
          else (Some IdentityMismatch, Dead))"

definition abstract_pin ::
  "bool \<Rightarrow> lease_phase \<Rightarrow> verified_identity \<Rightarrow> session_error option \<times> lease_phase" where
  "abstract_pin closed ph identity =
     (case phase_error closed ph of
        Some e \<Rightarrow> (Some e, ph)
      | None \<Rightarrow>
          if valid_identity identity \<and> (ph = Unpinned \<or> ph = PinnedTo (identity_key identity))
          then (None, PinnedTo (identity_key identity))
          else (Some IdentityMismatch, Dead))"

definition abstract_revoke :: "lease_phase \<Rightarrow> session_error option \<times> lease_phase" where
  "abstract_revoke ph = (if ph = Unknown then (Some SessionLeaseNotFound, ph) else (None, Dead))"

definition the_error :: "('e, 'a) result \<Rightarrow> 'e option" where
  "the_error res = (case res of Inl e \<Rightarrow> Some e | Inr _ \<Rightarrow> None)"

lemma the_error_simps [simp]: "the_error (Inl e) = Some e" "the_error (Inr x) = None"
  by (simp_all add: the_error_def)

lemma phase_update:
  assumes "registry_ok r" and "map_of (sr_entries r) ref = Some p"
  shows "phase (update_entry p f r) =
    (phase r)(ref := entry_phase (f (entry_at r p)))"
proof
  fix x
  have "q = p \<Longrightarrow> x = ref" if "map_of (sr_entries r) x = Some q" for q
    using registry_entry_unique [OF assms(1) _ assms(2), of x] that by blast
  then show "phase (update_entry p f r) x = ((phase r)(ref := entry_phase (f (entry_at r p)))) x"
    using assms(2) entry_at_update [OF registry_entry_index [OF assms], of f]
    by (cases "map_of (sr_entries r) x") (auto simp: phase_def)
qed

lemma phase_revokeLocked:
  assumes "registry_ok r" and "map_of (sr_entries r) ref = Some p"
  shows "phase (revokeLocked p r) = (phase r)(ref := Dead)"
  using phase_update [OF assms] by (simp add: revokeLocked_def entry_phase_def)

lemma phase_same: "phase r ref = ph \<Longrightarrow> phase r = (phase r)(ref := ph)"
  by auto

lemma usable_phase:
  "usableLocked r ref = (case phase_error (sr_closed r) (phase r ref) of
     Some e \<Rightarrow> Inl e | None \<Rightarrow> Inr (the (map_of (sr_entries r) ref)))"
  by (auto simp: usableLocked_def phase_error_def phase_def entry_phase_def
      split: option.splits)

lemma begin_use_abstract:
  assumes "registry_ok r" and "begin_use ref expected True parent r = (r', res)"
  shows "abstract_use (sr_closed r) (phase r ref) expected = (the_error res, phase r' ref) \<and>
    phase r' = (phase r)(ref := phase r' ref)"
proof (cases "phase_error (sr_closed r) (phase r ref)")
  case (Some e)
  with assms(2) show ?thesis
    by (auto simp: begin_use_def usable_phase abstract_use_def)
next
  case None
  then obtain p where p: "map_of (sr_entries r) ref = Some p"
    by (auto simp: phase_error_def phase_def split: option.splits if_splits)
  have live: "\<not> le_revoked (entry_at r p)"
    using None p by (auto simp: phase_error_def phase_def entry_phase_def split: if_splits)
  have ph: "phase r ref = entry_phase (entry_at r p)" using p by (simp add: phase_def)
  with None p live assms phase_revokeLocked [OF assms(1) p] show ?thesis
    by (auto simp: begin_use_def usable_phase abstract_use_def entry_phase_def fun_upd_idem
        split: if_splits)
qed

lemma PinIdentity_abstract:
  assumes "registry_ok r" and "PinIdentity ref identity r = (r', res)"
  shows "abstract_pin (sr_closed r) (phase r ref) identity = (the_error res, phase r' ref) \<and>
    phase r' = (phase r)(ref := phase r' ref)"
proof (cases "phase_error (sr_closed r) (phase r ref)")
  case (Some e)
  with assms(2) show ?thesis
    by (auto simp: PinIdentity_def usable_phase abstract_pin_def)
next
  case None
  then obtain p where p: "map_of (sr_entries r) ref = Some p"
    by (auto simp: phase_error_def phase_def split: option.splits if_splits)
  have live: "\<not> le_revoked (entry_at r p)"
    using None p by (auto simp: phase_error_def phase_def entry_phase_def split: if_splits)
  have ph: "phase r ref = entry_phase (entry_at r p)" using p by (simp add: phase_def)
  have "phase (update_entry p (\<lambda>e. e\<lparr>le_identity := identity\<rparr>) r) =
      (phase r)(ref := PinnedTo (identity_key identity))" if "valid_identity identity"
    using phase_update [OF assms(1) p, of "\<lambda>e. e\<lparr>le_identity := identity\<rparr>"] that live
    by (auto simp: entry_phase_def)
  with None p live assms ph phase_revokeLocked [OF assms(1) p] show ?thesis
    by (auto simp: PinIdentity_def usable_phase abstract_pin_def Let_def entry_phase_def
        split: if_splits)
qed

lemma Revoke_abstract:
  assumes "registry_ok r" and "Revoke ref r = (r', res)"
  shows "abstract_revoke (phase r ref) = (res, phase r' ref) \<and>
    phase r' = (phase r)(ref := phase r' ref)"
proof (cases "map_of (sr_entries r) ref")
  case None
  then have "phase r ref = Unknown" by (simp add: phase_def)
  with None assms show ?thesis by (auto simp: Revoke_def abstract_revoke_def)
next
  case (Some p)
  then have "phase r ref \<noteq> Unknown" by (simp add: phase_def entry_phase_def)
  with Some assms show ?thesis
    by (auto simp: Revoke_def abstract_revoke_def phase_revokeLocked)
qed

lemma Shutdown_abstract:
  assumes "registry_ok r"
  shows "sr_closed (Shutdown r) \<and>
    phase (Shutdown r) ref = (if phase r ref = Unknown then Unknown else Dead)"
proof (cases "sr_closed r")
  case True
  have "phase r ref = Unknown \<or> phase r ref = Dead"
    using assms registry_entry_index [OF assms] True
    by (auto simp: phase_def entry_phase_def registry_ok_def entry_at_def split: option.splits)
  with True show ?thesis by (auto simp: Shutdown_def)
next
  case False
  then show ?thesis
    using registry_entry_index [OF assms]
    by (auto simp: Shutdown_store [OF assms] phase_def entry_at_def entry_phase_def
        split: option.splits)
qed


lemma phase_extended:
  assumes "registry_ok r"
  shows "phase (r\<lparr>sr_entries := (ref, length (sr_store r)) # sr_entries r,
                  sr_store := sr_store r @ [e]\<rparr>) = (phase r)(ref := entry_phase e)"
proof
  fix x
  have "map_of (sr_entries r) x = Some p \<Longrightarrow> (sr_store r @ [e]) ! p = sr_store r ! p" for p
    using registry_entry_index [OF assms] by (auto simp: nth_append)
  then show "phase (r\<lparr>sr_entries := (ref, length (sr_store r)) # sr_entries r,
      sr_store := sr_store r @ [e]\<rparr>) x = ((phase r)(ref := entry_phase e)) x"
    by (cases "map_of (sr_entries r) x") (auto simp: phase_def entry_at_def)
qed

lemma Register_abstract:
  assumes "registry_ok r" and "Register answer opts r = (r', Inr (ref, snap))"
  shows "phase r ref = Unknown \<and> phase r' = (phase r)(ref :=
      (if lo_Identity opts = no_identity then Unpinned
       else PinnedTo (identity_key (lo_Identity opts))))"
proof -
  define e where "e = \<lparr>le_kind = lo_Kind opts, le_secret = lo_Secret opts,
    le_identity = lo_Identity opts, le_revoked = False, le_cancelled = False\<rparr>"
  from assms(2) have "map_of (sr_entries r) ref = None" and
    "r' = r\<lparr>sr_entries := (ref, length (sr_store r)) # sr_entries r,
            sr_store := sr_store r @ [e]\<rparr>"
    by (auto simp: Register_def Let_def e_def split: if_splits sum.splits)
  moreover have "entry_phase e = (if lo_Identity opts = no_identity then Unpinned
       else PinnedTo (identity_key (lo_Identity opts)))"
    by (simp add: e_def entry_phase_def)
  ultimately show ?thesis by (simp add: phase_extended [OF assms(1)] phase_def [of r ref])
qed

lemma Register_failed: "Register answer opts r = (r', Inl e) \<Longrightarrow> r' = r"
  by (auto simp: Register_def Let_def split: if_splits sum.splits)


section \<open>Leases that have ended\<close>

fun ends_lease :: "session_event \<Rightarrow> string \<Rightarrow> bool" where
  "ends_lease (EvRevoke ref None) x = (x = ref)"
| "ends_lease (EvPin ref i (Inl IdentityMismatch)) x = (x = ref)"
| "ends_lease (EvRefused ref i IdentityMismatch) x = (x = ref)"
| "ends_lease (EvEnd n ref True) x = (x = ref)"
| "ends_lease EvShutdown x = True"
| "ends_lease ev x = False"

fun grants_lease :: "session_event \<Rightarrow> string \<Rightarrow> bool" where
  "grants_lease (EvRegister opts (Inr (ref, snap))) x = (x = ref)"
| "grants_lease (EvPin ref i (Inr snap)) x = (x = ref)"
| "grants_lease (EvBegin n ref i) x = (x = ref)"
| "grants_lease ev x = False"

definition lease_over :: "session_registry \<Rightarrow> string \<Rightarrow> bool" where
  "lease_over r ref \<longleftrightarrow> sr_closed r \<or> phase r ref = Dead"

lemma over_advances:
  assumes "advances r r'" and "registry_ok r" and "lease_over r ref"
  shows "lease_over r' ref"
proof (cases "sr_closed r")
  case True
  with assms(1) show ?thesis by (simp add: lease_over_def advances_def)
next
  case False
  with assms(3) obtain p where p: "map_of (sr_entries r) ref = Some p" "le_revoked (entry_at r p)"
    by (auto simp: lease_over_def phase_def entry_phase_def split: option.splits if_splits)
  then have "entry_at r' p = entry_at r p"
    using assms(1) registry_entry_index [OF assms(2) p(1)]
    by (simp add: advances_def entry_advances_def)
  then show ?thesis
    using p map_of_lookup_advances [OF assms(1) p(1)]
    by (simp add: lease_over_def phase_def entry_phase_def)
qed

lemma over_unusable: "lease_over r ref \<Longrightarrow> usableLocked r ref \<noteq> Inr p"
  by (auto simp: usable_phase lease_over_def phase_error_def)

lemma over_not_granted:
  assumes "session_ok s" and "lease_over (ss_registry s) ref" and "session_step s ev s'"
  shows "\<not> grants_lease ev ref"
proof
  from assms(1) have ok: "registry_ok (ss_registry s)" by (simp add: session_ok_def)
  assume "grants_lease ev ref"
  with assms(3) show False
  proof cases
    case (register answer opts r res)
    with \<open>grants_lease ev ref\<close> obtain snap where res: "res = Inr (ref, snap)"
      by (cases res) auto
    then have "phase (ss_registry s) ref = Unknown"
      using Register_abstract [OF ok] register(3) by blast
    moreover have "\<not> sr_closed (ss_registry s)"
      using register(3) res by (auto simp: Register_def Let_def split: if_splits sum.splits)
    ultimately show False using assms(2) by (simp add: lease_over_def)
  next
    case (pin x i r res)
    with \<open>grants_lease ev ref\<close> show False
      using over_unusable [OF assms(2)]
      by (cases res) (auto simp: PinIdentity_def split: sum.splits)
  next
    case (started x i callback parent r c)
    with \<open>grants_lease ev ref\<close> show False
      using over_unusable [OF assms(2)] by (auto elim: begin_use_Inr)
  qed auto
qed


lemma abstract_mismatch:
  "abstract_use closed ph i = (Some IdentityMismatch, ph') \<Longrightarrow> ph' = Dead"
  "abstract_pin closed ph i = (Some IdentityMismatch, ph') \<Longrightarrow> ph' = Dead"
  by (auto simp: abstract_use_def abstract_pin_def phase_error_def
      split: if_splits option.splits lease_phase.splits)

lemma ended_is_over:
  assumes "session_ok s" and "session_step s ev s'" and "ends_lease ev ref"
  shows "lease_over (ss_registry s') ref"
proof -
  from assms(1) have ok: "registry_ok (ss_registry s)" by (simp add: session_ok_def)
  from assms(2) show ?thesis
  proof cases
    case (pin x i r res)
    with assms(3) have "res = Inl IdentityMismatch" "x = ref"
      by (cases "(EvPin x i res, ref)" rule: ends_lease.cases; auto)+
    with pin show ?thesis
      using PinIdentity_abstract [OF ok pin(3)] abstract_mismatch(2)
      by (auto simp: lease_over_def)
  next
    case (revoke x r res)
    with assms(3) show ?thesis
      using Revoke_abstract [OF ok revoke(3)]
      by (cases res) (auto simp: lease_over_def abstract_revoke_def split: if_splits)
  next
    case (disconnect x r res)
    then have "Revoke x (ss_registry s) = (r, res)" by (simp add: Disconnect_def)
    with disconnect assms(3) show ?thesis
      using Revoke_abstract [OF ok, of x r res]
      by (cases res) (auto simp: lease_over_def abstract_revoke_def split: if_splits)
  next
    case shutdown
    then show ?thesis using Shutdown_abstract [OF ok] by (simp add: lease_over_def)
  next
    case (refused x i callback parent r e)
    with assms(3) have e: "e = IdentityMismatch" "x = ref" by (cases e; auto)+
    then have "callback" using refused(3) by (auto simp: begin_use_def split: if_splits)
    then show ?thesis
      using begin_use_abstract [OF ok, of x i parent r "Inl e"] refused e abstract_mismatch(1)
      by (auto simp: lease_over_def)
  next
    case (finished n c rejected r c')
    with assms(3) have c: "rejected" "lc_ref c = ref" by (cases rejected; auto)+
    have "call_ok (ss_registry s) c True"
      using assms(1) nth_mem [OF finished(3)] finished(4) by (auto simp: session_ok_def)
    then have p: "map_of (sr_entries (ss_registry s)) ref = Some (lc_entry c)"
      using c by (simp add: call_ok_def)
    with c finished show ?thesis
      using phase_revokeLocked [OF ok p] by (auto simp: end_use_def lease_over_def)
  qed (use assms(3) in auto)
qed

lemma over_secret_gone:
  assumes "registry_ok r" and "lease_over r ref" and "map_of (sr_entries r) ref = Some p"
  shows "le_revoked (entry_at r p) \<and> le_cancelled (entry_at r p) \<and> le_secret (entry_at r p) = []"
proof -
  have p: "p < length (sr_store r)" by (rule registry_entry_index [OF assms(1,3)])
  then have "le_revoked (entry_at r p)"
    using assms by (auto simp: lease_over_def phase_def entry_phase_def registry_ok_def entry_at_def
        split: if_splits)
  with registry_ok_entry [OF assms(1) p] show ?thesis by (simp add: entry_ok_def)
qed

text \<open>C32: Once a lease has ended (it was revoked or disconnected, an identity that drifted was presented to
  pin or use it, the provider rejected its credential, or the registry was shut down), whatever
  happens next its reference is never handed out, pinned or used again, the stored secret is
  gone, and the context of every call that was started on it is cancelled.
\<close>

theorem ended_lease_stays_dead:
  assumes "session_run (new_session maximum) (pre @ ev # post) s" and "ends_lease ev ref"
  shows "(\<forall>e \<in> set post. \<not> grants_lease e ref) \<and>
    (\<forall>p. map_of (sr_entries (ss_registry s)) ref = Some p \<longrightarrow>
       le_secret (entry_at (ss_registry s) p) = []) \<and>
    (\<forall>(c, running) \<in> set (ss_calls s). lc_ref c = ref \<longrightarrow> call_cancelled (ss_registry s) c)"
proof -
  let ?G = "\<lambda>s. lease_over (ss_registry s) ref"
  have "session_ok s \<and> ?G s \<and> (\<forall>e \<in> set post. \<not> grants_lease e ref)"
  proof (rule sessions.run_absorbed_after [where I = session_ok and G = ?G
        and P = "\<lambda>e. \<not> grants_lease e ref" and ev = ev and pre = pre])
    show "?G t \<and> \<not> grants_lease e ref"
      if "session_ok s" "?G s" "session_step s e t" for s e t
      using over_not_granted [OF that] over_advances [OF step_advances [OF that(3)] _ that(2)] that(1)
      by (simp add: session_ok_def)
  qed (auto intro: session_ok_step ended_is_over assms session_ok_new)
  then show ?thesis
    using over_secret_gone [of "ss_registry s" ref]
    by (auto simp: session_ok_def call_ok_def call_cancelled_def)
qed

section \<open>The identity of a lease\<close>

definition bound_to :: "string \<Rightarrow> string \<Rightarrow> session_registry \<Rightarrow> bool" where
  "bound_to ref k r \<longleftrightarrow> phase r ref = PinnedTo k \<or> phase r ref = Dead"

lemma bound_advances:
  assumes "advances r r'" and "registry_ok r" and "bound_to ref k r"
  shows "bound_to ref k r'"
proof -
  from assms(3) obtain p where p: "map_of (sr_entries r) ref = Some p"
    and ph: "entry_phase (entry_at r p) = PinnedTo k \<or> le_revoked (entry_at r p)"
    by (auto simp: bound_to_def phase_def entry_phase_def split: option.splits if_splits)
  have "entry_advances (entry_at r p) (entry_at r' p)"
    using assms(1) registry_entry_index [OF assms(2) p] by (simp add: advances_def)
  then show ?thesis
    using ph map_of_lookup_advances [OF assms(1) p]
    by (auto simp: bound_to_def phase_def entry_advances_def entry_phase_def split: if_splits)
qed

lemma started_phase:
  assumes "session_ok s" and "session_step s (EvBegin n ref i) s'"
  shows "phase (ss_registry s) ref = PinnedTo (identity_key i) \<and>
    phase (ss_registry s') ref = PinnedTo (identity_key i)"
  using assms(2)
  by cases (auto elim!: begin_use_Inr simp: usableLocked_Inr phase_def entry_phase_def)

lemma begun_on_bound:
  assumes "session_run s evs t" and "session_ok s" and "bound_to ref k (ss_registry s)"
    and "EvBegin n ref i \<in> set evs"
  shows "identity_key i = k"
proof -
  let ?P = "\<lambda>e. \<forall>n i. e = EvBegin n ref i \<longrightarrow> identity_key i = k"
  have "bound_to ref k (ss_registry t) \<and> (\<forall>e \<in> set evs. ?P e)"
  proof (rule sessions.run_absorbed [where I = session_ok
        and G = "\<lambda>s. bound_to ref k (ss_registry s)" and P = ?P])
    show "bound_to ref k (ss_registry t) \<and> ?P e"
      if "session_ok s" "bound_to ref k (ss_registry s)" "session_step s e t" for s e t
      using bound_advances [OF step_advances [OF that(3)] _ that(2)] started_phase [OF that(1)] that
      by (auto simp: session_ok_def bound_to_def)
  qed (auto intro: session_ok_step assms)
  with assms(4) show ?thesis by blast
qed

text \<open>
  All calls ever started on one lease were started for the same identity: the byte strings
  \<open>sameIdentity\<close> compares agree, so the identities are equal unless a field contains a NUL byte.
\<close>

theorem lease_identity_fixed:
  assumes "session_run (new_session maximum) evs s"
    and "EvBegin n ref a \<in> set evs" and "EvBegin k ref b \<in> set evs"
  shows "sameIdentity a b \<and> (nul_free a \<longrightarrow> nul_free b \<longrightarrow> a = b)"
proof -
  have "identity_key x = identity_key y"
    if "session_run s0 evs s" "session_ok s0" "EvBegin n ref x \<in> set evs" "EvBegin k ref y \<in> set evs"
    for s0 x y n k
    using that
  proof (induction evs arbitrary: s0)
    case (Cons ev evs)
    then obtain u where u: "session_step s0 ev u" "session_run u evs s" by auto
    have ok: "session_ok u" by (rule session_ok_step [OF Cons.prems(2) u(1)])
    consider "EvBegin n ref x \<in> set evs" "EvBegin k ref y \<in> set evs"
      | "ev = EvBegin n ref x" | "ev = EvBegin k ref y"
      using Cons.prems by auto
    then show ?case
    proof cases
      case 1
      then show ?thesis by (rule Cons.IH [OF u(2) ok])
    next
      case 2
      with started_phase [OF Cons.prems(2)] u(1)
      have "bound_to ref (identity_key x) (ss_registry u)" by (auto simp: bound_to_def)
      with begun_on_bound [OF u(2) ok] 2 Cons.prems(4) show ?thesis
        using started_phase [OF Cons.prems(2)] u(1) by fastforce
    next
      case 3
      with started_phase [OF Cons.prems(2)] u(1)
      have "bound_to ref (identity_key y) (ss_registry u)" by (auto simp: bound_to_def)
      with begun_on_bound [OF u(2) ok] 3 Cons.prems(3) show ?thesis
        using started_phase [OF Cons.prems(2)] u(1) by fastforce
    qed
  qed simp
  from this [OF assms(1) session_ok_new assms(2,3)] show ?thesis
    using identity_key_inj by simp
qed


section \<open>A concrete run\<close>

definition demo_identity :: verified_identity where
  "demo_identity = \<lparr>vi_Provider = ''slack'', vi_WorkspaceID = ''T1'', vi_ChannelID = ''C1'',
     vi_KeyID = '''', vi_CapabilityVersion = ''v1''\<rparr>"

definition demo_options :: lease_options where
  "demo_options = \<lparr>lo_Kind = ''slack_web_api'', lo_Secret = [7, 9], lo_Identity = no_identity\<rparr>"

definition demo_ref :: string where
  "demo_ref = raw_url_base64 (replicate 32 0)"

definition demo_session :: "bool \<Rightarrow> bool \<Rightarrow> bool \<Rightarrow> session_state" where
  "demo_session pinned revoked running =
     \<lparr>ss_registry = \<lparr>sr_maximum = 64, sr_closed = False, sr_entries = [(demo_ref, 0)],
        sr_store = [\<lparr>le_kind = ''slack_web_api'', le_secret = (if revoked then [] else [7, 9]),
          le_identity = (if pinned then demo_identity else no_identity), le_revoked = revoked,
          le_cancelled = revoked\<rparr>]\<rparr>,
      ss_calls = (if running
        then [(\<lparr>lc_ref = demo_ref, lc_entry = 0, lc_secret = [7, 9], lc_identity = demo_identity,
               lc_parent_cancelled = False\<rparr>, True)] else [])\<rparr>"

lemmas demo_simps = demo_session_def demo_options_def demo_identity_def no_identity_def
  valid_identity_def entry_at_def usableLocked_def snapshot_def

lemma demo_registered:
  "session_step (new_session 64) (EvRegister demo_options (Inr (demo_ref,
     \<lparr>cs_Kind = ''slack_web_api'', cs_Identity = no_identity\<rparr>))) (demo_session False False False)"
  using register [of "Some (replicate 32 0, 32)" demo_options "new_session 64"]
  by (simp add: Register_def new_session_def NewSessionRegistry_def randomID_def handleBytes_def
      demo_simps Let_def demo_ref_def [symmetric])

lemma demo_pinned:
  "session_step (demo_session False False False) (EvPin demo_ref demo_identity
     (Inr \<lparr>cs_Kind = ''slack_web_api'', cs_Identity = demo_identity\<rparr>)) (demo_session True False False)"
  using pin [of demo_ref demo_identity "demo_session False False False"]
  by (simp add: PinIdentity_def update_entry_def demo_simps Let_def)

lemma demo_started:
  "session_step (demo_session True False False) (EvBegin 0 demo_ref demo_identity)
     (demo_session True False True)"
  using started [of demo_ref demo_identity True False "demo_session True False False"]
  by (simp add: begin_use_def demo_simps)

lemma demo_revoked:
  "session_step (demo_session True False True) (EvRevoke demo_ref None) (demo_session True True True)"
  using revoke [of demo_ref "demo_session True False True"]
  by (simp add: Revoke_def revokeLocked_def update_entry_def revoked_entry_def demo_simps)

lemma demo_refused:
  "session_step (demo_session True True True) (EvRefused demo_ref demo_identity SessionLeaseRevoked)
     (demo_session True True True)"
  using refused [of demo_ref demo_identity True False "demo_session True True True"]
  by (simp add: begin_use_def demo_simps)

definition demo_events :: "session_event list" where
  "demo_events = [EvRegister demo_options (Inr (demo_ref,
       \<lparr>cs_Kind = ''slack_web_api'', cs_Identity = no_identity\<rparr>)),
     EvPin demo_ref demo_identity (Inr \<lparr>cs_Kind = ''slack_web_api'', cs_Identity = demo_identity\<rparr>),
     EvBegin 0 demo_ref demo_identity]"

lemma demo_used: "session_run (new_session 64) demo_events (demo_session True False True)"
  unfolding demo_events_def
  by (rule run_more [OF demo_registered run_more [OF demo_pinned run_more [OF demo_started run_empty]]])

lemma demo_ended:
  "session_run (new_session 64) (demo_events @ EvRevoke demo_ref None #
     [EvRefused demo_ref demo_identity SessionLeaseRevoked]) (demo_session True True True)"
  unfolding sessions.run_append
  by (intro exI conjI, rule demo_used,
      rule run_more [OF demo_revoked run_more [OF demo_refused run_empty]])


theorem ended_lease_stays_dead_witness:
  "\<not> grants_lease (EvRefused demo_ref demo_identity SessionLeaseRevoked) demo_ref \<and>
   call_cancelled (ss_registry (demo_session True True True))
     (fst (hd (ss_calls (demo_session True True True))))"
  using ended_lease_stays_dead [OF demo_ended, of demo_ref] by (simp add: demo_session_def)

theorem lease_identity_fixed_witness: "sameIdentity demo_identity demo_identity"
  using lease_identity_fixed [OF demo_used, of 0 demo_ref demo_identity 0 demo_identity]
  by (simp add: demo_events_def)

end
