(* ===== verification/PM_Types.thy ===== *)
theory PM_Types
  imports Json_Decode Private_IO "HOL-Library.Product_Lexorder"
begin

text \<open>
  The personal evidence library of \<open>internal/personalmemory\<close> (\<open>types.go\<close>): capture records and
  their superseded revisions, resources, import receipts, the fingerprints over their JSON, and
  the validation of records, resources and whole libraries.

  What the package takes from \<open>internal/contentguard\<close>, \<open>internal/routing\<close> and the clock format is
  collected in one record of parameters, \<open>pm_guards\<close>: whether a text looks like a secret, whether it
  holds a URL that must not be stored, the storable form of a URL (with the flag that says it is
  \<open>URLStorageSensitiveRedacted\<close>), its canonical form, and the parsers of RFC 3339 instants.
\<close>

section \<open>Parameters\<close>

record pm_guards =
  g_sha :: "string \<Rightarrow> string" \<comment> \<open>SHA-256, printed in hexadecimal\<close>
  g_secret :: "string \<Rightarrow> bool"
  g_redact :: "string \<Rightarrow> string \<times> bool"
  g_unsafe_url :: "string \<Rightarrow> bool"
  g_prepare_url :: "string \<Rightarrow> (string \<times> bool) option"
  g_canonicalize :: "string \<Rightarrow> string option"
  g_occurrences :: "string \<Rightarrow> string list"
  g_url_matches :: "string \<Rightarrow> (nat \<times> nat) list"
  g_url_free :: "string \<Rightarrow> string" \<comment> \<open>the URL-free source fingerprint, in hexadecimal\<close>
  g_rfc3339 :: "string \<Rightarrow> int option"
  g_rfc3339nano :: "string \<Rightarrow> int option"

section \<open>Records\<close>

definition LibrarySchemaVersion :: string where
  "LibrarySchemaVersion = ''mindline-personal-evidence-library/v0.4''"

definition CaptureBatchSchemaVersion :: string where
  "CaptureBatchSchemaVersion = ''mindline-personal-capture-batch/v0.1''"

definition AuthorityClass :: string where
  "AuthorityClass = ''personal_evidence_non_authoritative''"

definition MaximumLibraryBytes :: int where "MaximumLibraryBytes = 64 * 2 ^ 20"
definition MaximumExtractedContentBytes :: int where "MaximumExtractedContentBytes = 4 * 2 ^ 20"
definition MaximumRecords :: nat where "MaximumRecords = 100000"
definition MaximumResources :: nat where "MaximumResources = 250000"

record capture_record =
  cr_RecordID :: string
  cr_IdempotencyKey :: string
  cr_SourceAdapter :: string
  cr_SourceScopeID :: string
  cr_SourceContainerID :: string
  cr_ExternalID :: string
  cr_OccurredAt :: string
  cr_AuthorID :: string
  cr_AuthorName :: string
  cr_SourceRef :: string
  cr_RawText :: string
  cr_URLs :: "string slice"
  cr_ResourceIDs :: "string slice"
  cr_ThreadParentID :: string
  cr_AttachmentCount :: int
  cr_PrivateFileCount :: int
  cr_EditDeleteState :: string
  cr_RevisionAt :: string
  cr_ContextState :: string
  cr_Missingness :: "string slice"
  cr_AuthorityClass :: string
  cr_SourceContentFingerprint :: string
  cr_ContentHash :: string

record capture_revision =
  cv_RevisionID :: string
  cv_SupersededAt :: string
  cv_Record :: capture_record

record resource_metadata =
  rm_Title :: string
  rm_Author :: string
  rm_PublishedAt :: string

record resource_excerpt =
  re_ExcerptID :: string
  re_Text :: string
  re_Locator :: string

record related_resource =
  rr_URL :: string
  rr_Relation :: string
  rr_DiscoveryEvidenceRef :: string
  rr_SemanticallyRelevant :: bool

record content_ref =
  ca_ArtifactID :: string
  ca_SHA256 :: string
  ca_ByteLength :: int
  ca_RuneCount :: int
  ca_MediaType :: string
  ca_Completeness :: string
  ca_StorageClass :: string

record resource_context =
  rc_ResourceID :: string
  rc_CanonicalURL :: string
  rc_State :: string
  rc_AccessClass :: string
  rc_RetrievedAt :: string
  rc_Metadata :: resource_metadata
  rc_Excerpts :: "resource_excerpt slice"
  rc_RelatedURLs :: "related_resource slice"
  rc_Missingness :: "string slice"
  rc_Content :: "content_ref option"
  rc_AuthorityClass :: string
  rc_ContentHash :: string

record resource_revision =
  rv_RevisionID :: string
  rv_SupersededAt :: string
  rv_Resource :: resource_context

record import_receipt =
  ir_BatchFingerprint :: string
  ir_SourceIdentity :: string
  ir_LowerInclusive :: string
  ir_UpperInclusive :: string
  ir_Watermark :: string
  ir_DeclaredRecords :: int
  ir_InsertedRecords :: int
  ir_UpdatedRecords :: int
  ir_UnchangedRecords :: int
  ir_TotalRecords :: int
  ir_ImportedAt :: string

record enrichment_receipt =
  er_InputFingerprint :: string
  er_DeclaredResources :: int
  er_InsertedResources :: int
  er_UpdatedResources :: int
  er_UnchangedResources :: int
  er_TotalResources :: int
  er_ImportedAt :: string

record library =
  lb_SchemaVersion :: string
  lb_Revision :: int
  lb_Fingerprint :: string
  lb_Records :: "capture_record slice"
  lb_Revisions :: "capture_revision slice"
  lb_Resources :: "resource_context slice"
  lb_ResourceRevisions :: "resource_revision slice"
  lb_Imports :: "import_receipt slice"
  lb_EnrichmentImports :: "enrichment_receipt slice"

record capture_batch =
  cb_SchemaVersion :: string
  cb_SourceIdentity :: string
  cb_LowerInclusive :: string
  cb_UpperInclusive :: string
  cb_Watermark :: string
  cb_DeclaredRecords :: int
  cb_Records :: "capture_record slice"

text \<open>The elements of the library's slices.\<close>

abbreviation lib_records :: "library \<Rightarrow> capture_record list" where
  "lib_records l \<equiv> slice_list (lb_Records l)"
abbreviation lib_revisions :: "library \<Rightarrow> capture_revision list" where
  "lib_revisions l \<equiv> slice_list (lb_Revisions l)"
abbreviation lib_resources :: "library \<Rightarrow> resource_context list" where
  "lib_resources l \<equiv> slice_list (lb_Resources l)"
abbreviation lib_resource_revisions :: "library \<Rightarrow> resource_revision list" where
  "lib_resource_revisions l \<equiv> slice_list (lb_ResourceRevisions l)"
abbreviation lib_imports :: "library \<Rightarrow> import_receipt list" where
  "lib_imports l \<equiv> slice_list (lb_Imports l)"
abbreviation batch_records :: "capture_batch \<Rightarrow> capture_record list" where
  "batch_records b \<equiv> slice_list (cb_Records b)"

section \<open>Their JSON\<close>

definition json_of_capture :: "capture_record \<Rightarrow> json" where
  "json_of_capture r = JObj
     ([(''record_id'', JStr (cr_RecordID r)), (''idempotency_key'', JStr (cr_IdempotencyKey r)),
       (''source_adapter'', JStr (cr_SourceAdapter r)),
       (''source_scope_id'', JStr (cr_SourceScopeID r)),
       (''source_container_id'', JStr (cr_SourceContainerID r)),
       (''external_id'', JStr (cr_ExternalID r)), (''occurred_at'', JStr (cr_OccurredAt r))] @
      opt_field (cr_AuthorID r \<noteq> '''') ''author_id'' (JStr (cr_AuthorID r)) @
      opt_field (cr_AuthorName r \<noteq> '''') ''author_name'' (JStr (cr_AuthorName r)) @
      [(''source_ref'', JStr (cr_SourceRef r)), (''raw_text'', JStr (cr_RawText r)),
       (''urls'', json_of_slice JStr (cr_URLs r)),
       (''resource_ids'', json_of_slice JStr (cr_ResourceIDs r))] @
      opt_field (cr_ThreadParentID r \<noteq> '''') ''thread_parent_id'' (JStr (cr_ThreadParentID r)) @
      [(''attachment_count'', JInt (cr_AttachmentCount r)),
       (''private_file_count'', JInt (cr_PrivateFileCount r)),
       (''edit_delete_state'', JStr (cr_EditDeleteState r))] @
      opt_field (cr_RevisionAt r \<noteq> '''') ''revision_at'' (JStr (cr_RevisionAt r)) @
      [(''context_state'', JStr (cr_ContextState r)),
       (''missingness'', json_of_slice JStr (cr_Missingness r)),
       (''authority_class'', JStr (cr_AuthorityClass r)),
       (''source_content_fingerprint'', JStr (cr_SourceContentFingerprint r)),
       (''content_hash'', JStr (cr_ContentHash r))])"

definition json_of_revision :: "capture_revision \<Rightarrow> json" where
  "json_of_revision v = JObj
     [(''revision_id'', JStr (cv_RevisionID v)), (''superseded_at'', JStr (cv_SupersededAt v)),
      (''record'', json_of_capture (cv_Record v))]"

definition json_of_metadata :: "resource_metadata \<Rightarrow> json" where
  "json_of_metadata m = JObj
     (opt_field (rm_Title m \<noteq> '''') ''title'' (JStr (rm_Title m)) @
      opt_field (rm_Author m \<noteq> '''') ''author'' (JStr (rm_Author m)) @
      opt_field (rm_PublishedAt m \<noteq> '''') ''published_at'' (JStr (rm_PublishedAt m)))"

definition json_of_excerpt :: "resource_excerpt \<Rightarrow> json" where
  "json_of_excerpt e = JObj
     [(''excerpt_id'', JStr (re_ExcerptID e)), (''text'', JStr (re_Text e)),
      (''locator'', JStr (re_Locator e))]"

definition json_of_related :: "related_resource \<Rightarrow> json" where
  "json_of_related r = JObj
     [(''url'', JStr (rr_URL r)), (''relation'', JStr (rr_Relation r)),
      (''discovery_evidence_ref'', JStr (rr_DiscoveryEvidenceRef r)),
      (''semantically_relevant'', JBool (rr_SemanticallyRelevant r))]"

definition json_of_content_ref :: "content_ref \<Rightarrow> json" where
  "json_of_content_ref c = JObj
     [(''artifact_id'', JStr (ca_ArtifactID c)), (''sha256'', JStr (ca_SHA256 c)),
      (''byte_length'', JInt (ca_ByteLength c)), (''rune_count'', JInt (ca_RuneCount c)),
      (''media_type'', JStr (ca_MediaType c)), (''completeness'', JStr (ca_Completeness c)),
      (''storage_class'', JStr (ca_StorageClass c))]"

definition json_of_resource :: "resource_context \<Rightarrow> json" where
  "json_of_resource r = JObj
     ([(''resource_id'', JStr (rc_ResourceID r)), (''canonical_url'', JStr (rc_CanonicalURL r)),
       (''state'', JStr (rc_State r)), (''access_class'', JStr (rc_AccessClass r))] @
      opt_field (rc_RetrievedAt r \<noteq> '''') ''retrieved_at'' (JStr (rc_RetrievedAt r)) @
      [(''public_metadata'', json_of_metadata (rc_Metadata r)),
       (''public_excerpts'', json_of_slice json_of_excerpt (rc_Excerpts r)),
       (''related_urls'', json_of_slice json_of_related (rc_RelatedURLs r)),
       (''missingness'', json_of_slice JStr (rc_Missingness r))] @
      (case rc_Content r of None \<Rightarrow> [] | Some c \<Rightarrow> [(''content'', json_of_content_ref c)]) @
      [(''authority_class'', JStr (rc_AuthorityClass r)),
       (''content_hash'', JStr (rc_ContentHash r))])"

definition json_of_resource_revision :: "resource_revision \<Rightarrow> json" where
  "json_of_resource_revision v = JObj
     [(''revision_id'', JStr (rv_RevisionID v)), (''superseded_at'', JStr (rv_SupersededAt v)),
      (''resource'', json_of_resource (rv_Resource v))]"

definition json_of_import :: "import_receipt \<Rightarrow> json" where
  "json_of_import i = JObj
     [(''batch_fingerprint'', JStr (ir_BatchFingerprint i)),
      (''source_identity'', JStr (ir_SourceIdentity i)),
      (''lower_inclusive'', JStr (ir_LowerInclusive i)),
      (''upper_inclusive'', JStr (ir_UpperInclusive i)), (''watermark'', JStr (ir_Watermark i)),
      (''declared_records'', JInt (ir_DeclaredRecords i)),
      (''inserted_records'', JInt (ir_InsertedRecords i)),
      (''updated_records'', JInt (ir_UpdatedRecords i)),
      (''unchanged_records'', JInt (ir_UnchangedRecords i)),
      (''total_records'', JInt (ir_TotalRecords i)), (''imported_at'', JStr (ir_ImportedAt i))]"

definition json_of_enrichment_receipt :: "enrichment_receipt \<Rightarrow> json" where
  "json_of_enrichment_receipt e = JObj
     [(''input_fingerprint'', JStr (er_InputFingerprint e)),
      (''declared_resources'', JInt (er_DeclaredResources e)),
      (''inserted_resources'', JInt (er_InsertedResources e)),
      (''updated_resources'', JInt (er_UpdatedResources e)),
      (''unchanged_resources'', JInt (er_UnchangedResources e)),
      (''total_resources'', JInt (er_TotalResources e)), (''imported_at'', JStr (er_ImportedAt e))]"

definition json_of_library :: "library \<Rightarrow> json" where
  "json_of_library l = JObj
     [(''schema_version'', JStr (lb_SchemaVersion l)), (''revision'', JInt (lb_Revision l)),
      (''fingerprint'', JStr (lb_Fingerprint l)),
      (''records'', json_of_slice json_of_capture (lb_Records l)),
      (''revisions'', json_of_slice json_of_revision (lb_Revisions l)),
      (''resources'', json_of_slice json_of_resource (lb_Resources l)),
      (''resource_revisions'', json_of_slice json_of_resource_revision (lb_ResourceRevisions l)),
      (''imports'', json_of_slice json_of_import (lb_Imports l)),
      (''enrichment_imports'', json_of_slice json_of_enrichment_receipt (lb_EnrichmentImports l))]"


section \<open>Fingerprints and identities\<close>

definition fingerprintRecord :: "pm_guards \<Rightarrow> capture_record \<Rightarrow> string" where
  "fingerprintRecord g r = fingerprint_of (g_sha g) (json_of_capture (r\<lparr>cr_ContentHash := ''''\<rparr>))"

definition fingerprintResource :: "pm_guards \<Rightarrow> resource_context \<Rightarrow> string" where
  "fingerprintResource g r = fingerprint_of (g_sha g) (json_of_resource (r\<lparr>rc_ContentHash := ''''\<rparr>))"

definition fingerprintLibrary :: "pm_guards \<Rightarrow> library \<Rightarrow> string" where
  "fingerprintLibrary g l = fingerprint_of (g_sha g) (json_of_library (l\<lparr>lb_Fingerprint := ''''\<rparr>))"

definition stable_id :: "pm_guards \<Rightarrow> string \<Rightarrow> string \<Rightarrow> string" where
  "stable_id g prefix value = prefix @ take 24 (g_sha g value)"

definition stableRecordID :: "pm_guards \<Rightarrow> string \<Rightarrow> string" where
  "stableRecordID g value = stable_id g ''capture-'' value"

definition stableRevisionID :: "pm_guards \<Rightarrow> capture_record \<Rightarrow> string" where
  "stableRevisionID g r =
     stable_id g ''revision-'' (cr_IdempotencyKey r @ [CHR 0x00] @ cr_ContentHash r)"

definition stableResourceID :: "pm_guards \<Rightarrow> string \<Rightarrow> string" where
  "stableResourceID g value = stable_id g ''resource-'' value"

definition stableResourceRevisionID :: "pm_guards \<Rightarrow> resource_context \<Rightarrow> string" where
  "stableResourceRevisionID g r =
     stable_id g ''resource-revision-'' (rc_ResourceID r @ [CHR 0x00] @ rc_ContentHash r)"

definition hex_digit :: "char \<Rightarrow> bool" where
  "hex_digit c \<longleftrightarrow> (let n = of_char c :: nat in
     (48 \<le> n \<and> n \<le> 57) \<or> (97 \<le> n \<and> n \<le> 102) \<or> (65 \<le> n \<and> n \<le> 70))"

definition validSHA256 :: "string \<Rightarrow> bool" where
  "validSHA256 value \<longleftrightarrow> length value = 64 \<and> list_all hex_digit value"

text \<open>
  \<open>len([]rune(s))\<close>: a byte that does not start a valid encoding counts as one rune.
\<close>

definition rune_width :: "nat list \<Rightarrow> nat" where
  "rune_width bs =
     (case List.find (\<lambda>k. k \<le> length bs \<and> utf8_count (take k bs) = Some 1) [1, 2, 3, 4] of
        Some k \<Rightarrow> k | None \<Rightarrow> 1)"

lemma rune_width_pos: "0 < rune_width bs"
  by (auto simp: rune_width_def split: option.splits)

function rune_len :: "nat list \<Rightarrow> nat" where
  "rune_len [] = 0"
| "rune_len (b # bs) = Suc (rune_len (drop (rune_width (b # bs)) (b # bs)))"
  by pat_completeness auto
termination
  by (relation "measure length") (simp_all add: rune_width_pos diff_less)

definition rune_count :: "string \<Rightarrow> int" where
  "rune_count s = int (rune_len (map of_char s))"

section \<open>Sealing\<close>

definition EmptyLibrary :: "pm_guards \<Rightarrow> library" where
  "EmptyLibrary g =
     (let l = \<lparr>lb_SchemaVersion = LibrarySchemaVersion, lb_Revision = 0, lb_Fingerprint = '''',
               lb_Records = Some [], lb_Revisions = Some [], lb_Resources = Some [],
               lb_ResourceRevisions = Some [], lb_Imports = Some [], lb_EnrichmentImports = Some []\<rparr>
      in l\<lparr>lb_Fingerprint := fingerprintLibrary g l\<rparr>)"

definition sorted_library :: "library \<Rightarrow> library" where
  "sorted_library l =
     l\<lparr>lb_SchemaVersion := LibrarySchemaVersion,
       lb_Records := map_option (sort_key cr_IdempotencyKey) (lb_Records l),
       lb_Resources := map_option (sort_key rc_CanonicalURL) (lb_Resources l),
       lb_Revisions := map_option (sort_key cv_RevisionID) (lb_Revisions l),
       lb_ResourceRevisions := map_option (sort_key rv_RevisionID) (lb_ResourceRevisions l),
       lb_Imports := map_option (sort_key (\<lambda>i. (ir_ImportedAt i, ir_BatchFingerprint i))) (lb_Imports l),
       lb_EnrichmentImports := map_option (sort_key (\<lambda>e. (er_ImportedAt e, er_InputFingerprint e)))
         (lb_EnrichmentImports l)\<rparr>"

definition sealLibrary :: "pm_guards \<Rightarrow> library \<Rightarrow> library" where
  "sealLibrary g l =
     (let s = (sorted_library l)\<lparr>lb_Fingerprint := ''''\<rparr>
      in s\<lparr>lb_Fingerprint := fingerprintLibrary g s\<rparr>)"

section \<open>Validation\<close>

text \<open>
  The callers of the validators only look at whether there is an error, so they are predicates.
\<close>

definition joined :: "string \<Rightarrow> string list \<Rightarrow> string" where
  "joined sep parts = concat (case parts of [] \<Rightarrow> [] | p # ps \<Rightarrow> p # map (\<lambda>x. sep @ x) ps)"

definition unsafe_texts :: "pm_guards \<Rightarrow> string list \<Rightarrow> bool" where
  "unsafe_texts g parts \<longleftrightarrow> list_ex (g_secret g) parts \<or> g_unsafe_url g (joined [CHR 0x0A] parts)"

definition stored_url :: "pm_guards \<Rightarrow> string \<Rightarrow> bool" where
  "stored_url g url \<longleftrightarrow> g_prepare_url g url = Some (url, False)"

definition chronology_ok :: "pm_guards \<Rightarrow> capture_record \<Rightarrow> bool" where
  "chronology_ok g r \<longleftrightarrow> cr_RevisionAt r = '''' \<or>
     (case (g_rfc3339nano g (cr_RevisionAt r), g_rfc3339nano g (cr_OccurredAt r)) of
        (Some revision, Some occurred) \<Rightarrow> occurred < revision
      | _ \<Rightarrow> False)"

definition validateRecord :: "pm_guards \<Rightarrow> capture_record \<Rightarrow> bool" where
  "validateRecord g r \<longleftrightarrow>
     list_all (\<lambda>v. \<not> blank v)
       [cr_RecordID r, cr_IdempotencyKey r, cr_SourceAdapter r, cr_SourceScopeID r,
        cr_SourceContainerID r, cr_ExternalID r, cr_OccurredAt r, cr_SourceRef r, cr_RawText r,
        cr_ContextState r, cr_AuthorityClass r, cr_SourceContentFingerprint r, cr_ContentHash r] \<and>
     cr_AuthorityClass r = AuthorityClass \<and> validSHA256 (cr_SourceContentFingerprint r) \<and>
     validSHA256 (cr_ContentHash r) \<and>
     \<not> unsafe_texts g
       [cr_IdempotencyKey r, cr_SourceAdapter r, cr_SourceScopeID r, cr_SourceContainerID r,
        cr_ExternalID r, cr_AuthorID r, cr_AuthorName r, cr_SourceRef r, cr_RawText r,
        cr_ThreadParentID r, cr_EditDeleteState r, cr_RevisionAt r,
        joined '' '' (slice_list (cr_Missingness r))] \<and>
     cr_ContentHash r = fingerprintRecord g r \<and>
     length (slice_list (cr_URLs r)) = length (slice_list (cr_ResourceIDs r)) \<and>
     list_all2 (\<lambda>url rid. stored_url g url \<and> rid = stableResourceID g url)
       (slice_list (cr_URLs r)) (slice_list (cr_ResourceIDs r)) \<and>
     cr_ContextState r \<in> {''source_complete'', ''secret_redacted'', ''empty_source'', ''deleted_tombstone''} \<and>
     cr_EditDeleteState r \<in> {''original'', ''edited'', ''deleted'', ''tombstone''} \<and>
     chronology_ok g r \<and>
     \<not> (cr_AttachmentCount r < 0 \<or> cr_PrivateFileCount r < 0 \<or>
        cr_PrivateFileCount r > cr_AttachmentCount r)"

definition validateContentReference :: "pm_guards \<Rightarrow> content_ref \<Rightarrow> bool" where
  "validateContentReference g c \<longleftrightarrow>
     \<not> blank (ca_ArtifactID c) \<and> ca_ArtifactID c = ''content-'' @ ca_SHA256 c \<and>
     validSHA256 (ca_SHA256 c) \<and> 1 \<le> ca_ByteLength c \<and>
     ca_ByteLength c \<le> MaximumExtractedContentBytes \<and> 1 \<le> ca_RuneCount c \<and>
     \<not> blank (ca_MediaType c) \<and> rune_count (ca_MediaType c) \<le> 256 \<and>
     \<not> g_secret g (ca_MediaType c) \<and> \<not> g_unsafe_url g (ca_MediaType c) \<and>
     ca_StorageClass c = ''owner_only_content_addressed_file'' \<and>
     ca_Completeness c \<in> {''full'', ''partial''}"

definition excerpts_ok :: "resource_excerpt list \<Rightarrow> bool" where
  "excerpts_ok es \<longleftrightarrow>
     list_all (\<lambda>e. \<not> blank (re_ExcerptID e) \<and> \<not> blank (re_Text e) \<and> \<not> blank (re_Locator e) \<and>
       rune_count (re_Text e) \<le> 1000) es \<and>
     \<not> has_dup (map re_ExcerptID es) \<and> sum_list (map (\<lambda>e. rune_count (re_Text e)) es) \<le> 4000"

definition validateResource :: "pm_guards \<Rightarrow> resource_context \<Rightarrow> bool" where
  "validateResource g r \<longleftrightarrow>
     \<not> blank (rc_ResourceID r) \<and> \<not> blank (rc_CanonicalURL r) \<and>
     rc_AuthorityClass r = AuthorityClass \<and> validSHA256 (rc_ContentHash r) \<and>
     rc_ResourceID r = stableResourceID g (rc_CanonicalURL r) \<and>
     rc_ContentHash r = fingerprintResource g r \<and> stored_url g (rc_CanonicalURL r) \<and>
     (rc_RetrievedAt r = '''' \<or> g_rfc3339 g (rc_RetrievedAt r) \<noteq> None) \<and>
     \<not> unsafe_texts g
       ([rm_Title (rc_Metadata r), rm_Author (rc_Metadata r), rm_PublishedAt (rc_Metadata r),
         joined '' '' (slice_list (rc_Missingness r))] @
        concat (map (\<lambda>e. [re_ExcerptID e, re_Text e, re_Locator e]) (slice_list (rc_Excerpts r))) @
        concat (map (\<lambda>x. [rr_Relation x, rr_DiscoveryEvidenceRef x]) (slice_list (rc_RelatedURLs r)))) \<and>
     rc_State r \<in> {''complete'', ''partial'', ''inaccessible'', ''failed'', ''not_attempted''} \<and>
     rc_AccessClass r \<in> {''public'', ''private'', ''authenticated'', ''unsupported''} \<and>
     \<not> (rc_State r = ''complete'' \<and> rc_Content r = None) \<and>
     \<not> (rc_State r = ''inaccessible'' \<and>
        (slice_list (rc_Excerpts r) \<noteq> [] \<or> slice_list (rc_Missingness r) = [])) \<and>
     excerpts_ok (slice_list (rc_Excerpts r)) \<and>
     list_all (\<lambda>x. \<not> blank (rr_URL x) \<and> rr_Relation x = ''source_links_to'' \<and>
       rr_DiscoveryEvidenceRef x \<in> re_ExcerptID ` set (slice_list (rc_Excerpts r)) \<and>
       stored_url g (rr_URL x)) (slice_list (rc_RelatedURLs r)) \<and>
     (case rc_Content r of None \<Rightarrow> True | Some c \<Rightarrow> validateContentReference g c)"

definition revision_ok :: "pm_guards \<Rightarrow> string set \<Rightarrow> capture_revision \<Rightarrow> bool" where
  "revision_ok g resource_ids v \<longleftrightarrow>
     \<not> blank (cv_RevisionID v) \<and> g_rfc3339nano g (cv_SupersededAt v) \<noteq> None \<and>
     validateRecord g (cv_Record v) \<and> cv_RevisionID v = stableRevisionID g (cv_Record v) \<and>
     set (slice_list (cr_ResourceIDs (cv_Record v))) \<subseteq> resource_ids"

definition resource_revision_ok :: "pm_guards \<Rightarrow> string set \<Rightarrow> resource_revision \<Rightarrow> bool" where
  "resource_revision_ok g resource_ids v \<longleftrightarrow>
     \<not> blank (rv_RevisionID v) \<and> g_rfc3339nano g (rv_SupersededAt v) \<noteq> None \<and>
     validateResource g (rv_Resource v) \<and>
     rv_RevisionID v = stableResourceRevisionID g (rv_Resource v) \<and>
     rc_ResourceID (rv_Resource v) \<in> resource_ids"

definition validateLibrary :: "pm_guards \<Rightarrow> library \<Rightarrow> bool" where
  "validateLibrary g l \<longleftrightarrow>
     lb_SchemaVersion l = LibrarySchemaVersion \<and>
     length (lib_records l) + length (lib_revisions l) \<le> MaximumRecords \<and>
     length (lib_resources l) + length (lib_resource_revisions l) \<le> MaximumResources \<and>
     lb_Fingerprint l \<noteq> '''' \<and> lb_Fingerprint l = fingerprintLibrary g l \<and>
     list_all (validateResource g) (lib_resources l) \<and>
     \<not> has_dup (map rc_ResourceID (lib_resources l)) \<and>
     \<not> has_dup (map rc_CanonicalURL (lib_resources l)) \<and>
     (let ids = set (map rc_ResourceID (lib_resources l)) in
       list_all (\<lambda>r. validateRecord g r \<and> set (slice_list (cr_ResourceIDs r)) \<subseteq> ids) (lib_records l) \<and>
       \<not> has_dup (map cr_RecordID (lib_records l)) \<and>
       \<not> has_dup (map cr_IdempotencyKey (lib_records l)) \<and>
       list_all (revision_ok g ids) (lib_revisions l) \<and>
       \<not> has_dup (map cv_RevisionID (lib_revisions l)) \<and>
       list_all (resource_revision_ok g ids) (lib_resource_revisions l) \<and>
       \<not> has_dup (map rv_RevisionID (lib_resource_revisions l)))"

text \<open>
  \<open>validateCaptureBatch\<close> and the fingerprint that identifies a batch once imported.
\<close>

definition validateCaptureBatch :: "pm_guards \<Rightarrow> capture_batch \<Rightarrow> bool" where
  "validateCaptureBatch g b \<longleftrightarrow>
     cb_SchemaVersion b = CaptureBatchSchemaVersion \<and> cb_SourceIdentity b \<noteq> '''' \<and>
     cb_LowerInclusive b \<noteq> '''' \<and> cb_UpperInclusive b \<noteq> '''' \<and> cb_Watermark b \<noteq> '''' \<and>
     cb_DeclaredRecords b = int (length (batch_records b)) \<and>
     length (batch_records b) \<le> MaximumRecords \<and>
     \<not> unsafe_texts g [cb_SourceIdentity b, cb_LowerInclusive b, cb_UpperInclusive b, cb_Watermark b] \<and>
     list_all (validateRecord g) (batch_records b) \<and>
     \<not> has_dup (map cr_IdempotencyKey (batch_records b))"

definition captureBatchFingerprint :: "pm_guards \<Rightarrow> capture_batch \<Rightarrow> string" where
  "captureBatchFingerprint g b = fingerprint_of (g_sha g) (JObj
     [(''SchemaVersion'', JStr (cb_SchemaVersion b)), (''SourceIdentity'', JStr (cb_SourceIdentity b)),
      (''LowerInclusive'', JStr (cb_LowerInclusive b)), (''UpperInclusive'', JStr (cb_UpperInclusive b)),
      (''Watermark'', JStr (cb_Watermark b)), (''DeclaredRecords'', JInt (cb_DeclaredRecords b)),
      (''Records'', JArr (map (\<lambda>r. JObj
         [(''record_id'', JStr (cr_RecordID r)), (''content_hash'', JStr (cr_ContentHash r))])
         (batch_records b)))])"

end
