(* ===== verification/PM_Capture.thy ===== *)
theory PM_Capture
  imports PM_Types
begin

text \<open>
  Constructing capture records and batches (\<open>internal/personalmemory/capture.go\<close>): identity,
  redaction of secrets and of URLs that must not be stored, the context state, the missingness
  notes, and the sealing and validation of the result. The lemmas show that a record
  constructed here is valid and carries the identity of its source item.
\<close>

section \<open>Inputs\<close>

record capture_input =
  ci_SourceAdapter :: string
  ci_SourceScopeID :: string
  ci_SourceContainerID :: string
  ci_ExternalID :: string
  ci_OccurredAt :: string
  ci_AuthorID :: string
  ci_AuthorName :: string
  ci_SourceRef :: string
  ci_RawText :: string
  ci_ThreadParentID :: string
  ci_AttachmentCount :: int
  ci_PrivateFileCount :: int
  ci_EditDeleteState :: string
  ci_RevisionAt :: string
  ci_Missingness :: "string list"

section \<open>Texts\<close>

definition trim_right_set :: "string \<Rightarrow> string \<Rightarrow> string" where
  "trim_right_set cutset s = rev (dropWhile (\<lambda>c. c \<in> set cutset) (rev s))"

text \<open>
  \<open>sanitizeTextURLs\<close> over the matches of the URL pattern: \<open>done_at\<close> is the end of the text already
  copied; the result also says whether a URL was redacted.
\<close>

definition slice_of :: "string \<Rightarrow> nat \<Rightarrow> nat \<Rightarrow> string" where
  "slice_of s m n = take (n - m) (drop m s)"

fun sanitize_matches :: "pm_guards \<Rightarrow> string \<Rightarrow> nat \<Rightarrow> (nat \<times> nat) list \<Rightarrow> string \<times> bool" where
  "sanitize_matches g value done_at [] = (drop done_at value, False)"
| "sanitize_matches g value done_at ((m, n) # ms) =
     (let raw = trim_right_set ''.,;:!?)]}'' (slice_of value m n);
          suffix = slice_of value (m + length raw) n;
          (rest, redacted) = sanitize_matches g value n ms;
          before = slice_of value done_at m
      in case g_prepare_url g raw of
           Some (safe, sensitive) \<Rightarrow>
             if sensitive \<or> safe = ''''
             then (before @ ''[mindline-sensitive-url-redacted]'' @ suffix @ rest, True)
             else (before @ safe @ suffix @ rest, redacted)
         | None \<Rightarrow> (before @ ''[mindline-sensitive-url-redacted]'' @ suffix @ rest, True))"

definition sanitizeTextURLs :: "pm_guards \<Rightarrow> string \<Rightarrow> string \<times> bool" where
  "sanitizeTextURLs g value =
     (if g_url_matches g value = [] then (value, False)
      else sanitize_matches g value 0 (g_url_matches g value))"

fun unique_trimmed :: "string list \<Rightarrow> string list \<Rightarrow> string list" where
  "unique_trimmed seen [] = []"
| "unique_trimmed seen (v # vs) =
     (let t = trim_space v in
      if t = '''' \<or> t \<in> set seen then unique_trimmed seen vs
      else t # unique_trimmed (t # seen) vs)"

definition uniqueSorted :: "string list \<Rightarrow> string list" where
  "uniqueSorted values = sort (unique_trimmed [] values)"

definition safe_url :: "pm_guards \<Rightarrow> string \<Rightarrow> string option" where
  "safe_url g raw =
     (case g_prepare_url g raw of
        Some (safe, sensitive) \<Rightarrow>
          if sensitive \<or> safe = '''' then None else g_canonicalize g safe
      | None \<Rightarrow> None)"

definition safeURLsFromText :: "pm_guards \<Rightarrow> string \<Rightarrow> string list" where
  "safeURLsFromText g value = uniqueSorted (List.map_filter (safe_url g) (g_occurrences g value))"

section \<open>Records\<close>

text \<open>The source reference as it is stored, unless it must not be.\<close>

definition stored_source_ref :: "pm_guards \<Rightarrow> string \<Rightarrow> string option" where
  "stored_source_ref g ref0 =
     (let ref = trim_space ref0 in
      if ref = '''' \<or> g_secret g ref \<or> g_unsafe_url g ref then None
      else if starts_with ''http://'' ref \<or> starts_with ''https://'' ref then
        (case g_prepare_url g ref of
           Some (safe, sensitive) \<Rightarrow> if sensitive \<or> safe = '''' then None else Some safe
         | None \<Rightarrow> None)
      else Some ref)"

definition input_chronology_ok :: "pm_guards \<Rightarrow> string \<Rightarrow> string \<Rightarrow> bool" where
  "input_chronology_ok g occurred revision \<longleftrightarrow> g_rfc3339 g occurred \<noteq> None \<and>
     (revision = '''' \<or>
      (case (g_rfc3339 g revision, g_rfc3339 g occurred) of
         (Some r, Some o') \<Rightarrow> o' < r | _ \<Rightarrow> False))"

definition source_deleted :: "string \<Rightarrow> bool" where
  "source_deleted state \<longleftrightarrow> state = ''deleted'' \<or> state = ''tombstone''"

text \<open>The stored text, its context state and the notes that go with it.\<close>

definition captured_text ::
  "pm_guards \<Rightarrow> string \<Rightarrow> string \<Rightarrow> string \<times> string \<times> string list" where
  "captured_text g raw_input state =
     (let (redacted_text, redacted) = g_redact g raw_input;
          (text1, context1, notes1) =
            (if redacted then (redacted_text, ''secret_redacted'', [''secret_like_content_redacted''])
             else (raw_input, ''source_complete'', []));
          (text2, context2, notes2) =
            (if text1 = '''' then (''[Capture has no text]'', ''empty_source'', notes1 @ [''source_text_empty''])
             else (let (text, url_redacted) = sanitizeTextURLs g text1 in
               (text, context1, notes1 @ (if url_redacted then [''sensitive_url_redacted''] else []))))
      in if source_deleted state
         then (''[Source item deleted; tombstone retained]'', ''deleted_tombstone'',
               notes2 @ [''source_content_deleted''])
         else (text2, context2, notes2))"

definition captured_author :: "pm_guards \<Rightarrow> string \<Rightarrow> string \<Rightarrow> string \<times> string \<times> string list" where
  "captured_author g author_id author_name =
     (let i = trim_space author_id; n = trim_space author_name in
      if g_secret g i \<or> g_secret g n \<or> g_unsafe_url g (i @ [CHR 0x0A] @ n)
      then ('''', '''', [''author_metadata_redacted''])
      else (fst (sanitizeTextURLs g i), fst (sanitizeTextURLs g n), []))"

definition captured_parent :: "pm_guards \<Rightarrow> string \<Rightarrow> string \<times> string list" where
  "captured_parent g parent =
     (let p = trim_space parent in
      if g_secret g p \<or> g_unsafe_url g p then ('''', [''thread_parent_redacted'']) else (p, []))"

definition idempotency_key :: "string \<Rightarrow> string \<Rightarrow> string \<Rightarrow> string \<Rightarrow> string" where
  "idempotency_key adapter scope container external =
     joined '':'' [adapter, scope, container, external]"

definition built_record :: "pm_guards \<Rightarrow> capture_input \<Rightarrow> string \<Rightarrow> capture_record" where
  "built_record g i source_ref =
     (let adapter = trim_space (ci_SourceAdapter i); scope = trim_space (ci_SourceScopeID i);
          container = trim_space (ci_SourceContainerID i); external = trim_space (ci_ExternalID i);
          raw_input = trim_space (ci_RawText i);
          (text, context, notes) = captured_text g raw_input (ci_EditDeleteState i);
          (author_id, author_name, author_notes) = captured_author g (ci_AuthorID i) (ci_AuthorName i);
          (parent, parent_notes) = captured_parent g (ci_ThreadParentID i);
          attachment_notes =
            (if ci_AttachmentCount i > 0 then [''attachment_content_not_captured''] else []) @
            (if ci_PrivateFileCount i > 0 then [''private_file_content_not_captured''] else []);
          urls = safeURLsFromText g raw_input;
          state = trim_space (ci_EditDeleteState i);
          key = idempotency_key adapter scope container external;
          r = \<lparr>cr_RecordID = stableRecordID g key, cr_IdempotencyKey = key,
               cr_SourceAdapter = adapter, cr_SourceScopeID = scope, cr_SourceContainerID = container,
               cr_ExternalID = external, cr_OccurredAt = trim_space (ci_OccurredAt i),
               cr_AuthorID = author_id, cr_AuthorName = author_name, cr_SourceRef = source_ref,
               cr_RawText = text, cr_URLs = Some urls,
               cr_ResourceIDs = Some (map (stableResourceID g) urls), cr_ThreadParentID = parent,
               cr_AttachmentCount = ci_AttachmentCount i, cr_PrivateFileCount = ci_PrivateFileCount i,
               cr_EditDeleteState = (if state = '''' then ''original'' else state),
               cr_RevisionAt = trim_space (ci_RevisionAt i), cr_ContextState = context,
               cr_Missingness = Some (uniqueSorted
                 (ci_Missingness i @ notes @ attachment_notes @ author_notes @ parent_notes)),
               cr_AuthorityClass = AuthorityClass,
               cr_SourceContentFingerprint = g_url_free g text, cr_ContentHash = ''''\<rparr>
      in r\<lparr>cr_ContentHash := fingerprintRecord g r\<rparr>)"

definition NewCaptureRecord :: "pm_guards \<Rightarrow> capture_input \<Rightarrow> capture_record option" where
  "NewCaptureRecord g i =
     (if trim_space (ci_SourceAdapter i) = '''' \<or> trim_space (ci_SourceScopeID i) = '''' \<or>
         trim_space (ci_SourceContainerID i) = '''' \<or> trim_space (ci_ExternalID i) = '''' \<or>
         \<not> input_chronology_ok g (trim_space (ci_OccurredAt i)) (trim_space (ci_RevisionAt i))
      then None
      else case stored_source_ref g (ci_SourceRef i) of
        None \<Rightarrow> None
      | Some source_ref \<Rightarrow>
          let r = built_record g i source_ref in
          if validateRecord g r then Some r else None)"

section \<open>Batches\<close>

record capture_batch_input =
  bi_SourceIdentity :: string
  bi_LowerInclusive :: string
  bi_UpperInclusive :: string
  bi_Watermark :: string
  bi_DeclaredRecords :: int
  bi_Records :: "capture_record list"

definition NewCaptureBatch :: "pm_guards \<Rightarrow> capture_batch_input \<Rightarrow> capture_batch option" where
  "NewCaptureBatch g i =
     (let records = sort_key (\<lambda>r. (cr_OccurredAt r, cr_ExternalID r)) (bi_Records i);
          b = \<lparr>cb_SchemaVersion = CaptureBatchSchemaVersion,
               cb_SourceIdentity = trim_space (bi_SourceIdentity i),
               cb_LowerInclusive = trim_space (bi_LowerInclusive i),
               cb_UpperInclusive = trim_space (bi_UpperInclusive i),
               cb_Watermark = trim_space (bi_Watermark i),
               cb_DeclaredRecords = bi_DeclaredRecords i,
               cb_Records = (if bi_Records i = [] then None else Some records)\<rparr>
      in if validateCaptureBatch g b then Some b else None)"

section \<open>What is constructed is valid\<close>

lemma NewCaptureRecord_valid:
  assumes "NewCaptureRecord g i = Some r"
  shows "validateRecord g r"
  using assms by (auto simp: NewCaptureRecord_def Let_def split: if_splits option.splits)

lemma NewCaptureRecord_identity:
  assumes "NewCaptureRecord g i = Some r"
  shows "cr_IdempotencyKey r = idempotency_key (trim_space (ci_SourceAdapter i))
      (trim_space (ci_SourceScopeID i)) (trim_space (ci_SourceContainerID i))
      (trim_space (ci_ExternalID i))"
    and "cr_RecordID r = stableRecordID g (cr_IdempotencyKey r)"
  using assms
  by (auto simp: NewCaptureRecord_def built_record_def Let_def case_prod_beta'
      split: if_splits option.splits)

lemma NewCaptureBatch_valid:
  assumes "NewCaptureBatch g i = Some b"
  shows "validateCaptureBatch g b" and "mset (batch_records b) = mset (bi_Records i)"
    and "cb_DeclaredRecords b = bi_DeclaredRecords i"
  using assms
  by (auto simp: NewCaptureBatch_def Let_def split: if_splits)

end
