(* ===== verification/PM_Repository.thy ===== *)
theory PM_Repository
  imports PM_Types
begin

text \<open>
  The file repository of \<open>internal/personalmemory/repository.go\<close>: \<open>Load\<close>, the import of a set of
  capture batches under one lock with its chronology checks and receipts, the bounded write with
  its backup, and \<open>Status\<close> with its cache. The library file holds a document or garbled bytes
  (theory \<open>Private_IO\<close>); its size is the length of the canonical JSON and a line feed.

  Go maps from keys to records are lookups in the lists they are built from, the last entry
  first; the order in which the keys of an envelope are checked is unspecified in Go and only
  decides which of the messages of \<open>EnvelopeRefused\<close> is returned.
\<close>

section \<open>State and environment\<close>

record pm_status =
  ps_SchemaVersion :: string
  ps_Revision :: int
  ps_Fingerprint :: string
  ps_RecordCount :: int
  ps_ResourceCount :: int
  ps_HistoricalRevisionCount :: int
  ps_HistoricalResourceCount :: int
  ps_ImportCount :: int
  ps_EnrichmentImportCount :: int
  ps_AuthorityClass :: string

record status_cache =
  sc_fileExists :: bool
  sc_fileSize :: int
  sc_modifiedAt :: int
  sc_status :: pm_status

record pm_repo =
  pr_disk :: "library disk"
  pr_modified :: int
  pr_cache :: "status_cache option"

record pm_env =
  pe_io :: io_env
  pe_lock_busy :: bool
  pe_read_fails :: bool
  pe_prior_lstat_fails :: bool
  pe_prior_read_fails :: bool
  pe_stat_fails :: bool \<comment> \<open>\<open>Lstat\<close> fails other than for a missing file, or the mode is wrong\<close>
  pe_mtime :: int \<comment> \<open>the modification time a write leaves\<close>
  pe_now :: "nat \<Rightarrow> string" \<comment> \<open>the instant formatted for the n-th batch of an import\<close>

datatype pm_error =
    EmptyBatchSet | InvalidCaptureBatch | InvalidAdmissionLimit | LibraryBusy | LibraryUnavailable
  | EnvelopeRefused | LibraryTooLarge | InvalidEnrichment | ContentUnavailable

definition MaximumCaptureLibraryBytes :: int where
  "MaximumCaptureLibraryBytes = 48 * 2 ^ 20"

definition library_bytes :: "library blob \<Rightarrow> int" where
  "library_bytes b =
     (case b of Doc l \<Rightarrow> int (length (encode (json_of_library l))) + 1 | Garbled s \<Rightarrow> int (length s))"

definition valid_library_blob :: "pm_guards \<Rightarrow> library blob \<Rightarrow> bool" where
  "valid_library_blob g b = (case b of Doc l \<Rightarrow> validateLibrary g l | Garbled _ \<Rightarrow> False)"

definition pm_load :: "pm_guards \<Rightarrow> pm_env \<Rightarrow> pm_repo \<Rightarrow> (pm_error, library) result" where
  "pm_load g env rp =
     (case current_file (pr_disk rp) of
        None \<Rightarrow> Inr (EmptyLibrary g)
      | Some b \<Rightarrow>
          if pe_read_fails env \<or> library_bytes b > MaximumLibraryBytes then Inl LibraryUnavailable
          else case b of
            Garbled _ \<Rightarrow> Inl LibraryUnavailable
          | Doc l \<Rightarrow> if validateLibrary g l then Inr l else Inl LibraryUnavailable)"

section \<open>What an envelope may change\<close>

definition isDeletedCapture :: "capture_record \<Rightarrow> bool" where
  "isDeletedCapture r \<longleftrightarrow> cr_EditDeleteState r = ''deleted'' \<or> cr_EditDeleteState r = ''tombstone''"

definition newerRevision :: "pm_guards \<Rightarrow> string \<Rightarrow> string \<Rightarrow> bool" where
  "newerRevision g candidate current \<longleftrightarrow>
     (case (g_rfc3339nano g (trim_space candidate), g_rfc3339nano g (trim_space current)) of
        (Some c, Some p) \<Rightarrow> p < c
      | _ \<Rightarrow> False)"

definition without_revision :: "capture_record \<Rightarrow> capture_record" where
  "without_revision r = r\<lparr>cr_RevisionAt := '''', cr_ContentHash := ''''\<rparr>"

definition legacyRevisionAttachment ::
  "pm_guards \<Rightarrow> capture_record \<Rightarrow> capture_record \<Rightarrow> bool" where
  "legacyRevisionAttachment g prior candidate \<longleftrightarrow>
     blank (cr_RevisionAt prior) \<and> \<not> blank (cr_RevisionAt candidate) \<and>
     cr_EditDeleteState prior = ''edited'' \<and> cr_EditDeleteState candidate = ''edited'' \<and>
     fingerprintRecord g (without_revision prior) = fingerprintRecord g (without_revision candidate)"

definition record_under :: "string \<Rightarrow> capture_record list \<Rightarrow> capture_record option" where
  "record_under key rs = map_of (map (\<lambda>r. (cr_IdempotencyKey r, r)) (rev rs)) key"

definition historical :: "library \<Rightarrow> string \<Rightarrow> string \<Rightarrow> bool" where
  "historical l key hash \<longleftrightarrow>
     list_ex (\<lambda>v. cr_IdempotencyKey (cv_Record v) = key \<and> cr_ContentHash (cv_Record v) = hash)
       (lib_revisions l)"

definition imported_fingerprints :: "library \<Rightarrow> string list" where
  "imported_fingerprints l = map ir_BatchFingerprint (lib_imports l)"

definition envelope_keys :: "pm_guards \<Rightarrow> string list \<Rightarrow> capture_batch list \<Rightarrow> string list" where
  "envelope_keys g imported batches =
     concat (map (\<lambda>b. map cr_IdempotencyKey (batch_records b))
       (filter (\<lambda>b. captureBatchFingerprint g b \<notin> set imported) batches))"

text \<open>
  The final record of every key of the envelope, with whether its batch was imported before.
\<close>

definition final_entries ::
  "pm_guards \<Rightarrow> string list \<Rightarrow> capture_batch list \<Rightarrow> (string \<times> capture_record \<times> bool) list" where
  "final_entries g imported batches =
     filter (\<lambda>(key, _). key \<in> set (envelope_keys g imported batches))
       (concat (map (\<lambda>b. map (\<lambda>r. (cr_IdempotencyKey r, r, captureBatchFingerprint g b \<in> set imported))
                          (batch_records b)) batches))"

definition final_of ::
  "pm_guards \<Rightarrow> string list \<Rightarrow> capture_batch list \<Rightarrow> string \<Rightarrow> (capture_record \<times> bool) option" where
  "final_of g imported batches = map_of (rev (final_entries g imported batches))"

definition final_content ::
  "pm_guards \<Rightarrow> string list \<Rightarrow> capture_batch list \<Rightarrow> string \<Rightarrow> string" where
  "final_content g imported batches key =
     (case final_of g imported batches key of None \<Rightarrow> '''' | Some (r, _) \<Rightarrow> cr_ContentHash r)"

definition final_refused ::
  "pm_guards \<Rightarrow> library \<Rightarrow> string \<Rightarrow> capture_record \<Rightarrow> bool \<Rightarrow> bool" where
  "final_refused g l key final was_imported \<longleftrightarrow>
     (case record_under key (lib_records l) of
        None \<Rightarrow> was_imported \<and> cr_ContentHash final \<noteq> ''''
      | Some prior \<Rightarrow> cr_ContentHash prior \<noteq> cr_ContentHash final \<and>
          (was_imported \<or> historical l key (cr_ContentHash final) \<or>
           (cr_EditDeleteState prior = ''edited'' \<and> cr_EditDeleteState final = ''edited'' \<and>
            \<not> legacyRevisionAttachment g prior final \<and>
            \<not> newerRevision g (cr_RevisionAt final) (cr_RevisionAt prior)) \<or>
           (cr_EditDeleteState prior = ''edited'' \<and> cr_EditDeleteState final = ''original'') \<or>
           (isDeletedCapture prior \<and> \<not> isDeletedCapture final)))"

definition envelope_refused ::
  "pm_guards \<Rightarrow> library \<Rightarrow> string list \<Rightarrow> capture_batch list \<Rightarrow> bool" where
  "envelope_refused g l imported batches \<longleftrightarrow>
     list_ex (\<lambda>key. case final_of g imported batches key of
         None \<Rightarrow> False
       | Some (final, was_imported) \<Rightarrow> final_refused g l key final was_imported)
     (envelope_keys g imported batches)"

section \<open>Applying a batch\<close>

definition placeholderResource :: "pm_guards \<Rightarrow> string \<Rightarrow> resource_context" where
  "placeholderResource g url =
     (let r = \<lparr>rc_ResourceID = stableResourceID g url, rc_CanonicalURL = url,
               rc_State = ''not_attempted'', rc_AccessClass = ''unsupported'', rc_RetrievedAt = '''',
               rc_Metadata = \<lparr>rm_Title = '''', rm_Author = '''', rm_PublishedAt = ''''\<rparr>,
               rc_Excerpts = None, rc_RelatedURLs = None,
               rc_Missingness = Some [''enrichment_not_attempted''], rc_Content = None,
               rc_AuthorityClass = AuthorityClass, rc_ContentHash = ''''\<rparr>
      in r\<lparr>rc_ContentHash := fingerprintResource g r\<rparr>)"

definition add_placeholder :: "pm_guards \<Rightarrow> string \<times> string \<Rightarrow> library \<Rightarrow> library" where
  "add_placeholder g = (\<lambda>(rid, url) l.
     if rid \<in> rc_ResourceID ` set (lib_resources l) then l
     else l\<lparr>lb_Resources := slice_append (lb_Resources l) [placeholderResource g url]\<rparr>)"

definition add_resources :: "pm_guards \<Rightarrow> capture_record \<Rightarrow> library \<Rightarrow> library" where
  "add_resources g r =
     fold (add_placeholder g) (zip (slice_list (cr_ResourceIDs r)) (slice_list (cr_URLs r)))"

definition add_revision ::
  "pm_guards \<Rightarrow> string \<Rightarrow> string \<Rightarrow> capture_record \<Rightarrow> library \<Rightarrow> library" where
  "add_revision g now final_hash prior l =
     (if cr_ContentHash prior \<noteq> final_hash \<and>
         stableRevisionID g prior \<notin> cv_RevisionID ` set (lib_revisions l)
      then l\<lparr>lb_Revisions := slice_append (lb_Revisions l)
             [\<lparr>cv_RevisionID = stableRevisionID g prior, cv_SupersededAt = now, cv_Record = prior\<rparr>]\<rparr>
      else l)"

definition put_record :: "capture_record \<Rightarrow> library \<Rightarrow> library" where
  "put_record r l = l\<lparr>lb_Records := map_option
     (update_first (\<lambda>x. cr_IdempotencyKey x = cr_IdempotencyKey r) (\<lambda>_. r)) (lb_Records l)\<rparr>"

text \<open>The counters of a receipt while its batch is applied: inserted, updated, unchanged.\<close>

type_synonym import_counts = "int \<times> int \<times> int"

definition apply_record ::
  "pm_guards \<Rightarrow> string \<Rightarrow> (string \<Rightarrow> string) \<Rightarrow> bool \<Rightarrow> capture_record
    \<Rightarrow> library \<times> string list \<times> import_counts \<Rightarrow> library \<times> string list \<times> import_counts" where
  "apply_record g now finals existing r = (\<lambda>(l, touched, (ins, upd, unch)).
     let key = cr_IdempotencyKey r in
     if existing \<and> key \<notin> set touched then (l, touched, (ins, upd, unch + 1))
     else
       let touched' = (if existing then touched else key # touched);
           l' = add_resources g r l
       in case record_under key (lib_records l') of
            None \<Rightarrow>
              (l'\<lparr>lb_Records := slice_append (lb_Records l') [r]\<rparr>, touched', (ins + 1, upd, unch))
          | Some prior \<Rightarrow>
              if cr_ContentHash prior = cr_ContentHash r then (l', touched', (ins, upd, unch + 1))
              else (put_record r (add_revision g now (finals key) prior l'), touched',
                    (ins, upd + 1, unch)))"

definition batch_receipt ::
  "pm_guards \<Rightarrow> capture_batch \<Rightarrow> import_counts \<Rightarrow> nat \<Rightarrow> string \<Rightarrow> import_receipt" where
  "batch_receipt g b = (\<lambda>(ins, upd, unch) total at.
     \<lparr>ir_BatchFingerprint = captureBatchFingerprint g b, ir_SourceIdentity = cb_SourceIdentity b,
      ir_LowerInclusive = cb_LowerInclusive b, ir_UpperInclusive = cb_UpperInclusive b,
      ir_Watermark = cb_Watermark b, ir_DeclaredRecords = cb_DeclaredRecords b,
      ir_InsertedRecords = ins, ir_UpdatedRecords = upd, ir_UnchangedRecords = unch,
      ir_TotalRecords = int total, ir_ImportedAt = at\<rparr>)"

record import_state =
  is_library :: library
  is_imported :: "string list"
  is_touched :: "string list"

definition commit_batch :: "string \<Rightarrow> import_receipt \<Rightarrow> import_state \<Rightarrow> import_state" where
  "commit_batch fp receipt s =
     (let l = (is_library s)\<lparr>lb_Revision := (lb_Revision (is_library s) + 1) mod 2 ^ 64\<rparr> in
      if fp \<in> set (is_imported s) then s\<lparr>is_library := l\<rparr>
      else s\<lparr>is_library := l\<lparr>lb_Imports := slice_append (lb_Imports l) [receipt]\<rparr>,
             is_imported := fp # is_imported s\<rparr>)"

definition applyCaptureBatch ::
  "pm_guards \<Rightarrow> string \<Rightarrow> (string \<Rightarrow> string) \<Rightarrow> capture_batch \<Rightarrow> import_state
    \<Rightarrow> import_state \<times> import_receipt \<times> bool" where
  "applyCaptureBatch g now finals b s =
     (let fp = captureBatchFingerprint g b; l = is_library s;
          existing = List.find (\<lambda>i. ir_BatchFingerprint i = fp) (lib_imports l);
          replay = list_ex (\<lambda>r. cr_IdempotencyKey r \<in> set (is_touched s)) (batch_records b)
      in case existing of
           Some i \<Rightarrow>
             if \<not> replay
             then (s, batch_receipt g b (0, 0, int (length (batch_records b)))
                        (length (lib_records l)) (ir_ImportedAt i), False)
             else
               let (l', touched', counts) = fold (apply_record g now finals True) (batch_records b)
                     (l, is_touched s, (0, 0, 0));
                   receipt = batch_receipt g b counts (length (lib_records l')) now;
                   s' = s\<lparr>is_library := l', is_touched := touched'\<rparr>
               in if ir_InsertedRecords receipt + ir_UpdatedRecords receipt = 0
                  then (s', receipt, False) else (commit_batch fp receipt s', receipt, True)
         | None \<Rightarrow>
             let (l', touched', counts) = fold (apply_record g now finals False) (batch_records b)
                   (l, is_touched s, (0, 0, 0));
                 receipt = batch_receipt g b counts (length (lib_records l')) now;
                 s' = s\<lparr>is_library := l', is_touched := touched'\<rparr>
             in (commit_batch fp receipt s', receipt, True))"


section \<open>Importing\<close>

fun apply_batches ::
  "pm_guards \<Rightarrow> (nat \<Rightarrow> string) \<Rightarrow> (string \<Rightarrow> string) \<Rightarrow> nat \<Rightarrow> capture_batch list \<Rightarrow> import_state
    \<Rightarrow> import_state \<times> import_receipt list \<times> bool" where
  "apply_batches g now finals n [] s = (s, [], False)"
| "apply_batches g now finals n (b # bs) s =
     (let (s1, receipt, changed) = applyCaptureBatch g (now n) finals b s;
          (s2, receipts, mutated) = apply_batches g now finals (Suc n) bs s1
      in (s2, receipt # receipts, changed \<or> mutated))"

text \<open>The transition of the library: the next library when it changes, and the receipts.\<close>

definition import_library ::
  "pm_guards \<Rightarrow> (nat \<Rightarrow> string) \<Rightarrow> capture_batch list \<Rightarrow> library
    \<Rightarrow> (pm_error, library option \<times> import_receipt list) result" where
  "import_library g now batches l =
     (let imported = imported_fingerprints l in
      if envelope_refused g l imported batches then Inl EnvelopeRefused
      else
        let (s, receipts, mutated) = apply_batches g now (final_content g imported batches) 0 batches
              \<lparr>is_library = l, is_imported = imported, is_touched = []\<rparr>
        in Inr (if mutated then Some (sealLibrary g (is_library s)) else None, receipts))"

definition persistLibraryWithinBudget ::
  "pm_guards \<Rightarrow> pm_env \<Rightarrow> int \<Rightarrow> library \<Rightarrow> pm_repo \<Rightarrow> pm_repo \<times> pm_error option" where
  "persistLibraryWithinBudget g env maximum l rp =
     (if library_bytes (Doc l) > maximum then (rp, Some LibraryTooLarge)
      else
        let prior = (if pe_prior_lstat_fails env then None else current_file (pr_disk rp)) in
        if prior \<noteq> None \<and>
           (pe_prior_read_fails env \<or> library_bytes (the prior) > MaximumLibraryBytes)
        then (rp, Some LibraryUnavailable)
        else
          let (d, err) = atomic_replace_with_backup (pe_io env) library_bytes MaximumLibraryBytes
                (valid_library_blob g) (Doc l) prior (pr_disk rp);
              rp' = rp\<lparr>pr_disk := d,
                        pr_modified := (if current_file d = current_file (pr_disk rp)
                                        then pr_modified rp else pe_mtime env)\<rparr>
          in case err of
               Some _ \<Rightarrow> (rp', Some LibraryUnavailable)
             | None \<Rightarrow> (rp'\<lparr>pr_cache := None\<rparr>, None))"

definition ImportManyWithinBudget ::
  "pm_guards \<Rightarrow> pm_env \<Rightarrow> capture_batch list \<Rightarrow> int \<Rightarrow> pm_repo
    \<Rightarrow> pm_repo \<times> (pm_error, import_receipt list) result" where
  "ImportManyWithinBudget g env batches maximum rp =
     (if batches = [] then (rp, Inl EmptyBatchSet)
      else if \<not> list_all (validateCaptureBatch g) batches then (rp, Inl InvalidCaptureBatch)
      else if maximum \<le> 0 \<or> maximum > MaximumLibraryBytes then (rp, Inl InvalidAdmissionLimit)
      else if pe_lock_busy env then (rp, Inl LibraryBusy)
      else case pm_load g env rp of
        Inl e \<Rightarrow> (rp, Inl e)
      | Inr l \<Rightarrow>
          (case import_library g (pe_now env) batches l of
             Inl e \<Rightarrow> (rp, Inl e)
           | Inr (None, receipts) \<Rightarrow> (rp, Inr receipts)
           | Inr (Some l', receipts) \<Rightarrow>
               (case persistLibraryWithinBudget g env maximum l' rp of
                  (rp', None) \<Rightarrow> (rp', Inr receipts)
                | (rp', Some e) \<Rightarrow> (rp', Inl e))))"

definition ImportWithinBudget ::
  "pm_guards \<Rightarrow> pm_env \<Rightarrow> capture_batch \<Rightarrow> int \<Rightarrow> pm_repo
    \<Rightarrow> pm_repo \<times> (pm_error, import_receipt) result" where
  "ImportWithinBudget g env b maximum rp =
     (case ImportManyWithinBudget g env [b] maximum rp of
        (rp', Inl e) \<Rightarrow> (rp', Inl e)
      | (rp', Inr receipts) \<Rightarrow> (rp', Inr (hd receipts)))"

definition Import ::
  "pm_guards \<Rightarrow> pm_env \<Rightarrow> capture_batch \<Rightarrow> pm_repo \<Rightarrow> pm_repo \<times> (pm_error, import_receipt) result" where
  "Import g env b rp = ImportWithinBudget g env b MaximumCaptureLibraryBytes rp"

section \<open>Status\<close>

definition status_of :: "library \<Rightarrow> pm_status" where
  "status_of l =
     \<lparr>ps_SchemaVersion = lb_SchemaVersion l, ps_Revision = lb_Revision l,
      ps_Fingerprint = lb_Fingerprint l, ps_RecordCount = int (length (lib_records l)),
      ps_ResourceCount = int (length (lib_resources l)),
      ps_HistoricalRevisionCount = int (length (lib_revisions l)),
      ps_HistoricalResourceCount = int (length (lib_resource_revisions l)),
      ps_ImportCount = int (length (lib_imports l)),
      ps_EnrichmentImportCount = int (length (slice_list (lb_EnrichmentImports l))),
      ps_AuthorityClass = AuthorityClass\<rparr>"

definition cache_hit :: "pm_repo \<Rightarrow> status_cache \<Rightarrow> bool" where
  "cache_hit rp c \<longleftrightarrow>
     (case current_file (pr_disk rp) of
        None \<Rightarrow> \<not> sc_fileExists c
      | Some b \<Rightarrow> sc_fileExists c \<and> sc_fileSize c = library_bytes b \<and> sc_modifiedAt c = pr_modified rp)"

definition pm_status ::
  "pm_guards \<Rightarrow> pm_env \<Rightarrow> pm_repo \<Rightarrow> pm_repo \<times> (pm_error, pm_status) result" where
  "pm_status g env rp =
     (if pe_stat_fails env then (rp, Inl LibraryUnavailable)
      else case Option.bind (pr_cache rp) (\<lambda>c. if cache_hit rp c then Some (sc_status c) else None) of
        Some st \<Rightarrow> (rp, Inr st)
      | None \<Rightarrow>
          (case pm_load g env rp of
             Inl e \<Rightarrow> (rp, Inl e)
           | Inr l \<Rightarrow>
               (rp\<lparr>pr_cache := Some \<lparr>sc_fileExists = current_file (pr_disk rp) \<noteq> None,
                  sc_fileSize = (case current_file (pr_disk rp) of None \<Rightarrow> 0 | Some b \<Rightarrow> library_bytes b),
                  sc_modifiedAt = (if current_file (pr_disk rp) = None then 0 else pr_modified rp),
                  sc_status = status_of l\<rparr>\<rparr>, Inr (status_of l))))"

end
