(* ===== verification/PM_Import.thy ===== *)
theory PM_Import
  imports PM_Repository
begin

text \<open>
  What an import does to the personal evidence library. The content hashes of the current
  records are a map from keys; a batch overwrites it, and an already imported batch overwrites
  it only at keys the envelope has touched (\<open>batches_hashes\<close>). From this follow the final state
  of every key, the retention of every superseded content, the receipts, and that importing an
  envelope again changes nothing.
\<close>

section \<open>Records by key\<close>

abbreviation key_of :: "capture_record \<Rightarrow> string" where "key_of r \<equiv> cr_IdempotencyKey r"

definition keys_distinct :: "library \<Rightarrow> bool" where
  "keys_distinct l \<longleftrightarrow> distinct (map cr_IdempotencyKey (lib_records l))"

definition hashes :: "library \<Rightarrow> string \<Rightarrow> string option" where
  "hashes l k = map_option cr_ContentHash (record_under k (lib_records l))"

definition revision_ids :: "library \<Rightarrow> string set" where
  "revision_ids l = cv_RevisionID ` set (lib_revisions l)"

definition record_hashes :: "capture_record list \<Rightarrow> string \<Rightarrow> string option" where
  "record_hashes rs = map_of (rev (map (\<lambda>r. (cr_IdempotencyKey r, cr_ContentHash r)) rs))"

lemma record_under_iff:
  assumes "distinct (map cr_IdempotencyKey rs)"
  shows "record_under k rs = Some r \<longleftrightarrow> r \<in> set rs \<and> cr_IdempotencyKey r = k"
proof -
  have "distinct (map fst (map (\<lambda>r. (cr_IdempotencyKey r, r)) (rev rs)))"
    using assms by (simp add: comp_def rev_map [symmetric] flip: rev_map)
  from map_of_eq_Some_iff [OF this] show ?thesis
    unfolding record_under_def by auto
qed

lemma record_under_None: "record_under k rs = None \<longleftrightarrow> k \<notin> cr_IdempotencyKey ` set rs"
  by (force simp: record_under_def map_of_eq_None_iff)

lemma record_under_append:
  "record_under k (rs @ [r]) = (if k = cr_IdempotencyKey r then Some r else record_under k rs)"
  by (simp add: record_under_def)

lemma record_under_key: "record_under k rs = Some r \<Longrightarrow> cr_IdempotencyKey r = k \<and> r \<in> set rs"
  by (auto simp: record_under_def dest!: map_of_SomeD)

lemma record_under_update:
  assumes "distinct (map cr_IdempotencyKey rs)" and "record_under (cr_IdempotencyKey r) rs \<noteq> None"
  shows "record_under k (update_first (\<lambda>x. cr_IdempotencyKey x = cr_IdempotencyKey r) (\<lambda>_. r) rs) =
    (if k = cr_IdempotencyKey r then Some r else record_under k rs)"
  using assms
proof (induction rs)
  case Nil
  then show ?case by (simp add: record_under_def)
next
  case (Cons x rs)
  have step: "record_under k (x # rs) =
      (case record_under k rs of None \<Rightarrow> if k = cr_IdempotencyKey x then Some x else None | Some y \<Rightarrow> Some y)"
    for x rs k
    by (simp add: record_under_def map_of_append map_add_def split: option.split)
  show ?case
  proof (cases "cr_IdempotencyKey x = cr_IdempotencyKey r")
    case True
    with Cons.prems have "record_under (cr_IdempotencyKey r) rs = None"
      by (simp add: record_under_None)
    with True show ?thesis by (auto simp: step split: option.splits)
  next
    case False
    with Cons show ?thesis by (auto simp: step split: option.splits)
  qed
qed

lemma update_first_keys [simp]:
  "map cr_IdempotencyKey (update_first (\<lambda>x. cr_IdempotencyKey x = cr_IdempotencyKey r) (\<lambda>_. r) rs) =
    map cr_IdempotencyKey rs"
  by (rule map_update_first_key) simp

section \<open>One record\<close>

lemma add_resources_frame [simp]:
  "lb_Records (add_resources g r l) = lb_Records l"
  "lb_Revisions (add_resources g r l) = lb_Revisions l"
  "lb_Imports (add_resources g r l) = lb_Imports l"
  "lb_ResourceRevisions (add_resources g r l) = lb_ResourceRevisions l"
proof -
  have "lb_Records (fold (add_placeholder g) ps l) = lb_Records l \<and>
      lb_Revisions (fold (add_placeholder g) ps l) = lb_Revisions l \<and>
      lb_Imports (fold (add_placeholder g) ps l) = lb_Imports l \<and>
      lb_ResourceRevisions (fold (add_placeholder g) ps l) = lb_ResourceRevisions l" for ps
    by (induction ps arbitrary: l) (auto simp: add_placeholder_def split: prod.splits)
  then show "lb_Records (add_resources g r l) = lb_Records l"
    "lb_Revisions (add_resources g r l) = lb_Revisions l"
    "lb_Imports (add_resources g r l) = lb_Imports l"
    "lb_ResourceRevisions (add_resources g r l) = lb_ResourceRevisions l"
    by (simp_all add: add_resources_def)
qed

lemma add_revision_frame [simp]:
  "lb_Records (add_revision g now h p l) = lb_Records l"
  "lb_Imports (add_revision g now h p l) = lb_Imports l"
  by (simp_all add: add_revision_def)

lemma put_record_frame [simp]:
  "lb_Revisions (put_record r l) = lb_Revisions l"
  "lb_Imports (put_record r l) = lb_Imports l"
  by (simp_all add: put_record_def)

lemma put_record_list:
  "lib_records (put_record r l) =
    update_first (\<lambda>x. cr_IdempotencyKey x = cr_IdempotencyKey r) (\<lambda>_. r) (lib_records l)"
  by (cases "lb_Records l") (simp_all add: put_record_def)

lemma keys_distinct_put: "keys_distinct (put_record r l) = keys_distinct l"
  by (simp add: keys_distinct_def put_record_list)

lemma keys_distinct_new:
  "keys_distinct l \<Longrightarrow> record_under (cr_IdempotencyKey r) (lib_records l) = None \<Longrightarrow>
    keys_distinct (l\<lparr>lb_Records := slice_append (lb_Records l) [r]\<rparr>)"
  by (simp add: keys_distinct_def record_under_None)

lemma hashes_put:
  assumes "keys_distinct l" and "record_under (cr_IdempotencyKey r) (lib_records l) = Some p"
  shows "hashes (put_record r l) = (hashes l)(cr_IdempotencyKey r \<mapsto> cr_ContentHash r)"
proof
  fix k
  have "record_under k (lib_records (put_record r l)) =
      (if k = cr_IdempotencyKey r then Some r else record_under k (lib_records l))"
    unfolding put_record_list using assms by (intro record_under_update) (auto simp: keys_distinct_def)
  then show "hashes (put_record r l) k = ((hashes l)(cr_IdempotencyKey r \<mapsto> cr_ContentHash r)) k"
    by (simp add: hashes_def)
qed

lemma hashes_new:
  "hashes (l\<lparr>lb_Records := slice_append (lb_Records l) [r]\<rparr>) =
    (hashes l)(cr_IdempotencyKey r \<mapsto> cr_ContentHash r)"
  by (auto simp: hashes_def record_under_append fun_eq_iff)

lemma hashes_cong [simp]:
  "hashes (add_resources g r l) = hashes l" "hashes (add_revision g now h p l) = hashes l"
  "keys_distinct (add_resources g r l) = keys_distinct l"
  "keys_distinct (add_revision g now h p l) = keys_distinct l"
  by (simp_all add: hashes_def keys_distinct_def fun_eq_iff)

lemma revision_ids_add:
  "revision_ids l \<subseteq> revision_ids (add_revision g now h p l)"
  "cr_ContentHash p \<noteq> h \<Longrightarrow> stableRevisionID g p \<in> revision_ids (add_revision g now h p l)"
  by (auto simp: revision_ids_def add_revision_def)

lemma stableRevisionID_cong:
  "cr_IdempotencyKey a = cr_IdempotencyKey b \<Longrightarrow> cr_ContentHash a = cr_ContentHash b \<Longrightarrow>
    stableRevisionID g a = stableRevisionID g b"
  by (simp add: stableRevisionID_def)

text \<open>
  A content is kept when it is current, in the history, or the one the envelope ends with.
\<close>

definition content_kept ::
  "pm_guards \<Rightarrow> (string \<Rightarrow> string) \<Rightarrow> string set \<Rightarrow> library \<Rightarrow> capture_record \<Rightarrow> bool" where
  "content_kept g finals E l x \<longleftrightarrow>
     hashes l (cr_IdempotencyKey x) = Some (cr_ContentHash x) \<or>
     stableRevisionID g x \<in> revision_ids l \<or>
     (cr_IdempotencyKey x \<in> E \<and> finals (cr_IdempotencyKey x) = cr_ContentHash x)"

lemma apply_record_cases:
  assumes "apply_record g now finals existing r (l, T, c) = (l', T', c')" and "keys_distinct l"
  obtains (skipped) "existing" "cr_IdempotencyKey r \<notin> set T" "l' = l" "T' = T"
      "c' = (fst c, fst (snd c), snd (snd c) + 1)"
    | (inserted) "\<not> (existing \<and> cr_IdempotencyKey r \<notin> set T)"
      "T' = (if existing then T else cr_IdempotencyKey r # T)"
      "hashes l (cr_IdempotencyKey r) = None"
      "l' = (add_resources g r l)\<lparr>lb_Records := slice_append (lb_Records l) [r]\<rparr>"
      "c' = (fst c + 1, snd c)"
    | (unchanged) "\<not> (existing \<and> cr_IdempotencyKey r \<notin> set T)"
      "T' = (if existing then T else cr_IdempotencyKey r # T)"
      "hashes l (cr_IdempotencyKey r) = Some (cr_ContentHash r)" "l' = add_resources g r l"
      "c' = (fst c, fst (snd c), snd (snd c) + 1)"
    | (updated) p where "\<not> (existing \<and> cr_IdempotencyKey r \<notin> set T)"
      "T' = (if existing then T else cr_IdempotencyKey r # T)"
      "record_under (cr_IdempotencyKey r) (lib_records l) = Some p"
      "cr_ContentHash p \<noteq> cr_ContentHash r"
      "l' = put_record r (add_revision g now (finals (cr_IdempotencyKey r)) p (add_resources g r l))"
      "c' = (fst c, fst (snd c) + 1, snd (snd c))"
proof (cases "existing \<and> cr_IdempotencyKey r \<notin> set T")
  case True
  with assms(1) show ?thesis by (intro skipped) (auto simp: apply_record_def split: prod.splits)
next
  case False
  show ?thesis
  proof (cases "record_under (cr_IdempotencyKey r) (lib_records l)")
    case None
    with assms(1) False show ?thesis
      by (intro inserted) (auto simp: apply_record_def hashes_def Let_def split: prod.splits)
  next
    case (Some p)
    show ?thesis
    proof (cases "cr_ContentHash p = cr_ContentHash r")
      case True
      with assms(1) False Some show ?thesis
        by (intro unchanged) (auto simp: apply_record_def hashes_def Let_def split: prod.splits)
    next
      case neq: False
      with assms(1) False Some show ?thesis
        by (intro updated [of p]) (auto simp: apply_record_def Let_def split: prod.splits)
    qed
  qed
qed


definition touches :: "bool \<Rightarrow> capture_record \<Rightarrow> string list \<Rightarrow> bool" where
  "touches existing r T \<longleftrightarrow> \<not> (existing \<and> cr_IdempotencyKey r \<notin> set T)"

lemma apply_record_effects:
  assumes "apply_record g now finals existing r (l, T, c) = (l', T', c')" and "keys_distinct l"
  shows "keys_distinct l' \<and> lb_Imports l' = lb_Imports l \<and>
    hashes l' = (if touches existing r T
      then (hashes l)(cr_IdempotencyKey r \<mapsto> cr_ContentHash r) else hashes l) \<and>
    set T' = (if existing then set T else insert (cr_IdempotencyKey r) (set T)) \<and>
    revision_ids l \<subseteq> revision_ids l'"
proof (cases rule: apply_record_cases [OF assms])
  case 1
  with assms(2) show ?thesis by (simp add: touches_def)
next
  case 2
  then show ?thesis
    using assms(2) keys_distinct_new [of "add_resources g r l" r] hashes_new [of "add_resources g r l" r]
    by (auto simp: touches_def revision_ids_def hashes_def)
next
  case 3
  with assms(2) show ?thesis by (auto simp: touches_def fun_upd_idem revision_ids_def)
next
  case (4 p)
  let ?m = "add_revision g now (finals (cr_IdempotencyKey r)) p (add_resources g r l)"
  have "hashes l' = (hashes l)(cr_IdempotencyKey r \<mapsto> cr_ContentHash r)"
    using hashes_put [of ?m r p] 4 assms(2) by simp
  moreover have "revision_ids l \<subseteq> revision_ids l'"
    using revision_ids_add(1) [of "add_resources g r l" g now "finals (cr_IdempotencyKey r)" p] 4
    by (simp add: revision_ids_def)
  ultimately show ?thesis using 4 assms(2) by (auto simp: touches_def keys_distinct_put)
qed

lemmas apply_record_effect = apply_record_effects [THEN conjunct1]
  apply_record_effects [THEN conjunct2, THEN conjunct1]
  apply_record_effects [THEN conjunct2, THEN conjunct2, THEN conjunct1]
  apply_record_effects [THEN conjunct2, THEN conjunct2, THEN conjunct2, THEN conjunct1]
  apply_record_effects [THEN conjunct2, THEN conjunct2, THEN conjunct2, THEN conjunct2]

lemma apply_record_counts:
  assumes "apply_record g now finals existing r (l, T, (i, u, n)) = (l', T', (i', u', n'))"
    and "keys_distinct l"
  shows "i' + u' + n' = i + u + n + 1 \<and> i \<le> i' \<and> u \<le> u' \<and> n \<le> n'"
  by (cases rule: apply_record_cases [OF assms]) auto

lemma apply_record_kept:
  assumes "apply_record g now finals existing r (l, T, c) = (l', T', c')" and "keys_distinct l"
    and "touches existing r T \<Longrightarrow> cr_IdempotencyKey r \<in> E"
    and "content_kept g finals E l x"
  shows "content_kept g finals E l' x"
proof (cases "hashes l (cr_IdempotencyKey x) = Some (cr_ContentHash x) \<and>
    hashes l' (cr_IdempotencyKey x) \<noteq> Some (cr_ContentHash x)")
  case False
  then show ?thesis
    using assms(4) apply_record_effect(5) [OF assms(1,2)] by (auto simp: content_kept_def)
next
  case True
  have key: "cr_IdempotencyKey r = cr_IdempotencyKey x" and touched: "touches existing r T"
    using True apply_record_effect(3) [OF assms(1,2)] by (auto split: if_splits)
  with True show ?thesis
  proof (cases rule: apply_record_cases [OF assms(1,2)])
    case (4 p)
    then have p: "cr_ContentHash p = cr_ContentHash x" "cr_IdempotencyKey p = cr_IdempotencyKey x"
      using True key record_under_key by (auto simp: hashes_def)
    have "revision_ids l' = revision_ids (add_revision g now (finals (cr_IdempotencyKey r)) p
        (add_resources g r l))"
      using 4(5) by (simp add: revision_ids_def)
    then show ?thesis
      using revision_ids_add(2) [of p "finals (cr_IdempotencyKey r)" g now "add_resources g r l"]
        stableRevisionID_cong [OF p(2,1)] p key assms(3) [OF touched]
      by (auto simp: content_kept_def)
  qed (auto simp: touches_def)
qed

text \<open>The record itself is current once it has been applied.\<close>

lemma apply_record_self:
  assumes "apply_record g now finals existing r (l, T, c) = (l', T', c')" and "keys_distinct l"
    and "touches existing r T"
  shows "content_kept g finals E l' r"
  using apply_record_effect(3) [OF assms(1,2)] assms(3) by (simp add: content_kept_def)

section \<open>One batch\<close>

definition effective :: "bool \<Rightarrow> string set \<Rightarrow> capture_record list \<Rightarrow> string set" where
  "effective existing T rs = (if existing then T else T \<union> cr_IdempotencyKey ` set rs)"

lemma record_hashes_Cons:
  "record_hashes (r # rs) = [cr_IdempotencyKey r \<mapsto> cr_ContentHash r] ++ record_hashes rs"
  by (simp add: record_hashes_def)

lemma record_hashes_append: "record_hashes (xs @ ys) = record_hashes xs ++ record_hashes ys"
  by (simp add: record_hashes_def)

lemma dom_record_hashes: "dom (record_hashes rs) = cr_IdempotencyKey ` set rs"
  by (auto simp: record_hashes_def dom_map_of_conv_image_fst image_image)

lemma apply_records_effect:
  assumes "fold (apply_record g now finals existing) rs (l, T, c) = (l', T', c')"
    and "keys_distinct l"
  shows "keys_distinct l' \<and> lb_Imports l' = lb_Imports l \<and>
    hashes l' = hashes l ++ (record_hashes rs |` effective existing (set T) rs) \<and>
    set T' = effective existing (set T) rs \<and> revision_ids l \<subseteq> revision_ids l' \<and>
    (\<forall>i u n. c = (i, u, n) \<longrightarrow> (\<exists>i' u' n'. c' = (i', u', n') \<and>
       i' + u' + n' = i + u + n + int (length rs) \<and> i \<le> i' \<and> u \<le> u' \<and> n \<le> n'))"
  using assms
proof (induction rs arbitrary: l T c)
  case Nil
  then show ?case by (auto simp: record_hashes_def effective_def)
next
  case (Cons r rs)
  obtain l1 T1 c1 where one: "apply_record g now finals existing r (l, T, c) = (l1, T1, c1)"
    by (metis prod_cases3)
  note e = apply_record_effect [OF one Cons.prems(2)]
  from Cons.prems(1) one have "fold (apply_record g now finals existing) rs (l1, T1, c1) = (l', T', c')"
    by simp
  note IH = Cons.IH [OF this e(1)]
  have "hashes l' = hashes l ++ (record_hashes (r # rs) |` effective existing (set T) (r # rs))"
    using IH e(3,4)
    by (cases existing)
       (auto simp: record_hashes_Cons effective_def touches_def map_add_def restrict_map_def fun_eq_iff
          dom_record_hashes [THEN equalityD1, THEN subsetD] split: option.splits)
  moreover have "set T' = effective existing (set T) (r # rs)"
    using IH e(4) by (auto simp: effective_def)
  moreover have "\<exists>i' u' n'. c' = (i', u', n') \<and> i' + u' + n' = i + u + n + int (length (r # rs)) \<and>
      i \<le> i' \<and> u \<le> u' \<and> n \<le> n'" if "c = (i, u, n)" for i u n
  proof -
    obtain i1 u1 n1 where c1: "c1 = (i1, u1, n1)" by (cases c1)
    with one that apply_record_counts [of g now finals existing r l T i u n l1 T1 i1 u1 n1] Cons.prems(2)
    have "i1 + u1 + n1 = i + u + n + 1 \<and> i \<le> i1 \<and> u \<le> u1 \<and> n \<le> n1" by simp
    then show ?thesis using IH c1 by fastforce
  qed
  ultimately show ?case using IH e(2,5) by auto
qed


lemma apply_records_kept:
  assumes "fold (apply_record g now finals existing) rs (l, T, c) = (l', T', c')"
    and "keys_distinct l" and "effective existing (set T) rs \<subseteq> E"
    and "content_kept g finals E l x \<or> (x \<in> set rs \<and> (existing \<longrightarrow> cr_IdempotencyKey x \<in> set T))"
  shows "content_kept g finals E l' x"
  using assms
proof (induction rs arbitrary: l T c)
  case Nil
  then show ?case by simp
next
  case (Cons r rs)
  obtain l1 T1 c1 where one: "apply_record g now finals existing r (l, T, c) = (l1, T1, c1)"
    by (metis prod_cases3)
  note e = apply_record_effect [OF one Cons.prems(2)]
  have rest: "fold (apply_record g now finals existing) rs (l1, T1, c1) = (l', T', c')"
    using Cons.prems(1) one by simp
  have E1: "effective existing (set T1) rs \<subseteq> E" and rE: "touches existing r T \<Longrightarrow> cr_IdempotencyKey r \<in> E"
    using Cons.prems(3) e(4) by (auto simp: effective_def touches_def split: if_splits)
  have "content_kept g finals E l1 x \<or>
      (x \<in> set rs \<and> (existing \<longrightarrow> cr_IdempotencyKey x \<in> set T1))"
    using Cons.prems(4) apply_record_kept [OF one Cons.prems(2) rE]
      apply_record_self [OF one Cons.prems(2)] e(4)
    by (auto simp: touches_def split: if_splits)
  from Cons.IH [OF rest e(1) E1 this] show ?case .
qed

text \<open>The library after a batch, as a function of what was known before it.\<close>

definition state_ok :: "import_state \<Rightarrow> bool" where
  "state_ok s \<longleftrightarrow> keys_distinct (is_library s) \<and>
     set (is_imported s) = ir_BatchFingerprint ` set (lib_imports (is_library s))"

definition known_batch :: "pm_guards \<Rightarrow> capture_batch \<Rightarrow> import_state \<Rightarrow> bool" where
  "known_batch g b s \<longleftrightarrow> captureBatchFingerprint g b \<in> set (is_imported s)"

lemma existing_import_iff:
  assumes "state_ok s"
  shows "(List.find (\<lambda>i. ir_BatchFingerprint i = captureBatchFingerprint g b)
      (lib_imports (is_library s)) \<noteq> None) \<longleftrightarrow> known_batch g b s"
  using assms by (force simp: state_ok_def known_batch_def find_None_iff)

lemma keys_distinct_frame [simp]:
  "keys_distinct (l\<lparr>lb_Revision := n\<rparr>) = keys_distinct l"
  "keys_distinct (l\<lparr>lb_Revision := n, lb_Imports := i\<rparr>) = keys_distinct l"
  "hashes (l\<lparr>lb_Revision := n\<rparr>) = hashes l"
  "hashes (l\<lparr>lb_Revision := n, lb_Imports := i\<rparr>) = hashes l"
  "revision_ids (l\<lparr>lb_Revision := n\<rparr>) = revision_ids l"
  "revision_ids (l\<lparr>lb_Revision := n, lb_Imports := i\<rparr>) = revision_ids l"
  by (simp_all add: keys_distinct_def hashes_def revision_ids_def fun_eq_iff)

lemma content_kept_frame [simp]:
  "content_kept g finals E (l\<lparr>lb_Revision := n\<rparr>) x = content_kept g finals E l x"
  "content_kept g finals E (l\<lparr>lb_Revision := n, lb_Imports := i\<rparr>) x = content_kept g finals E l x"
  by (simp_all add: content_kept_def)

lemma commit_batch_effect:
  assumes "ir_BatchFingerprint receipt = fp"
    and "set (is_imported s) = ir_BatchFingerprint ` set (lib_imports (is_library s))"
    and "keys_distinct (is_library s)"
  shows "state_ok (commit_batch fp receipt s)" and
    "hashes (is_library (commit_batch fp receipt s)) = hashes (is_library s)" and
    "revision_ids (is_library (commit_batch fp receipt s)) = revision_ids (is_library s)" and
    "is_touched (commit_batch fp receipt s) = is_touched s" and
    "set (is_imported (commit_batch fp receipt s)) = insert fp (set (is_imported s))" and
    "content_kept g finals E (is_library (commit_batch fp receipt s)) x =
      content_kept g finals E (is_library s) x"
  using assms by (auto simp: commit_batch_def Let_def state_ok_def)

text \<open>The outcome of one batch: the cases of \<open>applyCaptureBatch\<close> brought to one form.\<close>

lemma applyCaptureBatch_forms:
  assumes "applyCaptureBatch g now finals b s = (s', receipt, changed)" and "state_ok s"
  obtains (skipped) "known_batch g b s" "\<forall>r \<in> set (batch_records b). cr_IdempotencyKey r \<notin> set (is_touched s)"
      "s' = s" "\<not> changed"
      "receipt = batch_receipt g b (0, 0, int (length (batch_records b)))
         (length (lib_records (is_library s))) (ir_ImportedAt receipt)"
    | (applied) l T counts where
      "fold (apply_record g now finals (known_batch g b s)) (batch_records b)
         (is_library s, is_touched s, (0, 0, 0)) = (l, T, counts)"
      "receipt = batch_receipt g b counts (length (lib_records l)) now"
      "known_batch g b s \<or> changed"
      "s' = (if changed then commit_batch (captureBatchFingerprint g b) receipt
                               (s\<lparr>is_library := l, is_touched := T\<rparr>)
             else s\<lparr>is_library := l, is_touched := T\<rparr>)"
proof -
  obtain l T counts where f: "fold (apply_record g now finals (known_batch g b s)) (batch_records b)
      (is_library s, is_touched s, (0, 0, 0)) = (l, T, counts)"
    by (metis prod_cases3)
  show ?thesis
proof (cases "List.find (\<lambda>i. ir_BatchFingerprint i = captureBatchFingerprint g b)
      (lib_imports (is_library s))")
  case None
  with existing_import_iff [OF assms(2), of g b] have "\<not> known_batch g b s" by simp
  then show ?thesis
    using assms(1) None f
    by (intro applied [of l T counts]) (auto simp: applyCaptureBatch_def Let_def)
next
  case (Some i)
  with existing_import_iff [OF assms(2), of g b] have known: "known_batch g b s" by simp
  show ?thesis
  proof (cases "list_ex (\<lambda>r. cr_IdempotencyKey r \<in> set (is_touched s)) (batch_records b)")
    case True
    with assms(1) Some known f show ?thesis
      by (intro applied [of l T counts]) (auto simp: applyCaptureBatch_def Let_def split: if_splits)
  next
    case False
    with assms(1) Some known show ?thesis
      by (intro skipped) (auto simp: applyCaptureBatch_def Let_def list_ex_iff batch_receipt_def)
  qed
qed
qed

lemma applyCaptureBatch_effect:
  assumes "applyCaptureBatch g now finals b s = (s', receipt, changed)" and "state_ok s"
  shows "state_ok s' \<and>
    hashes (is_library s') = hashes (is_library s) ++
      (record_hashes (batch_records b) |`
        effective (known_batch g b s) (set (is_touched s)) (batch_records b)) \<and>
    set (is_touched s') = effective (known_batch g b s) (set (is_touched s)) (batch_records b) \<and>
    set (is_imported s') = insert (captureBatchFingerprint g b) (set (is_imported s)) \<and>
    revision_ids (is_library s) \<subseteq> revision_ids (is_library s')"
  using assms
proof (cases rule: applyCaptureBatch_forms [OF assms])
  case 1
  have "record_hashes (batch_records b) |` set (is_touched s) = Map.empty"
    using 1(2) by (auto simp: restrict_map_def fun_eq_iff record_hashes_def map_of_eq_None_iff)
  with 1 assms(2) show ?thesis by (auto simp: effective_def known_batch_def)
next
  case (2 l T counts)
  have kd: "keys_distinct (is_library s)" using assms(2) by (simp add: state_ok_def)
  note e = apply_records_effect [OF 2(1) kd]
  have imported: "set (is_imported s) = ir_BatchFingerprint ` set (lib_imports l)"
    using assms(2) e by (simp add: state_ok_def)
  show ?thesis
  proof (cases changed)
    case True
    have fp: "ir_BatchFingerprint receipt = captureBatchFingerprint g b"
      unfolding 2(2) by (simp add: batch_receipt_def case_prod_beta')
    note c = commit_batch_effect [OF fp, of "s\<lparr>is_library := l, is_touched := T\<rparr>"]
    show ?thesis using True 2(4) e imported c by simp
  next
    case False
    with 2(3) have "known_batch g b s" by simp
    with False 2(4) e imported show ?thesis
      by (auto simp: state_ok_def known_batch_def)
  qed
qed

lemma applyCaptureBatch_kept:
  assumes "applyCaptureBatch g now finals b s = (s', receipt, changed)" and "state_ok s"
    and "effective (known_batch g b s) (set (is_touched s)) (batch_records b) \<subseteq> E"
    and "content_kept g finals E (is_library s) x \<or>
      (x \<in> set (batch_records b) \<and> (known_batch g b s \<longrightarrow> cr_IdempotencyKey x \<in> set (is_touched s)))"
  shows "content_kept g finals E (is_library s') x"
  using assms(1,2)
proof (cases rule: applyCaptureBatch_forms [OF assms(1,2)])
  case 1
  with assms(4) show ?thesis by auto
next
  case (2 l T counts)
  have kd: "keys_distinct (is_library s)" using assms(2) by (simp add: state_ok_def)
  have "content_kept g finals E l x" by (rule apply_records_kept [OF 2(1) kd assms(3,4)])
  with 2(4) show ?thesis by (simp add: commit_batch_def Let_def)
qed


section \<open>A whole envelope\<close>

text \<open>
  Two batches with the same fingerprint name the same keys: the fingerprint is the digest of the
  scope of the batch and of the identifiers and content hashes of its records.
\<close>

definition fingerprints_identify :: "pm_guards \<Rightarrow> capture_batch list \<Rightarrow> bool" where
  "fingerprints_identify g batches \<longleftrightarrow>
     (\<forall>a \<in> set batches. \<forall>b \<in> set batches.
        captureBatchFingerprint g a = captureBatchFingerprint g b \<longrightarrow>
        cr_IdempotencyKey ` set (batch_records a) = cr_IdempotencyKey ` set (batch_records b))"

abbreviation all_records :: "capture_batch list \<Rightarrow> capture_record list" where
  "all_records batches \<equiv> concat (map batch_records batches)"

definition fresh_batch :: "pm_guards \<Rightarrow> string list \<Rightarrow> capture_batch \<Rightarrow> bool" where
  "fresh_batch g imported b \<longleftrightarrow> captureBatchFingerprint g b \<notin> set imported"

lemma envelope_keys_Cons:
  "set (envelope_keys g I (b # bs)) =
    (if fresh_batch g I b then cr_IdempotencyKey ` set (batch_records b) else {}) \<union>
    set (envelope_keys g I bs)"
  by (simp add: envelope_keys_def fresh_batch_def)

text \<open>What holds between two batches of an envelope whose first state imported \<open>I\<close>.\<close>

definition between :: "pm_guards \<Rightarrow> string list \<Rightarrow> capture_batch list \<Rightarrow> import_state \<Rightarrow> bool" where
  "between g I bs s \<longleftrightarrow> state_ok s \<and> set I \<subseteq> set (is_imported s) \<and> fingerprints_identify g bs \<and>
     (\<forall>b \<in> set bs. fresh_batch g I b \<and> known_batch g b s \<longrightarrow>
        cr_IdempotencyKey ` set (batch_records b) \<subseteq> set (is_touched s))"

lemma between_effective:
  assumes "between g I (b # bs) s"
  shows "effective (known_batch g b s) (set (is_touched s)) (batch_records b) =
    set (is_touched s) \<union>
    (if fresh_batch g I b then cr_IdempotencyKey ` set (batch_records b) else {})"
  using assms by (auto simp: between_def effective_def fresh_batch_def known_batch_def)

lemma between_next:
  assumes "between g I (b # bs) s" and "applyCaptureBatch g now finals b s = (s', receipt, changed)"
  shows "between g I bs s'"
proof -
  have ok: "state_ok s" using assms(1) by (simp add: between_def)
  note e = applyCaptureBatch_effect [OF assms(2) ok] between_effective [OF assms(1)]
  have mono: "set (is_touched s) \<subseteq> set (is_touched s')"
    using e(1) unfolding e(2) by blast
  have "cr_IdempotencyKey ` set (batch_records c) \<subseteq> set (is_touched s')"
    if c: "c \<in> set bs" "fresh_batch g I c" "known_batch g c s'" for c
  proof (cases "captureBatchFingerprint g c = captureBatchFingerprint g b")
    case True
    have "fingerprints_identify g (b # bs)" using assms(1) by (simp add: between_def)
    with True c(1)
    have "cr_IdempotencyKey ` set (batch_records c) = cr_IdempotencyKey ` set (batch_records b)"
      unfolding fingerprints_identify_def by (metis list.set_intros)
    moreover have "fresh_batch g I b" using True c(2) by (simp add: fresh_batch_def)
    ultimately show ?thesis using e by auto
  next
    case False
    with c(3) e have "known_batch g c s" by (simp add: known_batch_def)
    with assms(1) c(1,2) have "cr_IdempotencyKey ` set (batch_records c) \<subseteq> set (is_touched s)"
      unfolding between_def by (meson list.set_intros(2))
    also note mono
    finally show ?thesis .
  qed
  moreover have "fingerprints_identify g bs"
    using assms(1) unfolding between_def fingerprints_identify_def by (meson list.set_intros(2))
  moreover have "set I \<subseteq> set (is_imported s')" and "state_ok s'"
    using assms(1) e by (auto simp: between_def)
  ultimately show ?thesis by (simp add: between_def)
qed

lemma map_add_restrict_split:
  assumes "F \<subseteq> dom n"
  shows "(h ++ (m |` A)) ++ (n |` (A \<union> F)) = h ++ ((m ++ n) |` (A \<union> F))"
proof
  fix k
  show "((h ++ (m |` A)) ++ (n |` (A \<union> F))) k = (h ++ ((m ++ n) |` (A \<union> F))) k"
  proof (cases "n k")
    case None
    then have "k \<notin> F" using assms by (auto simp: domIff)
    with None show ?thesis by (simp add: map_add_def restrict_map_def)
  next
    case (Some x)
    then show ?thesis by (simp add: map_add_def restrict_map_def)
  qed
qed

lemma apply_batches_effect:
  assumes "apply_batches g now finals n bs s = (s', receipts, mutated)" and "between g I bs s"
  shows "state_ok s' \<and>
    hashes (is_library s') = hashes (is_library s) ++
      (record_hashes (all_records bs) |` (set (is_touched s) \<union> set (envelope_keys g I bs))) \<and>
    set (is_touched s') = set (is_touched s) \<union> set (envelope_keys g I bs) \<and>
    set (is_imported s') = set (is_imported s) \<union> captureBatchFingerprint g ` set bs \<and>
    revision_ids (is_library s) \<subseteq> revision_ids (is_library s')"
  using assms
proof (induction bs arbitrary: s n receipts mutated)
  case Nil
  then show ?case by (simp add: between_def record_hashes_def envelope_keys_def)
next
  case (Cons b bs)
  obtain s1 r1 c1 where one: "applyCaptureBatch g (now n) finals b s = (s1, r1, c1)"
    by (metis prod_cases3)
  then obtain rs m where rest: "apply_batches g now finals (Suc n) bs s1 = (s', rs, m)"
    using Cons.prems(1) by (auto split: prod.splits)
  have ok: "state_ok s" using Cons.prems(2) by (simp add: between_def)
  let ?A = "set (is_touched s) \<union> (if fresh_batch g I b then cr_IdempotencyKey ` set (batch_records b) else {})"
  let ?F = "set (envelope_keys g I bs)"
  note e = applyCaptureBatch_effect [OF one ok] between_effective [OF Cons.prems(2)]
  note IH = Cons.IH [OF rest between_next [OF Cons.prems(2) one]]
  have "?F \<subseteq> dom (record_hashes (all_records bs))"
    by (auto simp: dom_record_hashes envelope_keys_def)
  from map_add_restrict_split [OF this, of "hashes (is_library s)" "record_hashes (batch_records b)" ?A]
  have "hashes (is_library s') = hashes (is_library s) ++
      (record_hashes (all_records (b # bs)) |` (?A \<union> ?F))"
    using IH e by (simp add: record_hashes_append)
  then show ?case
    using IH e by (auto simp: envelope_keys_Cons Un_assoc)
qed

lemma apply_batches_kept:
  assumes "apply_batches g now finals n bs s = (s', receipts, mutated)" and "between g I bs s"
    and "set (is_touched s) \<union> set (envelope_keys g I bs) \<subseteq> E"
    and "content_kept g finals E (is_library s) x \<or>
      (\<exists>b \<in> set bs. fresh_batch g I b \<and> x \<in> set (batch_records b))"
  shows "content_kept g finals E (is_library s') x"
  using assms
proof (induction bs arbitrary: s n receipts mutated)
  case Nil
  then show ?case by simp
next
  case (Cons b bs)
  obtain s1 r1 c1 where one: "applyCaptureBatch g (now n) finals b s = (s1, r1, c1)"
    by (metis prod_cases3)
  then obtain rs m where rest: "apply_batches g now finals (Suc n) bs s1 = (s', rs, m)"
    using Cons.prems(1) by (auto split: prod.splits)
  have ok: "state_ok s" using Cons.prems(2) by (simp add: between_def)
  note e = applyCaptureBatch_effect [OF one ok] between_effective [OF Cons.prems(2)]
  have E: "effective (known_batch g b s) (set (is_touched s)) (batch_records b) \<subseteq> E"
    and E1: "set (is_touched s1) \<union> set (envelope_keys g I bs) \<subseteq> E"
    using Cons.prems(3) e by (auto simp: envelope_keys_Cons)
  have "known_batch g b s \<longrightarrow> cr_IdempotencyKey x \<in> set (is_touched s)"
    if "fresh_batch g I b" "x \<in> set (batch_records b)"
    using Cons.prems(2) that by (auto simp: between_def)
  then have "content_kept g finals E (is_library s1) x \<or>
      (\<exists>b \<in> set bs. fresh_batch g I b \<and> x \<in> set (batch_records b))"
    using Cons.prems(4) applyCaptureBatch_kept [OF one ok E, of x] by auto
  from Cons.IH [OF rest between_next [OF Cons.prems(2) one] E1 this] show ?case .
qed

section \<open>The final state of an envelope\<close>

definition import_start :: "library \<Rightarrow> import_state" where
  "import_start l = \<lparr>is_library = l, is_imported = imported_fingerprints l, is_touched = []\<rparr>"

lemma between_start:
  assumes "keys_distinct l" and "fingerprints_identify g batches"
  shows "between g (imported_fingerprints l) batches (import_start l)"
  using assms
  by (auto simp: between_def import_start_def state_ok_def imported_fingerprints_def fresh_batch_def
      known_batch_def)

lemma final_of_hash:
  assumes "k \<in> set (envelope_keys g I batches)"
  shows "record_hashes (all_records batches) k = Some (final_content g I batches k)"
proof -
  let ?E = "concat (map (\<lambda>b. map (\<lambda>r. (cr_IdempotencyKey r, r, captureBatchFingerprint g b \<in> set I))
      (batch_records b)) batches)"
  have "map_of (rev (filter (\<lambda>(key, _). key \<in> set (envelope_keys g I batches)) xs)) k =
      map_of (rev xs) k" for xs :: "(string \<times> capture_record \<times> bool) list"
    using assms by (induction xs) (auto simp: map_add_def split: option.splits)
  then have 1: "final_of g I batches k = map_of (rev ?E) k"
    by (simp add: final_of_def final_entries_def)
  have 2: "record_hashes (all_records batches) k =
      map_option (\<lambda>(r, _). cr_ContentHash r) (map_of (rev ?E) k)"
  proof (induction batches)
    case Nil
    then show ?case by (simp add: record_hashes_def)
  next
    case (Cons b bs)
    have "record_hashes rs k = map_option (\<lambda>(r, _). cr_ContentHash r)
        (map_of (rev (map (\<lambda>r. (cr_IdempotencyKey r, r, x)) rs)) k)" for rs x
      by (induction rs) (auto simp: record_hashes_def map_add_def split: option.splits)
    with Cons show ?case
      by (auto simp: record_hashes_append map_add_def split: option.splits)
  qed
  have "k \<in> dom (record_hashes (all_records batches))"
    using assms by (auto simp: dom_record_hashes envelope_keys_def)
  then obtain r x where "map_of (rev ?E) k = Some (r, x)"
    using 2 by (cases "map_of (rev ?E) k") auto
  with 1 2 show ?thesis by (simp add: final_content_def)
qed

end
