(* ===== verification/PM_Properties.thy ===== *)
theory PM_Properties
  imports PM_Import
begin

text \<open>
  What \<open>ImportManyWithinBudget\<close> promises, stated over the repository: the state every key ends
  in, that no captured content is lost, that an envelope can be imported again without effect,
  and that an import never goes back in the chronology of a capture.
\<close>

section \<open>Sealing keeps the contents\<close>

lemma record_under_sort:
  assumes "distinct (map cr_IdempotencyKey rs)"
  shows "record_under k (sort_key cr_IdempotencyKey rs) = record_under k rs"
proof -
  have "distinct (map cr_IdempotencyKey (sort_key cr_IdempotencyKey rs))" using assms by simp
  from record_under_iff [OF this] record_under_iff [OF assms]
  have "record_under k (sort_key cr_IdempotencyKey rs) = Some r \<longleftrightarrow> record_under k rs = Some r" for r
    by simp
  then show ?thesis by (metis option.exhaust)
qed

lemma sealLibrary_frame:
  "lib_records (sealLibrary g l) = sort_key cr_IdempotencyKey (lib_records l)"
  "set (lib_revisions (sealLibrary g l)) = set (lib_revisions l)"
  "set (lib_imports (sealLibrary g l)) = set (lib_imports l)"
  by (simp_all add: sealLibrary_def sorted_library_def Let_def)

lemma sealed_view:
  assumes "keys_distinct l"
  shows "hashes (sealLibrary g l) = hashes l" and "revision_ids (sealLibrary g l) = revision_ids l"
    and "set (imported_fingerprints (sealLibrary g l)) = set (imported_fingerprints l)"
    and "keys_distinct (sealLibrary g l)"
proof -
  show "hashes (sealLibrary g l) = hashes l"
    using record_under_sort assms by (simp add: fun_eq_iff hashes_def sealLibrary_frame keys_distinct_def)
  show "keys_distinct (sealLibrary g l)"
    using assms by (simp add: keys_distinct_def sealLibrary_frame)
qed (simp_all add: revision_ids_def imported_fingerprints_def sealLibrary_frame)

lemma valid_keys_distinct: "validateLibrary g l \<Longrightarrow> keys_distinct l"
  by (simp add: validateLibrary_def keys_distinct_def Let_def)

lemma pm_load_keys_distinct: "pm_load g env rp = Inr l \<Longrightarrow> keys_distinct l"
  by (auto simp: pm_load_def keys_distinct_def EmptyLibrary_def Let_def valid_keys_distinct [unfolded keys_distinct_def]
      split: option.splits blob.splits if_splits)

section \<open>The transition of the library\<close>

lemma apply_batches_unmutated:
  assumes "apply_batches g now finals n bs s = (s', receipts, False)" and "state_ok s"
  shows "\<forall>b \<in> set bs. known_batch g b s"
  using assms
proof (induction bs arbitrary: s n receipts)
  case (Cons b bs)
  obtain s1 r1 c1 where one: "applyCaptureBatch g (now n) finals b s = (s1, r1, c1)"
    by (metis prod_cases3)
  then obtain rs where rest: "apply_batches g now finals (Suc n) bs s1 = (s', rs, False)" and "\<not> c1"
    using Cons.prems(1) by (auto split: prod.splits)
  from one \<open>\<not> c1\<close> have known: "known_batch g b s"
    by (cases rule: applyCaptureBatch_forms [OF one Cons.prems(2)]) auto
  note e = applyCaptureBatch_effect [OF one Cons.prems(2)]
  with Cons.IH [OF rest] known show ?case by (auto simp: known_batch_def)
qed simp

text \<open>What an unchanged batch reports: every record unchanged.\<close>

definition unchanged_receipt :: "capture_batch \<Rightarrow> import_receipt \<Rightarrow> bool" where
  "unchanged_receipt b i \<longleftrightarrow> ir_InsertedRecords i = 0 \<and> ir_UpdatedRecords i = 0 \<and>
     ir_UnchangedRecords i = int (length (batch_records b)) \<and>
     ir_DeclaredRecords i = cb_DeclaredRecords b"

lemma applyCaptureBatch_known:
  assumes "keys_distinct l" and "captureBatchFingerprint g b \<in> set (imported_fingerprints l)"
  shows "\<exists>i. applyCaptureBatch g now fin b (import_start l) = (import_start l, i, False) \<and>
    unchanged_receipt b i"
proof -
  from assms(2) obtain i where "List.find (\<lambda>i. ir_BatchFingerprint i = captureBatchFingerprint g b)
      (lib_imports l) = Some i"
    by (cases "List.find (\<lambda>i. ir_BatchFingerprint i = captureBatchFingerprint g b) (lib_imports l)")
       (auto simp: imported_fingerprints_def find_None_iff)
  then show ?thesis
    by (auto simp: applyCaptureBatch_def Let_def import_start_def list_ex_iff unchanged_receipt_def
        batch_receipt_def)
qed

lemma apply_batches_known:
  assumes "keys_distinct l" and "captureBatchFingerprint g ` set bs \<subseteq> set (imported_fingerprints l)"
  shows "\<exists>receipts. apply_batches g now fin n bs (import_start l) = (import_start l, receipts, False) \<and>
    list_all2 unchanged_receipt bs receipts"
  using assms(2)
proof (induction bs arbitrary: n)
  case (Cons b bs)
  from applyCaptureBatch_known [OF assms(1), of g b "now n" fin] Cons.prems obtain i where
    "applyCaptureBatch g (now n) fin b (import_start l) = (import_start l, i, False)"
    "unchanged_receipt b i" by auto
  moreover from Cons.IH [of "Suc n"] Cons.prems obtain receipts where
    "apply_batches g now fin (Suc n) bs (import_start l) = (import_start l, receipts, False)"
    "list_all2 unchanged_receipt bs receipts" by auto
  ultimately show ?case by (auto simp: list_all2_Cons1)
qed simp

text \<open>The library an import leaves: the sealed next library, or the old one.\<close>

definition next_library :: "library \<Rightarrow> library option \<Rightarrow> library" where
  "next_library l out = (case out of None \<Rightarrow> l | Some l' \<Rightarrow> l')"

abbreviation envelope :: "pm_guards \<Rightarrow> capture_batch list \<Rightarrow> library \<Rightarrow> string list" where
  "envelope g batches l \<equiv> envelope_keys g (imported_fingerprints l) batches"

lemma import_library_out:
  assumes "import_library g now batches l = Inr (out, receipts)"
    and "keys_distinct l" and "fingerprints_identify g batches"
  obtains s mutated where
    "apply_batches g now (final_content g (imported_fingerprints l) batches) 0 batches (import_start l) =
       (s, receipts, mutated)"
    "state_ok s" "\<not> envelope_refused g l (imported_fingerprints l) batches"
    "out = (if mutated then Some (sealLibrary g (is_library s)) else None)"
    "hashes (next_library l out) = hashes (is_library s)"
    "revision_ids (next_library l out) = revision_ids (is_library s)"
    "set (imported_fingerprints (next_library l out)) = set (is_imported s)"
proof -
  let ?fin = "final_content g (imported_fingerprints l) batches"
  obtain s rs mutated where run: "apply_batches g now ?fin 0 batches (import_start l) = (s, rs, mutated)"
    by (metis prod_cases3)
  note b = between_start [OF assms(2,3)]
  note e = apply_batches_effect [OF run b]
  have out: "out = (if mutated then Some (sealLibrary g (is_library s)) else None)" "receipts = rs"
    and nr: "\<not> envelope_refused g l (imported_fingerprints l) batches"
    using assms(1) run by (auto simp: import_library_def import_start_def Let_def split: if_splits)
  have kd: "keys_distinct (is_library s)" and im:
    "set (imported_fingerprints (is_library s)) = set (is_imported s)"
    using e by (simp_all add: state_ok_def imported_fingerprints_def)
  show ?thesis
  proof (cases mutated)
    case True
    show ?thesis
      using that [OF run [folded out(2)]] e nr out sealed_view [OF kd, of g] im True
      by (simp add: next_library_def)
  next
    case False
    with run have "\<forall>c \<in> set batches. known_batch g c (import_start l)"
      using apply_batches_unmutated b by (auto simp: between_def)
    then have known: "captureBatchFingerprint g ` set batches \<subseteq> set (imported_fingerprints l)"
      by (auto simp: known_batch_def import_start_def)
    then have "set (envelope g batches l) = {}" by (auto simp: envelope_keys_def)
    have "is_library s = l"
    proof -
      obtain q where "apply_batches g now ?fin 0 batches (import_start l) = (import_start l, q, False)"
        using apply_batches_known [OF assms(2) known, of now ?fin 0] by blast
      with run have "s = import_start l" by simp
      then show ?thesis by (simp add: import_start_def)
    qed
    then show ?thesis
      using that [OF run [folded out(2)]] e nr out im False by (simp add: next_library_def)
  qed
qed

lemma import_final_hashes:
  assumes "import_library g now batches l = Inr (out, receipts)"
    and "keys_distinct l" and "fingerprints_identify g batches"
  shows "hashes (next_library l out) k =
    (if k \<in> set (envelope g batches l)
     then Some (final_content g (imported_fingerprints l) batches k) else hashes l k)"
proof -
  from import_library_out [OF assms] obtain s mutated where
    run: "apply_batches g now (final_content g (imported_fingerprints l) batches) 0 batches (import_start l) =
       (s, receipts, mutated)" and h: "hashes (next_library l out) = hashes (is_library s)"
    by metis
  from apply_batches_effect [OF run between_start [OF assms(2,3)]] h
  show ?thesis
    using final_of_hash [of k g "imported_fingerprints l" batches]
    by (auto simp: import_start_def map_add_def restrict_map_def)
qed

lemma import_contents_kept:
  assumes "import_library g now batches l = Inr (out, receipts)"
    and "keys_distinct l" and "fingerprints_identify g batches"
    and "hashes l (cr_IdempotencyKey x) = Some (cr_ContentHash x) \<or>
      (\<exists>b \<in> set batches. fresh_batch g (imported_fingerprints l) b \<and> x \<in> set (batch_records b))"
  shows "hashes (next_library l out) (cr_IdempotencyKey x) = Some (cr_ContentHash x) \<or>
    stableRevisionID g x \<in> revision_ids (next_library l out)"
proof -
  let ?fin = "final_content g (imported_fingerprints l) batches"
  from import_library_out [OF assms(1,2,3)] obtain s mutated where
    run: "apply_batches g now ?fin 0 batches (import_start l) = (s, receipts, mutated)"
    and h: "hashes (next_library l out) = hashes (is_library s)"
      "revision_ids (next_library l out) = revision_ids (is_library s)"
    by metis
  have "content_kept g ?fin (set (envelope g batches l)) (is_library s) x"
    by (rule apply_batches_kept [OF run between_start [OF assms(2,3)]])
      (use assms(4) in \<open>auto simp: import_start_def content_kept_def\<close>)
  then show ?thesis
    using import_final_hashes [OF assms(1,2,3), of "cr_IdempotencyKey x"] h
    by (auto simp: content_kept_def)
qed


lemma import_again:
  assumes "import_library g now batches l = Inr (out, receipts)"
    and "keys_distinct l" and "fingerprints_identify g batches"
  shows "\<exists>again. import_library g now' batches (next_library l out) = Inr (None, again) \<and>
    list_all2 unchanged_receipt batches again"
proof -
  let ?l = "next_library l out"
  from import_library_out [OF assms] obtain s mutated where
    run: "apply_batches g now (final_content g (imported_fingerprints l) batches) 0 batches
        (import_start l) = (s, receipts, mutated)"
    and im: "set (imported_fingerprints ?l) = set (is_imported s)"
    and ok: "state_ok s" and out: "out = (if mutated then Some (sealLibrary g (is_library s)) else None)"
    by metis
  from apply_batches_effect [OF run between_start [OF assms(2,3)]] im
  have known: "captureBatchFingerprint g ` set batches \<subseteq> set (imported_fingerprints ?l)" by simp
  then have none: "envelope g batches ?l = []"
    by (auto simp: envelope_keys_def filter_empty_conv)
  have "keys_distinct ?l"
    using out ok assms(2) sealed_view(4) by (auto simp: next_library_def state_ok_def)
  from apply_batches_known [OF this known, of now' "final_content g (imported_fingerprints ?l) batches" 0]
  obtain again where "apply_batches g now' (final_content g (imported_fingerprints ?l) batches) 0 batches
      (import_start ?l) = (import_start ?l, again, False)" "list_all2 unchanged_receipt batches again"
    by blast
  then show ?thesis
    by (simp add: import_library_def import_start_def Let_def envelope_refused_def none)
qed

section \<open>The repository\<close>

lemma persist_ok:
  assumes "persistLibraryWithinBudget g env maximum l rp = (rp', None)"
  shows "current_file (pr_disk rp') = Some (Doc l)" and "validateLibrary g l"
    and "library_bytes (Doc l) \<le> maximum" and "library_bytes (Doc l) \<le> MaximumLibraryBytes"
proof -
  from assms obtain d prior where at: "atomic_replace_with_backup (pe_io env) library_bytes
      MaximumLibraryBytes (valid_library_blob g) (Doc l) prior (pr_disk rp) = (d, None)"
    and d: "pr_disk rp' = d" and m: "library_bytes (Doc l) \<le> maximum"
    by (auto simp: persistLibraryWithinBudget_def Let_def split: if_splits prod.splits option.splits)
  from atomic_replace_ok [OF at] d m
  show "current_file (pr_disk rp') = Some (Doc l)" "validateLibrary g l"
    "library_bytes (Doc l) \<le> maximum" "library_bytes (Doc l) \<le> MaximumLibraryBytes"
    by (simp_all add: valid_library_blob_def)
qed

lemma import_success:
  assumes "ImportManyWithinBudget g env batches maximum rp = (rp', Inr receipts)"
  obtains l out where "pm_load g env rp = Inr l"
    "import_library g (pe_now env) batches l = Inr (out, receipts)"
    "list_all (validateCaptureBatch g) batches" "batches \<noteq> []"
    "\<And>env'. \<not> pe_read_fails env' \<Longrightarrow> pm_load g env' rp' = Inr (next_library l out)"
    "out = None \<Longrightarrow> rp' = rp"
    "\<And>l'. out = Some l' \<Longrightarrow> library_bytes (Doc l') \<le> maximum \<and> validateLibrary g l' \<and>
       current_file (pr_disk rp') = Some (Doc l')"
proof -
  from assms obtain l out where l: "pm_load g env rp = Inr l"
    and imp: "import_library g (pe_now env) batches l = Inr (out, receipts)"
    and v: "list_all (validateCaptureBatch g) batches" "batches \<noteq> []"
    by (auto simp: ImportManyWithinBudget_def split: if_splits sum.splits prod.splits option.splits)
  show ?thesis
  proof (cases out)
    case None
    with assms l imp have "rp' = rp"
      by (auto simp: ImportManyWithinBudget_def split: if_splits)
    moreover have "pm_load g env' rp = Inr l" if "\<not> pe_read_fails env'" for env'
      using l that by (auto simp: pm_load_def split: option.splits if_splits)
    ultimately show ?thesis using that [OF l imp v] None by (simp add: next_library_def)
  next
    case (Some l')
    with assms l imp have "persistLibraryWithinBudget g env maximum l' rp = (rp', None)"
      by (auto simp: ImportManyWithinBudget_def split: if_splits prod.splits option.splits)
    note p = persist_ok [OF this]
    show ?thesis
      using that [OF l imp v] Some p by (simp add: next_library_def pm_load_def)
  qed
qed


section \<open>Properties\<close>


text \<open>C33: No captured content is lost: after a successful import every content that was current before,
  and the content of every record of every batch that was not imported before, is current or is
  in the history under its revision identity; no revision leaves the history.
\<close>

theorem import_keeps_evidence:
  assumes "ImportManyWithinBudget g env batches maximum rp = (rp', Inr receipts)"
    and "fingerprints_identify g batches" and "pm_load g env rp = Inr l" and "\<not> pe_read_fails env'"
    and "hashes l (cr_IdempotencyKey x) = Some (cr_ContentHash x) \<or>
      (\<exists>b \<in> set batches. fresh_batch g (imported_fingerprints l) b \<and> x \<in> set (batch_records b))"
  shows "\<exists>l'. pm_load g env' rp' = Inr l' \<and> revision_ids l \<subseteq> revision_ids l' \<and>
    (hashes l' (cr_IdempotencyKey x) = Some (cr_ContentHash x) \<or>
     stableRevisionID g x \<in> revision_ids l')"
proof -
  from import_success [OF assms(1)] obtain l0 out where
    l0: "pm_load g env rp = Inr l0" "import_library g (pe_now env) batches l0 = Inr (out, receipts)"
    and load: "pm_load g env' rp' = Inr (next_library l0 out)"
    using assms(4) by metis
  with assms(3) have l: "l0 = l" by simp
  note kd = pm_load_keys_distinct [OF assms(3)]
  from import_library_out [OF l0(2) [unfolded l] kd assms(2)] obtain s mutated where
    run: "apply_batches g (pe_now env) (final_content g (imported_fingerprints l) batches) 0 batches
        (import_start l) = (s, receipts, mutated)"
    and "revision_ids (next_library l out) = revision_ids (is_library s)" by metis
  then have "revision_ids l \<subseteq> revision_ids (next_library l out)"
    using apply_batches_effect [OF run between_start [OF kd assms(2)]] by (simp add: import_start_def)
  with load l import_contents_kept [OF l0(2) [unfolded l] kd assms(2,5)] show ?thesis by auto
qed

text \<open>C36: Importing an envelope a second time right after it succeeded succeeds again whenever the lock
  and the file can be had, reports every record as unchanged, and leaves the repository alone.
\<close>

theorem import_idempotent:
  assumes "ImportManyWithinBudget g env batches maximum rp = (rp', Inr receipts)"
    and "fingerprints_identify g batches"
    and "\<not> pe_lock_busy env'" and "\<not> pe_read_fails env'"
  shows "\<exists>again. ImportManyWithinBudget g env' batches maximum rp' = (rp', Inr again) \<and>
    list_all2 unchanged_receipt batches again"
proof -
  from import_success [OF assms(1)] obtain l out where
    l: "pm_load g env rp = Inr l" "import_library g (pe_now env) batches l = Inr (out, receipts)"
    and v: "list_all (validateCaptureBatch g) batches" "batches \<noteq> []"
    and load: "pm_load g env' rp' = Inr (next_library l out)"
    using assms(4) by metis
  have "0 < maximum \<and> maximum \<le> MaximumLibraryBytes"
    using assms(1) by (auto simp: ImportManyWithinBudget_def not_le split: if_splits)
  moreover obtain again where "import_library g (pe_now env') batches (next_library l out) = Inr (None, again)"
    "list_all2 unchanged_receipt batches again"
    using import_again [OF l(2) pm_load_keys_distinct [OF l(1)] assms(2)] by blast
  ultimately show ?thesis
    using v load assms(3) by (simp add: ImportManyWithinBudget_def)
qed

text \<open>C35: An import never takes a capture back in its chronology: when it gives a key that was current
  before another content, that content is not one of the superseded ones, a deleted capture
  stays deleted, an edited one does not become an original again, and of two edits the later one
  (or the same one, now dated) wins.
\<close>

theorem import_respects_chronology:
  assumes "ImportManyWithinBudget g env batches maximum rp = (rp', Inr receipts)"
    and "fingerprints_identify g batches" and "pm_load g env rp = Inr l" and "\<not> pe_read_fails env'"
    and "record_under k (lib_records l) = Some prior" and "pm_load g env' rp' = Inr l'"
    and "hashes l' k \<noteq> Some (cr_ContentHash prior)"
  shows "\<exists>final \<in> set (all_records batches). cr_IdempotencyKey final = k \<and>
    hashes l' k = Some (cr_ContentHash final) \<and> \<not> historical l k (cr_ContentHash final) \<and>
    (isDeletedCapture prior \<longrightarrow> isDeletedCapture final) \<and>
    (cr_EditDeleteState prior = ''edited'' \<longrightarrow> cr_EditDeleteState final \<noteq> ''original'') \<and>
    (cr_EditDeleteState prior = ''edited'' \<and> cr_EditDeleteState final = ''edited'' \<longrightarrow>
      legacyRevisionAttachment g prior final \<or>
      newerRevision g (cr_RevisionAt final) (cr_RevisionAt prior))"
proof -
  let ?I = "imported_fingerprints l"
  from import_success [OF assms(1)] obtain l0 out where
    l0: "pm_load g env rp = Inr l0" "import_library g (pe_now env) batches l0 = Inr (out, receipts)"
    and load: "pm_load g env' rp' = Inr (next_library l0 out)"
    using assms(4) by metis
  with assms(3,6) have l: "l0 = l" "l' = next_library l out" by auto
  note kd = pm_load_keys_distinct [OF assms(3)]
  have nr: "\<not> envelope_refused g l ?I batches"
    using import_library_out [OF l0(2) [unfolded l(1)] kd assms(2)] by metis
  have h: "hashes l' k = (if k \<in> set (envelope g batches l)
      then Some (final_content g ?I batches k) else hashes l k)"
    using import_final_hashes [OF l0(2) [unfolded l(1)] kd assms(2)] l(2) by simp
  with assms(5,7) have k: "k \<in> set (envelope g batches l)"
    by (auto simp: hashes_def split: if_splits)
  have "final_of g ?I batches k \<noteq> None"
    using k by (auto simp: final_of_def final_entries_def envelope_keys_def map_of_eq_None_iff image_iff)
  then obtain final imp where f: "final_of g ?I batches k = Some (final, imp)" by auto
  then have mem: "final \<in> set (all_records batches) \<and> cr_IdempotencyKey final = k"
    by (auto simp: final_of_def final_entries_def dest!: map_of_SomeD)
  have "hashes l' k = Some (cr_ContentHash final)"
    using h k f by (simp add: final_content_def)
  moreover have "\<not> final_refused g l k final imp"
    using nr k f by (auto simp: envelope_refused_def list_ex_iff split: option.splits)
  ultimately show ?thesis
    using mem assms(5,7) by (intro bexI [of _ final]) (auto simp: final_refused_def)
qed

end
