(* ===== verification/PM_Demo.thy ===== *)
theory PM_Demo
  imports PM_Properties
begin

text \<open>
  A concrete library with one capture, an envelope that edits it, and the import of the one into
  the other, evaluated; the witnesses of the import properties apply them here. The digest of
  the demonstration tells the edited record from every other document.
\<close>

definition demo_capture :: "string \<Rightarrow> string \<Rightarrow> string \<Rightarrow> string \<Rightarrow> capture_record" where
  "demo_capture text state revision hash =
     \<lparr>cr_RecordID = ''capture-1'', cr_IdempotencyKey = ''slack:T:C:1'', cr_SourceAdapter = ''slack'',
      cr_SourceScopeID = ''T'', cr_SourceContainerID = ''C'', cr_ExternalID = ''1'',
      cr_OccurredAt = ''1'', cr_AuthorID = '''', cr_AuthorName = '''', cr_SourceRef = ''slack://T/C/1'',
      cr_RawText = text, cr_URLs = Some [], cr_ResourceIDs = Some [], cr_ThreadParentID = '''',
      cr_AttachmentCount = 0, cr_PrivateFileCount = 0, cr_EditDeleteState = state,
      cr_RevisionAt = revision, cr_ContextState = ''source_complete'', cr_Missingness = Some [],
      cr_AuthorityClass = AuthorityClass,
      cr_SourceContentFingerprint = replicate 64 CHR ''a'', cr_ContentHash = hash\<rparr>"

definition hash_a :: string where "hash_a = replicate 64 CHR ''a''"
definition hash_b :: string where "hash_b = replicate 64 CHR ''b''"

definition demo_edited_json :: json where
  "demo_edited_json = json_of_capture (demo_capture ''second'' ''edited'' ''22'' '''')"

definition demo_digest :: "string \<Rightarrow> string" where
  "demo_digest v = (if v = encode demo_edited_json then hash_b else hash_a)"

definition demo_guards :: pm_guards where
  "demo_guards = \<lparr>g_sha = demo_digest, g_secret = (\<lambda>_. False), g_redact = (\<lambda>s. (s, False)),
     g_unsafe_url = (\<lambda>_. False), g_prepare_url = (\<lambda>u. Some (u, False)), g_canonicalize = Some,
     g_occurrences = (\<lambda>_. []), g_url_matches = (\<lambda>_. []), g_url_free = (\<lambda>_. hash_a),
     g_rfc3339 = (\<lambda>s. Some (int (length s))), g_rfc3339nano = (\<lambda>s. Some (int (length s)))\<rparr>"

definition demo_original :: capture_record where
  "demo_original = demo_capture ''first'' ''original'' '''' hash_a"

definition demo_edited :: capture_record where
  "demo_edited = demo_capture ''second'' ''edited'' ''22'' hash_b"

definition demo_library :: library where
  "demo_library = \<lparr>lb_SchemaVersion = LibrarySchemaVersion, lb_Revision = 1, lb_Fingerprint = hash_a,
     lb_Records = Some [demo_original], lb_Revisions = Some [], lb_Resources = Some [],
     lb_ResourceRevisions = Some [], lb_Imports = Some [], lb_EnrichmentImports = Some []\<rparr>"

definition demo_batch :: capture_batch where
  "demo_batch = \<lparr>cb_SchemaVersion = CaptureBatchSchemaVersion, cb_SourceIdentity = ''slack:T:C'',
     cb_LowerInclusive = ''1'', cb_UpperInclusive = ''9'', cb_Watermark = ''9'',
     cb_DeclaredRecords = 1, cb_Records = Some [demo_edited]\<rparr>"

definition demo_pm_env :: pm_env where
  "demo_pm_env = \<lparr>pe_io = quiet_env, pe_lock_busy = False, pe_read_fails = False,
     pe_prior_lstat_fails = False, pe_prior_read_fails = False, pe_stat_fails = False,
     pe_mtime = 7, pe_now = (\<lambda>_. ''333'')\<rparr>"

definition demo_repo :: pm_repo where
  "demo_repo = \<lparr>pr_disk = \<lparr>current_file = Some (Doc demo_library), backup_file = None\<rparr>,
     pr_modified = 1, pr_cache = None\<rparr>"

definition demo_receipt :: import_receipt where
  "demo_receipt = \<lparr>ir_BatchFingerprint = hash_a, ir_SourceIdentity = ''slack:T:C'',
     ir_LowerInclusive = ''1'', ir_UpperInclusive = ''9'', ir_Watermark = ''9'',
     ir_DeclaredRecords = 1, ir_InsertedRecords = 0, ir_UpdatedRecords = 1, ir_UnchangedRecords = 0,
     ir_TotalRecords = 1, ir_ImportedAt = ''333''\<rparr>"

definition demo_next :: library where
  "demo_next = \<lparr>lb_SchemaVersion = LibrarySchemaVersion, lb_Revision = 2, lb_Fingerprint = hash_a,
     lb_Records = Some [demo_edited],
     lb_Revisions = Some [\<lparr>cv_RevisionID = ''revision-'' @ replicate 24 CHR ''a'',
       cv_SupersededAt = ''333'', cv_Record = demo_original\<rparr>],
     lb_Resources = Some [], lb_ResourceRevisions = Some [], lb_Imports = Some [demo_receipt],
     lb_EnrichmentImports = Some []\<rparr>"

lemma encode_JObj_head: "encode (JObj fs) = CHR 0x7B # tl (encode (JObj fs))"
  by simp

lemmas json_defs = json_of_capture_def json_of_revision_def json_of_resource_def json_of_import_def
  json_of_library_def json_of_resource_revision_def json_of_enrichment_receipt_def json_of_slice_def
  opt_field_def

lemma demo_digest_json:
  "fingerprint_of (g_sha demo_guards) j = (if j = demo_edited_json then hash_b else hash_a)"
  by (simp add: fingerprint_of_def demo_guards_def demo_digest_def del: encode.simps)

lemma demo_edited_json_eq:
  "json_of_capture (demo_capture t s r h) = demo_edited_json \<longleftrightarrow>
    t = ''second'' \<and> s = ''edited'' \<and> r = ''22'' \<and> h = ''''"
  by (auto simp: demo_edited_json_def json_defs demo_capture_def del: encode.simps split: if_splits)

lemma demo_not_capture [simp]:
  "json_of_library l \<noteq> demo_edited_json"
  "JObj ((''SchemaVersion'', v) # fs) \<noteq> demo_edited_json"
  by (simp_all add: demo_edited_json_def json_defs)

lemma demo_capture_unhashed [simp]:
  "(demo_capture t s r h)\<lparr>cr_ContentHash := h'\<rparr> = demo_capture t s r h'"
  by (simp add: demo_capture_def)

lemma demo_hashes:
  "fingerprintRecord demo_guards demo_original = hash_a"
  "fingerprintRecord demo_guards demo_edited = hash_b"
  "fingerprintLibrary demo_guards l = hash_a"
  "captureBatchFingerprint demo_guards b = hash_a"
  by (simp_all add: fingerprintRecord_def fingerprintLibrary_def captureBatchFingerprint_def
      demo_digest_json demo_edited_json_eq demo_original_def demo_edited_def)

lemma demo_revision_id: "stableRevisionID demo_guards demo_original = ''revision-'' @ replicate 24 CHR ''a''"
proof -
  have "cr_IdempotencyKey demo_original @ [CHR 0x00] @ cr_ContentHash demo_original \<noteq> encode demo_edited_json"
    unfolding demo_edited_json_def json_of_capture_def
    by (subst encode_JObj_head) (simp add: demo_original_def demo_capture_def)
  then show ?thesis
    by (simp add: stableRevisionID_def stable_id_def demo_guards_def demo_digest_def hash_a_def)
qed

lemma hash_ok [simp]: "validSHA256 hash_a" "validSHA256 hash_b" "hash_a \<noteq> ''''" "hash_b \<noteq> ''''" "hash_a \<noteq> hash_b"
  by (simp_all add: validSHA256_def hash_a_def hash_b_def hex_digit_def list_all_iff)

lemma trim_seqs_keeps:
  "c \<in> set s \<Longrightarrow> c \<notin> set (concat seqs) \<Longrightarrow> c \<in> set (trim_seqs seqs s)"
proof (induction seqs s rule: trim_seqs.induct)
  case (1 seqs s)
  show ?case
  proof (cases "List.find (\<lambda>p. p \<noteq> [] \<and> starts_with p s) seqs")
    case None
    with 1 show ?thesis by (subst trim_seqs.simps) simp
  next
    case (Some p)
    then have p: "p \<in> set seqs" "take (length p) s = p" by (auto simp: find_Some_iff starts_with_def)
    have "s = p @ drop (length p) s" using p(2) by (metis append_take_drop_id)
    then have "c \<in> set (drop (length p) s)"
      using 1(2,3) p(1) by (metis UN_I Un_iff set_append set_concat)
    with 1 Some show ?thesis by (subst trim_seqs.simps) simp
  qed
qed

lemma not_blank_char: "c \<in> set s \<Longrightarrow> c \<notin> set (concat space_seqs) \<Longrightarrow> \<not> blank s"
proof -
  assume c: "c \<in> set s" "c \<notin> set (concat space_seqs)"
  have "c \<in> set (trim_left s)" unfolding trim_left_def by (rule trim_seqs_keeps [OF c])
  moreover have "c \<notin> set (concat (map rev space_seqs))" using c(2) by simp
  ultimately have "c \<in> set (trim_space s)"
    using trim_seqs_keeps [of c "rev (trim_left s)" "map rev space_seqs"]
    by (simp add: trim_space_def trim_right_def)
  then show "\<not> blank s" by (auto simp: blank_def)
qed

lemma not_blank_letter: "s \<noteq> [] \<Longrightarrow> hd s \<in> {CHR ''a'', CHR ''b'', CHR ''c'', CHR ''f'', CHR ''p'', CHR ''r'', CHR ''s'', CHR ''C'', CHR ''T'', CHR ''1''} \<Longrightarrow> \<not> blank s"
  by (rule not_blank_char [of "hd s"]) (auto simp: space_seqs_def)

lemma demo_capture_valid:
  assumes "fingerprintRecord demo_guards (demo_capture t s r h) = h" and "validSHA256 h"
    and "h \<in> {hash_a, hash_b}" and "t \<in> {''first'', ''second''}" and "s \<in> {''original'', ''edited''}"
    and "r \<in> {'''', ''22''}"
  shows "validateRecord demo_guards (demo_capture t s r h)"
proof -
  have "\<not> blank hash_a" "\<not> blank hash_b" by (rule not_blank_letter; simp add: hash_a_def hash_b_def)+
  moreover have "\<not> blank AuthorityClass" "\<not> blank t"
    using assms(4) by (auto simp: AuthorityClass_def not_blank_letter)
  ultimately show ?thesis
    using assms
    by (auto simp: validateRecord_def demo_capture_def not_blank_letter unsafe_texts_def
        chronology_ok_def demo_guards_def hash_a_def [symmetric])
qed


lemma demo_valid:
  "validateRecord demo_guards demo_original" "validateRecord demo_guards demo_edited"
  using demo_hashes(1,2) by (auto simp: demo_original_def demo_edited_def intro!: demo_capture_valid)

lemma demo_library_valid: "validateLibrary demo_guards demo_library"
  using demo_valid
  by (simp add: validateLibrary_def demo_library_def demo_hashes MaximumRecords_def
      MaximumResources_def demo_original_def demo_capture_def)

lemma demo_next_valid: "validateLibrary demo_guards demo_next"
proof -
  have "\<not> blank (''revision-'' @ replicate 24 CHR ''a'')" by (simp add: not_blank_letter)
  then have "revision_ok demo_guards {} \<lparr>cv_RevisionID = ''revision-'' @ replicate 24 CHR ''a'',
       cv_SupersededAt = ''333'', cv_Record = demo_original\<rparr>"
    using demo_valid demo_revision_id
    by (simp add: revision_ok_def demo_guards_def demo_original_def demo_capture_def)
  then show ?thesis
    using demo_valid
    by (simp add: validateLibrary_def demo_next_def demo_hashes MaximumRecords_def
        MaximumResources_def demo_edited_def demo_capture_def)
qed

lemma demo_capture_batch_valid: "validateCaptureBatch demo_guards demo_batch"
  using demo_valid
  by (simp add: validateCaptureBatch_def demo_batch_def MaximumRecords_def unsafe_texts_def
      demo_guards_def)

lemma demo_imported:
  "import_library demo_guards (\<lambda>_. ''333'') [demo_batch] demo_library = Inr (Some demo_next, [demo_receipt])"
proof -
  have keys: "envelope_keys demo_guards [] [demo_batch] = [''slack:T:C:1'']"
    by (simp add: envelope_keys_def demo_batch_def demo_edited_def demo_capture_def)
  have fin: "final_of demo_guards [] [demo_batch] ''slack:T:C:1'' = Some (demo_edited, False)"
    by (simp add: final_of_def final_entries_def keys)
       (simp add: demo_batch_def demo_edited_def demo_capture_def)
  have prior: "record_under ''slack:T:C:1'' (lib_records demo_library) = Some demo_original"
    by (simp add: record_under_def demo_library_def demo_original_def demo_capture_def)
  have content: "final_content demo_guards [] [demo_batch] ''slack:T:C:1'' = hash_b"
    by (simp add: final_content_def fin) (simp add: demo_edited_def demo_capture_def)
  have "\<not> envelope_refused demo_guards demo_library [] [demo_batch]"
    by (simp add: envelope_refused_def keys fin final_refused_def prior)
       (simp add: historical_def demo_library_def demo_original_def demo_edited_def demo_capture_def
         isDeletedCapture_def)
  moreover have "applyCaptureBatch demo_guards ''333'' (final_content demo_guards [] [demo_batch]) demo_batch
      \<lparr>is_library = demo_library, is_imported = [], is_touched = []\<rparr> =
    (\<lparr>is_library = demo_next\<lparr>lb_Fingerprint := hash_a\<rparr>, is_imported = [hash_a], is_touched = [''slack:T:C:1'']\<rparr>,
     demo_receipt, True)"
    using prior content demo_revision_id
    by (simp add: applyCaptureBatch_def demo_hashes Let_def apply_record_def add_resources_def
        commit_batch_def batch_receipt_def demo_library_def demo_next_def demo_receipt_def demo_batch_def
        add_revision_def put_record_def slice_append_def demo_original_def demo_edited_def demo_capture_def)
  moreover have "sealLibrary demo_guards demo_next = demo_next"
    by (simp add: sealLibrary_def sorted_library_def demo_hashes Let_def demo_next_def)
  ultimately show ?thesis
    by (simp add: import_library_def imported_fingerprints_def Let_def)
       (simp add: demo_library_def demo_next_def)
qed


lemma demo_sizes:
  "length (encode (json_of_library demo_library)) < 5000"
  "length (encode (json_of_library demo_next)) < 5000"
  by code_simp+


text \<open>The repository after the import: the edit is current, the original is in the history.\<close>

definition demo_repo_after :: pm_repo where
  "demo_repo_after = \<lparr>pr_disk = \<lparr>current_file = Some (Doc demo_next), backup_file = Some (Doc demo_library)\<rparr>,
     pr_modified = 7, pr_cache = None\<rparr>"

lemma demo_bytes:
  "library_bytes (Doc demo_library) \<le> 5000" "library_bytes (Doc demo_next) \<le> 5000"
  using demo_sizes by (simp_all add: library_bytes_def)

lemma demo_neq: "demo_next \<noteq> demo_library"
  by (simp add: demo_next_def demo_library_def)

lemma demo_library_load: "pm_load demo_guards demo_pm_env demo_repo = Inr demo_library"
  using demo_bytes demo_library_valid
  by (simp add: pm_load_def demo_repo_def demo_pm_env_def MaximumLibraryBytes_def)

lemma demo_run:
  "ImportManyWithinBudget demo_guards demo_pm_env [demo_batch] MaximumCaptureLibraryBytes demo_repo =
     (demo_repo_after, Inr [demo_receipt])"
proof -
  have "persistLibraryWithinBudget demo_guards demo_pm_env MaximumCaptureLibraryBytes demo_next demo_repo =
      (demo_repo_after, None)"
    using demo_bytes demo_library_valid demo_next_valid demo_neq
      atomic_replace_quiet [of "valid_library_blob demo_guards" "Doc demo_next" library_bytes
        MaximumLibraryBytes "Some (Doc demo_library)"]
    by (simp add: persistLibraryWithinBudget_def MaximumCaptureLibraryBytes_def MaximumLibraryBytes_def
        demo_pm_env_def demo_repo_def demo_repo_after_def valid_library_blob_def)
  then show ?thesis
    using demo_library_load demo_imported demo_capture_batch_valid
    by (simp add: ImportManyWithinBudget_def MaximumCaptureLibraryBytes_def MaximumLibraryBytes_def
        demo_pm_env_def)
qed

lemma demo_identified: "fingerprints_identify g [b]"
  by (simp add: fingerprints_identify_def)

lemma demo_envelope: "envelope demo_guards [demo_batch] demo_library = [''slack:T:C:1'']"
  by (simp add: envelope_keys_def imported_fingerprints_def demo_library_def demo_batch_def
      demo_edited_def demo_capture_def)


theorem import_keeps_evidence_witness:
  "\<exists>l'. pm_load demo_guards demo_pm_env demo_repo_after = Inr l' \<and>
     (hashes l' ''slack:T:C:1'' = Some hash_a \<or> stableRevisionID demo_guards demo_original \<in> revision_ids l')"
proof -
  have known: "hashes demo_library (cr_IdempotencyKey demo_original) = Some (cr_ContentHash demo_original)"
    by (simp add: hashes_def record_under_def demo_library_def)
  have "cr_IdempotencyKey demo_original = ''slack:T:C:1''" "cr_ContentHash demo_original = hash_a"
    "\<not> pe_read_fails demo_pm_env"
    by (simp_all add: demo_original_def demo_capture_def demo_pm_env_def)
  with import_keeps_evidence [OF demo_run demo_identified demo_library_load, of demo_pm_env demo_original] known
  show ?thesis by auto
qed

theorem import_idempotent_witness:
  "\<exists>again. ImportManyWithinBudget demo_guards demo_pm_env [demo_batch] MaximumCaptureLibraryBytes
      demo_repo_after = (demo_repo_after, Inr again) \<and> list_all2 unchanged_receipt [demo_batch] again"
  by (rule import_idempotent [OF demo_run demo_identified]) (simp_all add: demo_pm_env_def)

theorem import_respects_chronology_witness:
  "\<exists>final \<in> {demo_edited}. \<not> historical demo_library ''slack:T:C:1'' (cr_ContentHash final)"
proof -
  have prior: "record_under ''slack:T:C:1'' (lib_records demo_library) = Some demo_original"
    by (simp add: record_under_def demo_library_def demo_original_def demo_capture_def)
  have after: "pm_load demo_guards demo_pm_env demo_repo_after = Inr demo_next"
    using demo_bytes demo_next_valid
    by (simp add: pm_load_def demo_repo_after_def demo_pm_env_def MaximumLibraryBytes_def)
  have "hashes demo_next ''slack:T:C:1'' \<noteq> Some (cr_ContentHash demo_original)"
    using hash_ok(5) [symmetric]
    by (simp add: hashes_def record_under_def demo_next_def demo_edited_def demo_original_def demo_capture_def)
  from import_respects_chronology [OF demo_run demo_identified demo_library_load _ prior after this]
  have "\<exists>final \<in> set (all_records [demo_batch]). \<not> historical demo_library ''slack:T:C:1'' (cr_ContentHash final)"
    by (auto simp: demo_pm_env_def)
  then show ?thesis by (simp add: demo_batch_def)
qed

end
