(* ===== verification/Ingest_Frames.thy ===== *)
theory Ingest_Frames
  imports PM_Capture
begin

text \<open>
  What an ingestion run is handed: native Slack batches (\<open>internal/acquisition/slack\<close>:
  \<open>NativeMessage\<close>, \<open>NativeBatch\<close>, \<open>validateNativeBatch\<close>), run frames and their dispositions
  (\<open>internal/adapters/slack/run_frame.go\<close>), the native timestamps of \<open>internal/acquisition\<close>, and the
  adoption of a frame as a capture batch. A Go map from message identities to author classes is
  an association list with distinct keys.
\<close>

section \<open>Timestamps\<close>

text \<open>
  Timestamps of the Web API: one to sixteen digits, a point, one to nine digits. Their value is
  counted in units of 1e-9; \<open>compareWebAPITimestamp\<close> is only reached with two such timestamps.
\<close>

definition digit :: "char \<Rightarrow> bool" where
  "digit c \<longleftrightarrow> (let n = of_char c :: nat in 48 \<le> n \<and> n \<le> 57)"

fun digits_value :: "nat \<Rightarrow> string \<Rightarrow> nat" where
  "digits_value acc [] = acc"
| "digits_value acc (c # cs) = digits_value (10 * acc + (of_char c - 48)) cs"

definition split_point :: "string \<Rightarrow> string \<times> string option" where
  "split_point s =
     (let whole = takeWhile (\<lambda>c. c \<noteq> CHR ''.'') s; rest = dropWhile (\<lambda>c. c \<noteq> CHR ''.'') s in
      (whole, case rest of [] \<Rightarrow> None | _ # frac \<Rightarrow> Some frac))"

definition webAPITimestamp :: "string \<Rightarrow> nat option" where
  "webAPITimestamp s =
     (case split_point s of
        (whole, Some frac) \<Rightarrow>
          if list_all digit whole \<and> list_all digit frac \<and> 1 \<le> length whole \<and> length whole \<le> 16 \<and>
             1 \<le> length frac \<and> length frac \<le> 9
          then Some (digits_value 0 whole * 10 ^ 9 + digits_value 0 frac * 10 ^ (9 - length frac))
          else None
      | (_, None) \<Rightarrow> None)"

definition compareWebAPITimestamp :: "string \<Rightarrow> string \<Rightarrow> int" where
  "compareWebAPITimestamp l r =
     (case (webAPITimestamp l, webAPITimestamp r) of
        (Some a, Some b) \<Rightarrow> sgn (int a - int b)
      | _ \<Rightarrow> if l < r then - 1 else if l = r then 0 else 1)"

definition validWebAPIWindow :: "string \<Rightarrow> string \<Rightarrow> bool" where
  "validWebAPIWindow oldest latest \<longleftrightarrow> webAPITimestamp oldest \<noteq> None \<and> webAPITimestamp latest \<noteq> None \<and>
     compareWebAPITimestamp oldest latest \<le> 0"

definition webAPITimestampInWindow :: "string \<Rightarrow> string \<Rightarrow> string \<Rightarrow> bool" where
  "webAPITimestampInWindow value oldest latest \<longleftrightarrow> webAPITimestamp value \<noteq> None \<and>
     compareWebAPITimestamp value oldest \<ge> 0 \<and> compareWebAPITimestamp value latest \<le> 0"

text \<open>
  \<open>parseNativeTimestamp\<close>: an RFC 3339 instant, or seconds with an optional fraction; \<open>parse_int64\<close> is
  \<open>strconv.ParseInt\<close> in base 10. Instants are nanoseconds.
\<close>

definition parse_int64 :: "string \<Rightarrow> int option" where
  "parse_int64 s =
     (let (negative, ds) =
        (case s of c # cs \<Rightarrow> if c = CHR ''-'' then (True, cs) else if c = CHR ''+'' then (False, cs) else (False, s)
         | [] \<Rightarrow> (False, []));
          n = int (digits_value 0 ds)
      in if ds = [] \<or> \<not> list_all digit ds then None
         else if negative then (if n > 2 ^ 63 then None else Some (- n))
         else if n \<ge> 2 ^ 63 then None else Some n)"

definition parseNativeTimestamp :: "pm_guards \<Rightarrow> string \<Rightarrow> int option" where
  "parseNativeTimestamp g value =
     (let trimmed = trim_space value in
      case g_rfc3339 g trimmed of
        Some t \<Rightarrow> Some t
      | None \<Rightarrow>
          (case split_point trimmed of (whole, frac) \<Rightarrow>
             (case parse_int64 whole of
                None \<Rightarrow> None
              | Some seconds \<Rightarrow>
                  if seconds < 0 then None
                  else case frac of
                    None \<Rightarrow> Some (seconds * 10 ^ 9)
                  | Some f \<Rightarrow>
                      if length f > 9 \<or> f = '''' then None
                      else map_option (\<lambda>nanos. seconds * 10 ^ 9 + nanos)
                             (parse_int64 (f @ replicate (9 - length f) CHR ''0'')))))"

text \<open>The two formats of an instant are parameters, as its parsers are.\<close>

record pm_formats =
  f_rfc3339 :: "int \<Rightarrow> string"
  f_rfc3339nano :: "int \<Rightarrow> string"

definition NativeTimestampToRFC3339 :: "pm_guards \<Rightarrow> pm_formats \<Rightarrow> string \<Rightarrow> string option" where
  "NativeTimestampToRFC3339 g f value = map_option (f_rfc3339 f) (parseNativeTimestamp g value)"

definition NativeRevisionTimestampToRFC3339 :: "pm_guards \<Rightarrow> pm_formats \<Rightarrow> string \<Rightarrow> string option" where
  "NativeRevisionTimestampToRFC3339 g f value = map_option (f_rfc3339nano f) (parseNativeTimestamp g value)"

section \<open>Native batches\<close>

record native_message =
  nm_NativeMessageID :: string
  nm_Timestamp :: string
  nm_AuthorID :: string
  nm_AuthorName :: string
  nm_Permalink :: string
  nm_ThreadParentID :: string
  nm_Text :: string
  nm_EditDeleteState :: string
  nm_RevisionTimestamp :: string
  nm_AttachmentCount :: int
  nm_PrivateFileCount :: int

record native_batch =
  nb_SchemaVersion :: string
  nb_WorkspaceID :: string
  nb_ChannelID :: string
  nb_LowerInclusive :: string
  nb_UpperInclusive :: string
  nb_Watermark :: string
  nb_IncludeThreads :: bool
  nb_IncludeReplies :: bool
  nb_PaginationExhausted :: bool
  nb_ThreadPaginationExhausted :: bool
  nb_DeclaredSourceRecords :: int
  nb_Messages :: "native_message list"

definition NativeBatchSchema :: string where
  "NativeBatchSchema = ''mindline_native_slack_batch/v1''"

definition MaximumNativeBatchMessages :: nat where "MaximumNativeBatchMessages = 20000"
definition MaximumNativeURLOccurrences :: nat where "MaximumNativeURLOccurrences = 50000"

definition batch_scope_ok :: "native_batch \<Rightarrow> bool" where
  "batch_scope_ok b \<longleftrightarrow>
     nb_SchemaVersion b = NativeBatchSchema \<and> \<not> blank (nb_WorkspaceID b) \<and> \<not> blank (nb_ChannelID b) \<and>
     \<not> blank (nb_LowerInclusive b) \<and> \<not> blank (nb_UpperInclusive b) \<and> \<not> blank (nb_Watermark b) \<and>
     nb_IncludeThreads b \<and> nb_IncludeReplies b \<and> nb_PaginationExhausted b \<and>
     nb_ThreadPaginationExhausted b \<and> nb_Messages b \<noteq> [] \<and>
     nb_DeclaredSourceRecords b = int (length (nb_Messages b)) \<and>
     length (nb_Messages b) \<le> MaximumNativeBatchMessages \<and>
     validWebAPIWindow (nb_LowerInclusive b) (nb_UpperInclusive b) \<and>
     nb_Watermark b = nb_UpperInclusive b"

definition revision_stamp_ok :: "native_message \<Rightarrow> bool" where
  "revision_stamp_ok m \<longleftrightarrow> nm_RevisionTimestamp m = '''' \<or>
     (webAPITimestamp (nm_RevisionTimestamp m) \<noteq> None \<and>
      compareWebAPITimestamp (nm_RevisionTimestamp m) (nm_Timestamp m) > 0)"

fun messages_ok ::
  "pm_guards \<Rightarrow> string \<Rightarrow> string \<Rightarrow> string list \<Rightarrow> nat \<Rightarrow> native_message list \<Rightarrow> bool" where
  "messages_ok g lower upper seen occurrences [] = True"
| "messages_ok g lower upper seen occurrences (m # ms) =
     (\<not> blank (nm_NativeMessageID m) \<and> webAPITimestampInWindow (nm_Timestamp m) lower upper \<and>
      nm_NativeMessageID m \<notin> set seen \<and> revision_stamp_ok m \<and>
      (let total = occurrences + length (g_occurrences g (nm_Text m)) in
       total \<le> MaximumNativeURLOccurrences \<and>
       messages_ok g lower upper (nm_NativeMessageID m # seen) total ms))"

definition validateNativeBatch :: "pm_guards \<Rightarrow> native_batch \<Rightarrow> bool" where
  "validateNativeBatch g b \<longleftrightarrow> batch_scope_ok b \<and>
     messages_ok g (nb_LowerInclusive b) (nb_UpperInclusive b) [] 0 (nb_Messages b)"

section \<open>Run frames\<close>

record run_frame =
  rf_Descriptor :: string
  rf_Batch :: native_batch
  rf_AuthorClasses :: "(string \<times> string) list"

datatype disposition = Retain | Withhold | Exclude

definition author_class :: "(string \<times> string) list \<Rightarrow> string \<Rightarrow> string" where
  "author_class classes i = (case map_of classes i of None \<Rightarrow> '''' | Some c \<Rightarrow> c)"

definition valid_class :: "string \<Rightarrow> bool" where
  "valid_class c \<longleftrightarrow> c = ''user'' \<or> c = ''non_user'' \<or> c = ''unknown''"

definition ValidateRunFrame :: "pm_guards \<Rightarrow> run_frame \<Rightarrow> bool" where
  "ValidateRunFrame g f \<longleftrightarrow>
     \<not> blank (rf_Descriptor f) \<and> validateNativeBatch g (rf_Batch f) \<and>
     length (rf_AuthorClasses f) = length (nb_Messages (rf_Batch f)) \<and>
     list_all (\<lambda>m. valid_class (trim_space (author_class (rf_AuthorClasses f) (nm_NativeMessageID m))))
       (nb_Messages (rf_Batch f)) \<and>
     list_all (\<lambda>(i, _). i \<in> nm_NativeMessageID ` set (nb_Messages (rf_Batch f))) (rf_AuthorClasses f)"

definition DispositionFor :: "native_message \<Rightarrow> string \<Rightarrow> disposition option" where
  "DispositionFor m class0 =
     (let class = trim_space class0 in
      if \<not> valid_class class then None
      else if class = ''non_user'' \<and> blank (nm_Text m) \<and> nm_AttachmentCount m = 0 \<and>
              nm_PrivateFileCount m = 0 then Some Exclude
      else if class = ''unknown'' then Some Withhold
      else Some Retain)"

text \<open>The capture of one message, None when the frame must be refused.\<close>

definition adopted_record ::
  "pm_guards \<Rightarrow> pm_formats \<Rightarrow> native_batch \<Rightarrow> native_message \<Rightarrow> disposition \<Rightarrow> capture_record option" where
  "adopted_record g f b m d =
     (let (source_ref, missing) =
        (if nm_Permalink m \<noteq> '''' then (nm_Permalink m, [])
         else (''slack://'' @ nb_WorkspaceID b @ ''/'' @ nb_ChannelID b @ ''/'' @ nm_NativeMessageID m,
               [''permalink_unavailable'']));
          (text, missing') = (if d = Withhold then ('''', missing @ [''withheld_unknown_author''])
                              else (nm_Text m, missing))
      in case NativeTimestampToRFC3339 g f (nm_Timestamp m) of
           None \<Rightarrow> None
         | Some occurred \<Rightarrow>
             (case (if nm_RevisionTimestamp m = '''' then Some ''''
                    else NativeRevisionTimestampToRFC3339 g f (nm_RevisionTimestamp m)) of
                None \<Rightarrow> None
              | Some revision \<Rightarrow> NewCaptureRecord g
                  \<lparr>ci_SourceAdapter = ''slack'', ci_SourceScopeID = nb_WorkspaceID b,
                   ci_SourceContainerID = nb_ChannelID b, ci_ExternalID = nm_NativeMessageID m,
                   ci_OccurredAt = occurred, ci_AuthorID = nm_AuthorID m, ci_AuthorName = nm_AuthorName m,
                   ci_SourceRef = source_ref, ci_RawText = text, ci_ThreadParentID = nm_ThreadParentID m,
                   ci_AttachmentCount = nm_AttachmentCount m, ci_PrivateFileCount = nm_PrivateFileCount m,
                   ci_EditDeleteState = nm_EditDeleteState m, ci_RevisionAt = revision,
                   ci_Missingness = missing'\<rparr>))"

fun adopt_messages ::
  "pm_guards \<Rightarrow> pm_formats \<Rightarrow> run_frame \<Rightarrow> native_message list
    \<Rightarrow> (capture_record list \<times> (string \<times> disposition) list) option" where
  "adopt_messages g f fr [] = Some ([], [])"
| "adopt_messages g f fr (m # ms) =
     (let class0 = author_class (rf_AuthorClasses fr) (nm_NativeMessageID m);
          class = (if class0 = '''' then ''unknown'' else class0)
      in case DispositionFor m class of
           None \<Rightarrow> None
         | Some d \<Rightarrow>
             (case (if d = Exclude then Some None
                    else map_option Some (adopted_record g f (rf_Batch fr) m d)) of
                None \<Rightarrow> None
              | Some r \<Rightarrow>
                  map_option (\<lambda>(rs, ds). ((case r of None \<Rightarrow> rs | Some x \<Rightarrow> x # rs),
                      (nm_NativeMessageID m, d) # ds)) (adopt_messages g f fr ms)))"

text \<open>
  \<open>CaptureBatchForAdoption\<close>: the capture batch (None for the zero batch of a frame whose messages
  are all excluded) and the disposition of every message.
\<close>

definition CaptureBatchForAdoption ::
  "pm_guards \<Rightarrow> pm_formats \<Rightarrow> run_frame
    \<Rightarrow> (capture_batch option \<times> (string \<times> disposition) list) option" where
  "CaptureBatchForAdoption g f fr =
     (if \<not> ValidateRunFrame g fr then None
      else case adopt_messages g f fr (nb_Messages (rf_Batch fr)) of
        None \<Rightarrow> None
      | Some ([], ds) \<Rightarrow> Some (None, ds)
      | Some (records, ds) \<Rightarrow>
          map_option (\<lambda>b. (Some b, ds)) (NewCaptureBatch g
            \<lparr>bi_SourceIdentity = ''slack:'' @ nb_WorkspaceID (rf_Batch fr) @ '':'' @ nb_ChannelID (rf_Batch fr),
             bi_LowerInclusive = nb_LowerInclusive (rf_Batch fr),
             bi_UpperInclusive = nb_UpperInclusive (rf_Batch fr),
             bi_Watermark = nb_Watermark (rf_Batch fr),
             bi_DeclaredRecords = int (length records), bi_Records = records\<rparr>))"

end
