(* ===== verification/Ingest_Controller.thy ===== *)
theory Ingest_Controller
  imports Ingest_Frames PM_Repository
begin

text \<open>
  The ingestion controller (\<open>internal/ingestioncontroller\<close>): the framed envelope and its decoding,
  the structural ledger and its store, and \<open>Apply\<close>, which reconciles an envelope, imports it into
  the personal evidence library (theory \<open>PM_Repository\<close>), reads the library back and records the
  outcome.

  A line of the stream is its length with what it decodes to. Other processes may change the
  library between the calls of \<open>Apply\<close>: \<open>ae_interfere\<close>, applied before each of them.
\<close>

section \<open>The envelope\<close>

record begin_frame =
  bf_Type :: string
  bf_SchemaVersion :: string
  bf_RunID :: string
  bf_SourceAdapter :: string
  bf_SourceScope :: string
  bf_ConfigurationFingerprint :: string
  bf_UnitCount :: int
  bf_MessageCeiling :: int
  bf_ByteCeiling :: int

record unit_frame =
  uf_Type :: string
  uf_Ordinal :: int
  uf_Descriptor :: string
  uf_Batch :: native_batch
  uf_AuthorClasses :: "(string \<times> string) list"

record end_frame =
  ef_Type :: string
  ef_UnitCount :: int
  ef_MessageCount :: int
  ef_ByteCount :: int
  ef_EnvelopeCommitment :: string

record ingest_envelope =
  en_Begin :: begin_frame
  en_Units :: "unit_frame list"
  en_End :: end_frame
  en_observedUnitBytes :: int

definition RunSchemaVersion :: string where "RunSchemaVersion = ''mindline_ingestion_run/v0.1''"
definition LedgerSchemaVersion :: string where "LedgerSchemaVersion = ''mindline_ingestion_ledger/v0.1''"
definition MaximumUnitBytes :: int where "MaximumUnitBytes = 32 * 2 ^ 20"
definition MaximumEnvelopeBytes :: int where "MaximumEnvelopeBytes = 128 * 2 ^ 20"
definition MaximumEnvelopeRecords :: int where "MaximumEnvelopeRecords = 100000"

definition json_of_message :: "native_message \<Rightarrow> json" where
  "json_of_message m = JObj
     ([(''native_message_id'', JStr (nm_NativeMessageID m)), (''timestamp'', JStr (nm_Timestamp m))] @
      opt_field (nm_AuthorID m \<noteq> '''') ''author_id'' (JStr (nm_AuthorID m)) @
      opt_field (nm_AuthorName m \<noteq> '''') ''author_name'' (JStr (nm_AuthorName m)) @
      opt_field (nm_Permalink m \<noteq> '''') ''permalink'' (JStr (nm_Permalink m)) @
      opt_field (nm_ThreadParentID m \<noteq> '''') ''thread_parent_id'' (JStr (nm_ThreadParentID m)) @
      [(''text'', JStr (nm_Text m))] @
      opt_field (nm_EditDeleteState m \<noteq> '''') ''edit_delete_state'' (JStr (nm_EditDeleteState m)) @
      opt_field (nm_RevisionTimestamp m \<noteq> '''') ''revision_timestamp'' (JStr (nm_RevisionTimestamp m)) @
      [(''attachment_count'', JInt (nm_AttachmentCount m)),
       (''private_file_count'', JInt (nm_PrivateFileCount m))])"

definition json_of_native_batch :: "native_batch \<Rightarrow> json" where
  "json_of_native_batch b = JObj
     [(''schema_version'', JStr (nb_SchemaVersion b)), (''workspace_id'', JStr (nb_WorkspaceID b)),
      (''channel_id'', JStr (nb_ChannelID b)), (''lower_inclusive'', JStr (nb_LowerInclusive b)),
      (''upper_inclusive'', JStr (nb_UpperInclusive b)), (''watermark'', JStr (nb_Watermark b)),
      (''include_threads'', JBool (nb_IncludeThreads b)),
      (''include_replies'', JBool (nb_IncludeReplies b)),
      (''pagination_exhausted'', JBool (nb_PaginationExhausted b)),
      (''thread_pagination_exhausted'', JBool (nb_ThreadPaginationExhausted b)),
      (''declared_source_records'', JInt (nb_DeclaredSourceRecords b)),
      (''messages'', JArr (map json_of_message (nb_Messages b)))]"

definition json_of_unit :: "unit_frame \<Rightarrow> json" where
  "json_of_unit u = JObj
     [(''type'', JStr (uf_Type u)), (''ordinal'', JInt (uf_Ordinal u)),
      (''descriptor'', JStr (uf_Descriptor u)), (''batch'', json_of_native_batch (uf_Batch u)),
      (''author_classes'', json_of_string_map (uf_AuthorClasses u))]"

definition commitment :: "pm_guards \<Rightarrow> string list \<Rightarrow> string" where
  "commitment g values = g_sha g (concat (map (\<lambda>v. v @ [CHR 0x00]) values))"

definition EnvelopeCommitment :: "pm_guards \<Rightarrow> unit_frame list \<Rightarrow> string" where
  "EnvelopeCommitment g units = commitment g (map (\<lambda>u. encode (json_of_unit u)) units)"

definition frame_of :: "unit_frame \<Rightarrow> run_frame" where
  "frame_of u = \<lparr>rf_Descriptor = uf_Descriptor u, rf_Batch = uf_Batch u,
     rf_AuthorClasses = uf_AuthorClasses u\<rparr>"

definition totals_ok :: "ingest_envelope \<Rightarrow> bool" where
  "totals_ok en \<longleftrightarrow> (let b = en_Begin en; e = en_End en in
     bf_Type b = ''begin'' \<and> bf_SchemaVersion b = RunSchemaVersion \<and> \<not> blank (bf_RunID b) \<and>
     trim_space (bf_SourceAdapter b) = ''slack'' \<and> \<not> blank (bf_SourceScope b) \<and>
     \<not> blank (bf_ConfigurationFingerprint b) \<and> bf_UnitCount b > 0 \<and>
     bf_UnitCount b \<le> MaximumEnvelopeRecords \<and> bf_MessageCeiling b > 0 \<and>
     bf_MessageCeiling b \<le> MaximumEnvelopeRecords \<and> bf_ByteCeiling b > 0 \<and>
     bf_ByteCeiling b \<le> MaximumEnvelopeBytes \<and> ef_Type e = ''end'' \<and>
     ef_UnitCount e = bf_UnitCount b \<and> ef_ByteCount e = en_observedUnitBytes en \<and>
     en_observedUnitBytes en \<le> bf_ByteCeiling b)"

definition unit_scope :: "unit_frame \<Rightarrow> string" where
  "unit_scope u = ''slack:'' @ nb_WorkspaceID (uf_Batch u) @ '':'' @ nb_ChannelID (uf_Batch u)"

text \<open>
  The units in order: \<open>index\<close> is the position, \<open>prior\<close> the descriptor before. An ordinal that
  equals its position has not been seen before, so the code's map of seen ordinals is not kept.
\<close>

fun units_ok :: "pm_guards \<Rightarrow> begin_frame \<Rightarrow> nat \<Rightarrow> string \<Rightarrow> unit_frame list \<Rightarrow> bool" where
  "units_ok g b index prior [] = True"
| "units_ok g b index prior (u # us) =
     (uf_Type u = ''unit'' \<and> uf_Ordinal u = int index \<and> uf_Ordinal u < bf_UnitCount b \<and>
      \<not> blank (uf_Descriptor u) \<and> (prior = '''' \<or> prior < uf_Descriptor u) \<and>
      ValidateRunFrame g (frame_of u) \<and> unit_scope u = bf_SourceScope b \<and>
      units_ok g b (Suc index) (uf_Descriptor u) us)"

definition unit_messages :: "unit_frame \<Rightarrow> native_message list" where
  "unit_messages u = nb_Messages (uf_Batch u)"

definition message_total :: "unit_frame list \<Rightarrow> int" where
  "message_total us = int (sum_list (map (\<lambda>u. length (unit_messages u)) us))"

definition validateEnvelope :: "pm_guards \<Rightarrow> ingest_envelope \<Rightarrow> bool" where
  "validateEnvelope g en \<longleftrightarrow> totals_ok en \<and>
     int (length (en_Units en)) = bf_UnitCount (en_Begin en) \<and>
     units_ok g (en_Begin en) 0 '''' (en_Units en) \<and>
     message_total (en_Units en) = ef_MessageCount (en_End en) \<and>
     message_total (en_Units en) \<le> bf_MessageCeiling (en_Begin en) \<and>
     message_total (en_Units en) \<le> MaximumEnvelopeRecords \<and>
     ef_EnvelopeCommitment (en_End en) = EnvelopeCommitment g (en_Units en)"

section \<open>Decoding the stream\<close>

text \<open>
  What a trimmed line decodes to: nothing, no JSON object, a value of the strict begin, unit or
  end shape, or an object of another shape with the kind its \<open>type\<close> field states.
\<close>

datatype line_body =
    EmptyLine | NotJson | BeginLine begin_frame | UnitLine unit_frame | EndLine end_frame
  | OtherLine string

fun line_kind :: "line_body \<Rightarrow> string option" where
  "line_kind (BeginLine b) = Some (bf_Type b)"
| "line_kind (UnitLine u) = Some (uf_Type u)"
| "line_kind (EndLine e) = Some (ef_Type e)"
| "line_kind (OtherLine kind) = Some kind"
| "line_kind body = None"

datatype frame_phase = PhaseBegin | PhaseUnit | PhaseEnd

record decode_state =
  dt_envelope :: ingest_envelope
  dt_stream :: int
  dt_phase :: frame_phase

definition empty_envelope :: ingest_envelope where
  "empty_envelope = \<lparr>en_Begin = \<lparr>bf_Type = '''', bf_SchemaVersion = '''', bf_RunID = '''',
       bf_SourceAdapter = '''', bf_SourceScope = '''', bf_ConfigurationFingerprint = '''',
       bf_UnitCount = 0, bf_MessageCeiling = 0, bf_ByteCeiling = 0\<rparr>,
     en_Units = [], en_End = \<lparr>ef_Type = '''', ef_UnitCount = 0, ef_MessageCount = 0,
       ef_ByteCount = 0, ef_EnvelopeCommitment = ''''\<rparr>, en_observedUnitBytes = 0\<rparr>"

definition decode_line :: "nat \<times> line_body \<Rightarrow> decode_state \<Rightarrow> decode_state option" where
  "decode_line = (\<lambda>(len, body) d.
     let d1 = d\<lparr>dt_stream := dt_stream d + int len\<rparr>; en = dt_envelope d in
     if int len > MaximumUnitBytes \<or> dt_stream d1 > MaximumEnvelopeBytes then None
     else case line_kind body of
       None \<Rightarrow> None
     | Some kind \<Rightarrow>
         if kind = ''begin'' then
           (case body of
              BeginLine b \<Rightarrow>
                if dt_phase d \<noteq> PhaseBegin then None
                else Some (d1\<lparr>dt_envelope := en\<lparr>en_Begin := b\<rparr>, dt_phase := PhaseUnit\<rparr>)
            | _ \<Rightarrow> None)
         else if kind = ''unit'' then
           (case body of
              UnitLine u \<Rightarrow>
                if dt_phase d \<noteq> PhaseUnit then None
                else Some (d1\<lparr>dt_envelope := en\<lparr>en_Units := en_Units en @ [u],
                  en_observedUnitBytes := en_observedUnitBytes en + int len\<rparr>\<rparr>)
            | _ \<Rightarrow> None)
         else if kind = ''end'' then
           (case body of
              EndLine e \<Rightarrow>
                if dt_phase d \<noteq> PhaseUnit then None
                else Some (d1\<lparr>dt_envelope := en\<lparr>en_End := e\<rparr>, dt_phase := PhaseEnd\<rparr>)
            | _ \<Rightarrow> None)
         else None)"

fun decode_lines :: "(nat \<times> line_body) list \<Rightarrow> decode_state \<Rightarrow> decode_state option" where
  "decode_lines [] d = Some d"
| "decode_lines (l # ls) d =
     (case decode_line l d of None \<Rightarrow> None | Some d' \<Rightarrow> decode_lines ls d')"

text \<open>\<open>clean\<close> says whether the stream ends with end of file rather than a read error.\<close>

definition DecodeEnvelope ::
  "pm_guards \<Rightarrow> (nat \<times> line_body) list \<Rightarrow> bool \<Rightarrow> ingest_envelope option" where
  "DecodeEnvelope g ls clean =
     (case decode_lines ls \<lparr>dt_envelope = empty_envelope, dt_stream = 0, dt_phase = PhaseBegin\<rparr> of
        None \<Rightarrow> None
      | Some d \<Rightarrow>
          if \<not> clean \<or> dt_phase d \<noteq> PhaseEnd \<or> \<not> validateEnvelope g (dt_envelope d) then None
          else Some (dt_envelope d))"

section \<open>The ledger\<close>

record ledger =
  lg_SchemaVersion :: string
  lg_RunID :: string
  lg_State :: string
  lg_SourceAdapter :: string
  lg_SourceScope :: string
  lg_ConfigurationFingerprint :: string
  lg_DeliveredCount :: int
  lg_CanonicalDeclaredCount :: int
  lg_StructuralExcludedCount :: int
  lg_OwnedCount :: int
  lg_RetainedCount :: int
  lg_WithheldCount :: int
  lg_OverlapCount :: int
  lg_GapCount :: int
  lg_ThreadCount :: int
  lg_AggregateCommitment :: string
  lg_CanonicalBeforeFingerprint :: string
  lg_CanonicalAfterFingerprint :: string
  lg_CanonicalBeforeCount :: int
  lg_CanonicalAfterCount :: int

definition validLedger :: "ledger \<Rightarrow> bool" where
  "validLedger l \<longleftrightarrow>
     lg_SchemaVersion l = LedgerSchemaVersion \<and> \<not> blank (lg_RunID l) \<and>
     lg_State l \<in> {''incomplete'', ''recovering'', ''failed'', ''complete''} \<and>
     \<not> blank (lg_SourceAdapter l) \<and> \<not> blank (lg_SourceScope l) \<and>
     \<not> blank (lg_ConfigurationFingerprint l) \<and> 0 \<le> lg_DeliveredCount l \<and>
     0 \<le> lg_CanonicalDeclaredCount l \<and> 0 \<le> lg_StructuralExcludedCount l \<and>
     lg_DeliveredCount l = lg_CanonicalDeclaredCount l + lg_StructuralExcludedCount l \<and>
     0 \<le> lg_OwnedCount l \<and> 0 \<le> lg_RetainedCount l \<and> 0 \<le> lg_WithheldCount l \<and>
     lg_OwnedCount l = lg_RetainedCount l + lg_WithheldCount l + lg_StructuralExcludedCount l \<and>
     0 \<le> lg_OverlapCount l \<and> 0 \<le> lg_GapCount l \<and> 0 \<le> lg_ThreadCount l \<and>
     0 \<le> lg_CanonicalBeforeCount l \<and> 0 \<le> lg_CanonicalAfterCount l \<and>
     length (lg_AggregateCommitment l) = 64 \<and> length (lg_CanonicalBeforeFingerprint l) = 64 \<and>
     length (lg_CanonicalAfterFingerprint l) = 64"

definition json_of_ledger :: "ledger \<Rightarrow> json" where
  "json_of_ledger l = JObj
     [(''schema_version'', JStr (lg_SchemaVersion l)), (''run_id'', JStr (lg_RunID l)),
      (''state'', JStr (lg_State l)), (''source_adapter'', JStr (lg_SourceAdapter l)),
      (''source_scope'', JStr (lg_SourceScope l)),
      (''configuration_fingerprint'', JStr (lg_ConfigurationFingerprint l)),
      (''delivered_count'', JInt (lg_DeliveredCount l)),
      (''canonical_declared_count'', JInt (lg_CanonicalDeclaredCount l)),
      (''structural_excluded_count'', JInt (lg_StructuralExcludedCount l)),
      (''owned_count'', JInt (lg_OwnedCount l)), (''retained_count'', JInt (lg_RetainedCount l)),
      (''withheld_count'', JInt (lg_WithheldCount l)), (''overlap_count'', JInt (lg_OverlapCount l)),
      (''gap_count'', JInt (lg_GapCount l)), (''thread_count'', JInt (lg_ThreadCount l)),
      (''aggregate_commitment'', JStr (lg_AggregateCommitment l)),
      (''canonical_before_fingerprint'', JStr (lg_CanonicalBeforeFingerprint l)),
      (''canonical_after_fingerprint'', JStr (lg_CanonicalAfterFingerprint l)),
      (''canonical_before_count'', JInt (lg_CanonicalBeforeCount l)),
      (''canonical_after_count'', JInt (lg_CanonicalAfterCount l))]"

definition maximumLedgerBytes :: int where "maximumLedgerBytes = 2 ^ 20"

definition ledger_bytes :: "ledger blob \<Rightarrow> int" where
  "ledger_bytes b =
     (case b of Doc l \<Rightarrow> int (length (encode (json_of_ledger l))) + 1 | Garbled s \<Rightarrow> int (length s))"

definition valid_ledger_blob :: "ledger blob \<Rightarrow> bool" where
  "valid_ledger_blob b = (case b of Doc l \<Rightarrow> validLedger l | Garbled _ \<Rightarrow> False)"

record ledger_env =
  le_io :: io_env
  le_lock_busy :: bool
  le_read_fails :: bool

datatype ingest_error =
    EnvelopeInvalid | ApplyBusy | ReadbackUnavailable | InvalidLedger | LedgerBusy | LedgerUnavailable
  | ReconciliationFailed | IncompleteNotPersisted

definition ledger_load :: "ledger_env \<Rightarrow> ledger disk \<Rightarrow> (ingest_error, ledger option) result" where
  "ledger_load env d =
     (case current_file d of
        None \<Rightarrow> Inr None
      | Some b \<Rightarrow>
          if le_read_fails env \<or> ledger_bytes b > maximumLedgerBytes then Inl LedgerUnavailable
          else case b of
            Garbled _ \<Rightarrow> Inl LedgerUnavailable
          | Doc l \<Rightarrow> if validLedger l then Inr (Some l) else Inl LedgerUnavailable)"

definition ledger_save :: "ledger_env \<Rightarrow> ledger \<Rightarrow> ledger disk \<Rightarrow> ledger disk \<times> ingest_error option" where
  "ledger_save env l d =
     (if \<not> validLedger l then (d, Some InvalidLedger)
      else if le_lock_busy env then (d, Some LedgerBusy)
      else if current_file d \<noteq> None \<and>
              (le_read_fails env \<or> ledger_bytes (the (current_file d)) > maximumLedgerBytes)
      then (d, Some LedgerUnavailable)
      else case replace_document ledger_bytes maximumLedgerBytes valid_ledger_blob (le_io env) (Doc l) d of
        (d', None) \<Rightarrow> (d', None)
      | (d', Some _) \<Rightarrow> (d', Some LedgerUnavailable))"


section \<open>Reconciling the messages\<close>

record identity_fact =
  fa_class :: string
  fa_disposition :: disposition
  fa_message :: native_message

record reconcile_state =
  rs_ledger :: ledger
  rs_facts :: "(string \<times> identity_fact) list" \<comment> \<open>the last fact of a key first\<close>
  rs_parents :: "string list"
  rs_keys :: "string list"

definition message_key :: "native_batch \<Rightarrow> string \<Rightarrow> string" where
  "message_key b i = nb_WorkspaceID b @ [CHR 0x00] @ nb_ChannelID b @ [CHR 0x00] @ i"

definition truthfulTransition :: "pm_guards \<Rightarrow> pm_formats \<Rightarrow> native_message \<Rightarrow> native_message \<Rightarrow> bool" where
  "truthfulTransition g f before after \<longleftrightarrow>
     nm_NativeMessageID before = nm_NativeMessageID after \<and> nm_Timestamp before = nm_Timestamp after \<and>
     nm_ThreadParentID before = nm_ThreadParentID after \<and>
     nm_EditDeleteState before \<noteq> ''deleted'' \<and> nm_EditDeleteState before \<noteq> ''tombstone'' \<and>
     (if nm_EditDeleteState before = ''edited'' \<and> nm_EditDeleteState after = ''edited'' then
        (case (Option.bind (NativeRevisionTimestampToRFC3339 g f (nm_RevisionTimestamp before)) (g_rfc3339nano g),
               Option.bind (NativeRevisionTimestampToRFC3339 g f (nm_RevisionTimestamp after)) (g_rfc3339nano g)) of
           (Some b, Some a) \<Rightarrow> b < a
         | _ \<Rightarrow> False)
      else nm_EditDeleteState after \<in> {''edited'', ''deleted'', ''tombstone''})"

definition count_disposition :: "disposition \<Rightarrow> ledger \<Rightarrow> ledger" where
  "count_disposition d l =
     (case d of
        Exclude \<Rightarrow> l\<lparr>lg_StructuralExcludedCount := lg_StructuralExcludedCount l + 1\<rparr>
      | Withhold \<Rightarrow> l\<lparr>lg_WithheldCount := lg_WithheldCount l + 1\<rparr>
      | Retain \<Rightarrow> l\<lparr>lg_RetainedCount := lg_RetainedCount l + 1\<rparr>)"

definition count_thread :: "native_batch \<Rightarrow> native_message \<Rightarrow> reconcile_state \<Rightarrow> reconcile_state" where
  "count_thread b m s =
     (if blank (nm_ThreadParentID m) then s
      else s\<lparr>rs_parents := message_key b (nm_ThreadParentID m) # rs_parents s,
             rs_ledger := (rs_ledger s)\<lparr>lg_ThreadCount := lg_ThreadCount (rs_ledger s) + 1\<rparr>\<rparr>)"

text \<open>One message: a contradiction fails with the ledger as it is at that moment.\<close>

definition reconcile_message ::
  "pm_guards \<Rightarrow> pm_formats \<Rightarrow> unit_frame \<Rightarrow> native_message \<Rightarrow> reconcile_state
    \<Rightarrow> (ledger, reconcile_state) result" where
  "reconcile_message g f u m s =
     (let key = message_key (uf_Batch u) (nm_NativeMessageID m);
          class = author_class (uf_AuthorClasses u) (nm_NativeMessageID m)
      in case DispositionFor m class of
           None \<Rightarrow> Inl (rs_ledger s)
         | Some d \<Rightarrow>
             let fact = \<lparr>fa_class = class, fa_disposition = d, fa_message = m\<rparr> in
             (case map_of (rs_facts s) key of
                Some prior \<Rightarrow>
                  if fa_class prior \<noteq> class \<or> fa_disposition prior \<noteq> d \<or>
                     (fa_message prior \<noteq> m \<and> \<not> truthfulTransition g f (fa_message prior) m)
                  then Inl (rs_ledger s)
                  else Inr (count_thread (uf_Batch u) m
                    (s\<lparr>rs_facts := (key, fact) # rs_facts s,
                       rs_ledger := (rs_ledger s)\<lparr>lg_OverlapCount := lg_OverlapCount (rs_ledger s) + 1\<rparr>\<rparr>))
              | None \<Rightarrow>
                  Inr (count_thread (uf_Batch u) m
                    (s\<lparr>rs_facts := (key, fact) # rs_facts s, rs_keys := rs_keys s @ [key],
                       rs_ledger := count_disposition d (rs_ledger s)\<rparr>))))"

fun reconcile_messages ::
  "pm_guards \<Rightarrow> pm_formats \<Rightarrow> (unit_frame \<times> native_message) list \<Rightarrow> reconcile_state
    \<Rightarrow> (ledger, reconcile_state) result" where
  "reconcile_messages g f [] s = Inr s"
| "reconcile_messages g f ((u, m) # ms) s =
     rbind (reconcile_message g f u m s) (reconcile_messages g f ms)"

definition deliveries :: "unit_frame list \<Rightarrow> (unit_frame \<times> native_message) list" where
  "deliveries us = concat (map (\<lambda>u. map (Pair u) (unit_messages u)) us)"

definition parent_missing :: "reconcile_state \<Rightarrow> bool" where
  "parent_missing s \<longleftrightarrow>
     list_ex (\<lambda>p. case map_of (rs_facts s) p of None \<Rightarrow> True | Some fa \<Rightarrow> fa_disposition fa = Exclude)
       (rs_parents s)"

definition reconcile ::
  "pm_guards \<Rightarrow> pm_formats \<Rightarrow> unit_frame list \<Rightarrow> ledger \<Rightarrow> (ledger, ledger) result" where
  "reconcile g f us l =
     rbind (reconcile_messages g f (deliveries us)
       \<lparr>rs_ledger = l, rs_facts = [], rs_parents = [], rs_keys = []\<rparr>) (\<lambda>s.
       if parent_missing s
       then Inl ((rs_ledger s)\<lparr>lg_GapCount := lg_GapCount (rs_ledger s) + 1\<rparr>)
       else Inr ((rs_ledger s)\<lparr>lg_OwnedCount := int (length (rs_keys s)),
                              lg_AggregateCommitment := commitment g (sort (rs_keys s))\<rparr>))"

text \<open>The receipt of one unit and the captures of all of them.\<close>

record adoption_receipt =
  ar_DeliveredNative :: int
  ar_CanonicalDeclared :: int
  ar_StructuralExcluded :: int

definition valid_adoption :: "adoption_receipt \<Rightarrow> bool" where
  "valid_adoption r \<longleftrightarrow> ar_DeliveredNative r \<ge> 0 \<and> ar_CanonicalDeclared r \<ge> 0 \<and>
     ar_StructuralExcluded r \<ge> 0 \<and>
     ar_DeliveredNative r = ar_CanonicalDeclared r + ar_StructuralExcluded r"

definition adopted_receipt ::
  "unit_frame \<Rightarrow> capture_batch option \<Rightarrow> (string \<times> disposition) list \<Rightarrow> adoption_receipt" where
  "adopted_receipt u c ds =
     \<lparr>ar_DeliveredNative = int (length (unit_messages u)),
      ar_CanonicalDeclared = (case c of None \<Rightarrow> 0
        | Some b \<Rightarrow> if cb_DeclaredRecords b > 0 then cb_DeclaredRecords b else 0),
      ar_StructuralExcluded = int (length (filter (\<lambda>(_, d). d = Exclude) ds))\<rparr>"

fun adopt_units ::
  "pm_guards \<Rightarrow> pm_formats \<Rightarrow> unit_frame list \<Rightarrow> ledger
    \<Rightarrow> (ledger, ledger \<times> capture_batch list) result" where
  "adopt_units g f [] l = Inr (l, [])"
| "adopt_units g f (u # us) l =
     (case CaptureBatchForAdoption g f (frame_of u) of
        None \<Rightarrow> Inl l
      | Some (c, ds) \<Rightarrow>
          let r = adopted_receipt u c ds in
          if \<not> valid_adoption r then Inl l
          else rbind (adopt_units g f us
              (l\<lparr>lg_DeliveredCount := lg_DeliveredCount l + ar_DeliveredNative r,
                 lg_CanonicalDeclaredCount := lg_CanonicalDeclaredCount l + ar_CanonicalDeclared r\<rparr>))
            (\<lambda>(l', cs). Inr (l', (case c of None \<Rightarrow> cs
               | Some b \<Rightarrow> if cb_DeclaredRecords b > 0 then b # cs else cs))))"

section \<open>Apply\<close>

definition receipt_matches :: "capture_batch \<Rightarrow> import_receipt \<Rightarrow> bool" where
  "receipt_matches b i \<longleftrightarrow> ir_DeclaredRecords i = cb_DeclaredRecords b \<and>
     ir_InsertedRecords i + ir_UpdatedRecords i + ir_UnchangedRecords i = cb_DeclaredRecords b"

definition capturesCurrent :: "library \<Rightarrow> capture_batch \<Rightarrow> bool" where
  "capturesCurrent l b \<longleftrightarrow>
     list_all (\<lambda>r. case record_under (cr_IdempotencyKey r) (lib_records l) of
         None \<Rightarrow> False
       | Some current \<Rightarrow> cr_ContentHash current = cr_ContentHash r \<or>
           historical l (cr_IdempotencyKey r) (cr_ContentHash r)) (batch_records b)"

record apply_env =
  ae_lock_busy :: bool
  ae_before :: pm_env
  ae_import :: pm_env
  ae_load :: pm_env
  ae_after :: pm_env
  ae_first_save :: ledger_env
  ae_last_save :: ledger_env
  ae_interfere :: "nat \<Rightarrow> pm_repo \<Rightarrow> pm_repo"

record ingest_world =
  iw_repo :: pm_repo
  iw_ledger :: "ledger disk"

definition initial_ledger :: "pm_guards \<Rightarrow> begin_frame \<Rightarrow> pm_status \<Rightarrow> ledger" where
  "initial_ledger g b before =
     \<lparr>lg_SchemaVersion = LedgerSchemaVersion, lg_RunID = bf_RunID b, lg_State = ''recovering'',
      lg_SourceAdapter = bf_SourceAdapter b, lg_SourceScope = bf_SourceScope b,
      lg_ConfigurationFingerprint = bf_ConfigurationFingerprint b, lg_DeliveredCount = 0,
      lg_CanonicalDeclaredCount = 0, lg_StructuralExcludedCount = 0, lg_OwnedCount = 0,
      lg_RetainedCount = 0, lg_WithheldCount = 0, lg_OverlapCount = 0, lg_GapCount = 0,
      lg_ThreadCount = 0, lg_AggregateCommitment = commitment g [],
      lg_CanonicalBeforeFingerprint = ps_Fingerprint before,
      lg_CanonicalAfterFingerprint = ps_Fingerprint before,
      lg_CanonicalBeforeCount = ps_RecordCount before, lg_CanonicalAfterCount = ps_RecordCount before\<rparr>"

definition failed_ledger :: "pm_guards \<Rightarrow> ledger \<Rightarrow> ledger" where
  "failed_ledger g l =
     (let l1 = l\<lparr>lg_State := ''incomplete'',
            lg_DeliveredCount := lg_CanonicalDeclaredCount l + lg_StructuralExcludedCount l,
            lg_OwnedCount := lg_RetainedCount l + lg_WithheldCount l + lg_StructuralExcludedCount l\<rparr>;
          l2 = (if length (lg_AggregateCommitment l1) \<noteq> 64
                then l1\<lparr>lg_AggregateCommitment := commitment g []\<rparr> else l1)
      in if length (lg_CanonicalAfterFingerprint l2) \<noteq> 64
         then l2\<lparr>lg_CanonicalAfterFingerprint := lg_CanonicalBeforeFingerprint l2,
                 lg_CanonicalAfterCount := lg_CanonicalBeforeCount l2\<rparr>
         else l2)"

type_synonym apply_outcome = "ingest_world \<times> (ingest_error, ledger) result"

definition fail_apply :: "pm_guards \<Rightarrow> apply_env \<Rightarrow> ledger \<Rightarrow> ingest_world \<Rightarrow> apply_outcome" where
  "fail_apply g env l w =
     (case ledger_save (ae_last_save env) (failed_ledger g l) (iw_ledger w) of
        (d, err) \<Rightarrow> (w\<lparr>iw_ledger := d\<rparr>,
          Inl (if err = None then ReconciliationFailed else IncompleteNotPersisted)))"

definition interfered :: "apply_env \<Rightarrow> nat \<Rightarrow> ingest_world \<Rightarrow> ingest_world" where
  "interfered env n w = w\<lparr>iw_repo := ae_interfere env n (iw_repo w)\<rparr>"

text \<open>The import, its receipts and the readback; False when any of them does not hold.\<close>

definition import_and_read_back ::
  "pm_guards \<Rightarrow> apply_env \<Rightarrow> capture_batch list \<Rightarrow> ingest_world \<Rightarrow> ingest_world \<times> bool" where
  "import_and_read_back g env captures w0 =
     (let w = interfered env 1 w0 in
      case ImportManyWithinBudget g (ae_import env) captures MaximumCaptureLibraryBytes (iw_repo w) of
        (rp, Inl e) \<Rightarrow> (w\<lparr>iw_repo := rp\<rparr>, False)
      | (rp, Inr receipts) \<Rightarrow>
          let w1 = w\<lparr>iw_repo := rp\<rparr> in
          if length receipts \<noteq> length captures \<or> \<not> list_all2 receipt_matches captures receipts
          then (w1, False)
          else
            let w2 = interfered env 2 w1 in
            (case pm_load g (ae_load env) (iw_repo w2) of
               Inl e \<Rightarrow> (w2, False)
             | Inr l \<Rightarrow> (w2, list_all (capturesCurrent l) captures)))"

definition complete_apply :: "pm_guards \<Rightarrow> apply_env \<Rightarrow> ledger \<Rightarrow> ingest_world \<Rightarrow> apply_outcome" where
  "complete_apply g env l w0 =
     (let w = interfered env 3 w0 in
      case pm_status g (ae_after env) (iw_repo w) of
        (rp, Inl e) \<Rightarrow> fail_apply g env l (w\<lparr>iw_repo := rp\<rparr>)
      | (rp, Inr after) \<Rightarrow>
          let l' = l\<lparr>lg_CanonicalAfterFingerprint := ps_Fingerprint after,
                     lg_CanonicalAfterCount := ps_RecordCount after, lg_State := ''complete''\<rparr> in
          (case ledger_save (ae_last_save env) l' (iw_ledger w) of
             (d, Some e) \<Rightarrow> (w\<lparr>iw_repo := rp, iw_ledger := d\<rparr>, Inl e)
           | (d, None) \<Rightarrow> (w\<lparr>iw_repo := rp, iw_ledger := d\<rparr>, Inr l')))"

definition apply_recovering ::
  "pm_guards \<Rightarrow> pm_formats \<Rightarrow> apply_env \<Rightarrow> unit_frame list \<Rightarrow> ledger \<Rightarrow> ingest_world \<Rightarrow> apply_outcome" where
  "apply_recovering g f env us l w =
     (case rbind (reconcile g f us l) (adopt_units g f us) of
        Inl l' \<Rightarrow> fail_apply g env l' w
      | Inr (l', captures) \<Rightarrow>
          if captures = [] then complete_apply g env l' w
          else case import_and_read_back g env captures w of
            (w', False) \<Rightarrow> fail_apply g env l' w'
          | (w', True) \<Rightarrow> complete_apply g env l' w')"

definition Apply_envelope ::
  "pm_guards \<Rightarrow> pm_formats \<Rightarrow> apply_env \<Rightarrow> ingest_envelope \<Rightarrow> ingest_world \<Rightarrow> apply_outcome" where
  "Apply_envelope g f env en w0 =
     (if \<not> validateEnvelope g en then (w0, Inl EnvelopeInvalid)
      else if ae_lock_busy env then (w0, Inl ApplyBusy)
      else
        let w = interfered env 0 w0 in
        case pm_status g (ae_before env) (iw_repo w) of
          (rp, Inl e) \<Rightarrow> (w\<lparr>iw_repo := rp\<rparr>, Inl ReadbackUnavailable)
        | (rp, Inr before) \<Rightarrow>
            let l = initial_ledger g (en_Begin en) before in
            (case ledger_save (ae_first_save env) l (iw_ledger w) of
               (d, Some e) \<Rightarrow> (w\<lparr>iw_repo := rp, iw_ledger := d\<rparr>, Inl e)
             | (d, None) \<Rightarrow>
                 apply_recovering g f env (en_Units en) l (w\<lparr>iw_repo := rp, iw_ledger := d\<rparr>)))"

end
