(* ===== verification/Ingest_Properties.thy ===== *)
theory Ingest_Properties
  imports Ingest_Controller
begin

text \<open>
  What \<open>Apply\<close> promises: a ledger that says complete is true of the envelope and of the library
  that was read back; a failed reconciliation leaves a valid incomplete ledger; and the flaw in
  the accounting of excluded messages that two units deliver.
\<close>

section \<open>The counts of the reconciliation\<close>

definition delivery_key :: "unit_frame \<times> native_message \<Rightarrow> string" where
  "delivery_key d = message_key (uf_Batch (fst d)) (nm_NativeMessageID (snd d))"

definition delivery_disposition :: "unit_frame \<times> native_message \<Rightarrow> disposition option" where
  "delivery_disposition d =
     DispositionFor (snd d) (author_class (uf_AuthorClasses (fst d)) (nm_NativeMessageID (snd d)))"

text \<open>The distinct messages of a disposition.\<close>

definition owned :: "(unit_frame \<times> native_message) set \<Rightarrow> disposition \<Rightarrow> string set" where
  "owned D x = delivery_key ` {d \<in> D. delivery_disposition d = Some x}"

definition disposition_count :: "ledger \<Rightarrow> disposition \<Rightarrow> int" where
  "disposition_count l x =
     (case x of Retain \<Rightarrow> lg_RetainedCount l | Withhold \<Rightarrow> lg_WithheldCount l
      | Exclude \<Rightarrow> lg_StructuralExcludedCount l)"

text \<open>What the reconciliation leaves of the ledger it starts from.\<close>

definition same_run :: "ledger \<Rightarrow> ledger \<Rightarrow> bool" where
  "same_run l0 l \<longleftrightarrow>
     lg_SchemaVersion l = lg_SchemaVersion l0 \<and> lg_RunID l = lg_RunID l0 \<and> lg_State l = lg_State l0 \<and>
     lg_SourceAdapter l = lg_SourceAdapter l0 \<and> lg_SourceScope l = lg_SourceScope l0 \<and>
     lg_ConfigurationFingerprint l = lg_ConfigurationFingerprint l0 \<and>
     lg_CanonicalBeforeFingerprint l = lg_CanonicalBeforeFingerprint l0 \<and>
     lg_CanonicalAfterFingerprint l = lg_CanonicalAfterFingerprint l0 \<and>
     lg_CanonicalBeforeCount l = lg_CanonicalBeforeCount l0 \<and>
     lg_CanonicalAfterCount l = lg_CanonicalAfterCount l0"

definition counts_nonneg :: "ledger \<Rightarrow> bool" where
  "counts_nonneg l \<longleftrightarrow> 0 \<le> lg_CanonicalDeclaredCount l \<and> (\<forall>x. 0 \<le> disposition_count l x) \<and>
     0 \<le> lg_OverlapCount l \<and> 0 \<le> lg_GapCount l \<and> 0 \<le> lg_ThreadCount l"

lemma same_run_refl [simp]: "same_run l l"
  by (simp add: same_run_def)

lemma same_run_trans: "same_run a b \<Longrightarrow> same_run b c \<Longrightarrow> same_run a c"
  by (simp add: same_run_def)

definition facts_of :: "(unit_frame \<times> native_message) set \<Rightarrow> (string \<times> identity_fact) list \<Rightarrow> bool" where
  "facts_of D fs \<longleftrightarrow> fst ` set fs = delivery_key ` D \<and>
     (\<forall>d \<in> D. map_option fa_disposition (map_of fs (delivery_key d)) = delivery_disposition d \<and>
        delivery_disposition d \<noteq> None)"

definition tally :: "ledger \<Rightarrow> (unit_frame \<times> native_message) set \<Rightarrow> ledger \<Rightarrow> bool" where
  "tally l0 D l \<longleftrightarrow> same_run l0 l \<and>
     lg_DeliveredCount l = lg_DeliveredCount l0 \<and>
     lg_CanonicalDeclaredCount l = lg_CanonicalDeclaredCount l0 \<and>
     lg_OverlapCount l0 \<le> lg_OverlapCount l \<and> lg_GapCount l0 \<le> lg_GapCount l \<and>
     lg_ThreadCount l0 \<le> lg_ThreadCount l \<and>
     lg_AggregateCommitment l = lg_AggregateCommitment l0 \<and>
     (\<forall>x. disposition_count l x = disposition_count l0 x + int (card (owned D x)))"

definition reconciled :: "ledger \<Rightarrow> (unit_frame \<times> native_message) set \<Rightarrow> reconcile_state \<Rightarrow> bool" where
  "reconciled l0 D s \<longleftrightarrow> distinct (rs_keys s) \<and> set (rs_keys s) = delivery_key ` D \<and>
     facts_of D (rs_facts s) \<and> tally l0 D (rs_ledger s)"

lemma disposition_count_other [simp]:
  "disposition_count (l\<lparr>lg_OverlapCount := n\<rparr>) x = disposition_count l x"
  "disposition_count (l\<lparr>lg_ThreadCount := n\<rparr>) x = disposition_count l x"
  "disposition_count (l\<lparr>lg_GapCount := n\<rparr>) x = disposition_count l x"
  by (simp_all add: disposition_count_def split: disposition.splits)

lemma same_run_other [simp]:
  "same_run l0 (l\<lparr>lg_OverlapCount := n\<rparr>) = same_run l0 l"
  "same_run l0 (l\<lparr>lg_ThreadCount := n\<rparr>) = same_run l0 l"
  "same_run l0 (l\<lparr>lg_GapCount := n\<rparr>) = same_run l0 l"
  "same_run l0 (count_disposition y l) = same_run l0 l"
  by (auto simp: same_run_def count_disposition_def split: disposition.splits)

lemma disposition_count_count [simp]:
  "disposition_count (count_disposition x l) y = disposition_count l y + (if x = y then 1 else 0)"
  by (auto simp: count_disposition_def disposition_count_def split: disposition.splits)

lemma owned_insert:
  "owned (insert d D) x =
     (if delivery_disposition d = Some x then insert (delivery_key d) (owned D x) else owned D x)"
  by (auto simp: owned_def)

lemma owned_again:
  assumes "d' \<in> D" "delivery_key d' = delivery_key d" "delivery_disposition d' = delivery_disposition d"
  shows "owned (insert d D) x = owned D x"
proof -
  from assms have "delivery_disposition d = Some x \<Longrightarrow> delivery_key d \<in> owned D x"
    unfolding owned_def by (metis (mono_tags, lifting) image_eqI mem_Collect_eq)
  then show ?thesis by (auto simp: owned_insert)
qed

lemma owned_keys: "owned D x \<subseteq> delivery_key ` D"
  by (auto simp: owned_def)

lemma finite_owned [simp]: "finite D \<Longrightarrow> finite (owned D x)"
  by (simp add: owned_def)

lemma tally_overlap:
  assumes "tally l0 D l" "\<And>x. owned (insert d D) x = owned D x"
  shows "tally l0 (insert d D) (l\<lparr>lg_OverlapCount := lg_OverlapCount l + 1\<rparr>)"
  using assms by (simp add: tally_def)

lemma tally_thread: "tally l0 D l \<Longrightarrow> tally l0 D (l\<lparr>lg_ThreadCount := lg_ThreadCount l + 1\<rparr>)"
  by (simp add: tally_def)

lemma tally_new:
  assumes "tally l0 D l" "delivery_key d \<notin> delivery_key ` D" "delivery_disposition d = Some x" "finite D"
  shows "tally l0 (insert d D) (count_disposition x l)"
proof -
  have "delivery_key d \<notin> owned D y" for y using assms(2) owned_keys [of D y] by blast
  then have "disposition_count (count_disposition x l) y =
      disposition_count l0 y + int (card (owned (insert d D) y))" for y
    using assms by (simp add: tally_def owned_insert)
  moreover have "lg_DeliveredCount (count_disposition x l) = lg_DeliveredCount l"
    "lg_CanonicalDeclaredCount (count_disposition x l) = lg_CanonicalDeclaredCount l"
    "lg_OverlapCount (count_disposition x l) = lg_OverlapCount l"
    "lg_GapCount (count_disposition x l) = lg_GapCount l"
    "lg_ThreadCount (count_disposition x l) = lg_ThreadCount l"
    "lg_AggregateCommitment (count_disposition x l) = lg_AggregateCommitment l"
    by (simp_all add: count_disposition_def split: disposition.splits)
  ultimately show ?thesis using assms(1) by (simp add: tally_def)
qed

lemma facts_of_insert:
  assumes "facts_of D fs" "delivery_disposition d = Some (fa_disposition fa)"
    "\<And>prior. map_of fs (delivery_key d) = Some prior \<Longrightarrow> fa_disposition prior = fa_disposition fa"
  shows "facts_of (insert d D) ((delivery_key d, fa) # fs)"
  unfolding facts_of_def
proof (intro conjI ballI)
  show "fst ` set ((delivery_key d, fa) # fs) = delivery_key ` insert d D"
    using assms(1) by (simp add: facts_of_def)
next
  fix d' assume "d' \<in> insert d D"
  then consider "d' = d" | "d' \<in> D" by blast
  then have "map_option fa_disposition (map_of ((delivery_key d, fa) # fs) (delivery_key d')) =
      delivery_disposition d' \<and> delivery_disposition d' \<noteq> None"
  proof cases
    case 2
    with assms(1) have "map_option fa_disposition (map_of fs (delivery_key d')) = delivery_disposition d'"
      "delivery_disposition d' \<noteq> None" by (simp_all add: facts_of_def)
    with assms(3) show ?thesis by (cases "map_of fs (delivery_key d')") auto
  qed (simp add: assms(2))
  then show "map_option fa_disposition (map_of ((delivery_key d, fa) # fs) (delivery_key d')) =
      delivery_disposition d'" "delivery_disposition d' \<noteq> None" by blast+
qed

lemma facts_of_prior:
  assumes "facts_of D fs" "map_of fs k = Some prior"
  obtains d where "d \<in> D" "delivery_key d = k" "delivery_disposition d = Some (fa_disposition prior)"
proof -
  from assms(2) have "k \<in> fst ` set fs" by (metis domI dom_map_of_conv_image_fst)
  with assms(1) obtain d where "d \<in> D" "delivery_key d = k" unfolding facts_of_def by auto
  moreover have "map_option fa_disposition (map_of fs (delivery_key d)) = delivery_disposition d"
    using assms(1) \<open>d \<in> D\<close> by (simp add: facts_of_def)
  ultimately show thesis using assms(2) that [of d] by simp
qed

lemma facts_of_fresh: "facts_of D fs \<Longrightarrow> map_of fs k = None \<longleftrightarrow> k \<notin> delivery_key ` D"
  by (simp add: facts_of_def map_of_eq_None_iff)

lemma reconciled_count_thread: "reconciled l0 D s \<Longrightarrow> reconciled l0 D (count_thread b m s)"
  by (simp add: reconciled_def count_thread_def tally_thread)

lemma reconcile_message_reconciled:
  assumes "reconcile_message g f u m s = Inr s'" "reconciled l0 D s" "finite D"
  shows "reconciled l0 (insert (u, m) D) s'"
proof -
  let ?k = "delivery_key (u, m)"
  have k: "message_key (uf_Batch u) (nm_NativeMessageID m) = ?k" by (simp add: delivery_key_def)
  from assms(1) obtain x where x: "delivery_disposition (u, m) = Some x"
    by (auto simp: reconcile_message_def delivery_disposition_def Let_def split: option.splits)
  define fact where "fact = \<lparr>fa_class = author_class (uf_AuthorClasses u) (nm_NativeMessageID m),
    fa_disposition = x, fa_message = m\<rparr>"
  have facts: "facts_of D (rs_facts s)" using assms(2) by (simp add: reconciled_def)
  show ?thesis
  proof (cases "map_of (rs_facts s) ?k")
    case None
    with assms(1) x have s': "s' = count_thread (uf_Batch u) m (s\<lparr>rs_facts := (?k, fact) # rs_facts s,
        rs_keys := rs_keys s @ [?k], rs_ledger := count_disposition x (rs_ledger s)\<rparr>)"
      by (simp add: reconcile_message_def Let_def k fact_def delivery_disposition_def)
    have fresh: "?k \<notin> delivery_key ` D" using facts_of_fresh [OF facts] None by blast
    have "facts_of (insert (u, m) D) ((?k, fact) # rs_facts s)"
      by (rule facts_of_insert [OF facts]) (simp_all add: x None fact_def)
    moreover have "tally l0 (insert (u, m) D) (count_disposition x (rs_ledger s))"
      using assms(2) by (intro tally_new fresh x assms(3)) (simp add: reconciled_def)
    ultimately show ?thesis unfolding s' using assms(2) fresh
      by (intro reconciled_count_thread) (simp add: reconciled_def)
  next
    case (Some prior)
    with assms(1) x have same: "fa_disposition prior = x" and
      s': "s' = count_thread (uf_Batch u) m (s\<lparr>rs_facts := (?k, fact) # rs_facts s,
        rs_ledger := (rs_ledger s)\<lparr>lg_OverlapCount := lg_OverlapCount (rs_ledger s) + 1\<rparr>\<rparr>)"
      by (auto simp: reconcile_message_def k fact_def delivery_disposition_def Let_def split: if_splits)
    obtain d where d: "d \<in> D" "delivery_key d = ?k" "delivery_disposition d = Some x"
      using facts_of_prior [OF facts Some] same by metis
    have "facts_of (insert (u, m) D) ((?k, fact) # rs_facts s)"
      by (rule facts_of_insert [OF facts]) (use Some same in \<open>simp_all add: x fact_def\<close>)
    moreover have "tally l0 (insert (u, m) D)
        ((rs_ledger s)\<lparr>lg_OverlapCount := lg_OverlapCount (rs_ledger s) + 1\<rparr>)"
      by (rule tally_overlap) (use assms(2) in \<open>simp add: reconciled_def\<close>,
        rule owned_again [OF d(1,2)], simp add: d x)
    moreover have "delivery_key ` insert (u, m) D = delivery_key ` D" using d(1,2) by (metis image_insert image_eqI insert_absorb)
    ultimately show ?thesis unfolding s' using assms(2)
      by (intro reconciled_count_thread) (simp add: reconciled_def)
  qed
qed

lemma reconcile_messages_reconciled:
  assumes "reconcile_messages g f ds s = Inr s'" "reconciled l0 D s" "finite D"
  shows "reconciled l0 (set ds \<union> D) s'"
  using assms
proof (induction g f ds s arbitrary: D rule: reconcile_messages.induct)
  case (2 g f u m ms s)
  then obtain s1 where s1: "reconcile_message g f u m s = Inr s1" "reconcile_messages g f ms s1 = Inr s'"
    by (auto simp: rbind_Inr_iff)
  have "reconciled l0 (insert (u, m) D) s1" using reconcile_message_reconciled s1 2 by blast
  from "2.IH" [OF s1(2) this] "2.prems"(3) show ?case by simp
qed simp

lemma reconciled_start:
  "reconciled l {} \<lparr>rs_ledger = l, rs_facts = [], rs_parents = [], rs_keys = []\<rparr>"
  by (simp add: reconciled_def facts_of_def tally_def owned_def)


text \<open>A failure keeps the ledger of the messages reconciled so far.\<close>

definition in_progress :: "ledger \<Rightarrow> ledger \<Rightarrow> bool" where
  "in_progress l0 l \<longleftrightarrow> same_run l0 l \<and> counts_nonneg l"

lemma tally_in_progress: "tally l0 D l \<Longrightarrow> counts_nonneg l0 \<Longrightarrow> in_progress l0 l"
  by (auto simp: tally_def counts_nonneg_def in_progress_def)

lemma reconcile_message_failed: "reconcile_message g f u m s = Inl l \<Longrightarrow> l = rs_ledger s"
  by (auto simp: reconcile_message_def Let_def split: option.splits if_splits)

lemma reconcile_messages_failed:
  assumes "reconcile_messages g f ds s = Inl l" "reconciled l0 D s" "finite D"
  shows "\<exists>D'. tally l0 D' l"
  using assms
proof (induction g f ds s arbitrary: D rule: reconcile_messages.induct)
  case (2 g f u m ms s)
  show ?case
  proof (cases "reconcile_message g f u m s")
    case (Inl e)
    with 2 reconcile_message_failed show ?thesis by (fastforce simp: reconciled_def)
  next
    case (Inr s1)
    with 2 have "reconciled l0 (insert (u, m) D) s1" using reconcile_message_reconciled by blast
    moreover have "reconcile_messages g f ms s1 = Inl l" using 2(2) Inr by simp
    ultimately show ?thesis using "2.IH" "2.prems"(3) by (meson finite.insertI)
  qed
qed simp

lemma reconcile_failed:
  assumes "reconcile g f us l0 = Inl l" "counts_nonneg l0"
  shows "in_progress l0 l"
proof -
  let ?s0 = "\<lparr>rs_ledger = l0, rs_facts = [], rs_parents = [], rs_keys = []\<rparr>"
  show ?thesis
  proof (cases "reconcile_messages g f (deliveries us) ?s0")
    case (Inl e)
    with assms(1) have "e = l" by (simp add: reconcile_def)
    with Inl reconcile_messages_failed [OF _ reconciled_start] assms(2) show ?thesis
      by (meson finite.emptyI tally_in_progress)
  next
    case (Inr s)
    then have "in_progress l0 (rs_ledger s)"
      using reconcile_messages_reconciled [OF Inr reconciled_start] assms(2)
      by (auto simp: reconciled_def intro: tally_in_progress)
    with assms(1) Inr show ?thesis
      by (auto simp: reconcile_def in_progress_def counts_nonneg_def split: if_splits)
  qed
qed

lemma reconcile_done:
  assumes "reconcile g f us l0 = Inr l" "counts_nonneg l0"
  shows "in_progress l0 l"
    and "lg_OwnedCount l = int (card (delivery_key ` set (deliveries us)))"
    and "disposition_count l x = disposition_count l0 x + int (card (owned (set (deliveries us)) x))"
    and "lg_DeliveredCount l = lg_DeliveredCount l0 \<and> lg_CanonicalDeclaredCount l = lg_CanonicalDeclaredCount l0"
proof -
  from assms(1) obtain s where s: "reconcile_messages g f (deliveries us)
      \<lparr>rs_ledger = l0, rs_facts = [], rs_parents = [], rs_keys = []\<rparr> = Inr s"
    and l: "l = (rs_ledger s)\<lparr>lg_OwnedCount := int (length (rs_keys s)),
      lg_AggregateCommitment := commitment g (sort (rs_keys s))\<rparr>"
    by (auto simp: reconcile_def rbind_Inr_iff split: if_splits)
  have r: "reconciled l0 (set (deliveries us)) s"
    using reconcile_messages_reconciled [OF s reconciled_start] by simp
  have other: "disposition_count l y = disposition_count (rs_ledger s) y" for y
    unfolding l by (simp add: disposition_count_def split: disposition.splits)
  show "lg_OwnedCount l = int (card (delivery_key ` set (deliveries us)))"
    using r unfolding l reconciled_def by (metis (no_types, lifting) distinct_card ledger.select_convs(10)
        ledger.surjective ledger.update_convs(10,16))
  show "disposition_count l x = disposition_count l0 x + int (card (owned (set (deliveries us)) x))"
    using r by (simp add: other reconciled_def tally_def)
  show "lg_DeliveredCount l = lg_DeliveredCount l0 \<and> lg_CanonicalDeclaredCount l = lg_CanonicalDeclaredCount l0"
    using r by (simp add: l reconciled_def tally_def)
  have "in_progress l0 (rs_ledger s)" using r assms(2) by (auto simp: reconciled_def intro: tally_in_progress)
  then show "in_progress l0 l" by (auto simp: in_progress_def counts_nonneg_def other) (auto simp: l same_run_def)
qed

section \<open>Adopting the units\<close>

lemma adopt_messages_dispositions:
  assumes "adopt_messages g f fr ms = Some (rs, ds)"
    "\<forall>m \<in> set ms. author_class (rf_AuthorClasses fr) (nm_NativeMessageID m) \<noteq> ''''"
  shows "map (Some \<circ> snd) ds =
    map (\<lambda>m. DispositionFor m (author_class (rf_AuthorClasses fr) (nm_NativeMessageID m))) ms"
  using assms
  by (induction ms arbitrary: rs ds) (auto simp: Let_def split: option.splits if_splits)

lemma valid_frame_classes:
  assumes "ValidateRunFrame g fr" "m \<in> set (nb_Messages (rf_Batch fr))"
  shows "author_class (rf_AuthorClasses fr) (nm_NativeMessageID m) \<noteq> ''''"
  using assms by (auto simp: ValidateRunFrame_def list_all_iff valid_class_def)

lemma adoption_excluded:
  assumes "CaptureBatchForAdoption g f (frame_of u) = Some (c, ds)"
  shows "length (filter (\<lambda>(_, d). d = Exclude) ds) =
    length (filter (\<lambda>m. delivery_disposition (u, m) = Some Exclude) (unit_messages u))"
proof -
  let ?fr = "frame_of u"
  from assms obtain rs where "ValidateRunFrame g ?fr" and
    a: "adopt_messages g f ?fr (nb_Messages (rf_Batch ?fr)) = Some (rs, ds)"
    by (auto simp: CaptureBatchForAdoption_def split: if_splits option.splits list.splits prod.splits)
  then have d: "map (Some \<circ> snd) ds = map (\<lambda>m. delivery_disposition (u, m)) (unit_messages u)"
    using adopt_messages_dispositions [OF a] valid_frame_classes [of g ?fr]
    by (simp add: delivery_disposition_def unit_messages_def frame_of_def)
  have "length (filter (\<lambda>x. x = Some Exclude) (map (Some \<circ> snd) ds)) =
      length (filter (\<lambda>(_, d). d = Exclude) ds)"
    by (simp add: filter_map o_def case_prod_unfold)
  with d show ?thesis by (simp add: filter_map o_def)
qed


lemma adoption_declared:
  assumes "CaptureBatchForAdoption g f fr = Some (Some b, ds)"
  shows "0 < cb_DeclaredRecords b"
  using assms
  by (auto simp: CaptureBatchForAdoption_def NewCaptureBatch_def Let_def
      split: if_splits option.splits list.splits prod.splits)

definition excluded_deliveries :: "unit_frame list \<Rightarrow> (unit_frame \<times> native_message) list" where
  "excluded_deliveries us = filter (\<lambda>d. delivery_disposition d = Some Exclude) (deliveries us)"

lemma excluded_deliveries_Cons:
  "length (excluded_deliveries (u # us)) =
     length (filter (\<lambda>m. delivery_disposition (u, m) = Some Exclude) (unit_messages u)) +
     length (excluded_deliveries us)"
  by (simp add: excluded_deliveries_def deliveries_def filter_map o_def)

lemma message_total_Cons: "message_total (u # us) = int (length (unit_messages u)) + message_total us"
  by (simp add: message_total_def)

lemma adopt_units_done:
  assumes "adopt_units g f us l = Inr (l', cs)"
  shows "(\<exists>n. l' = l\<lparr>lg_DeliveredCount := lg_DeliveredCount l + message_total us,
      lg_CanonicalDeclaredCount := n\<rparr> \<and> lg_CanonicalDeclaredCount l \<le> n \<and>
      n + int (length (excluded_deliveries us)) = lg_CanonicalDeclaredCount l + message_total us) \<and>
    (\<forall>u \<in> set us. \<exists>c ds. CaptureBatchForAdoption g f (frame_of u) = Some (c, ds) \<and>
      (\<forall>b. c = Some b \<longrightarrow> b \<in> set cs))"
  using assms
proof (induction us arbitrary: l cs)
  case Nil
  then show ?case by (simp add: message_total_def excluded_deliveries_def deliveries_def)
next
  case (Cons u us)
  obtain c ds where c: "CaptureBatchForAdoption g f (frame_of u) = Some (c, ds)"
    using Cons.prems by (auto split: option.splits)
  let ?r = "adopted_receipt u c ds"
  let ?l = "l\<lparr>lg_DeliveredCount := lg_DeliveredCount l + ar_DeliveredNative ?r,
    lg_CanonicalDeclaredCount := lg_CanonicalDeclaredCount l + ar_CanonicalDeclared ?r\<rparr>"
  from Cons.prems c obtain cs' where v: "valid_adoption ?r" and rest: "adopt_units g f us ?l = Inr (l', cs')"
    and cs: "cs = (case c of None \<Rightarrow> cs' | Some b \<Rightarrow> if cb_DeclaredRecords b > 0 then b # cs' else cs')"
    by (auto simp: Let_def rbind_Inr_iff split: if_splits)
  from Cons.IH [OF rest] obtain n where n:
    "l' = ?l\<lparr>lg_DeliveredCount := lg_DeliveredCount ?l + message_total us, lg_CanonicalDeclaredCount := n\<rparr>"
    "lg_CanonicalDeclaredCount ?l \<le> n"
    "n + int (length (excluded_deliveries us)) = lg_CanonicalDeclaredCount ?l + message_total us"
    and more: "\<forall>u \<in> set us. \<exists>c ds. CaptureBatchForAdoption g f (frame_of u) = Some (c, ds) \<and>
      (\<forall>b. c = Some b \<longrightarrow> b \<in> set cs')" by blast
  have ar: "ar_DeliveredNative ?r = int (length (unit_messages u))"
    "ar_StructuralExcluded ?r =
       int (length (filter (\<lambda>m. delivery_disposition (u, m) = Some Exclude) (unit_messages u)))"
    using adoption_excluded [OF c] by (simp_all add: adopted_receipt_def)
  have "set cs' \<subseteq> set cs" "\<And>b. c = Some b \<Longrightarrow> b \<in> set cs"
    using c adoption_declared unfolding cs by (auto split: option.splits)
  then have "\<forall>v \<in> set (u # us). \<exists>c ds. CaptureBatchForAdoption g f (frame_of v) = Some (c, ds) \<and>
      (\<forall>b. c = Some b \<longrightarrow> b \<in> set cs)" using more c by fastforce
  moreover have "l' = l\<lparr>lg_DeliveredCount := lg_DeliveredCount l + message_total (u # us),
      lg_CanonicalDeclaredCount := n\<rparr>" "lg_CanonicalDeclaredCount l \<le> n"
    "n + int (length (excluded_deliveries (u # us))) = lg_CanonicalDeclaredCount l + message_total (u # us)"
    using n v ar by (simp_all add: message_total_Cons excluded_deliveries_Cons valid_adoption_def)
  ultimately show ?case by blast
qed

lemma adopt_units_failed:
  assumes "adopt_units g f us l = Inl l'" "in_progress l0 l"
  shows "in_progress l0 l'"
  using assms
proof (induction us arbitrary: l)
  case (Cons u us)
  show ?case
  proof (cases "CaptureBatchForAdoption g f (frame_of u)")
    case None
    with Cons.prems show ?thesis by simp
  next
    case (Some cd)
    obtain c ds where cd: "cd = (c, ds)" by force
    let ?r = "adopted_receipt u c ds"
    let ?l = "l\<lparr>lg_DeliveredCount := lg_DeliveredCount l + ar_DeliveredNative ?r,
      lg_CanonicalDeclaredCount := lg_CanonicalDeclaredCount l + ar_CanonicalDeclared ?r\<rparr>"
    show ?thesis
    proof (cases "valid_adoption ?r")
      case True
      have "disposition_count ?l x = disposition_count l x" for x
        by (simp add: disposition_count_def split: disposition.splits)
      with True Cons.prems(2) have "in_progress l0 ?l"
        by (simp add: in_progress_def counts_nonneg_def valid_adoption_def same_run_def)
      moreover have "adopt_units g f us ?l = Inl l'"
        using Cons.prems(1) Some cd True by (cases "adopt_units g f us ?l") (auto simp: Let_def split: prod.splits)
      ultimately show ?thesis using Cons.IH by blast
    qed (use Cons.prems Some cd in simp)
  qed
qed simp

section \<open>The ledger file\<close>

definition stored_ledger :: "ledger disk \<Rightarrow> ledger option" where
  "stored_ledger d = (case current_file d of Some (Doc l) \<Rightarrow> Some l | _ \<Rightarrow> None)"

text \<open>The ledger store is a crash-safe store of valid ledgers.\<close>

interpretation ledger_file: durable_store stored_ledger ledger_save validLedger
proof (unfold_locales, goal_cases)
  case (1 env l d)
  show ?case
    using atomic_doc.put_old_or_new [of ledger_bytes maximumLedgerBytes valid_ledger_blob "le_io env" "Doc l" d]
    by (auto simp: ledger_save_def stored_ledger_def split: option.splits prod.splits)
next
  case (2 env l d)
  then show ?case
    using atomic_doc.put_ok [of ledger_bytes maximumLedgerBytes valid_ledger_blob "le_io env" "Doc l" d]
    by (auto simp: ledger_save_def stored_ledger_def valid_ledger_blob_def split: option.splits prod.splits if_splits)
next
  case (3 l env d)
  then show ?case by (simp add: ledger_save_def)
qed

lemma ledger_save_cases:
  assumes "ledger_save env l d = (d', err)"
  obtains (kept) "stored_ledger d' = stored_ledger d" "err \<noteq> None"
  | (written) "stored_ledger d' = Some l" "validLedger l"
  using ledger_file.put_old_or_new [of env l d] ledger_file.put_ok [of env l d]
    ledger_file.put_invalid [of l env d] assms
  by (cases "validLedger l"; cases err) auto

lemma save_ok: "ledger_save env l d = (d', None) \<Longrightarrow> stored_ledger d' = Some l \<and> validLedger l"
  using ledger_file.put_ok [of env l d] by simp

section \<open>How a run ends\<close>

text \<open>What \<open>fail\<close> tries to record is a valid ledger, whatever the reconciliation had reached.\<close>

lemma failed_ledger_valid:
  assumes "validLedger l0" "lg_AggregateCommitment l0 = commitment g []" "in_progress l0 l"
  shows "validLedger (failed_ledger g l) \<and> lg_State (failed_ledger g l) = ''incomplete'' \<and>
    lg_RunID (failed_ledger g l) = lg_RunID l0"
proof -
  have c: "0 \<le> lg_RetainedCount l" "0 \<le> lg_WithheldCount l" "0 \<le> lg_StructuralExcludedCount l"
    "0 \<le> lg_CanonicalDeclaredCount l" "0 \<le> lg_OverlapCount l" "0 \<le> lg_GapCount l" "0 \<le> lg_ThreadCount l"
    using assms(3) unfolding in_progress_def counts_nonneg_def disposition_count_def
    by (auto dest: spec [of _ Retain] spec [of _ Withhold] spec [of _ Exclude])
  have v: "length (commitment g []) = 64" "length (lg_CanonicalAfterFingerprint l0) = 64"
    using assms(1,2) by (auto simp: validLedger_def)
  show ?thesis
    using assms(1,3) c v
    by (simp add: failed_ledger_def Let_def in_progress_def same_run_def validLedger_def)
qed

lemma initial_ledger_facts:
  "lg_State (initial_ledger g b st) = ''recovering''" "lg_RunID (initial_ledger g b st) = bf_RunID b"
  "lg_AggregateCommitment (initial_ledger g b st) = commitment g []"
  "counts_nonneg (initial_ledger g b st)" "disposition_count (initial_ledger g b st) x = 0"
  "lg_DeliveredCount (initial_ledger g b st) = 0" "lg_CanonicalDeclaredCount (initial_ledger g b st) = 0"
  by (auto simp: initial_ledger_def counts_nonneg_def disposition_count_def split: disposition.splits)

text \<open>The three ways a run that has reserved its ledger can end.\<close>

inductive ended :: "pm_guards \<Rightarrow> pm_formats \<Rightarrow> apply_env \<Rightarrow> unit_frame list \<Rightarrow> ledger \<Rightarrow> ledger disk
    \<Rightarrow> apply_outcome \<Rightarrow> bool"
  for g f env us l0 d where
  failing: "in_progress l0 l \<Longrightarrow> ledger_save (ae_last_save env) (failed_ledger g l) d = (iw_ledger w', err) \<Longrightarrow>
    r = Inl (if err = None then ReconciliationFailed else IncompleteNotPersisted) \<Longrightarrow>
    ended g f env us l0 d (w', r)"
| finishing: "rbind (reconcile g f us l0) (adopt_units g f us) = Inr (l1, captures) \<Longrightarrow>
    l = l1\<lparr>lg_CanonicalAfterFingerprint := fp, lg_CanonicalAfterCount := n, lg_State := ''complete''\<rparr> \<Longrightarrow>
    ledger_save (ae_last_save env) l d = (iw_ledger w', err) \<Longrightarrow>
    r = (case err of None \<Rightarrow> Inr l | Some e \<Rightarrow> Inl e) \<Longrightarrow>
    (\<And>b. ae_interfere env 3 = id \<Longrightarrow> b \<in> set captures \<Longrightarrow>
       \<exists>lib. pm_load g (ae_load env) (iw_repo w') = Inr lib \<and> capturesCurrent lib b) \<Longrightarrow>
    ended g f env us l0 d (w', r)"

lemma fail_apply_ended:
  assumes "in_progress l0 l"
  shows "ended g f env us l0 (iw_ledger w) (fail_apply g env l w)"
proof -
  obtain d err where s: "ledger_save (ae_last_save env) (failed_ledger g l) (iw_ledger w) = (d, err)" by force
  then show ?thesis
    by (auto simp: fail_apply_def intro!: failing [OF assms])
qed

lemma pm_status_disk: "pm_status g env rp = (rp', r) \<Longrightarrow> pr_disk rp' = pr_disk rp"
  by (auto simp: pm_status_def split: if_splits option.splits sum.splits)

lemma pm_load_disk: "pr_disk rp' = pr_disk rp \<Longrightarrow> pm_load g env rp' = pm_load g env rp"
  by (simp add: pm_load_def)

lemma import_and_read_back_ledger:
  "import_and_read_back g env captures w = (w', b) \<Longrightarrow> iw_ledger w' = iw_ledger w"
  by (auto simp: import_and_read_back_def interfered_def Let_def split: prod.splits sum.splits if_splits)

lemma import_and_read_back_current:
  assumes "import_and_read_back g env captures w = (w', True)"
  shows "\<exists>lib. pm_load g (ae_load env) (iw_repo w') = Inr lib \<and> (\<forall>b \<in> set captures. capturesCurrent lib b)"
  using assms
  by (auto simp: import_and_read_back_def interfered_def Let_def list_all_iff
      split: prod.splits sum.splits if_splits)

lemma complete_apply_ended:
  assumes "rbind (reconcile g f us l0) (adopt_units g f us) = Inr (l, captures)" "in_progress l0 l"
    "\<And>b. b \<in> set captures \<Longrightarrow>
      \<exists>lib. pm_load g (ae_load env) (iw_repo w) = Inr lib \<and> capturesCurrent lib b"
  shows "ended g f env us l0 (iw_ledger w) (complete_apply g env l w)"
proof -
  let ?w = "interfered env 3 w"
  have keep: "iw_ledger ?w = iw_ledger w" by (simp add: interfered_def)
  obtain rp r where st: "pm_status g (ae_after env) (iw_repo ?w) = (rp, r)" by force
  show ?thesis
  proof (cases r)
    case (Inl e)
    then have "complete_apply g env l w = fail_apply g env l (?w\<lparr>iw_repo := rp\<rparr>)"
      using st by (simp add: complete_apply_def)
    then show ?thesis
      using fail_apply_ended [OF assms(2), of g f env us "?w\<lparr>iw_repo := rp\<rparr>"] keep by simp
  next
    case (Inr after)
    let ?l = "l\<lparr>lg_CanonicalAfterFingerprint := ps_Fingerprint after,
      lg_CanonicalAfterCount := ps_RecordCount after, lg_State := ''complete''\<rparr>"
    obtain d err where s: "ledger_save (ae_last_save env) ?l (iw_ledger w) = (d, err)" by force
    have eq: "complete_apply g env l w =
        (?w\<lparr>iw_repo := rp, iw_ledger := d\<rparr>, case err of None \<Rightarrow> Inr ?l | Some e \<Rightarrow> Inl e)"
      using st s Inr keep by (auto simp: complete_apply_def Let_def split: option.splits)
    have read: "\<exists>lib. pm_load g (ae_load env) (iw_repo (?w\<lparr>iw_repo := rp, iw_ledger := d\<rparr>)) = Inr lib \<and>
        capturesCurrent lib b" if "ae_interfere env 3 = id" "b \<in> set captures" for b
    proof -
      from that(1) have "pr_disk rp = pr_disk (iw_repo w)"
        using pm_status_disk [OF st] by (simp add: interfered_def)
      from pm_load_disk [OF this] assms(3) [OF that(2)] show ?thesis by simp
    qed
    show ?thesis unfolding eq
      by (rule finishing [OF assms(1) refl _ refl]) (use s read in simp_all)
  qed
qed

lemma apply_recovering_ended:
  assumes "counts_nonneg l0"
  shows "ended g f env us l0 (iw_ledger w) (apply_recovering g f env us l0 w)"
proof (cases "rbind (reconcile g f us l0) (adopt_units g f us)")
  case (Inl l)
  then have "in_progress l0 l"
    using reconcile_failed [OF _ assms] reconcile_done(1) [OF _ assms] adopt_units_failed
    by (cases "reconcile g f us l0") auto
  from fail_apply_ended [OF this] Inl show ?thesis by (simp add: apply_recovering_def)
next
  case (Inr p)
  obtain l captures where p: "p = (l, captures)" by force
  obtain l1 where l1: "reconcile g f us l0 = Inr l1" "adopt_units g f us l1 = Inr (l, captures)"
    using Inr p by (auto simp: rbind_Inr_iff)
  have "in_progress l0 l1" using reconcile_done(1) [OF l1(1) assms] .
  moreover obtain n where "l = l1\<lparr>lg_DeliveredCount := lg_DeliveredCount l1 + message_total us,
      lg_CanonicalDeclaredCount := n\<rparr>" "lg_CanonicalDeclaredCount l1 \<le> n"
    using adopt_units_done [OF l1(2)] by blast
  ultimately have l: "in_progress l0 l"
    by (auto simp: in_progress_def counts_nonneg_def same_run_def disposition_count_def split: disposition.splits)
  note finish = complete_apply_ended [OF Inr [unfolded p] l]
  show ?thesis
  proof (cases "captures = []")
    case True
    with Inr p finish show ?thesis by (simp add: apply_recovering_def)
  next
    case False
    obtain w' b where io: "import_and_read_back g env captures w = (w', b)" by force
    have keep: "iw_ledger w' = iw_ledger w" using import_and_read_back_ledger [OF io] .
    show ?thesis
    proof (cases b)
      case True
      with io have "\<And>b. b \<in> set captures \<Longrightarrow>
          \<exists>lib. pm_load g (ae_load env) (iw_repo w') = Inr lib \<and> capturesCurrent lib b"
        using import_and_read_back_current [of g env captures w w'] by auto
      from finish [where w = w', OF this] True io Inr p False keep show ?thesis by (simp add: apply_recovering_def)
    next
      case False
      with fail_apply_ended [OF l, of g f env us w'] io Inr p \<open>captures \<noteq> []\<close> keep show ?thesis
        by (simp add: apply_recovering_def)
    qed
  qed
qed

text \<open>Every run either never reserves its ledger, or reserves it and ends in one of these ways.\<close>

lemma Apply_cases:
  assumes "Apply_envelope g f env en w = (w', r)"
  obtains (refused) e where "r = Inl e" "e \<noteq> ReconciliationFailed" "e \<noteq> IncompleteNotPersisted"
      "stored_ledger (iw_ledger w') = stored_ledger (iw_ledger w) \<or>
       (\<exists>l. stored_ledger (iw_ledger w') = Some l \<and> lg_State l = ''recovering'')"
  | (reserved) st d l0 where "l0 = initial_ledger g (en_Begin en) st"
      "ledger_save (ae_first_save env) l0 (iw_ledger w) = (d, None)"
      "ended g f env (en_Units en) l0 d (w', r)"
proof -
  have save_err: "e \<noteq> ReconciliationFailed \<and> e \<noteq> IncompleteNotPersisted"
    if "ledger_save env' l d = (d', Some e)" for env' l d d' e
    using that by (auto simp: ledger_save_def split: if_splits option.splits prod.splits)
  consider "r \<in> {Inl EnvelopeInvalid, Inl ApplyBusy, Inl ReadbackUnavailable}" "iw_ledger w' = iw_ledger w"
    | st d e where "ledger_save (ae_first_save env) (initial_ledger g (en_Begin en) st) (iw_ledger w) = (d, Some e)"
        "r = Inl e" "iw_ledger w' = d"
    | st rp d where "ledger_save (ae_first_save env) (initial_ledger g (en_Begin en) st) (iw_ledger w) = (d, None)"
        "apply_recovering g f env (en_Units en) (initial_ledger g (en_Begin en) st)
          ((interfered env 0 w)\<lparr>iw_repo := rp, iw_ledger := d\<rparr>) = (w', r)"
    using assms
    by (auto simp: Apply_envelope_def Let_def interfered_def split: if_splits prod.splits sum.splits option.splits)
  then show thesis
  proof cases
    case 1
    then show thesis using refused by auto
  next
    case (2 st d e)
    from 2(1) have "stored_ledger d = stored_ledger (iw_ledger w) \<or>
        (\<exists>l. stored_ledger d = Some l \<and> lg_State l = ''recovering'')"
      by (cases rule: ledger_save_cases) (auto simp: initial_ledger_facts)
    with 2 save_err show thesis by (intro refused [of e]) auto
  next
    case (3 st rp d)
    have "ended g f env (en_Units en) (initial_ledger g (en_Begin en) st) d (w', r)"
      using apply_recovering_ended [OF initial_ledger_facts(4), of g f env "en_Units en"] 3(2)
      by (metis (no_types, lifting) ingest_world.select_convs(2) ingest_world.surjective ingest_world.update_convs(1,2))
    with reserved 3(1) show thesis by blast
  qed
qed

text \<open>A complete ledger that passed validation accounts for every delivery.\<close>

lemma finished_counts:
  assumes "rbind (reconcile g f us l0) (adopt_units g f us) = Inr (l1, captures)"
    "l0 = initial_ledger g b st"
  shows "lg_RunID l1 = bf_RunID b \<and> lg_DeliveredCount l1 = message_total us \<and>
      lg_OwnedCount l1 = int (card (delivery_key ` set (deliveries us))) \<and>
      (\<forall>x. disposition_count l1 x = int (card (owned (set (deliveries us)) x)))"
    and "lg_CanonicalDeclaredCount l1 + int (length (excluded_deliveries us)) = lg_DeliveredCount l1"
    and "\<forall>u \<in> set us. \<exists>c ds. CaptureBatchForAdoption g f (frame_of u) = Some (c, ds) \<and>
      (\<forall>b. c = Some b \<longrightarrow> b \<in> set captures)"
proof -
  obtain l where l: "reconcile g f us l0 = Inr l" "adopt_units g f us l = Inr (l1, captures)"
    using assms(1) by (auto simp: rbind_Inr_iff)
  have nn: "counts_nonneg l0" by (simp add: assms(2) initial_ledger_facts)
  note r = reconcile_done [OF l(1) nn]
  obtain n where n: "l1 = l\<lparr>lg_DeliveredCount := lg_DeliveredCount l + message_total us,
      lg_CanonicalDeclaredCount := n\<rparr>"
    "n + int (length (excluded_deliveries us)) = lg_CanonicalDeclaredCount l + message_total us"
    using adopt_units_done [OF l(2)] by blast
  have other: "disposition_count l1 x = disposition_count l x" for x
    unfolding n(1) by (simp add: disposition_count_def split: disposition.splits)
  show "lg_RunID l1 = bf_RunID b \<and> lg_DeliveredCount l1 = message_total us \<and>
      lg_OwnedCount l1 = int (card (delivery_key ` set (deliveries us))) \<and>
      (\<forall>x. disposition_count l1 x = int (card (owned (set (deliveries us)) x)))"
  proof (intro conjI allI)
    fix x
    show "disposition_count l1 x = int (card (owned (set (deliveries us)) x))"
      using r(3) by (simp add: other assms(2) initial_ledger_facts)
  qed (use r(1,2,4) n(1) in \<open>simp_all add: in_progress_def same_run_def assms(2) initial_ledger_facts\<close>)
  show "lg_CanonicalDeclaredCount l1 + int (length (excluded_deliveries us)) = lg_DeliveredCount l1"
    using r(4) n by (simp add: assms(2) initial_ledger_facts)
  show "\<forall>u \<in> set us. \<exists>c ds. CaptureBatchForAdoption g f (frame_of u) = Some (c, ds) \<and>
      (\<forall>b. c = Some b \<longrightarrow> b \<in> set captures)"
    using adopt_units_done [OF l(2)] by blast
qed

section \<open>Properties\<close>

text \<open>C38: When a run leaves a ledger that says complete and was not there before, that ledger
  is valid, belongs to the run, counts every delivery and every distinct message once under its
  disposition, and every capture the units adopt is current or historical in the library the
  repository now loads, provided nobody changes the library during the last status call. This
  holds even when the save that wrote the ledger reported an error.
\<close>

theorem complete_ledger_truthful:
  assumes run: "Apply_envelope g f env en w = (w', r)"
    and complete: "stored_ledger (iw_ledger w') = Some l" "lg_State l = ''complete''"
    and changed: "stored_ledger (iw_ledger w') \<noteq> stored_ledger (iw_ledger w)"
    and alone: "ae_interfere env 3 = id"
  shows "validLedger l \<and> lg_RunID l = bf_RunID (en_Begin en) \<and>
    lg_DeliveredCount l = message_total (en_Units en) \<and>
    lg_OwnedCount l = int (card (delivery_key ` set (deliveries (en_Units en)))) \<and>
    (\<forall>x. disposition_count l x = int (card (owned (set (deliveries (en_Units en))) x))) \<and>
    (\<forall>u \<in> set (en_Units en). \<exists>c ds. CaptureBatchForAdoption g f (frame_of u) = Some (c, ds) \<and>
      (\<forall>b. c = Some b \<longrightarrow>
        (\<exists>lib. pm_load g (ae_load env) (iw_repo w') = Inr lib \<and> capturesCurrent lib b)))"
  using run
proof (cases rule: Apply_cases)
  case (refused e)
  with complete changed show ?thesis by auto
next
  case (reserved st d l0)
  have first: "stored_ledger d = Some l0" "validLedger l0" using save_ok [OF reserved(2)] by auto
  have rec: "lg_State l0 = ''recovering''" by (simp add: reserved(1) initial_ledger_facts)
  from reserved(3) show ?thesis
  proof cases
    case (failing l' err)
    from failed_ledger_valid [OF first(2) _ failing(1)]
    have "lg_State (failed_ledger g l') = ''incomplete''" by (simp add: reserved(1) initial_ledger_facts)
    with failing(2) first rec complete show ?thesis by (cases rule: ledger_save_cases) auto
  next
    case (finishing l1 captures l' fp n err)
    note counts = finished_counts [OF finishing(1) reserved(1)]
    from finishing(3) have l: "l = l'" "validLedger l'"
      using first rec complete by (cases rule: ledger_save_cases; simp)+
    have "disposition_count l' x = disposition_count l1 x" for x
      unfolding finishing(2) by (simp add: disposition_count_def split: disposition.splits)
    with counts l finishing(2) finishing(5) [OF alone] show ?thesis by auto
  qed
qed

text \<open>C39: When two deliveries of the envelope are the same structurally excluded message, the
  run never returns a ledger and never leaves one that says complete, although the reconciliation
  accepts such overlaps: deliveries are counted each time, excluded messages once.
\<close>

theorem excluded_overlap_never_completes:
  assumes run: "Apply_envelope g f env en w = (w', r)"
    and overlap: "\<not> distinct (map delivery_key (excluded_deliveries (en_Units en)))"
  shows "(\<exists>e. r = Inl e) \<and>
    (stored_ledger (iw_ledger w') = stored_ledger (iw_ledger w) \<or>
     (\<exists>l. stored_ledger (iw_ledger w') = Some l \<and> lg_State l \<noteq> ''complete''))"
  using run
proof (cases rule: Apply_cases)
  case (refused e)
  then show ?thesis by auto
next
  case (reserved st d l0)
  have first: "stored_ledger d = Some l0" "validLedger l0" using save_ok [OF reserved(2)] by auto
  have rec: "lg_State l0 = ''recovering''" by (simp add: reserved(1) initial_ledger_facts)
  from reserved(3) show ?thesis
  proof cases
    case (failing l' err)
    from failed_ledger_valid [OF first(2) _ failing(1)]
    have "lg_State (failed_ledger g l') = ''incomplete''" by (simp add: reserved(1) initial_ledger_facts)
    moreover from failing(2) have "stored_ledger (iw_ledger w') \<in> {stored_ledger d, Some (failed_ledger g l')}"
      by (cases rule: ledger_save_cases) auto
    ultimately show ?thesis using failing(3) first rec by auto
  next
    case (finishing l1 captures l' fp n err)
    note counts = finished_counts [OF finishing(1) reserved(1)]
    let ?X = "set (excluded_deliveries (en_Units en))"
    have "owned (set (deliveries (en_Units en))) Exclude = delivery_key ` ?X"
      by (simp add: owned_def excluded_deliveries_def)
    moreover have "card (delivery_key ` ?X) < length (excluded_deliveries (en_Units en))"
      using overlap card_length [of "map delivery_key (excluded_deliveries (en_Units en))"]
      by (metis card_distinct le_neq_implies_less length_map set_map)
    ultimately have "disposition_count l1 Exclude < int (length (excluded_deliveries (en_Units en)))"
      using counts(1) by simp
    with counts(2) have "lg_DeliveredCount l1 \<noteq> lg_CanonicalDeclaredCount l1 + lg_StructuralExcludedCount l1"
      by (simp add: disposition_count_def)
    with finishing(2) have "\<not> validLedger l'" by (simp add: validLedger_def)
    with finishing(3) have "iw_ledger w' = d" "err \<noteq> None" by (auto simp: ledger_save_def)
    with finishing(4) first rec show ?thesis by (auto split: option.splits)
  qed
qed

text \<open>C40: When a run fails during reconciliation it tries to write a valid ledger that says
  incomplete for this run; "reconciliation failed" is only reported when that ledger is on disk,
  and after the other report the file holds it or the ledger reserved before.
\<close>

theorem failure_is_recorded:
  assumes run: "Apply_envelope g f env en w = (w', Inl e)"
    and failed: "e = ReconciliationFailed \<or> e = IncompleteNotPersisted"
  shows "\<exists>l d err. ledger_save (ae_last_save env) l d = (iw_ledger w', err) \<and>
    validLedger l \<and> lg_State l = ''incomplete'' \<and> lg_RunID l = bf_RunID (en_Begin en) \<and>
    (e = ReconciliationFailed \<longleftrightarrow> err = None) \<and>
    stored_ledger (iw_ledger w') \<in> {stored_ledger d, Some l} \<and>
    (e = ReconciliationFailed \<longrightarrow> stored_ledger (iw_ledger w') = Some l)"
  using run
proof (cases rule: Apply_cases)
  case (refused e')
  with failed show ?thesis by auto
next
  case (reserved st d l0)
  have first: "stored_ledger d = Some l0" "validLedger l0" using save_ok [OF reserved(2)] by auto
  from reserved(3) show ?thesis
  proof cases
    case (failing l' err)
    let ?l = "failed_ledger g l'"
    have "validLedger ?l \<and> lg_State ?l = ''incomplete'' \<and> lg_RunID ?l = bf_RunID (en_Begin en)"
      using failed_ledger_valid [OF first(2) _ failing(1)] by (simp add: reserved(1) initial_ledger_facts)
    moreover have "stored_ledger (iw_ledger w') \<in> {stored_ledger d, Some ?l}"
      using failing(2) by (cases rule: ledger_save_cases) auto
    moreover have "err = None \<Longrightarrow> stored_ledger (iw_ledger w') = Some ?l"
      using failing(2) save_ok by simp
    ultimately show ?thesis using failing(2,3) by (intro exI [of _ ?l] exI [of _ d] exI [of _ err]) auto
  next
    case (finishing l1 captures l' fp n err)
    then have "err = Some e" by (auto split: option.splits)
    with finishing(3) failed have False
      by (auto simp: ledger_save_def split: if_splits option.splits prod.splits)
    then show ?thesis ..
  qed
qed

end
