(* ===== verification/Ingest_Decode.thy ===== *)
theory Ingest_Decode
  imports Ingest_Controller
begin

text \<open>
  The decoder of an ingestion stream accepts exactly the well-framed streams of valid envelopes:
  one begin line, the lines of the units, one end line, each within its bound.
\<close>

section \<open>Decoding\<close>

definition unit_lines :: "(nat \<times> unit_frame) list \<Rightarrow> (nat \<times> line_body) list" where
  "unit_lines us = map (\<lambda>(n, u). (n, UnitLine u)) us"

definition lines_fit :: "nat list \<Rightarrow> bool" where
  "lines_fit ns \<longleftrightarrow> (\<forall>n \<in> set ns. int n \<le> MaximumUnitBytes) \<and> int (sum_list ns) \<le> MaximumEnvelopeBytes"

lemma decode_line_unit:
  assumes "dt_phase d = PhaseUnit"
  shows "decode_line (n, body) d = Some d' \<longleftrightarrow> int n \<le> MaximumUnitBytes \<and>
    dt_stream d + int n \<le> MaximumEnvelopeBytes \<and>
    ((\<exists>u. body = UnitLine u \<and> uf_Type u = ''unit'' \<and>
        d' = d\<lparr>dt_stream := dt_stream d + int n, dt_envelope := (dt_envelope d)\<lparr>
          en_Units := en_Units (dt_envelope d) @ [u],
          en_observedUnitBytes := en_observedUnitBytes (dt_envelope d) + int n\<rparr>\<rparr>) \<or>
     (\<exists>e. body = EndLine e \<and> ef_Type e = ''end'' \<and>
        d' = d\<lparr>dt_stream := dt_stream d + int n,
          dt_envelope := (dt_envelope d)\<lparr>en_End := e\<rparr>, dt_phase := PhaseEnd\<rparr>))"
  using assms by (cases body) (auto simp: decode_line_def Let_def not_less)

lemma decode_line_after_end: "dt_phase d = PhaseEnd \<Longrightarrow> decode_line l d = None"
  by (cases l; cases "snd l") (auto simp: decode_line_def Let_def)

lemma decode_lines_after_end: "dt_phase d = PhaseEnd \<Longrightarrow> decode_lines ls d = Some d' \<longleftrightarrow> ls = [] \<and> d' = d"
  by (cases ls) (auto simp: decode_line_after_end)

lemma decode_units:
  assumes "dt_phase d = PhaseUnit"
  shows "(decode_lines ls d = Some d' \<and> dt_phase d' = PhaseEnd) \<longleftrightarrow>
    (\<exists>us n e. ls = unit_lines us @ [(n, EndLine e)] \<and> (\<forall>(k, u) \<in> set us. uf_Type u = ''unit'') \<and>
      ef_Type e = ''end'' \<and> (\<forall>k \<in> set (map fst us @ [n]). int k \<le> MaximumUnitBytes) \<and>
      dt_stream d + int (sum_list (map fst us) + n) \<le> MaximumEnvelopeBytes \<and>
      d' = d\<lparr>dt_stream := dt_stream d + int (sum_list (map fst us) + n),
        dt_envelope := (dt_envelope d)\<lparr>en_Units := en_Units (dt_envelope d) @ map snd us, en_End := e,
          en_observedUnitBytes := en_observedUnitBytes (dt_envelope d) + int (sum_list (map fst us))\<rparr>,
        dt_phase := PhaseEnd\<rparr>)"
    (is "?L ls d \<longleftrightarrow> ?R ls d")
  using assms
proof (induction ls arbitrary: d)
  case Nil
  then show ?case by (auto simp: unit_lines_def)
next
  case (Cons l ls)
  obtain n body where l: "l = (n, body)" by force
  show ?case
  proof (cases "decode_line l d")
    case None
    have "\<not> ?R (l # ls) d"
    proof
      assume "?R (l # ls) d"
      then obtain us m e where *: "l # ls = unit_lines us @ [(m, EndLine e)]"
        "\<forall>(k, u) \<in> set us. uf_Type u = ''unit''" "ef_Type e = ''end''"
        "\<forall>k \<in> set (map fst us @ [m]). int k \<le> MaximumUnitBytes"
        "dt_stream d + int (sum_list (map fst us) + m) \<le> MaximumEnvelopeBytes" by blast
      have "decode_line l d \<noteq> None"
      proof (cases us)
        case Nil
        with * have "l = (m, EndLine e)" by (simp add: unit_lines_def)
        with * Nil decode_line_unit [OF Cons.prems, of m "EndLine e"] show ?thesis by auto
      next
        case (Cons u us')
        obtain k v where u: "u = (k, v)" by force
        with * Cons have "l = (k, UnitLine v)" by (simp add: unit_lines_def)
        moreover have "dt_stream d + int k \<le> MaximumEnvelopeBytes" using * Cons u by simp
        ultimately show ?thesis using * Cons u decode_line_unit [OF Cons.prems, of k "UnitLine v"] by auto
      qed
      with None show False by simp
    qed
    with None show ?thesis by simp
  next
    case (Some d1)
    with l have *: "decode_line (n, body) d = Some d1" by simp
    show ?thesis
    proof (cases body)
      case (UnitLine u)
      with * decode_line_unit [OF Cons.prems] have d1: "uf_Type u = ''unit''" "int n \<le> MaximumUnitBytes"
        "d1 = d\<lparr>dt_stream := dt_stream d + int n, dt_envelope := (dt_envelope d)\<lparr>
          en_Units := en_Units (dt_envelope d) @ [u],
          en_observedUnitBytes := en_observedUnitBytes (dt_envelope d) + int n\<rparr>\<rparr>" by auto
      then have "?L ls d1 \<longleftrightarrow> ?R ls d1" using Cons by simp
      moreover have "?R ls d1 \<longleftrightarrow> ?R (l # ls) d"
      proof
        assume "?R ls d1"
        then obtain us m e where "ls = unit_lines us @ [(m, EndLine e)]" and
          "(\<forall>(k, u) \<in> set us. uf_Type u = ''unit'') \<and> ef_Type e = ''end'' \<and>
           (\<forall>k \<in> set (map fst us @ [m]). int k \<le> MaximumUnitBytes) \<and>
           dt_stream d1 + int (sum_list (map fst us) + m) \<le> MaximumEnvelopeBytes \<and>
           d' = d1\<lparr>dt_stream := dt_stream d1 + int (sum_list (map fst us) + m),
             dt_envelope := (dt_envelope d1)\<lparr>en_Units := en_Units (dt_envelope d1) @ map snd us, en_End := e,
               en_observedUnitBytes := en_observedUnitBytes (dt_envelope d1) + int (sum_list (map fst us))\<rparr>,
             dt_phase := PhaseEnd\<rparr>" by blast
        with d1 l UnitLine show "?R (l # ls) d"
          by (intro exI [of _ "(n, u) # us"] exI [of _ m] exI [of _ e]) (auto simp: unit_lines_def)
      next
        assume "?R (l # ls) d"
        with l UnitLine obtain us m e where "l # ls = unit_lines us @ [(m, EndLine e)]" and
          r: "(\<forall>(k, u) \<in> set us. uf_Type u = ''unit'') \<and> ef_Type e = ''end'' \<and>
           (\<forall>k \<in> set (map fst us @ [m]). int k \<le> MaximumUnitBytes) \<and>
           dt_stream d + int (sum_list (map fst us) + m) \<le> MaximumEnvelopeBytes \<and>
           d' = d\<lparr>dt_stream := dt_stream d + int (sum_list (map fst us) + m),
             dt_envelope := (dt_envelope d)\<lparr>en_Units := en_Units (dt_envelope d) @ map snd us, en_End := e,
               en_observedUnitBytes := en_observedUnitBytes (dt_envelope d) + int (sum_list (map fst us))\<rparr>,
             dt_phase := PhaseEnd\<rparr>" by blast
        with l UnitLine obtain us' where "us = (n, u) # us'" "ls = unit_lines us' @ [(m, EndLine e)]"
          by (cases us) (auto simp: unit_lines_def)
        with r d1 show "?R ls d1"
          by (intro exI [of _ us'] exI [of _ m] exI [of _ e]) (auto simp: algebra_simps)
      qed
      ultimately show ?thesis using Some by simp
    next
      case (EndLine e)
      with * decode_line_unit [OF Cons.prems] have d1: "ef_Type e = ''end''" "int n \<le> MaximumUnitBytes"
        "dt_stream d + int n \<le> MaximumEnvelopeBytes"
        "d1 = d\<lparr>dt_stream := dt_stream d + int n,
          dt_envelope := (dt_envelope d)\<lparr>en_End := e\<rparr>, dt_phase := PhaseEnd\<rparr>" by auto
      then have "?L (l # ls) d \<longleftrightarrow> ls = [] \<and> d' = d1" using Some by (auto simp: decode_lines_after_end)
      moreover have "?R (l # ls) d \<longleftrightarrow> ls = [] \<and> d' = d1"
      proof
        assume "ls = [] \<and> d' = d1"
        with d1 l EndLine show "?R (l # ls) d"
          by (intro exI [of _ "[]"] exI [of _ n] exI [of _ e]) (auto simp: unit_lines_def)
      next
        assume "?R (l # ls) d"
        with l EndLine d1 show "ls = [] \<and> d' = d1"
          by (auto simp: unit_lines_def Cons_eq_append_conv)
      qed
      ultimately show ?thesis by simp
    qed (use * decode_line_unit [OF Cons.prems] in auto)
  qed
qed


lemma decode_line_begin:
  assumes "dt_phase d = PhaseBegin"
  shows "decode_line (k, body) d = Some d' \<longleftrightarrow> int k \<le> MaximumUnitBytes \<and>
    dt_stream d + int k \<le> MaximumEnvelopeBytes \<and>
    (\<exists>b. body = BeginLine b \<and> bf_Type b = ''begin'' \<and>
      d' = d\<lparr>dt_stream := dt_stream d + int k, dt_envelope := (dt_envelope d)\<lparr>en_Begin := b\<rparr>,
        dt_phase := PhaseUnit\<rparr>)"
  using assms by (cases body) (auto simp: decode_line_def Let_def not_less)

lemma units_ok_type: "units_ok g b n prior us \<Longrightarrow> u \<in> set us \<Longrightarrow> uf_Type u = ''unit''"
  by (induction us arbitrary: n prior) auto

lemma validateEnvelope_types:
  assumes "validateEnvelope g en"
  shows "bf_Type (en_Begin en) = ''begin'' \<and> ef_Type (en_End en) = ''end'' \<and>
    (\<forall>u \<in> set (en_Units en). uf_Type u = ''unit'')"
  using assms by (auto simp: validateEnvelope_def totals_ok_def Let_def units_ok_type)

text \<open>What the whole stream decodes to, before the envelope is validated.\<close>

lemma decode_stream:
  "(decode_lines ls \<lparr>dt_envelope = empty_envelope, dt_stream = 0, dt_phase = PhaseBegin\<rparr> = Some d \<and>
     dt_phase d = PhaseEnd) \<longleftrightarrow>
   (\<exists>k b us n e. ls = (k, BeginLine b) # unit_lines us @ [(n, EndLine e)] \<and>
      bf_Type b = ''begin'' \<and> (\<forall>(k, u) \<in> set us. uf_Type u = ''unit'') \<and> ef_Type e = ''end'' \<and>
      lines_fit (k # map fst us @ [n]) \<and>
      d = \<lparr>dt_envelope = \<lparr>en_Begin = b, en_Units = map snd us, en_End = e,
             en_observedUnitBytes = int (sum_list (map fst us))\<rparr>,
           dt_stream = int (k + sum_list (map fst us) + n), dt_phase = PhaseEnd\<rparr>)"
  (is "?L ls \<longleftrightarrow> ?R ls")
proof (cases ls)
  case Nil
  then show ?thesis by auto
next
  case (Cons l ls')
  let ?d0 = "\<lparr>dt_envelope = empty_envelope, dt_stream = 0, dt_phase = PhaseBegin\<rparr>"
  obtain k body where l: "l = (k, body)" by force
  have start: "decode_line l ?d0 = Some d1 \<longleftrightarrow> int k \<le> MaximumUnitBytes \<and> int k \<le> MaximumEnvelopeBytes \<and>
      (\<exists>b. body = BeginLine b \<and> bf_Type b = ''begin'' \<and>
        d1 = \<lparr>dt_envelope = empty_envelope\<lparr>en_Begin := b\<rparr>, dt_stream = int k, dt_phase = PhaseUnit\<rparr>)" for d1
    unfolding l by (subst decode_line_begin) auto
  have "?L ls \<longleftrightarrow> (\<exists>d1. decode_line l ?d0 = Some d1 \<and> decode_lines ls' d1 = Some d \<and> dt_phase d = PhaseEnd)"
    using Cons by (auto split: option.splits)
  also have "\<dots> \<longleftrightarrow> int k \<le> MaximumUnitBytes \<and> int k \<le> MaximumEnvelopeBytes \<and>
      (\<exists>b. body = BeginLine b \<and> bf_Type b = ''begin'' \<and>
        decode_lines ls' \<lparr>dt_envelope = empty_envelope\<lparr>en_Begin := b\<rparr>, dt_stream = int k, dt_phase = PhaseUnit\<rparr>
          = Some d \<and> dt_phase d = PhaseEnd)"
    unfolding start by auto
  also have "\<dots> \<longleftrightarrow> ?R ls"
    unfolding Cons l by (subst decode_units) (auto simp: lines_fit_def empty_envelope_def algebra_simps)
  finally show ?thesis .
qed

text \<open>C37: The decoder accepts a stream exactly when it ends cleanly and consists of the
  begin line, the unit lines and the end line of a valid envelope, every line within the bound of a
  unit, all of them within the bound of an envelope, and the units of the length that was observed.
\<close>

theorem decode_exact:
  "DecodeEnvelope g ls clean = Some en \<longleftrightarrow> clean \<and> validateEnvelope g en \<and>
    (\<exists>k us n. ls = (k, BeginLine (en_Begin en)) # unit_lines us @ [(n, EndLine (en_End en))] \<and>
      map snd us = en_Units en \<and> int (sum_list (map fst us)) = en_observedUnitBytes en \<and>
      lines_fit (k # map fst us @ [n]))"
  (is "?L \<longleftrightarrow> clean \<and> ?V \<and> ?R")
proof -
  let ?run = "decode_lines ls \<lparr>dt_envelope = empty_envelope, dt_stream = 0, dt_phase = PhaseBegin\<rparr>"
  have "?L \<longleftrightarrow> clean \<and> ?V \<and> (\<exists>d. (?run = Some d \<and> dt_phase d = PhaseEnd) \<and> dt_envelope d = en)"
    by (auto simp: DecodeEnvelope_def split: option.splits)
  also have "\<dots> \<longleftrightarrow> clean \<and> ?V \<and> ?R"
  proof (intro conj_cong refl)
    assume v: ?V
    show "(\<exists>d. (?run = Some d \<and> dt_phase d = PhaseEnd) \<and> dt_envelope d = en) \<longleftrightarrow> ?R"
    proof
      assume "\<exists>d. (?run = Some d \<and> dt_phase d = PhaseEnd) \<and> dt_envelope d = en"
      then show ?R unfolding decode_stream by fastforce
    next
      assume ?R
      then obtain k us n where r: "ls = (k, BeginLine (en_Begin en)) # unit_lines us @ [(n, EndLine (en_End en))]"
        "map snd us = en_Units en" "int (sum_list (map fst us)) = en_observedUnitBytes en"
        "lines_fit (k # map fst us @ [n])" by blast
      have "\<forall>(k, u) \<in> set us. uf_Type u = ''unit''"
        using validateEnvelope_types [OF v] r(2) [symmetric] by auto
      with r validateEnvelope_types [OF v] show
        "\<exists>d. (?run = Some d \<and> dt_phase d = PhaseEnd) \<and> dt_envelope d = en"
        unfolding decode_stream
        by (intro exI [of _ "\<lparr>dt_envelope = en, dt_stream = int (k + sum_list (map fst us) + n),
            dt_phase = PhaseEnd\<rparr>"] conjI exI [of _ k] exI [of _ "en_Begin en"] exI [of _ us] exI [of _ n]
            exI [of _ "en_End en"]) auto
    qed
  qed
  finally show ?thesis .
qed

end
