(* ===== verification/Ingest_Demo.thy ===== *)
theory Ingest_Demo
  imports Ingest_Properties Ingest_Decode
begin

text \<open>
  Concrete runs of the ingestion controller, evaluated; the witnesses of its properties apply
  them here. Every digest of the demonstration is the same, so that commitments agree.
\<close>

definition digest_a :: string where "digest_a = replicate 64 CHR ''a''"

definition plain_guards :: pm_guards where
  "plain_guards = \<lparr>g_sha = (\<lambda>_. digest_a), g_secret = (\<lambda>_. False), g_redact = (\<lambda>s. (s, False)),
     g_unsafe_url = (\<lambda>_. False), g_prepare_url = (\<lambda>u. Some (u, False)), g_canonicalize = Some,
     g_occurrences = (\<lambda>_. []), g_url_matches = (\<lambda>_. []), g_url_free = (\<lambda>_. digest_a),
     g_rfc3339 = (\<lambda>s. Some (int (length s))), g_rfc3339nano = (\<lambda>s. Some (int (length s)))\<rparr>"

definition plain_formats :: pm_formats where
  "plain_formats = \<lparr>f_rfc3339 = (\<lambda>_. ''1''), f_rfc3339nano = (\<lambda>_. ''1'')\<rparr>"

definition plain_pm_env :: pm_env where
  "plain_pm_env = \<lparr>pe_io = quiet_env, pe_lock_busy = False, pe_read_fails = False,
     pe_prior_lstat_fails = False, pe_prior_read_fails = False, pe_stat_fails = False,
     pe_mtime = 7, pe_now = (\<lambda>_. ''3'')\<rparr>"

definition plain_ledger_env :: ledger_env where
  "plain_ledger_env = \<lparr>le_io = quiet_env, le_lock_busy = False, le_read_fails = False\<rparr>"

definition plain_env :: apply_env where
  "plain_env = \<lparr>ae_lock_busy = False, ae_before = plain_pm_env, ae_import = plain_pm_env,
     ae_load = plain_pm_env, ae_after = plain_pm_env, ae_first_save = plain_ledger_env,
     ae_last_save = plain_ledger_env, ae_interfere = (\<lambda>_. id)\<rparr>"

definition empty_world :: ingest_world where
  "empty_world = \<lparr>iw_repo = \<lparr>pr_disk = \<lparr>current_file = None, backup_file = None\<rparr>, pr_modified = 0,
       pr_cache = None\<rparr>, iw_ledger = \<lparr>current_file = None, backup_file = None\<rparr>\<rparr>"

definition plain_message :: "string \<Rightarrow> native_message" where
  "plain_message t = \<lparr>nm_NativeMessageID = ''m'', nm_Timestamp = ''1.0'', nm_AuthorID = '''',
     nm_AuthorName = '''', nm_Permalink = '''', nm_ThreadParentID = '''', nm_Text = t,
     nm_EditDeleteState = '''', nm_RevisionTimestamp = '''', nm_AttachmentCount = 0,
     nm_PrivateFileCount = 0\<rparr>"

definition plain_unit :: "int \<Rightarrow> string \<Rightarrow> string \<Rightarrow> string \<Rightarrow> unit_frame" where
  "plain_unit n d c t = \<lparr>uf_Type = ''unit'', uf_Ordinal = n, uf_Descriptor = d,
     uf_Batch = \<lparr>nb_SchemaVersion = NativeBatchSchema, nb_WorkspaceID = ''T'', nb_ChannelID = ''C'',
       nb_LowerInclusive = ''1.0'', nb_UpperInclusive = ''2.0'', nb_Watermark = ''2.0'',
       nb_IncludeThreads = True, nb_IncludeReplies = True, nb_PaginationExhausted = True,
       nb_ThreadPaginationExhausted = True, nb_DeclaredSourceRecords = 1,
       nb_Messages = [plain_message t]\<rparr>,
     uf_AuthorClasses = [(''m'', c)]\<rparr>"

definition plain_envelope :: "unit_frame list \<Rightarrow> ingest_envelope" where
  "plain_envelope us =
     \<lparr>en_Begin = \<lparr>bf_Type = ''begin'', bf_SchemaVersion = RunSchemaVersion, bf_RunID = ''run'',
        bf_SourceAdapter = ''slack'', bf_SourceScope = ''slack:T:C'',
        bf_ConfigurationFingerprint = ''c'', bf_UnitCount = int (length us), bf_MessageCeiling = 9,
        bf_ByteCeiling = 1000\<rparr>,
      en_Units = us,
      en_End = \<lparr>ef_Type = ''end'', ef_UnitCount = int (length us), ef_MessageCount = message_total us,
        ef_ByteCount = 100, ef_EnvelopeCommitment = digest_a\<rparr>,
      en_observedUnitBytes = 100\<rparr>"

lemma plain_trims [simp]:
  "trim_space ''user'' = ''user''" "trim_space ''non_user'' = ''non_user''" "trim_space ''slack'' = ''slack''"
  "trim_space ''T'' = ''T''" "trim_space ''C'' = ''C''" "trim_space ''a'' = ''a''" "trim_space ''b'' = ''b''"
  "trim_space ''1.0'' = ''1.0''" "trim_space ''2.0'' = ''2.0''" "trim_space ''slack:T:C'' = ''slack:T:C''"
  "trim_space ''run'' = ''run''" "trim_space ''c'' = ''c''" "trim_space ''t'' = ''t''" "trim_space ''m'' = ''m''"
  by code_simp+

lemma plain_stamps [simp]:
  "webAPITimestamp ''1.0'' = Some (10 ^ 9)" "webAPITimestamp ''2.0'' = Some (2 * 10 ^ 9)"
  by (simp_all add: webAPITimestamp_def split_point_def digit_def)

lemma plain_digest [simp]: "g_sha plain_guards s = digest_a" "commitment plain_guards vs = digest_a"
  "length digest_a = 64"
  by (simp_all add: plain_guards_def commitment_def digest_a_def)

definition plain_texts :: "(string \<times> string) set" where
  "plain_texts = {(''user'', ''t''), (''non_user'', '''')}"

lemma plain_frame_valid:
  assumes "(c, t) \<in> plain_texts" "\<not> blank d"
  shows "ValidateRunFrame plain_guards (frame_of (plain_unit n d c t))"
  using assms
  by (auto simp: ValidateRunFrame_def frame_of_def plain_unit_def plain_message_def validateNativeBatch_def
      batch_scope_ok_def blank_def validWebAPIWindow_def compareWebAPITimestamp_def
      webAPITimestampInWindow_def revision_stamp_ok_def MaximumNativeBatchMessages_def
      MaximumNativeURLOccurrences_def plain_guards_def author_class_def valid_class_def plain_texts_def Let_def)

lemma plain_envelope_valid:
  "validateEnvelope plain_guards (plain_envelope [plain_unit 0 ''a'' ''user'' ''t''])"
  "validateEnvelope plain_guards (plain_envelope [plain_unit 0 ''a'' ''non_user'' '''', plain_unit 1 ''b'' ''non_user'' ''''])"
  "validateEnvelope plain_guards (plain_envelope [plain_unit 0 ''a'' ''user'' ''t'', plain_unit 1 ''b'' ''non_user'' ''''])"
  by (simp_all add: validateEnvelope_def plain_envelope_def totals_ok_def Let_def
      MaximumEnvelopeRecords_def MaximumEnvelopeBytes_def EnvelopeCommitment_def plain_frame_valid
      plain_texts_def blank_def unit_scope_def message_total_def unit_messages_def)
    (simp_all add: plain_unit_def blank_def)

section \<open>The ledger of a run\<close>

definition plain_ledger :: "string \<Rightarrow> (int \<times> int \<times> int \<times> int \<times> int) \<Rightarrow> int \<Rightarrow> ledger" where
  "plain_ledger state counts after = (case counts of (delivered, declared, excluded, retained, overlap) \<Rightarrow>
     \<lparr>lg_SchemaVersion = LedgerSchemaVersion, lg_RunID = ''run'', lg_State = state,
      lg_SourceAdapter = ''slack'', lg_SourceScope = ''slack:T:C'', lg_ConfigurationFingerprint = ''c'',
      lg_DeliveredCount = delivered, lg_CanonicalDeclaredCount = declared,
      lg_StructuralExcludedCount = excluded, lg_OwnedCount = retained + excluded,
      lg_RetainedCount = retained, lg_WithheldCount = 0, lg_OverlapCount = overlap, lg_GapCount = 0,
      lg_ThreadCount = 0, lg_AggregateCommitment = digest_a,
      lg_CanonicalBeforeFingerprint = digest_a, lg_CanonicalAfterFingerprint = digest_a,
      lg_CanonicalBeforeCount = 0, lg_CanonicalAfterCount = after\<rparr>)"

lemma plain_ledger_sizes:
  "length (encode (json_of_ledger (plain_ledger ''recovering'' (0, 0, 0, 0, 0) 0))) < 2000"
  "length (encode (json_of_ledger (plain_ledger ''complete'' (1, 1, 0, 1, 0) 1))) < 2000"
  "length (encode (json_of_ledger (plain_ledger ''incomplete'' (0, 0, 0, 1, 0) 0))) < 2000"
  by code_simp+

lemma plain_ledger_valid:
  "validLedger (plain_ledger state (d, c, x, r, n) a) \<longleftrightarrow>
     state \<in> {''incomplete'', ''recovering'', ''failed'', ''complete''} \<and> 0 \<le> d \<and> 0 \<le> c \<and> 0 \<le> x \<and>
     d = c + x \<and> 0 \<le> r \<and> 0 \<le> n \<and> 0 \<le> a"
  by (auto simp: validLedger_def plain_ledger_def blank_def)

lemma plain_save:
  assumes "length (encode (json_of_ledger l)) < 2000" "validLedger l"
    "\<forall>b. current_file d = Some b \<longrightarrow> valid_ledger_blob b \<and> ledger_bytes b \<le> 2000"
  shows "ledger_save plain_ledger_env l d =
    (d\<lparr>current_file := Some (Doc l),
       backup_file := (case current_file d of None \<Rightarrow> backup_file d | Some p \<Rightarrow> Some p)\<rparr>, None)"
  using assms
    atomic_replace_quiet [of valid_ledger_blob "Doc l" ledger_bytes maximumLedgerBytes "current_file d" d]
  by (auto simp: ledger_save_def plain_ledger_env_def replace_document_def maximumLedgerBytes_def
      ledger_bytes_def valid_ledger_blob_def split: option.splits)

definition reserved_disk :: "ledger disk" where
  "reserved_disk = \<lparr>current_file = Some (Doc (plain_ledger ''recovering'' (0, 0, 0, 0, 0) 0)), backup_file = None\<rparr>"

lemma plain_reserve:
  "ledger_save plain_ledger_env (plain_ledger ''recovering'' (0, 0, 0, 0, 0) 0) (iw_ledger empty_world) = (reserved_disk, None)"
  using plain_save [OF plain_ledger_sizes(1), of "iw_ledger empty_world"]
  by (simp add: plain_ledger_valid empty_world_def reserved_disk_def)

lemma plain_save_over:
  assumes "length (encode (json_of_ledger l)) < 2000" "validLedger l"
  shows "ledger_save plain_ledger_env l reserved_disk =
    (\<lparr>current_file = Some (Doc l), backup_file = current_file reserved_disk\<rparr>, None)"
  using plain_save [OF assms, of reserved_disk] plain_ledger_sizes(1)
  by (simp add: reserved_disk_def valid_ledger_blob_def ledger_bytes_def plain_ledger_valid)

definition plain_status :: pm_status where
  "plain_status = status_of (EmptyLibrary plain_guards)"

definition status_repo :: pm_repo where
  "status_repo = (iw_repo empty_world)\<lparr>pr_cache := Some \<lparr>sc_fileExists = False, sc_fileSize = 0,
     sc_modifiedAt = 0, sc_status = plain_status\<rparr>\<rparr>"

lemma plain_status_before: "pm_status plain_guards plain_pm_env (iw_repo empty_world) = (status_repo, Inr plain_status)"
  by (simp add: pm_status_def plain_pm_env_def empty_world_def pm_load_def status_repo_def plain_status_def)

lemma plain_initial:
  "initial_ledger plain_guards (en_Begin (plain_envelope us)) plain_status =
     plain_ledger ''recovering'' (0, 0, 0, 0, 0) 0"
  by (simp add: initial_ledger_def plain_envelope_def plain_ledger_def plain_status_def status_of_def
      EmptyLibrary_def Let_def fingerprintLibrary_def fingerprint_of_def)

lemma plain_apply:
  assumes "validateEnvelope plain_guards (plain_envelope us)"
  shows "Apply_envelope plain_guards plain_formats plain_env (plain_envelope us) empty_world =
    apply_recovering plain_guards plain_formats plain_env us (plain_ledger ''recovering'' (0, 0, 0, 0, 0) 0)
      \<lparr>iw_repo = status_repo, iw_ledger = reserved_disk\<rparr>"
proof -
  have "interfered plain_env n w = w" for n w by (simp add: interfered_def plain_env_def)
  moreover have "apply_recovering g f env us l (empty_world\<lparr>iw_repo := status_repo, iw_ledger := reserved_disk\<rparr>) =
      apply_recovering g f env us l \<lparr>iw_repo = status_repo, iw_ledger = reserved_disk\<rparr>" for g f env l
    by (rule arg_cong [where f = "apply_recovering g f env us l"]) simp
  moreover have "\<not> ae_lock_busy plain_env" "ae_before plain_env = plain_pm_env"
    "ae_first_save plain_env = plain_ledger_env" "en_Units (plain_envelope us) = us"
    by (simp_all add: plain_env_def plain_envelope_def)
  ultimately show ?thesis
    using assms plain_status_before plain_reserve by (simp add: Apply_envelope_def Let_def plain_initial)
qed

section \<open>An excluded message delivered twice\<close>

lemma plain_excluded:
  "CaptureBatchForAdoption plain_guards plain_formats (frame_of (plain_unit n ''a'' ''non_user'' '''')) =
     Some (None, [(''m'', Exclude)])"
  "CaptureBatchForAdoption plain_guards plain_formats (frame_of (plain_unit n ''b'' ''non_user'' '''')) =
     Some (None, [(''m'', Exclude)])"
  by (simp_all add: CaptureBatchForAdoption_def plain_frame_valid plain_texts_def blank_def)
    (simp_all add: frame_of_def plain_unit_def plain_message_def author_class_def DispositionFor_def
      valid_class_def blank_def Let_def)

lemma plain_unit_fields [simp]:
  "unit_messages (plain_unit n d c t) = [plain_message t]"
  "uf_AuthorClasses (plain_unit n d c t) = [(''m'', c)]"
  "message_key (uf_Batch (plain_unit n d c t)) i = ''T'' @ [CHR 0x00] @ ''C'' @ [CHR 0x00] @ i"
  "nm_NativeMessageID (plain_message t) = ''m''" "nm_ThreadParentID (plain_message t) = []"
  by (simp_all add: unit_messages_def plain_unit_def plain_message_def message_key_def)

lemma plain_disposition [simp]:
  "DispositionFor (plain_message []) ''non_user'' = Some Exclude"
  "DispositionFor (plain_message ''t'') ''user'' = Some Retain"
  by (simp_all add: DispositionFor_def plain_message_def valid_class_def blank_def)

lemma plain_count_thread [simp]: "count_thread b (plain_message t) s = s"
  by (simp add: count_thread_def blank_def)

definition overlapping :: "unit_frame list" where
  "overlapping = [plain_unit 0 ''a'' ''non_user'' [], plain_unit 1 ''b'' ''non_user'' []]"

lemma overlapping_reconciled:
  "reconcile plain_guards plain_formats overlapping (plain_ledger ''recovering'' (0, 0, 0, 0, 0) 0) =
   Inr (plain_ledger ''recovering'' (0, 0, 1, 0, 1) 0)"
  by (simp add: overlapping_def reconcile_def deliveries_def reconcile_message_def Let_def author_class_def
      parent_missing_def) (simp add: plain_ledger_def count_disposition_def)

lemma overlapping_adopted:
  "adopt_units plain_guards plain_formats overlapping (plain_ledger ''recovering'' (0, 0, 1, 0, 1) 0) =
   Inr (plain_ledger ''recovering'' (2, 0, 1, 0, 1) 0, [])"
  by (simp add: overlapping_def plain_excluded Let_def adopted_receipt_def valid_adoption_def)
    (simp add: plain_ledger_def)

lemma overlapping_run:
  "Apply_envelope plain_guards plain_formats plain_env (plain_envelope overlapping) empty_world =
    (\<lparr>iw_repo = status_repo, iw_ledger = reserved_disk\<rparr>, Inl InvalidLedger)"
proof -
  have "plain_status = status_of (EmptyLibrary plain_guards)" by (simp add: plain_status_def)
  then have after: "pm_status plain_guards plain_pm_env status_repo = (status_repo, Inr plain_status)"
    by (simp add: pm_status_def plain_pm_env_def status_repo_def cache_hit_def empty_world_def)
  have same: "interfered plain_env n w = w" for n w by (simp add: interfered_def plain_env_def)
  have "ae_after plain_env = plain_pm_env" "ae_last_save plain_env = plain_ledger_env"
    by (simp_all add: plain_env_def)
  moreover have "\<not> validLedger ((plain_ledger ''recovering'' (2, 0, 1, 0, 1) 0)
      \<lparr>lg_CanonicalAfterFingerprint := fp, lg_CanonicalAfterCount := n, lg_State := s\<rparr>)" for fp n s
    by (simp add: validLedger_def plain_ledger_def)
  ultimately show ?thesis
    using plain_apply [OF plain_envelope_valid(2)] after same
    by (simp add: overlapping_def [symmetric] apply_recovering_def overlapping_reconciled overlapping_adopted
        complete_apply_def Let_def ledger_save_def)
qed

theorem excluded_overlap_never_completes_witness:
  "Apply_envelope plain_guards plain_formats plain_env (plain_envelope overlapping) empty_world =
     (\<lparr>iw_repo = status_repo, iw_ledger = reserved_disk\<rparr>, Inl InvalidLedger) \<and>
   (\<exists>l. stored_ledger reserved_disk = Some l \<and> lg_State l \<noteq> ''complete'')"
proof
  have "\<not> distinct (map delivery_key (excluded_deliveries (en_Units (plain_envelope overlapping))))"
    by (simp add: plain_envelope_def excluded_deliveries_def overlapping_def deliveries_def
        delivery_disposition_def delivery_key_def author_class_def)
  from excluded_overlap_never_completes [OF overlapping_run this]
  show "\<exists>l. stored_ledger reserved_disk = Some l \<and> lg_State l \<noteq> ''complete''"
    by (auto simp: empty_world_def stored_ledger_def reserved_disk_def)
qed (rule overlapping_run)

section \<open>A message whose author class contradicts itself\<close>

definition contradicting :: "unit_frame list" where
  "contradicting = [plain_unit 0 ''a'' ''user'' ''t'', plain_unit 1 ''b'' ''non_user'' []]"

definition failed_disk :: "ledger disk" where
  "failed_disk = \<lparr>current_file = Some (Doc (plain_ledger ''incomplete'' (0, 0, 0, 1, 0) 0)),
     backup_file = current_file reserved_disk\<rparr>"

lemma contradicting_run:
  "Apply_envelope plain_guards plain_formats plain_env (plain_envelope contradicting) empty_world =
    (\<lparr>iw_repo = status_repo, iw_ledger = failed_disk\<rparr>, Inl ReconciliationFailed)"
proof -
  have r: "reconcile plain_guards plain_formats contradicting (plain_ledger ''recovering'' (0, 0, 0, 0, 0) 0) =
      Inl ((plain_ledger ''recovering'' (0, 0, 0, 0, 0) 0)\<lparr>lg_RetainedCount := 1\<rparr>)"
    by (simp add: contradicting_def reconcile_def deliveries_def reconcile_message_def Let_def author_class_def)
      (simp add: plain_ledger_def count_disposition_def)
  have f: "failed_ledger plain_guards ((plain_ledger ''recovering'' (0, 0, 0, 0, 0) 0)\<lparr>lg_RetainedCount := 1\<rparr>) =
      plain_ledger ''incomplete'' (0, 0, 0, 1, 0) 0"
    by (simp add: failed_ledger_def Let_def plain_ledger_def)
  have s: "ledger_save plain_ledger_env (plain_ledger ''incomplete'' (0, 0, 0, 1, 0) 0) reserved_disk = (failed_disk, None)"
    using plain_save_over [OF plain_ledger_sizes(3)] by (simp add: plain_ledger_valid failed_disk_def)
  have "ae_last_save plain_env = plain_ledger_env" by (simp add: plain_env_def)
  then show ?thesis
    using plain_apply [OF plain_envelope_valid(3)] r f s
    by (simp add: contradicting_def [symmetric] apply_recovering_def fail_apply_def)
qed

theorem failure_is_recorded_witness:
  "\<exists>l. stored_ledger failed_disk = Some l \<and> validLedger l \<and> lg_State l = ''incomplete''"
  using failure_is_recorded [OF contradicting_run, OF disjI1, OF refl] by simp blast

section \<open>A complete run\<close>

text \<open>The library is empty before; afterwards it holds the capture of the one message.\<close>

definition retained :: "unit_frame list" where
  "retained = [plain_unit 0 ''a'' ''user'' ''t'']"

definition plain_input :: capture_input where
  "plain_input = \<lparr>ci_SourceAdapter = ''slack'', ci_SourceScopeID = ''T'',
     ci_SourceContainerID = ''C'', ci_ExternalID = ''m'',
     ci_OccurredAt = ''1'', ci_AuthorID = [], ci_AuthorName = [],
     ci_SourceRef = ''slack://T/C/m'', ci_RawText = ''t'', ci_ThreadParentID = [],
     ci_AttachmentCount = 0, ci_PrivateFileCount = 0, ci_EditDeleteState = [], ci_RevisionAt = [],
     ci_Missingness = [''permalink_unavailable'']\<rparr>"

definition plain_record :: capture_record where
  "plain_record =
     \<lparr>cr_RecordID = stableRecordID plain_guards ''slack:T:C:m'', cr_IdempotencyKey = ''slack:T:C:m'',
      cr_SourceAdapter = ''slack'',
      cr_SourceScopeID = ''T'', cr_SourceContainerID = ''C'', cr_ExternalID = ''m'',
      cr_OccurredAt = ''1'', cr_AuthorID = [], cr_AuthorName = [], cr_SourceRef = ''slack://T/C/m'',
      cr_RawText = ''t'', cr_URLs = Some [], cr_ResourceIDs = Some [], cr_ThreadParentID = [],
      cr_AttachmentCount = 0, cr_PrivateFileCount = 0, cr_EditDeleteState = ''original'',
      cr_RevisionAt = [], cr_ContextState = ''source_complete'',
      cr_Missingness = Some [''permalink_unavailable''],
      cr_AuthorityClass = AuthorityClass,
      cr_SourceContentFingerprint = digest_a, cr_ContentHash = digest_a\<rparr>"

lemma plain_trims_more [simp]: "trim_space ''slack://T/C/m'' = ''slack://T/C/m''" "trim_space ''1'' = ''1''"
  "trim_space AuthorityClass = AuthorityClass" "trim_space digest_a = digest_a" "trim_space ''source_complete'' = ''source_complete''"
  "trim_space ''slack:T:C:m'' = ''slack:T:C:m''" "trim_space ''permalink_unavailable'' = ''permalink_unavailable''"
  by code_simp+

lemma plain_library_guards [simp]:
  "g_secret plain_guards v = False" "g_redact plain_guards v = (v, False)" "g_unsafe_url plain_guards v = False"
  "g_occurrences plain_guards v = []" "g_url_matches plain_guards v = []" "g_url_free plain_guards v = digest_a"
  "g_rfc3339 plain_guards v = Some (int (length v))" "g_rfc3339nano plain_guards v = Some (int (length v))"
  by (simp_all add: plain_guards_def)

lemma plain_fingerprints [simp]: "fingerprint_of (g_sha plain_guards) j = digest_a"
  "fingerprintRecord plain_guards r = digest_a" "fingerprintLibrary plain_guards l = digest_a"
  "captureBatchFingerprint plain_guards b = digest_a"
  by (simp_all add: fingerprintRecord_def fingerprintLibrary_def captureBatchFingerprint_def fingerprint_of_def)

lemma plain_sanitize [simp]: "sanitizeTextURLs plain_guards v = (v, False)"
  by (simp add: sanitizeTextURLs_def Let_def)

lemma plain_captured:
  "captured_text plain_guards ''t'' [] = (''t'', ''source_complete'', [])"
  "captured_author plain_guards [] [] = ([], [], [])" "captured_parent plain_guards [] = ([], [])"
  "safeURLsFromText plain_guards v = []" "uniqueSorted [''permalink_unavailable''] = [''permalink_unavailable'']"
  by (simp_all add: captured_text_def source_deleted_def Let_def captured_author_def captured_parent_def
      safeURLsFromText_def uniqueSorted_def)

lemma plain_key: "idempotency_key ''slack'' ''T'' ''C'' ''m'' = ''slack:T:C:m''"
  by code_simp

lemma plain_built: "built_record plain_guards plain_input ''slack://T/C/m'' = plain_record"
  by (simp add: built_record_def plain_input_def plain_record_def Let_def plain_captured plain_key)

lemma plain_record_valid: "validateRecord plain_guards plain_record"
proof -
  have "stableRecordID plain_guards k = ''capture-'' @ take 24 digest_a" for k
    by (simp add: stableRecordID_def stable_id_def)
  moreover have "\<not> blank (''capture-'' @ take 24 digest_a)" "AuthorityClass \<noteq> []" by code_simp+
  moreover have "validSHA256 digest_a" by (simp add: validSHA256_def) (simp add: digest_a_def hex_digit_def list_all_iff)
  moreover have "digest_a \<noteq> []" by (simp add: digest_a_def)
  ultimately show ?thesis
    by (simp add: validateRecord_def plain_record_def blank_def unsafe_texts_def chronology_ok_def)
qed

lemma plain_new_record: "NewCaptureRecord plain_guards plain_input = Some plain_record"
proof -
  have "stored_source_ref plain_guards ''slack://T/C/m'' = Some ''slack://T/C/m''"
    by (simp add: stored_source_ref_def starts_with_def Let_def)
  then show ?thesis
    using plain_built plain_record_valid
    by (simp add: NewCaptureRecord_def plain_input_def Let_def input_chronology_ok_def)
qed

definition plain_batch :: capture_batch where
  "plain_batch = \<lparr>cb_SchemaVersion = CaptureBatchSchemaVersion, cb_SourceIdentity = ''slack:T:C'',
     cb_LowerInclusive = ''1.0'', cb_UpperInclusive = ''2.0'', cb_Watermark = ''2.0'',
     cb_DeclaredRecords = 1, cb_Records = Some [plain_record]\<rparr>"

lemma plain_batch_valid: "validateCaptureBatch plain_guards plain_batch"
  using plain_record_valid
  by (simp add: validateCaptureBatch_def plain_batch_def MaximumRecords_def unsafe_texts_def)

lemma plain_native [simp]: "NativeTimestampToRFC3339 plain_guards plain_formats v = Some ''1''"
  by (simp add: NativeTimestampToRFC3339_def parseNativeTimestamp_def plain_formats_def Let_def)

lemma plain_adoption:
  "CaptureBatchForAdoption plain_guards plain_formats (frame_of (plain_unit n ''a'' ''user'' ''t'')) =
     Some (Some plain_batch, [(''m'', Retain)])"
proof -
  let ?u = "plain_unit n ''a'' ''user'' ''t''"
  have "adopted_record plain_guards plain_formats (uf_Batch ?u) (plain_message ''t'') Retain = Some plain_record"
    using plain_new_record
    by (simp add: adopted_record_def Let_def) (simp add: plain_input_def plain_unit_def plain_message_def)
  then have "adopt_messages plain_guards plain_formats (frame_of ?u) (nb_Messages (rf_Batch (frame_of ?u))) =
      Some ([plain_record], [(''m'', Retain)])"
    using plain_unit_fields(1) [of n "''a''" "''user''" "''t''"]
    by (simp add: frame_of_def unit_messages_def author_class_def Let_def)
  moreover have "ValidateRunFrame plain_guards (frame_of ?u)"
    by (rule plain_frame_valid) (simp_all add: plain_texts_def blank_def)
  moreover have "rf_Batch (frame_of ?u) = uf_Batch ?u" by (simp add: frame_of_def)
  ultimately show ?thesis
    using plain_batch_valid
    by (simp add: CaptureBatchForAdoption_def NewCaptureBatch_def Let_def)
      (simp add: plain_unit_def plain_batch_def)
qed

lemma retained_reconciled:
  "reconcile plain_guards plain_formats retained (plain_ledger ''recovering'' (0, 0, 0, 0, 0) 0) =
   Inr (plain_ledger ''recovering'' (0, 0, 0, 1, 0) 0)"
  by (simp add: retained_def reconcile_def deliveries_def reconcile_message_def Let_def author_class_def
      parent_missing_def) (simp add: plain_ledger_def count_disposition_def)

lemma retained_adopted:
  "adopt_units plain_guards plain_formats retained (plain_ledger ''recovering'' (0, 0, 0, 1, 0) 0) =
   Inr (plain_ledger ''recovering'' (1, 1, 0, 1, 0) 0, [plain_batch])"
  by (simp add: retained_def plain_adoption Let_def adopted_receipt_def valid_adoption_def)
    (simp add: plain_ledger_def plain_batch_def)

definition plain_receipt :: import_receipt where
  "plain_receipt = \<lparr>ir_BatchFingerprint = digest_a, ir_SourceIdentity = ''slack:T:C'',
     ir_LowerInclusive = ''1.0'', ir_UpperInclusive = ''2.0'', ir_Watermark = ''2.0'',
     ir_DeclaredRecords = 1, ir_InsertedRecords = 1, ir_UpdatedRecords = 0, ir_UnchangedRecords = 0,
     ir_TotalRecords = 1, ir_ImportedAt = ''3''\<rparr>"

definition plain_library :: library where
  "plain_library = \<lparr>lb_SchemaVersion = LibrarySchemaVersion, lb_Revision = 1, lb_Fingerprint = digest_a,
     lb_Records = Some [plain_record], lb_Revisions = Some [], lb_Resources = Some [],
     lb_ResourceRevisions = Some [], lb_Imports = Some [plain_receipt], lb_EnrichmentImports = Some []\<rparr>"

lemma plain_imported:
  "import_library plain_guards (\<lambda>_. ''3'') [plain_batch] (EmptyLibrary plain_guards) =
     Inr (Some plain_library, [plain_receipt])"
proof -
  have rec: "cr_IdempotencyKey plain_record = ''slack:T:C:m''" "cr_ContentHash plain_record = digest_a"
    "cr_URLs plain_record = Some []" "cr_ResourceIDs plain_record = Some []"
    by (simp_all add: plain_record_def)
  have keys: "envelope_keys plain_guards [] [plain_batch] = [''slack:T:C:m'']"
    by (simp add: envelope_keys_def rec) (simp add: plain_batch_def rec)
  have fin: "final_of plain_guards [] [plain_batch] ''slack:T:C:m'' = Some (plain_record, False)"
    by (simp add: final_of_def final_entries_def keys rec) (simp add: plain_batch_def rec)
  have "\<not> envelope_refused plain_guards (EmptyLibrary plain_guards) [] [plain_batch]"
    by (simp add: envelope_refused_def keys fin final_refused_def record_under_def EmptyLibrary_def Let_def
        historical_def rec)
  moreover have "applyCaptureBatch plain_guards ''3'' (final_content plain_guards [] [plain_batch]) plain_batch
      \<lparr>is_library = EmptyLibrary plain_guards, is_imported = [], is_touched = []\<rparr> =
    (\<lparr>is_library = plain_library, is_imported = [digest_a], is_touched = [''slack:T:C:m'']\<rparr>,
     plain_receipt, True)"
    by (simp add: applyCaptureBatch_def Let_def apply_record_def add_resources_def
        commit_batch_def batch_receipt_def plain_library_def plain_receipt_def plain_batch_def EmptyLibrary_def
        add_revision_def put_record_def slice_append_def record_under_def rec)
  moreover have "sealLibrary plain_guards plain_library = plain_library"
    by (simp add: sealLibrary_def sorted_library_def Let_def plain_library_def)
  ultimately show ?thesis
    by (simp add: import_library_def imported_fingerprints_def Let_def EmptyLibrary_def)
qed

lemma plain_library_size: "length (encode (json_of_library plain_library)) < 5000"
  by code_simp

lemma plain_library_valid: "validateLibrary plain_guards plain_library"
  using plain_record_valid plain_digest(3)
  by (cases "digest_a = []") (simp_all add: validateLibrary_def plain_library_def MaximumRecords_def MaximumResources_def plain_record_def)

definition imported_repo :: pm_repo where
  "imported_repo = \<lparr>pr_disk = \<lparr>current_file = Some (Doc plain_library), backup_file = None\<rparr>,
     pr_modified = 7, pr_cache = None\<rparr>"

lemma plain_library_bytes: "library_bytes (Doc plain_library) \<le> 5000"
  using plain_library_size by (simp add: library_bytes_def)

lemma plain_library_load:
  "pr_disk rp = pr_disk imported_repo \<Longrightarrow> pm_load plain_guards plain_pm_env rp = Inr plain_library"
  using plain_library_bytes plain_library_valid
  by (simp add: pm_load_def imported_repo_def plain_pm_env_def MaximumLibraryBytes_def)

lemma plain_import:
  "ImportManyWithinBudget plain_guards plain_pm_env [plain_batch] MaximumCaptureLibraryBytes status_repo =
     (imported_repo, Inr [plain_receipt])"
proof -
  have "persistLibraryWithinBudget plain_guards plain_pm_env MaximumCaptureLibraryBytes plain_library status_repo =
      (imported_repo, None)"
    using plain_library_bytes plain_library_valid
      atomic_replace_quiet [of "valid_library_blob plain_guards" "Doc plain_library" library_bytes
        MaximumLibraryBytes None]
    by (simp add: persistLibraryWithinBudget_def MaximumCaptureLibraryBytes_def MaximumLibraryBytes_def
        plain_pm_env_def status_repo_def empty_world_def imported_repo_def valid_library_blob_def)
  moreover have "pm_load plain_guards plain_pm_env status_repo = Inr (EmptyLibrary plain_guards)"
    by (simp add: pm_load_def status_repo_def empty_world_def)
  ultimately show ?thesis
    using plain_imported plain_batch_valid
    by (simp add: ImportManyWithinBudget_def MaximumCaptureLibraryBytes_def MaximumLibraryBytes_def
        plain_pm_env_def)
qed

definition complete_disk :: "ledger disk" where
  "complete_disk = \<lparr>current_file = Some (Doc (plain_ledger ''complete'' (1, 1, 0, 1, 0) 1)),
     backup_file = current_file reserved_disk\<rparr>"

lemma retained_run:
  "\<exists>rp. pr_disk rp = pr_disk imported_repo \<and>
     Apply_envelope plain_guards plain_formats plain_env (plain_envelope retained) empty_world =
       (\<lparr>iw_repo = rp, iw_ledger = complete_disk\<rparr>, Inr (plain_ledger ''complete'' (1, 1, 0, 1, 0) 1))"
proof -
  have same: "interfered plain_env n w = w" for n w by (simp add: interfered_def plain_env_def)
  have env: "ae_after plain_env = plain_pm_env" "ae_last_save plain_env = plain_ledger_env"
    "ae_import plain_env = plain_pm_env" "ae_load plain_env = plain_pm_env"
    by (simp_all add: plain_env_def)
  let ?w = "\<lparr>iw_repo = imported_repo, iw_ledger = reserved_disk\<rparr>"
  have "capturesCurrent plain_library plain_batch"
    by (simp add: capturesCurrent_def plain_batch_def plain_library_def record_under_def)
  then have io: "import_and_read_back plain_guards plain_env [plain_batch]
      \<lparr>iw_repo = status_repo, iw_ledger = reserved_disk\<rparr> = (?w, True)"
    using plain_import plain_library_load [of imported_repo]
    by (simp add: import_and_read_back_def same env Let_def receipt_matches_def plain_receipt_def plain_batch_def)
  obtain rp where st: "pm_status plain_guards plain_pm_env imported_repo = (rp, Inr (status_of plain_library))"
      "pr_disk rp = pr_disk imported_repo"
    using plain_library_load [of imported_repo]
    by (simp add: pm_status_def plain_pm_env_def) (simp add: imported_repo_def)
  have "(plain_ledger ''recovering'' (1, 1, 0, 1, 0) 0)\<lparr>lg_CanonicalAfterFingerprint := ps_Fingerprint (status_of plain_library),
      lg_CanonicalAfterCount := ps_RecordCount (status_of plain_library), lg_State := ''complete''\<rparr> =
      plain_ledger ''complete'' (1, 1, 0, 1, 0) 1"
    by (simp add: plain_ledger_def status_of_def plain_library_def)
  moreover have "ledger_save plain_ledger_env (plain_ledger ''complete'' (1, 1, 0, 1, 0) 1) reserved_disk = (complete_disk, None)"
    using plain_save_over [OF plain_ledger_sizes(2)] by (simp add: plain_ledger_valid complete_disk_def)
  ultimately have "complete_apply plain_guards plain_env (plain_ledger ''recovering'' (1, 1, 0, 1, 0) 0) ?w =
      (\<lparr>iw_repo = rp, iw_ledger = complete_disk\<rparr>, Inr (plain_ledger ''complete'' (1, 1, 0, 1, 0) 1))"
    using st(1) by (simp add: complete_apply_def same env Let_def)
  with io show ?thesis
    using plain_apply [OF plain_envelope_valid(1)] st(2)
    by (simp add: retained_def [symmetric] apply_recovering_def retained_reconciled retained_adopted)
qed

theorem complete_ledger_truthful_witness:
  "\<exists>l. stored_ledger complete_disk = Some l \<and> lg_State l = ''complete'' \<and>
     lg_DeliveredCount l = message_total retained \<and>
     (\<exists>lib. pm_load plain_guards plain_pm_env imported_repo = Inr lib \<and> capturesCurrent lib plain_batch)"
proof -
  let ?l = "plain_ledger ''complete'' (1, 1, 0, 1, 0) 1"
  obtain rp where rp: "pr_disk rp = pr_disk imported_repo" and
    run: "Apply_envelope plain_guards plain_formats plain_env (plain_envelope retained) empty_world =
       (\<lparr>iw_repo = rp, iw_ledger = complete_disk\<rparr>, Inr ?l)" using retained_run by blast
  have "stored_ledger complete_disk = Some ?l" "lg_State ?l = ''complete''"
    "stored_ledger (iw_ledger empty_world) = None" "ae_interfere plain_env 3 = id"
    "en_Units (plain_envelope retained) = retained" "ae_load plain_env = plain_pm_env"
    by (simp_all add: stored_ledger_def complete_disk_def plain_ledger_def empty_world_def plain_env_def
        plain_envelope_def)
  moreover from this have
    "lg_DeliveredCount ?l = message_total retained \<and>
     (\<forall>u \<in> set retained. \<exists>c ds. CaptureBatchForAdoption plain_guards plain_formats (frame_of u) = Some (c, ds) \<and>
      (\<forall>b. c = Some b \<longrightarrow> (\<exists>lib. pm_load plain_guards plain_pm_env rp = Inr lib \<and> capturesCurrent lib b)))"
    using complete_ledger_truthful [OF run, of ?l] by simp
  moreover have "pm_load plain_guards plain_pm_env rp = pm_load plain_guards plain_pm_env imported_repo"
    using rp by (rule pm_load_disk)
  ultimately show ?thesis by (auto simp: retained_def plain_adoption)
qed

end
