(* ===== verification/Spec2Isabelle.thy ===== *)
theory Spec2Isabelle
  imports Resource_Generations Resource_Evidence Sbos_Engine Orch_Properties
    Journal_Properties Run_Lease Slack_Ledger Orch_Sample Orch_Readiness PB_Delivery_Outcome Session_Properties PM_Capture PM_Demo Ingest_Demo
begin

text \<open>
  A verification library for Mindline (Go, \<open>internal/\<close>).
\<close>

end
